(* ===== verification/Prelude.thy ===== *)
theory Prelude
  imports
    Complex_Main
    "HOL-Library.AList"
    "HOL-Library.Char_ord"
    "HOL-Library.List_Lexorder"
    "HOL-Library.Product_Lexorder"
    "HOL-Library.Sublist"
begin

text \<open>
  The vocabulary the components share: exceptions as values, Python's string and
  dictionary operations, selection of a maximum by key, and the generic locale of
  state machines with an invariant. Strings are lists of characters and the model is
  about ASCII text, on which \<open>str.casefold\<close> and \<open>str.lower\<close> agree.
\<close>

section \<open>Lemma collections\<close>

named_theorems ledger_defs "definitions of the ledger operations"
named_theorems control_defs "definitions of the control-plane operations"
named_theorems output_simps "fields of constructed supervisor outputs"

section \<open>Exceptions as values\<close>

text \<open>One constructor per exception class the modelled code raises, with its message.\<close>

datatype exn =
    ValueError string
  | KeyError string
  | TypeError string
  | AttributeError string
  | SyntaxError string
  | PermissionError string
  | OSError string
  | AuthorizationError string
  | IdempotencyConflict string
  | ExecutionUnknown string
  | CapacityError string
  | PolicyUnavailable string
  | SupervisorSchemaError string
  | SupervisorTransportError string bool
  | SandboxUnavailable string
  | UnsafeDestination string
  | AlreadyPublished string
  | PublicationUnknown string
  | ReleaseValidationError string
  | RuntimeError string
  | IntegrityError string
  | ZeroDivisionError string
  | OverflowError string
  | AssertionError string
  | UnicodeDecodeError string
  | TimeoutError string
  | TimeoutExpired string string string
  | SystemExit string

type_synonym 'a result = "exn + 'a"

fun is_ok :: "'a result \<Rightarrow> bool" where
  "is_ok (Inr _) = True"
| "is_ok (Inl _) = False"

lemma is_ok_iff: "is_ok r \<longleftrightarrow> (\<exists>v. r = Inr v)"
  by (cases r) auto

text \<open>The subclass relations of Python and of the code that an \<open>except\<close> clause relies on.\<close>

fun is_os_error :: "exn \<Rightarrow> bool" where
  "is_os_error (OSError _) = True"
| "is_os_error (PermissionError _) = True"
| "is_os_error (AuthorizationError _) = True"
| "is_os_error (TimeoutError _) = True"
| "is_os_error _ = False"

fun is_value_error :: "exn \<Rightarrow> bool" where
  "is_value_error (ValueError _) = True"
| "is_value_error (IdempotencyConflict _) = True"
| "is_value_error (UnsafeDestination _) = True"
| "is_value_error (ReleaseValidationError _) = True"
| "is_value_error (UnicodeDecodeError _) = True"
| "is_value_error _ = False"

fun is_exception :: "exn \<Rightarrow> bool" where
  "is_exception (SystemExit _) = False"
| "is_exception _ = True"

text \<open>\<open>type(e).__name__\<close> and \<open>str(e)\<close>.\<close>

fun exn_name :: "exn \<Rightarrow> string" where
  "exn_name (ValueError _) = ''ValueError''"
| "exn_name (KeyError _) = ''KeyError''"
| "exn_name (TypeError _) = ''TypeError''"
| "exn_name (AttributeError _) = ''AttributeError''"
| "exn_name (SyntaxError _) = ''SyntaxError''"
| "exn_name (PermissionError _) = ''PermissionError''"
| "exn_name (OSError _) = ''OSError''"
| "exn_name (AuthorizationError _) = ''AuthorizationError''"
| "exn_name (IdempotencyConflict _) = ''IdempotencyConflict''"
| "exn_name (ExecutionUnknown _) = ''ExecutionUnknown''"
| "exn_name (CapacityError _) = ''CapacityError''"
| "exn_name (PolicyUnavailable _) = ''PolicyUnavailable''"
| "exn_name (SupervisorSchemaError _) = ''SupervisorSchemaError''"
| "exn_name (SupervisorTransportError _ _) = ''SupervisorTransportError''"
| "exn_name (SandboxUnavailable _) = ''SandboxUnavailable''"
| "exn_name (UnsafeDestination _) = ''UnsafeDestination''"
| "exn_name (AlreadyPublished _) = ''AlreadyPublished''"
| "exn_name (PublicationUnknown _) = ''PublicationUnknown''"
| "exn_name (ReleaseValidationError _) = ''ReleaseValidationError''"
| "exn_name (RuntimeError _) = ''RuntimeError''"
| "exn_name (IntegrityError _) = ''IntegrityError''"
| "exn_name (ZeroDivisionError _) = ''ZeroDivisionError''"
| "exn_name (OverflowError _) = ''OverflowError''"
| "exn_name (AssertionError _) = ''AssertionError''"
| "exn_name (UnicodeDecodeError _) = ''UnicodeDecodeError''"
| "exn_name (TimeoutError _) = ''TimeoutError''"
| "exn_name (TimeoutExpired _ _ _) = ''TimeoutExpired''"
| "exn_name (SystemExit _) = ''SystemExit''"

fun exn_text :: "exn \<Rightarrow> string" where
  "exn_text (ValueError m) = m"
| "exn_text (KeyError m) = [CHR 0x27] @ m @ [CHR 0x27]"
| "exn_text (TypeError m) = m"
| "exn_text (AttributeError m) = m"
| "exn_text (SyntaxError m) = m"
| "exn_text (PermissionError m) = m"
| "exn_text (OSError m) = m"
| "exn_text (AuthorizationError m) = m"
| "exn_text (IdempotencyConflict m) = m"
| "exn_text (ExecutionUnknown m) = m"
| "exn_text (CapacityError m) = m"
| "exn_text (PolicyUnavailable m) = m"
| "exn_text (SupervisorSchemaError m) = m"
| "exn_text (SupervisorTransportError m _) = m"
| "exn_text (SandboxUnavailable m) = m"
| "exn_text (UnsafeDestination m) = m"
| "exn_text (AlreadyPublished m) = m"
| "exn_text (PublicationUnknown m) = m"
| "exn_text (ReleaseValidationError m) = m"
| "exn_text (RuntimeError m) = m"
| "exn_text (IntegrityError m) = m"
| "exn_text (ZeroDivisionError m) = m"
| "exn_text (OverflowError m) = m"
| "exn_text (AssertionError m) = m"
| "exn_text (UnicodeDecodeError m) = m"
| "exn_text (TimeoutError m) = m"
| "exn_text (TimeoutExpired m _ _) = m"
| "exn_text (SystemExit m) = m"

text \<open>An operation returns its result with the state after it, also when it raises.\<close>

definition andthen :: "'a result \<times> 's \<Rightarrow> ('a \<Rightarrow> 's \<Rightarrow> 'b result \<times> 's) \<Rightarrow> 'b result \<times> 's" where
  "andthen m f = (case m of (Inl e, s) \<Rightarrow> (Inl e, s) | (Inr v, s) \<Rightarrow> f v s)"

lemma andthen_simps [simp]:
  "andthen (Inl e, s) f = (Inl e, s)" "andthen (Inr v, s) f = f v s"
  by (simp_all add: andthen_def)

lemma andthen_cases:
  obtains (raised) e s where "m = (Inl e, s)" "andthen m f = (Inl e, s)"
    | (returned) v s where "m = (Inr v, s)" "andthen m f = f v s"
  by (cases m; cases "fst m") auto

lemma andthen_ok:
  assumes "andthen m f = (Inr v, s')"
  obtains u s where "m = (Inr u, s)" "f u s = (Inr v, s')"
  using assms by (cases rule: andthen_cases [of m f]) (auto intro: that)

lemma andthen_keeps:
  "P (snd m) \<Longrightarrow> (\<And>v s. P s \<Longrightarrow> P (snd (f v s))) \<Longrightarrow> P (snd (andthen m f))"
  by (cases m; cases "fst m") auto

section \<open>Dictionaries in insertion order\<close>

type_synonym 'v pydict = "(string \<times> 'v) list"

definition dict_get :: "'v pydict \<Rightarrow> string \<Rightarrow> 'v \<Rightarrow> 'v" where
  "dict_get d k dflt = (case map_of d k of None \<Rightarrow> dflt | Some v \<Rightarrow> v)"

definition dict_keys :: "('k \<times> 'v) list \<Rightarrow> 'k list" where
  "dict_keys d = map fst d"

definition dict_has :: "('k \<times> 'v) list \<Rightarrow> 'k \<Rightarrow> bool" where
  "dict_has d k \<longleftrightarrow> k \<in> set (dict_keys d)"

lemma dict_has_map_of: "dict_has d k \<longleftrightarrow> (\<exists>v. map_of d k = Some v)"
  unfolding dict_has_def dict_keys_def by (metis map_of_eq_None_iff not_None_eq set_map)

lemma set_dict_keys [simp]: "set (dict_keys d) = fst ` set d"
  by (simp add: dict_keys_def)

lemma map_of_update: "map_of (AList.update k v d) = (map_of d)(k \<mapsto> v)"
  by (simp add: update_conv')

section \<open>Strings\<close>

definition to_lower :: "char \<Rightarrow> char" where
  "to_lower c = (if CHR ''A'' \<le> c \<and> c \<le> CHR ''Z'' then char_of (of_char c + (32::nat)) else c)"

definition casefold :: "string \<Rightarrow> string" where
  "casefold s = map to_lower s"

definition is_digit :: "char \<Rightarrow> bool" where
  "is_digit c \<longleftrightarrow> CHR ''0'' \<le> c \<and> c \<le> CHR ''9''"

definition is_alpha :: "char \<Rightarrow> bool" where
  "is_alpha c \<longleftrightarrow> CHR ''A'' \<le> c \<and> c \<le> CHR ''Z'' \<or> CHR ''a'' \<le> c \<and> c \<le> CHR ''z''"

definition is_word :: "char \<Rightarrow> bool" where
  "is_word c \<longleftrightarrow> is_alpha c \<or> is_digit c \<or> c = CHR ''_''"

definition is_space :: "char \<Rightarrow> bool" where
  "is_space c \<longleftrightarrow> c = CHR '' '' \<or> (CHR 0x09 \<le> c \<and> c \<le> CHR 0x0D) \<or> (CHR 0x1C \<le> c \<and> c \<le> CHR 0x1F)"

fun contains :: "'a list \<Rightarrow> 'a list \<Rightarrow> bool" where
  "contains sub [] = (sub = [])"
| "contains sub (c # s) = (prefix sub (c # s) \<or> contains sub s)"

definition strip_by :: "('a \<Rightarrow> bool) \<Rightarrow> 'a list \<Rightarrow> 'a list" where
  "strip_by p s = rev (dropWhile p (rev (dropWhile p s)))"

definition py_strip :: "string \<Rightarrow> string" where
  "py_strip s = strip_by is_space s"

definition rstrip_by :: "('a \<Rightarrow> bool) \<Rightarrow> 'a list \<Rightarrow> 'a list" where
  "rstrip_by p s = rev (dropWhile p (rev s))"

fun split_on :: "'a \<Rightarrow> 'a list \<Rightarrow> 'a list list" where
  "split_on c [] = [[]]"
| "split_on c (x # xs) =
     (if x = c then [] # split_on c xs
      else (case split_on c xs of [] \<Rightarrow> [[x]] | w # ws \<Rightarrow> (x # w) # ws))"

definition removeprefix :: "'a list \<Rightarrow> 'a list \<Rightarrow> 'a list" where
  "removeprefix p s = (if prefix p s then drop (length p) s else s)"

lemma contains_iff: "contains sub s \<longleftrightarrow> (\<exists>a b. s = a @ sub @ b)"
proof (induction s)
  case Nil
  then show ?case by auto
next
  case (Cons c s)
  show ?case
  proof
    assume "contains sub (c # s)"
    then consider "prefix sub (c # s)" | "contains sub s" by auto
    then show "\<exists>a b. c # s = a @ sub @ b"
    proof cases
      case 1
      then obtain b where "c # s = [] @ sub @ b" by (auto simp: prefix_def)
      then show ?thesis by blast
    next
      case 2
      with Cons.IH obtain a b where "s = a @ sub @ b" by blast
      then have "c # s = (c # a) @ sub @ b" by simp
      then show ?thesis by blast
    qed
  next
    assume "\<exists>a b. c # s = a @ sub @ b"
    then obtain a b where ab: "c # s = a @ sub @ b" by blast
    show "contains sub (c # s)"
    proof (cases a)
      case Nil
      with ab have "prefix sub (c # s)" by (auto simp: prefix_def)
      then show ?thesis by simp
    next
      case (Cons x a')
      with ab have "s = a' @ sub @ b" by simp
      then show ?thesis using Cons.IH by auto
    qed
  qed
qed

subsection \<open>Decimal text\<close>

definition digit_char :: "nat \<Rightarrow> char" where
  "digit_char d = char_of (48 + d)"

fun nat_str :: "nat \<Rightarrow> string" where
  "nat_str n = (if n < 10 then [digit_char n] else nat_str (n div 10) @ [digit_char (n mod 10)])"

declare nat_str.simps [simp del]

definition int_str :: "int \<Rightarrow> string" where
  "int_str i = (if i < 0 then CHR ''-'' # nat_str (nat (- i)) else nat_str (nat i))"

definition digits_val :: "string \<Rightarrow> nat" where
  "digits_val s = foldl (\<lambda>a c. 10 * a + (of_char c - 48)) 0 s"

definition all_digits :: "string \<Rightarrow> bool" where
  "all_digits s \<longleftrightarrow> s \<noteq> [] \<and> list_all is_digit s"

lemma digits_val_snoc: "digits_val (s @ [c]) = 10 * digits_val s + (of_char c - 48)"
  by (simp add: digits_val_def)

lemma digits_val_nat_str [simp]: "digits_val (nat_str n) = n"
proof (induction n rule: nat_str.induct)
  case (1 n)
  have digit: "d < 10 \<Longrightarrow> of_char (digit_char d) - 48 = d" for d
    by (simp add: digit_char_def take_bit_eq_mod flip: take_bit_eq_mod)
  show ?case
  proof (cases "n < 10")
    case True
    then show ?thesis by (subst nat_str.simps) (simp add: digits_val_def digit)
  next
    case False
    then show ?thesis
      by (subst nat_str.simps) (simp add: digits_val_snoc 1 digit)
  qed
qed

lemma nat_str_inject [simp]: "nat_str m = nat_str n \<longleftrightarrow> m = n"
  by (metis digits_val_nat_str)

section \<open>Paths\<close>

text \<open>\<open>PurePosixPath(s).parts\<close> and \<open>is_absolute\<close>.\<close>

definition path_root :: "string \<Rightarrow> string list" where
  "path_root s =
     (if prefix ''//'' s \<and> \<not> prefix ''///'' s then [''//'']
      else if prefix ''/'' s then [''/''] else [])"

definition path_parts :: "string \<Rightarrow> string list" where
  "path_parts s = path_root s @ filter (\<lambda>p. p \<noteq> [] \<and> p \<noteq> ''.'') (split_on (CHR ''/'') s)"

definition path_is_absolute :: "string \<Rightarrow> bool" where
  "path_is_absolute s \<longleftrightarrow> prefix ''/'' s"

section \<open>Selection by key\<close>

text \<open>Python's \<open>max(xs, key=f, default=None)\<close>: the first element with the greatest key.\<close>

fun max_by :: "('a \<Rightarrow> 'k::linorder) \<Rightarrow> 'a list \<Rightarrow> 'a option" where
  "max_by f [] = None"
| "max_by f (x # xs) =
     (case max_by f xs of None \<Rightarrow> Some x | Some y \<Rightarrow> if f y \<le> f x then Some x else Some y)"

lemma max_by_None [simp]: "max_by f xs = None \<longleftrightarrow> xs = []"
  by (cases xs) (auto split: option.splits if_splits)

lemma max_by_in: "max_by f xs = Some m \<Longrightarrow> m \<in> set xs"
  by (induction xs arbitrary: m) (auto split: option.splits if_splits)

lemma max_by_ge: "max_by f xs = Some m \<Longrightarrow> x \<in> set xs \<Longrightarrow> f x \<le> f m"
proof (induction xs arbitrary: m)
  case Nil
  then show ?case by simp
next
  case (Cons y ys)
  then show ?case
    by (cases "max_by f ys") (auto split: if_splits intro: order_trans)
qed

lemma max_by_ex: "xs \<noteq> [] \<Longrightarrow> \<exists>m. max_by f xs = Some m"
  by (cases "max_by f xs") auto

text \<open>
  A choice ranked by a key into a precedence: shared by the merge of supervisor outputs
  and by the selection of a policy rule.
\<close>

locale ranked_choice =
  fixes key :: "'a \<Rightarrow> 'k::linorder" and rank :: "'a \<Rightarrow> nat"
  assumes key_rank: "key x \<le> key y \<Longrightarrow> rank x \<le> rank y"
begin

lemma chosen_rank:
  assumes "max_by key xs = Some m" and "x \<in> set xs"
  shows "rank x \<le> rank m"
  using max_by_ge[OF assms] by (rule key_rank)

lemma chosen_top:
  assumes "max_by key xs = Some m" and "x \<in> set xs" and "\<And>y. rank y \<le> rank x"
  shows "rank m = rank x"
  using chosen_rank[OF assms(1,2)] assms(3)[of m] by simp

lemma chosen_least:
  assumes "max_by key xs = Some m" and "rank m = 0" and "x \<in> set xs"
  shows "rank x = 0"
  using chosen_rank[OF assms(1,3)] assms(2) by simp

end

section \<open>State machines with an invariant\<close>

inductive reached :: "('s \<Rightarrow> 's \<Rightarrow> bool) \<Rightarrow> 's \<Rightarrow> 's \<Rightarrow> bool" for step where
  reached_refl: "reached step s s"
| reached_step: "reached step s t \<Longrightarrow> step t u \<Longrightarrow> reached step s u"

lemma reached_one: "step s t \<Longrightarrow> reached step s t"
  by (rule reached_step [OF reached_refl])

lemma reached_trans: "reached step b c \<Longrightarrow> reached step a b \<Longrightarrow> reached step a c"
  by (induction rule: reached.induct) (auto intro: reached_step)

text \<open>The contract a component's steps satisfy: each step keeps the invariant.\<close>

locale stepper =
  fixes step :: "'s \<Rightarrow> 's \<Rightarrow> bool" and inv :: "'s \<Rightarrow> bool"
  assumes step_inv: "step s t \<Longrightarrow> inv s \<Longrightarrow> inv t"
begin

lemma reached_inv: "reached step s t \<Longrightarrow> inv s \<Longrightarrow> inv t"
  by (induction rule: reached.induct) (auto intro: step_inv)

end

text \<open>A stepper whose steps also relate the states before and after by a preorder.\<close>

locale monotone_stepper = stepper +
  fixes rel :: "'s \<Rightarrow> 's \<Rightarrow> bool"
  assumes rel_refl: "rel s s"
    and rel_trans: "rel s t \<Longrightarrow> rel t u \<Longrightarrow> rel s u"
    and step_rel: "step s t \<Longrightarrow> inv s \<Longrightarrow> rel s t"
begin

lemma reached_rel: "reached step s t \<Longrightarrow> inv s \<Longrightarrow> rel s t"
proof (induction rule: reached.induct)
  case (reached_refl s)
  show ?case by (rule rel_refl)
next
  case (reached_step s t u)
  then show ?case using reached_inv step_rel rel_trans by blast
qed

end

end
