(* ===== verification/PyJson.thy ===== *)
theory PyJson
  imports Prelude
begin

text \<open>
  JSON values as Python holds them, \<open>json.dumps\<close> and \<open>json.loads\<close>, Python's \<open>==\<close> and
  \<open>str\<close> on them, and the bounded admission walk of \<open>limits.py\<close>.

  A finite float is represented by the decimal that its \<open>repr\<close> denotes, so 100.0 is
  \<open>Dec 1000 (-1)\<close> and 1e+16 is \<open>Dec 1 16\<close>; arithmetic on values is exact, without
  the binary rounding of the machine format.
\<close>

section \<open>Values\<close>

datatype decimal = Dec int int | DInf bool | DNan

datatype json =
    JNull
  | JBool bool
  | JInt int
  | JFloat decimal
  | JStr string
  | JList "json list"
  | JObj "(string \<times> json) list"

fun dec_val :: "decimal \<Rightarrow> rat" where
  "dec_val (Dec m e) = (if 0 \<le> e then of_int m * 10 ^ nat e else of_int m / 10 ^ nat (- e))"
| "dec_val _ = 0"

fun dec_finite :: "decimal \<Rightarrow> bool" where
  "dec_finite (Dec _ _) = True"
| "dec_finite _ = False"

text \<open>The numeric value of an int or float that is not a bool and is finite.\<close>

fun num_val :: "json \<Rightarrow> rat option" where
  "num_val (JInt n) = Some (of_int n)"
| "num_val (JFloat (Dec m e)) = Some (dec_val (Dec m e))"
| "num_val _ = None"

text \<open>\<open>isinstance(v, (int, float))\<close>: bool is a subclass of int.\<close>

fun int_or_float :: "json \<Rightarrow> bool" where
  "int_or_float (JInt _) = True"
| "int_or_float (JFloat _) = True"
| "int_or_float (JBool _) = True"
| "int_or_float _ = False"

text \<open>Python's truth of a value, as in \<open>if value:\<close>.\<close>

fun truthy :: "json \<Rightarrow> bool" where
  "truthy JNull = False"
| "truthy (JBool b) = b"
| "truthy (JInt n) = (n \<noteq> 0)"
| "truthy (JFloat (Dec m e)) = (m \<noteq> 0)"
| "truthy (JFloat _) = True"
| "truthy (JStr s) = (s \<noteq> [])"
| "truthy (JList xs) = (xs \<noteq> [])"
| "truthy (JObj kvs) = (kvs \<noteq> [])"

section \<open>Python's equality\<close>

text \<open>Bools compare as 0 and 1, numbers by value, objects without regard to order.\<close>

fun num_key :: "json \<Rightarrow> rat option" where
  "num_key (JBool b) = Some (if b then 1 else 0)"
| "num_key v = num_val v"

fun py_eq :: "json \<Rightarrow> json \<Rightarrow> bool"
  and py_eq_list :: "json list \<Rightarrow> json list \<Rightarrow> bool"
  and py_eq_kvs :: "(string \<times> json) list \<Rightarrow> (string \<times> json) list \<Rightarrow> bool" where
  "py_eq JNull w = (w = JNull)"
| "py_eq (JStr s) w = (w = JStr s)"
| "py_eq (JList xs) w = (case w of JList ys \<Rightarrow> py_eq_list xs ys | _ \<Rightarrow> False)"
| "py_eq (JObj a) w =
     (case w of JObj b \<Rightarrow> length a = length b \<and> py_eq_kvs a b | _ \<Rightarrow> False)"
| "py_eq (JFloat (DInf s)) w = (w = JFloat (DInf s))"
| "py_eq (JFloat DNan) w = False"
| "py_eq v w = (case (num_key v, num_key w) of (Some x, Some y) \<Rightarrow> x = y | _ \<Rightarrow> False)"
| "py_eq_list [] ys = (ys = [])"
| "py_eq_list (x # xs) ys = (case ys of [] \<Rightarrow> False | y # ys' \<Rightarrow> py_eq x y \<and> py_eq_list xs ys')"
| "py_eq_kvs [] b = True"
| "py_eq_kvs ((k, v) # a) b =
     ((case map_of b k of None \<Rightarrow> False | Some w \<Rightarrow> py_eq v w) \<and> py_eq_kvs a b)"

definition args_eq :: "json pydict \<Rightarrow> json pydict \<Rightarrow> bool" where
  "args_eq a b \<longleftrightarrow> py_eq (JObj a) (JObj b)"

section \<open>Canonical form\<close>

text \<open>
  \<open>json.dumps(v, sort_keys=True, allow_nan=False)\<close> is determined by the value with the
  keys of its objects sorted, and determines it; it raises on NaN and the infinities.
\<close>

fun canon :: "json \<Rightarrow> json option"
  and canon_list :: "json list \<Rightarrow> json list option"
  and canon_kvs :: "(string \<times> json) list \<Rightarrow> (string \<times> json) list option" where
  "canon (JFloat d) = (if dec_finite d then Some (JFloat d) else None)"
| "canon (JList xs) = map_option JList (canon_list xs)"
| "canon (JObj kvs) = map_option (\<lambda>l. JObj (sort_key fst l)) (canon_kvs kvs)"
| "canon v = Some v"
| "canon_list [] = Some []"
| "canon_list (x # xs) =
     (case canon x of None \<Rightarrow> None | Some y \<Rightarrow> map_option ((#) y) (canon_list xs))"
| "canon_kvs [] = Some []"
| "canon_kvs ((k, v) # kvs) =
     (case canon v of None \<Rightarrow> None | Some w \<Rightarrow> map_option ((#) (k, w)) (canon_kvs kvs))"

text \<open>\<open>same_value\<close> of \<open>policy/authorization.py\<close>.\<close>

definition same_value :: "json \<Rightarrow> json \<Rightarrow> bool" where
  "same_value actual expected =
     (case canon actual of
        None \<Rightarrow> False
      | Some a \<Rightarrow> (case canon expected of None \<Rightarrow> False | Some e \<Rightarrow> a = e))"

lemma same_value_iff: "same_value a b \<longleftrightarrow> (\<exists>c. canon a = Some c \<and> canon b = Some c)"
  by (auto simp: same_value_def split: option.splits)

lemma same_value_sym: "same_value a b \<Longrightarrow> same_value b a"
  by (auto simp: same_value_iff)

lemma same_value_trans: "same_value a b \<Longrightarrow> same_value b c \<Longrightarrow> same_value a c"
  by (auto simp: same_value_iff)

lemma canon_str [simp]: "canon v = Some (JStr s) \<longleftrightarrow> v = JStr s"
  by (cases v) (auto split: if_splits)

lemma canon_bool [simp]: "canon v = Some (JBool b) \<longleftrightarrow> v = JBool b"
  by (cases v) (auto split: if_splits)

lemma canon_int [simp]: "canon v = Some (JInt n) \<longleftrightarrow> v = JInt n"
  by (cases v) (auto split: if_splits)

lemma canon_null [simp]: "canon v = Some JNull \<longleftrightarrow> v = JNull"
  by (cases v) (auto split: if_splits)

lemma same_value_str [simp]: "same_value v (JStr s) \<longleftrightarrow> v = JStr s"
  by (auto simp: same_value_iff)

lemma same_value_bool [simp]: "same_value v (JBool b) \<longleftrightarrow> v = JBool b"
  by (auto simp: same_value_iff)

lemma same_value_int [simp]: "same_value v (JInt n) \<longleftrightarrow> v = JInt n"
  by (auto simp: same_value_iff)

section \<open>Text of values\<close>

definition hex_digit :: "nat \<Rightarrow> char" where
  "hex_digit d = (if d < 10 then char_of (48 + d) else char_of (87 + d))"

definition hex2 :: "nat \<Rightarrow> string" where
  "hex2 n = [hex_digit (n div 16), hex_digit (n mod 16)]"

definition json_escape :: "char \<Rightarrow> string" where
  "json_escape c =
     (if c = CHR 0x22 then [CHR 0x5C, CHR 0x22]
      else if c = CHR 0x5C then [CHR 0x5C, CHR 0x5C]
      else if c = CHR 0x0A then [CHR 0x5C, CHR ''n'']
      else if c = CHR 0x0D then [CHR 0x5C, CHR ''r'']
      else if c = CHR 0x09 then [CHR 0x5C, CHR ''t'']
      else if c = CHR 0x08 then [CHR 0x5C, CHR ''b'']
      else if c = CHR 0x0C then [CHR 0x5C, CHR ''f'']
      else if CHR '' '' \<le> c \<and> c \<le> CHR ''~'' then [c]
      else [CHR 0x5C, CHR ''u'', CHR ''0'', CHR ''0''] @ hex2 (of_char c))"

definition json_quote :: "string \<Rightarrow> string" where
  "json_quote s = [CHR 0x22] @ concat (map json_escape s) @ [CHR 0x22]"

text \<open>\<open>repr\<close> of a float, positional between 1e-4 and 1e16 and scientific outside.\<close>

definition float_str :: "decimal \<Rightarrow> string" where
  "float_str d =
     (case d of
        DNan \<Rightarrow> ''nan''
      | DInf neg \<Rightarrow> (if neg then ''-inf'' else ''inf'')
      | Dec m e \<Rightarrow>
          (let ds = nat_str (nat \<bar>m\<bar>); n = int (length ds); sgn = (if m < 0 then ''-'' else '''') in
           if 0 \<le> e \<or> n + e \<le> - 4 then
             (let x = e + n - 1; xs = nat_str (nat \<bar>x\<bar>) in
              sgn @ take 1 ds @ (if n > 1 then ''.'' @ drop 1 ds else '''') @ ''e''
              @ (if x < 0 then ''-'' else ''+'') @ (if length xs < 2 then ''0'' @ xs else xs))
           else if 0 < n + e then sgn @ take (nat (n + e)) ds @ ''.'' @ drop (nat (n + e)) ds
           else sgn @ ''0.'' @ replicate (nat (- e - n)) (CHR ''0'') @ ds))"

definition join :: "string \<Rightarrow> string list \<Rightarrow> string" where
  "join sep xs = (case xs of [] \<Rightarrow> [] | y # ys \<Rightarrow> y @ concat (map (\<lambda>z. sep @ z) ys))"

text \<open>\<open>json.dumps(v, allow_nan=False, separators=(",", ":"))\<close>, None where it raises.\<close>

fun dumps :: "json \<Rightarrow> string option"
  and dumps_list :: "json list \<Rightarrow> string list option"
  and dumps_kvs :: "(string \<times> json) list \<Rightarrow> string list option" where
  "dumps JNull = Some ''null''"
| "dumps (JBool b) = Some (if b then ''true'' else ''false'')"
| "dumps (JInt n) = Some (int_str n)"
| "dumps (JFloat d) = (if dec_finite d then Some (float_str d) else None)"
| "dumps (JStr s) = Some (json_quote s)"
| "dumps (JList xs) = map_option (\<lambda>ts. ''['' @ join '','' ts @ '']'') (dumps_list xs)"
| "dumps (JObj kvs) = map_option (\<lambda>ts. ''{'' @ join '','' ts @ ''}'') (dumps_kvs kvs)"
| "dumps_list [] = Some []"
| "dumps_list (x # xs) =
     (case dumps x of None \<Rightarrow> None | Some t \<Rightarrow> map_option ((#) t) (dumps_list xs))"
| "dumps_kvs [] = Some []"
| "dumps_kvs ((k, v) # kvs) =
     (case dumps v of None \<Rightarrow> None
      | Some t \<Rightarrow> map_option ((#) (json_quote k @ '':'' @ t)) (dumps_kvs kvs))"

text \<open>\<open>str(v)\<close> and \<open>repr(v)\<close>.\<close>

definition repr_str :: "string \<Rightarrow> string" where
  "repr_str s =
     (let q = (if CHR 0x27 \<in> set s \<and> CHR 0x22 \<notin> set s then CHR 0x22 else CHR 0x27);
          esc = (\<lambda>c. if c = CHR 0x5C \<or> c = q then [CHR 0x5C, c]
                     else if c = CHR 0x0A then [CHR 0x5C, CHR ''n'']
                     else if c = CHR 0x0D then [CHR 0x5C, CHR ''r'']
                     else if c = CHR 0x09 then [CHR 0x5C, CHR ''t'']
                     else if c < CHR '' '' \<or> c = CHR 0x7F then [CHR 0x5C, CHR ''x''] @ hex2 (of_char c)
                     else [c])
      in [q] @ concat (map esc s) @ [q])"

fun py_repr :: "json \<Rightarrow> string"
  and repr_list :: "json list \<Rightarrow> string list"
  and repr_kvs :: "(string \<times> json) list \<Rightarrow> string list" where
  "py_repr JNull = ''None''"
| "py_repr (JBool b) = (if b then ''True'' else ''False'')"
| "py_repr (JInt n) = int_str n"
| "py_repr (JFloat d) = float_str d"
| "py_repr (JStr s) = repr_str s"
| "py_repr (JList xs) = ''['' @ join '', '' (repr_list xs) @ '']''"
| "py_repr (JObj kvs) = ''{'' @ join '', '' (repr_kvs kvs) @ ''}''"
| "repr_list [] = []"
| "repr_list (x # xs) = py_repr x # repr_list xs"
| "repr_kvs [] = []"
| "repr_kvs ((k, v) # kvs) = (repr_str k @ '': '' @ py_repr v) # repr_kvs kvs"

fun py_str :: "json \<Rightarrow> string" where
  "py_str (JStr s) = s"
| "py_str v = py_repr v"

section \<open>Decimal parsing\<close>

definition signed_digits :: "string \<Rightarrow> int option" where
  "signed_digits s =
     (let neg = prefix ''-'' s; u = (if neg \<or> prefix ''+'' s then drop 1 s else s) in
      if all_digits u then Some (if neg then - int (digits_val u) else int (digits_val u)) else None)"

text \<open>\<open>Decimal(text)\<close>; None is \<open>InvalidOperation\<close>.\<close>

definition decimal_of_str :: "string \<Rightarrow> decimal option" where
  "decimal_of_str s =
     (let t = casefold (filter (\<lambda>c. c \<noteq> CHR ''_'') (py_strip s));
          neg = prefix ''-'' t; u = (if neg \<or> prefix ''+'' t then drop 1 t else t) in
      if u = ''inf'' \<or> u = ''infinity'' then Some (DInf neg)
      else if (prefix ''nan'' u \<and> list_all is_digit (drop 3 u))
            \<or> (prefix ''snan'' u \<and> list_all is_digit (drop 4 u)) then Some DNan
      else
        (case split_on (CHR ''e'') u of
           mant # rest \<Rightarrow>
             (case (rest, split_on (CHR ''.'') mant) of
                ([], [a]) \<Rightarrow>
                  if all_digits a
                  then Some (Dec ((if neg then - 1 else 1) * int (digits_val a)) 0) else None
              | ([], [a, b]) \<Rightarrow>
                  if all_digits (a @ b)
                  then Some (Dec ((if neg then - 1 else 1) * int (digits_val (a @ b))) (- int (length b)))
                  else None
              | ([x], [a]) \<Rightarrow>
                  (case signed_digits x of
                     Some ex \<Rightarrow> if all_digits a
                       then Some (Dec ((if neg then - 1 else 1) * int (digits_val a)) ex) else None
                   | None \<Rightarrow> None)
              | ([x], [a, b]) \<Rightarrow>
                  (case signed_digits x of
                     Some ex \<Rightarrow> if all_digits (a @ b)
                       then Some (Dec ((if neg then - 1 else 1) * int (digits_val (a @ b)))
                                      (ex - int (length b))) else None
                   | None \<Rightarrow> None)
              | _ \<Rightarrow> None)
         | [] \<Rightarrow> None))"

text \<open>\<open>Decimal(str(v))\<close>.\<close>

fun decimal_of_json :: "json \<Rightarrow> decimal option" where
  "decimal_of_json (JInt n) = Some (Dec n 0)"
| "decimal_of_json (JFloat d) = Some d"
| "decimal_of_json v = decimal_of_str (py_str v)"

end
