(* ===== verification/Types.thy ===== *)
theory Types
  imports PyJson
begin

text \<open>
  \<open>types.py\<close>: the shared contracts. Enumerations are datatypes, pydantic models are
  records, and their validators (\<open>Field\<close> bounds and \<open>model_validator\<close>) are predicates
  \<open>valid_\<dots>\<close>. Identifiers and clock values the code draws itself are arguments of the
  operations that use them.
\<close>

section \<open>Enumerations\<close>

datatype decision = ALLOW | BLOCK | ESCALATE | REWRITE

datatype goal_relevance = RelUncertain | RelIrrelevant | RelWeak | RelStrong

datatype goal_necessity = NecUncertain | NecUnnecessary | NecHelpful | NecNecessary

datatype risk_level = LOW | MEDIUM | HIGH | CRITICAL

datatype trust_label =
  TRUSTED_SYSTEM | USER_INPUT | TRUSTED_TOOL | UNTRUSTED_DOCUMENT | UNTRUSTED_TOOL | AGENT_GENERATED

datatype exec_target = TargetDefault | TargetContainer | TargetSimulated

datatype post_disposition = ACCEPT_RESULT | REWRITE_AND_RETRY | BLOCK_RESULT | POST_ESCALATE

text \<open>\<open>RiskLevel\<close> values are compared through the rank tables of the source.\<close>

fun risk_rank :: "risk_level \<Rightarrow> nat" where
  "risk_rank LOW = 0"
| "risk_rank MEDIUM = 1"
| "risk_rank HIGH = 2"
| "risk_rank CRITICAL = 3"

lemma risk_rank_inj: "risk_rank a = risk_rank b \<longleftrightarrow> a = b"
  by (cases a; cases b) auto

instantiation risk_level :: linorder
begin

definition less_eq_risk_level :: "risk_level \<Rightarrow> risk_level \<Rightarrow> bool" where
  "less_eq_risk_level a b \<longleftrightarrow> risk_rank a \<le> risk_rank b"

definition less_risk_level :: "risk_level \<Rightarrow> risk_level \<Rightarrow> bool" where
  "less_risk_level a b \<longleftrightarrow> risk_rank a < risk_rank b"

instance
  by standard (auto simp: less_eq_risk_level_def less_risk_level_def risk_rank_inj)

end

fun decision_str :: "decision \<Rightarrow> string" where
  "decision_str ALLOW = ''ALLOW''"
| "decision_str BLOCK = ''BLOCK''"
| "decision_str ESCALATE = ''ESCALATE''"
| "decision_str REWRITE = ''REWRITE''"

section \<open>Calls and observations\<close>

record tool_call =
  tc_task_id :: string
  tc_step_id :: int
  tc_tool_name :: string
  tc_arguments :: "json pydict"
  tc_consumed :: "string list"
  tc_resources :: "string list"
  tc_call_id :: string

definition valid_tool_call :: "tool_call \<Rightarrow> bool" where
  "valid_tool_call c \<longleftrightarrow> 0 \<le> tc_step_id c \<and> tc_tool_name c \<noteq> []"

record observation =
  ob_content :: string
  ob_source_type :: string
  ob_source_id :: string
  ob_trust :: trust_label
  ob_provenance :: "string list"
  ob_instructions :: bool
  ob_id :: string

definition untrusted :: "trust_label \<Rightarrow> bool" where
  "untrusted t \<longleftrightarrow> t = UNTRUSTED_DOCUMENT \<or> t = UNTRUSTED_TOOL"

section \<open>Authority\<close>

record task_authority =
  ta_allowed_tools :: "string list option"
  ta_repeatable :: "string list"
  ta_argument_values :: "json pydict pydict"
  ta_resource_values :: "json list pydict pydict"
  ta_mode :: string
  ta_generated :: "string list pydict"
  ta_delegated :: "string list pydict pydict"
  ta_max_amount :: "decimal option"
  ta_prohibited :: "string list"
  ta_conditions :: "string list"

definition default_authority :: task_authority where
  "default_authority =
     \<lparr>ta_allowed_tools = None, ta_repeatable = [], ta_argument_values = [],
      ta_resource_values = [], ta_mode = ''research'', ta_generated = [], ta_delegated = [],
      ta_max_amount = None, ta_prohibited = [], ta_conditions = []\<rparr>"

definition valid_authority_fields :: "task_authority \<Rightarrow> bool" where
  "valid_authority_fields a \<longleftrightarrow>
     (ta_mode a = ''research'' \<or> ta_mode a = ''strict'') \<and>
     (case ta_max_amount a of None \<Rightarrow> True | Some d \<Rightarrow> dec_finite d \<and> 0 \<le> dec_val d)"

definition is_strict :: "task_authority \<Rightarrow> bool" where
  "is_strict a \<longleftrightarrow> ta_mode a = ''strict''"

text \<open>The per-tool constraint groups, empty when the tool has none.\<close>

definition arg_values :: "task_authority \<Rightarrow> string \<Rightarrow> json pydict" where
  "arg_values a t = dict_get (ta_argument_values a) t []"

definition res_values :: "task_authority \<Rightarrow> string \<Rightarrow> json list pydict" where
  "res_values a t = dict_get (ta_resource_values a) t []"

definition del_fields :: "task_authority \<Rightarrow> string \<Rightarrow> string list pydict" where
  "del_fields a t = dict_get (ta_delegated a) t []"

definition gen_fields :: "task_authority \<Rightarrow> string \<Rightarrow> string list" where
  "gen_fields a t = dict_get (ta_generated a) t []"

section \<open>Supervisor outputs, plans and evidence\<close>

record supervisor_output =
  so_decision :: decision
  so_risk :: risk_level
  so_confidence :: rat
  so_violation :: bool
  so_relevance :: goal_relevance
  so_necessity :: goal_necessity
  so_reason :: string
  so_rules :: "string list"
  so_rewritten :: "tool_call option"
  so_target :: "exec_target option"
  so_profile :: "string option"
  so_metadata :: "json pydict"

definition valid_output :: "supervisor_output \<Rightarrow> bool" where
  "valid_output so \<longleftrightarrow>
     0 \<le> so_confidence so \<and> so_confidence so \<le> 1 \<and> so_reason so \<noteq> [] \<and>
     \<not> (so_decision so = REWRITE \<and> so_rewritten so = None) \<and>
     \<not> (so_target so = Some TargetContainer \<and> (so_profile so = None \<or> so_profile so = Some []))"

record sandbox_limits =
  sl_timeout :: int
  sl_memory :: int
  sl_cpu :: rat
  sl_pids :: int
  sl_output :: int

definition default_limits :: sandbox_limits where
  "default_limits =
     \<lparr>sl_timeout = 20, sl_memory = 256, sl_cpu = 1, sl_pids = 64, sl_output = 65536\<rparr>"

definition valid_limits :: "sandbox_limits \<Rightarrow> bool" where
  "valid_limits l \<longleftrightarrow>
     1 \<le> sl_timeout l \<and> sl_timeout l \<le> 300 \<and> 32 \<le> sl_memory l \<and> sl_memory l \<le> 4096 \<and>
     0 < sl_cpu l \<and> sl_cpu l \<le> 4 \<and> 1 \<le> sl_pids l \<and> sl_pids l \<le> 512 \<and>
     1024 \<le> sl_output l \<and> sl_output l \<le> 1048576"

record execution_plan =
  pl_call :: tool_call
  pl_target :: exec_target
  pl_profile :: "string option"
  pl_inputs :: "string list"
  pl_limits :: sandbox_limits
  pl_validated :: bool
  pl_reason :: string

definition valid_plan :: "execution_plan \<Rightarrow> bool" where
  "valid_plan p \<longleftrightarrow>
     \<not> (pl_target p = TargetContainer \<and> (pl_profile p = None \<or> pl_profile p = Some []))"

record sandbox_evidence =
  se_exit_code :: "int option"
  se_stdout :: string
  se_stderr :: string
  se_stdout_truncated :: bool
  se_stderr_truncated :: bool
  se_files_changed :: "string list"
  se_artifact_bytes :: int
  se_artifact_directory :: "string option"
  se_artifact_id :: "string option"
  se_artifact_status :: "string option"
  se_blocked :: "string list"
  se_peak_memory :: "int option"
  se_disk_usage :: "int option"
  se_timed_out :: bool
  se_profile :: string

record post_run =
  pr_risk :: risk_level
  pr_confidence :: rat
  pr_evidence :: "string list"
  pr_disposition :: post_disposition
  pr_reason :: string
  pr_metadata :: "json pydict"

record trace_event =
  tr_task_id :: string
  tr_step_id :: int
  tr_proposed :: tool_call
  tr_effective :: tool_call
  tr_outputs :: "supervisor_output list"
  tr_plan :: "execution_plan option"
  tr_observation_id :: "string option"
  tr_digest :: "string option"
  tr_tokens :: int
  tr_policy_version :: string
  tr_outcome :: string
  tr_status :: string
  tr_released :: bool

record enforcement_config =
  ec_deterministic :: bool
  ec_llm :: bool
  ec_post_run :: bool

definition valid_config :: "enforcement_config \<Rightarrow> bool" where
  "valid_config c \<longleftrightarrow> ec_deterministic c"

end
