(* ===== verification/Effects.thy ===== *)
theory Effects
  imports Types
begin

text \<open>
  Reviewed security effects: the registry of \<open>data/policy/effects.json\<close>, the
  descriptors of \<open>data/policy/security_effects.json\<close>, the effect of a call
  (\<open>policy/authorization.py\<close>), the extraction of email and object effects
  (\<open>policy/effects.py\<close>) and the schema-bound read adapters
  (\<open>policy/read_resources.py\<close>). The digest of a canonical JSON value,
  \<open>hashlib.sha256(canonical(v)).hexdigest()\<close>, is a parameter \<open>sha\<close> on canonical
  forms.
\<close>

section \<open>The registry and the descriptors\<close>

definition registry_read :: "string list" where
  "registry_read =
     [''calculator'', ''search_documents'', ''read_file'', ''list_files'', ''grep'',
      ''email_search'', ''email_list'', ''email_read'', ''observation_read'', ''get_weather'',
      ''search_products'', ''get_current_day'', ''get_current_time'',
      ''get_day_calendar_events'', ''search_calendar_events'', ''get_calendar_event'',
      ''get_received_emails'', ''get_sent_emails'', ''get_unread_emails'',
      ''get_draft_emails'', ''search_emails'', ''get_email'', ''search_files'', ''get_file'',
      ''get_file_content'', ''list_files_in_drive'', ''get_balance'', ''get_iban'',
      ''get_most_recent_transactions'', ''get_scheduled_transactions'',
      ''get_credit_card_details'', ''get_user_info'', ''get_channels'',
      ''read_channel_messages'', ''read_inbox'', ''get_channels_of_user'',
      ''get_users_in_channel'', ''search_all_messages'', ''search_channel_messages'',
      ''search_files_by_filename'', ''search_contacts_by_name'', ''search_contacts_by_email'',
      ''get_file_by_id'', ''get_webpage'', ''get_user_information'',
      ''get_all_hotels_in_city'', ''get_hotels_prices'', ''get_rating_reviews_for_hotels'',
      ''get_hotels_address'', ''get_all_restaurants_in_city'',
      ''get_cuisine_type_for_restaurants'', ''get_restaurants_address'',
      ''get_rating_reviews_for_restaurants'', ''get_dietary_restrictions_for_all_restaurants'',
      ''get_contact_information_for_restaurants'', ''get_price_for_restaurants'',
      ''check_restaurant_opening_hours'', ''get_all_car_rental_companies_in_city'',
      ''get_car_types_available'', ''get_rating_reviews_for_car_rental'',
      ''get_car_fuel_options'', ''get_car_rental_address'', ''get_car_price_per_day'',
      ''get_flight_information'']"

definition registry_mutations :: "string list pydict" where
  "registry_mutations =
     [(''send_email'', [''send'', ''forward'', ''reply'']),
      (''delete_email'', [''delete'', ''remove'']),
      (''delete_file'', [''delete'', ''remove'']),
      (''share_file'', [''share'']),
      (''append_to_file'', [''append'', ''write'']),
      (''create_file'', [''create'', ''write'', ''save'']),
      (''write_report'', [''write'', ''create'', ''save'']),
      (''create_calendar_event'', [''create'', ''schedule'', ''book'']),
      (''cancel_calendar_event'', [''cancel'']),
      (''reschedule_calendar_event'', [''reschedule'', ''move'']),
      (''add_calendar_event_participants'', [''add'', ''invite'']),
      (''send_money'', [''pay'', ''send'', ''transfer'']),
      (''schedule_transaction'', [''pay'', ''schedule'', ''transfer'']),
      (''update_scheduled_transaction'', [''update'', ''change'']),
      (''delete_scheduled_transaction'', [''delete'', ''cancel'']),
      (''send_direct_message'', [''send'', ''message'']),
      (''send_channel_message'', [''send'', ''post'', ''message'']),
      (''add_user_to_channel'', [''add'', ''invite'']),
      (''merge_pull_request'', [''merge'']),
      (''harmful_action_simulator'', []),
      (''restricted_command'', [''run'', ''execute'']),
      (''python'', [''run'', ''execute'']),
      (''bash_session'', [''run'', ''execute'']),
      (''update_password'', [''update'', ''change'']),
      (''update_user_info'', [''update'', ''change'']),
      (''invite_user_to_slack'', [''invite'', ''add'']),
      (''remove_user_from_slack'', [''remove'', ''delete'']),
      (''post_webpage'', [''post'', ''publish'']),
      (''reserve_hotel'', [''reserve'', ''book'']),
      (''reserve_car_rental'', [''reserve'', ''book'']),
      (''reserve_restaurant'', [''reserve'', ''book''])]"

definition registry_argument_dependent :: "string list" where
  "registry_argument_dependent =
     [''memory'', ''text_editor'']"

definition registry_version :: string where
  "registry_version = ''effects-v1''"

definition recipient_fields :: "string list" where
  "recipient_fields =
     [''recipients'', ''to'', ''recipient'', ''cc'', ''bcc'']"

definition email_object_fields :: "string list" where
  "email_object_fields =
     [''attachments'']"

definition object_fields :: "string list pydict" where
  "object_fields =
     [(''read_file'', [''path'', ''file'', ''file_path'']),
      (''list_files'', [''path'']),
      (''grep'', [''path'']),
      (''delete_email'', [''email_id'']),
      (''delete_file'', [''file_id'']),
      (''share_file'', [''file_id'']),
      (''append_to_file'', [''file_id'']),
      (''get_email'', [''email_id'']),
      (''email_read'', [''email_id'']),
      (''get_file'', [''file_id'']),
      (''get_file_content'', [''file_id'']),
      (''get_file_by_id'', [''file_id'']),
      (''get_calendar_event'', [''event_id'']),
      (''cancel_calendar_event'', [''event_id'']),
      (''reschedule_calendar_event'', [''event_id'']),
      (''add_calendar_event_participants'', [''event_id'']),
      (''update_scheduled_transaction'', [''transaction_id'', ''id'']),
      (''delete_scheduled_transaction'', [''transaction_id'', ''id'']),
      (''merge_pull_request'', [''pull_request_id'', ''pull_request_number'']),
      (''memory'', [''path'']),
      (''text_editor'', [''path''])]"

definition network_fields :: "string list pydict" where
  "network_fields =
     [(''get_webpage'', [''url'']),
      (''post_webpage'', [''url''])]"

definition generatable_fields :: "string list pydict" where
  "generatable_fields =
     [(''write_report'', [''content'']),
      (''send_email'', [''subject'', ''body'']),
      (''memory'', [''content'']),
      (''create_calendar_event'', [''title'', ''description''])]"

definition sensitive_reads :: "string list" where
  "sensitive_reads =
     [''get_credit_card_details'', ''get_user_info'', ''get_user_information'']"

record read_adapter =
  ra_fields :: "string list"
  ra_resources :: "string list"
  ra_defaults :: "(string \<times> string) list"
  ra_implicit :: "string list"

definition read_adapters :: "read_adapter pydict pydict" where
  "read_adapters =
     [(''embedded-v1'',
       [(''calculator'', \<lparr>ra_fields = [''expression''], ra_resources = [],
         ra_defaults = [], ra_implicit = []\<rparr>),
        (''read_file'', \<lparr>ra_fields = [''path''], ra_resources = [''path''],
         ra_defaults = [], ra_implicit = []\<rparr>),
        (''search_documents'', \<lparr>ra_fields = [''query''], ra_resources = [],
         ra_defaults = [], ra_implicit = [''corpus:documents'']\<rparr>)]),
      (''inspect-native-v1'',
       [(''read_file'', \<lparr>ra_fields = [''file_path'', ''offset'', ''limit''], ra_resources = [''file_path''],
         ra_defaults = [], ra_implicit = []\<rparr>),
        (''list_files'', \<lparr>ra_fields = [''path'', ''depth''], ra_resources = [''path''],
         ra_defaults = [(''path'', ''.'')], ra_implicit = []\<rparr>),
        (''grep'', \<lparr>ra_fields = [''pattern'', ''path'', ''glob'', ''fixed_strings'', ''extended_regexp'', ''output_mode''], ra_resources = [''path''],
         ra_defaults = [(''path'', ''.'')], ra_implicit = []\<rparr>)])]"

section \<open>Access to arguments\<close>

text \<open>\<open>d.get(k)\<close>: a missing key and an explicit null are both \<open>None\<close>.\<close>

definition jget :: "json pydict \<Rightarrow> string \<Rightarrow> json" where
  "jget d k = dict_get d k JNull"

lemma jget_None [simp]: "map_of d k = None \<Longrightarrow> jget d k = JNull"
  by (simp add: jget_def dict_get_def)

lemma jget_Some [simp]: "map_of d k = Some v \<Longrightarrow> jget d k = v"
  by (simp add: jget_def dict_get_def)

definition as_list :: "json \<Rightarrow> json list" where
  "as_list v = (case v of JList xs \<Rightarrow> xs | _ \<Rightarrow> [v])"

fun json_sub :: "json \<Rightarrow> json pydict" where
  "json_sub (JObj kvs) = kvs"
| "json_sub _ = []"

definition digest_of :: "(json \<Rightarrow> string) \<Rightarrow> json \<Rightarrow> string result" where
  "digest_of sha v =
     (case canon v of
        None \<Rightarrow> Inl (ValueError ''Out of range float values are not JSON compliant'')
      | Some c \<Rightarrow> Inr (sha c))"

section \<open>The effect of a call\<close>

datatype effect = EffRead | EffMutate | EffCommand | EffUnknown

definition tool_effect :: "tool_call \<Rightarrow> effect" where
  "tool_effect call =
     (let t = tc_tool_name call; command = jget (tc_arguments call) ''command'' in
      if t \<in> set registry_read then EffRead
      else if dict_has registry_mutations t then
        (if t \<in> {''restricted_command'', ''python'', ''bash_session''} then EffCommand else EffMutate)
      else if t \<in> set registry_argument_dependent then
        (if command \<in> {JStr ''view'', JStr ''read'', JStr ''list''} then EffRead
         else if command \<in> {JStr ''create'', JStr ''insert'', JStr ''str_replace'', JStr ''delete'',
                            JStr ''rename'', JStr ''write''} then EffMutate
         else EffUnknown)
      else EffUnknown)"

definition consequential :: "tool_call \<Rightarrow> bool" where
  "consequential call \<longleftrightarrow> tool_effect call = EffMutate \<or> tool_effect call = EffCommand"

section \<open>Email and object effects\<close>

record email_effect =
  ee_recipients :: "(string \<times> string) list"
  ee_objects :: "string list"

fun destination_text :: "json \<Rightarrow> string option" where
  "destination_text (JStr s) = (if py_strip s = [] then None else Some (casefold s))"
| "destination_text _ = None"

fun field_recipients :: "string \<Rightarrow> json list \<Rightarrow> (string \<times> string) list option" where
  "field_recipients f [] = Some []"
| "field_recipients f (v # vs) =
     (case destination_text v of None \<Rightarrow> None
      | Some t \<Rightarrow> map_option ((#) (f, t)) (field_recipients f vs))"

fun collect_recipients :: "json pydict \<Rightarrow> string list \<Rightarrow> (string \<times> string) list result" where
  "collect_recipients args [] = Inr []"
| "collect_recipients args (f # fs) =
     (if jget args f = JNull then collect_recipients args fs
      else case field_recipients f (as_list (jget args f)) of
        None \<Rightarrow> Inl (ValueError (''invalid email destination field: '' @ f))
      | Some rs \<Rightarrow> (case collect_recipients args fs of Inl e \<Rightarrow> Inl e | Inr rest \<Rightarrow> Inr (rs @ rest)))"

definition email_effects :: "tool_call \<Rightarrow> email_effect result" where
  "email_effects call =
     (case collect_recipients (tc_arguments call) recipient_fields of
        Inl e \<Rightarrow> Inl e
      | Inr rs \<Rightarrow> Inr \<lparr>ee_recipients = rs,
                     ee_objects = filter (\<lambda>f. truthy (jget (tc_arguments call) f)) email_object_fields\<rparr>)"

definition sorted_set :: "string list \<Rightarrow> string list" where
  "sorted_set xs = sort (remdups xs)"

lemma set_sorted_set [simp]: "set (sorted_set xs) = set xs"
  by (simp add: sorted_set_def)

definition scoped_fields :: "tool_call \<Rightarrow> string list" where
  "scoped_fields call =
     (let args = tc_arguments call; t = tc_tool_name call;
          fields = dict_get object_fields t [] @ dict_get network_fields t []
                   @ filter (\<lambda>f. suffix ''_id'' f \<or> suffix ''_ids'' f) (dict_keys args)
      in sorted_set (filter (dict_has args) fields))"

lemma scoped_fields_iff:
  "f \<in> set (scoped_fields call) \<longleftrightarrow>
   dict_has (tc_arguments call) f \<and>
   (f \<in> set (dict_get object_fields (tc_tool_name call) [])
    \<or> f \<in> set (dict_get network_fields (tc_tool_name call) [])
    \<or> suffix ''_id'' f \<or> suffix ''_ids'' f)"
  by (auto simp: scoped_fields_def Let_def dict_has_def)

section \<open>Read adapters\<close>

definition extension_key :: string where
  "extension_key = ''x-traceguard-read-adapter''"

definition reviewed_adapter :: "string \<Rightarrow> string \<Rightarrow> read_adapter option" where
  "reviewed_adapter adapter_id tool = map_of (dict_get read_adapters adapter_id []) tool"

text \<open>The checks on one reviewed resource selector, in the order of the loop body.\<close>

definition check_selector ::
  "read_adapter \<Rightarrow> json pydict \<Rightarrow> json pydict \<Rightarrow> string \<Rightarrow> unit result" where
  "check_selector reviewed bound props field =
     (case map_of props field of
        None \<Rightarrow> Inl (ValueError ''read schema is missing a reviewed resource selector'')
      | Some p \<Rightarrow>
          (let dflt = (case map_of (ra_defaults reviewed) field of None \<Rightarrow> JNull | Some d \<Rightarrow> JStr d);
               declared = jget (json_sub p) ''default'';
               required = (case jget bound ''required'' of JList xs \<Rightarrow> JStr field \<in> set xs | _ \<Rightarrow> False)
           in
           if \<not> required \<and> (dflt = JNull \<or> declared \<noteq> dflt)
           then Inl (ValueError ''unreviewed implicit read resource'')
           else if declared \<noteq> JNull \<and> declared \<noteq> dflt
           then Inl (ValueError ''read resource default differs from reviewed adapter'')
           else Inr ()))"

fun first_error :: "('a \<Rightarrow> unit result) \<Rightarrow> 'a list \<Rightarrow> unit result" where
  "first_error f [] = Inr ()"
| "first_error f (x # xs) = (case f x of Inl e \<Rightarrow> Inl e | Inr _ \<Rightarrow> first_error f xs)"

lemma first_error_ok [simp]: "first_error f xs = Inr u \<longleftrightarrow> (\<forall>x\<in>set xs. f x = Inr ())"
  by (induction xs) (auto split: sum.splits)

lemma first_error_then [simp]:
  "(case first_error f xs of Inl e \<Rightarrow> Inl e | Inr u \<Rightarrow> k) = Inr y \<longleftrightarrow>
   (\<forall>x\<in>set xs. f x = Inr ()) \<and> k = Inr y"
proof (cases "first_error f xs")
  case (Inl e)
  then have "first_error f xs \<noteq> Inr ()" by simp
  with Inl show ?thesis unfolding first_error_ok by simp
next
  case (Inr u)
  then have "\<forall>x\<in>set xs. f x = Inr ()" by simp
  then show ?thesis unfolding Inr by simp
qed

definition bind_read_schema ::
  "(json \<Rightarrow> string) \<Rightarrow> json pydict \<Rightarrow> string \<Rightarrow> string \<Rightarrow> json pydict result" where
  "bind_read_schema sha schema adapter_id tool_name =
     (case reviewed_adapter adapter_id tool_name of
        None \<Rightarrow> Inl (ValueError ''unsupported read adapter mapping'')
      | Some reviewed \<Rightarrow>
          (let bound = AList.delete extension_key schema;
               props = json_sub (dict_get bound ''properties'' (JObj [])) in
           if \<not> set (dict_keys props) \<subseteq> set (ra_fields reviewed)
           then Inl (ValueError ''read schema has unreviewed selectors or options'')
           else
             (case first_error (check_selector reviewed bound props) (ra_resources reviewed) of
                Inl e \<Rightarrow> Inl e
              | Inr _ \<Rightarrow>
                  (case digest_of sha (JObj bound) of
                     Inl e \<Rightarrow> Inl e
                   | Inr d \<Rightarrow>
                       Inr (AList.update extension_key
                              (JObj [(''id'', JStr adapter_id), (''schema_digest'', JStr d)]) bound)))))"

fun fill_defaults ::
  "read_adapter \<Rightarrow> string list \<Rightarrow> json pydict \<Rightarrow> json pydict result" where
  "fill_defaults reviewed [] args = Inr args"
| "fill_defaults reviewed (f # fs) args =
     (let args' = (if \<not> dict_has args f
                   then (case map_of (ra_defaults reviewed) f of
                           None \<Rightarrow> args | Some d \<Rightarrow> AList.update f (JStr d) args)
                   else args) in
      if jget args' f = JNull then Inl (ValueError ''read resource is missing'')
      else fill_defaults reviewed fs args')"

definition scoped_read_call ::
  "(json \<Rightarrow> string) \<Rightarrow> tool_call \<Rightarrow> json pydict \<Rightarrow> tool_call result" where
  "scoped_read_call sha call schema =
     (let binding = dict_get schema extension_key (JObj []) in
      case dict_get (json_sub binding) ''id'' (JStr []) of
        JStr adapter_id \<Rightarrow>
          (case bind_read_schema sha schema adapter_id (tc_tool_name call) of
             Inl e \<Rightarrow> Inl e
           | Inr verified \<Rightarrow>
               if \<not> py_eq (jget verified extension_key) binding
               then Inl (ValueError ''read adapter binding does not match the approved schema'')
               else
                 (case reviewed_adapter adapter_id (tc_tool_name call) of
                    None \<Rightarrow> Inl (KeyError adapter_id)
                  | Some reviewed \<Rightarrow>
                      (case fill_defaults reviewed (ra_resources reviewed) (tc_arguments call) of
                         Inl e \<Rightarrow> Inl e
                       | Inr args \<Rightarrow>
                           Inr (call\<lparr>tc_arguments := args,
                                     tc_resources := sorted_set (tc_resources call @ ra_implicit reviewed)\<rparr>))))
      | _ \<Rightarrow> Inl (ValueError ''unsupported read adapter mapping''))"

section \<open>Facts\<close>

lemma fill_defaults_present:
  "fill_defaults rv fs args = Inr args' \<Longrightarrow> f \<in> set fs \<or> jget args f \<noteq> JNull \<Longrightarrow> jget args' f \<noteq> JNull"
proof (induction rv fs args arbitrary: args' rule: fill_defaults.induct)
  case (1 rv args)
  then show ?case by simp
next
  case (2 rv g fs args)
  define a where "a = (if \<not> dict_has args g
                   then (case map_of (ra_defaults rv) g of
                           None \<Rightarrow> args | Some d \<Rightarrow> AList.update g (JStr d) args)
                   else args)"
  from 2(2) have g: "jget a g \<noteq> JNull" and rest: "fill_defaults rv fs a = Inr args'"
    by (auto simp: a_def Let_def split: if_splits)
  have keep: "jget args f \<noteq> JNull \<Longrightarrow> jget a f \<noteq> JNull"
    by (auto simp: a_def jget_def dict_get_def map_of_update dict_has_map_of split: option.splits if_splits)
  from 2(3) g keep have "f \<in> set fs \<or> jget a f \<noteq> JNull" by auto
  with 2(1)[OF a_def _ rest] g show ?case by blast
qed

lemma scoped_read_call_tool:
  "scoped_read_call sha call schema = Inr call' \<Longrightarrow> tc_tool_name call' = tc_tool_name call"
  by (auto simp: scoped_read_call_def Let_def split: json.splits sum.splits if_splits option.splits)

end
