(* ===== verification/Scope.thy ===== *)
theory Scope
  imports Effects
begin

text \<open>
  Validation of a strict grant and the fields a call leaves ungranted: the first half of
  \<open>policy/kernel.py\<close>. Schemas are JSON objects by tool name.
\<close>

section \<open>Validation of a grant\<close>

definition configured_tools :: "task_authority \<Rightarrow> string list" where
  "configured_tools a =
     dict_keys (ta_argument_values a) @ dict_keys (ta_resource_values a)
     @ dict_keys (ta_delegated a) @ dict_keys (ta_generated a)"

definition check_generated :: "(string \<times> string list) \<Rightarrow> unit result" where
  "check_generated tf =
     (if set (snd tf) \<subseteq> set (dict_get generatable_fields (fst tf) []) then Inr ()
      else Inl (ValueError ''generated fields cannot carry recipients, objects, commands or budgets''))"

definition field_groups :: "task_authority \<Rightarrow> string \<Rightarrow> string list list" where
  "field_groups a t =
     [dict_keys (arg_values a t), dict_keys (res_values a t), dict_keys (del_fields a t), gen_fields a t]"

fun pairwise_disjoint :: "'a list list \<Rightarrow> bool" where
  "pairwise_disjoint [] = True"
| "pairwise_disjoint (g # gs) = ((\<forall>h\<in>set gs. set g \<inter> set h = {}) \<and> pairwise_disjoint gs)"

definition check_tool_groups ::
  "task_authority \<Rightarrow> json pydict pydict option \<Rightarrow> string \<Rightarrow> unit result" where
  "check_tool_groups a schemas t =
     (if \<not> pairwise_disjoint (field_groups a t)
      then Inl (ValueError ''a field cannot have conflicting authority definitions'')
      else
        (let schema = dict_get (case schemas of None \<Rightarrow> [] | Some s \<Rightarrow> s) t [];
             fields = filter (\<lambda>f. f \<noteq> ''requested_resources'') (concat (field_groups a t)) in
         case jget schema ''properties'' of
           JNull \<Rightarrow> Inr ()
         | props \<Rightarrow>
             if set fields \<subseteq> set (dict_keys (json_sub props)) then Inr ()
             else Inl (ValueError ''grant names fields absent from the tool schema'')))"

definition validate_authority :: "task_authority \<Rightarrow> json pydict pydict option \<Rightarrow> unit result" where
  "validate_authority a schemas =
     (if ta_mode a \<noteq> ''strict''
      then Inl (ValueError ''strict authority must explicitly select strict enforcement'')
      else case ta_allowed_tools a of
        None \<Rightarrow> Inl (ValueError ''strict authority requires an explicit tool allowlist'')
      | Some allowed \<Rightarrow>
          if \<not> set (configured_tools a) \<subseteq> set allowed
          then Inl (ValueError ''constraints refer to tools outside the grant'')
          else if (case schemas of None \<Rightarrow> False | Some s \<Rightarrow> \<not> set allowed \<subseteq> set (dict_keys s))
          then Inl (ValueError ''grant refers to unavailable tool schemas'')
          else if \<not> set (ta_repeatable a) \<subseteq> set allowed
          then Inl (ValueError ''repeat exceptions refer to tools outside the grant'')
          else
            (case first_error check_generated (ta_generated a) of
               Inl e \<Rightarrow> Inl e
             | Inr _ \<Rightarrow> first_error (check_tool_groups a schemas) (remdups allowed)))"

section \<open>Fields a call leaves ungranted\<close>

definition explicit_fields :: "tool_call \<Rightarrow> task_authority \<Rightarrow> string list" where
  "explicit_fields call a =
     (let t = tc_tool_name call in
      concat (field_groups a t)
      @ (if ta_max_amount a \<noteq> None \<and> t \<in> {''send_money'', ''schedule_transaction''}
         then [''amount''] else []))"

definition empty_email_option :: "tool_call \<Rightarrow> string \<Rightarrow> bool" where
  "empty_email_option call field \<longleftrightarrow>
     tc_tool_name call = ''send_email'' \<and> field \<in> {''cc'', ''bcc'', ''attachments''} \<and>
     jget (tc_arguments call) field \<in> {JNull, JList [], JObj []}"

definition consequential_fields :: "tool_call \<Rightarrow> effect \<Rightarrow> string list" where
  "consequential_fields call eff =
     filter (\<lambda>f. \<not> empty_email_option call f)
       ((if eff = EffMutate \<or> eff = EffCommand then dict_keys (tc_arguments call) else [])
        @ (if tc_resources call \<noteq> [] then [''requested_resources''] else []))"

definition ungranted_fields :: "tool_call \<Rightarrow> task_authority \<Rightarrow> effect \<Rightarrow> string list" where
  "ungranted_fields call a eff =
     filter (\<lambda>f. f \<notin> set (explicit_fields call a)) (remdups (consequential_fields call eff))"

section \<open>Facts\<close>

lemma ungranted_none_iff:
  "ungranted_fields call a eff = [] \<longleftrightarrow>
   set (consequential_fields call eff) \<subseteq> set (explicit_fields call a)"
  by (auto simp: ungranted_fields_def filter_empty_conv)

lemma check_generated_ok:
  "check_generated tf = Inr () \<longleftrightarrow> set (snd tf) \<subseteq> set (dict_get generatable_fields (fst tf) [])"
  by (simp add: check_generated_def)

text \<open>
  What an accepted grant is, without the checks: a tool a constraint names is allowed, no field
  of a tool has two kinds of authority, and where the tool's schema lists properties every
  granted field but the requested resources is one of them.
\<close>

definition separate_fields :: "task_authority \<Rightarrow> string \<Rightarrow> bool" where
  "separate_fields a t \<longleftrightarrow>
     (\<forall>f. f \<in> fst ` set (arg_values a t) \<longrightarrow>
        f \<notin> fst ` set (res_values a t) \<and> f \<notin> fst ` set (del_fields a t) \<and> f \<notin> set (gen_fields a t)) \<and>
     (\<forall>f. f \<in> fst ` set (res_values a t) \<longrightarrow>
        f \<notin> fst ` set (del_fields a t) \<and> f \<notin> set (gen_fields a t)) \<and>
     (\<forall>f. f \<in> fst ` set (del_fields a t) \<longrightarrow> f \<notin> set (gen_fields a t))"

definition granted_field :: "task_authority \<Rightarrow> string \<Rightarrow> string \<Rightarrow> bool" where
  "granted_field a t f \<longleftrightarrow>
     f \<in> fst ` set (arg_values a t) \<or> f \<in> fst ` set (res_values a t)
     \<or> f \<in> fst ` set (del_fields a t) \<or> f \<in> set (gen_fields a t)"

definition fields_in_schema ::
  "task_authority \<Rightarrow> json pydict pydict option \<Rightarrow> string \<Rightarrow> bool" where
  "fields_in_schema a schemas t \<longleftrightarrow>
     (\<forall>s schema props. schemas = Some s \<longrightarrow> map_of s t = Some schema \<longrightarrow>
        map_of schema ''properties'' = Some props \<longrightarrow> props \<noteq> JNull \<longrightarrow>
        (\<forall>f. granted_field a t f \<longrightarrow> f \<noteq> ''requested_resources'' \<longrightarrow> f \<in> fst ` set (json_sub props)))"

definition well_formed_grant :: "task_authority \<Rightarrow> json pydict pydict option \<Rightarrow> bool" where
  "well_formed_grant a schemas \<longleftrightarrow>
     ta_mode a = ''strict'' \<and>
     (\<exists>allowed. ta_allowed_tools a = Some allowed \<and>
        fst ` set (ta_argument_values a) \<subseteq> set allowed \<and>
        fst ` set (ta_resource_values a) \<subseteq> set allowed \<and>
        fst ` set (ta_delegated a) \<subseteq> set allowed \<and>
        fst ` set (ta_generated a) \<subseteq> set allowed \<and>
        set (ta_repeatable a) \<subseteq> set allowed \<and>
        (\<forall>s. schemas = Some s \<longrightarrow> set allowed \<subseteq> fst ` set s) \<and>
        (\<forall>(t, fs)\<in>set (ta_generated a). \<forall>f\<in>set fs. \<exists>gs. map_of generatable_fields t = Some gs \<and> f \<in> set gs) \<and>
        (\<forall>t\<in>set allowed. separate_fields a t \<and> fields_in_schema a schemas t))"

lemma pairwise_disjoint_groups: "pairwise_disjoint (field_groups a t) \<longleftrightarrow> separate_fields a t"
  by (auto simp: field_groups_def separate_fields_def dict_keys_def)

lemma granted_field_groups: "f \<in> set (concat (field_groups a t)) \<longleftrightarrow> granted_field a t f"
  by (simp add: field_groups_def granted_field_def dict_keys_def)

lemma granted_names:
  "set (filter (\<lambda>f. f \<noteq> ''requested_resources'') (concat (field_groups a t))) \<subseteq> X \<longleftrightarrow>
   (\<forall>f. granted_field a t f \<longrightarrow> f \<noteq> ''requested_resources'' \<longrightarrow> f \<in> X)"
  unfolding granted_field_groups[symmetric] by auto

lemma schema_clause:
  "(case jget (dict_get (case schemas of None \<Rightarrow> [] | Some s \<Rightarrow> s) t []) ''properties'' of
      JNull \<Rightarrow> Inr ()
    | props \<Rightarrow> if set (filter (\<lambda>f. f \<noteq> ''requested_resources'') (concat (field_groups a t)))
                   \<subseteq> set (dict_keys (json_sub props)) then Inr () else Inl e) = Inr ()
   \<longleftrightarrow> fields_in_schema a schemas t"
  unfolding granted_names fields_in_schema_def jget_def dict_get_def dict_keys_def
  by (auto split: option.splits json.splits)

lemma check_tool_groups_iff:
  "check_tool_groups a schemas t = Inr () \<longleftrightarrow> separate_fields a t \<and> fields_in_schema a schemas t"
proof (cases "separate_fields a t")
  case True
  then show ?thesis
    unfolding check_tool_groups_def Let_def pairwise_disjoint_groups
    by (simp only: True not_True_eq_False if_False schema_clause simp_thms)
next
  case False
  then show ?thesis by (simp add: check_tool_groups_def pairwise_disjoint_groups)
qed

lemma permitted_iff:
  "set fs \<subseteq> set (dict_get g t []) \<longleftrightarrow> (\<forall>f\<in>set fs. \<exists>gs. map_of g t = Some gs \<and> f \<in> set gs)"
  by (cases "map_of g t") (auto simp: dict_get_def)

lemma generated_permitted:
  "(\<forall>tf\<in>set (ta_generated a). check_generated tf = Inr ()) \<longleftrightarrow>
   (\<forall>(t, fs)\<in>set (ta_generated a). \<forall>f\<in>set fs. \<exists>gs. map_of generatable_fields t = Some gs \<and> f \<in> set gs)"
  by (simp only: check_generated_ok permitted_iff case_prod_unfold)

lemma configured_allowed:
  "set (configured_tools a) \<subseteq> A \<longleftrightarrow>
   fst ` set (ta_argument_values a) \<subseteq> A \<and> fst ` set (ta_resource_values a) \<subseteq> A
   \<and> fst ` set (ta_delegated a) \<subseteq> A \<and> fst ` set (ta_generated a) \<subseteq> A"
  by (simp add: configured_tools_def dict_keys_def)

lemma validate_authority_iff: "validate_authority a schemas = Inr () \<longleftrightarrow> well_formed_grant a schemas"
proof (cases "ta_allowed_tools a")
  case None
  then show ?thesis by (simp add: validate_authority_def well_formed_grant_def)
next
  case (Some allowed)
  have loop: "(case first_error check_generated (ta_generated a) of
       Inl e \<Rightarrow> Inl e | Inr _ \<Rightarrow> first_error (check_tool_groups a schemas) (remdups allowed)) = Inr ()
     \<longleftrightarrow> (\<forall>tf\<in>set (ta_generated a). check_generated tf = Inr ())
         \<and> (\<forall>t\<in>set allowed. check_tool_groups a schemas t = Inr ())"
    by simp
  have "validate_authority a schemas = Inr () \<longleftrightarrow>
    is_strict a \<and> set (configured_tools a) \<subseteq> set allowed
    \<and> (\<forall>s. schemas = Some s \<longrightarrow> set allowed \<subseteq> set (dict_keys s))
    \<and> set (ta_repeatable a) \<subseteq> set allowed
    \<and> (\<forall>tf\<in>set (ta_generated a). check_generated tf = Inr ())
    \<and> (\<forall>t\<in>set allowed. check_tool_groups a schemas t = Inr ())"
    unfolding validate_authority_def is_strict_def
    by (simp add: Some loop split: option.split)
  then show ?thesis
    unfolding generated_permitted configured_allowed check_tool_groups_iff
    by (auto simp: well_formed_grant_def Some is_strict_def dict_keys_def)
qed

end
