(* ===== verification/PyRegex.thy ===== *)
theory PyRegex
  imports Prelude
begin

text \<open>
  The part of Python's \<open>re\<close> module the source uses: backtracking matching without
  captures. \<open>ends r s i\<close> lists the end positions of the matches of \<open>r\<close> that start
  at position \<open>i\<close> of \<open>s\<close>, in the order in which the backtracking engine tries them
  (an alternation tries its left side first, a star is greedy and every round of it
  consumes a character).
\<close>

section \<open>Patterns and matching\<close>

datatype re =
    Eps
  | Cls "char \<Rightarrow> bool"
  | Cat re re
  | Or re re
  | Rep re
  | RepLazy re
  | WordBound
  | NotAfterWord
  | NotBeforeWord
  | LineStart
  | StrStart
  | StrEnd

definition word_at :: "string \<Rightarrow> nat \<Rightarrow> bool" where
  "word_at s i \<longleftrightarrow> i < length s \<and> is_word (s ! i)"

definition word_before :: "string \<Rightarrow> nat \<Rightarrow> bool" where
  "word_before s i \<longleftrightarrow> 0 < i \<and> i \<le> length s \<and> is_word (s ! (i - 1))"

fun rep_ends :: "(nat \<Rightarrow> nat list) \<Rightarrow> nat \<Rightarrow> nat \<Rightarrow> nat list" where
  "rep_ends f 0 i = [i]"
| "rep_ends f (Suc n) i = concat (map (rep_ends f n) (filter (\<lambda>j. i < j) (f i))) @ [i]"

text \<open>The lazy star tries to stop first.\<close>

fun lazy_ends :: "(nat \<Rightarrow> nat list) \<Rightarrow> nat \<Rightarrow> nat \<Rightarrow> nat list" where
  "lazy_ends f 0 i = [i]"
| "lazy_ends f (Suc n) i = i # concat (map (lazy_ends f n) (filter (\<lambda>j. i < j) (f i)))"

fun ends :: "re \<Rightarrow> string \<Rightarrow> nat \<Rightarrow> nat list" where
  "ends Eps s i = [i]"
| "ends (Cls p) s i = (if i < length s \<and> p (s ! i) then [Suc i] else [])"
| "ends (Cat a b) s i = concat (map (ends b s) (ends a s i))"
| "ends (Or a b) s i = ends a s i @ ends b s i"
| "ends (Rep a) s i = rep_ends (ends a s) (length s - i) i"
| "ends (RepLazy a) s i = lazy_ends (ends a s) (length s - i) i"
| "ends WordBound s i = (if word_before s i \<noteq> word_at s i then [i] else [])"
| "ends NotAfterWord s i = (if word_before s i then [] else [i])"
| "ends NotBeforeWord s i = (if word_at s i then [] else [i])"
| "ends LineStart s i = (if i = 0 \<or> s ! (i - 1) = CHR 0x0A then [i] else [])"
| "ends StrStart s i = (if i = 0 then [i] else [])"
| "ends StrEnd s i = (if i = length s \<or> Suc i = length s \<and> s ! i = CHR 0x0A then [i] else [])"

text \<open>\<open>pattern.search(s)\<close>: the leftmost match, as its start and end.\<close>

definition re_search :: "re \<Rightarrow> string \<Rightarrow> (nat \<times> nat) option" where
  "re_search r s =
     (case find (\<lambda>i. ends r s i \<noteq> []) [0..<Suc (length s)] of
        None \<Rightarrow> None
      | Some i \<Rightarrow> Some (i, hd (ends r s i)))"

definition re_found :: "re \<Rightarrow> string \<Rightarrow> bool" where
  "re_found r s \<longleftrightarrow> (\<exists>i\<in>set [0..<Suc (length s)]. ends r s i \<noteq> [])"

definition re_fullmatch :: "re \<Rightarrow> string \<Rightarrow> bool" where
  "re_fullmatch r s \<longleftrightarrow> length s \<in> set (ends r s 0)"

definition slice :: "string \<Rightarrow> nat \<Rightarrow> nat \<Rightarrow> string" where
  "slice s i j = take (j - i) (drop i s)"

text \<open>\<open>pattern.findall(s)\<close> for a pattern that never matches the empty string.\<close>

fun findall_from :: "nat \<Rightarrow> re \<Rightarrow> string \<Rightarrow> nat \<Rightarrow> string list" where
  "findall_from 0 r s i = []"
| "findall_from (Suc n) r s i =
     (case ends r s i of
        [] \<Rightarrow> findall_from n r s (Suc i)
      | j # _ \<Rightarrow> slice s i j # findall_from n r s (if i < j then j else Suc i))"

definition re_findall :: "re \<Rightarrow> string \<Rightarrow> string list" where
  "re_findall r s = findall_from (Suc (length s)) r s 0"

text \<open>\<open>pattern.sub(repl, s)\<close>, likewise for a pattern that never matches the empty string.\<close>

fun sub_from :: "nat \<Rightarrow> re \<Rightarrow> string \<Rightarrow> string \<Rightarrow> nat \<Rightarrow> string" where
  "sub_from 0 r repl s i = drop i s"
| "sub_from (Suc n) r repl s i =
     (case ends r s i of
        [] \<Rightarrow> take 1 (drop i s) @ sub_from n r repl s (Suc i)
      | j # _ \<Rightarrow> if i < j then repl @ sub_from n r repl s j
                 else take 1 (drop i s) @ sub_from n r repl s (Suc i))"

definition re_sub :: "re \<Rightarrow> string \<Rightarrow> string \<Rightarrow> string" where
  "re_sub r repl s = sub_from (Suc (length s)) r repl s 0"

section \<open>Pattern abbreviations\<close>

definition same_ci :: "char \<Rightarrow> char \<Rightarrow> bool" where
  "same_ci c d \<longleftrightarrow> to_lower c = to_lower d"

fun lit :: "string \<Rightarrow> re" where
  "lit [] = Eps"
| "lit (c # s) = Cat (Cls ((=) c)) (lit s)"

fun lit_ci :: "string \<Rightarrow> re" where
  "lit_ci [] = Eps"
| "lit_ci (c # s) = Cat (Cls (same_ci c)) (lit_ci s)"

fun cat_all :: "re list \<Rightarrow> re" where
  "cat_all [] = Eps"
| "cat_all [r] = r"
| "cat_all (r # rs) = Cat r (cat_all rs)"

text \<open>An alternation; \<open>\<bar>\<close>-joining no words gives the empty pattern.\<close>

fun or_all :: "re list \<Rightarrow> re" where
  "or_all [] = Eps"
| "or_all [r] = r"
| "or_all (r # rs) = Or r (or_all rs)"

definition opt :: "re \<Rightarrow> re" where
  "opt r = Or r Eps"

definition plus :: "re \<Rightarrow> re" where
  "plus r = Cat r (Rep r)"

fun times :: "nat \<Rightarrow> re \<Rightarrow> re" where
  "times 0 r = Eps"
| "times (Suc n) r = Cat r (times n r)"

definition chars :: "string \<Rightarrow> re" where
  "chars s = Cls (\<lambda>c. c \<in> set s)"

definition spaces :: re where
  "spaces = Rep (Cls is_space)"

definition spaces1 :: re where
  "spaces1 = plus (Cls is_space)"

definition any_char :: re where
  "any_char = Cls (\<lambda>c. c \<noteq> CHR 0x0A)"

section \<open>Facts\<close>

lemma rep_ends_ge: "j \<in> set (rep_ends f n i) \<Longrightarrow> i \<le> j"
proof (induction n arbitrary: i)
  case 0
  then show ?case by simp
next
  case (Suc n)
  then show ?case by force
qed

lemma set_lazy_ends: "set (lazy_ends f n i) = set (rep_ends f n i)"
  by (induction n arbitrary: i) auto

text \<open>A match never ends before it starts.\<close>

lemma ends_ge: "j \<in> set (ends r s i) \<Longrightarrow> i \<le> j"
proof (induction r arbitrary: i j)
  case (Cat a b)
  then obtain x where "x \<in> set (ends a s i)" and "j \<in> set (ends b s x)" by auto
  then have "i \<le> x" and "x \<le> j" by (auto dest: Cat.IH)
  then show ?case by simp
next
  case (Rep a)
  then show ?case by (auto dest: rep_ends_ge)
next
  case (RepLazy a)
  then show ?case by (auto simp: set_lazy_ends dest: rep_ends_ge)
qed (auto split: if_splits)

lemma rep_ends_le:
  assumes step: "\<And>i j. i \<le> L \<Longrightarrow> j \<in> set (f i) \<Longrightarrow> j \<le> L"
  shows "i \<le> L \<Longrightarrow> j \<in> set (rep_ends f n i) \<Longrightarrow> j \<le> L"
proof (induction n arbitrary: i)
  case 0
  then show ?case by simp
next
  case (Suc n)
  from Suc.prems(2) consider "j = i"
    | k where "k \<in> set (f i)" "j \<in> set (rep_ends f n k)" by auto
  then show ?case
  proof cases
    case 1
    then show ?thesis using Suc.prems(1) by simp
  next
    case 2
    from step[OF Suc.prems(1) 2(1)] 2(2) show ?thesis by (rule Suc.IH)
  qed
qed

text \<open>A match stays within the string.\<close>

lemma ends_le: "i \<le> length s \<Longrightarrow> j \<in> set (ends r s i) \<Longrightarrow> j \<le> length s"
proof (induction r arbitrary: i j)
  case (Cat a b)
  from Cat.prems(2) obtain x where x: "x \<in> set (ends a s i)" and j: "j \<in> set (ends b s x)" by auto
  from Cat.prems(1) x have "x \<le> length s" by (rule Cat.IH(1))
  from this j show ?case by (rule Cat.IH(2))
next
  case (Or a b)
  from Or.prems(2) consider "j \<in> set (ends a s i)" | "j \<in> set (ends b s i)" by auto
  then show ?case
  proof cases
    case 1
    with Or.prems(1) show ?thesis by (rule Or.IH(1))
  next
    case 2
    with Or.prems(1) show ?thesis by (rule Or.IH(2))
  qed
next
  case (Rep a)
  from Rep.prems(2) have "j \<in> set (rep_ends (ends a s) (length s - i) i)" by simp
  show ?case
  proof (rule rep_ends_le[where L = "length s" and f = "ends a s" and i = i])
    show "i' \<le> length s \<Longrightarrow> j' \<in> set (ends a s i') \<Longrightarrow> j' \<le> length s" for i' j'
      by (rule Rep.IH)
  qed fact+
next
  case (RepLazy a)
  from RepLazy.prems(2) have "j \<in> set (rep_ends (ends a s) (length s - i) i)"
    by (simp add: set_lazy_ends)
  show ?case
  proof (rule rep_ends_le[where L = "length s" and f = "ends a s" and i = i])
    show "i' \<le> length s \<Longrightarrow> j' \<in> set (ends a s i') \<Longrightarrow> j' \<le> length s" for i' j'
      by (rule RepLazy.IH)
  qed fact+
next
  case (Cls p)
  then show ?case by (cases "i < length s \<and> p (s ! i)") auto
next
  case LineStart
  then show ?case by (cases "i = 0 \<or> s ! (i - 1) = CHR 0x0A") auto
next
  case StrEnd
  then show ?case by (cases "i = length s \<or> Suc i = length s \<and> s ! i = CHR 0x0A") auto
qed (simp_all split: if_split_asm)

lemma re_search_found: "re_search r s \<noteq> None \<longleftrightarrow> re_found r s"
proof (cases "find (\<lambda>i. ends r s i \<noteq> []) [0..<Suc (length s)]")
  case None
  then have "\<not> re_found r s" unfolding re_found_def find_None_iff by blast
  with None show ?thesis by (simp add: re_search_def del: upt_Suc)
next
  case (Some i)
  then have "\<not> (find (\<lambda>i. ends r s i \<noteq> []) [0..<Suc (length s)] = None)" by simp
  then have "re_found r s" unfolding re_found_def find_None_iff by blast
  with Some show ?thesis by (simp add: re_search_def del: upt_Suc)
qed

lemma re_search_bounds: "re_search r s = Some (i, j) \<Longrightarrow> i \<le> j \<and> j \<le> length s"
proof -
  assume "re_search r s = Some (i, j)"
  then obtain k where k: "find (\<lambda>i. ends r s i \<noteq> []) [0..<Suc (length s)] = Some i"
    and ij: "j = hd (ends r s i)"
    by (auto simp: re_search_def split: option.splits)
  from k have ne: "ends r s i \<noteq> []" and i: "i \<le> length s"
    by (auto simp: find_Some_iff simp del: upt_Suc)
  then have "j \<in> set (ends r s i)" by (simp add: ij)
  then show ?thesis using ends_ge ends_le[OF i] by blast
qed

lemma ends_lit: "ends (lit w) s i = (if prefix w (drop i s) then [i + length w] else [])"
proof (induction w arbitrary: i)
  case Nil
  then show ?case by simp
next
  case (Cons c w)
  show ?case
  proof (cases "i < length s")
    case True
    then have "drop i s = s ! i # drop (Suc i) s" by (rule Cons_nth_drop_Suc[symmetric])
    with Cons True show ?thesis by auto
  next
    case False
    then show ?thesis by simp
  qed
qed

text \<open>Searching for a literal is the substring test.\<close>

lemma re_found_lit: "re_found (lit w) s \<longleftrightarrow> contains w s"
proof -
  have "re_found (lit w) s \<longleftrightarrow> (\<exists>i\<le>length s. prefix w (drop i s))"
    by (auto simp: re_found_def ends_lit less_Suc_eq_le simp del: upt_Suc split: if_splits)
  also have "\<dots> \<longleftrightarrow> contains w s"
  proof
    assume "\<exists>i\<le>length s. prefix w (drop i s)"
    then obtain i b where "drop i s = w @ b" by (auto simp: prefix_def)
    then have "s = take i s @ w @ b" by (metis append_take_drop_id)
    then show "contains w s" unfolding contains_iff by blast
  next
    assume "contains w s"
    then obtain a b where "s = a @ w @ b" by (auto simp: contains_iff)
    then show "\<exists>i\<le>length s. prefix w (drop i s)"
      by (intro exI[of _ "length a"]) auto
  qed
  finally show ?thesis .
qed

end
