(* ===== verification/JsonText.thy ===== *)
theory JsonText
  imports PyJson
begin

text \<open>
  \<open>json.loads\<close>: a recursive-descent parser with a depth budget, one unit per nested
  value; the text's length is enough, since every nested value consumes a character.
  None is \<open>JSONDecodeError\<close> (a \<open>ValueError\<close>). Escapes beyond code point 255 are
  outside the character type and are refused.
\<close>

definition json_ws :: "char \<Rightarrow> bool" where
  "json_ws c \<longleftrightarrow> c = CHR '' '' \<or> c = CHR 0x09 \<or> c = CHR 0x0A \<or> c = CHR 0x0D"

definition skip_ws :: "string \<Rightarrow> string" where
  "skip_ws s = dropWhile json_ws s"

definition hex_val :: "char \<Rightarrow> nat option" where
  "hex_val c =
     (if is_digit c then Some (of_char c - 48)
      else if CHR ''a'' \<le> c \<and> c \<le> CHR ''f'' then Some (of_char c - 87)
      else if CHR ''A'' \<le> c \<and> c \<le> CHR ''F'' then Some (of_char c - 55) else None)"

definition unescape :: "char \<Rightarrow> char option" where
  "unescape c =
     (if c = CHR 0x22 \<or> c = CHR 0x5C \<or> c = CHR ''/'' then Some c
      else if c = CHR ''n'' then Some (CHR 0x0A)
      else if c = CHR ''r'' then Some (CHR 0x0D)
      else if c = CHR ''t'' then Some (CHR 0x09)
      else if c = CHR ''b'' then Some (CHR 0x08)
      else if c = CHR ''f'' then Some (CHR 0x0C) else None)"

definition unicode_escape :: "char \<Rightarrow> char \<Rightarrow> char \<Rightarrow> char \<Rightarrow> char option" where
  "unicode_escape a b c d =
     (case (hex_val a, hex_val b, hex_val c, hex_val d) of
        (Some w, Some x, Some y, Some z) \<Rightarrow>
          if w = 0 \<and> x = 0 then Some (char_of (16 * y + z)) else None
      | _ \<Rightarrow> None)"

text \<open>The rest of a string literal, after its opening quote.\<close>

fun parse_chars :: "string \<Rightarrow> (string \<times> string) option" where
  "parse_chars [] = None"
| "parse_chars (c # s) =
     (if c = CHR 0x22 then Some ([], s)
      else if c = CHR 0x5C then
        (case s of
           [] \<Rightarrow> None
         | k # t \<Rightarrow>
             if k = CHR ''u'' then
               (case t of
                  a # b # x # d # u \<Rightarrow>
                    (case unicode_escape a b x d of
                       None \<Rightarrow> None
                     | Some ch \<Rightarrow> map_option (\<lambda>(r, u'). (ch # r, u')) (parse_chars u))
                | _ \<Rightarrow> None)
             else
               (case unescape k of
                  None \<Rightarrow> None
                | Some ch \<Rightarrow> map_option (\<lambda>(r, u). (ch # r, u)) (parse_chars t)))
      else if c < CHR '' '' then None
      else map_option (\<lambda>(r, u). (c # r, u)) (parse_chars s))"

definition no_leading_zero :: "string \<Rightarrow> bool" where
  "no_leading_zero ds \<longleftrightarrow> length ds = 1 \<or> \<not> prefix ''0'' ds"

text \<open>The decimal that the \<open>repr\<close> of the float \<open>m * 10^e\<close> denotes.\<close>

fun strip_zeros :: "nat \<Rightarrow> int \<Rightarrow> int \<Rightarrow> int \<times> int" where
  "strip_zeros 0 m e = (m, e)"
| "strip_zeros (Suc n) m e = (if m \<noteq> 0 \<and> m mod 10 = 0 then strip_zeros n (m div 10) (e + 1) else (m, e))"

definition float_norm :: "int \<Rightarrow> int \<Rightarrow> decimal" where
  "float_norm m e =
     (if m = 0 then Dec 0 (- 1)
      else let (m', e') = strip_zeros (length (nat_str (nat \<bar>m\<bar>))) m e;
               n = int (length (nat_str (nat \<bar>m'\<bar>))) in
           if 0 \<le> e' \<and> n + e' \<le> 16 then Dec (m' * 10 ^ nat (e' + 1)) (- 1) else Dec m' e')"

definition parse_number :: "string \<Rightarrow> (json \<times> string) option" where
  "parse_number s =
     (let neg = prefix ''-'' s; t = (if neg then drop 1 s else s);
          sg = (if neg then - 1 else (1::int));
          ip = takeWhile is_digit t; u = dropWhile is_digit t;
          has_frac = (prefix ''.'' u \<and> takeWhile is_digit (drop 1 u) \<noteq> []);
          fp = (if has_frac then takeWhile is_digit (drop 1 u) else []);
          v = (if has_frac then dropWhile is_digit (drop 1 u) else u);
          es = (if prefix ''e'' v \<or> prefix ''E'' v then drop 1 v else []);
          eneg = prefix ''-'' es; ed = (if eneg \<or> prefix ''+'' es then drop 1 es else es);
          xp = takeWhile is_digit ed;
          ex = (if eneg then - int (digits_val xp) else int (digits_val xp)) in
      if ip = [] \<or> \<not> no_leading_zero ip then None
      else if xp \<noteq> [] then
        Some (JFloat (float_norm (sg * int (digits_val (ip @ fp))) (ex - int (length fp))),
              dropWhile is_digit ed)
      else if has_frac then
        Some (JFloat (float_norm (sg * int (digits_val (ip @ fp))) (- int (length fp))), v)
      else Some (JInt (sg * int (digits_val ip)), u))"

fun parse_value :: "nat \<Rightarrow> string \<Rightarrow> (json \<times> string) option"
  and parse_items :: "nat \<Rightarrow> string \<Rightarrow> (json list \<times> string) option"
  and parse_members :: "nat \<Rightarrow> json pydict \<Rightarrow> string \<Rightarrow> (json pydict \<times> string) option" where
  "parse_value 0 s = None"
| "parse_value (Suc n) s =
     (let t = skip_ws s in
      if prefix ''null'' t then Some (JNull, drop 4 t)
      else if prefix ''true'' t then Some (JBool True, drop 4 t)
      else if prefix ''false'' t then Some (JBool False, drop 5 t)
      else if prefix ''NaN'' t then Some (JFloat DNan, drop 3 t)
      else if prefix ''Infinity'' t then Some (JFloat (DInf False), drop 8 t)
      else if prefix ''-Infinity'' t then Some (JFloat (DInf True), drop 9 t)
      else
        (case t of
           [] \<Rightarrow> None
         | c # u \<Rightarrow>
             if c = CHR 0x22 then map_option (\<lambda>(r, v). (JStr r, v)) (parse_chars u)
             else if c = CHR ''['' then
               (let v = skip_ws u in
                if prefix '']'' v then Some (JList [], drop 1 v)
                else map_option (\<lambda>(xs, w). (JList xs, w)) (parse_items n v))
             else if c = CHR ''{'' then
               (let v = skip_ws u in
                if prefix ''}'' v then Some (JObj [], drop 1 v)
                else map_option (\<lambda>(kvs, w). (JObj kvs, w)) (parse_members n [] v))
             else parse_number t))"
| "parse_items 0 s = None"
| "parse_items (Suc n) s =
     (case parse_value n s of
        None \<Rightarrow> None
      | Some (x, r) \<Rightarrow>
          (let t = skip_ws r in
           if prefix '']'' t then Some ([x], drop 1 t)
           else if prefix '','' t then map_option (\<lambda>(xs, u). (x # xs, u)) (parse_items n (drop 1 t))
           else None))"
| "parse_members 0 d s = None"
| "parse_members (Suc n) d s =
     (let t = skip_ws s in
      if \<not> prefix [CHR 0x22] t then None
      else
        (case parse_chars (drop 1 t) of
           None \<Rightarrow> None
         | Some (k, u) \<Rightarrow>
             (let v = skip_ws u in
              if \<not> prefix '':'' v then None
              else
                (case parse_value n (drop 1 v) of
                   None \<Rightarrow> None
                 | Some (x, r) \<Rightarrow>
                     (let w = skip_ws r; d' = AList.update k x d in
                      if prefix ''}'' w then Some (d', drop 1 w)
                      else if prefix '','' w then parse_members n d' (drop 1 w)
                      else None)))))"

definition json_loads :: "string \<Rightarrow> json option" where
  "json_loads s =
     (case parse_value (2 * length s + 2) s of
        None \<Rightarrow> None
      | Some (v, r) \<Rightarrow> if skip_ws r = [] then Some v else None)"

text \<open>
  The three uses of the source: the value when it parses as JSON, and the text itself
  otherwise.
\<close>

definition loads_or_text :: "string \<Rightarrow> json" where
  "loads_or_text s = (case json_loads s of None \<Rightarrow> JStr s | Some v \<Rightarrow> v)"

end
