(* ===== verification/Doubles.thy ===== *)
theory Doubles
  imports PyJson
begin

text \<open>
  Python floats as exact rationals: rounding to the nearest double, ties to even, with
  subnormals, and the shortest text that reads back. \<open>pyfloat\<close> adds the infinities and NaN,
  and \<open>pynum\<close> the ints, with \<open>+\<close> and \<open><=\<close> as Python mixes the two; the sign of zero, which
  neither observes, is left out.
\<close>

section \<open>Rounding\<close>

definition round_even :: "rat \<Rightarrow> int" where
  "round_even r =
     (let f = \<lfloor>r\<rfloor>; d = r - of_int f in
      if d < 1 / 2 then f else if 1 / 2 < d then f + 1 else if even f then f else f + 1)"

definition scaled :: "rat \<Rightarrow> int \<Rightarrow> rat" where
  "scaled b e = (if 0 \<le> e then b ^ nat e else 1 / b ^ nat (- e))"

text \<open>The exponent of the leading digit in base \<open>b\<close>; the fuel covers every double.\<close>

fun steps_down :: "nat \<Rightarrow> rat \<Rightarrow> rat \<Rightarrow> nat" where
  "steps_down 0 b x = 0"
| "steps_down (Suc n) b x = (if x < b then 0 else Suc (steps_down n b (x / b)))"

fun steps_up :: "nat \<Rightarrow> rat \<Rightarrow> rat \<Rightarrow> nat" where
  "steps_up 0 b x = 0"
| "steps_up (Suc n) b x = (if 1 \<le> x then 0 else Suc (steps_up n b (x * b)))"

definition leading :: "rat \<Rightarrow> rat \<Rightarrow> int" where
  "leading b x = (if 1 \<le> x then int (steps_down 1100 b x) else - int (steps_up 1100 b x))"

definition double_mag :: "rat \<Rightarrow> rat" where
  "double_mag x = (let e = max (leading 2 x - 52) (- 1074) in of_int (round_even (x / scaled 2 e)) * scaled 2 e)"

definition double :: "rat \<Rightarrow> rat" where
  "double x = (if x = 0 then 0 else if x < 0 then - double_mag (- x) else double_mag x)"

section \<open>Rounding keeps the ints below 2 ^ 53\<close>

lemma round_even_int [simp]: "round_even (of_int k) = k"
  by (simp add: round_even_def Let_def)

lemma round_even_above: "r - 1 \<le> of_int (round_even r)"
proof -
  have "r - 1 \<le> of_int \<lfloor>r\<rfloor>" by linarith
  moreover have "\<lfloor>r\<rfloor> \<le> round_even r" by (simp add: round_even_def Let_def)
  ultimately show ?thesis by linarith
qed

lemma steps_down_le: "1 < b \<Longrightarrow> 1 \<le> x \<Longrightarrow> b ^ steps_down n b x \<le> x"
proof (induction n arbitrary: x)
  case (Suc n)
  show ?case
  proof (cases "x < b")
    case False
    with Suc.prems have "1 \<le> x / b" by simp
    then have "b ^ steps_down n b (x / b) \<le> x / b" using Suc by simp
    with False Suc.prems show ?thesis by (simp add: pos_le_divide_eq mult.commute)
  qed (use Suc.prems in simp)
qed simp

lemma leading_le: "1 \<le> x \<Longrightarrow> 2 ^ nat (leading 2 x) \<le> x"
  using steps_down_le [of 2 x] by (simp add: leading_def)

lemma leading_nonneg: "1 \<le> x \<Longrightarrow> 0 \<le> leading b x"
  by (simp add: leading_def)

lemma scaled_pos: "0 < b \<Longrightarrow> 0 < scaled b e"
  by (simp add: scaled_def)

lemma double_mag_int:
  assumes "1 \<le> k" and "k < 2 ^ 53"
  shows "double_mag (of_int k) = of_int k"
proof -
  define n where "n = nat (leading 2 (of_int k))"
  have n: "int n = leading 2 (of_int k)" using assms(1) leading_nonneg [of "of_int k" 2] by (simp add: n_def)
  have "(2 :: rat) ^ n \<le> of_int k" using assms(1) leading_le [of "of_int k"] by (simp add: n_def)
  then have "(2 :: int) ^ n \<le> k" by (metis of_int_le_iff of_int_numeral of_int_power)
  with assms(2) have "(2 :: int) ^ n < 2 ^ 53" by linarith
  then have "n < 53" by (rule power_less_imp_less_exp [rotated]) simp
  define d where "d = 52 - n"
  have e: "max (leading 2 (of_int k) - 52) (- 1074) = - int d" using \<open>n < 53\<close> n by (simp add: d_def)
  have s: "scaled 2 (- int d) = 1 / 2 ^ d" by (cases "d = 0") (simp_all add: scaled_def)
  have q: "of_int k / (1 / 2 ^ d) = (of_int (k * 2 ^ d) :: rat)" by simp
  have "double_mag (of_int k) = of_int (k * 2 ^ d) * (1 / 2 ^ d)"
    unfolding double_mag_def Let_def e s q round_even_int by (rule refl)
  then show ?thesis by simp
qed

lemma double_mag_large:
  assumes "2 ^ 53 \<le> x"
  shows "x - x / 2 ^ 52 \<le> double_mag x"
proof -
  have one: "1 \<le> x" using assms by simp
  define n where "n = nat (leading 2 x)"
  have n: "int n = leading 2 x" using leading_nonneg [OF one, of 2] by (simp add: n_def)
  have le: "2 ^ n \<le> x" using leading_le [OF one] by (simp add: n_def)
  have e: "max (leading 2 x - 52) (- 1074) = int n - 52" using n by simp
  define s where "s = scaled 2 (int n - 52)"
  have pos: "0 < s" by (simp add: s_def scaled_pos)
  have small: "s \<le> x / 2 ^ 52"
  proof (cases "52 \<le> n")
    case True
    then have "s = 2 ^ n / 2 ^ 52" by (simp add: s_def scaled_def nat_diff_distrib power_diff)
    then show ?thesis using le by (simp add: divide_right_mono)
  next
    case False
    then have "s \<le> 1" by (simp add: s_def scaled_def)
    then show ?thesis using assms by (simp add: field_simps)
  qed
  have "(x / s - 1) * s \<le> of_int (round_even (x / s)) * s"
    using round_even_above [of "x / s"] pos by (intro mult_right_mono) simp_all
  then have "x - s \<le> double_mag x"
    unfolding double_mag_def Let_def e using pos by (simp add: s_def left_diff_distrib)
  with small show ?thesis by linarith
qed

lemma double_minus [simp]: "double (- x) = - double x"
  by (simp add: double_def)

lemma double_int:
  assumes "\<bar>k\<bar> < 2 ^ 53"
  shows "double (of_int k) = of_int k"
proof -
  consider "k = 0" | "1 \<le> k" | "1 \<le> - k" by linarith
  then show ?thesis
  proof cases
    case 2
    then show ?thesis using assms double_mag_int [of k] by (simp add: double_def)
  next
    case 3
    then show ?thesis using assms double_mag_int [of "- k"] by (simp add: double_def)
  qed (simp add: double_def)
qed

lemma double_int_bounded: "\<bar>double (of_int k)\<bar> \<le> 1000000000000 \<longleftrightarrow> \<bar>k\<bar> \<le> 1000000000000"
proof (cases "\<bar>k\<bar> < 2 ^ 53")
  case True
  then show ?thesis by (simp only: double_int) linarith
next
  case False
  define x where "x = (of_int \<bar>k\<bar> :: rat)"
  have x: "2 ^ 53 \<le> x" using False unfolding x_def by (metis not_le of_int_le_iff of_int_numeral of_int_power)
  have "\<bar>double (of_int k)\<bar> = \<bar>double_mag x\<bar>" using x by (auto simp: double_def x_def abs_if)
  moreover have "1000000000000 < double_mag x" using double_mag_large [OF x] x by (simp add: field_simps)
  ultimately show ?thesis using False by simp
qed

section \<open>Numbers\<close>

datatype pyfloat = Finite rat | Infinite bool | NotNumber

text \<open>The smallest magnitude that rounds to an infinity: half a unit above the largest double.\<close>

definition float_overflow :: rat where
  "float_overflow = 2 ^ 1024 - 2 ^ 970"

lemma float_overflow_code [code]:
  "float_overflow = 179769313486231580793728971405303415079934132710037826936173778980444968292764750946649017977587207096330286416692887910946555547851940402630657488671505820681908902000708383676273854845817711531764475730270069855571366959622842914819860834936475292719074168444365510704342711559699508093042880177904174497792"
  by (simp add: float_overflow_def)

definition float_of :: "rat \<Rightarrow> pyfloat" where
  "float_of r = (if float_overflow \<le> \<bar>r\<bar> then Infinite (r < 0) else Finite (double r))"

fun float_add :: "pyfloat \<Rightarrow> pyfloat \<Rightarrow> pyfloat" where
  "float_add (Finite x) (Finite y) = float_of (x + y)"
| "float_add (Finite x) y = y"
| "float_add (Infinite s) (Infinite t) = (if s = t then Infinite s else NotNumber)"
| "float_add (Infinite s) (Finite y) = Infinite s"
| "float_add _ _ = NotNumber"

fun float_of_decimal :: "decimal \<Rightarrow> pyfloat" where
  "float_of_decimal (Dec m e) = float_of (dec_val (Dec m e))"
| "float_of_decimal (DInf s) = Infinite s"
| "float_of_decimal DNan = NotNumber"

datatype pynum = Integer int | Float pyfloat

text \<open>The number in a value; a bool is an int.\<close>

fun json_number :: "json \<Rightarrow> pynum option" where
  "json_number (JInt n) = Some (Integer n)"
| "json_number (JBool b) = Some (Integer (if b then 1 else 0))"
| "json_number (JFloat d) = Some (Float (float_of_decimal d))"
| "json_number _ = None"

text \<open>An int meeting a float is converted; None is the \<open>OverflowError\<close> of one too large.\<close>

definition int_to_float :: "int \<Rightarrow> pyfloat option" where
  "int_to_float n = (if float_overflow \<le> \<bar>of_int n\<bar> then None else Some (Finite (double (of_int n))))"

fun num_add :: "pynum \<Rightarrow> pynum \<Rightarrow> pynum option" where
  "num_add (Integer m) (Integer n) = Some (Integer (m + n))"
| "num_add (Integer m) (Float y) = map_option (\<lambda>x. Float (float_add x y)) (int_to_float m)"
| "num_add (Float x) (Integer n) = map_option (\<lambda>y. Float (float_add x y)) (int_to_float n)"
| "num_add (Float x) (Float y) = Some (Float (float_add x y))"

text \<open>\<open>math.isfinite\<close>, with the value; an int is first converted, which can overflow.\<close>

fun finite_value :: "pynum \<Rightarrow> rat option" where
  "finite_value (Integer n) = (if float_overflow \<le> \<bar>of_int n\<bar> then None else Some (of_int n))"
| "finite_value (Float (Finite x)) = Some x"
| "finite_value _ = None"

text \<open>\<open>x <= y\<close>, exact between ints and floats, false of NaN.\<close>

fun num_le :: "pynum \<Rightarrow> pynum \<Rightarrow> bool" where
  "num_le (Integer m) (Integer n) = (m \<le> n)"
| "num_le (Float (Finite x)) (Integer n) = (x \<le> of_int n)"
| "num_le (Integer m) (Float (Finite y)) = (of_int m \<le> y)"
| "num_le (Float (Finite x)) (Float (Finite y)) = (x \<le> y)"
| "num_le (Float (Infinite s)) y = (s \<and> y \<noteq> Float NotNumber \<or> y = Float (Infinite False))"
| "num_le x (Float (Infinite s)) = (x \<noteq> Float NotNumber \<and> \<not> s)"
| "num_le _ _ = False"

section \<open>Text\<close>

text \<open>The shortest digits that read back, as in \<open>repr\<close>.\<close>

definition shortest :: "rat \<Rightarrow> decimal" where
  "shortest x =
     (let k = leading 10 x;
          digits = (\<lambda>n. round_even (x / scaled 10 (k - int n + 1)));
          n = (case find (\<lambda>n. double (of_int (digits n) * scaled 10 (k - int n + 1)) = x) [1..<17] of
                 None \<Rightarrow> 17 | Some n \<Rightarrow> n);
          e = k - int n + 1
      in if 0 \<le> e \<and> k < 16 then Dec (digits n * 10 ^ nat (e + 1)) (- 1) else Dec (digits n) e)"

definition float_repr :: "rat \<Rightarrow> string" where
  "float_repr x =
     (if x = 0 then ''0.0'' else if x < 0 then ''-'' @ float_str (shortest (- x)) else float_str (shortest x))"

end
