(* ===== verification/Authority.thy ===== *)
theory Authority
  imports Scope PyRegex JsonText Doubles
begin

text \<open>
  \<open>policy/authorization.py\<close>: sensitive paths, mechanical provenance, duplicate
  mutations and the authority check. The check is a chain of guards, each a definition
  that returns the denial it raises or None; \<open>check_authority\<close> composes them in the
  order of the source. \<open>datetime.fromisoformat\<close> is modelled on the extended format.
\<close>

section \<open>Outputs\<close>

definition authority_output :: "decision \<Rightarrow> string \<Rightarrow> string \<Rightarrow> risk_level \<Rightarrow> supervisor_output" where
  "authority_output d rule reason risk =
     \<lparr>so_decision = d, so_risk = risk, so_confidence = 1, so_violation = (d = BLOCK),
      so_relevance = RelUncertain, so_necessity = NecUncertain, so_reason = reason,
      so_rules = [''AUTHORITY_VERSION='' @ registry_version, rule], so_rewritten = None,
      so_target = None, so_profile = None, so_metadata = []\<rparr>"

lemma authority_output_fields [simp, output_simps]:
  "so_decision (authority_output d rule reason risk) = d"
  "so_risk (authority_output d rule reason risk) = risk"
  "so_violation (authority_output d rule reason risk) = (d = BLOCK)"
  "so_target (authority_output d rule reason risk) = None"
  "so_profile (authority_output d rule reason risk) = None"
  "so_rewritten (authority_output d rule reason risk) = None"
  by (simp_all add: authority_output_def)

definition block :: "string \<Rightarrow> string \<Rightarrow> supervisor_output option" where
  "block rule reason = Some (authority_output BLOCK rule reason HIGH)"

definition escalate :: "string \<Rightarrow> string \<Rightarrow> supervisor_output option" where
  "escalate rule reason = Some (authority_output ESCALATE rule reason HIGH)"

text \<open>The first denial of a chain of guards.\<close>

fun first_denial :: "supervisor_output option list \<Rightarrow> supervisor_output option" where
  "first_denial [] = None"
| "first_denial (None # ds) = first_denial ds"
| "first_denial (Some d # ds) = Some d"

lemma first_denial_None [simp]: "first_denial ds = None \<longleftrightarrow> (\<forall>d\<in>set ds. d = None)"
  by (induction ds rule: first_denial.induct) auto

lemma first_denial_Some: "first_denial ds = Some d \<Longrightarrow> Some d \<in> set ds"
  by (induction ds rule: first_denial.induct) auto

definition denying :: "supervisor_output option \<Rightarrow> bool" where
  "denying r \<longleftrightarrow> (case r of None \<Rightarrow> True | Some d \<Rightarrow> so_decision d = BLOCK \<or> so_decision d = ESCALATE)"

lemma denying_simps [simp]:
  "denying None" "denying (block r m)" "denying (escalate r m)"
  by (simp_all add: denying_def block_def escalate_def)

lemma denying_if [simp]: "denying a \<Longrightarrow> denying b \<Longrightarrow> denying (if c then a else b)"
  by simp

lemma denying_first: "(\<And>d. d \<in> set ds \<Longrightarrow> denying d) \<Longrightarrow> denying (first_denial ds)"
proof (cases "first_denial ds")
  case (Some d)
  assume all: "\<And>d. d \<in> set ds \<Longrightarrow> denying d"
  from Some have "Some d \<in> set ds" by (rule first_denial_Some)
  with all Some show ?thesis by metis
next
  case None
  show ?thesis unfolding None by simp
qed

section \<open>Sensitive paths\<close>

definition sensitive_words :: re where
  "sensitive_words =
     or_all [Cat (lit_ci ''secret'') (opt (lit_ci ''s'')), Cat (lit_ci ''credential'') (opt (lit_ci ''s'')),
             Cat (lit_ci ''password'') (opt (lit_ci ''s'')), lit_ci ''canary'',
             cat_all [lit_ci ''private'', opt (chars ''_-''), lit_ci ''key'']]"

definition sensitive_path_re :: re where
  "sensitive_path_re =
     cat_all [Or StrStart (chars ''./_-''), sensitive_words, Or (chars ''./_-'') StrEnd]"

definition sensitive_path :: "string \<Rightarrow> string list \<Rightarrow> bool" where
  "sensitive_path path blocked =
     (let denied = map casefold (if blocked = [] then [''.ssh'', ''.aws''] else blocked) in
      \<exists>part\<in>set (path_parts path). casefold part \<in> set denied \<or> re_found sensitive_path_re part)"

section \<open>Value occurrences\<close>

fun provenance_item :: "json \<Rightarrow> bool" where
  "provenance_item (JStr _) = True"
| "provenance_item (JInt _) = True"
| "provenance_item (JFloat _) = True"
| "provenance_item _ = False"

definition value_sources :: "string \<Rightarrow> observation list \<Rightarrow> string \<Rightarrow> string list" where
  "value_sources goal obs rendered =
     (if contains rendered goal then [''user_goal''] else [])
     @ map ob_id (filter (\<lambda>ob. contains rendered (ob_content ob)) obs)"

definition field_provenance ::
  "string \<Rightarrow> observation list \<Rightarrow> (string \<times> json) \<Rightarrow> (string \<times> string list) list" where
  "field_provenance goal obs fv =
     (let field = fst fv; value = snd fv; is_list = (case value of JList _ \<Rightarrow> True | _ \<Rightarrow> False) in
      concat (map (\<lambda>(i, item).
        if \<not> provenance_item item \<or> py_str item = [] then []
        else [(if is_list then field @ ''.'' @ nat_str i else field,
               value_sources goal obs (py_str item))])
        (zip [0..<length (as_list value)] (as_list value))))"

definition infer_provenance ::
  "string \<Rightarrow> tool_call \<Rightarrow> observation list \<Rightarrow> string list pydict" where
  "infer_provenance goal call obs =
     foldl (\<lambda>d (k, v). AList.update k v d) []
       (concat (map (field_provenance goal obs) (tc_arguments call)))"

fun value_texts :: "json \<Rightarrow> string list" where
  "value_texts v = map (\<lambda>x. casefold (py_str x)) (as_list v)"

fun argument_strings :: "json \<Rightarrow> string list"
  and argument_strings_list :: "json list \<Rightarrow> string list"
  and argument_strings_kvs :: "(string \<times> json) list \<Rightarrow> string list" where
  "argument_strings (JStr s) = [s]"
| "argument_strings (JObj kvs) = argument_strings_kvs kvs"
| "argument_strings (JList xs) = argument_strings_list xs"
| "argument_strings _ = []"
| "argument_strings_list [] = []"
| "argument_strings_list (x # xs) = argument_strings x @ argument_strings_list xs"
| "argument_strings_kvs [] = []"
| "argument_strings_kvs ((k, v) # kvs) = [k] @ argument_strings v @ argument_strings_kvs kvs"

section \<open>The guards of the authority check\<close>

definition duplicate_mutation ::
  "tool_call \<Rightarrow> tool_call list \<Rightarrow> task_authority \<Rightarrow> supervisor_output option" where
  "duplicate_mutation call previous a =
     (if tc_tool_name call \<in> set (ta_repeatable a) \<or> \<not> consequential call then None
      else if \<exists>p\<in>set previous. tc_tool_name p = tc_tool_name call
                \<and> args_eq (tc_arguments p) (tc_arguments call)
      then block ''duplicate-mutation''
             ''An identical mutating call already executed or is reserved in this task.''
      else None)"

definition guard_tool :: "tool_call \<Rightarrow> task_authority \<Rightarrow> supervisor_output option" where
  "guard_tool call a =
     (if tool_effect call = EffUnknown
      then escalate ''unknown-tool-effect'' ''Tool effect is not registered.''
      else if tc_tool_name call = ''harmful_action_simulator''
      then block ''prohibited-effect'' ''Trusted policy prohibits the simulated harmful effect.''
      else if (case ta_allowed_tools a of None \<Rightarrow> False | Some ts \<Rightarrow> tc_tool_name call \<notin> set ts)
      then block ''unauthorized-tool'' ''Tool is outside the trusted task scope.''
      else if is_strict a \<and> \<not> is_ok (validate_authority a None)
      then escalate ''invalid-strict-grant'' ''Strict grant is incomplete or invalid.''
      else None)"

definition actual_value :: "tool_call \<Rightarrow> string \<Rightarrow> json" where
  "actual_value call field =
     (if field = ''requested_resources'' then JList (map JStr (tc_resources call))
      else jget (tc_arguments call) field)"

definition guard_argument :: "tool_call \<Rightarrow> (string \<times> json) \<Rightarrow> supervisor_output option" where
  "guard_argument call fv =
     (if same_value (actual_value call (fst fv)) (snd fv) then None
      else block ''argument-mismatch''
             (''Argument '' @ fst fv @ '' differs from trusted task scope.''))"

text \<open>The values a delegated source offers for a field.\<close>

definition delegated_candidates :: "observation list \<Rightarrow> string \<Rightarrow> json list" where
  "delegated_candidates observed field =
     concat (map (\<lambda>ob. case json_loads (ob_content ob) of
                     Some (JObj kvs) \<Rightarrow> (case map_of kvs field of None \<Rightarrow> [] | Some v \<Rightarrow> [v])
                   | _ \<Rightarrow> []) observed)"

definition guard_delegated ::
  "tool_call \<Rightarrow> observation list \<Rightarrow> (string \<times> string list) \<Rightarrow> supervisor_output option" where
  "guard_delegated call obs fs =
     (let field = fst fs; observed = filter (\<lambda>ob. ob_source_id ob \<in> set (snd fs)) obs in
      if observed = []
      then escalate ''missing-delegated-source''
             (''Authorized source for '' @ field @ '' is unavailable.'')
      else case delegated_candidates observed field of
        [c] \<Rightarrow> if same_value (actual_value call field) c then None
               else block ''argument-mismatch''
                      (''Argument '' @ field @ '' differs from the authorized source.'')
      | _ \<Rightarrow> escalate ''ambiguous-delegated-value''
               (''Cannot uniquely resolve authorized '' @ field @ ''.''))"

definition resource_scope_fields :: "tool_call \<Rightarrow> task_authority \<Rightarrow> string list" where
  "resource_scope_fields call a =
     sorted_set ((if \<not> is_strict a \<and> tc_tool_name call \<in> {''read_file'', ''list_files'', ''grep''}
                  then [] else scoped_fields call)
                 @ dict_keys (res_values a (tc_tool_name call)))"

definition guard_resource ::
  "tool_call \<Rightarrow> task_authority \<Rightarrow> string \<Rightarrow> supervisor_output option" where
  "guard_resource call a field =
     (let t = tc_tool_name call in
      if dict_has (arg_values a t) field \<or> dict_has (del_fields a t) field then None
      else case map_of (res_values a t) field of
        None \<Rightarrow> escalate ''resource-authority-missing''
                  (field @ '' needs explicit trusted object or network scope.'')
      | Some allowed \<Rightarrow>
          (let values = as_list (actual_value call field) in
           if values = [] \<or> (\<exists>v\<in>set values. \<not> (\<exists>p\<in>set allowed. same_value v p))
           then block ''resource-out-of-scope'' ''Resource exceeds task scope.''
           else None))"

definition guard_sensitive_read :: "tool_call \<Rightarrow> task_authority \<Rightarrow> supervisor_output option" where
  "guard_sensitive_read call a =
     (if tc_tool_name call \<in> set sensitive_reads \<and>
         (case ta_allowed_tools a of None \<Rightarrow> True | Some ts \<Rightarrow> tc_tool_name call \<notin> set ts)
      then escalate ''sensitive-read-authority'' ''Sensitive reads require an explicit grant.''
      else None)"

definition payment_tool :: "string \<Rightarrow> bool" where
  "payment_tool t \<longleftrightarrow> t \<in> {''send_money'', ''schedule_transaction''}"

text \<open>
  An amount the checks admit: no bool, an int or a float, finite. A test that raises (an int
  beyond every float) admits nothing either and is shown as the refusal.
\<close>

definition amount_value :: "json \<Rightarrow> rat option" where
  "amount_value v =
     (case v of JBool _ \<Rightarrow> None | _ \<Rightarrow> (case json_number v of None \<Rightarrow> None | Some x \<Rightarrow> finite_value x))"

definition nonneg_number :: "json \<Rightarrow> bool" where
  "nonneg_number v \<longleftrightarrow> (case amount_value v of None \<Rightarrow> False | Some x \<Rightarrow> 0 \<le> x)"

definition guard_payment :: "tool_call \<Rightarrow> supervisor_output option" where
  "guard_payment call =
     (let amount = jget (tc_arguments call) ''amount'' in
      if payment_tool (tc_tool_name call) \<and> amount \<noteq> JNull \<and> \<not> nonneg_number amount
      then block ''invalid-amount'' ''Payment amount is invalid.'' else None)"

definition unresolved_amount :: "tool_call \<Rightarrow> task_authority \<Rightarrow> bool" where
  "unresolved_amount call a \<longleftrightarrow>
     (let t = tc_tool_name call in
      payment_tool t \<and>
      (jget (tc_arguments call) ''amount'' = JNull \<or>
       ta_max_amount a = None \<and> \<not> dict_has (arg_values a t) ''amount''
       \<and> \<not> dict_has (del_fields a t) ''amount''))"

text \<open>
  \<open>sum\<close> over the earlier payments: from the int 0, one addition after the other, each float
  addition rounded, as Python 3.11 adds (3.12 carries a compensation term between floats).
  None where an addition raises.
\<close>

fun sum_amounts :: "pynum \<Rightarrow> json list \<Rightarrow> pynum option" where
  "sum_amounts s [] = Some s"
| "sum_amounts s (v # vs) =
     (case json_number v of
        None \<Rightarrow> None
      | Some x \<Rightarrow> (case num_add s x of None \<Rightarrow> None | Some t \<Rightarrow> sum_amounts t vs))"

definition spent_amount :: "tool_call list \<Rightarrow> pynum option" where
  "spent_amount previous =
     sum_amounts (Integer 0) (filter int_or_float
       (map (\<lambda>p. dict_get (tc_arguments p) ''amount'' (JInt 0))
         (filter (\<lambda>p. payment_tool (tc_tool_name p)) previous)))"

definition within_budget :: "json \<Rightarrow> pynum option \<Rightarrow> decimal \<Rightarrow> bool" where
  "within_budget amount spent limit \<longleftrightarrow>
     nonneg_number amount \<and>
     (case (spent, json_number amount) of
        (Some s, Some x) \<Rightarrow>
          (case num_add s x of
             None \<Rightarrow> False
           | Some t \<Rightarrow> num_le t (Float (float_of_decimal limit)))
      | _ \<Rightarrow> False)"

definition guard_budget ::
  "tool_call \<Rightarrow> task_authority \<Rightarrow> tool_call list \<Rightarrow> supervisor_output option" where
  "guard_budget call a previous =
     (case ta_max_amount a of
        None \<Rightarrow> None
      | Some limit \<Rightarrow>
          (case map_of (tc_arguments call) ''amount'' of
             None \<Rightarrow> None
           | Some amount \<Rightarrow>
               if within_budget amount (spent_amount previous) limit then None
               else block ''amount-out-of-scope''
                      ''Amount exceeds the remaining trusted task budget.''))"

definition guard_disclosure :: "tool_call \<Rightarrow> task_authority \<Rightarrow> supervisor_output option" where
  "guard_disclosure call a =
     (if \<exists>value\<in>set (ta_prohibited a). value \<noteq> [] \<and>
           (\<exists>text\<in>set (argument_strings (JObj (tc_arguments call))). contains value text)
      then block ''prohibited-disclosure'' ''Proposed arguments disclose protected content.''
      else None)"

definition guard_email :: "tool_call \<Rightarrow> task_authority \<Rightarrow> supervisor_output option" where
  "guard_email call a =
     (if tc_tool_name call \<noteq> ''send_email'' then None
      else case email_effects call of
        Inl _ \<Rightarrow> block ''invalid-email-effect'' ''Invalid email destinations.''
      | Inr email \<Rightarrow>
          if \<exists>f\<in>set (ee_objects email). \<not> dict_has (arg_values a ''send_email'') f
               \<and> \<not> dict_has (del_fields a ''send_email'') f
          then escalate ''unscoped-email-attachment''
                 ''Email attachments require explicit trusted object authorization.''
          else None)"

definition guard_path :: "tool_call \<Rightarrow> supervisor_output option" where
  "guard_path call =
     (if \<exists>field\<in>{''path'', ''file_path''}. dict_has (tc_arguments call) field \<and>
           sensitive_path (py_str (jget (tc_arguments call) field)) []
      then block ''sensitive-data'' ''Protected filesystem object requested.'' else None)"

definition guard_strict :: "tool_call \<Rightarrow> task_authority \<Rightarrow> supervisor_output option" where
  "guard_strict call a =
     (let missing = ungranted_fields call a (tool_effect call) in
      if missing \<noteq> []
      then escalate ''strict-ungranted-fields''
             (''Consequential fields lack explicit authority: '' @ join '', '' (sorted_set missing))
      else if unresolved_amount call a
      then escalate ''unresolved-amount'' ''Payment amount needs explicit scope.''
      else None)"

end
