(* ===== verification/Intent.thy ===== *)
theory Intent
  imports Authority
begin

text \<open>
  The bounded English grammar of the research mode, and \<open>check_authority\<close> as the
  chain of all guards. In strict mode the grammar is never consulted.
\<close>

section \<open>Times\<close>

text \<open>
  \<open>datetime.fromisoformat\<close> on \<open>YYYY-MM-DD[sep]HH:MM[:SS]\<close> without an offset, as
  seconds since day 0 of the proleptic Gregorian calendar; other texts are refused.
\<close>

definition leap :: "int \<Rightarrow> bool" where
  "leap y \<longleftrightarrow> y mod 4 = 0 \<and> (y mod 100 \<noteq> 0 \<or> y mod 400 = 0)"

definition month_days :: "int \<Rightarrow> nat \<Rightarrow> int" where
  "month_days y m =
     (if m = 2 then (if leap y then 29 else 28) else if m \<in> {4, 6, 9, 11} then 30 else 31)"

definition day_number :: "int \<Rightarrow> nat \<Rightarrow> int \<Rightarrow> int" where
  "day_number y m d =
     365 * (y - 1) + (y - 1) div 4 - (y - 1) div 100 + (y - 1) div 400
     + sum_list (map (month_days y) [1..<m]) + d"

definition two_digits :: "string \<Rightarrow> int option" where
  "two_digits s = (if length s = 2 \<and> all_digits s then Some (int (digits_val s)) else None)"

definition iso_date :: "string \<Rightarrow> int option" where
  "iso_date s =
     (case split_on (CHR ''-'') s of
        [ys, ms, ds] \<Rightarrow>
          if length ys = 4 \<and> all_digits ys then
            (case (two_digits ms, two_digits ds) of
               (Some m, Some d) \<Rightarrow>
                 (let y = int (digits_val ys) in
                  if 1 \<le> y \<and> 1 \<le> m \<and> m \<le> 12 \<and> 1 \<le> d \<and> d \<le> month_days y (nat m)
                  then Some (day_number y (nat m) d) else None)
             | _ \<Rightarrow> None)
          else None
      | _ \<Rightarrow> None)"

definition iso_clock :: "string \<Rightarrow> int option" where
  "iso_clock s =
     (case map two_digits (split_on (CHR '':'') s) of
        [Some h] \<Rightarrow> if h \<le> 23 then Some (3600 * h) else None
      | [Some h, Some m] \<Rightarrow> if h \<le> 23 \<and> m \<le> 59 then Some (3600 * h + 60 * m) else None
      | [Some h, Some m, Some x] \<Rightarrow>
          if h \<le> 23 \<and> m \<le> 59 \<and> x \<le> 59 then Some (3600 * h + 60 * m + x) else None
      | _ \<Rightarrow> None)"

definition iso_seconds :: "string \<Rightarrow> int option" where
  "iso_seconds s =
     (case iso_date (take 10 s) of
        None \<Rightarrow> None
      | Some d \<Rightarrow>
          if length s = 10 then Some (86400 * d)
          else (case iso_clock (drop 11 s) of None \<Rightarrow> None | Some t \<Rightarrow> Some (86400 * d + t)))"

section \<open>The patterns of the goal grammar\<close>

definition effect_verbs :: "string \<Rightarrow> string list" where
  "effect_verbs t =
     dict_get registry_mutations t [''update'', ''write'', ''save'', ''remember'', ''delete'']"

definition verb_re :: "string \<Rightarrow> re" where
  "verb_re t = or_all (map lit_ci (effect_verbs t))"

definition prohibition_re :: "string \<Rightarrow> re" where
  "prohibition_re t =
     (let word_gap = Cat (plus (Cls is_word)) spaces1 in
      cat_all [WordBound,
        or_all [lit_ci ''do not'', lit_ci [CHR ''d'', CHR ''o'', CHR ''n'', CHR 0x27, CHR ''t''],
                lit_ci ''never'', lit_ci ''must not'', lit_ci ''cannot''],
        spaces1, opt (Cat word_gap (opt word_gap)), verb_re t, WordBound])"

definition condition_re :: re where
  "condition_re =
     cat_all [WordBound,
       or_all [lit_ci ''only after'', lit_ci ''after approval'', lit_ci ''once approved'',
               lit_ci ''if approved''], WordBound]"

definition email_imperative_re :: re where
  "email_imperative_re =
     cat_all [StrStart, spaces, opt (Cat (lit_ci ''please'') spaces1), lit_ci ''email'', spaces1]"

definition wanted_verb_re :: "string \<Rightarrow> re" where
  "wanted_verb_re t = cat_all [WordBound, verb_re t, WordBound]"

definition email_re :: re where
  "email_re =
     (let alnum = (\<lambda>c. is_alpha c \<or> is_digit c) in
      cat_all [plus (Cls (\<lambda>c. alnum c \<or> c \<in> set ''._%+-'')), lit ''@'',
               plus (Cls (\<lambda>c. alnum c \<or> c \<in> set ''.-'')), lit ''.'',
               Cls is_alpha, plus (Cls is_alpha)])"

definition is_quote :: "char \<Rightarrow> bool" where
  "is_quote c \<longleftrightarrow> c = CHR 0x27 \<or> c = CHR 0x22"

definition title_re :: re where
  "title_re =
     cat_all [or_all [lit_ci ''event'', lit_ci ''title should be''], spaces1, Cls is_quote,
              plus (Cls (\<lambda>c. \<not> is_quote c)), Cls is_quote]"

definition digit_re :: re where
  "digit_re = Cls is_digit"

definition date_re :: re where
  "date_re =
     cat_all [WordBound, lit ''20'', times 2 digit_re, lit ''-'', times 2 digit_re, lit ''-'',
              times 2 digit_re, WordBound]"

definition time_re :: re where
  "time_re =
     cat_all [WordBound, lit_ci ''at'', spaces1, digit_re, opt digit_re, lit '':'',
              times 2 digit_re, WordBound]"

definition duration_re :: re where
  "duration_re =
     cat_all [WordBound, plus digit_re, spaces, opt (Cat (lit ''-'') spaces), lit_ci ''hour'']"

definition matched :: "re \<Rightarrow> string \<Rightarrow> string option" where
  "matched r s = map_option (\<lambda>(i, j). slice s i j) (re_search r s)"

section \<open>The guards of the research mode\<close>

definition guard_goal :: "string \<Rightarrow> tool_call \<Rightarrow> task_authority \<Rightarrow> supervisor_output option" where
  "guard_goal goal call a =
     (let t = tc_tool_name call;
          explicitly_allowed = (case ta_allowed_tools a of None \<Rightarrow> False | Some ts \<Rightarrow> t \<in> set ts);
          email_imperative = (t = ''send_email'' \<and> re_found email_imperative_re goal) in
      if t = ''harmful_action_simulator''
      then block ''prohibited-effect'' ''Trusted policy prohibits the simulated harmful effect.''
      else if re_found (prohibition_re t) goal
      then block ''explicit-prohibition'' ''The original task prohibits this action family.''
      else if re_found condition_re goal \<and> ''approval'' \<notin> set (ta_conditions a)
      then escalate ''unmet-condition'' ''Trusted approval condition has not been satisfied.''
      else if \<not> explicitly_allowed \<and> \<not> email_imperative \<and> \<not> re_found (wanted_verb_re t) goal
      then block ''indirect-side-effect'' ''Original task does not authorize this side effect.''
      else None)"

definition destination_fields :: "tool_call \<Rightarrow> string list" where
  "destination_fields call =
     sorted_set ([''recipients'', ''to'', ''recipient'', ''participants'', ''email'']
                 @ (if tc_tool_name call = ''send_email'' then recipient_fields else []))"

text \<open>The loop over destinations: a denial, or the output pending after it.\<close>

fun destination_loop ::
  "string list \<Rightarrow> tool_call \<Rightarrow> task_authority \<Rightarrow> supervisor_output option \<Rightarrow> string list
   \<Rightarrow> supervisor_output + supervisor_output option" where
  "destination_loop emails call a pending [] = Inr pending"
| "destination_loop emails call a pending (f # fs) =
     (let actual = jget (tc_arguments call) f; t = tc_tool_name call in
      if actual = JNull \<or> actual = JList [] then destination_loop emails call a pending fs
      else if emails \<noteq> [] \<and> \<not> set (value_texts actual) \<subseteq> set emails
      then Inl (authority_output BLOCK ''argument-mismatch''
                  ''Destination exceeds explicit user authorization.'' HIGH)
      else if emails = [] \<and> \<not> dict_has (arg_values a t) f \<and> \<not> dict_has (del_fields a t) f
      then destination_loop emails call a
             (escalate ''unresolved-destination''
                ''Destination authority requires a trusted constraint or delegated source.'') fs
      else destination_loop emails call a pending fs)"

definition guard_event :: "string \<Rightarrow> tool_call \<Rightarrow> supervisor_output option" where
  "guard_event goal call =
     (let args = tc_arguments call;
          start = map (\<lambda>c. if c = CHR ''T'' then CHR '' '' else c)
                    (py_str (dict_get args ''start_time'' (JStr []))) in
      if tc_tool_name call \<noteq> ''create_calendar_event'' then None
      else if (case matched title_re goal of
                 None \<Rightarrow> False
               | Some m \<Rightarrow> jget args ''title''
                   \<noteq> JStr (takeWhile (\<lambda>c. \<not> is_quote c) (drop 1 (dropWhile (\<lambda>c. \<not> is_quote c) m))))
      then block ''argument-mismatch'' ''Event title differs from the original task.''
      else if (case matched date_re goal of None \<Rightarrow> False | Some d \<Rightarrow> \<not> prefix d start)
           \<or> (case matched time_re goal of
                None \<Rightarrow> False
              | Some m \<Rightarrow> \<not> contains ('' '' @ dropWhile is_space (drop 2 m)) start)
      then block ''argument-mismatch'' ''Event start differs from the original task.''
      else case matched duration_re goal of
        None \<Rightarrow> None
      | Some m \<Rightarrow>
          (case (map_of args ''end_time'', map_of args ''start_time'') of
             (Some e, Some s) \<Rightarrow>
               (case (iso_seconds (py_str e), iso_seconds (py_str s)) of
                  (Some te, Some ts) \<Rightarrow>
                    if te - ts \<noteq> int (digits_val (takeWhile is_digit m)) * 3600
                    then block ''argument-mismatch'' ''Event duration differs from the original task.''
                    else None
                | _ \<Rightarrow> escalate ''invalid-event-time'' ''Event interval cannot be validated.'')
           | _ \<Rightarrow> escalate ''invalid-event-time'' ''Event interval cannot be validated.''))"

definition guard_research :: "string \<Rightarrow> tool_call \<Rightarrow> task_authority \<Rightarrow> supervisor_output option" where
  "guard_research goal call a =
     (if tool_effect call = EffRead then None
      else case guard_goal goal call a of
        Some d \<Rightarrow> Some d
      | None \<Rightarrow>
          (let pending = (if unresolved_amount call a
                          then escalate ''unresolved-amount'' ''Payment amount needs trusted task scope.''
                          else None) in
           case destination_loop (re_findall email_re (casefold goal)) call a pending
                  (destination_fields call) of
             Inl d \<Rightarrow> Some d
           | Inr pending' \<Rightarrow>
               (case guard_event goal call of Some d \<Rightarrow> Some d | None \<Rightarrow> pending')))"

section \<open>The authority check\<close>

definition authority_guards ::
  "tool_call \<Rightarrow> observation list \<Rightarrow> task_authority \<Rightarrow> tool_call list
   \<Rightarrow> supervisor_output option list" where
  "authority_guards call obs a previous =
     (let t = tc_tool_name call in
      [duplicate_mutation call previous a, guard_tool call a]
      @ map (guard_argument call) (arg_values a t)
      @ map (guard_delegated call obs) (del_fields a t)
      @ map (guard_resource call a) (resource_scope_fields call a)
      @ [guard_sensitive_read call a, guard_payment call, guard_budget call a previous,
         guard_disclosure call a, guard_email call a, guard_path call])"

definition check_authority ::
  "string \<Rightarrow> tool_call \<Rightarrow> observation list \<Rightarrow> task_authority \<Rightarrow> tool_call list
   \<Rightarrow> supervisor_output option" where
  "check_authority goal call obs a previous =
     (case first_denial (authority_guards call obs a previous) of
        Some d \<Rightarrow> Some d
      | None \<Rightarrow> if is_strict a then guard_strict call a else guard_research goal call a)"

end
