(* ===== verification/StrictSpec.thy ===== *)
theory StrictSpec
  imports Intent
begin

text \<open>
  What the strict mode of \<open>check_authority\<close> promises, stated without its guards, and
  the proof that the chain of guards decides exactly that.
\<close>

section \<open>When each guard passes\<close>

lemma block_not_None [simp]: "block r m \<noteq> None" "escalate r m \<noteq> None"
  by (simp_all add: block_def escalate_def)

lemma if_denial_None [simp]:
  "(if c then block r m else d) = None \<longleftrightarrow> \<not> c \<and> d = None"
  "(if c then escalate r m else d) = None \<longleftrightarrow> \<not> c \<and> d = None"
  "(if c then None else block r m) = None \<longleftrightarrow> c"
  by simp_all

definition repeats :: "tool_call \<Rightarrow> tool_call list \<Rightarrow> bool" where
  "repeats call previous \<longleftrightarrow>
     (\<exists>p\<in>set previous. tc_tool_name p = tc_tool_name call \<and> args_eq (tc_arguments p) (tc_arguments call))"

lemma duplicate_mutation_None:
  "duplicate_mutation call previous a = None \<longleftrightarrow>
   (consequential call \<longrightarrow> tc_tool_name call \<notin> set (ta_repeatable a) \<longrightarrow> \<not> repeats call previous)"
  by (auto simp: duplicate_mutation_def repeats_def)

lemma guard_tool_None:
  "is_strict a \<Longrightarrow> guard_tool call a = None \<longleftrightarrow>
   tool_effect call \<noteq> EffUnknown \<and> tc_tool_name call \<noteq> ''harmful_action_simulator'' \<and>
   (\<exists>ts. ta_allowed_tools a = Some ts \<and> tc_tool_name call \<in> set ts) \<and> well_formed_grant a None"
  by (auto simp: guard_tool_def validate_authority_iff is_ok_iff well_formed_grant_def[of a None]
           split: option.splits)

lemma guard_argument_None: "guard_argument call fv = None \<longleftrightarrow> same_value (actual_value call (fst fv)) (snd fv)"
  by (simp add: guard_argument_def)

lemma delegated_candidates_Nil [simp]: "delegated_candidates [] field = []"
  by (simp add: delegated_candidates_def)

lemma delegated_candidates_cases:
  obtains (none) "xs = []" | (one) v where "xs = [v]" | (more) v w ws where "xs = v # w # ws"
  by (metis list.exhaust)

lemma guard_delegated_None:
  "guard_delegated call obs fs = None \<longleftrightarrow>
   (\<exists>v. delegated_candidates (filter (\<lambda>ob. ob_source_id ob \<in> set (snd fs)) obs) (fst fs) = [v]
        \<and> same_value (actual_value call (fst fs)) v)"
proof -
  define observed where "observed = filter (\<lambda>ob. ob_source_id ob \<in> set (snd fs)) obs"
  show ?thesis
    unfolding guard_delegated_def Let_def observed_def[symmetric]
    by (cases "delegated_candidates observed (fst fs)" rule: delegated_candidates_cases)
       auto
qed

definition in_resource_scope :: "tool_call \<Rightarrow> task_authority \<Rightarrow> string \<Rightarrow> bool" where
  "in_resource_scope call a f \<longleftrightarrow>
     (\<exists>allowed. map_of (res_values a (tc_tool_name call)) f = Some allowed \<and>
        as_list (actual_value call f) \<noteq> [] \<and>
        (\<forall>v\<in>set (as_list (actual_value call f)). \<exists>p\<in>set allowed. same_value v p))"

lemma guard_resource_None:
  "guard_resource call a f = None \<longleftrightarrow>
   dict_has (arg_values a (tc_tool_name call)) f \<or> dict_has (del_fields a (tc_tool_name call)) f
   \<or> in_resource_scope call a f"
  by (auto simp: guard_resource_def in_resource_scope_def Let_def split: option.splits)

lemma guard_sensitive_read_None:
  "guard_sensitive_read call a = None \<longleftrightarrow>
   (tc_tool_name call \<in> set sensitive_reads \<longrightarrow>
    (\<exists>ts. ta_allowed_tools a = Some ts \<and> tc_tool_name call \<in> set ts))"
  by (auto simp: guard_sensitive_read_def split: option.splits)

lemma nonneg_number_iff: "nonneg_number v \<longleftrightarrow> (\<exists>x. amount_value v = Some x \<and> 0 \<le> x)"
  by (auto simp: nonneg_number_def split: option.splits)

lemma guard_payment_None:
  "guard_payment call = None \<longleftrightarrow>
   (payment_tool (tc_tool_name call) \<longrightarrow> jget (tc_arguments call) ''amount'' \<noteq> JNull \<longrightarrow>
    (\<exists>x. amount_value (jget (tc_arguments call) ''amount'') = Some x \<and> 0 \<le> x))"
  by (auto simp: guard_payment_def nonneg_number_iff Let_def)

text \<open>Additions in the order of the calls, each one defined.\<close>

inductive sums_to :: "pynum \<Rightarrow> json list \<Rightarrow> pynum \<Rightarrow> bool" where
  none_left: "sums_to s [] s"
| one_more: "json_number v = Some x \<Longrightarrow> num_add s x = Some t \<Longrightarrow> sums_to t vs u \<Longrightarrow> sums_to s (v # vs) u"

inductive_simps sums_to_simps: "sums_to s [] u" "sums_to s (v # vs) u"

lemma sum_amounts_iff: "sum_amounts s vs = Some u \<longleftrightarrow> sums_to s vs u"
proof (induction s vs rule: sum_amounts.induct)
  case (1 s)
  show ?case by (auto simp: sums_to_simps)
next
  case (2 s v vs)
  show ?case
  proof (cases "json_number v")
    case None
    then show ?thesis by (simp add: sums_to_simps)
  next
    case (Some x)
    then show ?thesis using 2 by (cases "num_add s x") (simp_all add: sums_to_simps)
  qed
qed

definition earlier_amounts :: "tool_call list \<Rightarrow> json list" where
  "earlier_amounts previous =
     concat (map (\<lambda>p. if tc_tool_name p = ''send_money'' \<or> tc_tool_name p = ''schedule_transaction''
       then (case map_of (tc_arguments p) ''amount'' of
               None \<Rightarrow> [JInt 0]
             | Some v \<Rightarrow> if \<exists>x. json_number v = Some x then [v] else [])
       else []) previous)"

lemma int_or_float_iff: "int_or_float v \<longleftrightarrow> (\<exists>x. json_number v = Some x)"
  by (cases v) auto

lemma earlier_amounts_eq:
  "filter int_or_float
     (map (\<lambda>p. dict_get (tc_arguments p) ''amount'' (JInt 0))
       (filter (\<lambda>p. payment_tool (tc_tool_name p)) previous)) = earlier_amounts previous"
  by (induction previous)
     (auto simp: earlier_amounts_def payment_tool_def dict_get_def int_or_float_iff split: option.split)

text \<open>
  The payment fits the budget: the earlier amounts add up, the amount added to them stays at or
  below the limit, in the arithmetic of the numbers that occur.
\<close>

definition budget_holds :: "json \<Rightarrow> tool_call list \<Rightarrow> decimal \<Rightarrow> bool" where
  "budget_holds amount previous limit \<longleftrightarrow>
     (\<exists>x n s t. amount_value amount = Some x \<and> 0 \<le> x \<and> json_number amount = Some n
        \<and> sums_to (Integer 0) (earlier_amounts previous) s \<and> num_add s n = Some t
        \<and> num_le t (Float (float_of_decimal limit)))"

lemma within_budget_iff: "within_budget amount (spent_amount previous) limit \<longleftrightarrow> budget_holds amount previous limit"
  unfolding within_budget_def budget_holds_def spent_amount_def earlier_amounts_eq nonneg_number_iff
    sum_amounts_iff[symmetric]
  by (auto split: option.splits)

lemma guard_budget_None:
  "guard_budget call a previous = None \<longleftrightarrow>
   (\<forall>limit amount. ta_max_amount a = Some limit \<longrightarrow> map_of (tc_arguments call) ''amount'' = Some amount
      \<longrightarrow> budget_holds amount previous limit)"
  by (auto simp: guard_budget_def within_budget_iff split: option.splits)

text \<open>The texts of a value: strings, keys, and those within lists and objects.\<close>

inductive text_within :: "json \<Rightarrow> string \<Rightarrow> bool" where
  itself: "text_within (JStr s) s"
| element: "x \<in> set xs \<Longrightarrow> text_within x s \<Longrightarrow> text_within (JList xs) s"
| key: "(k, v) \<in> set kvs \<Longrightarrow> text_within (JObj kvs) k"
| member: "(k, v) \<in> set kvs \<Longrightarrow> text_within v s \<Longrightarrow> text_within (JObj kvs) s"

inductive_simps text_within_simps [simp]:
  "text_within JNull s" "text_within (JBool b) s" "text_within (JInt n) s" "text_within (JFloat d) s"
  "text_within (JStr t) s" "text_within (JList xs) s" "text_within (JObj kvs) s"

lemma argument_strings_iff:
  "w \<in> set (argument_strings v) \<longleftrightarrow> text_within v w"
  "w \<in> set (argument_strings_list xs) \<longleftrightarrow> (\<exists>x\<in>set xs. text_within x w)"
  "w \<in> set (argument_strings_kvs kvs) \<longleftrightarrow> (\<exists>(k, v)\<in>set kvs. w = k \<or> text_within v w)"
  by (induction v and xs and kvs rule: argument_strings_argument_strings_list_argument_strings_kvs.induct)
     auto

definition discloses :: "tool_call \<Rightarrow> string \<Rightarrow> bool" where
  "discloses call w \<longleftrightarrow> w \<noteq> [] \<and> (\<exists>s. text_within (JObj (tc_arguments call)) s \<and> contains w s)"

lemma guard_disclosure_None:
  "guard_disclosure call a = None \<longleftrightarrow> (\<forall>w\<in>set (ta_prohibited a). \<not> discloses call w)"
  unfolding guard_disclosure_def discloses_def argument_strings_iff(1)[symmetric] by auto

lemma guard_email_None:
  "guard_email call a = None \<longleftrightarrow>
   (tc_tool_name call = ''send_email'' \<longrightarrow>
    (\<exists>e. email_effects call = Inr e \<and>
      (\<forall>f\<in>set (ee_objects e). dict_has (arg_values a ''send_email'') f \<or> dict_has (del_fields a ''send_email'') f)))"
  by (auto simp: guard_email_def split: sum.splits)

definition names_sensitive_path :: "tool_call \<Rightarrow> bool" where
  "names_sensitive_path call \<longleftrightarrow>
     (\<exists>f\<in>{''path'', ''file_path''}. dict_has (tc_arguments call) f
        \<and> sensitive_path (py_str (jget (tc_arguments call) f)) [])"

lemma guard_path_None: "guard_path call = None \<longleftrightarrow> \<not> names_sensitive_path call"
  by (simp add: guard_path_def names_sensitive_path_def)

text \<open>
  The fields of a call that need a grant: the arguments of a mutating or command tool and the
  requested resources, save the empty optional fields of an email; and those that have one.
\<close>

definition needs_grant :: "tool_call \<Rightarrow> string \<Rightarrow> bool" where
  "needs_grant call f \<longleftrightarrow>
     ((tool_effect call = EffMutate \<or> tool_effect call = EffCommand) \<and> f \<in> fst ` set (tc_arguments call)
      \<or> f = ''requested_resources'' \<and> tc_resources call \<noteq> [])
     \<and> \<not> (tc_tool_name call = ''send_email'' \<and> f \<in> {''cc'', ''bcc'', ''attachments''}
          \<and> (\<forall>v. map_of (tc_arguments call) f = Some v \<longrightarrow> v = JNull \<or> v = JList [] \<or> v = JObj []))"

definition has_grant :: "tool_call \<Rightarrow> task_authority \<Rightarrow> string \<Rightarrow> bool" where
  "has_grant call a f \<longleftrightarrow>
     granted_field a (tc_tool_name call) f
     \<or> f = ''amount'' \<and> ta_max_amount a \<noteq> None
       \<and> (tc_tool_name call = ''send_money'' \<or> tc_tool_name call = ''schedule_transaction'')"

lemma consequential_fields_iff: "f \<in> set (consequential_fields call (tool_effect call)) \<longleftrightarrow> needs_grant call f"
  by (auto simp: consequential_fields_def needs_grant_def empty_email_option_def jget_def dict_get_def
      dict_keys_def split: option.splits)

lemma explicit_fields_iff: "f \<in> set (explicit_fields call a) \<longleftrightarrow> has_grant call a f"
  unfolding explicit_fields_def has_grant_def Let_def set_append Un_iff granted_field_groups by auto

text \<open>A payment names its amount and something in the grant limits it.\<close>

definition amount_resolved :: "tool_call \<Rightarrow> task_authority \<Rightarrow> bool" where
  "amount_resolved call a \<longleftrightarrow>
     (\<exists>v. map_of (tc_arguments call) ''amount'' = Some v \<and> v \<noteq> JNull) \<and>
     (ta_max_amount a \<noteq> None \<or> ''amount'' \<in> fst ` set (arg_values a (tc_tool_name call))
      \<or> ''amount'' \<in> fst ` set (del_fields a (tc_tool_name call)))"

lemma unresolved_amount_iff:
  "\<not> unresolved_amount call a \<longleftrightarrow> (payment_tool (tc_tool_name call) \<longrightarrow> amount_resolved call a)"
  by (auto simp: unresolved_amount_def amount_resolved_def Let_def jget_def dict_get_def dict_has_def
      dict_keys_def split: option.splits)

lemma guard_strict_None:
  "guard_strict call a = None \<longleftrightarrow>
   (\<forall>f. needs_grant call f \<longrightarrow> has_grant call a f)
   \<and> (payment_tool (tc_tool_name call) \<longrightarrow> amount_resolved call a)"
  unfolding guard_strict_def Let_def unresolved_amount_iff[symmetric]
    consequential_fields_iff[symmetric] explicit_fields_iff[symmetric]
  by (auto simp: ungranted_none_iff)

lemmas guards_None =
  duplicate_mutation_None guard_argument_None guard_delegated_None
  guard_resource_None guard_sensitive_read_None guard_payment_None guard_budget_None
  guard_disclosure_None guard_email_None guard_path_None guard_strict_None

section \<open>The specification\<close>

text \<open>A call the strict grant authorises, given the observations and the calls made so far.\<close>

definition strictly_authorised ::
  "tool_call \<Rightarrow> observation list \<Rightarrow> task_authority \<Rightarrow> tool_call list \<Rightarrow> bool" where
  "strictly_authorised call obs a previous \<longleftrightarrow>
     (let t = tc_tool_name call in
      well_formed_grant a None
      \<and> (\<exists>ts. ta_allowed_tools a = Some ts \<and> t \<in> set ts)
      \<and> tool_effect call \<noteq> EffUnknown \<and> t \<noteq> ''harmful_action_simulator''
      \<and> (consequential call \<longrightarrow> t \<notin> set (ta_repeatable a) \<longrightarrow> \<not> repeats call previous)
      \<and> (\<forall>fv\<in>set (arg_values a t). same_value (actual_value call (fst fv)) (snd fv))
      \<and> (\<forall>fs\<in>set (del_fields a t). \<exists>v.
           delegated_candidates (filter (\<lambda>ob. ob_source_id ob \<in> set (snd fs)) obs) (fst fs) = [v]
           \<and> same_value (actual_value call (fst fs)) v)
      \<and> (\<forall>f. f \<in> set (scoped_fields call) \<or> f \<in> fst ` set (res_values a t) \<longrightarrow>
           dict_has (arg_values a t) f \<or> dict_has (del_fields a t) f \<or> in_resource_scope call a f)
      \<and> (payment_tool t \<longrightarrow> jget (tc_arguments call) ''amount'' \<noteq> JNull \<longrightarrow>
           (\<exists>x. amount_value (jget (tc_arguments call) ''amount'') = Some x \<and> 0 \<le> x))
      \<and> (\<forall>limit amount. ta_max_amount a = Some limit \<longrightarrow>
           map_of (tc_arguments call) ''amount'' = Some amount \<longrightarrow>
           budget_holds amount previous limit)
      \<and> (\<forall>w\<in>set (ta_prohibited a). \<not> discloses call w)
      \<and> (t = ''send_email'' \<longrightarrow> (\<exists>e. email_effects call = Inr e \<and>
           (\<forall>f\<in>set (ee_objects e).
              dict_has (arg_values a ''send_email'') f \<or> dict_has (del_fields a ''send_email'') f)))
      \<and> \<not> names_sensitive_path call
      \<and> (\<forall>f. needs_grant call f \<longrightarrow> has_grant call a f)
      \<and> (payment_tool t \<longrightarrow> amount_resolved call a))"

lemma guard_tool_sensitive:
  "is_strict a \<Longrightarrow> guard_tool call a = None \<Longrightarrow> guard_sensitive_read call a = None"
  by (simp add: guard_tool_None guard_sensitive_read_None)

lemma authority_guards_None:
  assumes strict: "is_strict a"
  shows "(\<forall>d\<in>set (authority_guards call obs a previous). d = None) \<longleftrightarrow>
    guard_tool call a = None \<and> duplicate_mutation call previous a = None
    \<and> (\<forall>fv\<in>set (arg_values a (tc_tool_name call)). guard_argument call fv = None)
    \<and> (\<forall>fs\<in>set (del_fields a (tc_tool_name call)). guard_delegated call obs fs = None)
    \<and> (\<forall>f\<in>set (resource_scope_fields call a). guard_resource call a f = None)
    \<and> guard_payment call = None \<and> guard_budget call a previous = None
    \<and> guard_disclosure call a = None \<and> guard_email call a = None \<and> guard_path call = None"
  unfolding authority_guards_def Let_def
  using guard_tool_sensitive[OF strict, of call] by auto

lemma resource_fields_strict:
  "is_strict a \<Longrightarrow> (\<forall>f\<in>set (resource_scope_fields call a). P f) \<longleftrightarrow>
   (\<forall>f. f \<in> set (scoped_fields call) \<or> f \<in> fst ` set (res_values a (tc_tool_name call)) \<longrightarrow> P f)"
  by (auto simp: resource_scope_fields_def dict_keys_def)

lemma check_authority_strict:
  assumes strict: "is_strict a"
  shows "check_authority goal call obs a previous = None \<longleftrightarrow> strictly_authorised call obs a previous"
proof -
  have "check_authority goal call obs a previous = None \<longleftrightarrow>
    (\<forall>d\<in>set (authority_guards call obs a previous). d = None) \<and> guard_strict call a = None"
    using strict
    by (cases "first_denial (authority_guards call obs a previous)")
       (auto simp: check_authority_def first_denial_None[symmetric] simp del: first_denial_None)
  also have "\<dots> \<longleftrightarrow> strictly_authorised call obs a previous"
    unfolding authority_guards_None[OF strict] guards_None guard_tool_None[OF strict]
      strictly_authorised_def Let_def resource_fields_strict[OF strict]
    by (simp only: conj_ac)
  finally show ?thesis .
qed

section \<open>Denials\<close>

lemma authority_guards_denying:
  "d \<in> set (authority_guards call obs a previous) \<Longrightarrow> denying d"
  by (auto simp: authority_guards_def Let_def duplicate_mutation_def guard_tool_def guard_argument_def
      guard_delegated_def guard_resource_def guard_sensitive_read_def guard_payment_def
      guard_budget_def guard_disclosure_def guard_email_def guard_path_def
      split: option.split list.split sum.split)

lemma destination_loop_denying:
  "denying p \<Longrightarrow>
   (\<forall>d. destination_loop es call a p fs = Inl d \<longrightarrow> denying (Some d)) \<and>
   (\<forall>q. destination_loop es call a p fs = Inr q \<longrightarrow> denying q)"
proof (induction fs arbitrary: p)
  case Nil
  then show ?case by simp
next
  case (Cons f fs)
  have deny: "denying (Some (authority_output BLOCK r m HIGH))" for r m by (simp add: denying_def)
  show ?case
    unfolding destination_loop.simps Let_def
    using Cons.IH[OF Cons.prems] Cons.IH[OF denying_simps(3)] deny
    by (simp split: if_split)
qed

lemma guard_goal_denying: "denying (guard_goal goal call a)"
  by (auto simp: guard_goal_def Let_def)

lemma guard_event_denying: "denying (guard_event goal call)"
  by (auto simp: guard_event_def Let_def split: option.split)

lemma guard_research_denying: "denying (guard_research goal call a)"
proof -
  define p where "p = (if unresolved_amount call a
      then escalate ''unresolved-amount'' ''Payment amount needs trusted task scope.'' else None)"
  have "denying p" by (simp add: p_def)
  from destination_loop_denying[OF this] show ?thesis
    unfolding guard_research_def Let_def p_def[symmetric]
    using guard_goal_denying[of goal call a] guard_event_denying[of goal call]
    by (auto split: option.split sum.split)
qed

lemma check_authority_denying: "denying (check_authority goal call obs a previous)"
proof (cases "first_denial (authority_guards call obs a previous)")
  case None
  have "denying (guard_strict call a)" by (simp add: guard_strict_def Let_def)
  with guard_research_denying show ?thesis unfolding check_authority_def None by simp
next
  case (Some d)
  have "denying (first_denial (authority_guards call obs a previous))"
    by (rule denying_first, rule authority_guards_denying)
  then show ?thesis unfolding check_authority_def Some by simp
qed

lemma check_authority_decision:
  "check_authority goal call obs a previous = Some d \<Longrightarrow> so_decision d = BLOCK \<or> so_decision d = ESCALATE"
  using check_authority_denying[of goal call obs a previous] by (simp add: denying_def)

end
