(* ===== verification/Kernel.thy ===== *)
theory Kernel
  imports StrictSpec
begin

text \<open>
  The second half of \<open>policy/kernel.py\<close> (the compiled authority) and the schema
  validation of \<open>supervisor/contracts.py\<close> it calls. \<open>schema_ok\<close> is the JSON-schema
  validator (third party): it holds when \<open>check_schema\<close> and \<open>validate\<close> return.
  \<open>sha\<close> is the digest of a document, \<open>fingerprint\<close> the digest of a grant with its schemas.
  The compiled authority keeps the values whose JSON text the code keeps.
\<close>

section \<open>Argument validation\<close>

definition ref_keywords :: "string list" where
  "ref_keywords = [''$ref'', ''$dynamicRef'', ''$recursiveRef'']"

definition remote_ref :: "json pydict \<Rightarrow> bool" where
  "remote_ref kvs \<longleftrightarrow>
     (\<exists>k\<in>set ref_keywords. dict_has kvs k \<and> \<not> prefix ''#'' (py_str (jget kvs k)))"

fun remote_refs :: "json \<Rightarrow> bool"
  and remote_refs_list :: "json list \<Rightarrow> bool"
  and remote_refs_kvs :: "(string \<times> json) list \<Rightarrow> bool" where
  "remote_refs (JObj kvs) = (remote_ref kvs \<or> remote_refs_kvs kvs)"
| "remote_refs (JList xs) = remote_refs_list xs"
| "remote_refs _ = False"
| "remote_refs_list [] = False"
| "remote_refs_list (x # xs) = (remote_refs x \<or> remote_refs_list xs)"
| "remote_refs_kvs [] = False"
| "remote_refs_kvs ((k, v) # kvs) = (remote_refs v \<or> remote_refs_kvs kvs)"

definition validate_arguments ::
  "(json pydict \<Rightarrow> json pydict \<Rightarrow> bool) \<Rightarrow> json pydict \<Rightarrow> json pydict \<Rightarrow> unit result" where
  "validate_arguments schema_ok args schema =
     (if remote_refs (JObj schema)
      then Inl (SupervisorSchemaError ''external schema references are not supported'')
      else if \<not> schema_ok schema args
      then Inl (SupervisorSchemaError ''tool arguments failed JSON schema validation'')
      else
        (let properties = jget schema ''properties'' in
         if truthy properties \<and> \<not> set (dict_keys args) \<subseteq> set (dict_keys (json_sub properties))
         then Inl (SupervisorSchemaError ''tool arguments contain unknown keys'')
         else Inr ()))"

lemma validate_arguments_iff:
  "validate_arguments schema_ok args schema = Inr () \<longleftrightarrow>
   \<not> remote_refs (JObj schema) \<and> schema_ok schema args \<and>
   (truthy (jget schema ''properties'') \<longrightarrow>
      set (dict_keys args) \<subseteq> set (dict_keys (json_sub (jget schema ''properties''))))"
  by (auto simp: validate_arguments_def Let_def)

section \<open>The compiled authority\<close>

record compiled_authority =
  ca_scope :: task_authority
  ca_schemas :: "json pydict pydict"
  ca_digest :: string

definition serialisable :: "task_authority \<Rightarrow> json pydict pydict \<Rightarrow> bool" where
  "serialisable a schemas \<longleftrightarrow>
     canon (JObj (map (\<lambda>(t, vs). (t, JObj vs)) (ta_argument_values a))) \<noteq> None \<and>
     canon (JObj (map (\<lambda>(t, fs). (t, JObj (map (\<lambda>(f, vs). (f, JList vs)) fs))) (ta_resource_values a))) \<noteq> None \<and>
     canon (JObj (map (\<lambda>(t, s). (t, JObj s)) schemas)) \<noteq> None"

definition compile_authority ::
  "(task_authority \<Rightarrow> json pydict pydict \<Rightarrow> string) \<Rightarrow> task_authority \<Rightarrow> json pydict pydict
   \<Rightarrow> compiled_authority result" where
  "compile_authority fingerprint a schemas =
     (case validate_authority a (Some schemas) of
        Inl e \<Rightarrow> Inl e
      | Inr _ \<Rightarrow>
          if \<not> serialisable a schemas
          then Inl (ValueError ''Out of range float values are not JSON compliant'')
          else Inr \<lparr>ca_scope = a, ca_schemas = schemas, ca_digest = fingerprint a schemas\<rparr>)"

definition normalize_read ::
  "(json \<Rightarrow> string) \<Rightarrow> compiled_authority \<Rightarrow> tool_call \<Rightarrow> tool_call result" where
  "normalize_read sha ca call =
     (if tool_effect call = EffRead then
        (case map_of (ca_schemas ca) (tc_tool_name call) of
           None \<Rightarrow> Inl (KeyError (tc_tool_name call))
         | Some schema \<Rightarrow> scoped_read_call sha call schema)
      else Inr call)"

definition evaluate_authority ::
  "(json \<Rightarrow> string) \<Rightarrow> (json pydict \<Rightarrow> json pydict \<Rightarrow> bool) \<Rightarrow> compiled_authority \<Rightarrow> string
   \<Rightarrow> tool_call \<Rightarrow> observation list \<Rightarrow> tool_call list \<Rightarrow> supervisor_output" where
  "evaluate_authority sha schema_ok ca goal call obs previous =
     (case map_of (ca_schemas ca) (tc_tool_name call) of
        None \<Rightarrow> authority_output ESCALATE ''strict-unknown-schema'' ''Tool schema is unavailable.'' HIGH
      | Some schema \<Rightarrow>
          (case validate_arguments schema_ok (tc_arguments call) schema of
             Inl _ \<Rightarrow> authority_output ESCALATE ''strict-invalid-schema''
                        ''Arguments fail tool schema.'' HIGH
           | Inr _ \<Rightarrow>
               (case (if tool_effect call = EffRead then scoped_read_call sha call schema else Inr call) of
                  Inl _ \<Rightarrow> authority_output ESCALATE ''strict-unreviewed-read-adapter''
                             ''Read adapter/schema needs a reviewed resource mapping.'' HIGH
                | Inr call' \<Rightarrow>
                    (case check_authority goal call' obs (ca_scope ca) previous of
                       Some denied \<Rightarrow> denied
                     | None \<Rightarrow> authority_output ALLOW ''strict-compiled-grant''
                                 ''Explicit field-complete grant permits this call.'' LOW))))"

section \<open>What compilation and evaluation promise\<close>

lemma compile_authority_ok:
  "compile_authority fingerprint a schemas = Inr ca \<Longrightarrow>
   ca_scope ca = a \<and> ca_schemas ca = schemas \<and> ca_digest ca = fingerprint a schemas
   \<and> well_formed_grant a (Some schemas)"
  by (auto simp: compile_authority_def validate_authority_iff split: sum.splits if_splits)

lemma compile_strict: "compile_authority fingerprint a schemas = Inr ca \<Longrightarrow> is_strict (ca_scope ca)"
  by (auto dest!: compile_authority_ok simp: well_formed_grant_def is_strict_def)

text \<open>The call a schema-valid proposal is judged as: reads carry their reviewed resources.\<close>

definition judged_call ::
  "(json \<Rightarrow> string) \<Rightarrow> (json pydict \<Rightarrow> json pydict \<Rightarrow> bool) \<Rightarrow> compiled_authority \<Rightarrow> tool_call
   \<Rightarrow> tool_call option" where
  "judged_call sha schema_ok ca call =
     (case map_of (ca_schemas ca) (tc_tool_name call) of
        None \<Rightarrow> None
      | Some schema \<Rightarrow>
          if validate_arguments schema_ok (tc_arguments call) schema = Inr ()
          then (case normalize_read sha ca call of Inl _ \<Rightarrow> None | Inr c \<Rightarrow> Some c)
          else None)"

lemma evaluate_denies_or_allows:
  "so_decision (evaluate_authority sha schema_ok ca goal call obs previous) \<in> {ALLOW, BLOCK, ESCALATE}"
  using check_authority_decision
  by (auto simp: evaluate_authority_def split: option.split sum.split)

lemma evaluate_allow_iff:
  assumes strict: "is_strict (ca_scope ca)"
  shows "so_decision (evaluate_authority sha schema_ok ca goal call obs previous) = ALLOW \<longleftrightarrow>
    (\<exists>c. judged_call sha schema_ok ca call = Some c \<and> strictly_authorised c obs (ca_scope ca) previous)"
proof (cases "judged_call sha schema_ok ca call")
  case None
  then show ?thesis
    by (auto simp: evaluate_authority_def judged_call_def normalize_read_def
        split: option.splits sum.splits if_splits)
next
  case (Some c)
  then obtain schema where schema: "map_of (ca_schemas ca) (tc_tool_name call) = Some schema"
      and ok: "validate_arguments schema_ok (tc_arguments call) schema = Inr ()"
      and c: "(if tool_effect call = EffRead then scoped_read_call sha call schema else Inr call) = Inr c"
    by (auto simp: judged_call_def normalize_read_def split: option.splits sum.splits if_splits)
  have "evaluate_authority sha schema_ok ca goal call obs previous =
    (case check_authority goal c obs (ca_scope ca) previous of
       Some denied \<Rightarrow> denied
     | None \<Rightarrow> authority_output ALLOW ''strict-compiled-grant''
                 ''Explicit field-complete grant permits this call.'' LOW)"
    unfolding evaluate_authority_def schema option.case ok sum.case c ..
  then show ?thesis
    using check_authority_strict[OF strict, of goal c obs previous]
      check_authority_decision[of goal c obs "ca_scope ca" previous] Some
    by (cases "check_authority goal c obs (ca_scope ca) previous") auto
qed

end
