(* ===== verification/PolicyEngine.thy ===== *)
theory PolicyEngine
  imports Kernel
begin

text \<open>
  \<open>policy/engine.py\<close>: the deterministic policy, the first hard gate before any
  supervisor or execution. The engine's configuration, grant and earlier calls are the
  arguments of its operations; \<open>default_policy\<close> is the packaged configuration.
\<close>

section \<open>Configuration\<close>

record policy_config =
  pc_version :: string
  pc_read_roots :: "string list"
  pc_write_roots :: "string list"
  pc_blocked_segments :: "string list"
  pc_blocked_tokens :: "string list"
  pc_operators :: "string list"
  pc_sandbox_tokens :: "string list"
  pc_benign_tokens :: "string list"
  pc_math_words :: "string list"
  pc_write_words :: "string list"
  pc_read_words :: "string list"
  pc_max_command :: int
  pc_max_resources :: int

definition valid_policy_config :: "policy_config \<Rightarrow> bool" where
  "valid_policy_config c \<longleftrightarrow> 0 < pc_max_command c \<and> 0 < pc_max_resources c"

definition default_policy :: policy_config where
  "default_policy =
     \<lparr>pc_version = ''2.0.0'',
      pc_read_roots = [''workspace'', ''inputs'', ''documents''],
      pc_write_roots = [''artifacts''],
      pc_blocked_segments = [''secrets'', ''credentials'', ''canary'', ''.ssh'', ''.aws''],
      pc_blocked_tokens =
        [''sudo'', ''shutdown'', ''reboot'', ''mkfs'', ''dd'', ''chmod'', ''chown'', ''rm'', ''kill''],
      pc_operators = [''>'', ''>>'', ''<'', ''|'', '';'', ''&&'', ''||'', [CHR 0x60], ''$(''],
      pc_sandbox_tokens = [''python'', ''python3'', ''bash'', ''sh'', ''npm'', ''pip'', ''curl'', ''wget''],
      pc_benign_tokens = [''echo'', ''printf'', ''true'', ''false'', ''uname'', ''date''],
      pc_math_words =
        [''calculate'', ''compute'', ''multiply'', ''divide'', ''add'', ''subtract'', ''times'', ''math''],
      pc_write_words = [''write'', ''report'', ''save'', ''summarize into'', ''create report''],
      pc_read_words = [''read'', ''open'', ''summarize'', ''inspect'', ''find'', ''search''],
      pc_max_command = 500, pc_max_resources = 4\<rparr>"

section \<open>Outputs\<close>

definition policy_output ::
  "policy_config \<Rightarrow> decision \<Rightarrow> risk_level \<Rightarrow> rat \<Rightarrow> bool \<Rightarrow> goal_relevance \<Rightarrow> goal_necessity
   \<Rightarrow> string \<Rightarrow> string list \<Rightarrow> supervisor_output" where
  "policy_output c d risk conf viol rel nec reason rules =
     \<lparr>so_decision = d, so_risk = risk, so_confidence = conf, so_violation = viol,
      so_relevance = rel, so_necessity = nec, so_reason = reason,
      so_rules = (''POLICY_VERSION='' @ pc_version c) # rules, so_rewritten = None,
      so_target = None, so_profile = None, so_metadata = []\<rparr>"

lemma policy_output_fields [simp, output_simps]:
  "so_decision (policy_output c d risk conf viol rel nec reason rules) = d"
  "so_risk (policy_output c d risk conf viol rel nec reason rules) = risk"
  "so_violation (policy_output c d risk conf viol rel nec reason rules) = viol"
  "so_relevance (policy_output c d risk conf viol rel nec reason rules) = rel"
  "so_necessity (policy_output c d risk conf viol rel nec reason rules) = nec"
  "so_target (policy_output c d risk conf viol rel nec reason rules) = None"
  "so_profile (policy_output c d risk conf viol rel nec reason rules) = None"
  "so_rewritten (policy_output c d risk conf viol rel nec reason rules) = None"
  by (simp_all add: policy_output_def)

definition policy_allow :: "policy_config \<Rightarrow> string \<Rightarrow> supervisor_output" where
  "policy_allow c rule =
     policy_output c ALLOW LOW 1 False RelUncertain NecUncertain
       ''Deterministic policy allows the call.'' [rule]"

definition policy_escalate :: "policy_config \<Rightarrow> string \<Rightarrow> string \<Rightarrow> supervisor_output" where
  "policy_escalate c rule reason =
     policy_output c ESCALATE MEDIUM 1 False RelWeak NecHelpful reason [rule]"

definition policy_block :: "policy_config \<Rightarrow> string \<Rightarrow> risk_level \<Rightarrow> supervisor_output" where
  "policy_block c rule risk =
     policy_output c BLOCK risk 1 True RelUncertain NecUncertain
       ''Deterministic policy denies the call.'' [rule]"

lemma policy_decisions [simp, output_simps]:
  "so_decision (policy_allow c rule) = ALLOW"
  "so_decision (policy_escalate c rule reason) = ESCALATE"
  "so_decision (policy_block c rule risk) = BLOCK"
  by (simp_all add: policy_allow_def policy_escalate_def policy_block_def)

section \<open>Patterns\<close>

definition keyword_re :: "string \<Rightarrow> re" where
  "keyword_re w = cat_all [NotAfterWord, lit (casefold w), NotBeforeWord]"

definition has_keyword :: "string \<Rightarrow> string list \<Rightarrow> bool" where
  "has_keyword text words \<longleftrightarrow> (\<exists>w\<in>set words. re_found (keyword_re w) text)"

definition instruction_patterns :: "re list" where
  "instruction_patterns =
     (let not_newline = Cls (\<lambda>c. c \<noteq> CHR 0x0A); non_space = Rep (Cls (\<lambda>c. \<not> is_space c)) in
      [cat_all [WordBound, lit_ci ''ignore '', opt (lit_ci ''all ''),
                or_all [lit_ci ''previous'', lit_ci ''prior''], lit_ci '' '',
                or_all [lit_ci ''instructions'', lit_ci ''policies''], WordBound],
       cat_all [WordBound, lit_ci ''system'', spaces, lit '':''],
       cat_all [WordBound,
                or_all [lit_ci ''run'', lit_ci ''execute'', lit_ci ''curl'', lit_ci ''wget'', lit_ci ''sudo''],
                WordBound, plus not_newline, WordBound,
                or_all [lit_ci ''http'', lit_ci ''attacker'', lit_ci ''secret'']],
       cat_all [WordBound, lit_ci ''read'', spaces1, non_space,
                or_all [lit_ci ''secret'', lit_ci ''credential'', lit_ci ''password'', lit_ci ''canary''],
                non_space]])"

definition looks_like_instruction :: "string \<Rightarrow> bool" where
  "looks_like_instruction content \<longleftrightarrow> (\<exists>p\<in>set instruction_patterns. re_found p content)"

definition path_char :: "char \<Rightarrow> bool" where
  "path_char c \<longleftrightarrow> is_word c \<or> c \<in> set ''.-''"

definition mentioned_path_re :: re where
  "mentioned_path_re =
     cat_all [plus (Cls path_char), plus (Cat (lit ''/'') (plus (Cls path_char)))]"

definition mentioned_paths :: "string \<Rightarrow> string list" where
  "mentioned_paths task =
     map (rstrip_by (\<lambda>c. c \<in> set ''.,:;!?'')) (re_findall mentioned_path_re task)"

text \<open>A relative path below one of the roots, with no parent segment.\<close>

definition confined_path :: "string list \<Rightarrow> string \<Rightarrow> bool" where
  "confined_path roots raw \<longleftrightarrow>
     \<not> path_is_absolute raw \<and> ''..'' \<notin> set (path_parts raw) \<and> path_parts raw \<noteq> []
     \<and> hd (path_parts raw) \<in> set roots"

section \<open>Requested resources\<close>

definition resource_specified :: "task_authority \<Rightarrow> tool_call \<Rightarrow> bool" where
  "resource_specified a call \<longleftrightarrow>
     dict_has (arg_values a (tc_tool_name call)) ''requested_resources''
     \<or> dict_has (del_fields a (tc_tool_name call)) ''requested_resources''"

definition corpus_granted :: "task_authority \<Rightarrow> tool_call \<Rightarrow> string \<Rightarrow> bool" where
  "corpus_granted a call resource \<longleftrightarrow>
     resource = ''corpus:documents'' \<and> tc_tool_name call = ''search_documents'' \<and> is_strict a \<and>
     (\<exists>v\<in>set (dict_get (res_values a ''search_documents'') ''requested_resources'' []).
        py_eq (JStr resource) v)"

definition evaluate_resource ::
  "policy_config \<Rightarrow> task_authority \<Rightarrow> string \<Rightarrow> tool_call \<Rightarrow> string \<Rightarrow> supervisor_output option" where
  "evaluate_resource c a task call resource =
     (let raw = removeprefix ''input:'' resource; mentioned = mentioned_paths task in
      if resource = ''artifact_output'' \<or> corpus_granted a call resource then None
      else if \<not> prefix ''input:'' resource
      then Some (policy_block c ''POLICY_UNKNOWN_RESOURCE'' HIGH)
      else if sensitive_path raw (pc_blocked_segments c)
      then Some (policy_block c ''POLICY_RESOURCE_PATH_SENSITIVE'' HIGH)
      else if \<not> confined_path (pc_read_roots c) raw
      then Some (policy_block c ''POLICY_RESOURCE_PATH_OUTSIDE_ROOT'' HIGH)
      else if resource_specified a call then None
      else if mentioned = []
      then Some (policy_escalate c ''POLICY_RESOURCE_AUTHORITY_MISSING''
                   ''Declared inputs require trusted task scope.'')
      else if raw \<notin> set mentioned
      then Some (policy_block c ''POLICY_RESOURCE_NOT_AUTHORIZED'' HIGH)
      else None)"

definition privileged_resources :: "string list" where
  "privileged_resources = [''network'', ''sudo'', ''docker'', ''host_fs'', ''privileged'']"

definition evaluate_requested_resources ::
  "policy_config \<Rightarrow> task_authority \<Rightarrow> string \<Rightarrow> tool_call \<Rightarrow> supervisor_output option" where
  "evaluate_requested_resources c a task call =
     (if pc_max_resources c < int (length (tc_resources call))
      then Some (policy_block c ''POLICY_EXCESSIVE_RESOURCES'' HIGH)
      else if \<exists>r\<in>set (tc_resources call). casefold r \<in> set privileged_resources
      then Some (policy_block c ''POLICY_UNNECESSARY_PERMISSIONS'' CRITICAL)
      else first_denial (map (evaluate_resource c a task call) (tc_resources call)))"

section \<open>Goal relevance\<close>

definition evaluate_goal_relevance ::
  "policy_config \<Rightarrow> string \<Rightarrow> tool_call \<Rightarrow> supervisor_output option" where
  "evaluate_goal_relevance c user_task call =
     (let task = casefold user_task; t = tc_tool_name call;
          mixed_goal = has_keyword task (pc_read_words c @ pc_write_words c
                         @ [''participants'', ''file'', ''document'', ''data'']);
          math_goal = has_keyword task (filter (\<lambda>w. w \<noteq> ''add'') (pc_math_words c)) \<and> \<not> mixed_goal;
          write_goal = has_keyword task (pc_write_words c);
          read_goal = has_keyword task (pc_read_words c);
          shell_requested = has_keyword task [''command'', ''shell'', ''terminal'', ''run'', ''execute''] in
      if math_goal \<and> t = ''restricted_command''
      then Some (policy_output c BLOCK MEDIUM 1 True RelIrrelevant NecUnnecessary
                   ''Math goals must use calculator, not command execution.''
                   [''POLICY_IRRELEVANT_COMMAND_FOR_MATH''])
      else if math_goal \<and> t \<in> {''read_file'', ''write_report'', ''search_documents''}
      then Some (policy_output c BLOCK LOW (9/10) True RelWeak NecUnnecessary
                   ''Pure math goals do not require document or file tools.''
                   [''POLICY_IRRELEVANT_TOOL_FOR_MATH''])
      else if write_goal \<and> t = ''restricted_command''
      then Some (policy_output c BLOCK MEDIUM (95/100) True RelWeak NecUnnecessary
                   ''Report writing must use write_report, not shell commands.''
                   [''POLICY_IRRELEVANT_COMMAND_FOR_WRITE''])
      else if read_goal \<and> t = ''restricted_command'' \<and> \<not> shell_requested
      then Some (policy_output c BLOCK MEDIUM (9/10) True RelWeak NecUnnecessary
                   ''Reading or summarizing files does not require command execution.''
                   [''POLICY_IRRELEVANT_COMMAND_FOR_READ''])
      else None)"

section \<open>Search, paths and commands\<close>

definition evaluate_search :: "policy_config \<Rightarrow> tool_call \<Rightarrow> supervisor_output" where
  "evaluate_search c call =
     (if py_strip (py_str (dict_get (tc_arguments call) ''query'' (JStr []))) = []
      then policy_block c ''POLICY_SEARCH_EMPTY_QUERY'' LOW
      else policy_allow c ''POLICY_SEARCH_ALLOWED'')"

text \<open>The part of the path check that only a read performs: None when the read may go on.\<close>

definition evaluate_read_scope ::
  "policy_config \<Rightarrow> task_authority \<Rightarrow> string \<Rightarrow> string \<Rightarrow> supervisor_output option" where
  "evaluate_read_scope c a user_task raw =
     (let mentioned = mentioned_paths user_task;
          trusted = (arg_values a ''read_file'' \<noteq> []
                     \<or> is_strict a \<and> res_values a ''read_file'' \<noteq> []);
          delegated = dict_has (del_fields a ''read_file'') ''path'' in
      if mentioned = [] \<and> \<not> trusted \<and> \<not> delegated
      then Some (policy_escalate c ''POLICY_READ_AUTHORITY_MISSING''
                   ''File scope requires an explicit path or trusted delegation.'')
      else if mentioned \<noteq> [] \<and> raw \<notin> set mentioned \<and> \<not> trusted \<and> \<not> delegated
      then Some (policy_output c BLOCK MEDIUM (95/100) True RelWeak NecUnnecessary
                   ''The requested file is not among the paths named in the user task.''
                   [''POLICY_IRRELEVANT_FILE_ACCESS''])
      else None)"

definition rewritten_report :: "tool_call \<Rightarrow> string \<Rightarrow> tool_call" where
  "rewritten_report call raw =
     call\<lparr>tc_arguments := AList.update ''path'' (JStr (''artifacts/'' @ raw)) (tc_arguments call)\<rparr>"

definition evaluate_path ::
  "policy_config \<Rightarrow> task_authority \<Rightarrow> string \<Rightarrow> tool_call \<Rightarrow> supervisor_output" where
  "evaluate_path c a user_task call =
     (let raw = py_str (dict_get (tc_arguments call) ''path'' (JStr [])); parts = path_parts raw;
          reading = (tc_tool_name call = ''read_file'');
          roots = (if reading then pc_read_roots c else pc_write_roots c) in
      if reading \<and> \<not> confined_path roots raw
      then policy_block c ''POLICY_PATH_OUTSIDE_ROOT'' HIGH
      else if path_is_absolute raw \<or> ''..'' \<in> set parts \<or> parts = []
      then policy_block c ''POLICY_PATH_OUTSIDE_ROOT'' HIGH
      else if sensitive_path raw (pc_blocked_segments c)
      then policy_block c ''POLICY_PATH_SENSITIVE'' CRITICAL
      else case (if reading then evaluate_read_scope c a user_task raw else None) of
        Some denied \<Rightarrow> denied
      | None \<Rightarrow>
          if tc_tool_name call = ''write_report'' \<and> hd parts \<notin> set (pc_write_roots c)
          then (policy_output c REWRITE LOW 1 False RelWeak NecHelpful
                  ''Normalize report output into the allowed artifacts root.''
                  [''POLICY_WRITE_ROOT_REWRITE''])\<lparr>so_rewritten := Some (rewritten_report call raw)\<rparr>
          else if \<not> confined_path roots raw
          then policy_block c ''POLICY_PATH_OUTSIDE_ROOT'' HIGH
          else if reading \<and> hd parts = ''workspace'' \<and> length parts = 1
          then policy_block c ''POLICY_PATH_DIRECTORY_ONLY'' MEDIUM
          else policy_allow c ''POLICY_PATH_ALLOWED'')"

fun string_items :: "json list \<Rightarrow> string list option" where
  "string_items [] = Some []"
| "string_items (JStr s # vs) = map_option ((#) s) (string_items vs)"
| "string_items _ = None"

definition container_profile :: "tool_call \<Rightarrow> string \<times> string" where
  "container_profile call =
     (if ''artifact_output'' \<in> set (tc_resources call)
      then (''artifact_build'', ''POLICY_CONTAINER_ARTIFACT_OUTPUT'')
      else if \<exists>r\<in>set (tc_resources call). prefix ''input:'' r
      then (''readonly_input'', ''POLICY_CONTAINER_READONLY_INPUT'')
      else (''isolated_compute'', ''POLICY_CONTAINER_ISOLATED''))"

definition in_container ::
  "policy_config \<Rightarrow> tool_call \<Rightarrow> string \<Rightarrow> string \<Rightarrow> supervisor_output" where
  "in_container c call reason rule =
     (let (profile, declared) = container_profile call in
      (policy_output c ALLOW MEDIUM (85/100) False RelWeak NecHelpful reason [rule, declared])
        \<lparr>so_target := Some TargetContainer, so_profile := Some profile\<rparr>)"

definition evaluate_argv ::
  "policy_config \<Rightarrow> tool_call \<Rightarrow> observation list \<Rightarrow> string list \<Rightarrow> supervisor_output" where
  "evaluate_argv c call obs command =
     (let lowered = map casefold command; blocked = map casefold (pc_blocked_tokens c);
          untrusted_obs = filter (\<lambda>ob. untrusted (ob_trust ob)) obs; head = casefold (hd command) in
      if pc_max_command c < int (length (join '' '' command))
      then policy_block c ''POLICY_COMMAND_TOO_LONG'' HIGH
      else if \<exists>w\<in>set lowered. w \<in> set blocked
      then policy_block c ''POLICY_COMMAND_BLOCKED_TOKEN'' CRITICAL
      else if \<exists>w\<in>set command. w \<in> set (pc_operators c)
      then policy_block c ''POLICY_SHELL_OPERATOR'' HIGH
      else if untrusted_obs \<noteq> [] then
        (if \<exists>ob\<in>set untrusted_obs. looks_like_instruction (ob_content ob)
         then policy_output c BLOCK HIGH 1 True RelWeak NecUnnecessary
                ''Command depends on untrusted observations that appear instructional.''
                [''POLICY_UNTRUSTED_OBSERVATION_DEPENDENCY'']
         else in_container c call
                ''Command informed by untrusted input must use a predefined container profile.''
                ''POLICY_COMMAND_CONTAINER_UNTRUSTED'')
      else if head \<in> set blocked
      then policy_block c ''POLICY_COMMAND_BLOCKED_TOKEN'' CRITICAL
      else if head \<in> set (map casefold (pc_sandbox_tokens c))
      then in_container c call ''Medium-risk command must use a predefined container profile.''
             ''POLICY_COMMAND_CONTAINER''
      else if head \<in> set (map casefold (pc_benign_tokens c))
      then (policy_output c ALLOW LOW 1 False RelWeak NecHelpful
              ''Benign argv command allowed as simulated/default execution only.''
              [''POLICY_COMMAND_BENIGN''])\<lparr>so_target := Some TargetSimulated\<rparr>
      else policy_output c ESCALATE MEDIUM (7/10) False RelWeak NecHelpful
             ''Unknown command binary requires human or LLM review.''
             [''POLICY_COMMAND_UNKNOWN_ESCALATE''])"

definition evaluate_command ::
  "policy_config \<Rightarrow> tool_call \<Rightarrow> observation list \<Rightarrow> supervisor_output" where
  "evaluate_command c call obs =
     (case dict_get (tc_arguments call) ''command'' (JList []) of
        JList vs \<Rightarrow>
          (case string_items vs of
             None \<Rightarrow> policy_block c ''POLICY_COMMAND_SCHEMA'' HIGH
           | Some [] \<Rightarrow> policy_block c ''POLICY_COMMAND_EMPTY'' HIGH
           | Some command \<Rightarrow> evaluate_argv c call obs command)
      | _ \<Rightarrow> policy_block c ''POLICY_COMMAND_SCHEMA'' HIGH)"

section \<open>The policy decision\<close>

definition evaluate_tool ::
  "policy_config \<Rightarrow> task_authority \<Rightarrow> tool_call \<Rightarrow> observation list \<Rightarrow> supervisor_output" where
  "evaluate_tool c a call obs =
     (if tc_tool_name call = ''restricted_command'' then evaluate_command c call obs
      else if tc_tool_name call = ''search_documents'' then evaluate_search c call
      else if tc_tool_name call = ''calculator'' then policy_allow c ''POLICY_TOOL_LOW_RISK''
      else if is_strict a \<and> tool_effect call \<noteq> EffCommand
      then policy_allow c ''POLICY_STRICT_AUTHORITY''
      else policy_escalate c ''POLICY_UNKNOWN_TOOL'' ''Tool effect is not registered.'')"

definition policy_evaluate ::
  "policy_config \<Rightarrow> task_authority \<Rightarrow> tool_call list \<Rightarrow> string \<Rightarrow> tool_call \<Rightarrow> observation list
   \<Rightarrow> supervisor_output" where
  "policy_evaluate c a previous user_task call obs =
     (case evaluate_requested_resources c a user_task call of
        Some denied \<Rightarrow> denied
      | None \<Rightarrow>
          (case (if ta_mode a = ''research'' then evaluate_goal_relevance c user_task call else None) of
             Some denied \<Rightarrow> denied
           | None \<Rightarrow>
               if tc_tool_name call \<in> {''read_file'', ''write_report''} then
                 (let result = evaluate_path c a user_task call in
                  if so_decision result = ALLOW then
                    (case check_authority user_task call obs a previous of
                       Some denied \<Rightarrow> denied | None \<Rightarrow> result)
                  else result)
               else
                 (case check_authority user_task call obs a previous of
                    Some denied \<Rightarrow> denied
                  | None \<Rightarrow> evaluate_tool c a call obs)))"

end
