(* ===== verification/PolicyFacts.thy ===== *)
theory PolicyFacts
  imports PolicyEngine
begin

text \<open>What a decision of the deterministic policy guarantees, branch by branch.\<close>

section \<open>Denials before the authority check\<close>

lemma denying_policy [simp]:
  "denying (Some (policy_block c rule risk))" "denying (Some (policy_escalate c rule reason))"
  "denying (Some (policy_output c BLOCK risk conf viol rel nec reason rules))"
  by (simp_all add: denying_def)

lemma evaluate_resource_denying: "denying (evaluate_resource c a task call r)"
  unfolding evaluate_resource_def Let_def by (simp split: if_split)

lemma evaluate_requested_denying: "denying (evaluate_requested_resources c a task call)"
proof -
  have "denying (first_denial (map (evaluate_resource c a task call) (tc_resources call)))"
    by (rule denying_first) (auto simp: evaluate_resource_denying)
  then show ?thesis unfolding evaluate_requested_resources_def by simp
qed

lemma evaluate_goal_denying: "denying (evaluate_goal_relevance c task call)"
  unfolding evaluate_goal_relevance_def Let_def by (simp split: if_split)

lemma denying_not_allow: "denying (Some d) \<Longrightarrow> so_decision d \<noteq> ALLOW \<and> so_decision d \<noteq> REWRITE"
  by (auto simp: denying_def)

text \<open>The three ways a decision that lets the call continue is reached.\<close>

lemma policy_continues:
  assumes "so_decision (policy_evaluate c a previous task call obs) \<in> {ALLOW, REWRITE}"
  shows "evaluate_requested_resources c a task call = None \<and>
    policy_evaluate c a previous task call obs =
      (if tc_tool_name call \<in> {''read_file'', ''write_report''} then evaluate_path c a task call
       else evaluate_tool c a call obs) \<and>
    (so_decision (policy_evaluate c a previous task call obs) = ALLOW
       \<or> tc_tool_name call \<notin> {''read_file'', ''write_report''}
     \<longrightarrow> check_authority task call obs a previous = None)"
proof -
  have deny: "so_decision d \<notin> {ALLOW, REWRITE}" if "denying (Some d)" for d
    using denying_not_allow[OF that] by simp
  have res: "evaluate_requested_resources c a task call = None"
    using assms deny evaluate_requested_denying[of c a task call]
    by (cases "evaluate_requested_resources c a task call") (auto simp: policy_evaluate_def)
  define goal where "goal = (if ta_mode a = ''research'' then evaluate_goal_relevance c task call else None)"
  have "denying goal" by (simp add: goal_def evaluate_goal_denying)
  with assms res deny have goal: "goal = None"
    unfolding policy_evaluate_def goal_def[symmetric] by (cases goal) auto
  note pe = policy_evaluate_def[of c a previous task call obs, folded goal_def, unfolded res goal option.case]
  show ?thesis
  proof (cases "check_authority task call obs a previous")
    case None
    with res show ?thesis unfolding pe Let_def by simp
  next
    case (Some d)
    with check_authority_denying[of task call obs a previous] have "denying (Some d)" by simp
    from assms deny[OF this] res Some show ?thesis unfolding pe Let_def by (auto split: if_splits)
  qed
qed

lemma policy_allow_authorised:
  "so_decision (policy_evaluate c a previous task call obs) = ALLOW \<Longrightarrow>
   check_authority task call obs a previous = None"
  using policy_continues[of c a previous task call obs] by simp

lemma policy_allow_resources:
  assumes "so_decision (policy_evaluate c a previous task call obs) = ALLOW"
    and "r \<in> set (tc_resources call)"
  shows "casefold r \<notin> set privileged_resources \<and> evaluate_resource c a task call r = None"
  using policy_continues[of c a previous task call obs] assms
  unfolding evaluate_requested_resources_def by (simp split: if_splits)

lemma resource_None_confined:
  assumes "evaluate_resource c a task call r = None" and "prefix ''input:'' r"
  shows "confined_path (pc_read_roots c) (removeprefix ''input:'' r)
    \<and> \<not> sensitive_path (removeprefix ''input:'' r) (pc_blocked_segments c)"
proof -
  have "r \<noteq> ''artifact_output'' \<and> r \<noteq> ''corpus:documents''" using assms(2) by auto
  with assms show ?thesis
    unfolding evaluate_resource_def Let_def corpus_granted_def by (simp split: if_splits)
qed

section \<open>Paths\<close>

definition call_path :: "tool_call \<Rightarrow> string" where
  "call_path call = py_str (dict_get (tc_arguments call) ''path'' (JStr []))"

lemma read_scope_denying: "denying (evaluate_read_scope c a task raw)"
  unfolding evaluate_read_scope_def Let_def by (simp split: if_split)

lemma evaluate_path_continues:
  assumes "so_decision (evaluate_path c a task call) \<in> {ALLOW, REWRITE}"
  shows "\<not> sensitive_path (call_path call) (pc_blocked_segments c)
    \<and> (if so_decision (evaluate_path c a task call) = ALLOW
       then confined_path (if tc_tool_name call = ''read_file'' then pc_read_roots c else pc_write_roots c)
              (call_path call)
       else tc_tool_name call = ''write_report'' \<and> \<not> path_is_absolute (call_path call)
            \<and> ''..'' \<notin> set (path_parts (call_path call))
            \<and> so_rewritten (evaluate_path c a task call) = Some (rewritten_report call (call_path call)))"
proof -
  define scope where
    "scope = (if tc_tool_name call = ''read_file'' then evaluate_read_scope c a task (call_path call) else None)"
  have scope: "\<And>d. scope = Some d \<Longrightarrow> so_decision d \<notin> {ALLOW, REWRITE}"
    using read_scope_denying[of c a task "call_path call"] denying_not_allow
    by (auto simp: scope_def split: if_splits)
  note ep = evaluate_path_def[of c a task call, folded call_path_def, unfolded Let_def, folded scope_def]
  from assms scope show ?thesis
    unfolding ep by (cases scope) (auto split: if_splits)
qed

lemma split_on_append: "c \<notin> set w \<Longrightarrow> split_on c (w @ c # s) = w # split_on c s"
  by (induction w) auto

lemma artifacts_parts:
  "\<not> path_is_absolute raw \<Longrightarrow> path_parts (''artifacts/'' @ raw) = ''artifacts'' # path_parts raw"
  using split_on_append[of "CHR ''/''" "''artifacts''" raw]
  by (auto simp: path_parts_def path_root_def path_is_absolute_def prefix_def)

lemma rewritten_report_path: "call_path (rewritten_report call raw) = ''artifacts/'' @ raw"
  by (simp add: call_path_def rewritten_report_def dict_get_def map_of_update)

lemma rewritten_report_confined:
  assumes "\<not> path_is_absolute raw" and "''..'' \<notin> set (path_parts raw)"
  shows "path_parts (call_path (rewritten_report call raw)) = ''artifacts'' # path_parts raw
    \<and> ''..'' \<notin> set (path_parts (call_path (rewritten_report call raw)))
    \<and> tc_tool_name (rewritten_report call raw) = tc_tool_name call"
  unfolding rewritten_report_path artifacts_parts[OF assms(1)] using assms(2)
  by (simp add: rewritten_report_def)

section \<open>Commands\<close>

definition call_argv :: "tool_call \<Rightarrow> string list option" where
  "call_argv call =
     (case dict_get (tc_arguments call) ''command'' (JList []) of JList vs \<Rightarrow> string_items vs | _ \<Rightarrow> None)"

lemma in_container_fields [simp]:
  "so_decision (in_container c call reason rule) = ALLOW"
  "so_target (in_container c call reason rule) = Some TargetContainer"
  "so_profile (in_container c call reason rule) = Some (fst (container_profile call))"
  by (simp_all add: in_container_def policy_output_def split: prod.splits)

lemma evaluate_argv_allow:
  assumes "so_decision (evaluate_argv c call obs argv) = ALLOW"
  shows "int (length (join '' '' argv)) \<le> pc_max_command c
    \<and> (\<forall>w\<in>set argv. casefold w \<notin> set (map casefold (pc_blocked_tokens c)) \<and> w \<notin> set (pc_operators c))
    \<and> (\<forall>ob\<in>set obs. untrusted (ob_trust ob) \<longrightarrow> \<not> looks_like_instruction (ob_content ob))
    \<and> (so_target (evaluate_argv c call obs argv) = Some TargetContainer
        \<and> so_profile (evaluate_argv c call obs argv) = Some (fst (container_profile call))
       \<or> so_target (evaluate_argv c call obs argv) = Some TargetSimulated
        \<and> casefold (hd argv) \<in> set (map casefold (pc_benign_tokens c))
        \<and> (\<forall>ob\<in>set obs. \<not> untrusted (ob_trust ob)))"
proof (cases "filter (\<lambda>ob. untrusted (ob_trust ob)) obs = []")
  case True
  then have "\<forall>ob\<in>set obs. \<not> untrusted (ob_trust ob)" by (simp add: filter_empty_conv)
  with assms True show ?thesis
    unfolding evaluate_argv_def Let_def by (simp split: if_splits)
next
  case False
  with assms show ?thesis
    unfolding evaluate_argv_def Let_def by (simp split: if_splits)
qed

lemma evaluate_command_argv:
  assumes "so_decision (evaluate_command c call obs) = ALLOW"
  obtains argv where "call_argv call = Some argv" and "argv \<noteq> []"
    and "evaluate_command c call obs = evaluate_argv c call obs argv"
proof -
  from assms have "\<exists>argv. call_argv call = Some argv \<and> argv \<noteq> []
      \<and> evaluate_command c call obs = evaluate_argv c call obs argv"
    unfolding evaluate_command_def call_argv_def
    by (simp split: json.splits option.splits list.splits)
  then show ?thesis using that by blast
qed

lemma evaluate_argv_no_rewrite: "so_decision (evaluate_argv c call obs argv) \<noteq> REWRITE"
  unfolding evaluate_argv_def Let_def by (simp split: if_split)

lemma evaluate_tool_no_rewrite: "so_decision (evaluate_tool c a call obs) \<noteq> REWRITE"
proof -
  have "so_decision (evaluate_command c call obs) \<noteq> REWRITE"
    unfolding evaluate_command_def
    by (simp add: evaluate_argv_no_rewrite split: json.split option.split list.split)
  moreover have "so_decision (evaluate_search c call) \<noteq> REWRITE"
    by (simp add: evaluate_search_def)
  ultimately show ?thesis
    unfolding evaluate_tool_def by (simp split: if_split)
qed

end
