(* ===== verification/Supervision.thy ===== *)
theory Supervision
  imports Kernel
begin

text \<open>
  \<open>supervisor/base.py\<close> (the combination of outputs and the ALLOW invariants) and the
  rewrite rules of \<open>supervisor/contracts.py\<close>.
\<close>

section \<open>Combination of outputs\<close>

fun precedence :: "decision \<Rightarrow> nat" where
  "precedence ALLOW = 0"
| "precedence REWRITE = 1"
| "precedence ESCALATE = 2"
| "precedence BLOCK = 3"

definition inconsistent_allow :: "supervisor_output \<Rightarrow> bool" where
  "inconsistent_allow o1 \<longleftrightarrow>
     so_risk o1 \<in> {HIGH, CRITICAL} \<or> so_violation o1 \<or> so_relevance o1 = RelIrrelevant
     \<or> so_necessity o1 = NecUnnecessary"

definition enforce_allow_invariants :: "supervisor_output \<Rightarrow> supervisor_output" where
  "enforce_allow_invariants o1 =
     (if so_decision o1 = ALLOW \<and> inconsistent_allow o1
      then o1\<lparr>so_decision := ESCALATE,
              so_reason := ''Inconsistent ALLOW requires review before execution.'',
              so_target := None, so_profile := None,
              so_rules := so_rules o1 @ [''execution-allow-invariant'']\<rparr>
      else o1)"

type_synonym ranked_output = "nat \<times> supervisor_output"

definition output_key :: "ranked_output \<Rightarrow> nat \<times> nat" where
  "output_key io = (precedence (so_decision (snd io)), fst io)"

definition output_rank :: "ranked_output \<Rightarrow> nat" where
  "output_rank io = precedence (so_decision (snd io))"

definition risk_of :: "supervisor_output \<Rightarrow> nat" where
  "risk_of out = risk_rank (so_risk out)"

definition has_container :: "supervisor_output \<Rightarrow> bool" where
  "has_container out \<longleftrightarrow> so_target out \<noteq> None \<and> so_profile out \<noteq> None \<and> so_profile out \<noteq> Some []"

definition merge_outputs :: "supervisor_output list \<Rightarrow> supervisor_output option" where
  "merge_outputs outputs =
     (case (max_by output_key (enumerate 0 outputs), max_by risk_of outputs) of
        (Some (_, first), Some riskiest) \<Rightarrow>
          (let winner = first\<lparr>so_risk := so_risk riskiest\<rparr> in
           case max_by risk_of (filter has_container outputs) of
             Some strictest \<Rightarrow>
               if so_decision winner \<notin> {BLOCK, ESCALATE}
               then Some (enforce_allow_invariants
                      (winner\<lparr>so_target := so_target strictest, so_profile := so_profile strictest\<rparr>))
               else Some (enforce_allow_invariants winner)
           | None \<Rightarrow> Some (enforce_allow_invariants winner))
      | _ \<Rightarrow> None)"

interpretation merge: ranked_choice output_key output_rank
  by unfold_locales (auto simp: output_key_def output_rank_def)

interpretation riskiest: ranked_choice risk_of risk_of
  by unfold_locales simp

lemma precedence_inj: "precedence a = precedence b \<longleftrightarrow> a = b"
  by (cases a; cases b) auto

lemma precedence_le: "precedence d \<le> 3"
  by (cases d) auto

lemma enforce_allow_sound:
  "so_decision (enforce_allow_invariants out) = ALLOW \<Longrightarrow> \<not> inconsistent_allow out \<and> enforce_allow_invariants out = out"
  by (auto simp: enforce_allow_invariants_def split: if_splits)

lemma enforce_decision:
  "so_decision (enforce_allow_invariants out) = so_decision out
   \<or> so_decision out = ALLOW \<and> so_decision (enforce_allow_invariants out) = ESCALATE"
  by (simp add: enforce_allow_invariants_def)

text \<open>The merged output, with the two choices it rests on.\<close>

lemma merge_outputs_Some:
  assumes "merge_outputs outputs = Some m"
  obtains i first riskiest winner where
    "max_by output_key (enumerate 0 outputs) = Some (i, first)"
    and "max_by risk_of outputs = Some riskiest"
    and "so_decision winner = so_decision first" and "so_risk winner = so_risk riskiest"
    and "so_violation winner = so_violation first" and "so_relevance winner = so_relevance first"
    and "so_necessity winner = so_necessity first" and "so_rewritten winner = so_rewritten first"
    and "so_target winner = so_target first \<and> so_profile winner = so_profile first
         \<or> (\<exists>st\<in>set outputs. has_container st \<and> so_target winner = so_target st \<and> so_profile winner = so_profile st)"
    and "m = enforce_allow_invariants winner"
proof -
  obtain i first where first: "max_by output_key (enumerate 0 outputs) = Some (i, first)"
    using assms by (auto simp: merge_outputs_def split: option.splits)
  obtain riskiest where risk: "max_by risk_of outputs = Some riskiest"
    using assms by (auto simp: merge_outputs_def split: option.splits)
  show ?thesis
  proof (cases "max_by risk_of (filter has_container outputs)")
    case None
    have "m = enforce_allow_invariants (first\<lparr>so_risk := so_risk riskiest\<rparr>)"
      using assms unfolding merge_outputs_def first risk None by simp
    then show ?thesis using that[OF first risk, of "first\<lparr>so_risk := so_risk riskiest\<rparr>"] by simp
  next
    case (Some st)
    then have st: "st \<in> set outputs" "has_container st" by (auto dest: max_by_in)
    show ?thesis
    proof (cases "so_decision first \<in> {BLOCK, ESCALATE}")
      case True
      then have "m = enforce_allow_invariants (first\<lparr>so_risk := so_risk riskiest\<rparr>)"
        using assms unfolding merge_outputs_def first risk Some Let_def by auto
      then show ?thesis using that[OF first risk, of "first\<lparr>so_risk := so_risk riskiest\<rparr>"] by simp
    next
      case False
      then have "m = enforce_allow_invariants (first\<lparr>so_risk := so_risk riskiest,
          so_target := so_target st, so_profile := so_profile st\<rparr>)"
        using assms unfolding merge_outputs_def first risk Some Let_def by auto
      with st show ?thesis
        using that[OF first risk, of "first\<lparr>so_risk := so_risk riskiest, so_target := so_target st,
                                       so_profile := so_profile st\<rparr>"] by auto
    qed
  qed
qed

lemma merge_first_in:
  "max_by output_key (enumerate 0 outputs) = Some (i, first) \<Longrightarrow> first \<in> set outputs"
  by (drule max_by_in) (auto simp: enumerate_eq_zip dest: set_zip_rightD)

lemma merge_first_ge:
  assumes "max_by output_key (enumerate 0 outputs) = Some (i, first)" and "out \<in> set outputs"
  shows "precedence (so_decision out) \<le> precedence (so_decision first)"
proof -
  from assms(2) obtain j where "(j, out) \<in> set (enumerate 0 outputs)"
    unfolding in_set_conv_nth[of out] by (force simp: in_set_enumerate_eq)
  from merge.chosen_rank[OF assms(1) this] show ?thesis by (simp add: output_rank_def)
qed

lemma merge_outputs_None: "merge_outputs outputs = None \<longleftrightarrow> outputs = []"
proof
  assume "merge_outputs outputs = None"
  show "outputs = []"
  proof (rule ccontr)
    assume ne: "outputs \<noteq> []"
    then obtain x y where "max_by output_key (enumerate 0 outputs) = Some x" "max_by risk_of outputs = Some y"
      using max_by_ex[of outputs risk_of] max_by_ex[of "enumerate 0 outputs" output_key] by (auto simp: enumerate_eq_zip)
    with \<open>merge_outputs outputs = None\<close> show False
      by (auto simp: merge_outputs_def Let_def split: option.splits prod.splits if_splits)
  qed
qed (simp add: merge_outputs_def)

lemma merge_dominates:
  assumes "merge_outputs outputs = Some m" and "out \<in> set outputs"
  shows "precedence (so_decision out) \<le> precedence (so_decision m)"
  using assms(1)
proof (rule merge_outputs_Some)
  fix i first riskiest winner
  assume f: "max_by output_key (enumerate 0 outputs) = Some (i, first)"
    and w: "so_decision winner = so_decision first" and m: "m = enforce_allow_invariants winner"
  from merge_first_ge[OF f assms(2)] w show ?thesis
    using enforce_decision[of winner] unfolding m by auto
qed

lemma merge_risk:
  assumes "merge_outputs outputs = Some m" and "out \<in> set outputs"
  shows "so_risk out \<le> so_risk m"
  using assms(1)
proof (rule merge_outputs_Some)
  fix i first riskiest winner
  assume r: "max_by risk_of outputs = Some riskiest"
    and w: "so_risk winner = so_risk riskiest" and m: "m = enforce_allow_invariants winner"
  have "so_risk m = so_risk riskiest" by (simp add: m w enforce_allow_invariants_def)
  with riskiest.chosen_rank[OF r assms(2)] show ?thesis by (simp add: risk_of_def less_eq_risk_level_def)
qed

text \<open>A merge that allows: every output allows, none is risky, and the chosen one is consistent.\<close>

lemma merge_allow:
  assumes "merge_outputs outputs = Some m" and "so_decision m = ALLOW"
  shows "\<forall>out\<in>set outputs. so_decision out = ALLOW \<and> so_risk out \<le> MEDIUM"
proof
  fix out assume out: "out \<in> set outputs"
  from merge_dominates[OF assms(1) out] assms(2) have "so_decision out = ALLOW"
    by (cases "so_decision out") auto
  moreover have "so_risk m \<le> MEDIUM"
    using assms(1)
  proof (rule merge_outputs_Some)
    fix winner assume m: "m = enforce_allow_invariants winner"
    from enforce_allow_sound[of winner] assms(2) m have "\<not> inconsistent_allow m" by simp
    then show ?thesis by (cases "so_risk m") (auto simp: inconsistent_allow_def less_eq_risk_level_def)
  qed
  ultimately show "so_decision out = ALLOW \<and> so_risk out \<le> MEDIUM"
    using merge_risk[OF assms(1) out] by (auto intro: order_trans)
qed

section \<open>Rewrites\<close>

record rewritten_call =
  rw_tool :: string
  rw_arguments :: "json pydict"

definition valid_rewritten :: "rewritten_call \<Rightarrow> bool" where
  "valid_rewritten r \<longleftrightarrow> rw_tool r \<noteq> []"

record supervisor_request =
  sq_goal :: string
  sq_call :: tool_call
  sq_tools :: "json pydict pydict"
  sq_policy :: "json pydict"
  sq_authority :: task_authority
  sq_previous :: "tool_call list"
  sq_observations :: "observation list"
  sq_provenance :: "string list pydict"
  sq_rewritten :: bool
  sq_enable_rewrite :: bool
  sq_threshold :: decimal

record supervisor_response =
  sr_decision :: decision
  sr_relevance :: string
  sr_necessity :: string
  sr_risk :: string
  sr_confidence :: decimal
  sr_reason :: string
  sr_rewritten :: "rewritten_call option"
  sr_metadata :: "json pydict"

definition valid_response :: "supervisor_response \<Rightarrow> bool" where
  "valid_response r \<longleftrightarrow>
     sr_relevance r \<in> {''RELEVANT'', ''UNRELATED'', ''UNCERTAIN''} \<and>
     sr_necessity r \<in> {''NECESSARY'', ''UNNECESSARY'', ''UNCERTAIN''} \<and>
     sr_risk r \<in> {''LOW'', ''MEDIUM'', ''HIGH'', ''CRITICAL''} \<and>
     dec_finite (sr_confidence r) \<and> 0 \<le> dec_val (sr_confidence r) \<and> dec_val (sr_confidence r) \<le> 1 \<and>
     1 \<le> length (sr_reason r) \<and> length (sr_reason r) \<le> 800 \<and>
     (sr_decision r = REWRITE) = (sr_rewritten r \<noteq> None) \<and>
     (case sr_rewritten r of None \<Rightarrow> True | Some rw \<Rightarrow> valid_rewritten rw)"

definition rewrite_destinations :: "string list" where
  "rewrite_destinations =
     [''recipients'', ''to'', ''recipient'', ''participants'', ''requested_resources'']"

text \<open>A set of values: the source hashes them, so a list or object among them raises.\<close>

fun hashable :: "json \<Rightarrow> bool" where
  "hashable (JList _) = False"
| "hashable (JObj _) = False"
| "hashable _ = True"

definition check_destination ::
  "tool_call \<Rightarrow> tool_call \<Rightarrow> string \<Rightarrow> unit result" where
  "check_destination original replacement field =
     (let old = jget (tc_arguments original) field; new = jget (tc_arguments replacement) field in
      if old = JNull \<or> new = JNull then Inr ()
      else if \<exists>v\<in>set (as_list old @ as_list new). \<not> hashable v
      then Inl (TypeError ''unhashable type'')
      else if \<forall>v\<in>set (as_list new). \<exists>w\<in>set (as_list old). py_eq v w then Inr ()
      else Inl (SupervisorSchemaError (''rewrite expands '' @ field)))"

definition validate_rewrite ::
  "(json pydict \<Rightarrow> json pydict \<Rightarrow> bool) \<Rightarrow> supervisor_response \<Rightarrow> supervisor_request \<Rightarrow> unit result" where
  "validate_rewrite schema_ok response request =
     (if sr_decision response \<noteq> REWRITE then Inr ()
      else case sr_rewritten response of
        None \<Rightarrow> Inl (SupervisorSchemaError ''REWRITE response missing rewritten_call'')
      | Some rw \<Rightarrow>
          (let original = sq_call request;
               replacement = original\<lparr>tc_tool_name := rw_tool rw, tc_arguments := rw_arguments rw\<rparr> in
           if \<not> sq_enable_rewrite request
           then Inl (SupervisorSchemaError ''REWRITE returned while rewriting is disabled'')
           else if sq_rewritten request
           then Inl (SupervisorSchemaError ''second rewrite for same logical step'')
           else case map_of (sq_tools request) (rw_tool rw) of
             None \<Rightarrow> Inl (SupervisorSchemaError (''rewritten tool does not exist: '' @ rw_tool rw))
           | Some schema \<Rightarrow>
               if tool_effect original = EffRead \<and> tool_effect replacement \<noteq> EffRead
               then Inl (SupervisorSchemaError ''rewrite expands tool effects'')
               else if rw_tool rw \<noteq> tc_tool_name original \<and> tool_effect replacement \<noteq> EffRead
               then Inl (SupervisorSchemaError ''mutating rewrite cannot change tool family'')
               else case first_error (check_destination original replacement) rewrite_destinations of
                 Inl e \<Rightarrow> Inl e
               | Inr _ \<Rightarrow>
                   (case check_authority (sq_goal request) replacement (sq_observations request)
                           (sq_authority request) [] of
                      Some denied \<Rightarrow>
                        Inl (SupervisorSchemaError (''rewrite violates authority: '' @ so_reason denied))
                    | None \<Rightarrow>
                        if \<not> set (tc_resources replacement) \<subseteq> set (tc_resources original)
                        then Inl (SupervisorSchemaError ''rewrite expands requested resources'')
                        else validate_arguments schema_ok (rw_arguments rw) schema)))"

definition replacement_response :: "tool_call \<Rightarrow> supervisor_response" where
  "replacement_response replacement =
     \<lparr>sr_decision = REWRITE, sr_relevance = ''UNCERTAIN'', sr_necessity = ''UNCERTAIN'',
      sr_risk = ''MEDIUM'', sr_confidence = Dec 1 0, sr_reason = ''validate replacement'',
      sr_rewritten = Some \<lparr>rw_tool = tc_tool_name replacement, rw_arguments = tc_arguments replacement\<rparr>,
      sr_metadata = []\<rparr>"

definition replacement_request ::
  "tool_call \<Rightarrow> string \<Rightarrow> observation list \<Rightarrow> task_authority \<Rightarrow> json pydict pydict \<Rightarrow> supervisor_request" where
  "replacement_request original goal obs authority schemas =
     \<lparr>sq_goal = goal, sq_call = original, sq_tools = schemas, sq_policy = [], sq_authority = authority,
      sq_previous = [], sq_observations = obs, sq_provenance = [], sq_rewritten = False,
      sq_enable_rewrite = True, sq_threshold = Dec 55 (-2)\<rparr>"

definition validate_replacement ::
  "(json pydict \<Rightarrow> json pydict \<Rightarrow> bool) \<Rightarrow> tool_call \<Rightarrow> tool_call \<Rightarrow> string \<Rightarrow> observation list
   \<Rightarrow> task_authority \<Rightarrow> json pydict pydict \<Rightarrow> unit result" where
  "validate_replacement schema_ok original replacement goal obs authority schemas =
     (if tc_call_id replacement \<noteq> tc_call_id original \<or> tc_consumed replacement \<noteq> tc_consumed original
      then Inl (SupervisorSchemaError ''rewrite changes call identity or observation context'')
      else if tc_task_id replacement \<noteq> tc_task_id original \<or> tc_step_id replacement \<noteq> tc_step_id original
      then Inl (SupervisorSchemaError ''rewrite changes task or logical step'')
      else if \<not> set (tc_resources replacement) \<subseteq> set (tc_resources original)
      then Inl (SupervisorSchemaError ''rewrite expands requested resources'')
      else validate_rewrite schema_ok (replacement_response replacement)
             (replacement_request original goal obs authority schemas))"

text \<open>
  What an accepted replacement keeps of the call it replaces. Destinations are compared only in a
  field both calls set: the values are hashable and the replacement's are among the original's.
\<close>

definition keeps_destinations :: "tool_call \<Rightarrow> tool_call \<Rightarrow> string \<Rightarrow> bool" where
  "keeps_destinations original replacement f \<longleftrightarrow>
     (\<forall>old new. map_of (tc_arguments original) f = Some old \<longrightarrow> map_of (tc_arguments replacement) f = Some new
        \<longrightarrow> old \<noteq> JNull \<longrightarrow> new \<noteq> JNull \<longrightarrow>
        (\<forall>w\<in>set (as_list old). hashable w) \<and>
        (\<forall>v\<in>set (as_list new). hashable v \<and> (\<exists>w\<in>set (as_list old). py_eq v w)))"

definition narrows :: "tool_call \<Rightarrow> tool_call \<Rightarrow> bool" where
  "narrows original replacement \<longleftrightarrow>
     tc_call_id replacement = tc_call_id original \<and> tc_consumed replacement = tc_consumed original
     \<and> tc_task_id replacement = tc_task_id original \<and> tc_step_id replacement = tc_step_id original
     \<and> set (tc_resources replacement) \<subseteq> set (tc_resources original)
     \<and> (tool_effect original = EffRead \<longrightarrow> tool_effect replacement = EffRead)
     \<and> (tool_effect replacement \<noteq> EffRead \<longrightarrow> tc_tool_name replacement = tc_tool_name original)
     \<and> keeps_destinations original replacement ''recipients'' \<and> keeps_destinations original replacement ''to''
     \<and> keeps_destinations original replacement ''recipient''
     \<and> keeps_destinations original replacement ''participants''
     \<and> keeps_destinations original replacement ''requested_resources''"

text \<open>The call as it is judged: the tool and arguments proposed, the rest of the original.\<close>

definition proposed_as :: "tool_call \<Rightarrow> tool_call \<Rightarrow> tool_call" where
  "proposed_as original replacement =
     original\<lparr>tc_tool_name := tc_tool_name replacement, tc_arguments := tc_arguments replacement\<rparr>"

lemma proposed_as_fields [simp]:
  "tc_tool_name (proposed_as original replacement) = tc_tool_name replacement"
  "tc_arguments (proposed_as original replacement) = tc_arguments replacement"
  "tc_resources (proposed_as original replacement) = tc_resources original"
  by (simp_all add: proposed_as_def)

lemma tool_effect_args:
  "tc_tool_name a = tc_tool_name b \<Longrightarrow> tc_arguments a = tc_arguments b \<Longrightarrow> tool_effect a = tool_effect b"
  by (simp add: tool_effect_def)

lemma proposed_as_effect: "tool_effect (proposed_as original replacement) = tool_effect replacement"
  by (rule tool_effect_args) simp_all

lemma check_destination_iff:
  "check_destination original replacement f = Inr () \<longleftrightarrow> keeps_destinations original replacement f"
  by (auto simp: check_destination_def keeps_destinations_def Let_def jget_def dict_get_def
      split: option.splits)

lemma destinations_iff:
  "first_error (check_destination original (proposed_as original replacement)) rewrite_destinations = Inr ()
   \<longleftrightarrow> (\<forall>f\<in>set rewrite_destinations. keeps_destinations original replacement f)"
  by (simp add: check_destination_iff keeps_destinations_def)

lemma validate_rewrite_ok:
  assumes "validate_rewrite schema_ok response request = Inr ()" and "sr_decision response = REWRITE"
  obtains rw schema replacement where "sr_rewritten response = Some rw"
    and "replacement = (sq_call request)\<lparr>tc_tool_name := rw_tool rw, tc_arguments := rw_arguments rw\<rparr>"
    and "sq_enable_rewrite request" and "\<not> sq_rewritten request"
    and "map_of (sq_tools request) (rw_tool rw) = Some schema"
    and "tool_effect (sq_call request) = EffRead \<Longrightarrow> tool_effect replacement = EffRead"
    and "tool_effect replacement \<noteq> EffRead \<Longrightarrow> rw_tool rw = tc_tool_name (sq_call request)"
    and "\<forall>f\<in>set rewrite_destinations. check_destination (sq_call request) replacement f = Inr ()"
    and "check_authority (sq_goal request) replacement (sq_observations request) (sq_authority request) [] = None"
    and "validate_arguments schema_ok (rw_arguments rw) schema = Inr ()"
proof -
  from assms obtain rw where rw: "sr_rewritten response = Some rw"
    by (cases "sr_rewritten response") (simp_all add: validate_rewrite_def)
  define replacement where
    "replacement = (sq_call request)\<lparr>tc_tool_name := rw_tool rw, tc_arguments := rw_arguments rw\<rparr>"
  from assms obtain schema where schema: "map_of (sq_tools request) (rw_tool rw) = Some schema"
    by (cases "map_of (sq_tools request) (rw_tool rw)")
       (simp_all add: validate_rewrite_def rw Let_def split: if_splits)
  note v = assms(1)[unfolded validate_rewrite_def rw schema Let_def option.case, folded replacement_def]
  show ?thesis
    using that[OF rw replacement_def _ _ schema] v assms(2)
    by (cases "check_authority (sq_goal request) replacement (sq_observations request) (sq_authority request) []")
       (auto split: if_splits)
qed

lemma validate_replacement_rewrite:
  "validate_rewrite schema_ok (replacement_response replacement)
     (replacement_request original goal obs authority schemas) = Inr () \<longleftrightarrow>
   (\<exists>schema. map_of schemas (tc_tool_name replacement) = Some schema \<and>
      validate_arguments schema_ok (tc_arguments replacement) schema = Inr ())
   \<and> (tool_effect original = EffRead \<longrightarrow> tool_effect replacement = EffRead)
   \<and> (tool_effect replacement \<noteq> EffRead \<longrightarrow> tc_tool_name replacement = tc_tool_name original)
   \<and> (\<forall>f\<in>set rewrite_destinations. keeps_destinations original replacement f)
   \<and> check_authority goal (proposed_as original replacement) obs authority [] = None"
proof (cases "map_of schemas (tc_tool_name replacement)")
  case None
  then show ?thesis
    by (simp add: validate_rewrite_def replacement_response_def replacement_request_def Let_def)
next
  case (Some schema)
  show ?thesis
    unfolding destinations_iff[symmetric]
    by (auto simp: validate_rewrite_def replacement_response_def replacement_request_def Let_def Some
        proposed_as_effect simp flip: proposed_as_def split: sum.splits option.splits)
qed

lemma validate_replacement_iff:
  "validate_replacement schema_ok original replacement goal obs authority schemas = Inr () \<longleftrightarrow>
   narrows original replacement
   \<and> (\<exists>schema. map_of schemas (tc_tool_name replacement) = Some schema \<and>
        validate_arguments schema_ok (tc_arguments replacement) schema = Inr ())
   \<and> check_authority goal (proposed_as original replacement) obs authority [] = None"
  unfolding validate_replacement_def narrows_def
  by (simp add: validate_replacement_rewrite rewrite_destinations_def) blast

lemma validate_replacement_narrows:
  "validate_replacement schema_ok original replacement goal obs authority schemas = Inr () \<Longrightarrow>
   narrows original replacement"
  by (simp add: validate_replacement_iff)

end
