(* ===== verification/Ledger.thy ===== *)
theory Ledger
  imports PyJson
begin

text \<open>
  \<open>ledger.py\<close>: the transactional reservation ledger. The database is a record of its
  file, its tables and rows; every operation opens a checked connection, and returns its
  result with the database after it (a raised exception inside BEGIN IMMEDIATE rolls back).
  Amounts are exact; the 28 digits of the decimal context are not a bound of the model.
  Where a query can match two rows the first in insertion order is taken.
\<close>

section \<open>The database\<close>

record file_info =
  fi_regular :: bool
  fi_nlink :: nat
  fi_size :: nat

record exec_row =
  er_nonce :: string
  er_tenant :: string
  er_principal :: string
  er_credential :: string
  er_task :: string
  er_key :: string
  er_digest :: string
  er_effect :: string
  er_amount :: rat
  er_status :: string
  er_result :: "string option"
  er_disposition :: string
  er_policy :: string

record reconciliation =
  rc_nonce :: string
  rc_actor :: string
  rc_status :: string
  rc_reference :: string

record ledger_db =
  ld_file :: "file_info option"
  ld_intact :: bool
  ld_tables :: "string list"
  ld_columns :: "string list"
  ld_meta :: "(int \<times> string) list"
  ld_rows :: "exec_row list"
  ld_recs :: "reconciliation list"

definition ledger_schema :: int where
  "ledger_schema = 3"

type_synonym scope4 = "string \<times> string \<times> string \<times> string"

definition row_scope :: "exec_row \<Rightarrow> scope4" where
  "row_scope r = (er_tenant r, er_principal r, er_credential r, er_task r)"

section \<open>Opening\<close>

definition check_file :: "ledger_db \<Rightarrow> unit result" where
  "check_file db =
     (case ld_file db of
        None \<Rightarrow> Inl (ValueError ''initialized execution ledger is missing; stop admission'')
      | Some info \<Rightarrow>
          if \<not> fi_regular info \<or> fi_nlink info \<noteq> 1 \<or> fi_size info = 0
          then Inl (ValueError ''initialized private regular execution ledger is required'')
          else Inr ())"

definition ledger_connection :: "string \<Rightarrow> ledger_db \<Rightarrow> unit result" where
  "ledger_connection store_id db =
     (case check_file db of
        Inl e \<Rightarrow> Inl e
      | Inr _ \<Rightarrow>
          if ''ledger_metadata'' \<notin> set (ld_tables db) \<or> ld_meta db \<noteq> [(ledger_schema, store_id)]
          then Inl (ValueError ''execution ledger unavailable or incompatible; stop admission'')
          else Inr ())"

definition valid_store_id :: "string \<Rightarrow> bool" where
  "valid_store_id s \<longleftrightarrow> s \<noteq> [] \<and> length s \<le> 128"

definition ledger_open :: "string \<Rightarrow> ledger_db \<Rightarrow> unit result" where
  "ledger_open store_id db =
     (if \<not> valid_store_id store_id
      then Inl (ValueError ''trusted expected ledger identity is required'')
      else case ledger_connection store_id db of
        Inl e \<Rightarrow> Inl e
      | Inr _ \<Rightarrow> if ld_intact db then Inr ()
                else Inl (ValueError ''execution ledger integrity check failed''))"

text \<open>
  Provisioning creates the file exclusively. \<open>fresh\<close> is the identity \<open>uuid4\<close> draws;
  \<open>bytes\<close> is the file's size once the tables are written.
\<close>

definition legacy_columns :: "string list" where
  "legacy_columns =
     [''nonce'', ''tenant'', ''principal'', ''credential'', ''task'', ''idempotency_key'', ''digest'',
      ''effect_digest'', ''amount'', ''status'', ''result'']"

definition provision :: "string option \<Rightarrow> string \<Rightarrow> nat \<Rightarrow> ledger_db \<Rightarrow> string result \<times> ledger_db" where
  "provision store_id fresh bytes db =
     (let sid = (case store_id of None \<Rightarrow> fresh | Some s \<Rightarrow> if s = [] then fresh else s) in
      if \<not> valid_store_id sid then (Inl (ValueError ''invalid store identity''), db)
      else if ld_file db \<noteq> None then (Inl (OSError ''File exists''), db)
      else
        (let db' = \<lparr>ld_file = Some \<lparr>fi_regular = True, fi_nlink = 1, fi_size = bytes\<rparr>,
                    ld_intact = True,
                    ld_tables = [''executions'', ''reconciliations'', ''ledger_metadata''],
                    ld_columns = legacy_columns @ [''disposition'', ''result_policy''],
                    ld_meta = [(ledger_schema, sid)], ld_rows = [], ld_recs = []\<rparr> in
         case ledger_open sid db' of Inl e \<Rightarrow> (Inl e, db') | Inr _ \<Rightarrow> (Inr sid, db')))"

text \<open>\<open>backup_free\<close> and \<open>backup_ok\<close>: the backup path is new and the copy verifies.\<close>

definition migrate_legacy ::
  "string \<Rightarrow> bool \<Rightarrow> bool \<Rightarrow> bool \<Rightarrow> ledger_db \<Rightarrow> unit result \<times> ledger_db" where
  "migrate_legacy store_id workers_fenced backup_free backup_ok db =
     (if \<not> workers_fenced \<or> \<not> valid_store_id store_id
      then (Inl (ValueError ''migration requires fenced workers and an approved store identity''), db)
      else case check_file db of
        Inl e \<Rightarrow> (Inl e, db)
      | Inr _ \<Rightarrow>
          if \<not> backup_free then (Inl (OSError ''File exists''), db)
          else if \<not> backup_ok then (Inl (ValueError ''migration backup failed verification''), db)
          else if set (ld_tables db) \<noteq> {''executions'', ''reconciliations''} \<and>
                  set (ld_tables db) \<noteq> {''executions'', ''reconciliations'', ''ledger_metadata''}
          then (Inl (ValueError ''not a supported legacy ledger; no migration performed''), db)
          else if ld_columns db \<noteq> legacy_columns
          then (Inl (ValueError ''unsupported legacy execution schema''), db)
          else if ''ledger_metadata'' \<in> set (ld_tables db) \<and> ld_meta db \<noteq> [(2, store_id)]
          then (Inl (ValueError ''v2 migration requires its original approved identity''), db)
          else
            (Inr (),
             db\<lparr>ld_columns := legacy_columns @ [''disposition'', ''result_policy''],
                ld_tables := (if ''ledger_metadata'' \<in> set (ld_tables db) then ld_tables db
                              else ld_tables db @ [''ledger_metadata'']),
                ld_meta := (if ''ledger_metadata'' \<in> set (ld_tables db)
                            then map (\<lambda>(_, s). (ledger_schema, s)) (ld_meta db)
                            else [(ledger_schema, store_id)]),
                ld_rows := map (\<lambda>r. r\<lparr>er_disposition := ''review_required'', er_policy := []\<rparr>)
                             (ld_rows db)\<rparr>))"

section \<open>Reservation\<close>

record replay =
  rp_nonce :: string
  rp_status :: string
  rp_result :: "string option"
  rp_disposition :: string
  rp_replayed :: bool

record reserve_args =
  rq_scope :: scope4
  rq_nonce :: string
  rq_key :: string
  rq_digest :: string
  rq_effect :: string
  rq_amount :: rat
  rq_budget :: "rat option"
  rq_repeatable :: bool
  rq_policy :: string

definition scope_tenant :: "scope4 \<Rightarrow> string" where
  "scope_tenant s = fst s"

definition scope_task :: "scope4 \<Rightarrow> string" where
  "scope_task s = snd (snd (snd s))"

definition same_task :: "scope4 \<Rightarrow> exec_row \<Rightarrow> bool" where
  "same_task s r \<longleftrightarrow> er_tenant r = scope_tenant s \<and> er_task r = scope_task s"

definition matches_key :: "reserve_args \<Rightarrow> exec_row \<Rightarrow> bool" where
  "matches_key q r \<longleftrightarrow> er_nonce r = rq_nonce q \<or> (row_scope r = rq_scope q \<and> er_key r = rq_key q)"

definition in_flight :: "exec_row \<Rightarrow> bool" where
  "in_flight r \<longleftrightarrow> er_status r \<in> {''pending'', ''unknown''}"

definition unreviewed :: "exec_row \<Rightarrow> bool" where
  "unreviewed r \<longleftrightarrow> er_status r = ''succeeded'' \<and> er_disposition r \<noteq> ''accepted_for_agent''"

definition blocks_task :: "scope4 \<Rightarrow> exec_row \<Rightarrow> bool" where
  "blocks_task s r \<longleftrightarrow> same_task s r \<and> (in_flight r \<or> unreviewed r)"

definition counted :: "scope4 \<Rightarrow> exec_row \<Rightarrow> bool" where
  "counted s r \<longleftrightarrow> same_task s r \<and> er_status r \<noteq> ''not_dispatched''"

definition spent :: "scope4 \<Rightarrow> exec_row list \<Rightarrow> rat" where
  "spent s rows = sum_list (map er_amount (filter (counted s) rows))"

definition update_rows :: "(exec_row \<Rightarrow> bool) \<Rightarrow> (exec_row \<Rightarrow> exec_row) \<Rightarrow> exec_row list \<Rightarrow> exec_row list" where
  "update_rows p f rows = map (\<lambda>r. if p r then f r else r) rows"

definition rowcount :: "(exec_row \<Rightarrow> bool) \<Rightarrow> exec_row list \<Rightarrow> nat" where
  "rowcount p rows = length (filter p rows)"

definition replay_disposition :: "reserve_args \<Rightarrow> exec_row \<Rightarrow> string" where
  "replay_disposition q r =
     (if er_disposition r = ''accepted_for_agent'' \<and> (er_policy r \<noteq> rq_policy q \<or> er_result r = None)
      then ''review_required'' else er_disposition r)"

text \<open>What an existing reservation under the key or the nonce answers.\<close>

definition replay_existing ::
  "reserve_args \<Rightarrow> exec_row \<Rightarrow> ledger_db \<Rightarrow> replay option result \<times> ledger_db" where
  "replay_existing q r db =
     (if er_digest r \<noteq> rq_digest q \<or> row_scope r \<noteq> rq_scope q
      then (Inl (AuthorizationError ''execution key is bound to a different effect''), db)
      else if er_status r = ''succeeded'' then
        (let d = replay_disposition q r in
         (Inr (Some \<lparr>rp_nonce = er_nonce r, rp_status = ''succeeded'',
                     rp_result = (if d = ''accepted_for_agent'' then er_result r else None),
                     rp_disposition = d, rp_replayed = True\<rparr>),
          db\<lparr>ld_rows := update_rows (\<lambda>x. er_nonce x = er_nonce r) (er_disposition_update (\<lambda>_. d)) (ld_rows db)\<rparr>))
      else if er_status r = ''not_dispatched''
      then (Inl (AuthorizationError ''previous grant was rejected before dispatch; use a new key''), db)
      else (Inl (ExecutionUnknown ''an execution is pending or unknown; do not blindly retry''), db))"

definition new_row :: "reserve_args \<Rightarrow> exec_row" where
  "new_row q =
     (let (tenant, principal, credential, task) = rq_scope q in
      \<lparr>er_nonce = rq_nonce q, er_tenant = tenant, er_principal = principal,
       er_credential = credential, er_task = task, er_key = rq_key q, er_digest = rq_digest q,
       er_effect = rq_effect q, er_amount = rq_amount q, er_status = ''pending'', er_result = None,
       er_disposition = ''pending_review'', er_policy = rq_policy q\<rparr>)"

definition reserve :: "string \<Rightarrow> reserve_args \<Rightarrow> ledger_db \<Rightarrow> replay option result \<times> ledger_db" where
  "reserve store_id q db =
     (case ledger_connection store_id db of
        Inl e \<Rightarrow> (Inl e, db)
      | Inr _ \<Rightarrow>
          (case find (matches_key q) (ld_rows db) of
             Some r \<Rightarrow> replay_existing q r db
           | None \<Rightarrow>
               if \<exists>r\<in>set (ld_rows db). blocks_task (rq_scope q) r
               then (Inl (ExecutionUnknown ''task has a pending or unknown effect; reconcile before retry''), db)
               else if \<not> rq_repeatable q \<and>
                       (\<exists>r\<in>set (ld_rows db). counted (rq_scope q) r \<and> er_effect r = rq_effect q)
               then (Inl (AuthorizationError ''identical effect already reserved under another key''), db)
               else if (case rq_budget q of None \<Rightarrow> False
                        | Some l \<Rightarrow> l < spent (rq_scope q) (ld_rows db) + rq_amount q)
               then (Inl (AuthorizationError ''task budget is already spent or reserved''), db)
               else (Inr None, db\<lparr>ld_rows := ld_rows db @ [new_row q]\<rparr>)))"

section \<open>Completion, review and reconciliation\<close>

definition finish_ready :: "string \<Rightarrow> exec_row \<Rightarrow> bool" where
  "finish_ready nonce r \<longleftrightarrow> er_nonce r = nonce \<and> er_status r = ''pending''"

definition set_outcome :: "string \<Rightarrow> string option \<Rightarrow> string \<Rightarrow> exec_row \<Rightarrow> exec_row" where
  "set_outcome status result disposition r =
     r\<lparr>er_status := status, er_result := result, er_disposition := disposition\<rparr>"

definition finish ::
  "string \<Rightarrow> string \<Rightarrow> string \<Rightarrow> string option \<Rightarrow> string \<Rightarrow> ledger_db \<Rightarrow> unit result \<times> ledger_db" where
  "finish store_id nonce status result disposition db =
     (if status \<notin> {''succeeded'', ''unknown'', ''not_dispatched''}
      then (Inl (ValueError ''invalid execution status''), db)
      else if disposition \<notin> {''pending_review'', ''accepted_for_agent'', ''withheld'', ''review_required''}
      then (Inl (ValueError ''invalid result disposition''), db)
      else if disposition = ''accepted_for_agent'' \<and> (status \<noteq> ''succeeded'' \<or> result = None)
      then (Inl (ValueError ''acceptance requires a succeeded execution and stored result''), db)
      else case ledger_connection store_id db of
        Inl e \<Rightarrow> (Inl e, db)
      | Inr _ \<Rightarrow>
          (if rowcount (finish_ready nonce) (ld_rows db) \<noteq> 1
           then Inl (ExecutionUnknown ''reservation changed or was lost before completion'')
           else Inr (),
           db\<lparr>ld_rows := update_rows (finish_ready nonce) (set_outcome status result disposition)
                           (ld_rows db)\<rparr>))"

definition review_ready :: "string \<Rightarrow> string \<Rightarrow> exec_row \<Rightarrow> bool" where
  "review_ready nonce policy r \<longleftrightarrow>
     er_nonce r = nonce \<and> er_status r = ''succeeded'' \<and> er_disposition r = ''pending_review'' \<and>
     er_policy r = policy \<and> er_result r \<noteq> None"

definition decide_result ::
  "string \<Rightarrow> string \<Rightarrow> string \<Rightarrow> string \<Rightarrow> ledger_db \<Rightarrow> unit result \<times> ledger_db" where
  "decide_result store_id nonce disposition policy db =
     (if disposition \<notin> {''accepted_for_agent'', ''withheld'', ''review_required''}
      then (Inl (ValueError ''invalid result disposition''), db)
      else case ledger_connection store_id db of
        Inl e \<Rightarrow> (Inl e, db)
      | Inr _ \<Rightarrow>
          (if rowcount (review_ready nonce policy) (ld_rows db) \<noteq> 1
           then Inl (ExecutionUnknown ''result review changed or requires authorized recovery'')
           else Inr (),
           db\<lparr>ld_rows := update_rows (review_ready nonce policy)
                           (er_disposition_update (\<lambda>_. disposition)) (ld_rows db)\<rparr>))"

definition lookup :: "string \<Rightarrow> string \<Rightarrow> ledger_db \<Rightarrow> exec_row result" where
  "lookup store_id nonce db =
     (case ledger_connection store_id db of
        Inl e \<Rightarrow> Inl e
      | Inr _ \<Rightarrow>
          (case find (\<lambda>r. er_nonce r = nonce) (ld_rows db) of
             None \<Rightarrow> Inl (KeyError ''execution reservation not found'')
           | Some r \<Rightarrow> Inr r))"

definition reconcile_ready :: "string \<Rightarrow> exec_row \<Rightarrow> bool" where
  "reconcile_ready nonce r \<longleftrightarrow> er_nonce r = nonce \<and> in_flight r"

definition reconcile ::
  "string \<Rightarrow> string \<Rightarrow> string \<Rightarrow> string option \<Rightarrow> string \<Rightarrow> string \<Rightarrow> bool \<Rightarrow> string \<Rightarrow> ledger_db
   \<Rightarrow> exec_row result \<times> ledger_db" where
  "reconcile store_id nonce status result actor reference pending_fenced disposition db =
     (if status \<notin> {''succeeded'', ''not_dispatched''} \<or> reference = []
      then (Inl (ValueError ''reconciliation requires a definitive verified provider receipt''), db)
      else if disposition \<notin> {''accepted_for_agent'', ''withheld'', ''review_required''}
              \<or> disposition = ''accepted_for_agent'' \<and> (status \<noteq> ''succeeded'' \<or> result = None)
      then (Inl (ValueError ''invalid reconciliation result disposition''), db)
      else case ledger_connection store_id db of
        Inl e \<Rightarrow> (Inl e, db)
      | Inr _ \<Rightarrow>
          if (case find (\<lambda>r. er_nonce r = nonce) (ld_rows db) of
                None \<Rightarrow> False | Some r \<Rightarrow> er_status r = ''pending'' \<and> \<not> pending_fenced)
          then (Inl (ValueError ''fence the pending worker before reconciliation''), db)
          else if rowcount (reconcile_ready nonce) (ld_rows db) \<noteq> 1
          then (Inl (ValueError ''only an uncertain reservation can be reconciled''), db)
          else
            (let db' = db\<lparr>ld_rows := update_rows (reconcile_ready nonce)
                                       (set_outcome status result disposition) (ld_rows db),
                          ld_recs := ld_recs db @ [\<lparr>rc_nonce = nonce, rc_actor = actor,
                                                    rc_status = status, rc_reference = reference\<rparr>]\<rparr>
             in (lookup store_id nonce db', db')))"

lemmas ledger_ops [ledger_defs] =
  reserve_def finish_def decide_result_def reconcile_def replay_existing_def

end
