(* ===== verification/LedgerSafety.thy ===== *)
theory LedgerSafety
  imports Ledger
begin

text \<open>
  What the reservation ledger promises over any sequence of operations: the invariant of
  its rows, the order in which a row may only move forward, and the task budget.
\<close>

section \<open>Operations as steps\<close>

datatype ledger_op =
    OpReserve reserve_args
  | OpFinish string string "string option" string
  | OpDecide string string string
  | OpReconcile string string "string option" string string bool string

fun apply_op :: "string \<Rightarrow> ledger_op \<Rightarrow> ledger_db \<Rightarrow> ledger_db" where
  "apply_op sid (OpReserve q) db = snd (reserve sid q db)"
| "apply_op sid (OpFinish n s r d) db = snd (finish sid n s r d db)"
| "apply_op sid (OpDecide n d p) db = snd (decide_result sid n d p db)"
| "apply_op sid (OpReconcile n s r a ref fenced d) db = snd (reconcile sid n s r a ref fenced d db)"

inductive ledger_step :: "string \<Rightarrow> ledger_db \<Rightarrow> ledger_db \<Rightarrow> bool" for sid where
  step_op: "ledger_step sid db (apply_op sid op db)"

inductive_cases ledger_stepE: "ledger_step sid db db'"

definition run_ops :: "string \<Rightarrow> ledger_op list \<Rightarrow> ledger_db \<Rightarrow> ledger_db" where
  "run_ops sid ops db = foldl (\<lambda>d op. apply_op sid op d) db ops"

lemma run_ops_Nil [simp]: "run_ops sid [] db = db"
  and run_ops_snoc [simp]: "run_ops sid (ops @ [op]) db = apply_op sid op (run_ops sid ops db)"
  by (simp_all add: run_ops_def)

lemma run_ops_reached: "reached (ledger_step sid) db (run_ops sid ops db)"
  by (induction ops rule: rev_induct) (auto intro: reached.intros ledger_step.intros)

section \<open>The shape of a change\<close>

text \<open>Every operation leaves the rows, updates some of them in place, or appends one.\<close>

definition row_ok :: "exec_row \<Rightarrow> bool" where
  "row_ok r \<longleftrightarrow>
     er_status r \<in> {''pending'', ''unknown'', ''succeeded'', ''not_dispatched''} \<and>
     er_disposition r \<in> {''pending_review'', ''accepted_for_agent'', ''withheld'', ''review_required''} \<and>
     (er_disposition r = ''accepted_for_agent'' \<longrightarrow> er_status r = ''succeeded'' \<and> er_result r \<noteq> None)"

definition same_identity :: "exec_row \<Rightarrow> exec_row \<Rightarrow> bool" where
  "same_identity r r' \<longleftrightarrow>
     er_nonce r' = er_nonce r \<and> row_scope r' = row_scope r \<and> er_key r' = er_key r \<and>
     er_digest r' = er_digest r \<and> er_effect r' = er_effect r \<and> er_amount r' = er_amount r \<and>
     er_policy r' = er_policy r"

definition status_le :: "string \<Rightarrow> string \<Rightarrow> bool" where
  "status_le s s' \<longleftrightarrow> s = s' \<or> s = ''pending'' \<or> (s = ''unknown'' \<and> s' \<noteq> ''pending'')"

definition disposition_le :: "string \<Rightarrow> string \<Rightarrow> bool" where
  "disposition_le d d' \<longleftrightarrow>
     d = d' \<or> d = ''pending_review'' \<or> (d = ''accepted_for_agent'' \<and> d' = ''review_required'')"

definition row_le :: "exec_row \<Rightarrow> exec_row \<Rightarrow> bool" where
  "row_le r r' \<longleftrightarrow>
     same_identity r r' \<and> status_le (er_status r) (er_status r') \<and>
     (er_status r = ''succeeded'' \<longrightarrow>
        er_result r' = er_result r \<and> disposition_le (er_disposition r) (er_disposition r'))"

definition change_ok :: "(exec_row \<Rightarrow> bool) \<Rightarrow> (exec_row \<Rightarrow> exec_row) \<Rightarrow> exec_row list \<Rightarrow> bool" where
  "change_ok p f rows \<longleftrightarrow> (\<forall>r\<in>set rows. p r \<longrightarrow> row_ok r \<longrightarrow> row_le r (f r) \<and> row_ok (f r))"

definition admissible :: "string \<Rightarrow> reserve_args \<Rightarrow> ledger_db \<Rightarrow> bool" where
  "admissible sid q db \<longleftrightarrow>
     ledger_connection sid db = Inr ()
     \<and> (\<forall>r\<in>set (ld_rows db). \<not> matches_key q r \<and> \<not> blocks_task (rq_scope q) r)
     \<and> (rq_repeatable q \<or> (\<forall>r\<in>set (ld_rows db). counted (rq_scope q) r \<longrightarrow> er_effect r \<noteq> rq_effect q))
     \<and> (\<forall>l. rq_budget q = Some l \<longrightarrow> spent (rq_scope q) (ld_rows db) + rq_amount q \<le> l)"

inductive row_effect :: "reserve_args option \<Rightarrow> string \<Rightarrow> ledger_db \<Rightarrow> ledger_db \<Rightarrow> bool" where
  unchanged: "ld_rows db' = ld_rows db \<Longrightarrow> row_effect None sid db db'"
| updated: "change_ok p f (ld_rows db) \<Longrightarrow> ld_rows db' = update_rows p f (ld_rows db)
    \<Longrightarrow> row_effect None sid db db'"
| appended: "admissible sid q db \<Longrightarrow> ld_rows db' = ld_rows db @ [new_row q]
    \<Longrightarrow> row_effect (Some q) sid db db'"

text \<open>The reservation an operation makes afresh.\<close>

fun fresh_of :: "string \<Rightarrow> ledger_op \<Rightarrow> ledger_db \<Rightarrow> reserve_args option" where
  "fresh_of sid (OpReserve q) db = (if admissible sid q db then Some q else None)"
| "fresh_of sid _ db = None"

lemma replay_not_fresh: "fst (replay_existing q r db) \<noteq> Inr None"
  by (simp add: replay_existing_def Let_def)

lemma reserve_cases:
  assumes "ledger_connection sid db = Inr ()" and "find (matches_key q) (ld_rows db) = None"
  shows "reserve sid q db =
    (if \<exists>r\<in>set (ld_rows db). blocks_task (rq_scope q) r
     then (Inl (ExecutionUnknown ''task has a pending or unknown effect; reconcile before retry''), db)
     else if \<not> rq_repeatable q \<and>
             (\<exists>r\<in>set (ld_rows db). counted (rq_scope q) r \<and> er_effect r = rq_effect q)
     then (Inl (AuthorizationError ''identical effect already reserved under another key''), db)
     else if (case rq_budget q of None \<Rightarrow> False
              | Some l \<Rightarrow> l < spent (rq_scope q) (ld_rows db) + rq_amount q)
     then (Inl (AuthorizationError ''task budget is already spent or reserved''), db)
     else (Inr None, db\<lparr>ld_rows := ld_rows db @ [new_row q]\<rparr>))"
  unfolding reserve_def assms by simp

lemma reserve_fresh_iff: "fst (reserve sid q db) = Inr None \<longleftrightarrow> admissible sid q db"
proof (cases "ledger_connection sid db")
  case (Inl e)
  then show ?thesis by (simp add: reserve_def admissible_def)
next
  case (Inr u)
  then have conn: "ledger_connection sid db = Inr ()" by simp
  show ?thesis
  proof (cases "find (matches_key q) (ld_rows db)")
    case (Some r)
    then have "\<exists>r\<in>set (ld_rows db). matches_key q r" by (auto simp: find_Some_iff)
    moreover have "fst (reserve sid q db) \<noteq> Inr None"
      unfolding reserve_def conn Some by (simp add: replay_not_fresh)
    ultimately show ?thesis by (auto simp: admissible_def)
  next
    case None
    then have "\<forall>r\<in>set (ld_rows db). \<not> matches_key q r" by (simp add: find_None_iff)
    then show ?thesis
      unfolding reserve_cases[OF conn None] admissible_def
      by (auto simp: conn not_less split: option.split)
  qed
qed

lemma reserve_fresh_state:
  assumes "admissible sid q db"
  shows "snd (reserve sid q db) = db\<lparr>ld_rows := ld_rows db @ [new_row q]\<rparr>"
proof -
  from assms have "find (matches_key q) (ld_rows db) = None" and "ledger_connection sid db = Inr ()"
    by (auto simp: admissible_def find_None_iff)
  from reserve_cases[OF this(2,1)] assms show ?thesis
    by (auto simp: admissible_def not_less split: option.split)
qed

section \<open>The invariant\<close>

definition ledger_inv :: "ledger_db \<Rightarrow> bool" where
  "ledger_inv db \<longleftrightarrow>
     distinct (map er_nonce (ld_rows db)) \<and>
     distinct (map (\<lambda>r. (row_scope r, er_key r)) (ld_rows db)) \<and>
     (\<forall>r\<in>set (ld_rows db). row_ok r) \<and>
     (\<forall>s. length (filter (\<lambda>r. same_task s r \<and> in_flight r) (ld_rows db)) \<le> 1)"

lemma row_le_refl [simp]: "row_le r r"
  by (simp add: row_le_def same_identity_def status_le_def disposition_le_def)

lemma status_le_trans: "status_le a b \<Longrightarrow> status_le b c \<Longrightarrow> status_le a c"
  by (auto simp: status_le_def)

lemma disposition_le_trans: "disposition_le a b \<Longrightarrow> disposition_le b c \<Longrightarrow> disposition_le a c"
  by (auto simp: disposition_le_def)

lemma status_le_succeeded: "status_le ''succeeded'' s \<longleftrightarrow> s = ''succeeded''"
  and status_le_not_dispatched: "status_le ''not_dispatched'' s \<longleftrightarrow> s = ''not_dispatched''"
  by (auto simp: status_le_def)

lemma row_le_trans:
  assumes "row_le a b" and "row_le b c" shows "row_le a c"
proof -
  from assms have "same_identity a c" by (simp add: row_le_def same_identity_def)
  moreover from assms have "status_le (er_status a) (er_status c)"
    by (auto simp: row_le_def intro: status_le_trans)
  moreover have "er_result c = er_result a \<and> disposition_le (er_disposition a) (er_disposition c)"
    if succ: "er_status a = ''succeeded''"
  proof -
    from assms(1) succ have "er_status b = ''succeeded''"
      by (simp add: row_le_def status_le_succeeded)
    with assms succ show ?thesis by (auto simp: row_le_def intro: disposition_le_trans)
  qed
  ultimately show ?thesis by (simp add: row_le_def)
qed

lemma row_le_in_flight: "row_le r r' \<Longrightarrow> row_ok r \<Longrightarrow> in_flight r' \<Longrightarrow> in_flight r"
  by (auto simp: row_le_def in_flight_def status_le_def row_ok_def)

lemma same_identity_task: "same_identity r r' \<Longrightarrow> same_task s r' = same_task s r"
  by (auto simp: same_identity_def same_task_def row_scope_def)

lemma replay_change_ok:
  assumes "ledger_inv db" and "r \<in> set (ld_rows db)" and "er_status r = ''succeeded''"
  shows "change_ok (\<lambda>x. er_nonce x = er_nonce r)
           (er_disposition_update (\<lambda>_. replay_disposition q r)) (ld_rows db)"
proof -
  have "x = r" if "x \<in> set (ld_rows db)" "er_nonce x = er_nonce r" for x
    using assms(1,2) that by (auto simp: ledger_inv_def distinct_map dest: inj_onD)
  moreover have "row_le r (er_disposition_update (\<lambda>_. replay_disposition q r) r)"
    using assms(3)
    by (simp add: row_le_def same_identity_def status_le_def disposition_le_def
        replay_disposition_def row_scope_def)
  moreover have "row_ok (er_disposition_update (\<lambda>_. replay_disposition q r) r)" if "row_ok r"
    using that by (simp add: row_ok_def replay_disposition_def)
  ultimately show ?thesis by (simp add: change_ok_def) blast
qed

lemma outcome_change_ok:
  assumes flight: "\<And>r. p r \<Longrightarrow> in_flight r \<and> status_le (er_status r) status"
    and ok: "row_ok (set_outcome status result disposition r0)"
  shows "change_ok p (set_outcome status result disposition) rows"
  unfolding change_ok_def
proof (intro ballI impI conjI)
  fix r assume p: "p r"
  have "er_status r \<noteq> ''succeeded''" using flight[OF p] by (auto simp: in_flight_def)
  with flight[OF p] show "row_le r (set_outcome status result disposition r)"
    by (simp add: row_le_def same_identity_def set_outcome_def row_scope_def)
  from ok show "row_ok (set_outcome status result disposition r)"
    by (simp add: row_ok_def set_outcome_def)
qed

lemma decide_change_ok:
  assumes d: "disposition \<in> {''accepted_for_agent'', ''withheld'', ''review_required''}"
  shows "change_ok (review_ready nonce policy) (er_disposition_update (\<lambda>_. disposition)) rows"
  unfolding change_ok_def
proof (intro ballI impI conjI)
  fix r assume p: "review_ready nonce policy r"
  then show "row_le r (er_disposition_update (\<lambda>_. disposition) r)"
    by (simp add: row_le_def same_identity_def row_scope_def status_le_def disposition_le_def review_ready_def)
  from p d show "row_ok (er_disposition_update (\<lambda>_. disposition) r)"
    unfolding row_ok_def review_ready_def by (elim insertE) simp_all
qed

lemma refused_unchanged:
  "fst (if a then (Inl e1, d) else if b then (Inl e2, d) else if c then (Inl e3, d) else (Inr None, d'))
     \<noteq> Inr None \<Longrightarrow>
   snd (if a then (Inl e1, d) else if b then (Inl e2, d) else if c then (Inl e3, d) else (Inr None, d')) = d"
  by (cases a; cases b; cases c) simp_all

lemma reserve_effect:
  assumes inv: "ledger_inv db"
  shows "row_effect (fresh_of sid (OpReserve q) db) sid db (snd (reserve sid q db))"
proof (cases "admissible sid q db")
  case True
  then show ?thesis by (simp add: row_effect.appended reserve_fresh_state)
next
  case False
  then have fresh: "fresh_of sid (OpReserve q) db = None" by simp
  show ?thesis unfolding fresh
  proof (cases "ledger_connection sid db = Inr () \<and> find (matches_key q) (ld_rows db) \<noteq> None")
    case True
    then obtain r where conn: "ledger_connection sid db = Inr ()"
        and r: "find (matches_key q) (ld_rows db) = Some r" by auto
    then have rin: "r \<in> set (ld_rows db)" by (auto simp: find_Some_iff)
    have "snd (reserve sid q db) = db \<or> (er_status r = ''succeeded'' \<and>
        ld_rows (snd (reserve sid q db)) = update_rows (\<lambda>x. er_nonce x = er_nonce r)
          (er_disposition_update (\<lambda>_. replay_disposition q r)) (ld_rows db))"
      unfolding reserve_def conn r by (simp add: replay_existing_def Let_def)
    then show "row_effect None sid db (snd (reserve sid q db))"
    proof
      assume "snd (reserve sid q db) = db"
      then show ?thesis by (simp add: row_effect.unchanged)
    next
      assume u: "er_status r = ''succeeded'' \<and>
        ld_rows (snd (reserve sid q db)) = update_rows (\<lambda>x. er_nonce x = er_nonce r)
          (er_disposition_update (\<lambda>_. replay_disposition q r)) (ld_rows db)"
      from replay_change_ok[OF inv rin conjunct1[OF u]] conjunct2[OF u]
      show ?thesis by (rule row_effect.updated)
    qed
  next
    case no: False
    have "snd (reserve sid q db) = db"
    proof (cases "ledger_connection sid db")
      case (Inl e)
      then show ?thesis by (simp add: reserve_def)
    next
      case (Inr u)
      with no have conn: "ledger_connection sid db = Inr ()" and none: "find (matches_key q) (ld_rows db) = None"
        by auto
      from False have "fst (reserve sid q db) \<noteq> Inr None" by (simp add: reserve_fresh_iff)
      then show ?thesis unfolding reserve_cases[OF conn none] by (rule refused_unchanged)
    qed
    then show "row_effect None sid db (snd (reserve sid q db))" by (simp add: row_effect.unchanged)
  qed
qed

lemma status_le_definitive:
  "in_flight r \<Longrightarrow> s \<noteq> ''pending'' \<Longrightarrow> status_le (er_status r) s"
  by (auto simp: in_flight_def status_le_def)

text \<open>An operation that changed the database passed its guards.\<close>

lemma guarded1:
  assumes "snd (if a then (Inl e1, d) else case r of Inl e \<Rightarrow> (Inl e, d) | Inr u \<Rightarrow> k) \<noteq> d"
  shows "\<not> a \<and> (if a then (Inl e1, d) else case r of Inl e \<Rightarrow> (Inl e, d) | Inr u \<Rightarrow> k) = k"
  using assms by (cases a; cases r) simp_all

lemma guarded3:
  assumes "snd (if a then (Inl e1, d) else if b then (Inl e2, d) else if c then (Inl e3, d)
                else case r of Inl e \<Rightarrow> (Inl e, d) | Inr u \<Rightarrow> k) \<noteq> d"
  shows "\<not> a \<and> \<not> b \<and> \<not> c \<and>
    (if a then (Inl e1, d) else if b then (Inl e2, d) else if c then (Inl e3, d)
     else case r of Inl e \<Rightarrow> (Inl e, d) | Inr u \<Rightarrow> k) = k"
  using assms by (cases a; cases b; cases c; cases r) simp_all

lemma guarded4:
  assumes "snd (if a then (Inl e1, d) else if b then (Inl e2, d)
                else case r of Inl e \<Rightarrow> (Inl e, d)
                  | Inr u \<Rightarrow> if c then (Inl e3, d) else if g then (Inl e4, d) else k) \<noteq> d"
  shows "\<not> a \<and> \<not> b \<and>
    (if a then (Inl e1, d) else if b then (Inl e2, d)
     else case r of Inl e \<Rightarrow> (Inl e, d)
       | Inr u \<Rightarrow> if c then (Inl e3, d) else if g then (Inl e4, d) else k) = k"
  using assms by (cases a; cases b; cases r; cases c; cases g) simp_all

lemma set_outcome_ok:
  assumes "status \<in> {''pending'', ''unknown'', ''succeeded'', ''not_dispatched''}"
    and "disposition \<in> {''pending_review'', ''accepted_for_agent'', ''withheld'', ''review_required''}"
    and "\<not> (disposition = ''accepted_for_agent'' \<and> (status \<noteq> ''succeeded'' \<or> result = None))"
  shows "row_ok (set_outcome status result disposition r)"
  unfolding row_ok_def set_outcome_def using assms by simp

lemma finish_effect: "row_effect None sid db (snd (finish sid nonce status result disposition db))"
proof (cases "snd (finish sid nonce status result disposition db) = db")
  case True
  then show ?thesis by (simp add: row_effect.unchanged)
next
  case False
  note g = guarded3[OF False[unfolded finish_def]]
  have ok: "row_ok (set_outcome status result disposition r0)" for r0
  proof (rule set_outcome_ok)
    show "status \<in> {''pending'', ''unknown'', ''succeeded'', ''not_dispatched''}"
      using conjunct1[OF g] by blast
    show "disposition \<in> {''pending_review'', ''accepted_for_agent'', ''withheld'', ''review_required''}"
      using g[THEN conjunct2, THEN conjunct1] by (rule notnotD)
    show "\<not> (disposition = ''accepted_for_agent'' \<and> (status \<noteq> ''succeeded'' \<or> result = None))"
      using g[THEN conjunct2, THEN conjunct2, THEN conjunct1] .
  qed
  have flight: "in_flight r \<and> status_le (er_status r) status" if "finish_ready nonce r" for r
    using that by (simp add: finish_ready_def in_flight_def status_le_def)
  have "ld_rows (snd (finish sid nonce status result disposition db)) =
      update_rows (finish_ready nonce) (set_outcome status result disposition) (ld_rows db)"
    using arg_cong[OF g[THEN conjunct2, THEN conjunct2, THEN conjunct2], of "\<lambda>x. ld_rows (snd x)"]
    unfolding finish_def by (simp only: snd_conv) simp
  then show ?thesis using flight ok by (intro row_effect.updated[OF outcome_change_ok])
qed

lemma decide_effect: "row_effect None sid db (snd (decide_result sid nonce disposition policy db))"
proof (cases "snd (decide_result sid nonce disposition policy db) = db")
  case True
  then show ?thesis by (simp add: row_effect.unchanged)
next
  case False
  note g = guarded1[OF False[unfolded decide_result_def]]
  have rows: "ld_rows (snd (decide_result sid nonce disposition policy db)) =
      update_rows (review_ready nonce policy) (er_disposition_update (\<lambda>_. disposition)) (ld_rows db)"
    using arg_cong[OF g[THEN conjunct2], of "\<lambda>x. ld_rows (snd x)"]
    unfolding decide_result_def by (simp only: snd_conv) simp
  have "disposition \<in> {''accepted_for_agent'', ''withheld'', ''review_required''}"
    using conjunct1[OF g] by (simp only: not_not)
  then show ?thesis using rows by (rule row_effect.updated[OF decide_change_ok])
qed

lemma reconcile_effect:
  "row_effect None sid db (snd (reconcile sid nonce status result actor reference fenced disposition db))"
proof (cases "snd (reconcile sid nonce status result actor reference fenced disposition db) = db")
  case True
  then show ?thesis by (simp add: row_effect.unchanged)
next
  case False
  note g = guarded4[OF False[unfolded reconcile_def Let_def]]
  have ok: "row_ok (set_outcome status result disposition r0)" for r0
  proof (rule set_outcome_ok)
    show "status \<in> {''pending'', ''unknown'', ''succeeded'', ''not_dispatched''}"
      using conjunct1[OF g] by blast
    show "disposition \<in> {''pending_review'', ''accepted_for_agent'', ''withheld'', ''review_required''}"
      and "\<not> (disposition = ''accepted_for_agent'' \<and> (status \<noteq> ''succeeded'' \<or> result = None))"
      using g[THEN conjunct2, THEN conjunct1] by blast+
  qed
  have "status \<noteq> ''pending''" using conjunct1[OF g] by auto
  then have flight: "in_flight r \<and> status_le (er_status r) status" if "reconcile_ready nonce r" for r
    using that by (simp add: reconcile_ready_def status_le_definitive)
  have "ld_rows (snd (reconcile sid nonce status result actor reference fenced disposition db)) =
      update_rows (reconcile_ready nonce) (set_outcome status result disposition) (ld_rows db)"
    using arg_cong[OF g[THEN conjunct2, THEN conjunct2], of "\<lambda>x. ld_rows (snd x)"]
    unfolding reconcile_def Let_def by (simp only: snd_conv) simp
  then show ?thesis using flight ok by (intro row_effect.updated[OF outcome_change_ok])
qed

lemma apply_op_effect:
  "ledger_inv db \<Longrightarrow> row_effect (fresh_of sid op db) sid db (apply_op sid op db)"
  using reserve_effect
  by (cases op) (simp_all add: finish_effect decide_effect reconcile_effect)

section \<open>Preservation\<close>

lemma update_rows_map_eq:
  assumes "change_ok p f rows" and "\<forall>r\<in>set rows. row_ok r"
    and "\<And>r r'. row_le r r' \<Longrightarrow> g r' = g r"
  shows "map g (update_rows p f rows) = map g rows"
  using assms by (auto simp: update_rows_def change_ok_def)

lemma filter_map_le:
  assumes "\<And>x. x \<in> set xs \<Longrightarrow> P (g x) \<Longrightarrow> P x"
  shows "length (filter P (map g xs)) \<le> length (filter P xs)"
  using assms by (induction xs) (auto simp: le_SucI)

lemma new_row_fields [simp]:
  "er_nonce (new_row q) = rq_nonce q" "row_scope (new_row q) = rq_scope q"
  "er_key (new_row q) = rq_key q" "er_amount (new_row q) = rq_amount q"
  "er_status (new_row q) = ''pending''" "er_digest (new_row q) = rq_digest q"
  "er_effect (new_row q) = rq_effect q" "er_disposition (new_row q) = ''pending_review''"
  by (simp_all add: new_row_def row_scope_def split: prod.splits)

lemma new_row_ok: "row_ok (new_row q)"
  by (simp add: row_ok_def)

lemma same_task_scope: "same_task s r \<longleftrightarrow> scope_tenant (row_scope r) = scope_tenant s \<and> scope_task (row_scope r) = scope_task s"
  by (auto simp: same_task_def row_scope_def scope_tenant_def scope_task_def)

lemma effect_inv:
  assumes "row_effect fr sid db db'" and inv: "ledger_inv db"
  shows "ledger_inv db'"
proof -
  have flight: "length (filter (\<lambda>r. same_task s r \<and> in_flight r) (ld_rows db)) \<le> 1" for s
    using inv unfolding ledger_inv_def by blast
  show ?thesis using assms(1)
  proof cases
    case unchanged
    with inv show ?thesis by (simp add: ledger_inv_def)
  next
    case (updated p f)
    from inv have ok: "\<forall>r\<in>set (ld_rows db). row_ok r" by (simp add: ledger_inv_def)
    have le: "row_le r (if p r then f r else r) \<and> row_ok (if p r then f r else r)"
      if "r \<in> set (ld_rows db)" for r
      using updated(2) ok that by (auto simp: change_ok_def)
    have "map er_nonce (ld_rows db') = map er_nonce (ld_rows db)"
      "map (\<lambda>r. (row_scope r, er_key r)) (ld_rows db') = map (\<lambda>r. (row_scope r, er_key r)) (ld_rows db)"
      unfolding updated(3)
      by (rule update_rows_map_eq[OF updated(2) ok]; simp add: row_le_def same_identity_def)+
    moreover have "\<forall>r\<in>set (ld_rows db'). row_ok r"
      unfolding updated(3) update_rows_def set_map using le by blast
    moreover have "length (filter (\<lambda>r. same_task s r \<and> in_flight r) (ld_rows db')) \<le> 1" for s
    proof -
      have "length (filter (\<lambda>r. same_task s r \<and> in_flight r) (ld_rows db'))
          \<le> length (filter (\<lambda>r. same_task s r \<and> in_flight r) (ld_rows db))"
        unfolding updated(3) update_rows_def
        using le ok by (intro filter_map_le) (metis row_le_in_flight row_le_def same_identity_task)
      also have "\<dots> \<le> 1" by (rule flight)
      finally show ?thesis .
    qed
    ultimately show ?thesis using inv by (simp only: ledger_inv_def) simp
  next
    case (appended q)
    have free: "\<not> matches_key q r \<and> \<not> blocks_task (rq_scope q) r" if "r \<in> set (ld_rows db)" for r
      using appended(2) that by (simp add: admissible_def)
    have "length (filter (\<lambda>r. same_task s r \<and> in_flight r) (ld_rows db')) \<le> 1" for s
    proof (cases "same_task s (new_row q)")
      case True
      then have "filter (\<lambda>r. same_task s r \<and> in_flight r) (ld_rows db) = []"
        using free by (auto simp: filter_empty_conv blocks_task_def same_task_scope)
      then show ?thesis by (simp add: appended(3))
    next
      case False
      then show ?thesis using flight[of s] by (simp add: appended(3))
    qed
    moreover have "er_nonce r \<noteq> rq_nonce q" "(row_scope r, er_key r) \<noteq> (rq_scope q, rq_key q)"
      if "r \<in> set (ld_rows db)" for r
      using free[OF that] by (auto simp: matches_key_def)
    then have "rq_nonce q \<notin> er_nonce ` set (ld_rows db)"
      and "(rq_scope q, rq_key q) \<notin> (\<lambda>r. (row_scope r, er_key r)) ` set (ld_rows db)"
      by (simp add: image_iff, metis, simp only: image_iff, metis)
    ultimately show ?thesis
      using inv new_row_ok by (simp add: ledger_inv_def appended(3) image_iff)
  qed
qed

text \<open>Every row of the earlier ledger is still there, no further back.\<close>

definition ledger_le :: "ledger_db \<Rightarrow> ledger_db \<Rightarrow> bool" where
  "ledger_le db db' \<longleftrightarrow> (\<forall>r\<in>set (ld_rows db). \<exists>r'\<in>set (ld_rows db'). row_le r r')"

lemma effect_le:
  assumes "row_effect fr sid db db'" and "ledger_inv db"
  shows "ledger_le db db'"
  using assms(1)
proof cases
  case (updated p f)
  show ?thesis
    unfolding ledger_le_def
  proof
    fix r assume r: "r \<in> set (ld_rows db)"
    with assms(2) updated(2) have "row_le r (if p r then f r else r)"
      by (auto simp: change_ok_def ledger_inv_def)
    with r show "\<exists>r'\<in>set (ld_rows db'). row_le r r'"
      unfolding updated(3) update_rows_def set_map by blast
  qed
qed (use row_le_refl in \<open>force simp: ledger_le_def\<close>)+

interpretation ledger: monotone_stepper "ledger_step sid" ledger_inv ledger_le for sid
proof
  fix s t assume "ledger_step sid s t" and "ledger_inv s"
  then obtain fr where "row_effect fr sid s t" by (auto elim!: ledger_stepE dest: apply_op_effect)
  with \<open>ledger_inv s\<close> show "ledger_inv t" "ledger_le s t"
    by (blast intro: effect_inv effect_le)+
next
  show "ledger_le s s" for s by (auto simp: ledger_le_def intro: row_le_refl)
  show "ledger_le s t \<Longrightarrow> ledger_le t u \<Longrightarrow> ledger_le s u" for s t u
    unfolding ledger_le_def using row_le_trans by blast
qed

section \<open>The task budget\<close>

text \<open>Operations that reserve for the task within the limit and for a non-negative amount.\<close>

fun op_within :: "scope4 \<Rightarrow> rat \<Rightarrow> ledger_op \<Rightarrow> bool" where
  "op_within s limit (OpReserve q) \<longleftrightarrow>
     0 \<le> rq_amount q \<and>
     (scope_tenant (rq_scope q) = scope_tenant s \<and> scope_task (rq_scope q) = scope_task s
        \<longrightarrow> rq_budget q = Some limit)"
| "op_within s limit _ \<longleftrightarrow> True"

definition amounts_ok :: "ledger_db \<Rightarrow> bool" where
  "amounts_ok db \<longleftrightarrow> (\<forall>r\<in>set (ld_rows db). 0 \<le> er_amount r)"

lemma sum_filter_map_le:
  fixes m :: "'a \<Rightarrow> rat"
  assumes "\<And>x. x \<in> set xs \<Longrightarrow> 0 \<le> m x \<and> m (g x) = m x \<and> (P (g x) \<longrightarrow> P x)"
  shows "sum_list (map m (filter P (map g xs))) \<le> sum_list (map m (filter P xs))"
  using assms by (induction xs) (auto intro: add_increasing)

lemma spent_same_task:
  "scope_tenant s = scope_tenant s' \<Longrightarrow> scope_task s = scope_task s' \<Longrightarrow> spent s rows = spent s' rows"
proof -
  assume "scope_tenant s = scope_tenant s'" "scope_task s = scope_task s'"
  then have "counted s = counted s'" by (auto simp: counted_def same_task_def)
  then show ?thesis by (simp add: spent_def)
qed

lemma row_le_counted:
  "row_le r r' \<Longrightarrow> row_ok r \<Longrightarrow> counted s r' \<Longrightarrow> counted s r"
  by (auto simp: row_le_def counted_def same_identity_task status_le_not_dispatched)

lemma effect_spent_updated:
  assumes "change_ok p f (ld_rows db)" and "ledger_inv db" and "amounts_ok db"
  shows "spent s (update_rows p f (ld_rows db)) \<le> spent s (ld_rows db)"
  unfolding spent_def update_rows_def
proof (rule sum_filter_map_le)
  fix r assume r: "r \<in> set (ld_rows db)"
  let ?r = "if p r then f r else r"
  have ok: "row_ok r" using assms(2) r by (simp add: ledger_inv_def)
  with assms(1) r have le: "row_le r ?r" by (auto simp: change_ok_def)
  then have "er_amount ?r = er_amount r" by (simp only: row_le_def same_identity_def)
  with le ok row_le_counted[OF le ok] assms(3) r
  show "0 \<le> er_amount r \<and> er_amount ?r = er_amount r \<and> (counted s ?r \<longrightarrow> counted s r)"
    by (simp add: amounts_ok_def)
qed

lemma effect_amounts_updated:
  assumes "change_ok p f (ld_rows db)" and "ledger_inv db" and "amounts_ok db"
    and rows: "ld_rows db' = update_rows p f (ld_rows db)"
  shows "amounts_ok db'"
  unfolding amounts_ok_def rows update_rows_def set_map
proof
  fix r' assume "r' \<in> (\<lambda>r. if p r then f r else r) ` set (ld_rows db)"
  then obtain r where r: "r \<in> set (ld_rows db)" and r': "r' = (if p r then f r else r)" by blast
  with assms have "row_le r r'" by (auto simp: change_ok_def ledger_inv_def)
  then have "er_amount r' = er_amount r" by (simp add: row_le_def same_identity_def)
  with assms(3) r show "0 \<le> er_amount r'" by (simp add: amounts_ok_def)
qed

lemma apply_op_budget:
  assumes inv: "ledger_inv db" "amounts_ok db" and limit: "spent s (ld_rows db) \<le> limit"
    and op: "op_within s limit op"
  shows "amounts_ok (apply_op sid op db) \<and> spent s (ld_rows (apply_op sid op db)) \<le> limit"
  using apply_op_effect[OF inv(1), of sid op]
proof cases
  case unchanged
  with inv limit show ?thesis by (simp add: amounts_ok_def)
next
  case (updated p f)
  with effect_spent_updated[OF updated(2) inv, of s] effect_amounts_updated[OF updated(2) inv updated(3)]
    limit show ?thesis by simp
next
  case (appended q)
  then have q: "op = OpReserve q" by (cases op) (auto split: if_splits)
  have rows: "ld_rows (apply_op sid op db) = ld_rows db @ [new_row q]" by (rule appended(3))
  have "spent s (ld_rows db @ [new_row q]) \<le> limit"
  proof (cases "same_task s (new_row q)")
    case True
    then have eq: "scope_tenant (rq_scope q) = scope_tenant s" "scope_task (rq_scope q) = scope_task s"
      by (simp_all add: same_task_scope)
    with op appended(2) q have "spent (rq_scope q) (ld_rows db) + rq_amount q \<le> limit"
      by (simp add: admissible_def)
    then have "spent s (ld_rows db) + rq_amount q \<le> limit" by (simp only: spent_same_task[OF eq])
    with True show ?thesis by (simp add: spent_def counted_def)
  next
    case False
    then have "\<not> counted s (new_row q)" by (simp add: counted_def)
    with limit show ?thesis by (simp add: spent_def)
  qed
  with inv(2) op show ?thesis unfolding rows amounts_ok_def by (simp add: q)
qed

lemma run_ops_inv: "ledger_inv db \<Longrightarrow> ledger_inv (run_ops sid ops db)"
  by (rule ledger.reached_inv[OF run_ops_reached])

lemma run_ops_le: "ledger_inv db \<Longrightarrow> ledger_le db (run_ops sid ops db)"
  by (rule ledger.reached_rel[OF run_ops_reached])

lemma run_ops_budget:
  assumes "ledger_inv db" and "amounts_ok db" and "spent s (ld_rows db) \<le> limit"
    and "\<forall>op\<in>set ops. op_within s limit op"
  shows "amounts_ok (run_ops sid ops db) \<and> spent s (ld_rows (run_ops sid ops db)) \<le> limit"
  using assms(4)
proof (induction ops rule: rev_induct)
  case Nil
  with assms show ?case by simp
next
  case (snoc op ops)
  then have "amounts_ok (run_ops sid ops db)" "spent s (ld_rows (run_ops sid ops db)) \<le> limit"
    "op_within s limit op" by simp_all
  then show ?case unfolding run_ops_snoc by (rule apply_op_budget[OF run_ops_inv[OF assms(1)]])
qed

lemma ledger_inv_empty: "ld_rows db = [] \<Longrightarrow> ledger_inv db \<and> amounts_ok db \<and> spent s (ld_rows db) = 0"
  by (simp add: ledger_inv_def amounts_ok_def spent_def)

section \<open>At most one reservation\<close>

lemma ledger_le_matches:
  "ledger_le db db' \<Longrightarrow> r \<in> set (ld_rows db) \<Longrightarrow> matches_key q r \<Longrightarrow> \<exists>r'\<in>set (ld_rows db'). matches_key q r'"
  unfolding ledger_le_def matches_key_def row_le_def same_identity_def by metis

lemma ledger_le_nonces: "ledger_le a b \<Longrightarrow> er_nonce ` set (ld_rows a) \<subseteq> er_nonce ` set (ld_rows b)"
proof
  fix n assume le: "ledger_le a b" and "n \<in> er_nonce ` set (ld_rows a)"
  then obtain r where "r \<in> set (ld_rows a)" and n: "n = er_nonce r" by blast
  with le obtain r' where "r' \<in> set (ld_rows b)" and "row_le r r'" unfolding ledger_le_def by blast
  moreover from \<open>row_le r r'\<close> have "er_nonce r' = n" by (simp add: n row_le_def same_identity_def)
  ultimately show "n \<in> er_nonce ` set (ld_rows b)" by blast
qed

lemma reserved_not_fresh:
  assumes inv: "ledger_inv db" and fresh: "fst (reserve sid q db) = Inr None"
    and same: "rq_nonce q' = rq_nonce q \<or> (rq_scope q' = rq_scope q \<and> rq_key q' = rq_key q)"
  shows "fst (reserve sid q' (run_ops sid ops (snd (reserve sid q db)))) \<noteq> Inr None"
proof -
  from fresh have adm: "admissible sid q db" by (simp add: reserve_fresh_iff)
  define db1 where "db1 = snd (reserve sid q db)"
  have "ledger_inv db1"
    unfolding db1_def using effect_inv[OF reserve_effect[OF inv] inv] .
  then have le: "ledger_le db1 (run_ops sid ops db1)" by (rule run_ops_le)
  have "new_row q \<in> set (ld_rows db1)" by (simp add: db1_def reserve_fresh_state[OF adm])
  moreover have "matches_key q' (new_row q)" using same by (auto simp: matches_key_def)
  ultimately obtain r where "r \<in> set (ld_rows (run_ops sid ops db1))" "matches_key q' r"
    using ledger_le_matches[OF le] by blast
  then show ?thesis unfolding db1_def[symmetric] reserve_fresh_iff by (auto simp: admissible_def)
qed

section \<open>What a replay releases\<close>

lemma reserve_replay:
  assumes "fst (reserve sid q db) = Inr (Some rp)"
  obtains r where "r \<in> set (ld_rows db)" and "matches_key q r" and "row_scope r = rq_scope q"
    and "er_digest r = rq_digest q" and "er_status r = ''succeeded''"
    and "rp_disposition rp = replay_disposition q r"
    and "rp_result rp = (if replay_disposition q r = ''accepted_for_agent'' then er_result r else None)"
proof -
  from assms have conn: "ledger_connection sid db = Inr ()"
    by (cases "ledger_connection sid db") (simp_all add: reserve_def)
  obtain r where r: "find (matches_key q) (ld_rows db) = Some r"
  proof (cases "find (matches_key q) (ld_rows db)")
    case None
    from reserve_cases[OF conn None] assms show ?thesis by (simp split: if_splits)
  qed
  then have "r \<in> set (ld_rows db)" "matches_key q r" by (auto simp: find_Some_iff)
  moreover from assms have "fst (replay_existing q r db) = Inr (Some rp)"
    by (simp add: reserve_def conn r)
  ultimately show ?thesis
    using that by (auto simp: replay_existing_def Let_def split: if_splits)
qed

lemma replay_result_accepted:
  assumes "fst (reserve sid q db) = Inr (Some rp)" and "rp_result rp = Some v"
  shows "\<exists>r\<in>set (ld_rows db). matches_key q r \<and> row_scope r = rq_scope q \<and> er_digest r = rq_digest q
     \<and> er_status r = ''succeeded'' \<and> er_disposition r = ''accepted_for_agent''
     \<and> er_policy r = rq_policy q \<and> er_result r = Some v"
proof -
  from assms(1) obtain r where r: "r \<in> set (ld_rows db)" "matches_key q r" "row_scope r = rq_scope q"
    "er_digest r = rq_digest q" "er_status r = ''succeeded''"
    and d: "rp_result rp = (if replay_disposition q r = ''accepted_for_agent'' then er_result r else None)"
    by (rule reserve_replay)
  from d assms(2) have a: "replay_disposition q r = ''accepted_for_agent''" and v: "er_result r = Some v"
    by (auto split: if_splits)
  from a have "er_disposition r = ''accepted_for_agent'' \<and> er_policy r = rq_policy q"
    by (auto simp: replay_disposition_def split: if_splits)
  with r v show ?thesis by blast
qed

end
