(* ===== verification/Redaction.thy ===== *)
theory Redaction
  imports PyRegex PyJson
begin

text \<open>
  \<open>supervisor/redaction.py\<close>: redaction of prompts, receipts and traces. The compiled
  extra patterns are \<open>re\<close> values; the rest is the module's pattern list.
\<close>

section \<open>Patterns\<close>

definition quote_char :: "char \<Rightarrow> bool" where
  "quote_char c \<longleftrightarrow> c = CHR 0x27 \<or> c = CHR 0x22"

definition token_char :: "char \<Rightarrow> bool" where
  "token_char c \<longleftrightarrow> is_alpha c \<or> is_digit c \<or> c \<in> set ''_-''"

definition dash_opt :: re where
  "dash_opt = opt (chars ''_-'')"

definition api_key_re :: re where
  "api_key_re = cat_all [lit_ci ''api'', dash_opt, lit_ci ''key'']"

definition assign_re :: re where
  "assign_re = cat_all [spaces, chars '':='', spaces, opt (Cls quote_char)]"

definition at_least :: "nat \<Rightarrow> re \<Rightarrow> re" where
  "at_least n r = Cat (times n r) (Rep r)"

definition pem_re :: "string \<Rightarrow> re" where
  "pem_re edge =
     cat_all [lit (''-----'' @ edge @ '' ''),
              Rep (Cls (\<lambda>c. CHR ''A'' \<le> c \<and> c \<le> CHR ''Z'' \<or> c = CHR '' '')),
              lit ''PRIVATE KEY-----'']"

definition default_secret_patterns :: "re list" where
  "default_secret_patterns =
     [cat_all [WordBound, or_all [lit_ci ''password'', lit_ci ''secret'', lit_ci ''token'', api_key_re],
               assign_re, plus (Cls (\<lambda>c. \<not> quote_char c \<and> \<not> is_space c \<and> c \<notin> set '',&;''))],
      cat_all [WordBound, api_key_re, assign_re, at_least 16 (Cls token_char)],
      cat_all [WordBound, lit_ci ''bearer'', spaces1,
               at_least 12 (Cls (\<lambda>c. token_char c \<or> c \<in> set ''.=''))],
      cat_all [WordBound, lit_ci ''password'', assign_re,
               plus (Cls (\<lambda>c. \<not> quote_char c \<and> \<not> is_space c))],
      cat_all [WordBound, or_all [lit_ci ''access'', lit_ci ''session'', lit_ci ''refresh''], dash_opt,
               lit_ci ''token'', assign_re, at_least 12 (Cls (\<lambda>c. token_char c \<or> c \<in> set ''.=''))],
      cat_all [pem_re ''BEGIN'', RepLazy (Cls (\<lambda>c. True)), pem_re ''END''],
      cat_all [WordBound, lit_ci ''cookie'', spaces, chars '':='', spaces,
               plus (Cls (\<lambda>c. c \<noteq> CHR '';'' \<and> c \<noteq> CHR 0x0A))]]"

definition sensitive_key_re :: re where
  "sensitive_key_re =
     or_all [api_key_re, lit_ci ''password'', lit_ci ''passphrase'', lit_ci ''secret'', lit_ci ''credential'',
             cat_all [or_all [lit_ci ''access'', lit_ci ''session'', lit_ci ''refresh'', lit_ci ''auth''],
                      dash_opt, lit_ci ''token''],
             lit_ci ''authorization'', lit_ci ''cookie'', cat_all [lit_ci ''private'', dash_opt, lit_ci ''key'']]"

definition sensitive_key :: "string \<Rightarrow> bool" where
  "sensitive_key k \<longleftrightarrow> re_found sensitive_key_re k"

section \<open>Configuration\<close>

record redaction_config =
  rd_enabled :: bool
  rd_replacement :: string
  rd_extra :: "re list"

definition default_redaction :: redaction_config where
  "default_redaction = \<lparr>rd_enabled = True, rd_replacement = ''[REDACTED_SECRET]'', rd_extra = []\<rparr>"

definition redaction_patterns :: "redaction_config \<Rightarrow> re list" where
  "redaction_patterns c = default_secret_patterns @ rd_extra c"

definition mandatory_redaction :: "redaction_config option \<Rightarrow> redaction_config" where
  "mandatory_redaction c =
     (case c of None \<Rightarrow> default_redaction | Some c \<Rightarrow> c)\<lparr>rd_enabled := True\<rparr>"

section \<open>Redaction of texts and values\<close>

definition redact_text :: "redaction_config \<Rightarrow> string \<Rightarrow> string" where
  "redact_text c text =
     (if \<not> rd_enabled c then text
      else foldl (\<lambda>t p. re_sub p (rd_replacement c) t) text (redaction_patterns c))"

fun redact_value :: "redaction_config \<Rightarrow> json \<Rightarrow> json"
  and redact_list :: "redaction_config \<Rightarrow> json list \<Rightarrow> json list"
  and redact_kvs :: "redaction_config \<Rightarrow> (string \<times> json) list \<Rightarrow> (string \<times> json) list" where
  "redact_value c (JStr s) = JStr (redact_text c s)"
| "redact_value c (JObj kvs) = JObj (redact_kvs c kvs)"
| "redact_value c (JList xs) = JList (redact_list c xs)"
| "redact_value c v = v"
| "redact_list c [] = []"
| "redact_list c (x # xs) = redact_value c x # redact_list c xs"
| "redact_kvs c [] = []"
| "redact_kvs c ((k, v) # kvs) =
     (k, if rd_enabled c \<and> sensitive_key k then JStr (rd_replacement c) else redact_value c v)
     # redact_kvs c kvs"

section \<open>Opaque labels for one request\<close>

text \<open>\<open>json.dumps(v, sort_keys=True)\<close> with its default separators.\<close>

fun dumps_sorted :: "json \<Rightarrow> string"
  and dumps_sorted_list :: "json list \<Rightarrow> string list"
  and dumps_sorted_kvs :: "(string \<times> json) list \<Rightarrow> (string \<times> string) list" where
  "dumps_sorted JNull = ''null''"
| "dumps_sorted (JBool b) = (if b then ''true'' else ''false'')"
| "dumps_sorted (JInt n) = int_str n"
| "dumps_sorted (JFloat d) =
     (case d of DNan \<Rightarrow> ''NaN'' | DInf neg \<Rightarrow> (if neg then ''-Infinity'' else ''Infinity'') | _ \<Rightarrow> float_str d)"
| "dumps_sorted (JStr s) = json_quote s"
| "dumps_sorted (JList xs) = ''['' @ join '', '' (dumps_sorted_list xs) @ '']''"
| "dumps_sorted (JObj kvs) =
     ''{'' @ join '', '' (map (\<lambda>(k, t). json_quote k @ '': '' @ t) (sort_key fst (dumps_sorted_kvs kvs))) @ ''}''"
| "dumps_sorted_list [] = []"
| "dumps_sorted_list (x # xs) = dumps_sorted x # dumps_sorted_list xs"
| "dumps_sorted_kvs [] = []"
| "dumps_sorted_kvs ((k, v) # kvs) = (k, dumps_sorted v) # dumps_sorted_kvs kvs"

definition remember :: "redaction_config \<Rightarrow> string \<Rightarrow> string pydict \<Rightarrow> string pydict" where
  "remember c raw labels =
     (if raw = [] \<or> dict_has labels raw then labels
      else labels @ [(raw, rd_replacement c @ '':'' @ nat_str (length labels + 1))])"

fun protected_text :: "json \<Rightarrow> string" where
  "protected_text (JStr s) = s"
| "protected_text v = dumps_sorted v"

fun collect :: "redaction_config \<Rightarrow> json \<Rightarrow> string pydict \<Rightarrow> string pydict"
  and collect_list :: "redaction_config \<Rightarrow> json list \<Rightarrow> string pydict \<Rightarrow> string pydict"
  and collect_kvs :: "redaction_config \<Rightarrow> (string \<times> json) list \<Rightarrow> string pydict \<Rightarrow> string pydict" where
  "collect c (JObj kvs) labels = collect_kvs c kvs labels"
| "collect c (JStr s) labels =
     foldl (\<lambda>l raw. remember c raw l) labels (concat (map (\<lambda>p. re_findall p s) (redaction_patterns c)))"
| "collect c (JList xs) labels = collect_list c xs labels"
| "collect c v labels = labels"
| "collect_list c [] labels = labels"
| "collect_list c (x # xs) labels = collect_list c xs (collect c x labels)"
| "collect_kvs c [] labels = labels"
| "collect_kvs c ((k, v) # kvs) labels =
     collect_kvs c kvs
       (collect c v (if sensitive_key k then remember c (protected_text v) labels else labels))"

definition longest_first :: "string list \<Rightarrow> string list" where
  "longest_first xs = rev (sort_key length (rev xs))"

fun replace_from :: "nat \<Rightarrow> string list \<Rightarrow> string pydict \<Rightarrow> string \<Rightarrow> string" where
  "replace_from 0 raws labels s = s"
| "replace_from (Suc n) raws labels [] = []"
| "replace_from (Suc n) raws labels (x # s) =
     (case find (\<lambda>raw. prefix raw (x # s)) raws of
        None \<Rightarrow> x # replace_from n raws labels s
      | Some raw \<Rightarrow> dict_get labels raw [] @ replace_from n raws labels (drop (length raw) (x # s)))"

definition replace_text :: "string pydict \<Rightarrow> string \<Rightarrow> string" where
  "replace_text labels s =
     (if labels = [] then s
      else replace_from (length s) (longest_first (dict_keys labels)) labels s)"

fun is_str :: "json \<Rightarrow> bool" where
  "is_str (JStr _) = True"
| "is_str _ = False"

fun relabel :: "redaction_config \<Rightarrow> string pydict \<Rightarrow> json \<Rightarrow> json"
  and relabel_list :: "redaction_config \<Rightarrow> string pydict \<Rightarrow> json list \<Rightarrow> json list"
  and relabel_kvs :: "redaction_config \<Rightarrow> string pydict \<Rightarrow> (string \<times> json) list \<Rightarrow> (string \<times> json) list" where
  "relabel c labels (JStr s) = JStr (replace_text labels s)"
| "relabel c labels (JObj kvs) = JObj (relabel_kvs c labels kvs)"
| "relabel c labels (JList xs) = JList (relabel_list c labels xs)"
| "relabel c labels v = v"
| "relabel_list c labels [] = []"
| "relabel_list c labels (x # xs) = relabel c labels x # relabel_list c labels xs"
| "relabel_kvs c labels [] = []"
| "relabel_kvs c labels ((k, v) # kvs) =
     (k, if sensitive_key k \<and> \<not> is_str v
         then JStr (dict_get labels (dumps_sorted v) (rd_replacement c)) else relabel c labels v)
     # relabel_kvs c labels kvs"

definition redact_request :: "redaction_config option \<Rightarrow> json \<Rightarrow> json" where
  "redact_request config value =
     (let c = mandatory_redaction config in relabel c (collect c value []) value)"

section \<open>What redaction guarantees\<close>

text \<open>No object of the value keeps anything but the replacement under a sensitive key.\<close>

fun keys_hidden :: "string \<Rightarrow> json \<Rightarrow> bool"
  and keys_hidden_list :: "string \<Rightarrow> json list \<Rightarrow> bool"
  and keys_hidden_kvs :: "string \<Rightarrow> (string \<times> json) list \<Rightarrow> bool" where
  "keys_hidden r (JObj kvs) = keys_hidden_kvs r kvs"
| "keys_hidden r (JList xs) = keys_hidden_list r xs"
| "keys_hidden r _ = True"
| "keys_hidden_list r [] = True"
| "keys_hidden_list r (x # xs) = (keys_hidden r x \<and> keys_hidden_list r xs)"
| "keys_hidden_kvs r [] = True"
| "keys_hidden_kvs r ((k, v) # kvs) =
     ((if sensitive_key k then v = JStr r else keys_hidden r v) \<and> keys_hidden_kvs r kvs)"

lemma redact_hides:
  "rd_enabled c \<Longrightarrow> keys_hidden (rd_replacement c) (redact_value c v)"
  "rd_enabled c \<Longrightarrow> keys_hidden_list (rd_replacement c) (redact_list c xs)"
  "rd_enabled c \<Longrightarrow> keys_hidden_kvs (rd_replacement c) (redact_kvs c kvs)"
  by (induction c v and c xs and c kvs rule: redact_value_redact_list_redact_kvs.induct) auto

lemma redact_disabled:
  "\<not> rd_enabled c \<Longrightarrow> redact_value c v = v"
  "\<not> rd_enabled c \<Longrightarrow> redact_list c xs = xs"
  "\<not> rd_enabled c \<Longrightarrow> redact_kvs c kvs = kvs"
  by (induction c v and c xs and c kvs rule: redact_value_redact_list_redact_kvs.induct)
     (auto simp: redact_text_def)

text \<open>The labels of one request: no raw value twice, no label twice.\<close>

definition labels_ok :: "redaction_config \<Rightarrow> string pydict \<Rightarrow> bool" where
  "labels_ok c labels \<longleftrightarrow>
     distinct (dict_keys labels) \<and> [] \<notin> set (dict_keys labels) \<and>
     map snd labels = map (\<lambda>n. rd_replacement c @ '':'' @ nat_str n) [1..<length labels + 1]"

lemma remember_ok: "labels_ok c labels \<Longrightarrow> labels_ok c (remember c raw labels)"
  by (auto simp: labels_ok_def remember_def dict_keys_def dict_has_def)

lemma collect_ok:
  "labels_ok c labels \<Longrightarrow> labels_ok c (collect c v labels)"
  "labels_ok c labels \<Longrightarrow> labels_ok c (collect_list c xs labels)"
  "labels_ok c labels \<Longrightarrow> labels_ok c (collect_kvs c kvs labels)"
proof (induction c v labels and c xs labels and c kvs labels
    rule: collect_collect_list_collect_kvs.induct)
  case (2 c s labels)
  have "labels_ok c l \<Longrightarrow> labels_ok c (foldl (\<lambda>l raw. remember c raw l) l raws)" for raws l
    by (induction raws arbitrary: l) (auto intro: remember_ok)
  with 2 show ?case by simp
qed (simp_all add: remember_ok)

lemma labels_distinct:
  assumes ok: "labels_ok c labels" and a: "(a, l) \<in> set labels" and b: "(b, l) \<in> set labels"
  shows "a = b"
proof -
  from a b obtain i j where i: "i < length labels" "labels ! i = (a, l)"
    and j: "j < length labels" "labels ! j = (b, l)" by (auto simp: in_set_conv_nth)
  have lab: "snd (labels ! k) = rd_replacement c @ '':'' @ nat_str (Suc k)" if "k < length labels" for k
    using ok that unfolding labels_ok_def by (metis (no_types, lifting) add.commute diff_add_inverse2
        length_map length_upt nth_map nth_upt plus_1_eq_Suc less_diff_conv)
  from lab[OF i(1)] lab[OF j(1)] i j have "nat_str (Suc i) = nat_str (Suc j)" by simp
  then have "i = j" by (simp add: nat_str_inject)
  with i j show ?thesis by simp
qed

lemma request_labels_ok: "labels_ok c (collect c value [])"
  by (rule collect_ok) (simp add: labels_ok_def dict_keys_def)

end
