(* ===== verification/Enforcement.thy ===== *)
theory Enforcement
  imports PolicyFacts Supervision LedgerSafety Redaction
begin

text \<open>
  \<open>_enforcement.py\<close>: the guarded execution of one proposed call. The tools, the sandbox
  and the supervisor are parameters of the environment; the state is what the object
  keeps, with two records of what left it: the calls handed to the tools or the sandbox
  and the evidence whose artifacts were rejected. Latencies and timestamps are left out.
\<close>

section \<open>Configuration, environment and state\<close>

record guard_config =
  gc_schemas :: "json pydict pydict"
  gc_config :: enforcement_config
  gc_policy :: "policy_config option"
  gc_authority :: task_authority
  gc_compiled :: compiled_authority
  gc_task :: string
  gc_ledger :: "string option"
  gc_result_version :: string
  gc_supervised :: bool
  gc_sandboxed :: bool

record guard_env =
  ge_sha :: "json \<Rightarrow> string"
  ge_hash :: "string \<Rightarrow> string"
  ge_schema_ok :: "json pydict \<Rightarrow> json pydict \<Rightarrow> bool"
  ge_tool :: "tool_call \<Rightarrow> observation result"
  ge_sandbox :: "execution_plan \<Rightarrow> sandbox_evidence result"
  ge_reject :: "(sandbox_evidence \<Rightarrow> unit result) option"
  ge_supervise :: "bool \<Rightarrow> tool_call list \<Rightarrow> string \<Rightarrow> tool_call \<Rightarrow> observation list \<Rightarrow> supervisor_output result"
  ge_review :: "string \<Rightarrow> tool_call \<Rightarrow> sandbox_evidence \<Rightarrow> post_run option result"
  ge_evidence_text :: "sandbox_evidence \<Rightarrow> string"
  ge_dump :: "observation \<Rightarrow> string"
  ge_parse :: "string \<Rightarrow> observation option"
  ge_fresh :: string

record guard_state =
  gs_executed :: "tool_call list pydict"
  gs_escalated :: "string list"
  gs_ledger :: ledger_db
  gs_log :: "tool_call list"
  gs_rejected :: "sandbox_evidence list"

record runtime_result =
  rr_trace :: trace_event
  rr_observation :: "observation option"
  rr_post :: "post_run option"

definition executed_for :: "guard_state \<Rightarrow> string \<Rightarrow> tool_call list" where
  "executed_for st task = dict_get (gs_executed st) task []"

definition record_executed :: "string \<Rightarrow> tool_call \<Rightarrow> guard_state \<Rightarrow> guard_state" where
  "record_executed task call st =
     st\<lparr>gs_executed := AList.update task (executed_for st task @ [call]) (gs_executed st)\<rparr>"

definition guard_init ::
  "(task_authority \<Rightarrow> json pydict pydict \<Rightarrow> string) \<Rightarrow> json pydict pydict \<Rightarrow> enforcement_config
   \<Rightarrow> policy_config option \<Rightarrow> task_authority option \<Rightarrow> string option \<Rightarrow> string \<Rightarrow> string \<Rightarrow> bool \<Rightarrow> bool
   \<Rightarrow> ledger_db \<Rightarrow> (guard_config \<times> guard_state) result" where
  "guard_init fingerprint schemas config policy authority ledger task version supervised sandboxed db =
     (case authority of
        None \<Rightarrow> Inl (ValueError ''application-owned strict authority is required'')
      | Some a \<Rightarrow>
          if \<not> is_strict a then Inl (ValueError ''application-owned strict authority is required'')
          else if task = [] then Inl (ValueError ''application-owned bound task ID is required'')
          else if version = [] then Inl (ValueError ''result policy version must be explicit and nonempty'')
          else (case compile_authority fingerprint a schemas of
             Inl e \<Rightarrow> Inl e
           | Inr compiled \<Rightarrow>
               if ec_deterministic config \<and> policy = None
               then Inl (ValueError ''deterministic policy is enabled but unavailable'')
               else if ec_llm config \<and> \<not> supervised
               then Inl (ValueError ''LLM supervisor is enabled but unavailable'')
               else Inr (\<lparr>gc_schemas = schemas, gc_config = config, gc_policy = policy,
                          gc_authority = a, gc_compiled = compiled, gc_task = task,
                          gc_ledger = ledger, gc_result_version = version,
                          gc_supervised = supervised, gc_sandboxed = sandboxed\<rparr>,
                         \<lparr>gs_executed = [], gs_escalated = [], gs_ledger = db, gs_log = [],
                          gs_rejected = []\<rparr>)))"

section \<open>Traces\<close>

definition metadata_count :: "json pydict \<Rightarrow> string \<Rightarrow> int" where
  "metadata_count meta k = (case jget meta k of JInt n \<Rightarrow> n | _ \<Rightarrow> 0)"

definition token_usage :: "supervisor_output list \<Rightarrow> int" where
  "token_usage outputs =
     sum_list (map (\<lambda>out. metadata_count (so_metadata out) ''prompt_eval_count''
                         + metadata_count (so_metadata out) ''eval_count'') outputs)"

definition status_of :: "string option \<Rightarrow> string \<Rightarrow> execution_plan option \<Rightarrow> observation option \<Rightarrow> string" where
  "status_of explicit outcome plan obs =
     (case explicit of Some s \<Rightarrow> s
      | None \<Rightarrow>
          if outcome \<in> {''EXECUTION_UNKNOWN'', ''TOOL_ERROR''} then ''unknown''
          else if outcome = ''REPLAYED'' then ''replayed''
          else if outcome \<in> {''EXECUTED'', ''EXECUTED_CONTAINER'', ''BLOCK_RESULT''}
               \<or> outcome = ''ESCALATE'' \<and> obs \<noteq> None
                 \<and> (case plan of None \<Rightarrow> False | Some p \<Rightarrow> pl_target p = TargetContainer)
          then ''dispatched''
          else ''not_dispatched'')"

definition make_trace ::
  "guard_config \<Rightarrow> guard_env \<Rightarrow> tool_call \<Rightarrow> tool_call \<Rightarrow> supervisor_output list \<Rightarrow> execution_plan option
   \<Rightarrow> observation option \<Rightarrow> string \<Rightarrow> string option \<Rightarrow> trace_event" where
  "make_trace gc env proposed effective outputs plan obs outcome explicit =
     \<lparr>tr_task_id = tc_task_id proposed, tr_step_id = tc_step_id proposed, tr_proposed = proposed,
      tr_effective = effective, tr_outputs = outputs, tr_plan = plan,
      tr_observation_id = map_option ob_id obs,
      tr_digest = map_option (\<lambda>ob. ge_hash env (ob_content ob)) obs,
      tr_tokens = token_usage outputs,
      tr_policy_version = (case gc_policy gc of None \<Rightarrow> ''disabled'' | Some p \<Rightarrow> pc_version p),
      tr_outcome = outcome, tr_status = status_of explicit outcome plan obs,
      tr_released = (outcome \<in> {''EXECUTED'', ''EXECUTED_CONTAINER'', ''REPLAYED'', ''SIMULATED''})\<rparr>"

text \<open>The trace of an outcome, which freezes the task on ESCALATE, and the result with it.\<close>

definition conclude ::
  "guard_config \<Rightarrow> guard_env \<Rightarrow> tool_call \<Rightarrow> tool_call \<Rightarrow> supervisor_output list \<Rightarrow> execution_plan option
   \<Rightarrow> observation option \<Rightarrow> string \<Rightarrow> string option \<Rightarrow> observation option \<Rightarrow> post_run option
   \<Rightarrow> guard_state \<Rightarrow> runtime_result result \<times> guard_state" where
  "conclude gc env proposed effective outputs plan obs outcome explicit released post st =
     (Inr \<lparr>rr_trace = make_trace gc env proposed effective outputs plan obs outcome explicit,
           rr_observation = released, rr_post = post\<rparr>,
      if outcome = ''ESCALATE''
      then st\<lparr>gs_escalated := List.insert (tc_task_id proposed) (gs_escalated st)\<rparr> else st)"

section \<open>The gate\<close>

definition stops :: "supervisor_output \<Rightarrow> bool" where
  "stops out \<longleftrightarrow> so_decision out \<in> {BLOCK, ESCALATE}"

definition schema_valid :: "guard_config \<Rightarrow> guard_env \<Rightarrow> tool_call \<Rightarrow> bool" where
  "schema_valid gc env call \<longleftrightarrow>
     (case map_of (gc_schemas gc) (tc_tool_name call) of
        None \<Rightarrow> False
      | Some schema \<Rightarrow> is_ok (validate_arguments (ge_schema_ok env) (tc_arguments call) schema))"

definition supervise ::
  "guard_config \<Rightarrow> guard_env \<Rightarrow> bool \<Rightarrow> tool_call list \<Rightarrow> string \<Rightarrow> tool_call \<Rightarrow> observation list
   \<Rightarrow> supervisor_output list \<Rightarrow> supervisor_output list result" where
  "supervise gc env rewritten previous task call obs outputs =
     (if ec_llm (gc_config gc)
      then (case ge_supervise env rewritten previous task call obs of
              Inl e \<Rightarrow> Inl e | Inr out \<Rightarrow> Inr (outputs @ [out]))
      else Inr outputs)"

definition evaluate_call ::
  "guard_config \<Rightarrow> guard_env \<Rightarrow> bool \<Rightarrow> tool_call list \<Rightarrow> string \<Rightarrow> tool_call \<Rightarrow> observation list
   \<Rightarrow> supervisor_output list result" where
  "evaluate_call gc env rewritten previous task call obs =
     (let checked = evaluate_authority (ge_sha env) (ge_schema_ok env) (gc_compiled gc) task call obs previous in
      if stops checked then Inr [checked]
      else case normalize_read (ge_sha env) (gc_compiled gc) call of
        Inl e \<Rightarrow> Inl e
      | Inr call' \<Rightarrow>
          (let guarded = (ec_deterministic (gc_config gc) \<or> ec_llm (gc_config gc)) in
           case (if guarded then duplicate_mutation call' previous (gc_authority gc) else None) of
             Some repeated \<Rightarrow> Inr [repeated]
           | None \<Rightarrow>
               if guarded \<and> \<not> schema_valid gc env call'
               then Inr [authority_output ESCALATE ''invalid-tool-schema'' ''Tool validation failed.'' HIGH]
               else case (if ec_deterministic (gc_config gc) then gc_policy gc else None) of
                 Some p \<Rightarrow>
                   (let deterministic = policy_evaluate p (gc_authority gc) previous task call' obs in
                    if stops deterministic then Inr [checked, deterministic]
                    else supervise gc env rewritten previous task call' obs [checked, deterministic])
               | None \<Rightarrow> supervise gc env rewritten previous task call' obs [checked]))"

datatype gate =
    Refused tool_call "supervisor_output list" string
  | Approved tool_call "supervisor_output list" supervisor_output "supervisor_output option"

text \<open>The second evaluation, of a call the first one rewrote.\<close>

definition regate ::
  "guard_config \<Rightarrow> guard_env \<Rightarrow> tool_call list \<Rightarrow> string \<Rightarrow> tool_call \<Rightarrow> observation list
   \<Rightarrow> supervisor_output list \<Rightarrow> supervisor_output \<Rightarrow> tool_call \<Rightarrow> gate result" where
  "regate gc env previous task call obs outputs merged effective =
     (case validate_replacement (ge_schema_ok env) call effective task obs (gc_authority gc) (gc_schemas gc) of
        Inl e \<Rightarrow>
          (case e of SupervisorSchemaError _ \<Rightarrow> Inr (Refused effective outputs ''ESCALATE'') | _ \<Rightarrow> Inl e)
      | Inr _ \<Rightarrow>
          (case evaluate_call gc env True previous task effective obs of
             Inl e \<Rightarrow> Inl e
           | Inr again \<Rightarrow>
               (case merge_outputs again of
                  None \<Rightarrow> Inr (Approved effective (outputs @ again) merged (Some merged))
                | Some second \<Rightarrow>
                    if so_decision second = REWRITE
                    then Inr (Refused effective (outputs @ again) ''ESCALATE'')
                    else if stops second
                    then Inr (Refused effective (outputs @ again) (decision_str (so_decision second)))
                    else Inr (Approved effective (outputs @ again) second (Some merged)))))"

definition gate_call ::
  "guard_config \<Rightarrow> guard_env \<Rightarrow> tool_call list \<Rightarrow> string \<Rightarrow> tool_call \<Rightarrow> observation list \<Rightarrow> gate result" where
  "gate_call gc env previous task call obs =
     (case evaluate_call gc env False previous task call obs of
        Inl e \<Rightarrow> Inl e
      | Inr outputs \<Rightarrow>
          (case merge_outputs outputs of
             None \<Rightarrow> Inl (TypeError ''no output'')
           | Some merged \<Rightarrow>
               if stops merged
               then Inr (Refused call outputs (decision_str (so_decision merged)))
               else if so_decision merged = REWRITE then
                 (case so_rewritten merged of
                    None \<Rightarrow> Inl (TypeError ''REWRITE requires rewritten_call'')
                  | Some effective \<Rightarrow> regate gc env previous task call obs outputs merged effective)
               else Inr (Approved call outputs merged None)))"

section \<open>The plan\<close>

definition declared_inputs :: "tool_call \<Rightarrow> string list" where
  "declared_inputs call = map (removeprefix ''input:'') (filter (prefix ''input:'') (tc_resources call))"

definition plan_for :: "supervisor_output \<Rightarrow> supervisor_output option \<Rightarrow> tool_call \<Rightarrow> execution_plan result" where
  "plan_for merged original call =
     (let target = (case so_target merged of Some t \<Rightarrow> t
                    | None \<Rightarrow> (case original of None \<Rightarrow> TargetDefault
                              | Some out \<Rightarrow> (case so_target out of None \<Rightarrow> TargetDefault | Some t \<Rightarrow> t)));
          profile = (if so_profile merged \<noteq> None \<and> so_profile merged \<noteq> Some [] then so_profile merged
                     else case original of None \<Rightarrow> None | Some out \<Rightarrow> so_profile out);
          plan = \<lparr>pl_call = call, pl_target = target, pl_profile = profile,
                  pl_inputs = declared_inputs call, pl_limits = default_limits, pl_validated = True,
                  pl_reason = ''approved safeguard merge''\<rparr> in
      if valid_plan plan then Inr plan
      else Inl (ValueError ''container execution requires a sandbox profile''))"

definition simulates :: "execution_plan \<Rightarrow> bool" where
  "simulates plan \<longleftrightarrow>
     pl_target plan = TargetSimulated
     \<or> tc_tool_name (pl_call plan) = ''restricted_command'' \<and> pl_target plan = TargetDefault"

section \<open>Reservation and receipts\<close>

definition policy_json :: "policy_config \<Rightarrow> json" where
  "policy_json c =
     (let strs = \<lambda>xs. JList (map JStr xs) in
      JObj [(''version'', JStr (pc_version c)), (''allowed_read_roots'', strs (pc_read_roots c)),
            (''allowed_write_roots'', strs (pc_write_roots c)),
            (''blocked_path_segments'', strs (pc_blocked_segments c)),
            (''blocked_command_tokens'', strs (pc_blocked_tokens c)),
            (''blocked_shell_operators'', strs (pc_operators c)),
            (''sandbox_command_tokens'', strs (pc_sandbox_tokens c)),
            (''benign_command_tokens'', strs (pc_benign_tokens c)),
            (''math_goal_keywords'', strs (pc_math_words c)),
            (''write_goal_keywords'', strs (pc_write_words c)),
            (''read_goal_keywords'', strs (pc_read_words c)),
            (''max_command_length'', JInt (pc_max_command c)),
            (''max_requested_resources'', JInt (pc_max_resources c))])"

definition result_policy :: "guard_config \<Rightarrow> guard_env \<Rightarrow> string result" where
  "result_policy gc env =
     digest_of (ge_sha env)
       (JObj [(''version'', JStr (gc_result_version gc)), (''authority'', JStr (ca_digest (gc_compiled gc))),
              (''post_run'', JBool (ec_post_run (gc_config gc))),
              (''policy'', case gc_policy gc of None \<Rightarrow> JNull | Some p \<Rightarrow> policy_json p)])"

definition effect_payload :: "tool_call \<Rightarrow> json" where
  "effect_payload call =
     JObj [(''tool'', JStr (tc_tool_name call)), (''arguments'', JObj (tc_arguments call)),
           (''resources'', JList (map JStr (tc_resources call))), (''task'', JStr (tc_task_id call))]"

text \<open>\<open>Decimal(str(v))\<close>; an amount that is not a finite decimal raises.\<close>

definition amount_of :: "json \<Rightarrow> rat result" where
  "amount_of v =
     (case decimal_of_str (py_str v) of
        Some d \<Rightarrow> if dec_finite d then Inr (dec_val d) else Inl (RuntimeError ''InvalidOperation'')
      | None \<Rightarrow> Inl (RuntimeError ''InvalidOperation''))"

definition reservation ::
  "guard_config \<Rightarrow> guard_env \<Rightarrow> string \<Rightarrow> string \<Rightarrow> tool_call \<Rightarrow> reserve_args result" where
  "reservation gc env task policy call =
     (case digest_of (ge_sha env) (effect_payload call) of
        Inl e \<Rightarrow> Inl e
      | Inr d \<Rightarrow>
          (case amount_of (dict_get (tc_arguments call) ''amount'' (JInt 0)) of
             Inl e \<Rightarrow> Inl e
           | Inr amount \<Rightarrow>
               Inr \<lparr>rq_scope = (''embedded'', ''application'', ca_digest (gc_compiled gc), task),
                    rq_nonce = tc_call_id call, rq_key = tc_call_id call, rq_digest = d, rq_effect = d,
                    rq_amount = amount, rq_budget = map_option dec_val (ta_max_amount (gc_authority gc)),
                    rq_repeatable = (tc_tool_name call \<in> set (ta_repeatable (gc_authority gc))),
                    rq_policy = policy\<rparr>))"

definition receipt :: "guard_env \<Rightarrow> observation \<Rightarrow> string" where
  "receipt env ob =
     (let content = (case json_loads (ob_content ob) of
                       Some v \<Rightarrow> dumps_sorted (redact_value default_redaction v)
                     | None \<Rightarrow> redact_text default_redaction (ob_content ob)) in
      ge_dump env (ob\<lparr>ob_content := content\<rparr>))"

text \<open>A ledger operation on the state.\<close>

definition on_ledger :: "(ledger_db \<Rightarrow> 'a result \<times> ledger_db) \<Rightarrow> guard_state \<Rightarrow> 'a result \<times> guard_state" where
  "on_ledger f st = (case f (gs_ledger st) of (r, db) \<Rightarrow> (r, st\<lparr>gs_ledger := db\<rparr>))"

definition finish_reserved ::
  "string option \<Rightarrow> tool_call \<Rightarrow> string \<Rightarrow> string option \<Rightarrow> string \<Rightarrow> guard_state \<Rightarrow> unit result \<times> guard_state" where
  "finish_reserved reserved call status result disposition st =
     (case reserved of None \<Rightarrow> (Inr (), st)
      | Some sid \<Rightarrow> on_ledger (finish sid (tc_call_id call) status result disposition) st)"

definition decide_reserved ::
  "string option \<Rightarrow> tool_call \<Rightarrow> string \<Rightarrow> string \<Rightarrow> guard_state \<Rightarrow> unit result \<times> guard_state" where
  "decide_reserved reserved call disposition policy st =
     (case reserved of None \<Rightarrow> (Inr (), st)
      | Some sid \<Rightarrow> on_ledger (decide_result sid (tc_call_id call) disposition policy) st)"

section \<open>Dispatch\<close>

definition guard_observation ::
  "guard_env \<Rightarrow> tool_call \<Rightarrow> string \<Rightarrow> string \<Rightarrow> trust_label \<Rightarrow> bool \<Rightarrow> observation" where
  "guard_observation env call content source trust instructions =
     \<lparr>ob_content = content, ob_source_type = source, ob_source_id = tc_call_id call, ob_trust = trust,
      ob_provenance = tc_consumed call @ [tc_call_id call], ob_instructions = instructions,
      ob_id = ge_fresh env\<rparr>"

definition simulated_observation :: "guard_env \<Rightarrow> tool_call \<Rightarrow> observation" where
  "simulated_observation env call =
     guard_observation env call
       ([CHR ''{'', CHR 0x22] @ ''status'' @ [CHR 0x22, CHR '':'', CHR 0x22] @ ''simulated''
        @ [CHR 0x22, CHR '','', CHR 0x22] @ ''host_execution'' @ [CHR 0x22] @ '':false}'')
       ''simulation'' UNTRUSTED_TOOL False"

definition log_dispatch :: "tool_call \<Rightarrow> guard_state \<Rightarrow> guard_state" where
  "log_dispatch call st = st\<lparr>gs_log := gs_log st @ [call]\<rparr>"

text \<open>The review of a container's result: None when no reviewer can give a disposition.\<close>

definition post_review ::
  "guard_config \<Rightarrow> guard_env \<Rightarrow> string \<Rightarrow> tool_call \<Rightarrow> sandbox_evidence \<Rightarrow> post_run result" where
  "post_review gc env task call ev =
     (if \<not> gc_supervised gc then Inl (ValueError ''post-run review requires a supervisor'')
      else case ge_review env task call ev of
        Inl e \<Rightarrow> Inl e
      | Inr None \<Rightarrow> Inl (ValueError ''post-run review returned no disposition'')
      | Inr (Some p) \<Rightarrow> Inr p)"

fun review_disposition :: "post_disposition \<Rightarrow> string" where
  "review_disposition ACCEPT_RESULT = ''accepted_for_agent''"
| "review_disposition BLOCK_RESULT = ''withheld''"
| "review_disposition _ = ''review_required''"

fun review_outcome :: "post_disposition \<Rightarrow> string" where
  "review_outcome POST_ESCALATE = ''ESCALATE''"
| "review_outcome REWRITE_AND_RETRY = ''ESCALATE''"
| "review_outcome _ = ''BLOCK_RESULT''"

definition reject_artifacts ::
  "guard_env \<Rightarrow> post_run \<Rightarrow> sandbox_evidence \<Rightarrow> guard_state \<Rightarrow> unit result \<times> guard_state" where
  "reject_artifacts env p ev st =
     (if pr_disposition p \<noteq> BLOCK_RESULT then (Inr (), st)
      else case ge_reject env of
        None \<Rightarrow> (Inr (), st)
      | Some reject \<Rightarrow> (reject ev, st\<lparr>gs_rejected := gs_rejected st @ [ev]\<rparr>))"

definition review_container ::
  "guard_config \<Rightarrow> guard_env \<Rightarrow> string \<Rightarrow> tool_call \<Rightarrow> tool_call \<Rightarrow> supervisor_output list
   \<Rightarrow> execution_plan \<Rightarrow> string option \<Rightarrow> string \<Rightarrow> sandbox_evidence \<Rightarrow> observation
   \<Rightarrow> guard_state \<Rightarrow> runtime_result result \<times> guard_state" where
  "review_container gc env task call effective outputs plan reserved policy ev ob st =
     (case post_review gc env task effective ev of
        Inl e \<Rightarrow>
          if is_exception e
          then andthen (decide_reserved reserved effective ''review_required'' policy st)
                 (\<lambda>_. conclude gc env call effective outputs (Some plan) (Some ob) ''ESCALATE''
                        (Some ''dispatched'') None None)
          else (Inl e, st)
      | Inr p \<Rightarrow>
          andthen (decide_reserved reserved effective (review_disposition (pr_disposition p)) policy st)
            (\<lambda>_ st. if pr_disposition p = ACCEPT_RESULT
                    then conclude gc env call effective outputs (Some plan) (Some ob)
                           ''EXECUTED_CONTAINER'' None (Some ob) (Some p) st
                    else andthen (reject_artifacts env p ev st)
                           (\<lambda>_. conclude gc env call effective outputs (Some plan) (Some ob)
                                  (review_outcome (pr_disposition p)) None None (Some p))))"

definition run_container ::
  "guard_config \<Rightarrow> guard_env \<Rightarrow> string \<Rightarrow> tool_call \<Rightarrow> tool_call \<Rightarrow> supervisor_output list
   \<Rightarrow> execution_plan \<Rightarrow> string option \<Rightarrow> string \<Rightarrow> guard_state \<Rightarrow> runtime_result result \<times> guard_state" where
  "run_container gc env task call effective outputs plan reserved policy st =
     (if \<not> gc_sandboxed gc
      then andthen (finish_reserved reserved effective ''not_dispatched'' None ''review_required'' st)
             (\<lambda>_. conclude gc env call effective outputs (Some plan) None ''ESCALATE'' None None None)
      else case ge_sandbox env plan of
        Inl (SandboxUnavailable m) \<Rightarrow>
          andthen (finish_reserved reserved effective ''unknown'' None ''review_required'' (log_dispatch effective st))
            (\<lambda>_. conclude gc env call effective outputs (Some plan) None ''ESCALATE'' (Some ''unknown'') None None)
      | Inl e \<Rightarrow> (Inl e, log_dispatch effective st)
      | Inr ev \<Rightarrow>
          (let ob = guard_observation env call (ge_evidence_text env ev) ''sandbox'' UNTRUSTED_TOOL True in
           andthen
             (finish_reserved reserved effective ''succeeded'' (Some (receipt env ob))
               (if ec_post_run (gc_config gc) then ''pending_review'' else ''accepted_for_agent'')
               (record_executed (tc_task_id call) effective (log_dispatch effective st)))
             (\<lambda>_. if ec_post_run (gc_config gc)
                  then review_container gc env task call effective outputs plan reserved policy ev ob
                  else conclude gc env call effective outputs (Some plan) (Some ob)
                         ''EXECUTED_CONTAINER'' None (Some ob) None)))"

definition caught_by_tools :: "exn \<Rightarrow> bool" where
  "caught_by_tools e \<longleftrightarrow>
     is_os_error e \<or> is_value_error e
     \<or> (case e of KeyError _ \<Rightarrow> True | SyntaxError _ \<Rightarrow> True | TypeError _ \<Rightarrow> True | _ \<Rightarrow> False)"

definition tool_failure ::
  "guard_config \<Rightarrow> guard_env \<Rightarrow> tool_call \<Rightarrow> tool_call \<Rightarrow> supervisor_output list \<Rightarrow> execution_plan
   \<Rightarrow> exn \<Rightarrow> guard_state \<Rightarrow> runtime_result result \<times> guard_state" where
  "tool_failure gc env call effective outputs plan e st =
     (if consequential effective
      then
        (let ob = guard_observation env call ''Effect outcome unknown; reconcile before retry.''
                    ''tool_error'' TRUSTED_TOOL False;
             st' = record_executed (tc_task_id call) effective st in
         conclude gc env call effective outputs (Some plan) (Some ob) ''EXECUTION_UNKNOWN'' None (Some ob) None
           (st'\<lparr>gs_escalated := List.insert (tc_task_id call) (gs_escalated st')\<rparr>))
      else
        (let ob = guard_observation env call
                    (exn_name e @ '': '' @ redact_text default_redaction (exn_text e))
                    ''tool_error'' TRUSTED_TOOL False in
         conclude gc env call effective outputs (Some plan) (Some ob) ''TOOL_ERROR'' None (Some ob) None st))"

definition run_tool ::
  "guard_config \<Rightarrow> guard_env \<Rightarrow> tool_call \<Rightarrow> tool_call \<Rightarrow> supervisor_output list
   \<Rightarrow> execution_plan \<Rightarrow> string option \<Rightarrow> guard_state \<Rightarrow> runtime_result result \<times> guard_state" where
  "run_tool gc env call effective outputs plan reserved st =
     (let st1 = log_dispatch effective st in
      case ge_tool env effective of
        Inl e \<Rightarrow>
          andthen (finish_reserved reserved effective ''unknown'' None ''review_required'' st1)
            (\<lambda>_ st2. if caught_by_tools e then tool_failure gc env call effective outputs plan e st2
                     else (Inl e, st2))
      | Inr ob \<Rightarrow>
          andthen (finish_reserved reserved effective ''succeeded'' (Some (receipt env ob)) ''accepted_for_agent'' st1)
            (\<lambda>_ st2. conclude gc env call effective outputs (Some plan) (Some ob)
                       (if tc_tool_name effective = ''restricted_command'' then ''SIMULATED'' else ''EXECUTED'')
                       None (Some ob) None (record_executed (tc_task_id call) effective st2)))"

definition dispatch ::
  "guard_config \<Rightarrow> guard_env \<Rightarrow> string \<Rightarrow> tool_call \<Rightarrow> tool_call \<Rightarrow> supervisor_output list
   \<Rightarrow> execution_plan \<Rightarrow> string option \<Rightarrow> string \<Rightarrow> guard_state \<Rightarrow> runtime_result result \<times> guard_state" where
  "dispatch gc env task call effective outputs plan reserved policy st =
     (if pl_target plan = TargetContainer
      then run_container gc env task call effective outputs plan reserved policy st
      else run_tool gc env call effective outputs plan reserved st)"

section \<open>One call\<close>

definition conclude_replay ::
  "guard_config \<Rightarrow> guard_env \<Rightarrow> tool_call \<Rightarrow> tool_call \<Rightarrow> supervisor_output list \<Rightarrow> execution_plan
   \<Rightarrow> replay \<Rightarrow> guard_state \<Rightarrow> runtime_result result \<times> guard_state" where
  "conclude_replay gc env call effective outputs plan rp st =
     (if rp_disposition rp \<noteq> ''accepted_for_agent'' \<or> rp_result rp = None
      then conclude gc env call effective outputs (Some plan) None
             (if rp_disposition rp = ''withheld'' then ''BLOCK_RESULT'' else ''ESCALATE'')
             (Some ''replayed'') None None st
      else case ge_parse env (the (rp_result rp)) of
        None \<Rightarrow> (Inl (ValueError ''invalid stored observation''), st)
      | Some ob \<Rightarrow> conclude gc env call effective outputs (Some plan) (Some ob) ''REPLAYED'' None (Some ob) None st)"

definition refused_by_ledger :: "exn \<Rightarrow> bool" where
  "refused_by_ledger e \<longleftrightarrow> (case e of ExecutionUnknown _ \<Rightarrow> True | AuthorizationError _ \<Rightarrow> True | _ \<Rightarrow> False)"

definition reserve_and_dispatch ::
  "guard_config \<Rightarrow> guard_env \<Rightarrow> string \<Rightarrow> tool_call \<Rightarrow> tool_call \<Rightarrow> supervisor_output list
   \<Rightarrow> execution_plan \<Rightarrow> string \<Rightarrow> guard_state \<Rightarrow> runtime_result result \<times> guard_state" where
  "reserve_and_dispatch gc env task call effective outputs plan policy st =
     (case (if consequential effective then gc_ledger gc else None) of
        None \<Rightarrow> dispatch gc env task call effective outputs plan None policy st
      | Some sid \<Rightarrow>
          (case reservation gc env (tc_task_id call) policy effective of
             Inl e \<Rightarrow> (Inl e, st)
           | Inr q \<Rightarrow>
               (case on_ledger (reserve sid q) st of
                  (Inl e, st1) \<Rightarrow>
                    if refused_by_ledger e
                    then conclude gc env call effective outputs (Some plan) None ''ESCALATE'' None None None st1
                    else (Inl e, st1)
                | (Inr (Some rp), st1) \<Rightarrow> conclude_replay gc env call effective outputs plan rp st1
                | (Inr None, st1) \<Rightarrow>
                    dispatch gc env task call effective outputs plan (Some sid) policy st1)))"

definition execute_approved ::
  "guard_config \<Rightarrow> guard_env \<Rightarrow> string \<Rightarrow> tool_call \<Rightarrow> tool_call \<Rightarrow> supervisor_output list
   \<Rightarrow> execution_plan \<Rightarrow> guard_state \<Rightarrow> runtime_result result \<times> guard_state" where
  "execute_approved gc env task call effective outputs plan st =
     (if simulates plan
      then
        (let ob = simulated_observation env call in
         conclude gc env call effective outputs (Some (plan\<lparr>pl_target := TargetSimulated\<rparr>)) (Some ob)
           ''SIMULATED'' None (Some ob) None st)
      else case result_policy gc env of
        Inl e \<Rightarrow> (Inl e, st)
      | Inr policy \<Rightarrow> reserve_and_dispatch gc env task call effective outputs plan policy st)"

definition refuse_call ::
  "guard_config \<Rightarrow> guard_env \<Rightarrow> tool_call \<Rightarrow> decision \<Rightarrow> string \<Rightarrow> string \<Rightarrow> guard_state
   \<Rightarrow> runtime_result result \<times> guard_state" where
  "refuse_call gc env call d rule reason st =
     conclude gc env call call [authority_output d rule reason HIGH] None None (decision_str d) None None None st"

definition execute_call ::
  "guard_config \<Rightarrow> guard_env \<Rightarrow> string \<Rightarrow> tool_call \<Rightarrow> observation list \<Rightarrow> guard_state
   \<Rightarrow> runtime_result result \<times> guard_state" where
  "execute_call gc env task call obs st =
     (if tc_task_id call \<noteq> gc_task gc
      then refuse_call gc env call BLOCK ''wrong-task'' ''Task ID differs from approved scope.'' st
      else if tc_task_id call \<in> set (gs_escalated st)
      then refuse_call gc env call ESCALATE ''episode-escalated'' ''Episode requires human review.'' st
      else case gate_call gc env (executed_for st (tc_task_id call)) task call obs of
        Inl e \<Rightarrow> (Inl e, st)
      | Inr (Refused effective outputs outcome) \<Rightarrow>
          conclude gc env call effective outputs None None outcome None None None st
      | Inr (Approved effective outputs merged original) \<Rightarrow>
          (case plan_for merged original effective of
             Inl e \<Rightarrow> (Inl e, st)
           | Inr plan \<Rightarrow> execute_approved gc env task call effective outputs plan st))"

end
