(* ===== verification/EnforcementSafety.thy ===== *)
theory EnforcementSafety
  imports Enforcement
begin

text \<open>
  What guarded execution guarantees: what an approved call passed, when a call is
  dispatched, and the invariant over any sequence of calls.
\<close>

section \<open>What an approved call passed\<close>

definition guarded_mode :: "guard_config \<Rightarrow> bool" where
  "guarded_mode gc \<longleftrightarrow> ec_deterministic (gc_config gc) \<or> ec_llm (gc_config gc)"

definition fully_allowed ::
  "guard_config \<Rightarrow> guard_env \<Rightarrow> bool \<Rightarrow> tool_call list \<Rightarrow> string \<Rightarrow> tool_call \<Rightarrow> observation list \<Rightarrow> bool" where
  "fully_allowed gc env rewritten previous task call obs \<longleftrightarrow>
     so_decision (evaluate_authority (ge_sha env) (ge_schema_ok env) (gc_compiled gc) task call obs previous) = ALLOW
     \<and> (\<exists>call'. normalize_read (ge_sha env) (gc_compiled gc) call = Inr call'
         \<and> (guarded_mode gc \<longrightarrow> duplicate_mutation call' previous (gc_authority gc) = None \<and> schema_valid gc env call')
         \<and> (\<forall>p. ec_deterministic (gc_config gc) \<longrightarrow> gc_policy gc = Some p \<longrightarrow>
              so_decision (policy_evaluate p (gc_authority gc) previous task call' obs) = ALLOW)
         \<and> (ec_llm (gc_config gc) \<longrightarrow>
              (\<exists>out. ge_supervise env rewritten previous task call' obs = Inr out \<and> so_decision out = ALLOW)))"

definition all_allow :: "supervisor_output list \<Rightarrow> bool" where
  "all_allow outs \<longleftrightarrow> (\<forall>out\<in>set outs. so_decision out = ALLOW)"

lemma all_allow_simps [simp]:
  "all_allow []" "all_allow (x # xs) \<longleftrightarrow> so_decision x = ALLOW \<and> all_allow xs"
  "all_allow (xs @ ys) \<longleftrightarrow> all_allow xs \<and> all_allow ys"
  by (auto simp: all_allow_def)

lemma duplicate_not_allow: "duplicate_mutation call previous a = Some d \<Longrightarrow> so_decision d = BLOCK"
  by (auto simp: duplicate_mutation_def block_def split: if_splits)

lemma supervise_allow:
  "supervise gc env rw previous task call obs outs = Inr outs' \<Longrightarrow> all_allow outs' \<Longrightarrow>
   all_allow outs \<and> (ec_llm (gc_config gc) \<longrightarrow>
     (\<exists>out. ge_supervise env rw previous task call obs = Inr out \<and> so_decision out = ALLOW))"
  by (auto simp: supervise_def split: if_splits sum.splits)

lemma evaluate_call_allow:
  assumes "evaluate_call gc env rw previous task call obs = Inr outs" and "all_allow outs"
  shows "fully_allowed gc env rw previous task call obs"
proof -
  define checked where
    "checked = evaluate_authority (ge_sha env) (ge_schema_ok env) (gc_compiled gc) task call obs previous"
  note ev = evaluate_call_def[of gc env rw previous task call obs, unfolded Let_def, folded checked_def guarded_mode_def]
  have go: "\<not> stops checked"
    using assms unfolding ev by (auto simp: stops_def)
  obtain c where c: "normalize_read (ge_sha env) (gc_compiled gc) call = Inr c"
    using assms(1) go unfolding ev by (cases "normalize_read (ge_sha env) (gc_compiled gc) call") auto
  note ev1 = ev[unfolded c sum.case]
  have dup: "(if guarded_mode gc then duplicate_mutation c previous (gc_authority gc) else None) = None"
  proof (cases "if guarded_mode gc then duplicate_mutation c previous (gc_authority gc) else None")
    case (Some d)
    then have "so_decision d = BLOCK" by (auto split: if_splits dest: duplicate_not_allow)
    with Some assms go show ?thesis unfolding ev1 by auto
  qed
  note ev2 = ev1[unfolded dup option.case]
  have sv: "guarded_mode gc \<longrightarrow> schema_valid gc env c"
    using assms go unfolding ev2 by (auto split: if_splits)
  define pol where "pol = (if ec_deterministic (gc_config gc) then gc_policy gc else None)"
  have rest: "evaluate_call gc env rw previous task call obs =
     (case pol of
        Some p \<Rightarrow>
          if stops (policy_evaluate p (gc_authority gc) previous task c obs)
          then Inr [checked, policy_evaluate p (gc_authority gc) previous task c obs]
          else supervise gc env rw previous task c obs
                 [checked, policy_evaluate p (gc_authority gc) previous task c obs]
      | None \<Rightarrow> supervise gc env rw previous task c obs [checked])"
    unfolding ev2 pol_def[symmetric] using go sv by auto
  have fin: "so_decision checked = ALLOW \<and>
      (\<forall>p. pol = Some p \<longrightarrow> so_decision (policy_evaluate p (gc_authority gc) previous task c obs) = ALLOW) \<and>
      (ec_llm (gc_config gc) \<longrightarrow>
        (\<exists>out. ge_supervise env rw previous task c obs = Inr out \<and> so_decision out = ALLOW))"
  proof (cases pol)
    case None
    with rest assms(1) have "supervise gc env rw previous task c obs [checked] = Inr outs" by simp
    from supervise_allow[OF this assms(2)] None show ?thesis by simp
  next
    case (Some p)
    show ?thesis
    proof (cases "stops (policy_evaluate p (gc_authority gc) previous task c obs)")
      case True
      with Some rest assms show ?thesis by (auto simp: stops_def)
    next
      case False
      with Some rest assms(1) have "supervise gc env rw previous task c obs
          [checked, policy_evaluate p (gc_authority gc) previous task c obs] = Inr outs" by simp
      from supervise_allow[OF this assms(2)] Some show ?thesis by simp
    qed
  qed
  show ?thesis
    unfolding fully_allowed_def checked_def[symmetric]
    using fin dup sv c by (auto simp: pol_def split: if_splits)
qed

lemma merge_continue_allow:
  assumes "merge_outputs outs = Some m" and "\<not> stops m" and "so_decision m \<noteq> REWRITE"
  shows "all_allow outs"
proof -
  from assms(2,3) have "so_decision m = ALLOW" by (cases "so_decision m") (auto simp: stops_def)
  with merge_allow[OF assms(1)] show ?thesis by (simp add: all_allow_def)
qed

lemma evaluate_call_nonempty: "evaluate_call gc env rw previous task call obs = Inr outs \<Longrightarrow> outs \<noteq> []"
  by (auto simp: evaluate_call_def supervise_def Let_def split: if_splits sum.splits option.splits)

lemma regate_approved:
  assumes "regate gc env previous task call obs outs merged eff = Inr (Approved eff' outs' m original)"
  shows "eff' = eff \<and> narrows call eff \<and> fully_allowed gc env True previous task eff obs"
proof -
  from assms obtain again where valid: "validate_replacement (ge_schema_ok env) call eff task obs
        (gc_authority gc) (gc_schemas gc) = Inr ()"
    and again: "evaluate_call gc env True previous task eff obs = Inr again"
    unfolding regate_def by (auto split: sum.splits exn.splits)
  from evaluate_call_nonempty[OF again] obtain second where second: "merge_outputs again = Some second"
    using merge_outputs_None by blast
  from assms have "\<not> stops second \<and> so_decision second \<noteq> REWRITE \<and> eff' = eff"
    unfolding regate_def valid again sum.case second option.case by (auto split: if_splits)
  with merge_continue_allow[OF second] evaluate_call_allow[OF again] validate_replacement_narrows[OF valid]
  show ?thesis by simp
qed

lemma gate_approved:
  assumes "gate_call gc env previous task call obs = Inr (Approved eff outs m original)"
  shows "(eff = call \<and> fully_allowed gc env False previous task call obs)
    \<or> (narrows call eff \<and> fully_allowed gc env True previous task eff obs)"
proof -
  from assms obtain outs0 where ev: "evaluate_call gc env False previous task call obs = Inr outs0"
    unfolding gate_call_def by (auto split: sum.splits)
  from evaluate_call_nonempty[OF ev] obtain m0 where m0: "merge_outputs outs0 = Some m0"
    using merge_outputs_None by blast
  note g = assms[unfolded gate_call_def ev sum.case m0 option.case]
  show ?thesis
  proof (cases "so_decision m0 = REWRITE")
    case True
    with g obtain eff0 where "regate gc env previous task call obs outs0 m0 eff0 = Inr (Approved eff outs m original)"
      by (auto split: if_splits option.splits)
    from regate_approved[OF this] show ?thesis by auto
  next
    case False
    with g have "eff = call \<and> \<not> stops m0" by (auto split: if_splits)
    with merge_continue_allow[OF m0] False evaluate_call_allow[OF ev] show ?thesis by simp
  qed
qed

section \<open>What a dispatch changes\<close>

text \<open>The parts of the state the bookkeeping after a dispatch leaves alone or only extends.\<close>

definition kept :: "string option \<Rightarrow> guard_state \<Rightarrow> guard_state \<Rightarrow> bool" where
  "kept sid st st' \<longleftrightarrow>
     gs_log st' = gs_log st \<and> set (gs_escalated st) \<subseteq> set (gs_escalated st')
     \<and> (case sid of None \<Rightarrow> gs_ledger st' = gs_ledger st
        | Some s \<Rightarrow> reached (ledger_step s) (gs_ledger st) (gs_ledger st'))"

lemma kept_refl [simp]: "kept sid st st"
  by (auto simp: kept_def intro: reached_refl split: option.split)

lemma kept_trans: "kept sid a b \<Longrightarrow> kept sid b c \<Longrightarrow> kept sid a c"
  by (auto simp: kept_def intro: reached_trans split: option.splits)

lemma kept_conclude [simp]:
  "kept sid st (snd (conclude gc env p e outs plan ob oc ex rel post st)) "
  by (auto simp: conclude_def kept_def intro: reached_refl split: option.split)

lemma kept_record [simp]: "kept sid st (record_executed task call st)"
  by (auto simp: record_executed_def kept_def intro: reached_refl split: option.split)

lemma kept_on_ledger:
  assumes "\<And>db. ledger_step s db (snd (f db))"
  shows "kept (Some s) st (snd (on_ledger f st))"
proof -
  have "reached (ledger_step s) (gs_ledger st) (snd (f (gs_ledger st)))"
    using reached_refl assms by (rule reached_step)
  then show ?thesis by (cases "f (gs_ledger st)") (simp add: kept_def on_ledger_def)
qed

lemma ledger_step_ops:
  "ledger_step s db (snd (finish s n status result d db))"
  "ledger_step s db (snd (decide_result s n d policy db))"
  "ledger_step s db (snd (reserve s q db))"
  using step_op[of s db "OpFinish n status result d"] step_op[of s db "OpDecide n d policy"]
    step_op[of s db "OpReserve q"] by simp_all

lemma kept_finish: "kept sid st (snd (finish_reserved sid call status result d st))"
  by (cases sid) (simp_all add: finish_reserved_def kept_on_ledger ledger_step_ops)

lemma kept_decide: "kept sid st (snd (decide_reserved sid call d policy st))"
  by (cases sid) (simp_all add: decide_reserved_def kept_on_ledger ledger_step_ops)

lemma kept_reject: "kept sid st (snd (reject_artifacts env p ev st))"
  by (cases "pr_disposition p = BLOCK_RESULT"; cases "ge_reject env"; cases sid)
     (simp_all add: reject_artifacts_def kept_def reached_refl)

lemma kept_andthen:
  assumes "kept sid st (snd m)" and "\<And>v s. kept sid s (snd (f v s))"
  shows "kept sid st (snd (andthen m f))"
  using assms(1)
proof (rule andthen_keeps)
  fix v s assume "kept sid st s"
  from this assms(2) show "kept sid st (snd (f v s))" by (rule kept_trans)
qed

lemma kept_review:
  "kept sid st (snd (review_container gc env task call eff outs plan sid policy ev ob st))"
proof (cases "post_review gc env task eff ev")
  case (Inl e)
  show ?thesis
    unfolding review_container_def Inl sum.case
    by (cases "is_exception e")
       (simp_all only: if_True if_False snd_conv kept_refl kept_andthen[OF kept_decide kept_conclude])
next
  case (Inr p)
  show ?thesis
    unfolding review_container_def Inr sum.case
  proof (rule kept_andthen[OF kept_decide])
    fix v s
    show "kept sid s (snd (if pr_disposition p = ACCEPT_RESULT
        then conclude gc env call eff outs (Some plan) (Some ob) ''EXECUTED_CONTAINER'' None (Some ob) (Some p) s
        else andthen (reject_artifacts env p ev s)
               (\<lambda>_. conclude gc env call eff outs (Some plan) (Some ob)
                      (review_outcome (pr_disposition p)) None None (Some p))))"
      by (cases "pr_disposition p = ACCEPT_RESULT")
         (simp_all add: kept_andthen kept_reject)
  qed
qed

lemma kept_failure: "kept sid st (snd (tool_failure gc env call eff outs plan e st))"
proof -
  have "kept sid s (s\<lparr>gs_escalated := List.insert t (gs_escalated s)\<rparr>)" for s t
    by (auto simp: kept_def intro: reached_refl split: option.split)
  from kept_trans[OF kept_record kept_trans[OF this kept_conclude]] show ?thesis
    by (simp add: tool_failure_def Let_def)
qed

text \<open>A dispatch logs its call first, or keeps the log: no sandbox was there to take it.\<close>

lemma run_tool_log:
  "kept sid (log_dispatch eff st) (snd (run_tool gc env call eff outs plan sid st))"
proof (cases "ge_tool env eff")
  case (Inl e)
  then show ?thesis
    unfolding run_tool_def Let_def by (simp add: kept_andthen kept_finish kept_failure)
next
  case (Inr ob)
  then show ?thesis
    unfolding run_tool_def Let_def
    by (simp add: kept_andthen kept_finish kept_trans[OF kept_record kept_conclude])
qed

lemma run_container_log:
  "kept sid (log_dispatch eff st) (snd (run_container gc env task call eff outs plan sid policy st))
   \<or> kept sid st (snd (run_container gc env task call eff outs plan sid policy st))"
proof (cases "gc_sandboxed gc")
  case False
  then show ?thesis
    unfolding run_container_def by (simp add: kept_andthen kept_finish)
next
  case True
  have "kept sid (log_dispatch eff st) (snd (run_container gc env task call eff outs plan sid policy st))"
  proof (cases "ge_sandbox env plan")
    case (Inl e)
    with True show ?thesis
      unfolding run_container_def by (cases e) (simp_all add: kept_andthen kept_finish)
  next
    case (Inr ev)
    with True show ?thesis
      unfolding run_container_def Let_def
      by (simp add: kept_andthen kept_trans[OF kept_record kept_finish] kept_review)
  qed
  then show ?thesis by simp
qed

lemma dispatch_log:
  "kept sid (log_dispatch eff st) (snd (dispatch gc env task call eff outs plan sid policy st))
   \<or> kept sid st (snd (dispatch gc env task call eff outs plan sid policy st))"
  unfolding dispatch_def using run_tool_log run_container_log by simp

section \<open>When a call is dispatched\<close>

lemma kept_None: "kept None a b \<Longrightarrow> kept sid a b"
  by (auto simp: kept_def reached_refl split: option.split)

text \<open>The ledger a consequential call reserves in, and what its reservation did.\<close>

definition reserving :: "guard_config \<Rightarrow> tool_call \<Rightarrow> string option" where
  "reserving gc eff = (if consequential eff then gc_ledger gc else None)"

definition reserved_by ::
  "guard_config \<Rightarrow> guard_env \<Rightarrow> string \<Rightarrow> tool_call \<Rightarrow> guard_state \<Rightarrow> guard_state \<Rightarrow> bool" where
  "reserved_by gc env task eff st st1 \<longleftrightarrow>
     (case reserving gc eff of
        None \<Rightarrow> st1 = st
      | Some sid \<Rightarrow>
          \<exists>policy q. reservation gc env task policy eff = Inr q \<and> admissible sid q (gs_ledger st)
                   \<and> st1 = st\<lparr>gs_ledger := snd (reserve sid q (gs_ledger st))\<rparr>)"

definition dispatched ::
  "guard_config \<Rightarrow> guard_env \<Rightarrow> string \<Rightarrow> tool_call \<Rightarrow> observation list \<Rightarrow> guard_state \<Rightarrow> tool_call
   \<Rightarrow> guard_state \<Rightarrow> bool" where
  "dispatched gc env task call obs st eff st' \<longleftrightarrow>
     tc_task_id call = gc_task gc \<and> tc_task_id call \<notin> set (gs_escalated st)
     \<and> (\<exists>outs m original plan.
          gate_call gc env (executed_for st (tc_task_id call)) task call obs = Inr (Approved eff outs m original)
          \<and> plan_for m original eff = Inr plan \<and> \<not> simulates plan)
     \<and> (\<exists>st1. reserved_by gc env (tc_task_id call) eff st st1
              \<and> kept (reserving gc eff) (log_dispatch eff st1) st')"

lemma conclude_replay_kept: "kept sid st (snd (conclude_replay gc env call eff outs plan rp st))"
  unfolding conclude_replay_def
  by (cases "ge_parse env (the (rp_result rp))") simp_all

lemma reserved_by_kept: "reserved_by gc env task eff st st1 \<Longrightarrow> kept (reserving gc eff) st st1"
  using ledger_step_ops(3) reached_step[OF reached_refl]
  by (fastforce simp: reserved_by_def kept_def split: option.splits)

lemma reserve_and_dispatch_cases:
  "(\<exists>st1. reserved_by gc env (tc_task_id call) eff st st1 \<and>
      kept (reserving gc eff) (log_dispatch eff st1)
        (snd (reserve_and_dispatch gc env task call eff outs plan policy st)))
   \<or> kept (reserving gc eff) st (snd (reserve_and_dispatch gc env task call eff outs plan policy st))"
proof (cases "reserving gc eff")
  case None
  then have "reserve_and_dispatch gc env task call eff outs plan policy st =
      dispatch gc env task call eff outs plan None policy st"
    by (simp add: reserve_and_dispatch_def reserving_def)
  with dispatch_log[of None eff st gc env task call outs plan policy] None
  show ?thesis by (auto simp: reserved_by_def)
next
  case (Some sid)
  note rd = reserve_and_dispatch_def[of gc env task call eff outs plan policy st,
      folded reserving_def, unfolded Some option.case]
  show ?thesis
  proof (cases "reservation gc env (tc_task_id call) policy eff")
    case (Inl e)
    then show ?thesis unfolding rd by simp
  next
    case (Inr q)
    define db1 where "db1 = snd (reserve sid q (gs_ledger st))"
    define st1 where "st1 = st\<lparr>gs_ledger := db1\<rparr>"
    have res: "on_ledger (reserve sid q) st = (fst (reserve sid q (gs_ledger st)), st1)"
      by (simp add: on_ledger_def st1_def db1_def split: prod.split)
    have keep: "kept (Some sid) st st1"
      using kept_on_ledger[of sid "reserve sid q" st] ledger_step_ops(3) by (simp add: res)
    show ?thesis
    proof (cases "fst (reserve sid q (gs_ledger st))")
      case (Inl e)
      then show ?thesis
        unfolding rd \<open>reservation _ _ _ _ _ = _\<close> sum.case res
        using keep kept_trans[OF keep kept_conclude] Some by simp
    next
      case r: (Inr ans)
      show ?thesis
      proof (cases ans)
        case None
        then have "admissible sid q (gs_ledger st)" using r by (simp add: reserve_fresh_iff[symmetric])
        then have resv: "reserved_by gc env (tc_task_id call) eff st st1"
          using Inr Some by (auto simp: reserved_by_def st1_def db1_def)
        have eq: "reserve_and_dispatch gc env task call eff outs plan policy st =
            dispatch gc env task call eff outs plan (Some sid) policy st1"
          unfolding rd Inr sum.case res r None by simp
        from dispatch_log[of "Some sid" eff st1 gc env task call outs plan policy]
        show ?thesis unfolding eq Some using resv kept_trans[OF keep] by blast
      next
        case rp: (Some rp)
        show ?thesis
          unfolding rd Inr sum.case res r rp
          using kept_trans[OF keep conclude_replay_kept] Some by simp
      qed
    qed
  qed
qed

lemma execute_call_cases:
  "(\<exists>eff. dispatched gc env task call obs st eff (snd (execute_call gc env task call obs st)))
   \<or> kept (gc_ledger gc) st (snd (execute_call gc env task call obs st))"
proof (cases "tc_task_id call = gc_task gc \<and> tc_task_id call \<notin> set (gs_escalated st)")
  case False
  then show ?thesis by (auto simp: execute_call_def refuse_call_def)
next
  case True
  then have go: "\<not> tc_task_id call \<noteq> gc_task gc" "\<not> tc_task_id call \<in> set (gs_escalated st)" by blast+
  note ec = execute_call_def[of gc env task call obs st, unfolded if_not_P[OF go(1)] if_not_P[OF go(2)]]
  show ?thesis
  proof (cases "gate_call gc env (executed_for st (tc_task_id call)) task call obs")
    case (Inl e)
    show ?thesis unfolding ec Inl by simp
  next
    case gate: (Inr g)
    show ?thesis
    proof (cases g)
      case (Refused eff outs oc)
      show ?thesis unfolding ec gate sum.case Refused gate.case by simp
    next
      case (Approved eff outs m original)
      show ?thesis
      proof (cases "plan_for m original eff")
        case (Inl e)
        show ?thesis unfolding ec gate sum.case Approved gate.case Inl by simp
      next
        case plan: (Inr plan)
        have eq: "execute_call gc env task call obs st = execute_approved gc env task call eff outs plan st"
          unfolding ec gate sum.case Approved gate.case plan ..
        show ?thesis
        proof (cases "\<exists>policy. result_policy gc env = Inr policy \<and> \<not> simulates plan")
          case False
          then have "kept (gc_ledger gc) st (snd (execute_approved gc env task call eff outs plan st))"
            unfolding execute_approved_def Let_def by (auto split: sum.split)
          then show ?thesis unfolding eq ..
        next
          case sim: True
          then obtain policy where rp: "result_policy gc env = Inr policy" and sm: "\<not> simulates plan" by blast
          have eq2: "execute_call gc env task call obs st =
              reserve_and_dispatch gc env task call eff outs plan policy st"
            unfolding eq execute_approved_def rp using sm by simp
          have "kept (reserving gc eff) st s \<Longrightarrow> kept (gc_ledger gc) st s" for s
            by (cases "consequential eff") (simp_all add: reserving_def kept_None)
          with reserve_and_dispatch_cases[of gc env call eff st task outs plan policy] True gate Approved plan sm
          show ?thesis unfolding eq2 dispatched_def by blast
        qed
      qed
    qed
  qed
qed

lemma fully_allowed_authorised:
  assumes "fully_allowed gc env rw previous task eff obs" and "is_strict (ca_scope (gc_compiled gc))"
  shows "\<exists>c. judged_call (ge_sha env) (ge_schema_ok env) (gc_compiled gc) eff = Some c
     \<and> strictly_authorised c obs (ca_scope (gc_compiled gc)) previous"
  using assms evaluate_allow_iff unfolding fully_allowed_def by blast

lemma dispatched_call:
  assumes "dispatched gc env task call obs st eff st'"
  shows "gs_log st' = gs_log st @ [eff]" and "eff = call \<or> narrows call eff"
    and "\<exists>rw. fully_allowed gc env rw (executed_for st (tc_task_id call)) task eff obs"
    and "tc_task_id call = gc_task gc" and "tc_task_id call \<notin> set (gs_escalated st)"
proof -
  from assms obtain st1 where "reserved_by gc env (tc_task_id call) eff st st1"
    and "kept (reserving gc eff) (log_dispatch eff st1) st'" by (auto simp: dispatched_def)
  then show "gs_log st' = gs_log st @ [eff]"
    using reserved_by_kept by (fastforce simp: kept_def log_dispatch_def)
  from assms obtain outs m original where
    "gate_call gc env (executed_for st (tc_task_id call)) task call obs = Inr (Approved eff outs m original)"
    by (auto simp: dispatched_def)
  from gate_approved[OF this]
  show "eff = call \<or> narrows call eff"
    and "\<exists>rw. fully_allowed gc env rw (executed_for st (tc_task_id call)) task eff obs" by blast+
  from assms show "tc_task_id call = gc_task gc" and "tc_task_id call \<notin> set (gs_escalated st)"
    by (auto simp: dispatched_def)
qed

section \<open>Sequences of calls\<close>

inductive guard_step :: "guard_config \<Rightarrow> guard_state \<Rightarrow> guard_state \<Rightarrow> bool" for gc where
  guard_step: "guard_step gc st (snd (execute_call gc env task call obs st))"

inductive_cases guard_stepE: "guard_step gc st st'"

definition effects_of :: "guard_state \<Rightarrow> tool_call list" where
  "effects_of st = filter consequential (gs_log st)"

text \<open>With a ledger, every consequential call that left is reserved in it, under its own id.\<close>

definition guard_inv :: "guard_config \<Rightarrow> guard_state \<Rightarrow> bool" where
  "guard_inv gc st \<longleftrightarrow>
     (gc_ledger gc \<noteq> None \<longrightarrow>
        ledger_inv (gs_ledger st) \<and> distinct (map tc_call_id (effects_of st)) \<and>
        tc_call_id ` set (effects_of st) \<subseteq> er_nonce ` set (ld_rows (gs_ledger st)))"

definition guard_le :: "guard_config \<Rightarrow> guard_state \<Rightarrow> guard_state \<Rightarrow> bool" where
  "guard_le gc st st' \<longleftrightarrow>
     prefix (gs_log st) (gs_log st') \<and> set (gs_escalated st) \<subseteq> set (gs_escalated st')
     \<and> (gc_ledger gc \<noteq> None \<longrightarrow> ledger_le (gs_ledger st) (gs_ledger st'))"

lemma kept_ledger:
  assumes "kept sid st st'" and "ledger_inv (gs_ledger st)"
  shows "ledger_inv (gs_ledger st') \<and> ledger_le (gs_ledger st) (gs_ledger st')"
proof (cases sid)
  case None
  with assms show ?thesis by (simp add: kept_def ledger.rel_refl)
next
  case (Some s)
  with assms show ?thesis by (auto simp: kept_def intro: ledger.reached_inv ledger.reached_rel)
qed

lemma reservation_nonce: "reservation gc env task policy eff = Inr q \<Longrightarrow> rq_nonce q = tc_call_id eff"
  by (auto simp: reservation_def split: sum.splits)

lemma dispatched_inv:
  assumes d: "dispatched gc env task call obs st eff st'" and inv: "guard_inv gc st"
  shows "guard_inv gc st' \<and> guard_le gc st st'"
proof -
  from d obtain st1 where resv: "reserved_by gc env (tc_task_id call) eff st st1"
    and keep: "kept (reserving gc eff) (log_dispatch eff st1) st'" by (auto simp: dispatched_def)
  have log: "gs_log st' = gs_log st @ [eff]" by (rule dispatched_call(1)[OF d])
  have esc: "set (gs_escalated st) \<subseteq> set (gs_escalated st')"
    using keep reserved_by_kept[OF resv] by (auto simp: kept_def log_dispatch_def)
  show ?thesis
  proof (cases "gc_ledger gc")
    case None
    with log esc show ?thesis by (simp add: guard_inv_def guard_le_def)
  next
    case (Some sid)
    with inv have li: "ledger_inv (gs_ledger st)" and dist: "distinct (map tc_call_id (effects_of st))"
      and sub: "tc_call_id ` set (effects_of st) \<subseteq> er_nonce ` set (ld_rows (gs_ledger st))"
      by (simp_all add: guard_inv_def)
    from kept_ledger[OF reserved_by_kept[OF resv] li] have li1: "ledger_inv (gs_ledger st1)"
      and le1: "ledger_le (gs_ledger st) (gs_ledger st1)" by simp_all
    have "ledger_inv (gs_ledger (log_dispatch eff st1))" using li1 by (simp add: log_dispatch_def)
    from kept_ledger[OF keep this] have li2: "ledger_inv (gs_ledger st')"
      and le2: "ledger_le (gs_ledger st1) (gs_ledger st')" by (simp_all add: log_dispatch_def)
    have le: "ledger_le (gs_ledger st) (gs_ledger st')" using le1 le2 by (rule ledger.rel_trans)
    have new: "tc_call_id eff \<notin> er_nonce ` set (ld_rows (gs_ledger st))
        \<and> tc_call_id eff \<in> er_nonce ` set (ld_rows (gs_ledger st1))" if "consequential eff"
    proof -
      from resv that Some obtain policy q where q: "reservation gc env (tc_task_id call) policy eff = Inr q"
        and adm: "admissible sid q (gs_ledger st)"
        and st1: "st1 = st\<lparr>gs_ledger := snd (reserve sid q (gs_ledger st))\<rparr>"
        by (auto simp: reserved_by_def reserving_def)
      from adm reservation_nonce[OF q] show ?thesis
        by (auto simp: st1 reserve_fresh_state[OF adm] admissible_def matches_key_def)
    qed
    have eff: "effects_of st' = effects_of st @ (if consequential eff then [eff] else [])"
      by (simp add: effects_of_def log)
    have "distinct (map tc_call_id (effects_of st'))"
      using dist new sub by (auto simp: eff)
    moreover have "tc_call_id ` set (effects_of st') \<subseteq> er_nonce ` set (ld_rows (gs_ledger st'))"
    proof -
      have "tc_call_id ` set (effects_of st) \<subseteq> er_nonce ` set (ld_rows (gs_ledger st'))"
        using sub ledger_le_nonces[OF le] by (rule subset_trans)
      moreover have "tc_call_id eff \<in> er_nonce ` set (ld_rows (gs_ledger st'))" if "consequential eff"
        using new[OF that] ledger_le_nonces[OF le2] by blast
      ultimately show ?thesis unfolding eff by (cases "consequential eff") simp_all
    qed
    ultimately show ?thesis
      using li2 le esc log by (simp add: guard_inv_def guard_le_def Some)
  qed
qed

lemma kept_inv:
  assumes "kept (gc_ledger gc) st st'" and "guard_inv gc st"
  shows "guard_inv gc st' \<and> guard_le gc st st'"
proof (cases "gc_ledger gc")
  case None
  with assms show ?thesis by (simp add: guard_inv_def guard_le_def kept_def)
next
  case (Some sid)
  with assms have "effects_of st' = effects_of st" by (simp add: effects_of_def kept_def)
  moreover from assms(2) Some have "ledger_inv (gs_ledger st)" by (simp add: guard_inv_def)
  from kept_ledger[OF assms(1) this] have "ledger_inv (gs_ledger st')"
    and le: "ledger_le (gs_ledger st) (gs_ledger st')" by simp_all
  moreover have "tc_call_id ` set (effects_of st) \<subseteq> er_nonce ` set (ld_rows (gs_ledger st'))"
    using assms(2) Some subset_trans[OF _ ledger_le_nonces[OF le]] by (simp add: guard_inv_def)
  ultimately show ?thesis
    using assms by (auto simp: guard_inv_def guard_le_def kept_def)
qed

interpretation guard: monotone_stepper "guard_step gc" "guard_inv gc" "guard_le gc" for gc
proof
  fix s t assume "guard_step gc s t" and "guard_inv gc s"
  then show "guard_inv gc t" "guard_le gc s t"
    using execute_call_cases dispatched_inv kept_inv by (metis guard_stepE)+
next
  show "guard_le gc s s" for s by (simp add: guard_le_def ledger.rel_refl)
  show "guard_le gc s t \<Longrightarrow> guard_le gc t u \<Longrightarrow> guard_le gc s u" for s t u
    by (auto simp: guard_le_def intro: prefix_order.trans ledger.rel_trans)
qed

lemma escalated_frozen:
  "tc_task_id call \<in> set (gs_escalated st) \<Longrightarrow>
   gs_log (snd (execute_call gc env task call obs st)) = gs_log st"
  by (auto simp: execute_call_def refuse_call_def conclude_def)

end
