(* ===== verification/JsonLimits.thy ===== *)
theory JsonLimits
  imports PyJson
begin

text \<open>
  \<open>limits.py\<close>: the bounded walk over a JSON value that HTTP ingress and the public
  action contracts share. The explicit stack is a list with its top first, so
  \<open>stack.extend\<close> pushes the children in reverse.
\<close>

section \<open>The walk\<close>

fun json_children :: "json \<Rightarrow> json list" where
  "json_children (JObj kvs) = map snd kvs"
| "json_children (JList xs) = xs"
| "json_children _ = []"

fun json_nodes :: "json \<Rightarrow> nat"
  and list_nodes :: "json list \<Rightarrow> nat"
  and kvs_nodes :: "(string \<times> json) list \<Rightarrow> nat" where
  "json_nodes (JObj kvs) = Suc (kvs_nodes kvs)"
| "json_nodes (JList xs) = Suc (list_nodes xs)"
| "json_nodes _ = 1"
| "list_nodes [] = 0"
| "list_nodes (x # xs) = json_nodes x + list_nodes xs"
| "kvs_nodes [] = 0"
| "kvs_nodes ((k, v) # kvs) = json_nodes v + kvs_nodes kvs"

fun json_depth :: "json \<Rightarrow> nat"
  and list_depth :: "json list \<Rightarrow> nat"
  and kvs_depth :: "(string \<times> json) list \<Rightarrow> nat" where
  "json_depth (JObj kvs) = kvs_depth kvs"
| "json_depth (JList xs) = list_depth xs"
| "json_depth _ = 0"
| "list_depth [] = 0"
| "list_depth (x # xs) = max (Suc (json_depth x)) (list_depth xs)"
| "kvs_depth [] = 0"
| "kvs_depth ((k, v) # kvs) = max (Suc (json_depth v)) (kvs_depth kvs)"

lemma kvs_nodes_list: "kvs_nodes kvs = list_nodes (map snd kvs)"
  by (induction kvs) auto

lemma kvs_depth_list: "kvs_depth kvs = list_depth (map snd kvs)"
  by (induction kvs) auto

lemma list_nodes_append [simp]: "list_nodes (xs @ ys) = list_nodes xs + list_nodes ys"
  by (induction xs) auto

lemma list_nodes_rev [simp]: "list_nodes (rev xs) = list_nodes xs"
  by (induction xs) auto

lemma json_nodes_children: "json_nodes v = Suc (list_nodes (json_children v))"
  by (cases v) (auto simp: kvs_nodes_list)

lemma json_depth_children: "json_depth v = list_depth (json_children v)"
  by (cases v) (auto simp: kvs_depth_list)

lemma length_le_nodes: "length xs \<le> list_nodes xs"
  by (induction xs) (auto simp: json_nodes_children)

lemma length_children_nodes: "length (json_children v) < json_nodes v"
  by (simp add: json_nodes_children length_le_nodes le_imp_less_Suc)

fun collection_error :: "json \<Rightarrow> nat \<Rightarrow> exn option" where
  "collection_error (JObj kvs) mx = (if mx < length kvs then Some (ValueError ''invalid JSON object'') else None)"
| "collection_error (JList xs) mx =
     (if mx < length xs then Some (ValueError ''JSON collection budget exceeded'') else None)"
| "collection_error _ mx = None"

text \<open>The while loop: \<open>nodes\<close> counts the values popped so far.\<close>

function walk :: "nat \<Rightarrow> nat \<Rightarrow> (json \<times> nat) list \<Rightarrow> nat \<Rightarrow> unit result" where
  "walk mx md [] nodes = Inr ()"
| "walk mx md ((item, depth) # stack) nodes =
     (if mx < Suc nodes \<or> md < depth then Inl (ValueError ''JSON depth or node budget exceeded'')
      else case collection_error item mx of
        Some e \<Rightarrow> Inl e
      | None \<Rightarrow> walk mx md (rev (map (\<lambda>c. (c, Suc depth)) (json_children item)) @ stack) (Suc nodes))"
  by pat_completeness auto
termination
  by (relation "measure (\<lambda>(mx, md, stack, nodes). list_nodes (map fst stack))")
     (auto simp: rev_map comp_def json_nodes_children)

declare walk.simps [simp del]

definition validate_json :: "json \<Rightarrow> nat \<Rightarrow> nat \<Rightarrow> nat \<Rightarrow> unit result" where
  "validate_json value max_bytes max_nodes max_depth =
     (case walk max_nodes max_depth [(value, 0)] 0 of
        Inl e \<Rightarrow> Inl e
      | Inr _ \<Rightarrow>
          (case dumps value of
             None \<Rightarrow> Inl (ValueError ''invalid bounded JSON value'')
           | Some encoded \<Rightarrow>
               if max_bytes < length encoded then Inl (ValueError ''JSON byte budget exceeded'')
               else Inr ()))"

section \<open>What the walk decides\<close>

definition item_fits :: "nat \<Rightarrow> (json \<times> nat) \<Rightarrow> bool" where
  "item_fits md it \<longleftrightarrow> snd it + json_depth (fst it) \<le> md"

lemma list_depth_le: "x \<in> set xs \<Longrightarrow> Suc (json_depth x) \<le> list_depth xs"
  by (induction xs) auto

lemma list_depth_bound: "(\<forall>x\<in>set xs. Suc (json_depth x) \<le> d) \<longleftrightarrow> list_depth xs \<le> d"
  by (induction xs) auto

lemma children_fit:
  assumes "depth \<le> md"
  shows "(\<forall>it \<in> set (rev (map (\<lambda>c. (c, Suc depth)) (json_children v))). item_fits md it)
         \<longleftrightarrow> item_fits md (v, depth)"
proof -
  have "(\<forall>c \<in> set (json_children v). Suc depth + json_depth c \<le> md)
        \<longleftrightarrow> (\<forall>c \<in> set (json_children v). Suc (json_depth c) \<le> md - depth)"
    using assms by auto
  also have "\<dots> \<longleftrightarrow> json_depth v \<le> md - depth"
    by (simp only: list_depth_bound json_depth_children[of v])
  finally show ?thesis using assms by (auto simp: item_fits_def)
qed

lemma walk_accepts:
  "walk mx md stack nodes = Inr () \<longleftrightarrow>
   list_nodes (map fst stack) + nodes \<le> mx \<and> (\<forall>it\<in>set stack. item_fits md it) \<or> stack = []"
proof (induction mx md stack nodes rule: walk.induct)
  case (1 mx md nodes)
  then show ?case by (simp add: walk.simps)
next
  case (2 mx md item depth stack nodes)
  let ?kids = "rev (map (\<lambda>c. (c, Suc depth)) (json_children item))"
  have nodes: "list_nodes (map fst ((item, depth) # stack)) = Suc (list_nodes (map fst (?kids @ stack)))"
    by (simp add: json_nodes_children rev_map comp_def)
  show ?case
  proof (cases "mx < Suc nodes \<or> md < depth")
    case True
    then have "\<not> (list_nodes (map fst ((item, depth) # stack)) + nodes \<le> mx
                 \<and> (\<forall>it\<in>set ((item, depth) # stack). item_fits md it))"
      using nodes by (auto simp: item_fits_def)
    with True show ?thesis by (simp add: walk.simps)
  next
    case False
    then have depth: "depth \<le> md" by simp
    show ?thesis
    proof (cases "collection_error item mx")
      case (Some e)
      then have "mx < length (json_children item)"
        by (cases item) (auto split: if_splits)
      then have "mx < list_nodes (map fst ((item, depth) # stack)) + nodes"
        using length_children_nodes[of item] by simp
      with False Some show ?thesis by (simp add: walk.simps)
    next
      case None
      have IH: "walk mx md (?kids @ stack) (Suc nodes) = Inr () \<longleftrightarrow>
        list_nodes (map fst (?kids @ stack)) + Suc nodes \<le> mx
        \<and> (\<forall>it\<in>set (?kids @ stack). item_fits md it) \<or> ?kids @ stack = []"
        by (rule "2.IH"[OF False None])
      have "walk mx md ((item, depth) # stack) nodes = walk mx md (?kids @ stack) (Suc nodes)"
        using False None by (simp add: walk.simps)
      moreover have "(\<forall>it\<in>set (?kids @ stack). item_fits md it) \<longleftrightarrow>
                     (\<forall>it\<in>set ((item, depth) # stack). item_fits md it)"
        using children_fit[OF depth, of item] by auto
      moreover have "?kids @ stack = [] \<Longrightarrow> list_nodes (map fst ((item, depth) # stack)) + nodes \<le> mx"
        using nodes False by simp
      ultimately show ?thesis using IH nodes by auto
    qed
  qed
qed

end
