(* ===== verification/Network.thy ===== *)
theory Network
  imports PyRegex PyJson
begin

text \<open>
  \<open>policy/network.py\<close>: structural URL authority. \<open>urllib.parse.urlsplit\<close>,
  \<open>ipaddress.IPv6Address\<close> and the ASCII part of the idna codec are written out as far
  as the source uses them; name resolution and the sockets are parameters.
\<close>

section \<open>Splitting a URL\<close>

record split_url =
  su_scheme :: string
  su_netloc :: string
  su_path :: string
  su_query :: string
  su_fragment :: string

text \<open>\<open>s.partition(c)\<close>: the part before the first \<open>c\<close>, whether it occurs, the rest.\<close>

definition partition_at :: "char \<Rightarrow> string \<Rightarrow> string \<times> bool \<times> string" where
  "partition_at c s =
     (takeWhile (\<lambda>x. x \<noteq> c) s, c \<in> set s, drop 1 (dropWhile (\<lambda>x. x \<noteq> c) s))"

definition after_last :: "char \<Rightarrow> string \<Rightarrow> string" where
  "after_last c s = rev (takeWhile (\<lambda>x. x \<noteq> c) (rev s))"

definition scheme_char :: "char \<Rightarrow> bool" where
  "scheme_char c \<longleftrightarrow> is_alpha c \<or> is_digit c \<or> c \<in> set ''+-.''"

definition split_scheme :: "string \<Rightarrow> string \<times> string" where
  "split_scheme url =
     (let (head, found, rest) = partition_at (CHR '':'') url in
      if found \<and> head \<noteq> [] \<and> is_alpha (hd head) \<and> list_all scheme_char head
      then (map to_lower head, rest) else ([], url))"

definition split_netloc :: "string \<Rightarrow> string \<times> string" where
  "split_netloc url =
     (if prefix ''//'' url
      then (takeWhile (\<lambda>c. c \<notin> set ''/?#'') (drop 2 url), dropWhile (\<lambda>c. c \<notin> set ''/?#'') (drop 2 url))
      else ([], url))"

definition host_and_port :: "string \<Rightarrow> string \<times> string" where
  "host_and_port netloc =
     (let hostinfo = after_last (CHR ''@'') netloc; (_, bracket, bracketed) = partition_at (CHR ''['') hostinfo in
      if bracket
      then (let (host, _, rest) = partition_at (CHR '']'') bracketed; (_, _, port) = partition_at (CHR '':'') rest in
            (host, port))
      else (let (host, _, port) = partition_at (CHR '':'') hostinfo in (host, port)))"

definition url_hostname :: "string \<Rightarrow> string" where
  "url_hostname netloc =
     (let (name, zoned, zone) = partition_at (CHR ''%'') (fst (host_and_port netloc)) in
      map to_lower name @ (if zoned then CHR ''%'' # zone else []))"

definition url_port :: "string \<Rightarrow> nat option result" where
  "url_port netloc =
     (let port = snd (host_and_port netloc) in
      if port = [] then Inr None
      else if \<not> all_digits port then Inl (ValueError ''Port could not be cast to integer value'')
      else if 65535 < digits_val port then Inl (ValueError ''Port out of range 0-65535'')
      else Inr (Some (digits_val port)))"

section \<open>Host names and addresses\<close>

definition is_hex :: "char \<Rightarrow> bool" where
  "is_hex c \<longleftrightarrow> is_digit c \<or> to_lower c \<in> set ''abcdef''"

definition ipv4_text :: "string \<Rightarrow> bool" where
  "ipv4_text s \<longleftrightarrow>
     length (split_on (CHR ''.'') s) = 4 \<and>
     list_all (\<lambda>p. all_digits p \<and> length p \<le> 3 \<and> digits_val p \<le> 255 \<and> (p = ''0'' \<or> hd p \<noteq> CHR ''0''))
       (split_on (CHR ''.'') s)"

definition hextet :: "string \<Rightarrow> bool" where
  "hextet p \<longleftrightarrow> p \<noteq> [] \<and> length p \<le> 4 \<and> list_all is_hex p"

text \<open>
  \<open>IPv6Address(s)\<close> without a zone: eight groups, or fewer with one empty group inside,
  a dotted address standing for the last two.
\<close>

definition ipv6_groups :: "string list \<Rightarrow> bool" where
  "ipv6_groups parts \<longleftrightarrow>
     (let n = length parts; skips = filter (\<lambda>i. parts ! i = []) [1..<n - 1] in
      case skips of
        [] \<Rightarrow> n = 8 \<and> list_all hextet parts
      | [i] \<Rightarrow>
          (let hi = (if hd parts = [] then i - 1 else i);
               lo = (if last parts = [] then n - i - 2 else n - i - 1) in
           (hd parts = [] \<longrightarrow> hi = 0) \<and> (last parts = [] \<longrightarrow> lo = 0) \<and> hi + lo < 8 \<and>
           list_all hextet (take hi parts) \<and> list_all hextet (drop (n - lo) parts))
      | _ \<Rightarrow> False)"

definition ipv6_text :: "string \<Rightarrow> bool" where
  "ipv6_text s \<longleftrightarrow>
     (let parts = split_on (CHR '':'') s in
      3 \<le> length parts \<and>
      (if CHR ''.'' \<in> set (last parts)
       then ipv4_text (last parts) \<and> length parts + 1 \<le> 9 \<and> ipv6_groups (butlast parts @ [''0'', ''0''])
       else length parts \<le> 9 \<and> ipv6_groups parts))"

text \<open>
  What \<open>urlsplit\<close> asks of brackets in the authority: they come in pairs, hold an IPv6
  address (with or without a zone) or an IPvFuture literal, and only a port follows them.
\<close>

definition ipv_future :: "string \<Rightarrow> bool" where
  "ipv_future h \<longleftrightarrow>
     (let (version, dot, rest) = partition_at (CHR ''.'') (drop 1 h) in
      take 1 h = ''v'' \<and> version \<noteq> [] \<and> list_all is_hex version \<and> dot \<and> rest \<noteq> [])"

definition bracketed_host_ok :: "string \<Rightarrow> bool" where
  "bracketed_host_ok h \<longleftrightarrow>
     (if take 1 h = ''v'' then ipv_future h
      else (let (addr, zoned, zone) = partition_at (CHR ''%'') h in
            ipv6_text addr \<and> (zoned \<longrightarrow> zone \<noteq> [] \<and> CHR ''%'' \<notin> set zone)))"

definition brackets_ok :: "string \<Rightarrow> bool" where
  "brackets_ok netloc \<longleftrightarrow>
     (CHR ''['' \<in> set netloc) = (CHR '']'' \<in> set netloc) \<and>
     (CHR ''['' \<in> set netloc \<longrightarrow>
       (let (front, bracket, bracketed) = partition_at (CHR ''['') (after_last (CHR ''@'') netloc);
            (host, _, rest) = partition_at (CHR '']'') bracketed in
        if bracket then front = [] \<and> (rest = [] \<or> hd rest = CHR '':'') \<and> bracketed_host_ok host
        else bracketed_host_ok (fst (host_and_port netloc))))"

definition urlsplit :: "string \<Rightarrow> split_url result" where
  "urlsplit url =
     (let (scheme, rest) = split_scheme url; (netloc, rest) = split_netloc rest;
          (rest, _, fragment) = partition_at (CHR ''#'') rest;
          (path, _, query) = partition_at (CHR ''?'') rest in
      if \<not> brackets_ok netloc then Inl (ValueError ''Invalid IPv6 URL'')
      else Inr \<lparr>su_scheme = scheme, su_netloc = netloc, su_path = path, su_query = query,
                su_fragment = fragment\<rparr>)"

definition host_char :: "char \<Rightarrow> bool" where
  "host_char c \<longleftrightarrow> CHR ''a'' \<le> c \<and> c \<le> CHR ''z'' \<or> is_digit c \<or> c = CHR ''-''"

definition host_labels :: "string \<Rightarrow> string list" where
  "host_labels host = split_on (CHR ''.'') host"

text \<open>The idna codec on an ASCII name: every label is nonempty and shorter than 64.\<close>

definition idna_ok :: "string \<Rightarrow> bool" where
  "idna_ok host \<longleftrightarrow> list_all (\<lambda>l. l \<noteq> [] \<and> length l < 64) (host_labels host)"

definition valid_hostname :: "string \<Rightarrow> bool" where
  "valid_hostname host \<longleftrightarrow> list_all (\<lambda>l. l \<noteq> [] \<and> list_all host_char l) (host_labels host)"

section \<open>Paths\<close>

definition hex_pair :: "string \<Rightarrow> bool" where
  "hex_pair s \<longleftrightarrow> 2 \<le> length s \<and> is_hex (s ! 0) \<and> is_hex (s ! 1)"

text \<open>A percent sign that hides a dot, slash, backslash or percent, or starts no byte.\<close>

fun path_alias :: "string \<Rightarrow> bool" where
  "path_alias [] = False"
| "path_alias (c # s) =
     (c = CHR ''%'' \<and> (\<not> hex_pair s \<or> map to_lower (take 2 s) \<in> {''2e'', ''2f'', ''5c'', ''25''})
      \<or> path_alias s)"

definition hex_digit_val :: "char \<Rightarrow> nat" where
  "hex_digit_val c = (if is_digit c then of_char c - 48 else of_char (to_lower c) - 87)"

fun unquote :: "string \<Rightarrow> string" where
  "unquote (CHR ''%'' # a # b # s) =
     (if is_hex a \<and> is_hex b then char_of (16 * hex_digit_val a + hex_digit_val b) # unquote s
      else CHR ''%'' # unquote (a # b # s))"
| "unquote (c # s) = c # unquote s"
| "unquote [] = []"

definition dot_segment :: "string \<Rightarrow> bool" where
  "dot_segment path \<longleftrightarrow> (\<exists>p\<in>set (split_on (CHR ''/'') (unquote path)). p = ''.'' \<or> p = ''..'')"

section \<open>Destinations and scopes\<close>

record destination_url =
  du_scheme :: string
  du_host :: string
  du_port :: nat
  du_path :: string
  du_query :: string

definition bad_url_char :: "char \<Rightarrow> bool" where
  "bad_url_char c \<longleftrightarrow> c \<le> CHR '' '' \<or> c = CHR 0x7F \<or> c = CHR 0x5C"

definition url_authority_ok :: "split_url \<Rightarrow> bool" where
  "url_authority_ok u \<longleftrightarrow>
     su_scheme u \<in> {''http'', ''https''} \<and> url_hostname (su_netloc u) \<noteq> [] \<and>
     CHR ''@'' \<notin> set (su_netloc u) \<and> su_fragment u = [] \<and>
     CHR ''%'' \<notin> set (url_hostname (su_netloc u)) \<and> \<not> suffix ''.'' (url_hostname (su_netloc u))"

definition destination :: "string \<Rightarrow> destination_url result" where
  "destination url =
     (if \<exists>c\<in>set url. bad_url_char c then Inl (UnsafeDestination ''invalid URL characters'')
      else case urlsplit url of
        Inl _ \<Rightarrow> Inl (UnsafeDestination ''invalid destination URL'')
      | Inr u \<Rightarrow>
          (case url_port (su_netloc u) of
             Inl _ \<Rightarrow> Inl (UnsafeDestination ''invalid destination URL'')
           | Inr port \<Rightarrow>
               (let host = url_hostname (su_netloc u); path = (if su_path u = [] then ''/'' else su_path u) in
                if port = Some 0 \<or> \<not> url_authority_ok u \<or> \<not> idna_ok host
                   \<or> (if CHR '':'' \<in> set host then \<not> ipv6_text host else \<not> valid_hostname host)
                   \<or> path_alias path \<or> dot_segment path
                then Inl (UnsafeDestination ''invalid destination URL'')
                else Inr \<lparr>du_scheme = su_scheme u, du_host = host,
                          du_port = (case port of Some p \<Rightarrow> p
                                     | None \<Rightarrow> if su_scheme u = ''https'' then 443 else 80),
                          du_path = path, du_query = su_query u\<rparr>)))"

definition origin :: "destination_url \<Rightarrow> string \<times> string \<times> nat" where
  "origin d = (du_scheme d, du_host d, du_port d)"

definition path_within :: "string \<Rightarrow> string \<Rightarrow> bool" where
  "path_within allowed proposed \<longleftrightarrow>
     proposed = allowed \<or> prefix (rstrip_by (\<lambda>c. c = CHR ''/'') allowed @ ''/'') proposed"

definition target_within_scope :: "string \<Rightarrow> string \<Rightarrow> bool" where
  "target_within_scope scope target \<longleftrightarrow>
     (case (destination scope, destination target) of
        (Inr allowed, Inr proposed) \<Rightarrow>
          origin allowed = origin proposed \<and> path_within (du_path allowed) (du_path proposed)
          \<and> du_query proposed = du_query allowed
      | _ \<Rightarrow> False)"

section \<open>The public HTTP transport\<close>

text \<open>An address as the source asks about it.\<close>

record ip_info =
  ip_global :: bool
  ip_multicast :: bool
  ip_unspecified :: bool
  ip_mapped :: bool

definition public_address :: "ip_info \<Rightarrow> bool" where
  "public_address ip \<longleftrightarrow> ip_global ip \<and> \<not> ip_multicast ip \<and> \<not> ip_unspecified ip \<and> \<not> ip_mapped ip"

definition public_addresses ::
  "(string \<Rightarrow> nat \<Rightarrow> string list result) \<Rightarrow> (string \<Rightarrow> ip_info) \<Rightarrow> string \<Rightarrow> nat \<Rightarrow> string list result" where
  "public_addresses resolve info host port =
     (case resolve host port of
        Inl e \<Rightarrow> Inl e
      | Inr found \<Rightarrow>
          (let addresses = rev (remdups (rev found)) in
           if addresses = [] then Inl (UnsafeDestination ''destination has no addresses'')
           else if \<exists>a\<in>set addresses. \<not> public_address (info a)
           then Inl (UnsafeDestination ''destination resolves to a non-public address'')
           else Inr addresses))"

definition http_methods :: "string list" where
  "http_methods = [''GET'', ''HEAD'', ''POST'', ''PUT'', ''PATCH'', ''DELETE'', ''OPTIONS'']"

definition prohibited_headers :: "string list" where
  "prohibited_headers =
     [''host'', ''connection'', ''transfer-encoding'', ''content-length'', ''proxy-authorization'', ''upgrade'']"

definition header_name_char :: "char \<Rightarrow> bool" where
  "header_name_char c \<longleftrightarrow>
     is_alpha c \<or> is_digit c \<or> c \<in> set ''!#$%&*+.^_|~-'' \<or> c = CHR 0x27 \<or> c = CHR 0x60"

definition safe_header :: "string \<times> string \<Rightarrow> bool" where
  "safe_header h \<longleftrightarrow>
     map to_lower (fst h) \<notin> set prohibited_headers \<and> fst h \<noteq> [] \<and> list_all header_name_char (fst h)
     \<and> \<not> (\<exists>c\<in>set (snd h). c < CHR '' '' \<or> c = CHR 0x7F)"

record http_request =
  hr_address :: string
  hr_host :: string
  hr_port :: nat
  hr_method :: string
  hr_target :: string
  hr_headers :: "(string \<times> string) list"
  hr_body :: "string option"

text \<open>\<open>json.dumps(v, allow_nan=False)\<close>, None where it raises.\<close>

fun dumps_spaced :: "json \<Rightarrow> string option"
  and dumps_spaced_list :: "json list \<Rightarrow> string list option"
  and dumps_spaced_kvs :: "(string \<times> json) list \<Rightarrow> string list option" where
  "dumps_spaced (JList xs) = map_option (\<lambda>ts. ''['' @ join '', '' ts @ '']'') (dumps_spaced_list xs)"
| "dumps_spaced (JObj kvs) = map_option (\<lambda>ts. ''{'' @ join '', '' ts @ ''}'') (dumps_spaced_kvs kvs)"
| "dumps_spaced v = dumps v"
| "dumps_spaced_list [] = Some []"
| "dumps_spaced_list (x # xs) =
     (case dumps_spaced x of None \<Rightarrow> None | Some t \<Rightarrow> map_option ((#) t) (dumps_spaced_list xs))"
| "dumps_spaced_kvs [] = Some []"
| "dumps_spaced_kvs ((k, v) # kvs) =
     (case dumps_spaced v of None \<Rightarrow> None
      | Some t \<Rightarrow> map_option ((#) (json_quote k @ '': '' @ t)) (dumps_spaced_kvs kvs))"

fun request_body :: "json option \<Rightarrow> string option result" where
  "request_body None = Inr None"
| "request_body (Some v) =
     (case dumps_spaced v of
        None \<Rightarrow> Inl (ValueError ''Out of range float values are not JSON compliant'')
      | Some t \<Rightarrow> if 1048576 < length t then Inl (UnsafeDestination ''request body exceeds limit'')
                  else Inr (Some t))"

text \<open>The request the transport sends to the pinned address.\<close>

definition transport_request ::
  "(string \<Rightarrow> nat \<Rightarrow> string list result) \<Rightarrow> (string \<Rightarrow> ip_info) \<Rightarrow> string \<Rightarrow> string
   \<Rightarrow> (string \<times> string) list \<Rightarrow> json option \<Rightarrow> http_request result" where
  "transport_request resolve info meth url headers json_body =
     (case destination url of
        Inl e \<Rightarrow> Inl e
      | Inr target \<Rightarrow>
          if du_scheme target \<noteq> ''https''
          then Inl (UnsafeDestination ''the public HTTP executor requires HTTPS'')
          else if meth \<notin> set http_methods then Inl (UnsafeDestination ''unsupported HTTP method'')
          else if \<exists>h\<in>set headers. \<not> safe_header h then Inl (UnsafeDestination ''unsafe HTTP header'')
          else (case public_addresses resolve info (du_host target) (du_port target) of
             Inl e \<Rightarrow> Inl e
           | Inr addresses \<Rightarrow>
               (case request_body json_body of
                  Inl e \<Rightarrow> Inl e
                | Inr body \<Rightarrow>
                    Inr \<lparr>hr_address = hd addresses, hr_host = du_host target, hr_port = du_port target,
                         hr_method = meth,
                         hr_target = du_path target
                           @ (if du_query target = [] then [] else CHR ''?'' # du_query target),
                         hr_headers = headers, hr_body = body\<rparr>)))"

text \<open>What the transport makes of the response: its status and the bytes read.\<close>

definition transport_reply :: "nat \<Rightarrow> nat \<Rightarrow> string \<Rightarrow> string result" where
  "transport_reply max_bytes status payload =
     (if 300 \<le> status \<and> status < 400
      then Inl (UnsafeDestination ''redirects are disabled; evaluate the new destination explicitly'')
      else if max_bytes < length (take (max_bytes + 1) payload)
      then Inl (UnsafeDestination ''HTTP response exceeds limit'')
      else if 400 \<le> status then Inl (OSError (''upstream HTTP status '' @ nat_str status))
      else Inr (take (max_bytes + 1) payload))"

section \<open>Facts\<close>

lemma destination_eq:
  assumes "destination url = Inr d"
  obtains u port where "urlsplit url = Inr u" "url_port (su_netloc u) = Inr port" "port \<noteq> Some 0"
    "url_authority_ok u" "du_scheme d = su_scheme u" "du_host d = url_hostname (su_netloc u)"
    "du_port d = (case port of Some p \<Rightarrow> p | None \<Rightarrow> if su_scheme u = ''https'' then 443 else 80)"
    "du_path d = (if su_path u = [] then ''/'' else su_path u)"
    "\<not> dot_segment (du_path d)" "\<not> path_alias (du_path d)" "du_query d = su_query u"
proof -
  from assms obtain u where u: "urlsplit url = Inr u"
    unfolding destination_def by (auto split: if_splits sum.splits)
  from assms u obtain port where port: "url_port (su_netloc u) = Inr port"
    unfolding destination_def by (auto split: if_splits sum.splits)
  have nb: "\<not> (\<exists>c\<in>set url. bad_url_char c)" using assms unfolding destination_def by (auto split: if_splits)
  note d = assms [unfolded destination_def if_not_P [OF nb] u sum.case port Let_def]
  show thesis
    by (rule that [OF u port]) (use d in \<open>auto split: if_split_asm\<close>)
qed

lemma url_port_bound: "url_port n = Inr (Some p) \<Longrightarrow> p \<le> 65535"
  by (simp add: url_port_def Let_def not_less split: if_split_asm)

lemma destination_valid:
  assumes "destination url = Inr d"
  shows "du_scheme d \<in> {''http'', ''https''}" and "du_host d \<noteq> []" and "0 < du_port d \<and> du_port d \<le> 65535"
    and "du_path d \<noteq> []" and "\<not> dot_segment (du_path d)" and "\<not> path_alias (du_path d)"
proof -
  obtain u port where u: "url_port (su_netloc u) = Inr port" "port \<noteq> Some 0" "url_authority_ok u"
    and d: "du_scheme d = su_scheme u" "du_host d = url_hostname (su_netloc u)"
      "du_port d = (case port of Some p \<Rightarrow> p | None \<Rightarrow> if su_scheme u = ''https'' then 443 else 80)"
      "du_path d = (if su_path u = [] then ''/'' else su_path u)"
      "\<not> dot_segment (du_path d)" "\<not> path_alias (du_path d)"
    using destination_eq [OF assms] by metis
  show "du_scheme d \<in> {''http'', ''https''}" "du_host d \<noteq> []" "du_path d \<noteq> []"
    using u d by (simp_all add: url_authority_ok_def)
  show "0 < du_port d \<and> du_port d \<le> 65535"
    using u d url_port_bound by (cases port) auto
  show "\<not> dot_segment (du_path d)" "\<not> path_alias (du_path d)" by fact+
qed

lemma path_within_refl: "path_within p p"
  by (simp add: path_within_def)

lemma path_within_prefix: "path_within a p \<Longrightarrow> prefix (rstrip_by (\<lambda>c. c = CHR ''/'') a) p"
  by (auto simp: path_within_def rstrip_by_def prefix_def)
     (metis append_assoc rev_append rev_rev_ident takeWhile_dropWhile_id)

end
