(* ===== verification/ControlModels.thy ===== *)
theory ControlModels
  imports Types Network JsonLimits
begin

text \<open>
  \<open>control/models.py\<close>: the public contracts of the control plane. Models are records,
  their field bounds and validators are predicates \<open>valid_\<dots>\<close>, and \<open>model_dump(mode="json")\<close>
  is written out where the control plane hashes or records it. Instants are integers
  (microseconds of UTC); \<open>stamp\<close> is the text pydantic gives a datetime.
\<close>

section \<open>Enumerations\<close>

datatype role = ADMIN | APPROVER | REVIEWER | AUDITOR | AGENT | EXECUTOR

fun role_str :: "role \<Rightarrow> string" where
  "role_str ADMIN = ''admin''"
| "role_str APPROVER = ''approver''"
| "role_str REVIEWER = ''reviewer''"
| "role_str AUDITOR = ''auditor''"
| "role_str AGENT = ''agent''"
| "role_str EXECUTOR = ''executor''"

datatype action_kind =
  MODEL_REQUEST | MODEL_RESPONSE | TOOL | MEMORY_READ | MEMORY_WRITE | FILESYSTEM | KIND_EXECUTOR | HTTP

fun kind_str :: "action_kind \<Rightarrow> string" where
  "kind_str MODEL_REQUEST = ''model_request''"
| "kind_str MODEL_RESPONSE = ''model_response''"
| "kind_str TOOL = ''tool''"
| "kind_str MEMORY_READ = ''memory_read''"
| "kind_str MEMORY_WRITE = ''memory_write''"
| "kind_str FILESYSTEM = ''filesystem''"
| "kind_str KIND_EXECUTOR = ''executor''"
| "kind_str HTTP = ''http''"

lemma kind_str_inj: "kind_str a = kind_str b \<longleftrightarrow> a = b"
  by (cases a; cases b) auto

datatype policy_status = DRAFT | PENDING_APPROVAL | ACTIVE | ROLLED_BACK

datatype review_resolution = RES_ALLOW | RES_DENY

fun resolution_str :: "review_resolution \<Rightarrow> string" where
  "resolution_str RES_ALLOW = ''ALLOW''"
| "resolution_str RES_DENY = ''DENY''"

type_synonym instant = int

definition seconds :: "int \<Rightarrow> instant" where
  "seconds n = n * 1000000"

section \<open>Principals and actions\<close>

record actor =
  ac_subject :: string
  ac_roles :: "role list"
  ac_key :: "string option"
  ac_tenants :: "string list"
  ac_operations :: "string list option"

definition valid_actor :: "actor \<Rightarrow> bool" where
  "valid_actor a \<longleftrightarrow> ac_subject a \<noteq> [] \<and> length (ac_subject a) \<le> 256 \<and> ac_roles a \<noteq> []"

record evidence =
  ev_content :: string
  ev_source :: string
  ev_instructions :: bool

definition valid_evidence :: "evidence \<Rightarrow> bool" where
  "valid_evidence e \<longleftrightarrow>
     length (ev_content e) \<le> 32768 \<and> ev_source e \<noteq> [] \<and> length (ev_source e) \<le> 128"

record action_request =
  aq_tenant :: string
  aq_key :: string
  aq_task :: string
  aq_id :: string
  aq_kind :: action_kind
  aq_operation :: string
  aq_target :: "string option"
  aq_arguments :: "json pydict"
  aq_provenance :: "string list"
  aq_evidence :: "evidence list"
  aq_requested :: instant

definition sized :: "nat \<Rightarrow> nat \<Rightarrow> 'a list \<Rightarrow> bool" where
  "sized m n s \<longleftrightarrow> m \<le> length s \<and> length s \<le> n"

definition validate_http_target :: "action_request \<Rightarrow> unit result" where
  "validate_http_target a =
     (case validate_json (JObj (aq_arguments a)) 65536 4096 16 of
        Inl e \<Rightarrow> Inl e
      | Inr _ \<Rightarrow>
          if aq_kind a = HTTP
          then (case aq_target a of
                  None \<Rightarrow> Inl (ValueError ''HTTP actions require a target URL'')
                | Some t \<Rightarrow>
                    if t = [] then Inl (ValueError ''HTTP actions require a target URL'')
                    else (case destination t of Inl e \<Rightarrow> Inl e | Inr _ \<Rightarrow> Inr ()))
          else Inr ())"

definition valid_action :: "action_request \<Rightarrow> bool" where
  "valid_action a \<longleftrightarrow>
     sized 1 128 (aq_tenant a) \<and> sized 8 256 (aq_key a) \<and> sized 1 256 (aq_task a) \<and>
     sized 1 256 (aq_operation a) \<and>
     (case aq_target a of None \<Rightarrow> True | Some t \<Rightarrow> length t \<le> 2048) \<and>
     length (aq_provenance a) \<le> 128 \<and> length (aq_evidence a) \<le> 32 \<and>
     list_all valid_evidence (aq_evidence a) \<and> is_ok (validate_http_target a)"

section \<open>Policies\<close>

record rule_match =
  rm_kind :: "action_kind option"
  rm_operation :: "string option"
  rm_prefix :: "string option"
  rm_arguments :: "json pydict"
  rm_instructions :: "bool option"

record policy_rule =
  pu_id :: string
  pu_name :: string
  pu_priority :: int
  pu_match :: rule_match
  pu_decision :: decision
  pu_reason :: string
  pu_rewrite :: "json pydict option"
  pu_cache :: bool

definition blank :: "'a list option \<Rightarrow> bool" where
  "blank x \<longleftrightarrow> (case x of None \<Rightarrow> True | Some s \<Rightarrow> s = [])"

definition validate_rewrite_rule :: "policy_rule \<Rightarrow> unit result" where
  "validate_rewrite_rule r =
     (if pu_decision r = REWRITE \<and> blank (pu_rewrite r)
      then Inl (ValueError ''REWRITE rules require a rewrite payload'')
      else if pu_cache r \<and> pu_decision r \<noteq> ALLOW
      then Inl (ValueError ''only ALLOW rules can be cache eligible'')
      else if pu_cache r \<and> (rm_kind (pu_match r) \<noteq> Some HTTP
              \<or> rm_operation (pu_match r) \<notin> {Some ''GET'', Some ''HEAD''} \<or> blank (rm_prefix (pu_match r)))
      then Inl (ValueError ''offline grants require an explicit HTTP GET/HEAD destination scope'')
      else Inr ())"

definition valid_rule :: "policy_rule \<Rightarrow> bool" where
  "valid_rule r \<longleftrightarrow>
     sized 1 256 (pu_name r) \<and> 0 \<le> pu_priority r \<and> pu_priority r \<le> 10000 \<and>
     sized 1 1024 (pu_reason r) \<and> is_ok (validate_rewrite_rule r)"

record policy_draft =
  pd_name :: string
  pd_rules :: "policy_rule list"
  pd_default :: decision

definition valid_draft :: "policy_draft \<Rightarrow> bool" where
  "valid_draft d \<longleftrightarrow>
     sized 1 256 (pd_name d) \<and> sized 1 1000 (pd_rules d) \<and> list_all valid_rule (pd_rules d) \<and>
     pd_default d \<in> {BLOCK, ESCALATE} \<and> distinct (map pu_id (pd_rules d))"

record policy_version =
  pv_id :: string
  pv_tenant :: string
  pv_version :: nat
  pv_draft :: policy_draft
  pv_status :: policy_status
  pv_created_by :: string
  pv_approved_by :: "string option"
  pv_activated_at :: "instant option"
  pv_created_at :: instant

section \<open>Decisions, reviews and audit events\<close>

record decision_response =
  dr_decision :: decision
  dr_reason :: string
  dr_policy :: "string option"
  dr_version :: "nat option"
  dr_audit :: string
  dr_review :: "string option"
  dr_rewritten :: "json pydict option"
  dr_from_cache :: bool
  dr_digest :: "string option"

record review =
  rv_id :: string
  rv_tenant :: string
  rv_action :: string
  rv_audit :: string
  rv_expires :: instant
  rv_status :: string
  rv_resolution :: "review_resolution option"
  rv_resolved_by :: "string option"
  rv_reason :: "string option"
  rv_digest :: string
  rv_agent :: string
  rv_key :: string
  rv_task :: string
  rv_epoch :: nat
  rv_nonce :: "string option"

record audit_event =
  ae_id :: string
  ae_tenant :: string
  ae_type :: string
  ae_actor :: string
  ae_payload :: json
  ae_previous :: "string option"
  ae_hash :: string
  ae_created :: instant
  ae_sequence :: nat

section \<open>Grants and bundles\<close>

record signed_bundle =
  sb_tenant :: string
  sb_policy :: policy_version
  sb_issued :: instant
  sb_expires :: instant
  sb_key_id :: string
  sb_signature :: string
  sb_audience :: string
  sb_service_key :: string
  sb_epoch :: nat

record execution_grant =
  eg_nonce :: string
  eg_tenant :: string
  eg_task :: string
  eg_agent :: string
  eg_key :: string
  eg_audience :: string
  eg_domain :: string
  eg_digest :: string
  eg_authority :: string
  eg_adapter :: string
  eg_policy :: string
  eg_epoch :: nat
  eg_issued :: instant
  eg_expires :: instant
  eg_repeatable :: bool
  eg_amount :: string
  eg_budget :: "string option"
  eg_key_id :: string
  eg_signature :: string

definition hex_digest_text :: "string \<Rightarrow> bool" where
  "hex_digest_text s \<longleftrightarrow>
     length s = 64 \<and> list_all (\<lambda>c. is_digit c \<or> CHR ''a'' \<le> c \<and> c \<le> CHR ''f'') s"

record task_registration =
  tg_task :: string
  tg_agent :: string
  tg_key :: string
  tg_domain :: string
  tg_authority :: task_authority
  tg_schemas :: "json pydict pydict"
  tg_adapter :: string

definition valid_registration :: "task_registration \<Rightarrow> bool" where
  "valid_registration r \<longleftrightarrow>
     sized 1 256 (tg_task r) \<and> sized 1 256 (tg_agent r) \<and> sized 1 256 (tg_key r) \<and>
     sized 1 128 (tg_domain r) \<and> hex_digest_text (tg_adapter r)"

section \<open>JSON of the models\<close>

fun opt_json :: "('a \<Rightarrow> json) \<Rightarrow> 'a option \<Rightarrow> json" where
  "opt_json f None = JNull"
| "opt_json f (Some x) = f x"

definition nat_json :: "nat \<Rightarrow> json" where
  "nat_json n = JInt (int n)"

definition strings_json :: "string list \<Rightarrow> json" where
  "strings_json xs = JList (map JStr xs)"

definition evidence_json :: "evidence \<Rightarrow> json" where
  "evidence_json e =
     JObj [(''content'', JStr (ev_content e)), (''source'', JStr (ev_source e)),
           (''untrusted'', JBool True), (''contains_instructions'', JBool (ev_instructions e))]"

text \<open>The part of an action its digest covers: all but the identifiers and the time of the request.\<close>

definition action_payload :: "action_request \<Rightarrow> json" where
  "action_payload a =
     JObj [(''tenant_id'', JStr (aq_tenant a)), (''task_id'', JStr (aq_task a)),
           (''kind'', JStr (kind_str (aq_kind a))), (''operation'', JStr (aq_operation a)),
           (''target'', opt_json JStr (aq_target a)), (''arguments'', JObj (aq_arguments a)),
           (''provenance'', strings_json (aq_provenance a)),
           (''evidence'', JList (map evidence_json (aq_evidence a)))]"

definition review_json :: "(instant \<Rightarrow> string) \<Rightarrow> review \<Rightarrow> json" where
  "review_json stamp r =
     JObj [(''review_id'', JStr (rv_id r)), (''tenant_id'', JStr (rv_tenant r)),
           (''action_id'', JStr (rv_action r)), (''audit_id'', JStr (rv_audit r)),
           (''expires_at'', JStr (stamp (rv_expires r))), (''status'', JStr (rv_status r)),
           (''resolution'', opt_json (\<lambda>x. JStr (resolution_str x)) (rv_resolution r)),
           (''resolved_by'', opt_json JStr (rv_resolved_by r)), (''reason'', opt_json JStr (rv_reason r)),
           (''action_digest'', JStr (rv_digest r)), (''agent_subject'', JStr (rv_agent r)),
           (''service_key_id'', JStr (rv_key r)), (''task_id'', JStr (rv_task r)),
           (''policy_epoch'', nat_json (rv_epoch r)), (''grant_nonce'', opt_json JStr (rv_nonce r))]"

fun status_str :: "policy_status \<Rightarrow> string" where
  "status_str DRAFT = ''draft''"
| "status_str PENDING_APPROVAL = ''pending_approval''"
| "status_str ACTIVE = ''active''"
| "status_str ROLLED_BACK = ''rolled_back''"

definition match_json :: "rule_match \<Rightarrow> json" where
  "match_json m =
     JObj [(''kind'', opt_json (\<lambda>k. JStr (kind_str k)) (rm_kind m)),
           (''operation'', opt_json JStr (rm_operation m)), (''target_prefix'', opt_json JStr (rm_prefix m)),
           (''argument_equals'', JObj (rm_arguments m)),
           (''contains_untrusted_instructions'', opt_json JBool (rm_instructions m))]"

definition rule_json :: "policy_rule \<Rightarrow> json" where
  "rule_json r =
     JObj [(''rule_id'', JStr (pu_id r)), (''name'', JStr (pu_name r)), (''priority'', JInt (pu_priority r)),
           (''match'', match_json (pu_match r)), (''decision'', JStr (decision_str (pu_decision r))),
           (''reason'', JStr (pu_reason r)), (''rewrite'', opt_json JObj (pu_rewrite r)),
           (''cache_eligible'', JBool (pu_cache r))]"

definition draft_json :: "policy_draft \<Rightarrow> json" where
  "draft_json d =
     JObj [(''name'', JStr (pd_name d)), (''rules'', JList (map rule_json (pd_rules d))),
           (''default_decision'', JStr (decision_str (pd_default d)))]"

definition policy_json :: "(instant \<Rightarrow> string) \<Rightarrow> policy_version \<Rightarrow> json" where
  "policy_json stamp p =
     JObj [(''policy_id'', JStr (pv_id p)), (''tenant_id'', JStr (pv_tenant p)),
           (''version'', nat_json (pv_version p)), (''draft'', draft_json (pv_draft p)),
           (''status'', JStr (status_str (pv_status p))), (''created_by'', JStr (pv_created_by p)),
           (''approved_by'', opt_json JStr (pv_approved_by p)),
           (''activated_at'', opt_json (\<lambda>t. JStr (stamp t)) (pv_activated_at p)),
           (''created_at'', JStr (stamp (pv_created_at p)))]"

definition bundle_body :: "(instant \<Rightarrow> string) \<Rightarrow> signed_bundle \<Rightarrow> json" where
  "bundle_body stamp b =
     JObj [(''tenant_id'', JStr (sb_tenant b)), (''policy'', policy_json stamp (sb_policy b)),
           (''issued_at'', JStr (stamp (sb_issued b))), (''expires_at'', JStr (stamp (sb_expires b))),
           (''key_id'', JStr (sb_key_id b)), (''algorithm'', JStr ''Ed25519''),
           (''audience'', JStr (sb_audience b)), (''service_key_id'', JStr (sb_service_key b)),
           (''policy_epoch'', nat_json (sb_epoch b))]"

text \<open>An audit event without its hash, which is the digest of this body.\<close>

definition event_fields :: "(instant \<Rightarrow> string) \<Rightarrow> audit_event \<Rightarrow> json pydict" where
  "event_fields stamp e =
     [(''audit_id'', JStr (ae_id e)), (''tenant_id'', JStr (ae_tenant e)),
      (''event_type'', JStr (ae_type e)), (''actor'', JStr (ae_actor e)),
      (''payload'', ae_payload e), (''previous_hash'', opt_json JStr (ae_previous e)),
      (''created_at'', JStr (stamp (ae_created e))), (''sequence'', nat_json (ae_sequence e)),
      (''schema_version'', JStr ''audit-v2'')]"

definition event_body :: "(instant \<Rightarrow> string) \<Rightarrow> audit_event \<Rightarrow> json" where
  "event_body stamp e = JObj (event_fields stamp e)"

definition event_json :: "(instant \<Rightarrow> string) \<Rightarrow> audit_event \<Rightarrow> json" where
  "event_json stamp e = JObj (event_fields stamp e @ [(''event_hash'', JStr (ae_hash e))])"

definition grant_fields :: "(instant \<Rightarrow> string) \<Rightarrow> execution_grant \<Rightarrow> json pydict" where
  "grant_fields stamp g =
     [(''nonce'', JStr (eg_nonce g)), (''tenant_id'', JStr (eg_tenant g)), (''task_id'', JStr (eg_task g)),
      (''agent_subject'', JStr (eg_agent g)), (''service_key_id'', JStr (eg_key g)),
      (''audience'', JStr (eg_audience g)), (''execution_domain'', JStr (eg_domain g)),
      (''action_digest'', JStr (eg_digest g)), (''authority_digest'', JStr (eg_authority g)),
      (''adapter_digest'', JStr (eg_adapter g)), (''policy_id'', JStr (eg_policy g)),
      (''policy_epoch'', nat_json (eg_epoch g)), (''issued_at'', JStr (stamp (eg_issued g))),
      (''expires_at'', JStr (stamp (eg_expires g))), (''repeatable'', JBool (eg_repeatable g)),
      (''amount'', JStr (eg_amount g)), (''budget_limit'', opt_json JStr (eg_budget g)),
      (''key_id'', JStr (eg_key_id g))]"

definition grant_body :: "(instant \<Rightarrow> string) \<Rightarrow> execution_grant \<Rightarrow> json" where
  "grant_body stamp g = JObj (grant_fields stamp g)"

definition grant_json :: "(instant \<Rightarrow> string) \<Rightarrow> execution_grant \<Rightarrow> json" where
  "grant_json stamp g = JObj (grant_fields stamp g @ [(''signature'', JStr (eg_signature g))])"

section \<open>Facts\<close>

lemma opt_json_str_inject [simp]: "opt_json JStr a = opt_json JStr b \<longleftrightarrow> a = b"
  by (cases a; cases b) auto

lemma opt_json_str_canon [simp]: "canon (opt_json JStr a) = Some (opt_json JStr a)"
  by (cases a) auto

lemma grant_json_inject:
  assumes "grant_json stamp a = grant_json stamp b"
  shows "eg_nonce a = eg_nonce b" "eg_tenant a = eg_tenant b" "eg_task a = eg_task b"
    "eg_agent a = eg_agent b" "eg_key a = eg_key b" "eg_audience a = eg_audience b"
    "eg_domain a = eg_domain b" "eg_digest a = eg_digest b" "eg_authority a = eg_authority b"
    "eg_adapter a = eg_adapter b" "eg_policy a = eg_policy b" "eg_epoch a = eg_epoch b"
    "eg_amount a = eg_amount b" "eg_repeatable a = eg_repeatable b" "eg_budget a = eg_budget b"
    "stamp (eg_expires a) = stamp (eg_expires b)" "eg_signature a = eg_signature b"
  using assms by (simp_all add: grant_json_def grant_fields_def nat_json_def)

end
