(* ===== verification/Matching.thy ===== *)
theory Matching
  imports ControlModels PyRegex
begin

text \<open>
  \<open>policy/matching.py\<close>: the one matcher of the control plane and its caches, with the
  decision precedence BLOCK, ESCALATE, REWRITE, ALLOW.
\<close>

definition instructions_re :: re where
  "instructions_re =
     cat_all [WordBound,
       or_all [cat_all [lit_ci ''ignore '', or_all [lit_ci ''previous'', lit_ci ''all''], lit_ci '' instructions''],
               lit_ci ''system prompt'', lit_ci ''reveal secrets'', lit_ci ''exfiltrate''],
       WordBound]"

fun rule_precedence :: "decision \<Rightarrow> nat" where
  "rule_precedence BLOCK = 3"
| "rule_precedence ESCALATE = 2"
| "rule_precedence REWRITE = 1"
| "rule_precedence ALLOW = 0"

definition untrusted_instructions :: "action_request \<Rightarrow> bool" where
  "untrusted_instructions a \<longleftrightarrow>
     (\<exists>e\<in>set (aq_evidence a). ev_instructions e \<or> re_found instructions_re (ev_content e))"

definition target_text :: "action_request \<Rightarrow> string" where
  "target_text a = (case aq_target a of None \<Rightarrow> [] | Some t \<Rightarrow> t)"

definition target_matches :: "string \<Rightarrow> action_request \<Rightarrow> bool" where
  "target_matches scope a =
     (if kind_str (aq_kind a) = ''http'' then target_within_scope scope (target_text a)
      else prefix scope (target_text a))"

definition matches :: "rule_match \<Rightarrow> action_request \<Rightarrow> bool" where
  "matches m a =
     (if (case rm_kind m of None \<Rightarrow> False | Some k \<Rightarrow> k \<noteq> aq_kind a) then False
      else if (case rm_operation m of None \<Rightarrow> False | Some p \<Rightarrow> p \<noteq> aq_operation a) then False
      else if (case rm_prefix m of None \<Rightarrow> False | Some t \<Rightarrow> \<not> target_matches t a) then False
      else if \<exists>(k, v)\<in>set (rm_arguments m). \<not> same_value (dict_get (aq_arguments a) k JNull) v then False
      else (case rm_instructions m of None \<Rightarrow> True | Some b \<Rightarrow> b = untrusted_instructions a))"

type_synonym rule_order = "nat \<times> int \<times> string"

definition rule_key :: "policy_rule \<Rightarrow> rule_order" where
  "rule_key r = (rule_precedence (pu_decision r), pu_priority r, pu_id r)"

definition select_rule :: "policy_draft \<Rightarrow> action_request \<Rightarrow> policy_rule option" where
  "select_rule d a = max_by rule_key (filter (\<lambda>r. matches (pu_match r) a) (pd_rules d))"

text \<open>The selection is a ranked choice: the rank is the precedence of the decision.\<close>

interpretation rules: ranked_choice rule_key "\<lambda>r. rule_precedence (pu_decision r)"
  by unfold_locales (auto simp: rule_key_def less_eq_prod_def)

lemma select_rule_None: "select_rule d a = None \<longleftrightarrow> (\<forall>r\<in>set (pd_rules d). \<not> matches (pu_match r) a)"
  by (simp add: select_rule_def filter_empty_conv)

lemma select_rule_in:
  "select_rule d a = Some r \<Longrightarrow> r \<in> set (pd_rules d) \<and> matches (pu_match r) a"
  by (auto simp: select_rule_def dest: max_by_in)

lemma select_rule_greatest:
  "select_rule d a = Some r \<Longrightarrow> q \<in> set (pd_rules d) \<Longrightarrow> matches (pu_match q) a \<Longrightarrow> rule_key q \<le> rule_key r"
  unfolding select_rule_def by (erule max_by_ge) simp

lemma select_rule_precedence:
  "select_rule d a = Some r \<Longrightarrow> q \<in> set (pd_rules d) \<Longrightarrow> matches (pu_match q) a \<Longrightarrow>
   rule_precedence (pu_decision q) \<le> rule_precedence (pu_decision r)"
  unfolding select_rule_def by (erule rules.chosen_rank) simp

text \<open>Identifiers are unique in a draft, so the greatest key determines the rule.\<close>

lemma select_rule_unique:
  assumes ids: "distinct (map pu_id (pd_rules d))"
  shows "select_rule d a = Some r \<longleftrightarrow>
    r \<in> set (pd_rules d) \<and> matches (pu_match r) a \<and>
    (\<forall>q\<in>set (pd_rules d). matches (pu_match q) a \<longrightarrow> rule_key q \<le> rule_key r)"
proof
  assume "select_rule d a = Some r"
  then show "r \<in> set (pd_rules d) \<and> matches (pu_match r) a \<and>
    (\<forall>q\<in>set (pd_rules d). matches (pu_match q) a \<longrightarrow> rule_key q \<le> rule_key r)"
    using select_rule_in select_rule_greatest by blast
next
  assume r: "r \<in> set (pd_rules d) \<and> matches (pu_match r) a \<and>
    (\<forall>q\<in>set (pd_rules d). matches (pu_match q) a \<longrightarrow> rule_key q \<le> rule_key r)"
  then obtain q where q: "select_rule d a = Some q" using select_rule_None by (cases "select_rule d a") auto
  then have "rule_key q = rule_key r"
    using r select_rule_in select_rule_greatest by (meson order_antisym)
  then have "pu_id q = pu_id r" by (simp add: rule_key_def)
  then have "q = r" using ids r select_rule_in [OF q] by (auto simp: distinct_map dest: inj_onD)
  with q show "select_rule d a = Some r" by simp
qed

lemma precedence_top: "rule_precedence d \<le> 3"
  by (cases d) auto

lemma rule_precedence_inj: "rule_precedence a = rule_precedence b \<longleftrightarrow> a = b"
  by (cases a; cases b) auto

lemma select_block:
  "select_rule d a = Some r \<Longrightarrow> q \<in> set (pd_rules d) \<Longrightarrow> matches (pu_match q) a \<Longrightarrow>
   pu_decision q = BLOCK \<Longrightarrow> pu_decision r = BLOCK"
  using select_rule_precedence [of d a r q] precedence_top [of "pu_decision r"]
  by (simp flip: rule_precedence_inj)

lemma select_allow:
  "select_rule d a = Some r \<Longrightarrow> pu_decision r = ALLOW \<Longrightarrow> q \<in> set (pd_rules d) \<Longrightarrow> matches (pu_match q) a \<Longrightarrow>
   pu_decision q = ALLOW"
  using select_rule_precedence [of d a r q] by (simp flip: rule_precedence_inj)

lemma matches_http:
  assumes "matches m a" and "rm_prefix m = Some scope" and "aq_kind a = HTTP"
  shows "target_within_scope scope (target_text a)"
  using assms by (simp add: matches_def target_matches_def split: if_split_asm)

end
