(* ===== verification/ControlPlane.thy ===== *)
theory ControlPlane
  imports Matching Kernel Redaction
begin

text \<open>
  \<open>control/service.py\<close>: the multi-tenant control plane. Its dictionaries are association
  lists in insertion order; every operation returns its result with the state after it, and
  a \<open>deep=True\<close> copy is the value itself. Hashing, signing, the text of an instant and
  the JSON-schema validator are the fields of \<open>world\<close>; the clock (read once per transaction) and the \<open>uuid4\<close>s an
  operation draws are its \<open>draws\<close>. Admitted values are finite numbers
  (\<open>validate_json\<close>), so \<open>canonical\<close> does not raise.
\<close>

section \<open>State\<close>

record world =
  w_sha :: "json \<Rightarrow> string"
  w_stamp :: "instant \<Rightarrow> string"
  w_instant :: "string \<Rightarrow> instant"
  w_sign :: "string \<Rightarrow> json \<Rightarrow> string"
  w_verify :: "string \<Rightarrow> json \<Rightarrow> string \<Rightarrow> bool"
  w_schema_ok :: "json pydict \<Rightarrow> json pydict \<Rightarrow> bool"
  w_fingerprint :: "task_authority \<Rightarrow> json pydict pydict \<Rightarrow> string"

record draws =
  dw_now :: instant
  dw_id :: string
  dw_audit :: string
  dw_audit2 :: string

record receipt_entry =
  re_digest :: string
  re_epoch :: nat
  re_expires :: instant
  re_result :: decision_response

type_synonym receipt_key = "string \<times> string \<times> string \<times> string"

record registered_task =
  rt_principal :: string
  rt_credential :: string
  rt_compiled :: compiled_authority
  rt_adapter :: string
  rt_domain :: string

record control_state =
  cs_policies :: "policy_version list pydict"
  cs_audits :: "audit_event list pydict"
  cs_heads :: "(nat \<times> string) pydict"
  cs_reviews :: "review pydict"
  cs_receipts :: "(receipt_key \<times> receipt_entry) list"
  cs_epochs :: "nat pydict"
  cs_tasks :: "((string \<times> string) \<times> registered_task) list"
  cs_issued :: "json pydict"
  cs_revoked :: "(string \<times> string) list"
  cs_suspended :: "string list"

definition empty_control :: control_state where
  "empty_control =
     \<lparr>cs_policies = [], cs_audits = [], cs_heads = [], cs_reviews = [], cs_receipts = [],
      cs_epochs = [], cs_tasks = [], cs_issued = [], cs_revoked = [], cs_suspended = []\<rparr>"

definition policies_of :: "control_state \<Rightarrow> string \<Rightarrow> policy_version list" where
  "policies_of s t = dict_get (cs_policies s) t []"

definition audits_of :: "control_state \<Rightarrow> string \<Rightarrow> audit_event list" where
  "audits_of s t = dict_get (cs_audits s) t []"

definition epoch_of :: "control_state \<Rightarrow> string \<Rightarrow> nat" where
  "epoch_of s t = dict_get (cs_epochs s) t 0"

text \<open>\<open>sha256(canonical(v)).hexdigest()\<close>.\<close>

definition hexdigest :: "world \<Rightarrow> json \<Rightarrow> string" where
  "hexdigest w v = w_sha w (case canon v of Some c \<Rightarrow> c | None \<Rightarrow> v)"

definition action_digest :: "world \<Rightarrow> action_request \<Rightarrow> string" where
  "action_digest w a = hexdigest w (action_payload a)"

definition redact :: "json \<Rightarrow> json" where
  "redact v = redact_value default_redaction v"

section \<open>Guards and the audit chain\<close>

definition require :: "actor \<Rightarrow> role \<Rightarrow> string \<Rightarrow> control_state \<Rightarrow> unit result" where
  "require a r tenant s =
     (if tenant \<notin> set (ac_tenants a)
      then Inl (AuthorizationError ''principal is not authorized for this tenant'')
      else if r \<notin> set (ac_roles a)
      then Inl (AuthorizationError (''missing required role: '' @ role_str r))
      else if r \<in> {AGENT, EXECUTOR} \<and> tenant \<in> set (cs_suspended s)
      then Inl (AuthorizationError ''tenant execution is suspended'')
      else if (case ac_key a of None \<Rightarrow> False | Some k \<Rightarrow> k \<noteq> [] \<and> (tenant, k) \<in> set (cs_revoked s))
      then Inl (AuthorizationError ''service credential is revoked'')
      else Inr ())"

definition append_audit ::
  "world \<Rightarrow> string \<Rightarrow> string \<Rightarrow> string \<Rightarrow> json \<Rightarrow> string \<Rightarrow> instant \<Rightarrow> control_state
   \<Rightarrow> audit_event \<times> control_state" where
  "append_audit w tenant ty who payload aid now s =
     (let events = audits_of s tenant;
          draft = \<lparr>ae_id = aid, ae_tenant = tenant, ae_type = ty, ae_actor = who,
                   ae_payload = redact payload,
                   ae_previous = (if events = [] then None else Some (ae_hash (last events))),
                   ae_hash = [], ae_created = now, ae_sequence = length events + 1\<rparr>;
          event = draft\<lparr>ae_hash := hexdigest w (event_body (w_stamp w) draft)\<rparr>
      in (event,
          s\<lparr>cs_audits := AList.update tenant (events @ [event]) (cs_audits s),
            cs_heads := AList.update tenant (length events + 1, ae_hash event) (cs_heads s)\<rparr>))"

definition audited ::
  "world \<Rightarrow> string \<Rightarrow> string \<Rightarrow> string \<Rightarrow> json \<Rightarrow> draws \<Rightarrow> control_state \<Rightarrow> control_state" where
  "audited w tenant ty who payload d s = snd (append_audit w tenant ty who payload (dw_audit d) (dw_now d) s)"

fun chain_from :: "world \<Rightarrow> string option \<Rightarrow> nat \<Rightarrow> audit_event list \<Rightarrow> string option option" where
  "chain_from w previous i [] = Some previous"
| "chain_from w previous i (e # es) =
     (if ae_previous e \<noteq> previous \<or> ae_sequence e \<noteq> i then None
      else if ae_hash e \<noteq> hexdigest w (event_body (w_stamp w) e) then None
      else chain_from w (Some (ae_hash e)) (i + 1) es)"

definition chain_valid :: "world \<Rightarrow> audit_event list \<Rightarrow> (nat \<times> string) option \<Rightarrow> bool" where
  "chain_valid w events head \<longleftrightarrow>
     (case chain_from w None 1 events of
        None \<Rightarrow> False
      | Some previous \<Rightarrow>
          (case previous of None \<Rightarrow> head = None | Some h \<Rightarrow> head = Some (length events, h)))"

definition verify_audit_chain :: "world \<Rightarrow> string \<Rightarrow> control_state \<Rightarrow> bool" where
  "verify_audit_chain w tenant s = chain_valid w (audits_of s tenant) (map_of (cs_heads s) tenant)"

definition bump_epoch :: "string \<Rightarrow> control_state \<Rightarrow> control_state" where
  "bump_epoch t s = s\<lparr>cs_epochs := AList.update t (epoch_of s t + 1) (cs_epochs s)\<rparr>"

section \<open>Credentials and tenants\<close>

definition revoke_credential ::
  "world \<Rightarrow> draws \<Rightarrow> string \<Rightarrow> actor \<Rightarrow> string \<Rightarrow> control_state \<Rightarrow> unit result \<times> control_state" where
  "revoke_credential w d tenant a cred s =
     (case require a ADMIN tenant s of
        Inl e \<Rightarrow> (Inl e, s)
      | Inr _ \<Rightarrow>
          if cred = [] \<or> 256 < length cred then (Inl (ValueError ''invalid credential ID''), s)
          else (Inr (),
                audited w tenant ''credential.revoked'' (ac_subject a)
                  (JObj [(''credential_id'', JStr cred)]) d
                  (bump_epoch tenant (s\<lparr>cs_revoked := List.insert (tenant, cred) (cs_revoked s)\<rparr>))))"

definition suspend_tenant ::
  "world \<Rightarrow> draws \<Rightarrow> string \<Rightarrow> actor \<Rightarrow> bool \<Rightarrow> control_state \<Rightarrow> unit result \<times> control_state" where
  "suspend_tenant w d tenant a suspended s =
     (case require a ADMIN tenant s of
        Inl e \<Rightarrow> (Inl e, s)
      | Inr _ \<Rightarrow>
          (Inr (),
           audited w tenant ''tenant.suspension'' (ac_subject a) (JObj [(''suspended'', JBool suspended)]) d
             (bump_epoch tenant
               (s\<lparr>cs_suspended := (if suspended then List.insert tenant (cs_suspended s)
                                   else removeAll tenant (cs_suspended s))\<rparr>))))"

section \<open>The life of a policy\<close>

definition set_policies :: "string \<Rightarrow> policy_version list \<Rightarrow> control_state \<Rightarrow> control_state" where
  "set_policies t ps s = s\<lparr>cs_policies := AList.update t ps (cs_policies s)\<rparr>"

text \<open>\<open>_policy\<close>: the first version with the identifier; its object is changed in place.\<close>

definition find_policy :: "control_state \<Rightarrow> string \<Rightarrow> string \<Rightarrow> policy_version result" where
  "find_policy s t pid =
     (case find (\<lambda>p. pv_id p = pid) (policies_of s t) of
        None \<Rightarrow> Inl (KeyError ''policy not found'')
      | Some p \<Rightarrow> Inr p)"

fun update_first :: "('a \<Rightarrow> bool) \<Rightarrow> ('a \<Rightarrow> 'a) \<Rightarrow> 'a list \<Rightarrow> 'a list" where
  "update_first p f [] = []"
| "update_first p f (x # xs) = (if p x then f x # xs else x # update_first p f xs)"

definition create_draft ::
  "world \<Rightarrow> draws \<Rightarrow> string \<Rightarrow> actor \<Rightarrow> policy_draft \<Rightarrow> control_state
   \<Rightarrow> policy_version result \<times> control_state" where
  "create_draft w d tenant a draft s =
     (case require a ADMIN tenant s of
        Inl e \<Rightarrow> (Inl e, s)
      | Inr _ \<Rightarrow>
          (let versions = policies_of s tenant;
               p = \<lparr>pv_id = dw_id d, pv_tenant = tenant, pv_version = length versions + 1,
                    pv_draft = draft, pv_status = DRAFT, pv_created_by = ac_subject a,
                    pv_approved_by = None, pv_activated_at = None, pv_created_at = dw_now d\<rparr>
           in (Inr p,
               audited w tenant ''policy.drafted'' (ac_subject a) (JObj [(''policy_id'', JStr (pv_id p))]) d
                 (set_policies tenant (versions @ [p]) s))))"

definition submit_policy ::
  "world \<Rightarrow> draws \<Rightarrow> string \<Rightarrow> actor \<Rightarrow> string \<Rightarrow> control_state \<Rightarrow> policy_version result \<times> control_state" where
  "submit_policy w d tenant a pid s =
     (case require a ADMIN tenant s of
        Inl e \<Rightarrow> (Inl e, s)
      | Inr _ \<Rightarrow>
          (case find_policy s tenant pid of
             Inl e \<Rightarrow> (Inl e, s)
           | Inr p \<Rightarrow>
               if pv_created_by p \<noteq> ac_subject a
               then (Inl (AuthorizationError ''only the policy author may submit this draft''), s)
               else if pv_status p \<noteq> DRAFT then (Inl (ValueError ''only drafts may be submitted''), s)
               else
                 (Inr (p\<lparr>pv_status := PENDING_APPROVAL\<rparr>),
                  audited w tenant ''policy.submitted'' (ac_subject a) (JObj [(''policy_id'', JStr pid)]) d
                    (set_policies tenant
                      (update_first (\<lambda>p. pv_id p = pid) (pv_status_update (\<lambda>_. PENDING_APPROVAL))
                        (policies_of s tenant)) s))))"

definition retire :: "policy_version \<Rightarrow> policy_version" where
  "retire p = (if pv_status p = ACTIVE then p\<lparr>pv_status := ROLLED_BACK\<rparr> else p)"

definition activate :: "actor \<Rightarrow> instant \<Rightarrow> policy_version \<Rightarrow> policy_version" where
  "activate a now p =
     p\<lparr>pv_status := ACTIVE, pv_approved_by := Some (ac_subject a), pv_activated_at := Some now\<rparr>"

text \<open>What approval and rollback share: the active version is retired and the target activated.\<close>

definition install ::
  "world \<Rightarrow> draws \<Rightarrow> string \<Rightarrow> string \<Rightarrow> actor \<Rightarrow> string \<Rightarrow> control_state \<Rightarrow> control_state" where
  "install w d ty tenant a pid s =
     audited w tenant ty (ac_subject a) (JObj [(''policy_id'', JStr pid)]) d
       (bump_epoch tenant
         (set_policies tenant
           (update_first (\<lambda>p. pv_id p = pid) (activate a (dw_now d)) (map retire (policies_of s tenant))) s))"

definition approve_policy ::
  "world \<Rightarrow> draws \<Rightarrow> string \<Rightarrow> actor \<Rightarrow> string \<Rightarrow> control_state \<Rightarrow> policy_version result \<times> control_state" where
  "approve_policy w d tenant a pid s =
     (case require a APPROVER tenant s of
        Inl e \<Rightarrow> (Inl e, s)
      | Inr _ \<Rightarrow>
          (case find_policy s tenant pid of
             Inl e \<Rightarrow> (Inl e, s)
           | Inr p \<Rightarrow>
               if pv_status p \<noteq> PENDING_APPROVAL
               then (Inl (ValueError ''policy is not pending approval''), s)
               else if pv_created_by p = ac_subject a
               then (Inl (AuthorizationError ''policy author cannot approve their own change''), s)
               else (Inr (activate a (dw_now d) p), install w d ''policy.activated'' tenant a pid s)))"

definition rollback ::
  "world \<Rightarrow> draws \<Rightarrow> string \<Rightarrow> actor \<Rightarrow> string \<Rightarrow> control_state \<Rightarrow> policy_version result \<times> control_state" where
  "rollback w d tenant a pid s =
     (case require a APPROVER tenant s of
        Inl e \<Rightarrow> (Inl e, s)
      | Inr _ \<Rightarrow>
          (case find_policy s tenant pid of
             Inl e \<Rightarrow> (Inl e, s)
           | Inr p \<Rightarrow>
               if pv_status p \<noteq> ROLLED_BACK
               then (Inl (ValueError ''only a historical policy can be restored''), s)
               else (Inr (activate a (dw_now d) p), install w d ''policy.rolled_back'' tenant a pid s)))"

definition active_policy :: "control_state \<Rightarrow> string \<Rightarrow> policy_version option" where
  "active_policy s t = find (\<lambda>p. pv_status p = ACTIVE) (rev (policies_of s t))"

section \<open>Decisions\<close>

definition mk_decision ::
  "world \<Rightarrow> action_request \<Rightarrow> decision \<Rightarrow> string \<Rightarrow> policy_version option \<Rightarrow> json pydict option
   \<Rightarrow> decision_response" where
  "mk_decision w q dec why p rewrite =
     \<lparr>dr_decision = dec, dr_reason = why, dr_policy = map_option pv_id p,
      dr_version = map_option pv_version p, dr_audit = ''pending'', dr_review = None,
      dr_rewritten = rewrite, dr_from_cache = False, dr_digest = Some (action_digest w q)\<rparr>"

definition policy_decision :: "world \<Rightarrow> action_request \<Rightarrow> control_state \<Rightarrow> decision_response" where
  "policy_decision w q s =
     (case active_policy s (aq_tenant q) of
        None \<Rightarrow> mk_decision w q BLOCK ''no active policy'' None None
      | Some p \<Rightarrow>
          (case select_rule (pv_draft p) q of
             None \<Rightarrow> mk_decision w q (pd_default (pv_draft p)) ''policy default'' (Some p) None
           | Some r \<Rightarrow> mk_decision w q (pu_decision r) (pu_reason r) (Some p) (pu_rewrite r)))"

definition evaluated_payload :: "action_request \<Rightarrow> decision_response \<Rightarrow> json" where
  "evaluated_payload q r =
     JObj [(''action_id'', JStr (aq_id q)), (''kind'', JStr (kind_str (aq_kind q))),
           (''operation'', JStr (aq_operation q)), (''target'', opt_json JStr (aq_target q)),
           (''arguments'', redact (JObj (aq_arguments q))), (''provenance'', strings_json (aq_provenance q)),
           (''evidence'', JList (map (\<lambda>e. redact (evidence_json e)) (aq_evidence q))),
           (''decision'', JStr (decision_str (dr_decision r))), (''policy_id'', opt_json JStr (dr_policy r))]"

definition new_review ::
  "world \<Rightarrow> draws \<Rightarrow> actor \<Rightarrow> string \<Rightarrow> action_request \<Rightarrow> nat \<Rightarrow> review" where
  "new_review w d a key q epoch =
     \<lparr>rv_id = dw_id d, rv_tenant = aq_tenant q, rv_action = aq_id q, rv_audit = dw_audit d,
      rv_expires = dw_now d + seconds 86400, rv_status = ''pending'', rv_resolution = None,
      rv_resolved_by = None, rv_reason = None, rv_digest = action_digest w q,
      rv_agent = ac_subject a, rv_key = key, rv_task = aq_task q, rv_epoch = epoch, rv_nonce = None\<rparr>"

definition receipt_key_of :: "actor \<Rightarrow> string \<Rightarrow> action_request \<Rightarrow> receipt_key" where
  "receipt_key_of a key q = (aq_tenant q, ac_subject a, key, aq_key q)"

definition keep_receipt ::
  "world \<Rightarrow> draws \<Rightarrow> actor \<Rightarrow> string \<Rightarrow> action_request \<Rightarrow> nat \<Rightarrow> decision_response \<Rightarrow> control_state
   \<Rightarrow> control_state" where
  "keep_receipt w d a key q epoch r s =
     s\<lparr>cs_receipts := AList.update (receipt_key_of a key q)
         \<lparr>re_digest = action_digest w q, re_epoch = epoch, re_expires = dw_now d + seconds 300, re_result = r\<rparr>
         (cs_receipts s)\<rparr>"

text \<open>A key seen for the first time. A review at epoch 0 fails the contract's \<open>ge=1\<close>.\<close>

definition decide_action ::
  "world \<Rightarrow> draws \<Rightarrow> actor \<Rightarrow> string \<Rightarrow> action_request \<Rightarrow> control_state
   \<Rightarrow> decision_response result \<times> control_state" where
  "decide_action w d a key q s =
     (let epoch = epoch_of s (aq_tenant q); r0 = policy_decision w q s;
          s1 = audited w (aq_tenant q) ''action.evaluated'' (ac_subject a) (evaluated_payload q r0) d s;
          r1 = r0\<lparr>dr_audit := dw_audit d\<rparr>
      in if dr_decision r1 \<noteq> ESCALATE then (Inr r1, keep_receipt w d a key q epoch r1 s1)
         else if epoch = 0 then (Inl (ValueError ''policy_epoch must be at least 1''), s1)
         else
           (let rv = new_review w d a key q epoch; r2 = r1\<lparr>dr_review := Some (rv_id rv)\<rparr>;
                s2 = s1\<lparr>cs_reviews := AList.update (rv_id rv) rv (cs_reviews s1)\<rparr>;
                s3 = snd (append_audit w (aq_tenant q) ''review.created'' (ac_subject a)
                            (review_json (w_stamp w) rv) (dw_audit2 d) (dw_now d) s2)
            in (Inr r2, keep_receipt w d a key q epoch r2 s3)))"

definition evaluate ::
  "world \<Rightarrow> draws \<Rightarrow> actor \<Rightarrow> action_request \<Rightarrow> control_state \<Rightarrow> decision_response result \<times> control_state" where
  "evaluate w d a q s =
     (case require a AGENT (aq_tenant q) s of
        Inl e \<Rightarrow> (Inl e, s)
      | Inr _ \<Rightarrow>
          if (case ac_operations a of None \<Rightarrow> False | Some ops \<Rightarrow> aq_operation q \<notin> set ops)
          then (Inl (AuthorizationError ''operation is outside the service credential scope''), s)
          else (case ac_key a of
             None \<Rightarrow> (Inl (AuthorizationError ''agent actions require a scoped service credential''), s)
           | Some key \<Rightarrow>
               (case map_of (cs_receipts s) (receipt_key_of a key q) of
                  Some c \<Rightarrow>
                    if re_digest c \<noteq> action_digest w q
                    then (Inl (IdempotencyConflict ''idempotency key is bound to a different action''), s)
                    else if re_epoch c \<noteq> epoch_of s (aq_tenant q) \<or> re_expires c \<le> dw_now d
                    then (Inl (IdempotencyConflict ''decision receipt is stale; use a new idempotency key''), s)
                    else (Inr (re_result c), s)
                | None \<Rightarrow> decide_action w d a key q s)))"

section \<open>Reviews\<close>

definition put_review :: "review \<Rightarrow> control_state \<Rightarrow> control_state" where
  "put_review r s = s\<lparr>cs_reviews := AList.update (rv_id r) r (cs_reviews s)\<rparr>"

definition resolve_review ::
  "world \<Rightarrow> draws \<Rightarrow> string \<Rightarrow> actor \<Rightarrow> string \<Rightarrow> review_resolution \<Rightarrow> string \<Rightarrow> control_state
   \<Rightarrow> review result \<times> control_state" where
  "resolve_review w d tenant a rid resolution why s =
     (case require a REVIEWER tenant s of
        Inl e \<Rightarrow> (Inl e, s)
      | Inr _ \<Rightarrow>
          (case map_of (cs_reviews s) rid of
             None \<Rightarrow> (Inl (KeyError ''review not found''), s)
           | Some r \<Rightarrow>
               if rv_tenant r \<noteq> tenant then (Inl (KeyError ''review not found''), s)
               else if rv_status r \<noteq> ''pending''
               then (Inl (ValueError ''review has already been resolved''), s)
               else if Some (rv_epoch r) \<noteq> map_of (cs_epochs s) tenant
               then (Inl (ValueError ''review policy is stale''), s)
               else if rv_agent r = ac_subject a
               then (Inl (AuthorizationError ''action proposer cannot approve their own action''), s)
               else if rv_expires r < dw_now d
               then (Inl (ValueError ''review has expired''),
                     s\<lparr>cs_reviews := AList.update rid (r\<lparr>rv_status := ''expired''\<rparr>) (cs_reviews s)\<rparr>)
               else
                 (let r' = r\<lparr>rv_status := ''resolved'', rv_resolution := Some resolution,
                             rv_resolved_by := Some (ac_subject a), rv_reason := Some why\<rparr>
                  in (Inr r',
                      audited w tenant ''review.resolved'' (ac_subject a) (review_json (w_stamp w) r') d
                        (s\<lparr>cs_reviews := AList.update rid r' (cs_reviews s)\<rparr>)))))"

section \<open>Bundles and exports\<close>

definition permitted_rules :: "string list \<Rightarrow> policy_draft \<Rightarrow> policy_rule list" where
  "permitted_rules ops draft =
     filter (\<lambda>r. pu_decision r \<noteq> ALLOW
               \<or> (case rm_operation (pu_match r) of None \<Rightarrow> False | Some x \<Rightarrow> x \<in> set ops)) (pd_rules draft)"

definition scope_policy :: "string list option \<Rightarrow> policy_version \<Rightarrow> policy_version result" where
  "scope_policy ops p =
     (case ops of
        None \<Rightarrow> Inr p
      | Some ops \<Rightarrow>
          if permitted_rules ops (pv_draft p) = []
          then Inl (ValueError ''no policy within credential operation scope'')
          else Inr (p\<lparr>pv_draft := (pv_draft p)\<lparr>pd_rules := permitted_rules ops (pv_draft p)\<rparr>\<rparr>))"

definition bundle_of ::
  "world \<Rightarrow> string \<Rightarrow> string \<Rightarrow> actor \<Rightarrow> string \<Rightarrow> policy_version \<Rightarrow> instant \<Rightarrow> instant \<Rightarrow> nat
   \<Rightarrow> signed_bundle" where
  "bundle_of w key_id tenant a key p issued expires epoch =
     (let b = \<lparr>sb_tenant = tenant, sb_policy = p, sb_issued = issued, sb_expires = expires,
               sb_key_id = key_id, sb_signature = [], sb_audience = ac_subject a,
               sb_service_key = key, sb_epoch = epoch\<rparr>
      in b\<lparr>sb_signature := w_sign w ''traceguard-policy-v1'' (bundle_body (w_stamp w) b)\<rparr>)"

definition signed_bundle ::
  "world \<Rightarrow> string \<Rightarrow> instant \<Rightarrow> string \<Rightarrow> actor \<Rightarrow> int \<Rightarrow> control_state \<Rightarrow> signed_bundle result" where
  "signed_bundle w key_id now tenant a ttl s =
     (case require a AGENT tenant s of
        Inl e \<Rightarrow> Inl e
      | Inr _ \<Rightarrow>
          (case ac_key a of
             None \<Rightarrow> Inl (AuthorizationError ''bundle requires a scoped service credential'')
           | Some key \<Rightarrow>
               if \<not> (0 < ttl \<and> ttl \<le> seconds 300)
               then Inl (ValueError ''offline bundle TTL must be within five minutes'')
               else (case active_policy s tenant of
                  None \<Rightarrow> Inl (ValueError ''no active policy'')
                | Some p \<Rightarrow>
                    (case scope_policy (ac_operations a) p of
                       Inl e \<Rightarrow> Inl e
                     | Inr p' \<Rightarrow>
                         (case map_of (cs_epochs s) tenant of
                            None \<Rightarrow> Inl (KeyError tenant)
                          | Some epoch \<Rightarrow>
                              Inr (bundle_of w key_id tenant a key p' now (now + ttl) epoch))))))"

record audit_export =
  ax_tenant :: string
  ax_events :: "audit_event list"
  ax_count :: nat
  ax_head :: "string option"
  ax_signature :: string
  ax_key_id :: string

definition export_payload :: "world \<Rightarrow> string \<Rightarrow> audit_event list \<Rightarrow> json" where
  "export_payload w tenant events =
     JObj [(''tenant_id'', JStr tenant), (''events'', JList (map (event_json (w_stamp w)) events)),
           (''count'', nat_json (length events)),
           (''head_hash'', if events = [] then JNull else JStr (ae_hash (last events))),
           (''schema_version'', JStr ''audit-v2'')]"

definition export_audit ::
  "world \<Rightarrow> string \<Rightarrow> string \<Rightarrow> actor \<Rightarrow> control_state \<Rightarrow> audit_export result" where
  "export_audit w key_id tenant a s =
     (case require a AUDITOR tenant s of
        Inl e \<Rightarrow> Inl e
      | Inr _ \<Rightarrow>
          if \<not> verify_audit_chain w tenant s then Inl (ValueError ''audit integrity check failed'')
          else (let events = audits_of s tenant in
            Inr \<lparr>ax_tenant = tenant, ax_events = events, ax_count = length events,
                 ax_head = (if events = [] then None else Some (ae_hash (last events))),
                 ax_signature = w_sign w ''traceguard-audit-v2'' (export_payload w tenant events),
                 ax_key_id = key_id @ '':audit-v2''\<rparr>))"

lemmas control_ops [control_defs] =
  revoke_credential_def suspend_tenant_def create_draft_def submit_policy_def approve_policy_def
  rollback_def evaluate_def resolve_review_def

end
