(* ===== verification/Grants.thy ===== *)
theory Grants
  imports ControlPlane
begin

text \<open>
  \<open>control/execution.py\<close>: registration of strict tasks and the issue and validation of
  action-bound execution grants. An issued grant is kept as the JSON value its stored text
  denotes. The registrations and issued grants live in the control state, as in the source.
\<close>

section \<open>Amounts\<close>

text \<open>\<open>str(Decimal)\<close> of a finite decimal: plain for small exponents, scientific otherwise.\<close>

definition decimal_plain :: "string \<Rightarrow> int \<Rightarrow> string" where
  "decimal_plain ds dot =
     (if dot \<le> 0 then ''0.'' @ replicate (nat (- dot)) (CHR ''0'') @ ds
      else if int (length ds) \<le> dot then ds @ replicate (nat (dot - int (length ds))) (CHR ''0'')
      else take (nat dot) ds @ ''.'' @ drop (nat dot) ds)"

fun decimal_str :: "decimal \<Rightarrow> string" where
  "decimal_str (Dec m e) =
     (let ds = nat_str (nat \<bar>m\<bar>); left = e + int (length ds);
          dot = (if e \<le> 0 \<and> - 6 < left then left else 1) in
      (if m < 0 then ''-'' else '''') @ decimal_plain ds dot
      @ (if left = dot then ''''
         else ''E'' @ (if left < dot then ''-'' else ''+'') @ nat_str (nat \<bar>left - dot\<bar>)))"
| "decimal_str (DInf neg) = (if neg then ''-Infinity'' else ''Infinity'')"
| "decimal_str DNan = ''NaN''"

definition payment_operations :: "string list" where
  "payment_operations = [''send_money'', ''schedule_transaction'']"

definition payment_amount :: "action_request \<Rightarrow> decimal result" where
  "payment_amount q =
     (if aq_operation q \<notin> set payment_operations then Inr (Dec 0 0)
      else (let v = jget (aq_arguments q) ''amount'' in
        case v of
          JBool _ \<Rightarrow> Inl (ValueError ''invalid payment amount'')
        | _ \<Rightarrow>
            (case decimal_of_str (py_str v) of
               None \<Rightarrow> Inl (ValueError ''invalid payment amount'')
             | Some d \<Rightarrow> if \<not> dec_finite d \<or> dec_val d < 0 then Inl (ValueError ''invalid payment amount'')
                         else Inr d)))"

section \<open>Registration\<close>

definition register ::
  "world \<Rightarrow> draws \<Rightarrow> string \<Rightarrow> actor \<Rightarrow> task_registration \<Rightarrow> control_state \<Rightarrow> string result \<times> control_state" where
  "register w d tenant a reg s =
     (if \<not> valid_authority_fields (tg_authority reg) then (Inl (ValueError ''invalid task authority''), s)
      else if ta_delegated (tg_authority reg) \<noteq> []
      then (Inl (ValueError ''execution grants require an authenticated source adapter before delegation''), s)
      else case compile_authority (w_fingerprint w) (tg_authority reg) (tg_schemas reg) of
        Inl e \<Rightarrow> (Inl e, s)
      | Inr compiled \<Rightarrow>
          (case require a ADMIN tenant s of
             Inl e \<Rightarrow> (Inl e, s)
           | Inr _ \<Rightarrow>
               if map_of (cs_tasks s) (tenant, tg_task reg) \<noteq> None
               then (Inl (ValueError ''task registration is immutable; create a newly approved task''), s)
               else
                 (Inr (ca_digest compiled),
                  audited w tenant ''task.registered'' (ac_subject a)
                    (JObj [(''task_id'', JStr (tg_task reg)), (''authority_digest'', JStr (ca_digest compiled))]) d
                    (s\<lparr>cs_tasks := AList.update (tenant, tg_task reg)
                         \<lparr>rt_principal = tg_agent reg, rt_credential = tg_key reg, rt_compiled = compiled,
                          rt_adapter = tg_adapter reg, rt_domain = tg_domain reg\<rparr> (cs_tasks s)\<rparr>))))"

text \<open>The call an action stands for in its registered grant.\<close>

definition action_call :: "action_request \<Rightarrow> tool_call" where
  "action_call q =
     \<lparr>tc_task_id = aq_task q, tc_step_id = 0, tc_tool_name = aq_operation q,
      tc_arguments = aq_arguments q, tc_consumed = [], tc_resources = [], tc_call_id = aq_id q\<rparr>"

definition task_allows :: "world \<Rightarrow> registered_task \<Rightarrow> action_request \<Rightarrow> bool" where
  "task_allows w t q \<longleftrightarrow>
     so_decision (evaluate_authority (w_sha w) (w_schema_ok w) (rt_compiled t) [] (action_call q) [] []) = ALLOW"

definition task_of :: "world \<Rightarrow> actor \<Rightarrow> action_request \<Rightarrow> control_state \<Rightarrow> registered_task result" where
  "task_of w a q s =
     (case require a AGENT (aq_tenant q) s of
        Inl e \<Rightarrow> Inl e
      | Inr _ \<Rightarrow>
          if aq_kind q \<noteq> TOOL then Inl (AuthorizationError ''execution grants support typed tools only'')
          else (case map_of (cs_tasks s) (aq_tenant q, aq_task q) of
             None \<Rightarrow> Inl (AuthorizationError ''task is not registered for this principal and credential'')
           | Some t \<Rightarrow>
               if (ac_subject a, ac_key a) \<noteq> (rt_principal t, Some (rt_credential t))
               then Inl (AuthorizationError ''task is not registered for this principal and credential'')
               else if rt_domain t = []
               then Inl (AuthorizationError ''legacy task requires fenced execution-domain approval'')
               else if \<not> task_allows w t q
               then Inl (AuthorizationError ''action exceeds the registered strict task grant'')
               else Inr t))"

definition issued_for :: "string \<Rightarrow> string \<Rightarrow> json \<Rightarrow> bool" where
  "issued_for tenant task g \<longleftrightarrow>
     jget (json_sub g) ''tenant_id'' = JStr tenant \<and> jget (json_sub g) ''task_id'' = JStr task"

definition bind_legacy_domain ::
  "world \<Rightarrow> draws \<Rightarrow> string \<Rightarrow> actor \<Rightarrow> string \<Rightarrow> string \<Rightarrow> bool \<Rightarrow> control_state
   \<Rightarrow> unit result \<times> control_state" where
  "bind_legacy_domain w d tenant a task domain fenced s =
     (if \<not> fenced \<or> domain = [] \<or> 128 < length domain
      then (Inl (ValueError ''fenced workers and an approved migrated ledger are required''), s)
      else case require a ADMIN tenant s of
        Inl e \<Rightarrow> (Inl e, s)
      | Inr _ \<Rightarrow>
          (case map_of (cs_tasks s) (tenant, task) of
             None \<Rightarrow> (Inl (KeyError task), s)
           | Some t \<Rightarrow>
               if rt_domain t \<noteq> []
               then (Inl (ValueError ''existing task execution domains are immutable''), s)
               else
                 (Inr (),
                  audited w tenant ''task.domain-approved'' (ac_subject a)
                    (JObj [(''task_id'', JStr task), (''execution_domain'', JStr domain)]) d
                    (s\<lparr>cs_tasks := AList.update (tenant, task) (t\<lparr>rt_domain := domain\<rparr>) (cs_tasks s),
                       cs_issued := filter (\<lambda>(_, g). \<not> issued_for tenant task g) (cs_issued s)\<rparr>))))"

section \<open>Issue\<close>

definition execution_key_id :: string where
  "execution_key_id = ''execution-ed25519-v1''"

text \<open>A review that continues an escalated action: resolved ALLOW, unused and bound to it.\<close>

definition review_permits ::
  "world \<Rightarrow> instant \<Rightarrow> actor \<Rightarrow> action_request \<Rightarrow> decision_response \<Rightarrow> review \<Rightarrow> control_state \<Rightarrow> bool" where
  "review_permits w now a q dec r s \<longleftrightarrow>
     Some (rv_id r) = dr_review dec \<and> rv_status r = ''resolved'' \<and> rv_resolution r = Some RES_ALLOW \<and>
     rv_nonce r = None \<and> now < rv_expires r \<and> rv_digest r = action_digest w q \<and>
     Some (rv_epoch r) = map_of (cs_epochs s) (aq_tenant q) \<and>
     (rv_agent r, Some (rv_key r), rv_task r) = (ac_subject a, ac_key a, aq_task q)"

text \<open>None where no review is needed, the review where one permits, an error otherwise.\<close>

definition continuation ::
  "world \<Rightarrow> instant \<Rightarrow> actor \<Rightarrow> action_request \<Rightarrow> string option \<Rightarrow> decision_response \<Rightarrow> control_state
   \<Rightarrow> review option result" where
  "continuation w now a q rid dec s =
     (if dr_decision dec = ESCALATE then
        (case map_of (cs_reviews s) (case rid of None \<Rightarrow> [] | Some x \<Rightarrow> x) of
           None \<Rightarrow> Inl (AuthorizationError ''action requires a current action-bound review'')
         | Some r \<Rightarrow> if review_permits w now a q dec r s then Inr (Some r)
                     else Inl (AuthorizationError ''action requires a current action-bound review''))
      else if dr_decision dec \<noteq> ALLOW
      then Inl (AuthorizationError ''policy does not authorize grant issuance'')
      else Inr None)"

definition sign_grant :: "world \<Rightarrow> execution_grant \<Rightarrow> execution_grant" where
  "sign_grant w g = g\<lparr>eg_signature := w_sign w ''traceguard-execution-v1'' (grant_body (w_stamp w) g)\<rparr>"

definition grant_for ::
  "world \<Rightarrow> draws \<Rightarrow> actor \<Rightarrow> action_request \<Rightarrow> string \<Rightarrow> registered_task \<Rightarrow> control_state
   \<Rightarrow> execution_grant result" where
  "grant_for w d a q audience t s =
     (case active_policy s (aq_tenant q) of
        None \<Rightarrow> Inl (AuthorizationError ''active policy is unavailable'')
      | Some p \<Rightarrow>
          (case map_of (cs_epochs s) (aq_tenant q) of
             None \<Rightarrow> Inl (KeyError (aq_tenant q))
           | Some epoch \<Rightarrow>
               (case payment_amount q of
                  Inl e \<Rightarrow> Inl e
                | Inr amount \<Rightarrow>
                    (let scope = ca_scope (rt_compiled t) in
                     Inr (sign_grant w
                       \<lparr>eg_nonce = dw_id d, eg_tenant = aq_tenant q, eg_task = aq_task q,
                        eg_agent = ac_subject a,
                        eg_key = (case ac_key a of None \<Rightarrow> [] | Some k \<Rightarrow> k), eg_audience = audience,
                        eg_domain = rt_domain t, eg_digest = action_digest w q,
                        eg_authority = ca_digest (rt_compiled t), eg_adapter = rt_adapter t,
                        eg_policy = pv_id p, eg_epoch = epoch, eg_issued = dw_now d,
                        eg_expires = dw_now d + seconds 60,
                        eg_repeatable = (aq_operation q \<in> set (ta_repeatable scope)),
                        eg_amount = decimal_str amount,
                        eg_budget = map_option decimal_str (ta_max_amount scope),
                        eg_key_id = execution_key_id, eg_signature = []\<rparr>)))))"

definition use_review :: "string \<Rightarrow> review option \<Rightarrow> control_state \<Rightarrow> control_state" where
  "use_review nonce r s = (case r of None \<Rightarrow> s | Some r \<Rightarrow> put_review (r\<lparr>rv_nonce := Some nonce\<rparr>) s)"

text \<open>\<open>d\<close> serves the evaluation, \<open>d'\<close> the grant and its audit event.\<close>

definition issue ::
  "world \<Rightarrow> draws \<Rightarrow> draws \<Rightarrow> actor \<Rightarrow> action_request \<Rightarrow> string \<Rightarrow> string option \<Rightarrow> control_state
   \<Rightarrow> execution_grant result \<times> control_state" where
  "issue w d d' a q audience rid s =
     (case task_of w a q s of
        Inl e \<Rightarrow> (Inl e, s)
      | Inr t \<Rightarrow>
          andthen (evaluate w d a q s) (\<lambda>dec s1.
            case continuation w (dw_now d') a q rid dec s1 of
              Inl e \<Rightarrow> (Inl e, s1)
            | Inr r \<Rightarrow>
                (case grant_for w d' a q audience t s1 of
                   Inl e \<Rightarrow> (Inl e, s1)
                 | Inr g \<Rightarrow>
                     (Inr g,
                      audited w (aq_tenant q) ''execution.granted'' (ac_subject a)
                        (JObj [(''nonce'', JStr (eg_nonce g)), (''action_digest'', JStr (eg_digest g)),
                               (''review_id'', opt_json JStr rid)]) d'
                        (use_review (eg_nonce g) r
                          (s1\<lparr>cs_issued := AList.update (eg_nonce g) (grant_json (w_stamp w) g)
                                            (cs_issued s1)\<rparr>))))))"

section \<open>Validation\<close>

definition grant_current ::
  "world \<Rightarrow> instant \<Rightarrow> actor \<Rightarrow> action_request \<Rightarrow> execution_grant \<Rightarrow> control_state \<Rightarrow> bool" where
  "grant_current w now x q g s \<longleftrightarrow>
     eg_audience g = ac_subject x \<and> eg_key_id g = execution_key_id \<and>
     map_of (cs_issued s) (eg_nonce g) = Some (grant_json (w_stamp w) g) \<and>
     w_verify w ''traceguard-execution-v1'' (grant_body (w_stamp w) g) (eg_signature g) \<and>
     now < eg_expires g \<and> eg_digest g = action_digest w q \<and>
     Some (eg_epoch g) = map_of (cs_epochs s) (aq_tenant q)"

definition grant_principal :: "execution_grant \<Rightarrow> actor" where
  "grant_principal g =
     \<lparr>ac_subject = eg_agent g, ac_roles = [AGENT], ac_key = Some (eg_key g),
      ac_tenants = [eg_tenant g], ac_operations = None\<rparr>"

definition validate ::
  "world \<Rightarrow> instant \<Rightarrow> actor \<Rightarrow> action_request \<Rightarrow> execution_grant \<Rightarrow> control_state \<Rightarrow> unit result" where
  "validate w now x q g s =
     (case require x EXECUTOR (aq_tenant q) s of
        Inl e \<Rightarrow> Inl e
      | Inr _ \<Rightarrow>
          if AGENT \<in> set (ac_roles x) \<or> blank (ac_key x)
          then Inl (AuthorizationError ''executor requires a distinct service identity'')
          else if \<not> grant_current w now x q g s
          then Inl (AuthorizationError ''execution grant is invalid, expired or revoked'')
          else (case task_of w (grant_principal g) q s of
             Inl e \<Rightarrow> Inl e
           | Inr t \<Rightarrow>
               if rt_domain t \<noteq> eg_domain g
               then Inl (AuthorizationError ''execution domain differs from approved task'')
               else if ca_digest (rt_compiled t) \<noteq> eg_authority g
               then Inl (AuthorizationError ''task authority changed'')
               else Inr ()))"

end
