(* ===== verification/JsonRead.thy ===== *)
theory JsonRead
  imports Types "HOL-Library.Monad_Syntax"
begin

text \<open>
  Reading typed values out of JSON: what pydantic's validators and the indexing of a decoded
  document do with a value of the expected type, and None where they raise.
\<close>

section \<open>Readers\<close>

fun get_str :: "json \<Rightarrow> string option" where
  "get_str (JStr s) = Some s"
| "get_str _ = None"

fun get_int :: "json \<Rightarrow> int option" where
  "get_int (JInt n) = Some n"
| "get_int _ = None"

fun get_nat :: "json \<Rightarrow> nat option" where
  "get_nat (JInt n) = (if 0 \<le> n then Some (nat n) else None)"
| "get_nat _ = None"

fun get_bool :: "json \<Rightarrow> bool option" where
  "get_bool (JBool b) = Some b"
| "get_bool _ = None"

fun get_obj :: "json \<Rightarrow> json pydict option" where
  "get_obj (JObj d) = Some d"
| "get_obj _ = None"

definition get_opt :: "(json \<Rightarrow> 'a option) \<Rightarrow> json \<Rightarrow> 'a option option" where
  "get_opt f v = (if v = JNull then Some None else map_option Some (f v))"

fun traverse :: "('a \<Rightarrow> 'b option) \<Rightarrow> 'a list \<Rightarrow> 'b list option" where
  "traverse f [] = Some []"
| "traverse f (x # xs) = do { y \<leftarrow> f x; ys \<leftarrow> traverse f xs; Some (y # ys) }"

fun get_list :: "(json \<Rightarrow> 'a option) \<Rightarrow> json \<Rightarrow> 'a list option" where
  "get_list f (JList xs) = traverse f xs"
| "get_list f _ = None"

definition get_entry :: "(json \<Rightarrow> 'a option) \<Rightarrow> string \<times> json \<Rightarrow> (string \<times> 'a) option" where
  "get_entry f e = map_option (Pair (fst e)) (f (snd e))"

fun get_dict :: "(json \<Rightarrow> 'a option) \<Rightarrow> json \<Rightarrow> 'a pydict option" where
  "get_dict f (JObj d) = traverse (get_entry f) d"
| "get_dict f _ = None"

definition with_key :: "json pydict \<Rightarrow> string \<Rightarrow> (json \<Rightarrow> 'a option) \<Rightarrow> 'a option" where
  "with_key d k f = (case map_of d k of None \<Rightarrow> None | Some v \<Rightarrow> f v)"

definition get_enum :: "('a \<Rightarrow> string) \<Rightarrow> 'a list \<Rightarrow> json \<Rightarrow> 'a option" where
  "get_enum f xs v = (case get_str v of None \<Rightarrow> None | Some s \<Rightarrow> find (\<lambda>x. f x = s) xs)"

definition get_decision :: "json \<Rightarrow> decision option" where
  "get_decision = get_enum decision_str [ALLOW, BLOCK, ESCALATE, REWRITE]"

end
