(* ===== verification/Storage.thy ===== *)
theory Storage
  imports Grants JsonRead
begin

text \<open>
  \<open>control/storage.py\<close>: the control plane over one signed snapshot in SQLite. The row holds
  the JSON value of its body (key order carries no meaning: every dictionary is read by
  key) and its signature. The pydantic validators read back exactly what \<open>_dump\<close> writes.
  Dictionaries the snapshot shares with the live state (heads and epochs) are not restored
  by a rollback, as in the source; the next transaction reads the row again.
\<close>

section \<open>Writing a snapshot\<close>

text \<open>pydantic's text of a task authority and its schemas, and reading it back.\<close>

record texts =
  tx_scope :: "task_authority \<Rightarrow> string"
  tx_scope_of :: "string \<Rightarrow> task_authority option"
  tx_schemas :: "json pydict pydict \<Rightarrow> string"
  tx_schemas_of :: "string \<Rightarrow> json pydict pydict option"

definition dict_json :: "('a \<Rightarrow> json) \<Rightarrow> 'a pydict \<Rightarrow> json" where
  "dict_json f d = JObj (map (\<lambda>(k, v). (k, f v)) d)"

definition list_json :: "('a \<Rightarrow> json) \<Rightarrow> 'a list \<Rightarrow> json" where
  "list_json f xs = JList (map f xs)"

definition decision_json :: "decision_response \<Rightarrow> json" where
  "decision_json r =
     JObj [(''decision'', JStr (decision_str (dr_decision r))), (''reason'', JStr (dr_reason r)),
           (''policy_id'', opt_json JStr (dr_policy r)), (''policy_version'', opt_json nat_json (dr_version r)),
           (''audit_id'', JStr (dr_audit r)), (''review_id'', opt_json JStr (dr_review r)),
           (''rewritten_arguments'', opt_json JObj (dr_rewritten r)),
           (''from_cache'', JBool (dr_from_cache r)), (''action_digest'', opt_json JStr (dr_digest r))]"

definition receipt_json :: "(instant \<Rightarrow> string) \<Rightarrow> receipt_key \<times> receipt_entry \<Rightarrow> json" where
  "receipt_json stamp e =
     (case e of ((a, b, c, d), r) \<Rightarrow>
        JList [strings_json [a, b, c, d], JStr (re_digest r), nat_json (re_epoch r),
               JStr (stamp (re_expires r)), decision_json (re_result r)])"

definition compiled_json :: "texts \<Rightarrow> compiled_authority \<Rightarrow> json" where
  "compiled_json tx c =
     JObj [(''scope_json'', JStr (tx_scope tx (ca_scope c))), (''schemas_json'', JStr (tx_schemas tx (ca_schemas c))),
           (''digest'', JStr (ca_digest c))]"

definition task_json :: "texts \<Rightarrow> (string \<times> string) \<times> registered_task \<Rightarrow> json" where
  "task_json tx e =
     (case e of ((a, b), t) \<Rightarrow>
        JList [strings_json [a, b],
               JObj [(''principal'', JStr (rt_principal t)), (''credential'', JStr (rt_credential t)),
                     (''compiled'', compiled_json tx (rt_compiled t)), (''adapter_digest'', JStr (rt_adapter t)),
                     (''execution_domain'', JStr (rt_domain t))]])"

definition head_json :: "nat \<times> string \<Rightarrow> json" where
  "head_json h = JList [nat_json (fst h), JStr (snd h)]"

definition pair_json :: "string \<times> string \<Rightarrow> json" where
  "pair_json p = strings_json [fst p, snd p]"

text \<open>The revoked credentials and suspended tenants are written sorted.\<close>

definition snapshot_fields ::
  "(instant \<Rightarrow> string) \<Rightarrow> texts \<Rightarrow> string \<Rightarrow> nat \<Rightarrow> control_state \<Rightarrow> json pydict" where
  "snapshot_fields stamp tx key_id revision s =
     [(''schema'', JInt 1), (''key_id'', JStr key_id), (''revision'', nat_json revision),
      (''policies'', dict_json (list_json (policy_json stamp)) (cs_policies s)),
      (''audits'', dict_json (list_json (event_json stamp)) (cs_audits s)),
      (''heads'', dict_json head_json (cs_heads s)),
      (''epochs'', dict_json nat_json (cs_epochs s)),
      (''reviews'', dict_json (review_json stamp) (cs_reviews s)),
      (''receipts'', list_json (receipt_json stamp) (cs_receipts s)),
      (''tasks'', list_json (task_json tx) (cs_tasks s)),
      (''issued'', JObj (cs_issued s)),
      (''revoked'', list_json pair_json (sort (cs_revoked s))),
      (''suspended'', strings_json (sort (cs_suspended s)))]"

definition dump_state ::
  "(instant \<Rightarrow> string) \<Rightarrow> texts \<Rightarrow> string \<Rightarrow> nat \<Rightarrow> control_state \<Rightarrow> json" where
  "dump_state stamp tx key_id revision s = JObj (snapshot_fields stamp tx key_id revision s)"

section \<open>Reading a snapshot\<close>

definition get_kind :: "json \<Rightarrow> action_kind option" where
  "get_kind = get_enum kind_str
     [MODEL_REQUEST, MODEL_RESPONSE, TOOL, MEMORY_READ, MEMORY_WRITE, FILESYSTEM, KIND_EXECUTOR, HTTP]"

definition get_status :: "json \<Rightarrow> policy_status option" where
  "get_status = get_enum status_str [DRAFT, PENDING_APPROVAL, ACTIVE, ROLLED_BACK]"

definition get_resolution :: "json \<Rightarrow> review_resolution option" where
  "get_resolution = get_enum resolution_str [RES_ALLOW, RES_DENY]"

definition get_time :: "(string \<Rightarrow> instant) \<Rightarrow> json \<Rightarrow> instant option" where
  "get_time parse v = map_option parse (get_str v)"

definition load_match :: "json \<Rightarrow> rule_match option" where
  "load_match j = do {
     d \<leftarrow> get_obj j;
     a \<leftarrow> with_key d ''kind'' (get_opt get_kind);
     b \<leftarrow> with_key d ''operation'' (get_opt get_str);
     c \<leftarrow> with_key d ''target_prefix'' (get_opt get_str);
     e \<leftarrow> with_key d ''argument_equals'' get_obj;
     f \<leftarrow> with_key d ''contains_untrusted_instructions'' (get_opt get_bool);
     Some \<lparr>rm_kind = a, rm_operation = b, rm_prefix = c, rm_arguments = e, rm_instructions = f\<rparr> }"

definition load_rule :: "json \<Rightarrow> policy_rule option" where
  "load_rule j = do {
     d \<leftarrow> get_obj j;
     a \<leftarrow> with_key d ''rule_id'' get_str;
     b \<leftarrow> with_key d ''name'' get_str;
     c \<leftarrow> with_key d ''priority'' get_int;
     e \<leftarrow> with_key d ''match'' load_match;
     f \<leftarrow> with_key d ''decision'' get_decision;
     g \<leftarrow> with_key d ''reason'' get_str;
     h \<leftarrow> with_key d ''rewrite'' (get_opt get_obj);
     i \<leftarrow> with_key d ''cache_eligible'' get_bool;
     Some \<lparr>pu_id = a, pu_name = b, pu_priority = c, pu_match = e, pu_decision = f, pu_reason = g,
           pu_rewrite = h, pu_cache = i\<rparr> }"

definition load_draft :: "json \<Rightarrow> policy_draft option" where
  "load_draft j = do {
     d \<leftarrow> get_obj j;
     a \<leftarrow> with_key d ''name'' get_str;
     b \<leftarrow> with_key d ''rules'' (get_list load_rule);
     c \<leftarrow> with_key d ''default_decision'' get_decision;
     Some \<lparr>pd_name = a, pd_rules = b, pd_default = c\<rparr> }"

definition load_policy :: "(string \<Rightarrow> instant) \<Rightarrow> json \<Rightarrow> policy_version option" where
  "load_policy parse j = do {
     d \<leftarrow> get_obj j;
     a \<leftarrow> with_key d ''policy_id'' get_str;
     b \<leftarrow> with_key d ''tenant_id'' get_str;
     c \<leftarrow> with_key d ''version'' get_nat;
     e \<leftarrow> with_key d ''draft'' load_draft;
     f \<leftarrow> with_key d ''status'' get_status;
     g \<leftarrow> with_key d ''created_by'' get_str;
     h \<leftarrow> with_key d ''approved_by'' (get_opt get_str);
     i \<leftarrow> with_key d ''activated_at'' (get_opt (get_time parse));
     k \<leftarrow> with_key d ''created_at'' (get_time parse);
     Some \<lparr>pv_id = a, pv_tenant = b, pv_version = c, pv_draft = e, pv_status = f, pv_created_by = g,
           pv_approved_by = h, pv_activated_at = i, pv_created_at = k\<rparr> }"

definition load_event :: "(string \<Rightarrow> instant) \<Rightarrow> json \<Rightarrow> audit_event option" where
  "load_event parse j = do {
     d \<leftarrow> get_obj j;
     a \<leftarrow> with_key d ''audit_id'' get_str;
     b \<leftarrow> with_key d ''tenant_id'' get_str;
     c \<leftarrow> with_key d ''event_type'' get_str;
     e \<leftarrow> with_key d ''actor'' get_str;
     f \<leftarrow> with_key d ''payload'' Some;
     g \<leftarrow> with_key d ''previous_hash'' (get_opt get_str);
     h \<leftarrow> with_key d ''event_hash'' get_str;
     i \<leftarrow> with_key d ''created_at'' (get_time parse);
     k \<leftarrow> with_key d ''sequence'' get_nat;
     Some \<lparr>ae_id = a, ae_tenant = b, ae_type = c, ae_actor = e, ae_payload = f, ae_previous = g,
           ae_hash = h, ae_created = i, ae_sequence = k\<rparr> }"

definition load_review :: "(string \<Rightarrow> instant) \<Rightarrow> json \<Rightarrow> review option" where
  "load_review parse j = do {
     d \<leftarrow> get_obj j;
     a \<leftarrow> with_key d ''review_id'' get_str;
     b \<leftarrow> with_key d ''tenant_id'' get_str;
     c \<leftarrow> with_key d ''action_id'' get_str;
     e \<leftarrow> with_key d ''audit_id'' get_str;
     f \<leftarrow> with_key d ''expires_at'' (get_time parse);
     g \<leftarrow> with_key d ''status'' get_str;
     h \<leftarrow> with_key d ''resolution'' (get_opt get_resolution);
     i \<leftarrow> with_key d ''resolved_by'' (get_opt get_str);
     k \<leftarrow> with_key d ''reason'' (get_opt get_str);
     l \<leftarrow> with_key d ''action_digest'' get_str;
     m \<leftarrow> with_key d ''agent_subject'' get_str;
     n \<leftarrow> with_key d ''service_key_id'' get_str;
     p \<leftarrow> with_key d ''task_id'' get_str;
     q \<leftarrow> with_key d ''policy_epoch'' get_nat;
     r \<leftarrow> with_key d ''grant_nonce'' (get_opt get_str);
     Some \<lparr>rv_id = a, rv_tenant = b, rv_action = c, rv_audit = e, rv_expires = f, rv_status = g,
           rv_resolution = h, rv_resolved_by = i, rv_reason = k, rv_digest = l, rv_agent = m, rv_key = n,
           rv_task = p, rv_epoch = q, rv_nonce = r\<rparr> }"

definition load_decision :: "json \<Rightarrow> decision_response option" where
  "load_decision j = do {
     d \<leftarrow> get_obj j;
     a \<leftarrow> with_key d ''decision'' get_decision;
     b \<leftarrow> with_key d ''reason'' get_str;
     c \<leftarrow> with_key d ''policy_id'' (get_opt get_str);
     e \<leftarrow> with_key d ''policy_version'' (get_opt get_nat);
     f \<leftarrow> with_key d ''audit_id'' get_str;
     g \<leftarrow> with_key d ''review_id'' (get_opt get_str);
     h \<leftarrow> with_key d ''rewritten_arguments'' (get_opt get_obj);
     i \<leftarrow> with_key d ''from_cache'' get_bool;
     k \<leftarrow> with_key d ''action_digest'' (get_opt get_str);
     Some \<lparr>dr_decision = a, dr_reason = b, dr_policy = c, dr_version = e, dr_audit = f, dr_review = g,
           dr_rewritten = h, dr_from_cache = i, dr_digest = k\<rparr> }"

definition load_receipt :: "(string \<Rightarrow> instant) \<Rightarrow> json \<Rightarrow> (receipt_key \<times> receipt_entry) option" where
  "load_receipt parse j =
     (case j of
        JList [JList [JStr a, JStr b, JStr c, JStr d], digest, epoch, expires, result] \<Rightarrow> do {
          x \<leftarrow> get_str digest;
          y \<leftarrow> get_nat epoch;
          z \<leftarrow> get_time parse expires;
          r \<leftarrow> load_decision result;
          Some ((a, b, c, d), \<lparr>re_digest = x, re_epoch = y, re_expires = z, re_result = r\<rparr>) }
      | _ \<Rightarrow> None)"

definition load_compiled :: "texts \<Rightarrow> json \<Rightarrow> compiled_authority option" where
  "load_compiled tx j = do {
     d \<leftarrow> get_obj j;
     a \<leftarrow> with_key d ''scope_json'' get_str;
     b \<leftarrow> with_key d ''schemas_json'' get_str;
     c \<leftarrow> with_key d ''digest'' get_str;
     x \<leftarrow> tx_scope_of tx a;
     y \<leftarrow> tx_schemas_of tx b;
     Some \<lparr>ca_scope = x, ca_schemas = y, ca_digest = c\<rparr> }"

text \<open>A task written before execution domains existed is read with none.\<close>

definition load_task :: "texts \<Rightarrow> json \<Rightarrow> ((string \<times> string) \<times> registered_task) option" where
  "load_task tx j =
     (case j of
        JList [JList [JStr a, JStr b], JObj d] \<Rightarrow> do {
          p \<leftarrow> with_key d ''principal'' get_str;
          c \<leftarrow> with_key d ''credential'' get_str;
          x \<leftarrow> with_key d ''compiled'' (load_compiled tx);
          y \<leftarrow> with_key d ''adapter_digest'' get_str;
          z \<leftarrow> get_str (dict_get d ''execution_domain'' (JStr []));
          Some ((a, b), \<lparr>rt_principal = p, rt_credential = c, rt_compiled = x, rt_adapter = y, rt_domain = z\<rparr>) }
      | _ \<Rightarrow> None)"

fun load_head :: "json \<Rightarrow> (nat \<times> string) option" where
  "load_head (JList [n, h]) = do { x \<leftarrow> get_nat n; y \<leftarrow> get_str h; Some (x, y) }"
| "load_head _ = None"

fun load_pair :: "json \<Rightarrow> (string \<times> string) option" where
  "load_pair (JList [JStr a, JStr b]) = Some (a, b)"
| "load_pair _ = None"

definition load_state ::
  "(string \<Rightarrow> instant) \<Rightarrow> texts \<Rightarrow> string \<Rightarrow> json \<Rightarrow> (nat \<times> control_state) option" where
  "load_state parse tx key_id j = do {
     d \<leftarrow> get_obj j;
     if map_of d ''schema'' \<noteq> Some (JInt 1) \<or> map_of d ''key_id'' \<noteq> Some (JStr key_id) then None else do {
     n \<leftarrow> with_key d ''revision'' get_nat;
     policies \<leftarrow> with_key d ''policies'' (get_dict (get_list (load_policy parse)));
     audits \<leftarrow> with_key d ''audits'' (get_dict (get_list (load_event parse)));
     heads \<leftarrow> with_key d ''heads'' (get_dict load_head);
     epochs \<leftarrow> with_key d ''epochs'' (get_dict get_nat);
     reviews \<leftarrow> with_key d ''reviews'' (get_dict (load_review parse));
     receipts \<leftarrow> with_key d ''receipts'' (get_list (load_receipt parse));
     tasks \<leftarrow> with_key d ''tasks'' (get_list (load_task tx));
     issued \<leftarrow> with_key d ''issued'' get_obj;
     revoked \<leftarrow> with_key d ''revoked'' (get_list load_pair);
     suspended \<leftarrow> with_key d ''suspended'' (get_list get_str);
     Some (n, \<lparr>cs_policies = policies, cs_audits = audits, cs_heads = heads, cs_reviews = reviews,
               cs_receipts = receipts, cs_epochs = epochs, cs_tasks = tasks, cs_issued = issued,
               cs_revoked = revoked, cs_suspended = suspended\<rparr>) } }"

section \<open>The round trip\<close>

named_theorems rounds "what a reader makes of what its writer wrote"

lemma with_key_simps [simp]:
  "with_key ((k, v) # d) k' f = (if k' = k then f v else with_key d k' f)"
  by (simp add: with_key_def)

lemma traverse_map: "(\<And>x. x \<in> set xs \<Longrightarrow> f (g x) = Some (h x)) \<Longrightarrow> traverse f (map g xs) = Some (map h xs)"
  by (induction xs) auto

lemma traverse_round: "(\<And>x. f (g x) = Some x) \<Longrightarrow> traverse f (map g xs) = Some xs"
  by (induction xs) auto

lemma get_list_round: "(\<And>x. f (g x) = Some x) \<Longrightarrow> get_list f (list_json g xs) = Some xs"
  by (simp add: list_json_def traverse_round)

lemma get_dict_round: "(\<And>x. f (g x) = Some x) \<Longrightarrow> get_dict f (dict_json g d) = Some d"
  by (simp add: dict_json_def) (rule traverse_map [of d "get_entry f" _ id, simplified];
      simp add: get_entry_def split_beta)

lemma get_opt_round:
  "(\<And>x. f (g x) = Some x) \<Longrightarrow> (\<And>x. g x \<noteq> JNull) \<Longrightarrow> get_opt f (opt_json g v) = Some v"
  by (cases v) (simp_all add: get_opt_def)

lemma get_basic [rounds]:
  "get_nat (nat_json n) = Some n" "get_str (JStr s) = Some s" "get_obj (JObj d) = Some d"
  "get_int (JInt i) = Some i" "get_bool (JBool b) = Some b"
  by (simp_all add: nat_json_def)

lemma get_decision_round [rounds]: "get_decision (JStr (decision_str d)) = Some d"
  and get_kind_round [rounds]: "get_kind (JStr (kind_str k)) = Some k"
  and get_status_round [rounds]: "get_status (JStr (status_str st)) = Some st"
  and get_resolution_round [rounds]: "get_resolution (JStr (resolution_str r)) = Some r"
proof -
  show "get_decision (JStr (decision_str d)) = Some d" by (cases d) (simp_all add: get_decision_def get_enum_def)
  show "get_kind (JStr (kind_str k)) = Some k" by (cases k) (simp_all add: get_kind_def get_enum_def)
  show "get_status (JStr (status_str st)) = Some st" by (cases st) (simp_all add: get_status_def get_enum_def)
  show "get_resolution (JStr (resolution_str r)) = Some r"
    by (cases r) (simp_all add: get_resolution_def get_enum_def)
qed

lemma opt_rounds [rounds]:
  "get_opt get_str (opt_json JStr a) = Some a" "get_opt get_nat (opt_json nat_json b) = Some b"
  "get_opt get_obj (opt_json JObj c) = Some c" "get_opt get_bool (opt_json JBool d) = Some d"
  "get_opt get_kind (opt_json (\<lambda>k. JStr (kind_str k)) e) = Some e"
  "get_opt get_resolution (opt_json (\<lambda>r. JStr (resolution_str r)) f) = Some f"
  by (rule get_opt_round; simp add: rounds nat_json_def)+

lemma match_round [rounds]: "load_match (match_json m) = Some m"
  by (simp add: load_match_def match_json_def rounds)

lemma rule_round [rounds]: "load_rule (rule_json r) = Some r"
  by (simp add: load_rule_def rule_json_def rounds)

lemma draft_round [rounds]: "load_draft (draft_json d) = Some d"
  by (simp add: load_draft_def draft_json_def rounds traverse_round)

lemma decision_round [rounds]: "load_decision (decision_json r) = Some r"
  by (simp add: load_decision_def decision_json_def rounds)

lemma head_round [rounds]: "load_head (head_json h) = Some h"
  by (simp add: head_json_def rounds)

lemma pair_round [rounds]: "load_pair (pair_json p) = Some p"
  by (simp add: pair_json_def strings_json_def)

text \<open>Reading an instant back from its text gives the instant.\<close>

lemma time_round: "parse (stamp t) = t \<Longrightarrow> get_time parse (JStr (stamp t)) = Some t"
  by (simp add: get_time_def)

lemma policy_round:
  assumes "\<And>t. parse (stamp t) = t"
  shows "load_policy parse (policy_json stamp p) = Some p"
proof -
  have "get_opt (get_time parse) (opt_json (\<lambda>t. JStr (stamp t)) a) = Some a" for a
    by (rule get_opt_round) (simp_all add: time_round assms)
  then show ?thesis by (simp add: load_policy_def policy_json_def rounds time_round assms)
qed

lemma event_round: "(\<And>t. parse (stamp t) = t) \<Longrightarrow> load_event parse (event_json stamp e) = Some e"
  by (simp add: load_event_def event_json_def event_fields_def rounds time_round)

lemma review_round: "(\<And>t. parse (stamp t) = t) \<Longrightarrow> load_review parse (review_json stamp r) = Some r"
  by (simp add: load_review_def review_json_def rounds time_round)

lemma receipt_round: "(\<And>t. parse (stamp t) = t) \<Longrightarrow> load_receipt parse (receipt_json stamp r) = Some r"
  by (simp add: load_receipt_def receipt_json_def strings_json_def rounds time_round split: prod.split)

text \<open>The texts of a registered task's grant and schemas are read back as they were.\<close>

definition texts_keep :: "texts \<Rightarrow> registered_task \<Rightarrow> bool" where
  "texts_keep tx t \<longleftrightarrow>
     tx_scope_of tx (tx_scope tx (ca_scope (rt_compiled t))) = Some (ca_scope (rt_compiled t)) \<and>
     tx_schemas_of tx (tx_schemas tx (ca_schemas (rt_compiled t))) = Some (ca_schemas (rt_compiled t))"

definition tasks_keep :: "texts \<Rightarrow> control_state \<Rightarrow> bool" where
  "tasks_keep tx s \<longleftrightarrow> list_all (\<lambda>e. texts_keep tx (snd e)) (cs_tasks s)"

lemma task_round: "texts_keep tx (snd e) \<Longrightarrow> load_task tx (task_json tx e) = Some e"
proof -
  obtain a b t where e: "e = ((a, b), t)" by (metis prod.collapse)
  assume "texts_keep tx (snd e)"
  then have "load_compiled tx (compiled_json tx (rt_compiled t)) = Some (rt_compiled t)"
    by (simp add: load_compiled_def compiled_json_def texts_keep_def rounds e)
  then show ?thesis
    by (simp add: load_task_def task_json_def strings_json_def dict_get_def rounds e)
qed

lemma tasks_round: "tasks_keep tx s \<Longrightarrow> get_list (load_task tx) (list_json (task_json tx) (cs_tasks s)) = Some (cs_tasks s)"
  using traverse_map [of "cs_tasks s" "load_task tx" "task_json tx" id]
  by (simp add: list_json_def tasks_keep_def list_all_iff task_round)

text \<open>The sets are read back sorted.\<close>

definition settled :: "control_state \<Rightarrow> control_state" where
  "settled s = s\<lparr>cs_revoked := sort (cs_revoked s), cs_suspended := sort (cs_suspended s)\<rparr>"

lemma snapshot_round:
  assumes time: "\<And>t. parse (stamp t) = t" and tx: "tasks_keep tx s"
  shows "load_state parse tx key_id (dump_state stamp tx key_id n s) = Some (n, settled s)"
proof -
  have "get_list get_str (strings_json xs) = Some xs" for xs
    by (simp add: strings_json_def traverse_round rounds)
  moreover have "get_dict (get_list (load_policy parse)) (dict_json (list_json (policy_json stamp)) d) = Some d" for d
    by (intro get_dict_round get_list_round policy_round time)
  moreover have "get_dict (get_list (load_event parse)) (dict_json (list_json (event_json stamp)) d) = Some d" for d
    by (intro get_dict_round get_list_round event_round time)
  moreover have "get_dict load_head (dict_json head_json d) = Some d"
    "get_dict get_nat (dict_json nat_json f) = Some f" for d f
    by (intro get_dict_round; simp add: rounds)+
  moreover have "get_dict (load_review parse) (dict_json (review_json stamp) d) = Some d" for d
    by (intro get_dict_round review_round time)
  moreover have "get_list (load_receipt parse) (list_json (receipt_json stamp) xs) = Some xs" for xs
    by (intro get_list_round receipt_round time)
  moreover note tasks_round [OF tx]
  moreover have "get_list load_pair (list_json pair_json xs) = Some xs" for xs
    by (intro get_list_round) (simp add: rounds)
  ultimately show ?thesis
    by (simp add: load_state_def dump_state_def snapshot_fields_def rounds settled_def)
qed

end
