(* ===== verification/AuditChain.thy ===== *)
theory AuditChain
  imports ControlPlane
begin

text \<open>
  The audit trail of \<open>control/service.py\<close>: the chain \<open>_append_audit\<close> builds verifies,
  grows by appending only, and determines the recorded history up to a collision of the
  digest.
\<close>

section \<open>Frames\<close>

text \<open>Recording an event changes the trail of its tenant and nothing else.\<close>

lemma audited_frame [simp]:
  "cs_policies (audited w t ty who p d s) = cs_policies s"
  "cs_reviews (audited w t ty who p d s) = cs_reviews s"
  "cs_receipts (audited w t ty who p d s) = cs_receipts s"
  "cs_epochs (audited w t ty who p d s) = cs_epochs s"
  "cs_tasks (audited w t ty who p d s) = cs_tasks s"
  "cs_issued (audited w t ty who p d s) = cs_issued s"
  "cs_revoked (audited w t ty who p d s) = cs_revoked s"
  "cs_suspended (audited w t ty who p d s) = cs_suspended s"
  by (simp_all add: audited_def append_audit_def Let_def)

lemma append_audited: "snd (append_audit w t ty who p aid now s) = audited w t ty who p \<lparr>dw_now = now, dw_id = i, dw_audit = aid, dw_audit2 = j\<rparr> s"
  by (simp add: audited_def)

lemma audits_of_cong: "cs_audits s = cs_audits s' \<Longrightarrow> audits_of s t = audits_of s' t"
  by (simp add: audits_of_def)

lemma policies_of_cong: "cs_policies s = cs_policies s' \<Longrightarrow> policies_of s t = policies_of s' t"
  by (simp add: policies_of_def)

lemma epoch_of_cong: "cs_epochs s = cs_epochs s' \<Longrightarrow> epoch_of s t = epoch_of s' t"
  by (simp add: epoch_of_def)

lemma dict_get_update [simp]:
  "dict_get (AList.update k v d) k' x = (if k' = k then v else dict_get d k' x)"
  by (simp add: dict_get_def map_of_update)

section \<open>The chain\<close>

definition next_event ::
  "world \<Rightarrow> string \<Rightarrow> string \<Rightarrow> string \<Rightarrow> json \<Rightarrow> draws \<Rightarrow> audit_event list \<Rightarrow> audit_event" where
  "next_event w t ty who p d events =
     (let draft = \<lparr>ae_id = dw_audit d, ae_tenant = t, ae_type = ty, ae_actor = who, ae_payload = redact p,
                   ae_previous = (if events = [] then None else Some (ae_hash (last events))),
                   ae_hash = [], ae_created = dw_now d, ae_sequence = length events + 1\<rparr>
      in draft\<lparr>ae_hash := hexdigest w (event_body (w_stamp w) draft)\<rparr>)"

lemma audits_of_audited:
  "audits_of (audited w t ty who p d s) t' =
   (if t' = t then audits_of s t @ [next_event w t ty who p d (audits_of s t)] else audits_of s t')"
  by (simp add: audited_def append_audit_def audits_of_def next_event_def Let_def)

lemma heads_audited:
  "map_of (cs_heads (audited w t ty who p d s)) t' =
   (if t' = t then Some (length (audits_of s t) + 1, ae_hash (next_event w t ty who p d (audits_of s t)))
    else map_of (cs_heads s) t')"
  by (simp add: audited_def append_audit_def next_event_def Let_def map_of_update)

lemma event_body_hash [simp]: "event_body stamp (e\<lparr>ae_hash := h\<rparr>) = event_body stamp e"
  by (simp add: event_body_def event_fields_def)

lemma next_event_chains [simp]:
  "ae_previous (next_event w t ty who p d events) =
     (if events = [] then None else Some (ae_hash (last events)))"
  "ae_sequence (next_event w t ty who p d events) = length events + 1"
  "ae_hash (next_event w t ty who p d events) =
     hexdigest w (event_body (w_stamp w) (next_event w t ty who p d events))"
  by (simp_all add: next_event_def Let_def event_body_def event_fields_def)

lemma chain_from_append:
  "chain_from w previous i (xs @ ys) =
   (case chain_from w previous i xs of None \<Rightarrow> None | Some q \<Rightarrow> chain_from w q (length xs + i) ys)"
  by (induction xs arbitrary: previous i) (auto split: option.split)

lemma chain_from_last:
  "chain_from w previous i xs = Some q \<Longrightarrow> q = (if xs = [] then previous else Some (ae_hash (last xs)))"
  by (induction xs arbitrary: previous i) (auto split: if_split_asm)

lemma chain_valid_iff:
  "chain_valid w events head \<longleftrightarrow>
   chain_from w None 1 events = Some (if events = [] then None else Some (ae_hash (last events))) \<and>
   head = (if events = [] then None else Some (length events, ae_hash (last events)))"
  by (auto simp: chain_valid_def split: option.splits dest: chain_from_last)

lemma chain_valid_snoc:
  assumes "chain_valid w events head"
  shows "chain_valid w (events @ [next_event w t ty who p d events])
    (Some (length events + 1, ae_hash (next_event w t ty who p d events)))"
  using assms by (simp add: chain_valid_iff chain_from_append)

lemma verify_audited:
  assumes "verify_audit_chain w t' s"
  shows "verify_audit_chain w t' (audited w t ty who p d s)"
  using assms chain_valid_snoc [of w "audits_of s t"]
  by (auto simp: verify_audit_chain_def audits_of_audited heads_audited)

lemma verify_cong:
  "cs_audits s = cs_audits s' \<Longrightarrow> cs_heads s = cs_heads s' \<Longrightarrow>
   verify_audit_chain w t s = verify_audit_chain w t s'"
  by (simp add: verify_audit_chain_def audits_of_def)

section \<open>Tamper evidence\<close>

text \<open>The canonical form that is digested; a value without one is digested as it is.\<close>

definition canonical_of :: "json \<Rightarrow> json" where
  "canonical_of v = (case canon v of Some c \<Rightarrow> c | None \<Rightarrow> v)"

lemma hexdigest_canonical: "hexdigest w v = w_sha w (canonical_of v)"
  by (simp add: hexdigest_def canonical_of_def)

definition record_of :: "world \<Rightarrow> audit_event \<Rightarrow> json" where
  "record_of w e = canonical_of (event_body (w_stamp w) e)"

text \<open>The canonical body of an event keeps the hash it names as its predecessor.\<close>

lemma sort_keys_lookup:
  assumes "distinct (map fst kvs)"
  shows "map_of (sort_key fst kvs) k = map_of kvs k"
  using assms by (intro map_of_inject_set [THEN iffD2, THEN fun_cong]) (simp_all add: distinct_map)

lemma canon_kvs_keys: "canon_kvs kvs = Some l \<Longrightarrow> map fst l = map fst kvs"
  by (induction kvs arbitrary: l) (auto split: option.splits)

lemma canon_kvs_lookup:
  "canon_kvs kvs = Some l \<Longrightarrow> map_of l k = (case map_of kvs k of None \<Rightarrow> None | Some v \<Rightarrow> canon v)"
  by (induction kvs arbitrary: l) (auto split: option.splits)

lemma event_body_canon:
  assumes "canon (event_body stamp e) = Some c"
  shows "map_of (json_sub c) ''previous_hash'' = Some (opt_json JStr (ae_previous e))"
proof -
  from assms obtain l where l: "canon_kvs (event_fields stamp e) = Some l" and c: "c = JObj (sort_key fst l)"
    by (auto simp: event_body_def)
  have d: "distinct (map fst l)"
    by (simp add: canon_kvs_keys [OF l]) (simp add: event_fields_def)
  have "map_of (event_fields stamp e) ''previous_hash'' = Some (opt_json JStr (ae_previous e))"
    by (simp add: event_fields_def)
  then show ?thesis
    by (simp add: c sort_keys_lookup [OF d] canon_kvs_lookup [OF l])
qed

lemma event_body_raw:
  "map_of (json_sub (event_body stamp e)) ''previous_hash'' = Some (opt_json JStr (ae_previous e))"
  by (simp add: event_body_def event_fields_def)

lemma record_previous:
  assumes "record_of w a = record_of w b"
  shows "ae_previous a = ae_previous b"
proof -
  have "map_of (json_sub (record_of w x)) ''previous_hash'' = Some (opt_json JStr (ae_previous x))" for x
    by (auto simp: record_of_def canonical_of_def event_body_canon event_body_raw split: option.split)
  then have "opt_json JStr (ae_previous a) = opt_json JStr (ae_previous b)"
    by (metis assms option.inject)
  then show ?thesis by simp
qed

lemma chain_unsnoc:
  assumes "chain_from w None 1 (xs @ [x]) = Some (Some h)"
  shows "h = ae_hash x" and "ae_hash x = hexdigest w (event_body (w_stamp w) x)"
    and "ae_previous x = (if xs = [] then None else Some (ae_hash (last xs)))"
    and "chain_from w None 1 xs = Some (if xs = [] then None else Some (ae_hash (last xs)))"
  using assms
  by (auto simp: chain_from_append split: option.splits if_split_asm dest: chain_from_last)

text \<open>
  Where two trails under one head part, read from the head backwards: the two events differ in
  what they record, yet both bodies have the one stored digest; every later event is the same.
\<close>

definition parts_at :: "world \<Rightarrow> audit_event list \<Rightarrow> audit_event list \<Rightarrow> nat \<Rightarrow> bool" where
  "parts_at w xs ys i \<longleftrightarrow>
     i < length xs \<and> record_of w (xs ! i) \<noteq> record_of w (ys ! i)
     \<and> hexdigest w (event_body (w_stamp w) (xs ! i)) = ae_hash (xs ! i)
     \<and> hexdigest w (event_body (w_stamp w) (ys ! i)) = ae_hash (xs ! i)
     \<and> map (record_of w) (drop (Suc i) xs) = map (record_of w) (drop (Suc i) ys)"

lemma parts_at_snoc:
  "parts_at w xs ys i \<Longrightarrow> length xs = length ys \<Longrightarrow> record_of w x = record_of w y \<Longrightarrow>
   parts_at w (xs @ [x]) (ys @ [y]) i"
  by (simp add: parts_at_def nth_append)

lemma chain_determines:
  assumes "chain_from w None 1 xs = Some (Some h)" and "chain_from w None 1 ys = Some (Some h)"
    and "length xs = length ys"
  shows "map (record_of w) xs = map (record_of w) ys \<or> (\<exists>i. parts_at w xs ys i)"
  using assms
proof (induction xs arbitrary: ys h rule: rev_induct)
  case Nil
  then show ?case by simp
next
  case (snoc x xs)
  then obtain y zs where ys: "ys = zs @ [y]" by (cases ys rule: rev_cases) auto
  note cx = chain_unsnoc [OF snoc.prems(1)] and cy = chain_unsnoc [OF snoc.prems(2) [unfolded ys]]
  have len: "length xs = length zs" using snoc.prems(3) by (simp add: ys)
  show ?case
  proof (cases "record_of w x = record_of w y")
    case False
    then have "parts_at w (xs @ [x]) ys (length xs)"
      using cx(1,2) cy(1,2) len by (simp add: parts_at_def ys nth_append)
    then show ?thesis by blast
  next
    case same: True
    have "map (record_of w) xs = map (record_of w) zs \<or> (\<exists>i. parts_at w xs zs i)"
    proof (cases "xs = []")
      case True
      then show ?thesis using len by simp
    next
      case False
      then have "zs \<noteq> []" using len by auto
      with False have "ae_hash (last xs) = ae_hash (last zs)"
        using record_previous [OF same] cx(3) cy(3) by simp
      with False \<open>zs \<noteq> []\<close> cx(4) cy(4) have "chain_from w None 1 xs = Some (Some (ae_hash (last xs)))"
        "chain_from w None 1 zs = Some (Some (ae_hash (last xs)))"
        by (simp_all only: if_False)
      then show ?thesis using len by (rule snoc.IH)
    qed
    with same len show ?thesis by (auto simp: ys dest: parts_at_snoc)
  qed
qed

lemma head_determines:
  assumes xs: "chain_valid w xs head" and ys: "chain_valid w ys head"
  shows "length xs = length ys" and "map (record_of w) xs = map (record_of w) ys \<or> (\<exists>i. parts_at w xs ys i)"
proof -
  show len: "length xs = length ys"
    using xs ys unfolding chain_valid_iff by (auto split: if_splits)
  show "map (record_of w) xs = map (record_of w) ys \<or> (\<exists>i. parts_at w xs ys i)"
  proof (cases "xs = []")
    case True
    with len show ?thesis by simp
  next
    case False
    with len have "ys \<noteq> []" by auto
    with False xs ys have "chain_from w None 1 xs = Some (Some (ae_hash (last xs)))"
      "chain_from w None 1 ys = Some (Some (ae_hash (last xs)))" by (auto simp: chain_valid_iff)
    then show ?thesis using len by (rule chain_determines)
  qed
qed

end
