(* ===== verification/ControlSafety.thy ===== *)
theory ControlSafety
  imports AuditChain Grants
begin

text \<open>
  The control plane as a state machine: one rule per operation of \<open>control/service.py\<close> and
  \<open>control/execution.py\<close> that changes state, the invariant of its reachable states and what
  a step never takes back. A draft is a validated \<open>PolicyDraft\<close>; \<open>uuid4\<close> is assumed to draw
  an identifier not in use.
\<close>

section \<open>The invariant\<close>

definition is_active :: "policy_version \<Rightarrow> bool" where
  "is_active p \<longleftrightarrow> pv_status p = ACTIVE"

text \<open>
  At most one version is active, every draft is valid, and a version that ever was active
  has an approver and a positive epoch.
\<close>

definition policies_fine :: "policy_version list \<Rightarrow> nat \<Rightarrow> bool" where
  "policies_fine ps n \<longleftrightarrow>
     length (filter is_active ps) \<le> 1 \<and> (\<forall>p\<in>set ps. valid_draft (pv_draft p)) \<and>
     (\<forall>p\<in>set ps. pv_status p \<in> {ACTIVE, ROLLED_BACK} \<longrightarrow> 0 < n \<and> pv_approved_by p \<noteq> None)"

text \<open>A resolution is by another subject than the proposer, and only an allowed one is used.\<close>

definition review_fine :: "review \<Rightarrow> nat \<Rightarrow> bool" where
  "review_fine r n \<longleftrightarrow>
     0 < rv_epoch r \<and> rv_epoch r \<le> n \<and>
     (rv_status r = ''resolved'' \<longrightarrow> rv_resolved_by r \<notin> {None, Some (rv_agent r)}) \<and>
     (rv_nonce r \<noteq> None \<longrightarrow> rv_status r = ''resolved'' \<and> rv_resolution r = Some RES_ALLOW)"

definition reviews_fine :: "control_state \<Rightarrow> bool" where
  "reviews_fine s \<longleftrightarrow>
     distinct (map fst (cs_reviews s)) \<and>
     (\<forall>k r. map_of (cs_reviews s) k = Some r \<longrightarrow> rv_id r = k \<and> review_fine r (epoch_of s (rv_tenant r)))"

definition control_inv :: "world \<Rightarrow> control_state \<Rightarrow> bool" where
  "control_inv w s \<longleftrightarrow>
     (\<forall>t. verify_audit_chain w t s) \<and> (\<forall>t. policies_fine (policies_of s t) (epoch_of s t)) \<and> reviews_fine s"

lemma control_inv_empty: "control_inv w empty_control"
  by (simp add: control_inv_def empty_control_def verify_audit_chain_def audits_of_def policies_of_def
      epoch_of_def dict_get_def chain_valid_def policies_fine_def reviews_fine_def)

section \<open>What no step takes back\<close>

definition version_core :: "policy_version \<Rightarrow> string \<times> nat \<times> policy_draft \<times> string" where
  "version_core p = (pv_id p, pv_version p, pv_draft p, pv_created_by p)"

definition task_core :: "registered_task \<Rightarrow> string \<times> string \<times> compiled_authority \<times> string" where
  "task_core t = (rt_principal t, rt_credential t, rt_compiled t, rt_adapter t)"

definition tasks_kept :: "control_state \<Rightarrow> control_state \<Rightarrow> bool" where
  "tasks_kept s s' \<longleftrightarrow>
     (\<forall>k t. map_of (cs_tasks s) k = Some t \<longrightarrow>
        (\<exists>t'. map_of (cs_tasks s') k = Some t' \<and> task_core t' = task_core t
              \<and> (rt_domain t \<noteq> [] \<longrightarrow> rt_domain t' = rt_domain t)))"

text \<open>A used nonce and a resolution stay with a review.\<close>

definition review_le :: "review \<Rightarrow> review \<Rightarrow> bool" where
  "review_le r r' \<longleftrightarrow>
     (rv_nonce r \<noteq> None \<longrightarrow> rv_nonce r' = rv_nonce r) \<and>
     (rv_status r = ''resolved'' \<longrightarrow>
        rv_status r' = ''resolved'' \<and> rv_resolution r' = rv_resolution r \<and> rv_resolved_by r' = rv_resolved_by r)"

lemma review_le_refl [simp]: "review_le r r"
  by (simp add: review_le_def)

lemma review_le_trans: "review_le a b \<Longrightarrow> review_le b c \<Longrightarrow> review_le a c"
  by (simp add: review_le_def)

definition used_kept :: "control_state \<Rightarrow> control_state \<Rightarrow> bool" where
  "used_kept s s' \<longleftrightarrow>
     (\<forall>k r. map_of (cs_reviews s) k = Some r \<longrightarrow> (\<exists>r'. map_of (cs_reviews s') k = Some r' \<and> review_le r r'))"

definition control_le :: "control_state \<Rightarrow> control_state \<Rightarrow> bool" where
  "control_le s s' \<longleftrightarrow>
     (\<forall>t. prefix (audits_of s t) (audits_of s' t)) \<and> (\<forall>t. epoch_of s t \<le> epoch_of s' t) \<and>
     set (cs_revoked s) \<subseteq> set (cs_revoked s') \<and>
     (\<forall>t. prefix (map version_core (policies_of s t)) (map version_core (policies_of s' t))) \<and>
     tasks_kept s s' \<and> used_kept s s'"

lemma tasks_kept_trans: "tasks_kept a b \<Longrightarrow> tasks_kept b c \<Longrightarrow> tasks_kept a c"
  unfolding tasks_kept_def by metis

lemma used_kept_trans: "used_kept a b \<Longrightarrow> used_kept b c \<Longrightarrow> used_kept a c"
  unfolding used_kept_def using review_le_trans by metis

lemma tasks_kept_eq: "cs_tasks s' = cs_tasks s \<Longrightarrow> tasks_kept s s'"
  by (simp add: tasks_kept_def)

lemma used_kept_eq: "cs_reviews s' = cs_reviews s \<Longrightarrow> used_kept s s'"
  by (simp add: used_kept_def)

lemma control_le_refl: "control_le s s"
  by (simp add: control_le_def tasks_kept_eq used_kept_eq)

lemma control_le_trans:
  assumes "control_le a b" and "control_le b c"
  shows "control_le a c"
proof -
  have "prefix (audits_of a t) (audits_of c t)" "epoch_of a t \<le> epoch_of c t"
    "prefix (map version_core (policies_of a t)) (map version_core (policies_of c t))" for t
    using assms unfolding control_le_def by (meson prefix_order.trans le_trans)+
  moreover have "set (cs_revoked a) \<subseteq> set (cs_revoked c)" "tasks_kept a c" "used_kept a c"
    using assms tasks_kept_trans used_kept_trans unfolding control_le_def by blast+
  ultimately show ?thesis by (simp add: control_le_def)
qed

section \<open>Building blocks keep both\<close>

lemma control_leI:
  assumes "\<And>t. prefix (audits_of s t) (audits_of s' t)" and "\<And>t. epoch_of s t \<le> epoch_of s' t"
    and "set (cs_revoked s) \<subseteq> set (cs_revoked s')"
    and "\<And>t. prefix (map version_core (policies_of s t)) (map version_core (policies_of s' t))"
    and "tasks_kept s s'" and "used_kept s s'"
  shows "control_le s s'"
  using assms by (simp add: control_le_def)

text \<open>Recording an event keeps whatever held of the rest.\<close>

lemma inv_audited: "control_inv w s \<Longrightarrow> control_inv w (audited w t ty who p d s)"
  by (simp add: control_inv_def verify_audited policies_of_def epoch_of_def reviews_fine_def)

lemma le_audited: "control_le s s' \<Longrightarrow> control_le s (audited w t ty who p d s')"
  by (auto simp: control_le_def audits_of_audited policies_of_def epoch_of_def tasks_kept_def used_kept_def
      intro: prefix_order.trans)

lemma policies_fine_mono: "policies_fine ps m \<Longrightarrow> m \<le> n \<Longrightarrow> policies_fine ps n"
  by (force simp: policies_fine_def)

lemma review_fine_mono: "review_fine r m \<Longrightarrow> m \<le> n \<Longrightarrow> review_fine r n"
  by (auto simp: review_fine_def)

lemma reviews_fine_cong:
  assumes "reviews_fine s" and "cs_reviews s' = cs_reviews s" and "\<And>t. epoch_of s t \<le> epoch_of s' t"
  shows "reviews_fine s'"
  using assms review_fine_mono unfolding reviews_fine_def by metis

lemma epoch_bump: "epoch_of (bump_epoch t s) t' = (if t' = t then epoch_of s t + 1 else epoch_of s t')"
  by (simp add: bump_epoch_def epoch_of_def)

lemma bump_frame [simp]:
  "cs_policies (bump_epoch t s) = cs_policies s" "cs_audits (bump_epoch t s) = cs_audits s"
  "cs_heads (bump_epoch t s) = cs_heads s" "cs_reviews (bump_epoch t s) = cs_reviews s"
  "cs_tasks (bump_epoch t s) = cs_tasks s" "cs_revoked (bump_epoch t s) = cs_revoked s"
  "cs_suspended (bump_epoch t s) = cs_suspended s"
  by (simp_all add: bump_epoch_def)

lemma set_policies_frame [simp]:
  "cs_epochs (set_policies t ps s) = cs_epochs s" "cs_audits (set_policies t ps s) = cs_audits s"
  "cs_heads (set_policies t ps s) = cs_heads s" "cs_reviews (set_policies t ps s) = cs_reviews s"
  "cs_tasks (set_policies t ps s) = cs_tasks s" "cs_revoked (set_policies t ps s) = cs_revoked s"
  by (simp_all add: set_policies_def)

lemma policies_set: "policies_of (set_policies t ps s) t' = (if t' = t then ps else policies_of s t')"
  by (simp add: set_policies_def policies_of_def)

lemma inv_bump:
  assumes "control_inv w s" shows "control_inv w (bump_epoch t s)"
proof -
  have v: "verify_audit_chain w t' (bump_epoch t s) = verify_audit_chain w t' s" for t'
    by (rule verify_cong) simp_all
  have p: "policies_of (bump_epoch t s) t' = policies_of s t'" for t' by (simp add: policies_of_def)
  have r: "reviews_fine s \<Longrightarrow> reviews_fine (bump_epoch t s)"
    by (erule reviews_fine_cong) (simp_all add: epoch_bump)
  show ?thesis using assms
    by (auto simp: control_inv_def v p epoch_bump intro: policies_fine_mono r)
qed

lemma le_bump: "control_le s s' \<Longrightarrow> control_le s (bump_epoch t s')"
  by (auto simp: control_le_def epoch_bump audits_of_def policies_of_def tasks_kept_def used_kept_def
      intro: le_SucI)

lemma inv_set_policies:
  assumes "control_inv w s" and "policies_fine ps (epoch_of s t)"
  shows "control_inv w (set_policies t ps s)"
proof -
  have v: "verify_audit_chain w t' (set_policies t ps s) = verify_audit_chain w t' s" for t'
    by (rule verify_cong) simp_all
  have e: "epoch_of (set_policies t ps s) t' = epoch_of s t'" for t' by (simp add: epoch_of_def)
  show ?thesis using assms by (simp add: control_inv_def v e policies_set reviews_fine_def)
qed

lemma inv_install_policies:
  assumes "control_inv w s" and "policies_fine ps (epoch_of s t + 1)"
  shows "control_inv w (bump_epoch t (set_policies t ps s))"
proof -
  have v: "verify_audit_chain w t' (bump_epoch t (set_policies t ps s)) = verify_audit_chain w t' s" for t'
    by (rule verify_cong) simp_all
  have p: "policies_of (bump_epoch t (set_policies t ps s)) t' = (if t' = t then ps else policies_of s t')" for t'
    by (simp add: policies_of_def set_policies_def bump_epoch_def)
  have e: "epoch_of (bump_epoch t (set_policies t ps s)) t' = (if t' = t then epoch_of s t + 1 else epoch_of s t')" for t'
    by (simp add: epoch_of_def set_policies_def bump_epoch_def)
  have r: "reviews_fine s \<Longrightarrow> reviews_fine (bump_epoch t (set_policies t ps s))"
    by (erule reviews_fine_cong) (simp_all add: e)
  show ?thesis using assms
    by (auto simp: control_inv_def v p e intro: policies_fine_mono r)
qed

lemma le_set_policies:
  assumes "prefix (map version_core (policies_of s t)) (map version_core ps)"
  shows "control_le s (set_policies t ps s)"
  using assms
  by (auto simp: control_le_def policies_set audits_of_def epoch_of_def tasks_kept_def used_kept_def)

section \<open>Versions\<close>

lemma map_update_first:
  "(\<And>x. g (f x) = g x) \<Longrightarrow> map g (update_first p f xs) = map g xs"
  by (induction xs) auto

lemma core_retire [simp]: "version_core (retire p) = version_core p"
  by (simp add: version_core_def retire_def)

lemma core_activate [simp]: "version_core (activate a now p) = version_core p"
  by (simp add: version_core_def activate_def)

lemma core_status [simp]: "version_core (pv_status_update f p) = version_core p"
  by (simp add: version_core_def)

lemma retire_not_active [simp]: "\<not> is_active (retire p)"
  by (simp add: is_active_def retire_def)

lemma set_update_first: "x \<in> set (update_first p f xs) \<Longrightarrow> x \<in> set xs \<or> (\<exists>y\<in>set xs. p y \<and> x = f y)"
  by (induction xs) (auto split: if_split_asm)

lemma active_after_update:
  "length (filter is_active (update_first p f xs)) \<le> Suc (length (filter is_active xs))"
  by (induction xs) (auto intro: le_SucI)

lemma filter_update_first_inactive:
  assumes "\<And>x. \<not> is_active (f x)"
  shows "length (filter is_active (update_first p f xs)) \<le> length (filter is_active xs)"
  using assms by (induction xs) auto

lemma retired_none_active: "filter is_active (map retire ps) = []"
  by (simp add: filter_empty_conv)

lemma fine_install:
  assumes "policies_fine ps n"
  shows "policies_fine (update_first p (activate a now) (map retire ps)) (n + 1)"
proof -
  have "length (filter is_active (update_first p (activate a now) (map retire ps))) \<le> 1"
    using active_after_update [of p "activate a now" "map retire ps"] by (simp add: retired_none_active)
  moreover have "pv_approved_by q \<noteq> None"
    if "q \<in> set (update_first p (activate a now) (map retire ps))" "pv_status q \<in> {ACTIVE, ROLLED_BACK}" for q
    using set_update_first [OF that(1)] that(2) assms
    by (auto simp: policies_fine_def activate_def retire_def split: if_split_asm)
  moreover have "valid_draft (pv_draft q)"
    if "q \<in> set (update_first p (activate a now) (map retire ps))" for q
    using set_update_first [OF that] assms by (auto simp: policies_fine_def activate_def retire_def)
  ultimately show ?thesis by (simp add: policies_fine_def)
qed

lemma fine_submit:
  assumes "policies_fine ps n"
  shows "policies_fine (update_first p (pv_status_update (\<lambda>_. PENDING_APPROVAL)) ps) n"
proof -
  have "length (filter is_active (update_first p (pv_status_update (\<lambda>_. PENDING_APPROVAL)) ps))
      \<le> length (filter is_active ps)"
    by (rule filter_update_first_inactive) (simp add: is_active_def)
  then show ?thesis using assms by (auto simp: policies_fine_def dest!: set_update_first)
qed

lemma fine_append:
  "policies_fine ps n \<Longrightarrow> pv_status p = DRAFT \<Longrightarrow> valid_draft (pv_draft p) \<Longrightarrow> policies_fine (ps @ [p]) n"
  by (auto simp: policies_fine_def is_active_def)

section \<open>Reviews\<close>

lemma inv_frame:
  assumes "control_inv w s" and "cs_policies s' = cs_policies s" and "cs_audits s' = cs_audits s"
    and "cs_heads s' = cs_heads s" and "cs_epochs s' = cs_epochs s"
    and "reviews_fine s'"
  shows "control_inv w s'"
proof -
  have "verify_audit_chain w t s' = verify_audit_chain w t s" "policies_of s' t = policies_of s t"
    "epoch_of s' t = epoch_of s t" for t
    using assms by (simp_all add: verify_audit_chain_def audits_of_def policies_of_def epoch_of_def)
  then show ?thesis using assms by (simp add: control_inv_def)
qed

lemma le_frame:
  assumes "cs_policies s' = cs_policies s" and "cs_audits s' = cs_audits s" and "cs_epochs s' = cs_epochs s"
    and "set (cs_revoked s) \<subseteq> set (cs_revoked s')" and "tasks_kept s s'" and "used_kept s s'"
  shows "control_le s s'"
  using assms by (simp add: control_le_def policies_of_def audits_of_def epoch_of_def)

text \<open>A review under an identifier: what the others were is kept.\<close>

lemma reviews_fine_update:
  assumes "reviews_fine s" and "cs_reviews s' = AList.update k r (cs_reviews s)" and "cs_epochs s' = cs_epochs s"
    and "rv_id r = k" and "review_fine r (epoch_of s (rv_tenant r))"
  shows "reviews_fine s'"
  using assms epoch_of_cong [OF assms(3)] by (simp add: reviews_fine_def map_of_update distinct_update)

lemma used_kept_update:
  assumes "cs_reviews s' = AList.update k r (cs_reviews s)"
    and "\<And>r0. map_of (cs_reviews s) k = Some r0 \<Longrightarrow> review_le r0 r"
  shows "used_kept s s'"
  using assms by (auto simp: used_kept_def map_of_update)

lemma reviews_fineD:
  "control_inv w s \<Longrightarrow> map_of (cs_reviews s) k = Some r \<Longrightarrow>
   rv_id r = k \<and> review_fine r (epoch_of s (rv_tenant r))"
  by (simp add: control_inv_def reviews_fine_def)

lemma keep_receipt_frame [simp]:
  "cs_policies (keep_receipt w d a k q n r s) = cs_policies s" "cs_audits (keep_receipt w d a k q n r s) = cs_audits s"
  "cs_heads (keep_receipt w d a k q n r s) = cs_heads s" "cs_epochs (keep_receipt w d a k q n r s) = cs_epochs s"
  "cs_reviews (keep_receipt w d a k q n r s) = cs_reviews s" "cs_tasks (keep_receipt w d a k q n r s) = cs_tasks s"
  "cs_revoked (keep_receipt w d a k q n r s) = cs_revoked s" "cs_issued (keep_receipt w d a k q n r s) = cs_issued s"
  by (simp_all add: keep_receipt_def)

lemma inv_keep_receipt: "control_inv w s \<Longrightarrow> control_inv w (keep_receipt w d a k q n r s)"
  by (rule inv_frame, assumption) (auto simp: control_inv_def epoch_of_def elim!: reviews_fine_cong)

lemma le_keep_receipt: "control_le s s' \<Longrightarrow> control_le s (keep_receipt w d a k q n r s')"
  by (simp add: control_le_def audits_of_def policies_of_def epoch_of_def tasks_kept_def used_kept_def)

section \<open>Every operation keeps the invariant and the order\<close>

definition sound_step :: "world \<Rightarrow> control_state \<Rightarrow> control_state \<Rightarrow> bool" where
  "sound_step w s s' \<longleftrightarrow> (control_inv w s \<longrightarrow> control_inv w s' \<and> control_le s s')"

lemma sound_refl [simp]: "sound_step w s s"
  by (simp add: sound_step_def control_le_refl)

lemma sound_trans: "sound_step w a b \<Longrightarrow> sound_step w b c \<Longrightarrow> sound_step w a c"
  unfolding sound_step_def using control_le_trans by blast

lemma sound_audited: "sound_step w s s' \<Longrightarrow> sound_step w s (audited w t ty who p d s')"
  by (simp add: sound_step_def inv_audited le_audited)

lemma sound_append_audit: "sound_step w s s' \<Longrightarrow> sound_step w s (snd (append_audit w t ty who p aid now s'))"
  using sound_audited [of w s s'] by (simp add: audited_def) (metis draws.select_convs(1,3))

lemma sound_bump: "sound_step w s s' \<Longrightarrow> sound_step w s (bump_epoch t s')"
  by (simp add: sound_step_def inv_bump le_bump)

lemma sound_keep_receipt: "sound_step w s s' \<Longrightarrow> sound_step w s (keep_receipt w d a k q n r s')"
  by (simp add: sound_step_def inv_keep_receipt le_keep_receipt)

lemma sound_frame:
  assumes "cs_policies s' = cs_policies s" and "cs_audits s' = cs_audits s"
    and "cs_heads s' = cs_heads s" and "cs_epochs s' = cs_epochs s" and "cs_reviews s' = cs_reviews s"
    and "set (cs_revoked s) \<subseteq> set (cs_revoked s')" and "tasks_kept s s'"
  shows "sound_step w s s'"
proof -
  have "control_inv w s'" if "control_inv w s"
    by (rule inv_frame [OF that assms(1-4)])
       (use that assms in \<open>auto simp: control_inv_def epoch_of_def elim!: reviews_fine_cong\<close>)
  moreover have "control_le s s'"
    by (rule le_frame) (use assms in \<open>simp_all add: used_kept_eq\<close>)
  ultimately show ?thesis by (simp add: sound_step_def)
qed

lemma sound_set_policies:
  assumes "control_inv w s \<Longrightarrow> policies_fine ps (epoch_of s t)"
    and "prefix (map version_core (policies_of s t)) (map version_core ps)"
  shows "sound_step w s (set_policies t ps s)"
  using assms by (simp add: sound_step_def inv_set_policies le_set_policies)

lemma sound_reviews:
  assumes "cs_policies s' = cs_policies s" and "cs_audits s' = cs_audits s" and "cs_heads s' = cs_heads s"
    and "cs_epochs s' = cs_epochs s" and "cs_revoked s' = cs_revoked s" and "cs_tasks s' = cs_tasks s"
    and upd: "cs_reviews s' = AList.update k r (cs_reviews s)" and "rv_id r = k"
    and fine: "control_inv w s \<Longrightarrow> review_fine r (epoch_of s (rv_tenant r))"
    and le: "\<And>r0. map_of (cs_reviews s) k = Some r0 \<Longrightarrow> review_le r0 r"
  shows "sound_step w s s'"
proof -
  have "control_inv w s'" if inv: "control_inv w s"
    by (rule inv_frame [OF inv assms(1-4)], rule reviews_fine_update [OF _ upd])
       (use inv fine assms in \<open>simp_all add: control_inv_def\<close>)
  moreover have "control_le s s'"
    by (rule le_frame) (use assms used_kept_update [OF upd le] in \<open>simp_all add: tasks_kept_eq\<close>)
  ultimately show ?thesis by (simp add: sound_step_def)
qed

lemma policies_fineD: "control_inv w s \<Longrightarrow> policies_fine (policies_of s t) (epoch_of s t)"
  by (simp add: control_inv_def)

lemma sound_install: "sound_step w s (install w d ty t a pid s)"
proof -
  let ?ps = "update_first (\<lambda>p. pv_id p = pid) (activate a (dw_now d)) (map retire (policies_of s t))"
  have "control_le s (bump_epoch t (set_policies t ?ps s))"
    by (intro le_bump le_set_policies) (simp add: map_update_first comp_def)
  moreover have "control_inv w s \<Longrightarrow> control_inv w (bump_epoch t (set_policies t ?ps s))"
    by (intro inv_install_policies fine_install policies_fineD)
  ultimately have "sound_step w s (bump_epoch t (set_policies t ?ps s))" by (simp add: sound_step_def)
  then show ?thesis unfolding install_def by (rule sound_audited)
qed

subsection \<open>Operations of the service\<close>

lemma sound_revoke: "sound_step w s (snd (revoke_credential w d t a c s))"
proof -
  have "sound_step w s (s\<lparr>cs_revoked := List.insert (t, c) (cs_revoked s)\<rparr>)"
    by (rule sound_frame) (auto simp: tasks_kept_eq)
  then show ?thesis
    by (simp add: revoke_credential_def sound_audited sound_bump split: sum.split)
qed

lemma sound_suspend: "sound_step w s (snd (suspend_tenant w d t a b s))"
proof -
  have "sound_step w s (s\<lparr>cs_suspended := x\<rparr>)" for x
    by (rule sound_frame) (auto simp: tasks_kept_eq)
  then show ?thesis
    by (simp add: suspend_tenant_def sound_audited sound_bump split: sum.split)
qed

lemma sound_draft: "valid_draft draft \<Longrightarrow> sound_step w s (snd (create_draft w d t a draft s))"
  by (simp add: create_draft_def Let_def split: sum.split)
     (intro allI impI sound_audited sound_set_policies fine_append policies_fineD; simp)

lemma sound_submit: "sound_step w s (snd (submit_policy w d t a pid s))"
proof -
  have "sound_step w s (set_policies t
      (update_first (\<lambda>p. pv_id p = pid) (pv_status_update (\<lambda>_. PENDING_APPROVAL)) (policies_of s t)) s)"
    by (intro sound_set_policies fine_submit policies_fineD) (simp_all add: map_update_first)
  then show ?thesis by (simp add: submit_policy_def sound_audited split: sum.split)
qed

lemma sound_approve: "sound_step w s (snd (approve_policy w d t a pid s))"
  by (simp add: approve_policy_def sound_install split: sum.split)

lemma sound_rollback: "sound_step w s (snd (rollback w d t a pid s))"
  by (simp add: rollback_def sound_install split: sum.split)

lemma sound_resolve: "sound_step w s (snd (resolve_review w d t a rid res why s))"
proof (cases "\<exists>r. map_of (cs_reviews s) rid = Some r \<and> rv_status r = ''pending'' \<and> rv_agent r \<noteq> ac_subject a")
  case False
  then show ?thesis by (auto simp: resolve_review_def split: sum.split option.split)
next
  case True
  then obtain r where r: "map_of (cs_reviews s) rid = Some r" and "rv_status r = ''pending''"
    and "rv_agent r \<noteq> ac_subject a" by blast
  then have "sound_step w s (s\<lparr>cs_reviews := AList.update rid r' (cs_reviews s)\<rparr>)"
    if "r' = r\<lparr>rv_status := ''expired''\<rparr> \<or>
        r' = r\<lparr>rv_status := ''resolved'', rv_resolution := Some res, rv_resolved_by := Some (ac_subject a), rv_reason := Some why\<rparr>"
    for r'
  proof (cases "control_inv w s")
    case True
    from reviews_fineD [OF True r] that \<open>rv_status r = ''pending''\<close> \<open>rv_agent r \<noteq> ac_subject a\<close>
    show ?thesis
      by (intro sound_reviews [where k = rid and r = r']) (auto simp: r review_fine_def review_le_def)
  qed (simp add: sound_step_def)
  then show ?thesis
    by (simp add: resolve_review_def r sound_audited Let_def split: sum.split)
qed

text \<open>\<open>uuid4\<close> draws identifiers that no review and no grant has.\<close>

definition fresh :: "draws \<Rightarrow> control_state \<Rightarrow> bool" where
  "fresh d s \<longleftrightarrow> map_of (cs_reviews s) (dw_id d) = None \<and> map_of (cs_issued s) (dw_id d) = None"

lemma epoch_audited [simp]: "epoch_of (audited w t ty who p d s) t' = epoch_of s t'"
  by (simp add: epoch_of_def)

lemma sound_decide:
  assumes "fresh d s"
  shows "sound_step w s (snd (decide_action w d a key q s))"
proof -
  define s1 where "s1 = audited w (aq_tenant q) ''action.evaluated'' (ac_subject a)
    (evaluated_payload q (policy_decision w q s)) d s"
  have s1: "sound_step w s s1" by (simp add: s1_def sound_audited)
  define rv where "rv = new_review w d a key q (epoch_of s (aq_tenant q))"
  define s2 where "s2 = s1\<lparr>cs_reviews := AList.update (rv_id rv) rv (cs_reviews s1)\<rparr>"
  have "sound_step w s1 s2" if "epoch_of s (aq_tenant q) \<noteq> 0"
    by (rule sound_reviews [where k = "rv_id rv" and r = rv])
       (use assms that in \<open>simp_all add: s2_def s1_def rv_def new_review_def review_fine_def fresh_def\<close>)
  then have "sound_step w s s2" if "epoch_of s (aq_tenant q) \<noteq> 0"
    using that s1 sound_trans by blast
  with s1 show ?thesis
    by (auto simp: decide_action_def Let_def s1_def [symmetric] rv_def [symmetric] s2_def [symmetric]
        intro: sound_keep_receipt sound_append_audit)
qed

lemma sound_evaluate: "fresh d s \<Longrightarrow> sound_step w s (snd (evaluate w d a q s))"
  by (simp add: evaluate_def sound_decide split: sum.split option.split)

subsection \<open>Operations of the execution authority\<close>

lemma sound_register: "sound_step w s (snd (register w d t a reg s))"
proof -
  have "sound_step w s (s\<lparr>cs_tasks := AList.update k v (cs_tasks s)\<rparr>)" if "map_of (cs_tasks s) k = None" for k v
    by (rule sound_frame) (use that in \<open>auto simp: tasks_kept_def map_of_update\<close>)
  then show ?thesis by (simp add: register_def sound_audited split: sum.split)
qed

lemma sound_bind: "sound_step w s (snd (bind_legacy_domain w d t a task domain fenced s))"
proof -
  have "sound_step w s (s\<lparr>cs_tasks := AList.update k (v\<lparr>rt_domain := domain\<rparr>) (cs_tasks s), cs_issued := x\<rparr>)"
    if "map_of (cs_tasks s) k = Some v" "rt_domain v = []" for k v x
    by (rule sound_frame) (use that in \<open>auto simp: tasks_kept_def map_of_update task_core_def\<close>)
  then show ?thesis by (simp add: bind_legacy_domain_def sound_audited split: sum.split option.split)
qed

lemma continuation_review:
  "continuation w now a q rid dec s = Inr (Some r) \<Longrightarrow>
   dr_decision dec = ESCALATE \<and> map_of (cs_reviews s) (case rid of None \<Rightarrow> [] | Some x \<Rightarrow> x) = Some r
   \<and> review_permits w now a q dec r s"
  by (auto simp: continuation_def split: if_split_asm option.splits)

lemma sound_use_review:
  assumes "continuation w now a q rid dec s = Inr ro"
  shows "sound_step w s (use_review n ro (s\<lparr>cs_issued := x\<rparr>))"
proof (cases ro)
  case None
  then show ?thesis by (auto simp: use_review_def intro!: sound_frame tasks_kept_eq)
next
  case (Some r)
  with continuation_review [of w now a q rid dec s r] assms
  obtain k where k: "map_of (cs_reviews s) k = Some r" and permits: "review_permits w now a q dec r s" by blast
  show ?thesis
  proof (cases "control_inv w s")
    case True
    note fine = reviews_fineD [OF True k]
    show ?thesis unfolding Some
      by (rule sound_reviews [where k = k and r = "r\<lparr>rv_nonce := Some n\<rparr>"])
         (use fine permits k in \<open>auto simp: use_review_def put_review_def review_fine_def review_le_def review_permits_def\<close>)
  qed (simp add: sound_step_def)
qed

lemma sound_issue:
  assumes "fresh d s"
  shows "sound_step w s (snd (issue w d d' a q audience rid s))"
proof -
  note ev = sound_evaluate [OF assms, of w a q]
  obtain r s1 where e: "evaluate w d a q s = (r, s1)" by fastforce
  have s1: "sound_step w s s1" using ev by (simp add: e)
  have "sound_step w s (audited w t ty who p d' (use_review n ro (s1\<lparr>cs_issued := x\<rparr>)))"
    if "continuation w now a q rid dec s1 = Inr ro" for t ty who p n ro x now dec
    by (intro sound_audited sound_trans [OF s1] sound_use_review [OF that])
  with s1 show ?thesis
    by (cases r) (auto simp: issue_def e split: sum.split)
qed

section \<open>The state machine\<close>

inductive control_step :: "world \<Rightarrow> control_state \<Rightarrow> control_state \<Rightarrow> bool" for w where
  step_revoke: "control_step w s (snd (revoke_credential w d t a c s))"
| step_suspend: "control_step w s (snd (suspend_tenant w d t a b s))"
| step_draft: "valid_draft draft \<Longrightarrow> control_step w s (snd (create_draft w d t a draft s))"
| step_submit: "control_step w s (snd (submit_policy w d t a pid s))"
| step_approve: "control_step w s (snd (approve_policy w d t a pid s))"
| step_rollback: "control_step w s (snd (rollback w d t a pid s))"
| step_evaluate: "fresh d s \<Longrightarrow> control_step w s (snd (evaluate w d a q s))"
| step_resolve: "control_step w s (snd (resolve_review w d t a rid res why s))"
| step_register: "control_step w s (snd (register w d t a reg s))"
| step_bind: "control_step w s (snd (bind_legacy_domain w d t a task domain fenced s))"
| step_issue: "fresh d s \<Longrightarrow> fresh d' s \<Longrightarrow> control_step w s (snd (issue w d d' a q audience rid s))"

inductive_cases control_stepE: "control_step w s s'"

lemmas sound_ops =
  sound_revoke sound_suspend sound_draft sound_submit sound_approve sound_rollback sound_evaluate
  sound_resolve sound_register sound_bind sound_issue

lemma step_sound: "control_step w s s' \<Longrightarrow> sound_step w s s'"
  by (induction rule: control_step.induct) (simp_all add: sound_ops)

interpretation control: monotone_stepper "control_step w" "control_inv w" control_le for w
  by unfold_locales
     (use step_sound control_le_refl control_le_trans in \<open>auto simp: sound_step_def\<close>)

end
