(* ===== verification/Transactions.thy ===== *)
theory Transactions
  imports Storage ControlSafety
begin

text \<open>
  The transactions of \<open>control/storage.py\<close>: load and verify the row, prune, run the
  operation, prune, write the signed snapshot; any exception rolls the row back. An
  operation is a state transformer; one called inside another's transaction shares it.
\<close>

section \<open>The store\<close>

record store_config =
  sc_key_id :: string
  sc_max_entries :: nat
  sc_max_bytes :: nat
  sc_texts :: texts

record authority_store =
  au_row :: "(json \<times> string) option"
  au_state :: control_state
  au_revision :: nat

definition state_purpose :: string where
  "state_purpose = ''traceguard-authority-state-v1''"

definition empty_store :: authority_store where
  "empty_store = \<lparr>au_row = None, au_state = empty_control, au_revision = 0\<rparr>"

definition snapshot :: "world \<Rightarrow> store_config \<Rightarrow> nat \<Rightarrow> control_state \<Rightarrow> json" where
  "snapshot w cfg n s = dump_state (w_stamp w) (sc_texts cfg) (sc_key_id cfg) n s"

definition read_snapshot :: "world \<Rightarrow> store_config \<Rightarrow> json \<Rightarrow> (nat \<times> control_state) option" where
  "read_snapshot w cfg j = load_state (w_instant w) (sc_texts cfg) (sc_key_id cfg) j"

section \<open>Pruning and quotas\<close>

definition expiry_of :: "world \<Rightarrow> json \<Rightarrow> instant" where
  "expiry_of w g = w_instant w (py_str (jget (json_sub g) ''expires_at''))"

definition pruned :: "world \<Rightarrow> instant \<Rightarrow> control_state \<Rightarrow> control_state" where
  "pruned w now s =
     s\<lparr>cs_receipts := filter (\<lambda>(_, r). now < re_expires r) (cs_receipts s),
       cs_reviews := filter (\<lambda>(_, r). now < rv_expires r) (cs_reviews s),
       cs_issued := filter (\<lambda>(_, g). now < expiry_of w g) (cs_issued s)\<rparr>"

definition within_quota :: "store_config \<Rightarrow> control_state \<Rightarrow> bool" where
  "within_quota cfg s \<longleftrightarrow>
     length (cs_receipts s) \<le> sc_max_entries cfg \<and> length (cs_reviews s) \<le> sc_max_entries cfg \<and>
     length (cs_tasks s) \<le> sc_max_entries cfg \<and> length (cs_issued s) \<le> sc_max_entries cfg \<and>
     length (cs_revoked s) \<le> sc_max_entries cfg \<and> length (cs_policies s) \<le> sc_max_entries cfg \<and>
     (\<forall>(_, ps)\<in>set (cs_policies s). length ps \<le> sc_max_entries cfg) \<and>
     (\<forall>(_, es)\<in>set (cs_audits s). length es \<le> sc_max_entries cfg)"

definition prune_and_bound ::
  "world \<Rightarrow> store_config \<Rightarrow> instant \<Rightarrow> control_state \<Rightarrow> unit result \<times> control_state" where
  "prune_and_bound w cfg now s =
     (if within_quota cfg (pruned w now s) then Inr ()
      else Inl (CapacityError ''authority quota reached; export/archive before further admission''),
      pruned w now s)"

section \<open>Transactions\<close>

definition doc_bytes :: "json \<Rightarrow> nat" where
  "doc_bytes v = (case dumps v of None \<Rightarrow> 0 | Some t \<Rightarrow> length t)"

definition open_row ::
  "world \<Rightarrow> store_config \<Rightarrow> bool \<Rightarrow> authority_store \<Rightarrow> (nat \<times> control_state) result" where
  "open_row w cfg initialize au =
     (case au_row au of
        None \<Rightarrow> if initialize then Inr (au_revision au, au_state au)
                else Inl (ValueError ''authority state was lost; explicit recovery is required'')
      | Some (doc, signature) \<Rightarrow>
          if sc_max_bytes cfg < doc_bytes doc
          then Inl (CapacityError ''authority state exceeds configured size limit'')
          else if \<not> w_verify w state_purpose doc signature
          then Inl (ValueError ''authority state signature is invalid; refusing recovery'')
          else (case read_snapshot w cfg doc of
             None \<Rightarrow> Inl (ValueError ''unsupported authority storage schema'')
           | Some r \<Rightarrow> Inr r))"

text \<open>What a rollback leaves in memory: heads and epochs are those the operation left.\<close>

definition rolled_back :: "control_state \<Rightarrow> control_state \<Rightarrow> control_state" where
  "rolled_back before after =
     (settled before)\<lparr>cs_heads := cs_heads after, cs_epochs := cs_epochs after\<rparr>"

definition undo ::
  "nat \<Rightarrow> control_state \<Rightarrow> authority_store \<Rightarrow> exn \<Rightarrow> control_state \<Rightarrow> 'a result \<times> authority_store" where
  "undo n s0 au e s = (Inl e, au\<lparr>au_state := rolled_back s0 s, au_revision := n\<rparr>)"

definition commit ::
  "world \<Rightarrow> store_config \<Rightarrow> nat \<Rightarrow> control_state \<Rightarrow> authority_store \<Rightarrow> 'a \<Rightarrow> nat \<Rightarrow> control_state
   \<Rightarrow> 'a result \<times> authority_store" where
  "commit w cfg n0 s0 au v n s =
     (let doc = snapshot w cfg (Suc n) s in
      if dumps doc = None
      then undo n0 s0 au (ValueError ''Out of range float values are not JSON compliant'') s
      else if sc_max_bytes cfg < doc_bytes doc
      then undo n0 s0 au (CapacityError ''authority state size quota reached'') s
      else (Inr v, \<lparr>au_row = Some (doc, w_sign w state_purpose doc), au_state = s, au_revision = Suc n\<rparr>))"

text \<open>The body sees the revision with the state, as rotation does.\<close>

definition transact ::
  "world \<Rightarrow> store_config \<Rightarrow> instant \<Rightarrow> bool \<Rightarrow> (nat \<Rightarrow> control_state \<Rightarrow> 'a result \<times> nat \<times> control_state)
   \<Rightarrow> authority_store \<Rightarrow> 'a result \<times> authority_store" where
  "transact w cfg now initialize body au =
     (case open_row w cfg initialize au of
        Inl e \<Rightarrow> (Inl e, au)
      | Inr (n0, s0) \<Rightarrow>
          (case prune_and_bound w cfg now s0 of
             (Inl e, s1) \<Rightarrow> undo n0 s0 au e s1
           | (Inr _, s1) \<Rightarrow>
               (case body n0 s1 of
                  (Inl e, n, s2) \<Rightarrow> undo n0 s0 au e s2
                | (Inr v, n, s2) \<Rightarrow>
                    (case prune_and_bound w cfg now s2 of
                       (Inl e, s3) \<Rightarrow> undo n0 s0 au e s3
                     | (Inr _, s3) \<Rightarrow> commit w cfg n0 s0 au v n s3))))"

definition transaction ::
  "world \<Rightarrow> store_config \<Rightarrow> instant \<Rightarrow> (control_state \<Rightarrow> 'a result \<times> control_state)
   \<Rightarrow> authority_store \<Rightarrow> 'a result \<times> authority_store" where
  "transaction w cfg now body au =
     transact w cfg now False (\<lambda>n s. case body s of (r, s') \<Rightarrow> (r, n, s')) au"

text \<open>Opening creates the row when the store is initialised and verifies it otherwise.\<close>

definition open_store ::
  "world \<Rightarrow> store_config \<Rightarrow> instant \<Rightarrow> bool \<Rightarrow> authority_store \<Rightarrow> unit result \<times> authority_store" where
  "open_store w cfg now initialize au = transact w cfg now initialize (\<lambda>n s. (Inr (), n, s)) au"

section \<open>Rotation and backup\<close>

text \<open>The snapshot moved to a new key: epochs advance and nothing issued survives.\<close>

definition rekeyed :: "control_state \<Rightarrow> control_state" where
  "rekeyed s =
     s\<lparr>cs_issued := [], cs_receipts := [], cs_reviews := [],
       cs_epochs := map (\<lambda>(k, n). (k, n + 1)) (cs_epochs s)\<rparr>"

fun require_all :: "actor \<Rightarrow> string list \<Rightarrow> control_state \<Rightarrow> unit result" where
  "require_all a [] s = Inr ()"
| "require_all a (t # ts) s = (case require a ADMIN t s of Inl e \<Rightarrow> Inl e | Inr _ \<Rightarrow> require_all a ts s)"

lemma require_all_ok: "require_all a ts s = Inr () \<Longrightarrow> t \<in> set ts \<Longrightarrow> require a ADMIN t s = Inr ()"
  by (induction ts) (auto split: sum.splits)

text \<open>\<open>w'\<close> and \<open>cfg'\<close> are the world and the configuration of the new seed and key.\<close>

definition replacement_store ::
  "world \<Rightarrow> world \<Rightarrow> store_config \<Rightarrow> instant \<Rightarrow> nat \<Rightarrow> control_state \<Rightarrow> unit result \<times> authority_store" where
  "replacement_store w w' cfg' now n s =
     andthen (open_store w' cfg' now True empty_store) (\<lambda>_ au.
       transact w' cfg' now False
         (\<lambda>n0 s0. case read_snapshot w' cfg' (snapshot w cfg' n (rekeyed s)) of
            None \<Rightarrow> (Inl (ValueError ''unsupported authority storage schema''), n0, s0)
          | Some (n', s') \<Rightarrow> (Inr (), n', s')) au)"

definition rekey ::
  "world \<Rightarrow> world \<Rightarrow> store_config \<Rightarrow> store_config \<Rightarrow> instant \<Rightarrow> bool \<Rightarrow> actor \<Rightarrow> authority_store
   \<Rightarrow> authority_store result \<times> authority_store" where
  "rekey w w' cfg cfg' now exists a au =
     (if exists \<or> sc_key_id cfg' = sc_key_id cfg
      then (Inl (ValueError ''rotation requires a new database and key identity''), au)
      else transact w cfg now False
        (\<lambda>n s. case require_all a (dict_keys (cs_policies s)) s of
            Inl e \<Rightarrow> (Inl e, n, s)
          | Inr _ \<Rightarrow>
              (case replacement_store w w' cfg' now n s of
                 (Inl e, _) \<Rightarrow> (Inl e, n, s)
               | (Inr _, copy) \<Rightarrow> (Inr copy, n, s))) au)"

definition backup ::
  "world \<Rightarrow> store_config \<Rightarrow> instant \<Rightarrow> bool \<Rightarrow> authority_store
   \<Rightarrow> (json \<times> string) option result \<times> authority_store" where
  "backup w cfg now exists au =
     (if exists then (Inl (ValueError ''backup destination must be new''), au)
      else andthen (open_store w cfg now False au) (\<lambda>_ au'. (Inr (au_row au'), au')))"

section \<open>Atomicity and durability\<close>

lemma undo_row [simp]: "au_row (snd (undo n s0 au e s)) = au_row au" "fst (undo n s0 au e s) = Inl e"
  by (simp_all add: undo_def)

lemma transact_cases:
  obtains (refused) e where "fst (transact w cfg now initialize body au) = Inl e"
      "au_row (snd (transact w cfg now initialize body au)) = au_row au"
  | (committed) n0 s0 v n s2 where
      "open_row w cfg initialize au = Inr (n0, s0)" "within_quota cfg (pruned w now s0)"
      "body n0 (pruned w now s0) = (Inr v, n, s2)" "within_quota cfg (pruned w now s2)"
      "doc_bytes (snapshot w cfg (Suc n) (pruned w now s2)) \<le> sc_max_bytes cfg"
      "transact w cfg now initialize body au =
        (Inr v, \<lparr>au_row = Some (snapshot w cfg (Suc n) (pruned w now s2),
                               w_sign w state_purpose (snapshot w cfg (Suc n) (pruned w now s2))),
                au_state = pruned w now s2, au_revision = Suc n\<rparr>)"
proof (cases "open_row w cfg initialize au")
  case (Inl e)
  then show ?thesis using refused by (simp add: transact_def)
next
  case (Inr ns)
  obtain n0 s0 where ns: "ns = (n0, s0)" by fastforce
  obtain r n s2 where body: "body n0 (pruned w now s0) = (r, n, s2)" by (metis surj_pair)
  let ?doc = "snapshot w cfg (Suc n) (pruned w now s2)"
  note defs = transact_def Inr ns prune_and_bound_def body commit_def Let_def
  show ?thesis
  proof (cases "within_quota cfg (pruned w now s0) \<and> is_ok r \<and> within_quota cfg (pruned w now s2)
      \<and> dumps ?doc \<noteq> None \<and> doc_bytes ?doc \<le> sc_max_bytes cfg")
    case True
    then obtain v where "r = Inr v" by (auto simp: is_ok_iff)
    with True show ?thesis by (intro committed [of n0 s0 v n s2]) (auto simp: defs)
  next
    case False
    then have "\<exists>e. fst (transact w cfg now initialize body au) = Inl e \<and>
        au_row (snd (transact w cfg now initialize body au)) = au_row au"
      by (cases r) (auto simp: defs)
    then show ?thesis using refused by blast
  qed
qed

text \<open>The environment the store relies on: signatures verify, texts are read back.\<close>

definition sound_world :: "world \<Rightarrow> bool" where
  "sound_world w \<longleftrightarrow>
     (\<forall>p v. w_verify w p v (w_sign w p v)) \<and> (\<forall>t. w_instant w (w_stamp w t) = t)"

lemma open_committed:
  assumes "sound_world w" and "tasks_keep (sc_texts cfg) s" and "au_row au = Some (snapshot w cfg n s, w_sign w state_purpose (snapshot w cfg n s))"
    and "doc_bytes (snapshot w cfg n s) \<le> sc_max_bytes cfg"
  shows "open_row w cfg initialize au = Inr (n, settled s)"
proof -
  have "read_snapshot w cfg (snapshot w cfg n s) = Some (n, settled s)"
    unfolding read_snapshot_def snapshot_def
    using assms(1,2) by (intro snapshot_round) (simp_all add: sound_world_def)
  then show ?thesis using assms by (simp add: open_row_def sound_world_def)
qed

lemma transact_durable:
  assumes "transact w cfg now initialize body au = (Inr v, au')" and "sound_world w" and "tasks_keep (sc_texts cfg) (au_state au')"
  shows "open_row w cfg initialize' au' = Inr (au_revision au', settled (au_state au'))"
proof (cases rule: transact_cases [of w cfg now initialize body au])
  case (refused e)
  then show ?thesis using assms by simp
next
  case (committed n0 s0 v' n s2)
  then have "au' = \<lparr>au_row = Some (snapshot w cfg (Suc n) (pruned w now s2),
      w_sign w state_purpose (snapshot w cfg (Suc n) (pruned w now s2))),
      au_state = pruned w now s2, au_revision = Suc n\<rparr>" using assms(1) by simp
  then show ?thesis using committed(5) assms(2,3)
    by (simp add: open_committed [where n = "Suc n" and s = "pruned w now s2"])
qed

section \<open>The invariant in the store\<close>

lemma map_of_filter_unique:
  assumes "distinct (map fst d)" and "map_of (filter (\<lambda>(_, r). P r) d) k = Some r"
  shows "map_of d k = Some r"
proof -
  have "(k, r) \<in> set d" using map_of_SomeD [OF assms(2)] by simp
  then show ?thesis using assms(1) by (simp add: map_of_eq_Some_iff)
qed

lemma pruned_frame [simp]:
  "cs_policies (pruned w now s) = cs_policies s" "cs_audits (pruned w now s) = cs_audits s"
  "cs_heads (pruned w now s) = cs_heads s" "cs_epochs (pruned w now s) = cs_epochs s"
  "cs_tasks (pruned w now s) = cs_tasks s" "cs_revoked (pruned w now s) = cs_revoked s"
  "cs_suspended (pruned w now s) = cs_suspended s"
  by (simp_all add: pruned_def)

lemma inv_pruned:
  assumes inv: "control_inv w s"
  shows "control_inv w (pruned w now s)"
proof -
  from inv have fine: "reviews_fine s" by (simp add: control_inv_def)
  have "map_of (cs_reviews s) k = Some r" if "map_of (cs_reviews (pruned w now s)) k = Some r" for k r
    using map_of_filter_unique [of "cs_reviews s"] that fine by (simp add: pruned_def reviews_fine_def)
  moreover have "distinct (map fst (cs_reviews (pruned w now s)))"
    using fine by (simp add: reviews_fine_def pruned_def distinct_map_filter)
  moreover have "epoch_of (pruned w now s) t = epoch_of s t" for t by (simp add: epoch_of_def)
  ultimately have "reviews_fine (pruned w now s)"
    using fine unfolding reviews_fine_def by metis
  then show ?thesis by (intro inv_frame [OF inv]) simp_all
qed

lemma settled_frame [simp]:
  "cs_policies (settled s) = cs_policies s" "cs_audits (settled s) = cs_audits s"
  "cs_heads (settled s) = cs_heads s" "cs_epochs (settled s) = cs_epochs s"
  "cs_reviews (settled s) = cs_reviews s" "cs_tasks (settled s) = cs_tasks s"
  "cs_issued (settled s) = cs_issued s" "cs_receipts (settled s) = cs_receipts s"
  "set (cs_revoked (settled s)) = set (cs_revoked s)" "set (cs_suspended (settled s)) = set (cs_suspended s)"
  by (simp_all add: settled_def)

lemma inv_settled: "control_inv w s \<Longrightarrow> control_inv w (settled s)"
  by (rule inv_frame) (auto simp: control_inv_def elim!: reviews_fine_cong simp: epoch_of_def)

text \<open>Operations that keep the invariant of the control plane keep it in the store.\<close>

definition store_sound :: "world \<Rightarrow> store_config \<Rightarrow> authority_store \<Rightarrow> bool" where
  "store_sound w cfg au \<longleftrightarrow>
     (\<forall>initialize n s. open_row w cfg initialize au = Inr (n, s) \<longrightarrow> control_inv w s)"

lemma open_row_cong: "au_row au' = au_row au \<Longrightarrow> au_row au \<noteq> None \<Longrightarrow> open_row w cfg i au' = open_row w cfg i au"
  by (auto simp: open_row_def)

lemma transact_sound:
  assumes world: "sound_world w" and texts: "tasks_keep (sc_texts cfg) (au_state au')" and sound: "store_sound w cfg au"
    and body: "\<And>n s r n' s'. control_inv w s \<Longrightarrow> body n s = (r, n', s') \<Longrightarrow> control_inv w s'"
    and run: "transact w cfg now initialize body au = (Inr v, au')"
  shows "store_sound w cfg au' \<and> control_inv w (au_state au')"
proof (cases rule: transact_cases [of w cfg now initialize body au])
  case (refused e)
  then show ?thesis using run by simp
next
  case (committed n0 s0 v' n s2)
  have "control_inv w s0" using sound committed(1) by (simp add: store_sound_def)
  then have "control_inv w s2" using body [OF inv_pruned committed(3)] by blast
  then have inv: "control_inv w (au_state au')" using committed(6) run by (simp add: inv_pruned)
  moreover have "open_row w cfg i au' = Inr (au_revision au', settled (au_state au'))" for i
    using transact_durable [OF run world texts] .
  ultimately show ?thesis by (auto simp: store_sound_def intro: inv_settled)
qed

end
