(* ===== verification/ControlFacts.thy ===== *)
theory ControlFacts
  imports ControlSafety
begin

text \<open>
  What the operations of the control plane and of the execution authority decide: when a
  policy becomes active, when an action is allowed, when a grant is issued and when it
  still holds.
\<close>

section \<open>Guards\<close>

lemma require_ok:
  "require a r t s = Inr () \<longleftrightarrow>
   t \<in> set (ac_tenants a) \<and> r \<in> set (ac_roles a) \<and>
   \<not> (r \<in> {AGENT, EXECUTOR} \<and> t \<in> set (cs_suspended s)) \<and>
   (\<forall>k. ac_key a = Some k \<and> k \<noteq> [] \<longrightarrow> (t, k) \<notin> set (cs_revoked s))"
  by (auto simp: require_def split: option.splits)

lemma require_cong:
  "cs_revoked s' = cs_revoked s \<Longrightarrow> cs_suspended s' = cs_suspended s \<Longrightarrow> require a r t s' = require a r t s"
  by (simp add: require_def split: option.split)

lemma require_raises: "require a r t s = Inl e \<Longrightarrow> \<exists>m. e = AuthorizationError m"
  by (auto simp: require_def split: if_splits option.splits)

lemma require_revoked:
  assumes "ac_key a = Some k" and "k \<noteq> []" and "(t, k) \<in> set (cs_revoked s)"
  shows "\<exists>m. require a r t s = Inl (AuthorizationError m)"
  using assms require_ok [of a r t s] require_raises [of a r t s] by (cases "require a r t s") auto

section \<open>The active policy\<close>

lemma find_filter: "find P xs = (case filter P xs of [] \<Rightarrow> None | x # _ \<Rightarrow> Some x)"
  by (induction xs) auto

lemma active_unique: "filter is_active (policies_of s t) = [p] \<Longrightarrow> active_policy s t = Some p"
  by (simp add: active_policy_def find_filter rev_filter [symmetric] is_active_def [abs_def])

lemma active_in: "active_policy s t = Some p \<Longrightarrow> p \<in> set (policies_of s t) \<and> pv_status p = ACTIVE"
  by (auto simp: active_policy_def find_Some_iff in_set_conv_nth rev_nth) (metis diff_Suc_less length_greater_0_conv length_rev list.size(3) not_less_zero rev_nth)

lemma filter_active_installed:
  assumes "find P ps = Some p" and "\<And>x. is_active (f x)" and "\<And>x. P (retire x) = P x"
  shows "filter is_active (update_first P f (map retire ps)) = [f (retire p)]"
  using assms(1)
proof (induction ps)
  case (Cons x ps)
  then show ?case using assms(2,3) retired_none_active by (cases "P x") auto
qed simp

lemma retire_inactive: "pv_status p \<noteq> ACTIVE \<Longrightarrow> retire p = p"
  by (simp add: retire_def)

lemma active_install:
  assumes "find_policy s t pid = Inr p" and "pv_status p \<noteq> ACTIVE"
  shows "active_policy (install w d ty t a pid s) t = Some (activate a (dw_now d) p)"
proof -
  from assms(1) have "find (\<lambda>p. pv_id p = pid) (policies_of s t) = Some p"
    by (auto simp: find_policy_def split: option.splits)
  then have "filter is_active (update_first (\<lambda>p. pv_id p = pid) (activate a (dw_now d)) (map retire (policies_of s t)))
      = [activate a (dw_now d) p]"
    using filter_active_installed [of "\<lambda>p. pv_id p = pid" "policies_of s t" p "activate a (dw_now d)"]
    by (simp add: retire_inactive [OF assms(2)] is_active_def activate_def) (simp add: retire_def)
  then show ?thesis
    by (intro active_unique) (simp add: install_def policies_of_def set_policies_def dict_get_def map_of_update bump_epoch_def)
qed

lemma epoch_install: "epoch_of (install w d ty t a pid s) t' = (if t' = t then epoch_of s t + 1 else epoch_of s t')"
  by (simp add: install_def epoch_bump) (simp add: epoch_of_def)

lemma approve_cases:
  assumes "approve_policy w d t a pid s = (Inr p, s')"
  obtains q where "find_policy s t pid = Inr q" "require a APPROVER t s = Inr ()"
    "pv_status q = PENDING_APPROVAL" "pv_created_by q \<noteq> ac_subject a" "p = activate a (dw_now d) q"
    "s' = install w d ''policy.activated'' t a pid s"
  using assms by (auto simp: approve_policy_def split: sum.splits if_split_asm)

section \<open>Decisions\<close>

lemma evaluate_fresh:
  assumes "evaluate w d a q s = (Inr r, s')" and "ac_key a = Some k"
    and "map_of (cs_receipts s) (receipt_key_of a k q) = None"
  shows "require a AGENT (aq_tenant q) s = Inr ()"
    and "\<forall>ops. ac_operations a = Some ops \<longrightarrow> aq_operation q \<in> set ops"
    and "decide_action w d a k q s = (Inr r, s')"
  using assms by (auto simp: evaluate_def split: sum.splits if_split_asm option.splits)

lemma decide_decision:
  "decide_action w d a k q s = (Inr r, s') \<Longrightarrow>
   dr_decision r = dr_decision (policy_decision w q s) \<and> dr_policy r = dr_policy (policy_decision w q s)"
  by (auto simp: decide_action_def Let_def split: if_split_asm)

lemma policy_decision_allow:
  assumes "dr_decision (policy_decision w q s) = ALLOW"
    and "\<And>p. active_policy s (aq_tenant q) = Some p \<Longrightarrow> valid_draft (pv_draft p)"
  obtains p r where "active_policy s (aq_tenant q) = Some p" "select_rule (pv_draft p) q = Some r"
    "pu_decision r = ALLOW"
  using assms by (auto simp: policy_decision_def mk_decision_def valid_draft_def split: option.splits)

lemma active_valid: "control_inv w s \<Longrightarrow> active_policy s t = Some p \<Longrightarrow> valid_draft (pv_draft p) \<and> 0 < epoch_of s t"
  using active_in [of s t p] by (auto simp: control_inv_def policies_fine_def)

section \<open>Frames of an evaluation\<close>

lemma append_audit_frame [simp]:
  "cs_policies (snd (append_audit w t ty who p i n s)) = cs_policies s"
  "cs_receipts (snd (append_audit w t ty who p i n s)) = cs_receipts s"
  "cs_epochs (snd (append_audit w t ty who p i n s)) = cs_epochs s"
  "cs_tasks (snd (append_audit w t ty who p i n s)) = cs_tasks s"
  "cs_issued (snd (append_audit w t ty who p i n s)) = cs_issued s"
  "cs_revoked (snd (append_audit w t ty who p i n s)) = cs_revoked s"
  "cs_suspended (snd (append_audit w t ty who p i n s)) = cs_suspended s"
  "cs_reviews (snd (append_audit w t ty who p i n s)) = cs_reviews s"
  by (simp_all add: append_audit_def Let_def)

lemma keep_receipt_suspended [simp]: "cs_suspended (keep_receipt w d a k q n r s) = cs_suspended s"
  by (simp add: keep_receipt_def)

lemma decide_frame:
  "cs_policies (snd (decide_action w d a k q s)) = cs_policies s"
  "cs_epochs (snd (decide_action w d a k q s)) = cs_epochs s"
  "cs_tasks (snd (decide_action w d a k q s)) = cs_tasks s"
  "cs_issued (snd (decide_action w d a k q s)) = cs_issued s"
  "cs_revoked (snd (decide_action w d a k q s)) = cs_revoked s"
  "cs_suspended (snd (decide_action w d a k q s)) = cs_suspended s"
  by (simp_all add: decide_action_def Let_def)

lemma evaluate_frame:
  "cs_policies (snd (evaluate w d a q s)) = cs_policies s"
  "cs_epochs (snd (evaluate w d a q s)) = cs_epochs s"
  "cs_tasks (snd (evaluate w d a q s)) = cs_tasks s"
  "cs_issued (snd (evaluate w d a q s)) = cs_issued s"
  "cs_revoked (snd (evaluate w d a q s)) = cs_revoked s"
  "cs_suspended (snd (evaluate w d a q s)) = cs_suspended s"
  by (simp_all add: evaluate_def decide_frame split: sum.split option.split)

lemma decide_receipt:
  assumes "decide_action w d a k q s = (Inr r, s')"
  shows "map_of (cs_receipts s') (receipt_key_of a k q) =
    Some \<lparr>re_digest = action_digest w q, re_epoch = epoch_of s (aq_tenant q),
          re_expires = dw_now d + seconds 300, re_result = r\<rparr>"
  using assms by (auto simp: decide_action_def Let_def keep_receipt_def map_of_update split: if_split_asm)

text \<open>Within five minutes the same request gets the same answer and changes nothing.\<close>

lemma evaluate_again:
  assumes run: "evaluate w d a q s = (Inr r, s')" and key: "ac_key a = Some k"
    and fresh: "map_of (cs_receipts s) (receipt_key_of a k q) = None"
    and now: "dw_now d' < dw_now d + seconds 300"
    and same: "aq_tenant q' = aq_tenant q" "aq_key q' = aq_key q" "action_digest w q' = action_digest w q"
      "aq_operation q' = aq_operation q"
  shows "evaluate w d' a q' s' = (Inr r, s')"
proof -
  note ev = evaluate_fresh [OF run key fresh]
  have s': "s' = snd (evaluate w d a q s)" by (simp add: run)
  have "require a AGENT (aq_tenant q) s' = Inr ()"
    unfolding s' using ev(1) require_cong [OF evaluate_frame(5,6)] by simp
  moreover have "epoch_of s' t = epoch_of s t" for t unfolding s' by (simp add: epoch_of_def evaluate_frame)
  moreover have "receipt_key_of a k q' = receipt_key_of a k q" by (simp add: receipt_key_of_def same)
  ultimately show ?thesis
    using ev(2) key now decide_receipt [OF ev(3)]
    by (auto simp: evaluate_def same split: option.split)
qed

section \<open>Grants\<close>

lemma task_of_ok:
  "task_of w a q s = Inr t \<longleftrightarrow>
   require a AGENT (aq_tenant q) s = Inr () \<and> aq_kind q = TOOL \<and>
   map_of (cs_tasks s) (aq_tenant q, aq_task q) = Some t \<and> ac_subject a = rt_principal t \<and>
   ac_key a = Some (rt_credential t) \<and> rt_domain t \<noteq> [] \<and> task_allows w t q"
  by (auto simp: task_of_def split: sum.splits option.splits if_split_asm)

lemma task_of_raises: "task_of w a q s = Inl e \<Longrightarrow> \<exists>m. e = AuthorizationError m"
  using require_raises [of a AGENT "aq_tenant q" s]
  by (auto simp: task_of_def split: sum.splits option.splits if_split_asm)

lemma validate_ok:
  "validate w now x q g s = Inr () \<longleftrightarrow>
   require x EXECUTOR (aq_tenant q) s = Inr () \<and> AGENT \<notin> set (ac_roles x) \<and> \<not> blank (ac_key x) \<and>
   grant_current w now x q g s \<and>
   (\<exists>t. task_of w (grant_principal g) q s = Inr t \<and> rt_domain t = eg_domain g \<and>
        ca_digest (rt_compiled t) = eg_authority g)"
  by (auto simp: validate_def split: sum.splits)

lemma validate_raises: "validate w now x q g s = Inl e \<Longrightarrow> \<exists>m. e = AuthorizationError m"
  using require_raises [of x EXECUTOR "aq_tenant q" s] task_of_raises [of w "grant_principal g" q s]
  by (auto simp: validate_def split: sum.splits if_split_asm)

lemma issue_cases:
  assumes "issue w d d' a q audience rid s = (Inr g, s')"
  obtains t dec s1 ro where "task_of w a q s = Inr t" "evaluate w d a q s = (Inr dec, s1)"
    "continuation w (dw_now d') a q rid dec s1 = Inr ro" "grant_for w d' a q audience t s1 = Inr g"
    "s' = audited w (aq_tenant q) ''execution.granted'' (ac_subject a)
            (JObj [(''nonce'', JStr (eg_nonce g)), (''action_digest'', JStr (eg_digest g)),
                   (''review_id'', opt_json JStr rid)]) d'
            (use_review (eg_nonce g) ro
              (s1\<lparr>cs_issued := AList.update (eg_nonce g) (grant_json (w_stamp w) g) (cs_issued s1)\<rparr>))"
proof (cases "task_of w a q s")
  case (Inl e)
  then show ?thesis using assms by (simp add: issue_def)
next
  case (Inr t)
  obtain r s1 where ev: "evaluate w d a q s = (r, s1)" by fastforce
  show ?thesis
    using assms Inr ev that by (cases r) (auto simp: issue_def split: sum.splits)
qed

lemma use_review_frame [simp]:
  "cs_tasks (use_review n ro s) = cs_tasks s" "cs_issued (use_review n ro s) = cs_issued s"
  "cs_epochs (use_review n ro s) = cs_epochs s" "cs_revoked (use_review n ro s) = cs_revoked s"
  "cs_suspended (use_review n ro s) = cs_suspended s"
  by (simp_all add: use_review_def put_review_def split: option.split)

lemma issue_frame:
  assumes "issue w d d' a q audience rid s = (Inr g, s')"
  shows "cs_tasks s' = cs_tasks s" "cs_epochs s' = cs_epochs s" "cs_revoked s' = cs_revoked s"
    "cs_suspended s' = cs_suspended s"
proof -
  obtain ro n dec s1 where ev: "evaluate w d a q s = (Inr dec, s1)"
    and s': "\<exists>t ty who p x. s' = audited w t ty who p d' (use_review n ro (s1\<lparr>cs_issued := x\<rparr>))"
    by (rule issue_cases [OF assms]) blast
  from ev have "s1 = snd (evaluate w d a q s)" by simp
  then show "cs_tasks s' = cs_tasks s" "cs_epochs s' = cs_epochs s" "cs_revoked s' = cs_revoked s"
    "cs_suspended s' = cs_suspended s"
    using s' by (auto simp: evaluate_frame)
qed

lemma grant_for_fields:
  assumes "grant_for w d a q audience t s = Inr g"
  shows "eg_tenant g = aq_tenant q" "eg_task g = aq_task q" "eg_agent g = ac_subject a"
    "ac_key a = Some k \<Longrightarrow> eg_key g = k" "eg_audience g = audience" "eg_domain g = rt_domain t"
    "eg_digest g = action_digest w q" "eg_authority g = ca_digest (rt_compiled t)"
    "eg_expires g = dw_now d + seconds 60" "eg_key_id g = execution_key_id" "eg_nonce g = dw_id d"
    "Some (eg_epoch g) = map_of (cs_epochs s) (aq_tenant q)" "eg_adapter g = rt_adapter t"
    "eg_signature g = w_sign w ''traceguard-execution-v1'' (grant_body (w_stamp w) g)"
    "\<exists>amount. payment_amount q = Inr amount \<and> eg_amount g = decimal_str amount"
    "active_policy s (aq_tenant q) \<noteq> None"
  using assms
  by (auto simp: grant_for_def sign_grant_def grant_body_def grant_fields_def Let_def split: option.splits sum.splits)

text \<open>A grant just issued validates, for its audience and until it expires.\<close>

lemma issue_validates:
  assumes run: "issue w d d' a q audience rid s = (Inr g, s')"
    and sign: "\<And>p v. w_verify w p v (w_sign w p v)"
    and x: "require x EXECUTOR (aq_tenant q) s' = Inr ()" "AGENT \<notin> set (ac_roles x)" "\<not> blank (ac_key x)"
      "ac_subject x = audience"
    and now: "now < dw_now d' + seconds 60"
  shows "validate w now x q g s' = Inr ()"
proof -
  obtain t dec s1 ro where t: "task_of w a q s = Inr t" and ev: "evaluate w d a q s = (Inr dec, s1)"
    and g: "grant_for w d' a q audience t s1 = Inr g"
    and s': "s' = audited w (aq_tenant q) ''execution.granted'' (ac_subject a)
            (JObj [(''nonce'', JStr (eg_nonce g)), (''action_digest'', JStr (eg_digest g)),
                   (''review_id'', opt_json JStr rid)]) d'
            (use_review (eg_nonce g) ro
              (s1\<lparr>cs_issued := AList.update (eg_nonce g) (grant_json (w_stamp w) g) (cs_issued s1)\<rparr>))"
    by (rule issue_cases [OF run])
  have s1: "s1 = snd (evaluate w d a q s)" by (simp add: ev)
  note f = grant_for_fields [OF g]
  have frame: "cs_tasks s' = cs_tasks s" "cs_revoked s' = cs_revoked s" "cs_suspended s' = cs_suspended s"
    "cs_epochs s' = cs_epochs s1"
    by (simp_all add: s' s1 evaluate_frame)
  have t': "require a AGENT (aq_tenant q) s = Inr ()" "ac_key a = Some (rt_credential t)" "aq_kind q = TOOL"
    "map_of (cs_tasks s) (aq_tenant q, aq_task q) = Some t" "ac_subject a = rt_principal t" "rt_domain t \<noteq> []"
    "task_allows w t q"
    using t by (simp_all add: task_of_ok)
  have "grant_current w now x q g s'"
    unfolding grant_current_def using f x(4) now sign frame(4) by (simp add: s' map_of_update)
  moreover have "task_of w (grant_principal g) q s' = Inr t"
    using t' f(3) f(4) [OF t'(2)] frame
    by (simp add: task_of_ok require_ok grant_principal_def f(1))
  ultimately show ?thesis using x f by (simp add: validate_ok)
qed

lemma issue_epoch:
  assumes "issue w d d' a q audience rid s = (Inr g, s')"
  shows "epoch_of s' (aq_tenant q) = eg_epoch g"
proof -
  obtain t dec s1 where ev: "evaluate w d a q s = (Inr dec, s1)" and g: "grant_for w d' a q audience t s1 = Inr g"
    by (rule issue_cases [OF assms]) blast
  from ev have "cs_epochs s1 = cs_epochs s'" using evaluate_frame(2) [of w d a q s] issue_frame(2) [OF assms] by simp
  with grant_for_fields(12) [OF g, symmetric] show ?thesis by (simp add: epoch_of_def dict_get_def)
qed

text \<open>A grant that continues an escalated action leaves its nonce in the review.\<close>

lemma issue_spends:
  assumes run: "issue w d d' a q audience (Some k) s = (Inr g, s')"
    and esc: "fst (evaluate w d a q s) = Inr dec" "dr_decision dec = ESCALATE"
    and inv: "control_inv w (snd (evaluate w d a q s))"
  shows "\<exists>r. map_of (cs_reviews s') k = Some r \<and> rv_nonce r = Some (eg_nonce g)"
proof -
  obtain ro dec' s1 where ev: "evaluate w d a q s = (Inr dec', s1)"
    and cont: "continuation w (dw_now d') a q (Some k) dec' s1 = Inr ro"
    and s': "\<exists>t ty who p x. s' = audited w t ty who p d' (use_review (eg_nonce g) ro (s1\<lparr>cs_issued := x\<rparr>))"
    by (rule issue_cases [OF run]) blast
  have "dr_decision dec' = ESCALATE" using esc ev by simp
  then have "\<exists>r. ro = Some r \<and> map_of (cs_reviews s1) k = Some r"
    using cont by (cases "map_of (cs_reviews s1) k") (auto simp: continuation_def split: if_split_asm)
  then obtain r where ro: "ro = Some r" and r: "map_of (cs_reviews s1) k = Some r" by blast
  have "rv_id r = k" using reviews_fineD [OF _ r] inv ev by (simp add: review_fine_def)
  then show ?thesis using s' by (auto simp: ro use_review_def put_review_def map_of_update)
qed

text \<open>A grant holds only in the epoch it was issued in.\<close>

lemma validate_epoch: "validate w now x q g s = Inr () \<Longrightarrow> eg_epoch g = epoch_of s (aq_tenant q)"
  by (auto simp: validate_ok grant_current_def epoch_of_def dict_get_def split: option.splits)

lemma epoch_steps:
  "revoke_credential w d t a c s = (Inr u, s') \<Longrightarrow> epoch_of s' t = epoch_of s t + 1"
  "suspend_tenant w d t a b s = (Inr u, s') \<Longrightarrow> epoch_of s' t = epoch_of s t + 1"
  "approve_policy w d t a pid s = (Inr p, s') \<Longrightarrow> epoch_of s' t = epoch_of s t + 1"
  "rollback w d t a pid s = (Inr p, s') \<Longrightarrow> epoch_of s' t = epoch_of s t + 1"
  by (auto simp: revoke_credential_def suspend_tenant_def approve_policy_def rollback_def epoch_bump
      epoch_install split: sum.splits if_split_asm) (simp_all add: epoch_of_def)

end
