(* ===== verification/Executor.thy ===== *)
theory Executor
  imports Grants LedgerSafety JsonText
begin

text \<open>
  \<open>executor.py\<close>: the reservation boundary of granted effects. The online validator, the
  adapter that dispatches and the provider lookup are the executor's callbacks, hence
  parameters: \<open>online n\<close> is the answer to the n-th validation, a dispatch returns text, a
  value that is not text (None) or raises. The state is the ledger, the number of online
  validations and the log of what was handed to the adapter, under the nonce of its grant.
\<close>

section \<open>The executor\<close>

record executor =
  xc_identity :: actor
  xc_key_id :: string
  xc_adapter :: string
  xc_store :: string

record executor_state =
  xs_ledger :: ledger_db
  xs_online :: nat
  xs_sent :: "(string \<times> action_request) list"

type_synonym online_check = "nat \<Rightarrow> actor \<Rightarrow> action_request \<Rightarrow> execution_grant \<Rightarrow> unit result"

type_synonym adapter = "action_request \<Rightarrow> string option result"

definition executor_open :: "executor \<Rightarrow> ledger_db \<Rightarrow> unit result" where
  "executor_open x db =
     (if EXECUTOR \<notin> set (ac_roles (xc_identity x)) \<or> AGENT \<in> set (ac_roles (xc_identity x))
      then Inl (ValueError ''executor requires a distinct executor identity'')
      else ledger_open (xc_store x) db)"

definition max_result :: nat where
  "max_result = 1048576"

text \<open>A result as the receipt keeps it.\<close>

definition sanitise :: "string \<Rightarrow> string" where
  "sanitise result =
     (case json_loads result of
        Some v \<Rightarrow> dumps_sorted (redact v)
      | None \<Rightarrow> redact_text default_redaction result)"

section \<open>Execution\<close>

definition grant_admits ::
  "world \<Rightarrow> executor \<Rightarrow> instant \<Rightarrow> actor \<Rightarrow> action_request \<Rightarrow> execution_grant \<Rightarrow> bool" where
  "grant_admits w x now caller q g \<longleftrightarrow>
     AGENT \<in> set (ac_roles caller) \<and> aq_tenant q \<in> set (ac_tenants caller) \<and>
     eg_tenant g = aq_tenant q \<and> eg_task g = aq_task q \<and>
     (ac_subject caller, ac_key caller) = (eg_agent g, Some (eg_key g)) \<and>
     (case ac_operations caller of None \<Rightarrow> True | Some ops \<Rightarrow> aq_operation q \<in> set ops) \<and>
     eg_audience g = ac_subject (xc_identity x) \<and> eg_key_id g = xc_key_id x \<and>
     eg_adapter g = xc_adapter x \<and> eg_domain g = xc_store x \<and> now < eg_expires g \<and>
     eg_digest g = action_digest w q \<and>
     w_verify w ''traceguard-execution-v1'' (grant_body (w_stamp w) g) (eg_signature g)"

definition effect_json :: "action_request \<Rightarrow> json" where
  "effect_json q =
     JObj [(''tool'', JStr (aq_operation q)), (''arguments'', JObj (aq_arguments q)),
           (''target'', opt_json JStr (aq_target q))]"

definition reserve_request ::
  "world \<Rightarrow> executor \<Rightarrow> actor \<Rightarrow> action_request \<Rightarrow> execution_grant \<Rightarrow> decimal \<Rightarrow> reserve_args" where
  "reserve_request w x caller q g amount =
     \<lparr>rq_scope = (aq_tenant q, ac_subject caller,
                  (case ac_key caller of None \<Rightarrow> [] | Some k \<Rightarrow> k), aq_task q),
      rq_nonce = eg_nonce g, rq_key = aq_key q, rq_digest = eg_digest g,
      rq_effect = hexdigest w (effect_json q), rq_amount = dec_val amount, rq_budget = None,
      rq_repeatable = eg_repeatable g, rq_policy = ''sanitized-receipt-v1:'' @ xc_adapter x\<rparr>"

text \<open>
  The budget reaches the ledger as text and is parsed where it is compared, after the other
  refusals: an infinite budget limits nothing, a negative infinite one is always exceeded, and a
  text that is no number raises; either way out rolls back.
\<close>

definition budget_value :: "string option \<Rightarrow> rat option result" where
  "budget_value b =
     (case b of
        None \<Rightarrow> Inr None
      | Some t \<Rightarrow>
          (case decimal_of_str t of
             Some (Dec m e) \<Rightarrow> Inr (Some (dec_val (Dec m e)))
           | Some (DInf negative) \<Rightarrow>
               if negative then Inl (AuthorizationError ''task budget is already spent or reserved'') else Inr None
           | _ \<Rightarrow> Inl (RuntimeError ''InvalidOperation'')))"

definition reserve_text ::
  "string \<Rightarrow> string option \<Rightarrow> reserve_args \<Rightarrow> ledger_db \<Rightarrow> replay option result \<times> ledger_db" where
  "reserve_text store b rq db =
     (case budget_value b of
        Inr l \<Rightarrow> reserve store (rq\<lparr>rq_budget := l\<rparr>) db
      | Inl e \<Rightarrow>
          (case reserve store (rq\<lparr>rq_budget := None\<rparr>) db of
             (Inr None, _) \<Rightarrow> (Inl e, db)
           | other \<Rightarrow> other))"

datatype execute_reply = Replayed replay | Executed string string

definition finish_state ::
  "executor \<Rightarrow> string \<Rightarrow> string \<Rightarrow> string option \<Rightarrow> string \<Rightarrow> executor_state \<Rightarrow> unit result \<times> executor_state" where
  "finish_state x nonce status result disposition st =
     (case finish (xc_store x) nonce status result disposition (xs_ledger st) of
        (r, db) \<Rightarrow> (r, st\<lparr>xs_ledger := db\<rparr>))"

text \<open>An \<open>except\<close> block that records the outcome and raises.\<close>

definition fail_with :: "executor \<Rightarrow> string \<Rightarrow> string \<Rightarrow> exn \<Rightarrow> executor_state \<Rightarrow> 'a result \<times> executor_state" where
  "fail_with x nonce status e st =
     andthen (finish_state x nonce status None ''review_required'' st) (\<lambda>_ st'. (Inl e, st'))"

definition dispatch_effect ::
  "executor \<Rightarrow> adapter \<Rightarrow> action_request \<Rightarrow> string \<Rightarrow> executor_state \<Rightarrow> execute_reply result \<times> executor_state" where
  "dispatch_effect x dispatch q nonce st =
     (let st1 = st\<lparr>xs_sent := xs_sent st @ [(nonce, q)]\<rparr>;
          lost = fail_with x nonce ''unknown''
            (ExecutionUnknown ''dispatch outcome is unknown; reconcile with the provider before retry'') st1
      in case dispatch q of
           Inl _ \<Rightarrow> lost
         | Inr None \<Rightarrow> lost
         | Inr (Some result) \<Rightarrow>
             if max_result < length result then lost
             else andthen (finish_state x nonce ''succeeded'' (Some (sanitise result)) ''accepted_for_agent'' st1)
                    (\<lambda>_ st'. (Inr (Executed nonce (sanitise result)), st')))"

definition validated_dispatch ::
  "executor \<Rightarrow> online_check \<Rightarrow> adapter \<Rightarrow> action_request \<Rightarrow> execution_grant \<Rightarrow> executor_state
   \<Rightarrow> execute_reply result \<times> executor_state" where
  "validated_dispatch x online dispatch q g st =
     (let st1 = st\<lparr>xs_online := Suc (xs_online st)\<rparr> in
      case online (xs_online st) (xc_identity x) q g of
        Inl e \<Rightarrow> fail_with x (eg_nonce g) ''not_dispatched'' e st1
      | Inr _ \<Rightarrow> dispatch_effect x dispatch q (eg_nonce g) st1)"

definition execute_grant ::
  "world \<Rightarrow> executor \<Rightarrow> online_check \<Rightarrow> adapter \<Rightarrow> instant \<Rightarrow> actor \<Rightarrow> action_request \<Rightarrow> execution_grant
   \<Rightarrow> executor_state \<Rightarrow> execute_reply result \<times> executor_state" where
  "execute_grant w x online dispatch now caller q g st =
     (if \<not> grant_admits w x now caller q g
      then (Inl (AuthorizationError ''execution grant does not authorize this caller and action''), st)
      else
        (let st1 = st\<lparr>xs_online := Suc (xs_online st)\<rparr> in
         case online (xs_online st) (xc_identity x) q g of
           Inl e \<Rightarrow> (Inl e, st1)
         | Inr _ \<Rightarrow>
             (case payment_amount q of
                Inl e \<Rightarrow> (Inl e, st1)
              | Inr amount \<Rightarrow>
                  if decimal_str amount \<noteq> eg_amount g
                  then (Inl (AuthorizationError ''grant amount mismatches the requested effect''), st1)
                  else
                    (case reserve_text (xc_store x) (eg_budget g) (reserve_request w x caller q g amount)
                            (xs_ledger st1) of
                       (Inl e, db) \<Rightarrow> (Inl e, st1\<lparr>xs_ledger := db\<rparr>)
                     | (Inr (Some r), db) \<Rightarrow> (Inr (Replayed r), st1\<lparr>xs_ledger := db\<rparr>)
                     | (Inr None, db) \<Rightarrow>
                         validated_dispatch x online dispatch q g (st1\<lparr>xs_ledger := db\<rparr>)))))"

section \<open>Reconciliation\<close>

record provider_receipt =
  pt_digest :: string
  pt_reference :: string
  pt_status :: string
  pt_result :: "string option"

definition receipt_result :: "string option \<Rightarrow> string option result" where
  "receipt_result r =
     (case r of
        None \<Rightarrow> Inr None
      | Some t \<Rightarrow> if max_result < length t then Inl (ValueError ''provider receipt exceeds limit'')
                  else Inr (Some (sanitise t)))"

definition reconcile_grant ::
  "executor \<Rightarrow> (exec_row \<Rightarrow> string \<Rightarrow> provider_receipt result) option \<Rightarrow> actor \<Rightarrow> string \<Rightarrow> string \<Rightarrow> bool
   \<Rightarrow> executor_state \<Rightarrow> exec_row result \<times> executor_state" where
  "reconcile_grant x provider operator nonce reference fenced st =
     (case lookup (xc_store x) nonce (xs_ledger st) of
        Inl e \<Rightarrow> (Inl e, st)
      | Inr row \<Rightarrow>
          if REVIEWER \<notin> set (ac_roles operator) \<or> AGENT \<in> set (ac_roles operator)
             \<or> er_tenant row \<notin> set (ac_tenants operator)
          then (Inl (AuthorizationError ''reconciliation requires a separate tenant reviewer''), st)
          else (case provider of
             None \<Rightarrow> (Inl (AuthorizationError ''authoritative provider reconciliation is not configured''), st)
           | Some ask \<Rightarrow>
               (case ask row reference of
                  Inl e \<Rightarrow> (Inl e, st)
                | Inr r \<Rightarrow>
                    if pt_digest r \<noteq> er_digest row \<or> pt_reference r \<noteq> reference
                    then (Inl (AuthorizationError ''provider receipt does not bind the reserved action''), st)
                    else (case receipt_result (pt_result r) of
                       Inl e \<Rightarrow> (Inl e, st)
                     | Inr result \<Rightarrow>
                         (case reconcile (xc_store x) nonce (pt_status r) result (ac_subject operator) reference fenced
                                 (if pt_status r = ''succeeded'' then ''accepted_for_agent'' else ''review_required'')
                                 (xs_ledger st) of
                            (res, db) \<Rightarrow> (res, st\<lparr>xs_ledger := db\<rparr>))))))"

end
