(* ===== verification/ExecutorSafety.thy ===== *)
theory ExecutorSafety
  imports Executor
begin

text \<open>
  What the executor promises: an effect leaves at most once, under a fresh reservation and
  two online validations, and its row then records the outcome. Every step on the ledger is
  a sequence of ledger operations, so the ledger's invariant and order carry over.
\<close>

section \<open>Steps on the ledger\<close>

definition executor_kept :: "executor \<Rightarrow> executor_state \<Rightarrow> executor_state \<Rightarrow> bool" where
  "executor_kept x st st' \<longleftrightarrow>
     xs_sent st' = xs_sent st \<and> reached (ledger_step (xc_store x)) (xs_ledger st) (xs_ledger st')"

lemma executor_kept_refl [simp]: "executor_kept x st st"
  by (simp add: executor_kept_def reached_refl)

lemma kept_online [simp]: "executor_kept x st (st\<lparr>xs_online := n\<rparr>)"
  by (simp add: executor_kept_def reached_refl)

lemma executor_kept_trans: "executor_kept x a b \<Longrightarrow> executor_kept x b c \<Longrightarrow> executor_kept x a c"
  by (auto simp: executor_kept_def intro: reached_trans)

lemma reached_op: "reached (ledger_step sid) db (apply_op sid op db)"
  by (rule reached_one, rule step_op)

lemma reserve_reached: "reached (ledger_step sid) db (snd (reserve sid q db))"
  using reached_op [of sid db "OpReserve q"] by simp

lemma finish_reached: "reached (ledger_step sid) db (snd (finish sid n s r d db))"
  using reached_op [of sid db "OpFinish n s r d"] by simp

lemma reconcile_reached: "reached (ledger_step sid) db (snd (reconcile sid n s r a ref fenced d db))"
  using reached_op [of sid db "OpReconcile n s r a ref fenced d"] by simp

lemma finish_kept: "executor_kept x st (snd (finish_state x n s r d st))"
  using finish_reached [of "xc_store x" "xs_ledger st" n s r d]
  by (cases "finish (xc_store x) n s r d (xs_ledger st)") (simp add: finish_state_def executor_kept_def)

lemma fail_kept: "executor_kept x st (snd (fail_with x n s e st))"
  unfolding fail_with_def by (rule andthen_keeps) (simp_all add: finish_kept)

lemma fail_raises: "\<exists>e'. fst (fail_with x n s e st) = Inl e'"
  unfolding fail_with_def by (cases "finish_state x n s None ''review_required'' st"; cases "fst (finish_state x n s None ''review_required'' st)") auto

section \<open>The reservation\<close>

definition executor_request ::
  "world \<Rightarrow> executor \<Rightarrow> actor \<Rightarrow> action_request \<Rightarrow> execution_grant \<Rightarrow> decimal \<Rightarrow> rat option \<Rightarrow> reserve_args" where
  "executor_request w x caller q g amount l = (reserve_request w x caller q g amount)\<lparr>rq_budget := l\<rparr>"

lemma reserve_text_fresh:
  "reserve_text sid b rq db = (Inr None, db') \<Longrightarrow>
   \<exists>l. budget_value b = Inr l \<and> admissible sid (rq\<lparr>rq_budget := l\<rparr>) db
     \<and> db' = db\<lparr>ld_rows := ld_rows db @ [new_row (rq\<lparr>rq_budget := l\<rparr>)]\<rparr>"
proof -
  assume run: "reserve_text sid b rq db = (Inr None, db')"
  then obtain l where l: "budget_value b = Inr l" and res: "reserve sid (rq\<lparr>rq_budget := l\<rparr>) db = (Inr None, db')"
    by (auto simp: reserve_text_def split: sum.splits prod.splits option.splits)
  from res have adm: "admissible sid (rq\<lparr>rq_budget := l\<rparr>) db"
    by (simp flip: reserve_fresh_iff)
  from reserve_fresh_state [OF adm] res l adm show ?thesis by simp
qed

lemma reserve_text_reached: "reached (ledger_step sid) db (snd (reserve_text sid b rq db))"
  using reserve_reached [of sid db]
  by (auto simp: reserve_text_def reached_refl split: sum.split prod.split option.split) (metis snd_conv)+

lemma request_fields [simp]:
  "rq_nonce (executor_request w x caller q g amount l) = eg_nonce g"
  "rq_key (executor_request w x caller q g amount l) = aq_key q"
  "rq_digest (executor_request w x caller q g amount l) = eg_digest g"
  by (simp_all add: executor_request_def reserve_request_def)

text \<open>Right after its reservation a row is finished with any valid outcome.\<close>

definition valid_outcome :: "string \<Rightarrow> string option \<Rightarrow> string \<Rightarrow> bool" where
  "valid_outcome status result disposition \<longleftrightarrow>
     (status, result, disposition) = (''unknown'', None, ''review_required'') \<or>
     (status, result, disposition) = (''not_dispatched'', None, ''review_required'') \<or>
     (status, disposition) = (''succeeded'', ''accepted_for_agent'') \<and> result \<noteq> None"

lemma connection_rows: "ledger_connection sid (db\<lparr>ld_rows := rs\<rparr>) = ledger_connection sid db"
proof -
  have "check_file (db\<lparr>ld_rows := rs\<rparr>) = check_file db" by (simp add: check_file_def)
  then show ?thesis by (cases "check_file db") (simp_all add: ledger_connection_def)
qed

lemma finish_after_reserve:
  assumes adm: "admissible sid q db" and out: "valid_outcome status result disposition"
  shows "finish sid (rq_nonce q) status result disposition (db\<lparr>ld_rows := ld_rows db @ [new_row q]\<rparr>) =
    (Inr (), db\<lparr>ld_rows := ld_rows db @ [set_outcome status result disposition (new_row q)]\<rparr>)"
proof -
  have conn: "ledger_connection sid (db\<lparr>ld_rows := rs\<rparr>) = Inr ()" for rs
    using adm connection_rows by (simp add: admissible_def)
  have other: "\<not> finish_ready (rq_nonce q) r" if "r \<in> set (ld_rows db)" for r
    using adm that by (auto simp: admissible_def matches_key_def finish_ready_def)
  have new: "finish_ready (rq_nonce q) (new_row q)"
    by (simp add: finish_ready_def new_row_def Let_def split: prod.split)
  have count: "rowcount (finish_ready (rq_nonce q)) (ld_rows db @ [new_row q]) = 1"
    using other new by (simp add: rowcount_def filter_empty_conv)
  have upd: "update_rows (finish_ready (rq_nonce q)) f (ld_rows db @ [new_row q]) = ld_rows db @ [f (new_row q)]" for f
    using other new by (simp add: update_rows_def map_idI)
  have guards: "status \<in> {''succeeded'', ''unknown'', ''not_dispatched''}"
    "disposition \<in> {''pending_review'', ''accepted_for_agent'', ''withheld'', ''review_required''}"
    "\<not> (disposition = ''accepted_for_agent'' \<and> (status \<noteq> ''succeeded'' \<or> result = None))"
    using out by (auto simp: valid_outcome_def)
  show ?thesis
    unfolding finish_def if_not_P [OF guards(3)] conn sum.case
    using guards(1,2) count upd by (simp del: insert_iff)
qed

section \<open>The two ways of an execution\<close>

text \<open>Nothing left, or one effect left and its row is the last of the ledger.\<close>

definition execution_dispatched ::
  "world \<Rightarrow> executor \<Rightarrow> online_check \<Rightarrow> adapter \<Rightarrow> instant \<Rightarrow> actor \<Rightarrow> action_request \<Rightarrow> execution_grant
   \<Rightarrow> executor_state \<Rightarrow> execute_reply result \<Rightarrow> executor_state \<Rightarrow> bool" where
  "execution_dispatched w x online dispatch now caller q g st res st' \<longleftrightarrow>
     grant_admits w x now caller q g \<and>
     online (xs_online st) (xc_identity x) q g = Inr () \<and>
     online (Suc (xs_online st)) (xc_identity x) q g = Inr () \<and>
     (\<exists>amount l status result disposition.
        payment_amount q = Inr amount \<and> decimal_str amount = eg_amount g \<and>
        budget_value (eg_budget g) = Inr l \<and>
        admissible (xc_store x) (executor_request w x caller q g amount l) (xs_ledger st) \<and>
        valid_outcome status result disposition \<and> status \<noteq> ''not_dispatched'' \<and>
        (\<forall>t. res = Inr (Executed (eg_nonce g) t) \<longleftrightarrow> status = ''succeeded'' \<and> result = Some t) \<and>
        st' = \<lparr>xs_ledger = (xs_ledger st)\<lparr>ld_rows := ld_rows (xs_ledger st)
                 @ [set_outcome status result disposition
                      (new_row (executor_request w x caller q g amount l))]\<rparr>,
               xs_online = Suc (Suc (xs_online st)), xs_sent = xs_sent st @ [(eg_nonce g, q)]\<rparr>)"

lemma dispatch_effect_outcome:
  assumes adm: "admissible (xc_store x) rq db" and st: "xs_ledger st = db\<lparr>ld_rows := ld_rows db @ [new_row rq]\<rparr>"
    and run: "dispatch_effect x dispatch q (rq_nonce rq) st = (res, st')"
  shows "\<exists>status result disposition. valid_outcome status result disposition \<and> status \<noteq> ''not_dispatched'' \<and>
    (\<forall>t. res = Inr (Executed (rq_nonce rq) t) \<longleftrightarrow> status = ''succeeded'' \<and> result = Some t) \<and>
    st' = \<lparr>xs_ledger = db\<lparr>ld_rows := ld_rows db @ [set_outcome status result disposition (new_row rq)]\<rparr>,
           xs_online = xs_online st, xs_sent = xs_sent st @ [(rq_nonce rq, q)]\<rparr>"
proof -
  let ?st1 = "st\<lparr>xs_sent := xs_sent st @ [(rq_nonce rq, q)]\<rparr>"
  have fin: "finish_state x (rq_nonce rq) s r d ?st1 =
      (Inr (), ?st1\<lparr>xs_ledger := db\<lparr>ld_rows := ld_rows db @ [set_outcome s r d (new_row rq)]\<rparr>\<rparr>)"
    if "valid_outcome s r d" for s r d
    using finish_after_reserve [OF adm that] by (simp add: finish_state_def st)
  have unknown: "valid_outcome ''unknown'' None ''review_required''" by (simp add: valid_outcome_def)
  have succ: "valid_outcome ''succeeded'' (Some t) ''accepted_for_agent''" for t
    by (simp add: valid_outcome_def)
  consider (lost) e where "fail_with x (rq_nonce rq) ''unknown'' e ?st1 = (res, st')"
    | (ok) t where "res = Inr (Executed (rq_nonce rq) (sanitise t))"
      "st' = ?st1\<lparr>xs_ledger := db\<lparr>ld_rows := ld_rows db
         @ [set_outcome ''succeeded'' (Some (sanitise t)) ''accepted_for_agent'' (new_row rq)]\<rparr>\<rparr>"
    using run fin [OF succ] unfolding dispatch_effect_def Let_def
    by (auto split: sum.splits option.splits if_split_asm)
  then show ?thesis
  proof cases
    case lost
    then have "res = Inl e" "st' = ?st1\<lparr>xs_ledger := db\<lparr>ld_rows := ld_rows db
        @ [set_outcome ''unknown'' None ''review_required'' (new_row rq)]\<rparr>\<rparr>"
      using fin [OF unknown] by (simp_all add: fail_with_def)
    then show ?thesis using unknown
      by (intro exI [of _ "''unknown''"] exI [of _ "None"] exI [of _ "''review_required''"]) simp
  next
    case ok
    then show ?thesis using succ
      by (intro exI [of _ "''succeeded''"] exI [of _ "Some (sanitise t)"] exI [of _ "''accepted_for_agent''"]) auto
  qed
qed

lemma validated_dispatch_cases:
  assumes adm: "admissible (xc_store x) rq (xs_ledger st)"
    and run: "validated_dispatch x online dispatch q g
        (st\<lparr>xs_online := n, xs_ledger := (xs_ledger st)\<lparr>ld_rows := ld_rows (xs_ledger st) @ [new_row rq]\<rparr>\<rparr>) = (res, st')"
    and nonce: "rq_nonce rq = eg_nonce g"
  obtains (refused) "executor_kept x st st'" "is_ok res = False"
  | (sent) status result disposition where
      "online n (xc_identity x) q g = Inr ()" "valid_outcome status result disposition" "status \<noteq> ''not_dispatched''"
      "\<forall>t. res = Inr (Executed (eg_nonce g) t) \<longleftrightarrow> status = ''succeeded'' \<and> result = Some t"
      "st' = \<lparr>xs_ledger = (xs_ledger st)\<lparr>ld_rows := ld_rows (xs_ledger st) @ [set_outcome status result disposition (new_row rq)]\<rparr>,
             xs_online = Suc n, xs_sent = xs_sent st @ [(eg_nonce g, q)]\<rparr>"
proof (cases "online n (xc_identity x) q g")
  case (Inl e)
  let ?st1 = "st\<lparr>xs_ledger := (xs_ledger st)\<lparr>ld_rows := ld_rows (xs_ledger st) @ [new_row rq]\<rparr>, xs_online := Suc n\<rparr>"
  have "fail_with x (eg_nonce g) ''not_dispatched'' e ?st1 = (res, st')"
    using run by (simp add: validated_dispatch_def Inl)
  moreover have "executor_kept x st ?st1"
    using reserve_reached [of "xc_store x" "xs_ledger st" rq] reserve_fresh_state [OF adm]
    by (simp add: executor_kept_def)
  ultimately have "executor_kept x st st'" "\<exists>e'. res = Inl e'"
    using executor_kept_trans [OF _ fail_kept] fail_raises by (metis snd_conv, metis fst_conv)
  then show ?thesis using refused by auto
next
  case (Inr u)
  let ?st1 = "st\<lparr>xs_ledger := (xs_ledger st)\<lparr>ld_rows := ld_rows (xs_ledger st) @ [new_row rq]\<rparr>, xs_online := Suc n\<rparr>"
  have "dispatch_effect x dispatch q (rq_nonce rq) ?st1 = (res, st')"
    using run by (simp add: validated_dispatch_def Inr nonce)
  from dispatch_effect_outcome [OF adm _ this] show ?thesis
    using sent Inr by (auto simp: nonce)
qed

lemma execute_grant_cases:
  assumes run: "execute_grant w x online dispatch now caller q g st = (res, st')"
  obtains (kept) "executor_kept x st st'" "\<forall>n t. res \<noteq> Inr (Executed n t)"
    | (sent) "execution_dispatched w x online dispatch now caller q g st res st'"
proof (cases "grant_admits w x now caller q g \<and> online (xs_online st) (xc_identity x) q g = Inr ()
    \<and> (\<exists>amount. payment_amount q = Inr amount \<and> decimal_str amount = eg_amount g)")
  case False
  have "executor_kept x st st' \<and> (\<forall>n t. res \<noteq> Inr (Executed n t))"
  proof (cases "grant_admits w x now caller q g")
    case True
    with False run show ?thesis
      by (auto simp: execute_grant_def Let_def split: sum.splits if_split_asm)
  qed (use run in \<open>auto simp: execute_grant_def\<close>)
  then show ?thesis using kept by blast
next
  case True
  then obtain amount where adm: "grant_admits w x now caller q g"
    and on: "online (xs_online st) (xc_identity x) q g = Inr ()"
    and amount: "payment_amount q = Inr amount" "decimal_str amount = eg_amount g" by blast
  define rq where "rq = reserve_request w x caller q g amount"
  obtain r db where r: "reserve_text (xc_store x) (eg_budget g) rq (xs_ledger st) = (r, db)" by fastforce
  have re: "reached (ledger_step (xc_store x)) (xs_ledger st) db"
    using reserve_text_reached [of "xc_store x" "xs_ledger st" "eg_budget g" rq] by (simp add: r)
  let ?st2 = "st\<lparr>xs_online := Suc (xs_online st), xs_ledger := db\<rparr>"
  have unfolded: "(case r of Inl e \<Rightarrow> (Inl e, ?st2) | Inr (Some rp) \<Rightarrow> (Inr (Replayed rp), ?st2)
      | Inr None \<Rightarrow> validated_dispatch x online dispatch q g ?st2) = (res, st')"
    using run adm on amount r
    by (cases r) (simp_all add: execute_grant_def rq_def [symmetric] Let_def split: option.split_asm)
  show ?thesis
  proof (cases "r = Inr None")
    case False
    then have "executor_kept x st st' \<and> (\<forall>n t. res \<noteq> Inr (Executed n t))"
      using unfolded re by (auto simp: executor_kept_def split: sum.splits option.splits)
    then show ?thesis using kept by blast
  next
    case True
    from reserve_text_fresh [of "xc_store x" "eg_budget g" rq "xs_ledger st" db] r True
    obtain l where l: "budget_value (eg_budget g) = Inr l"
      and admiss: "admissible (xc_store x) (executor_request w x caller q g amount l) (xs_ledger st)"
      and db: "db = (xs_ledger st)\<lparr>ld_rows := ld_rows (xs_ledger st) @ [new_row (executor_request w x caller q g amount l)]\<rparr>"
      by (auto simp: executor_request_def rq_def)
    from unfolded True have v: "validated_dispatch x online dispatch q g
        (st\<lparr>xs_online := Suc (xs_online st), xs_ledger := db\<rparr>) = (res, st')" by simp
    from admiss v [unfolded db] request_fields(1) show ?thesis
    proof (cases rule: validated_dispatch_cases)
      case refused
      then have "executor_kept x st st'" "\<forall>n t. res \<noteq> Inr (Executed n t)" by auto
      then show ?thesis by (rule kept)
    next
      case (sent status result disposition)
      then show ?thesis using adm on amount l admiss by (intro that(2)) (auto simp: execution_dispatched_def)
    qed
  qed
qed

section \<open>The state machine\<close>

inductive executor_step :: "executor \<Rightarrow> executor_state \<Rightarrow> executor_state \<Rightarrow> bool" for x where
  step_execute: "executor_step x st (snd (execute_grant w x online dispatch now caller q g st))"
| step_reconcile: "executor_step x st (snd (reconcile_grant x provider operator nonce reference fenced st))"

inductive_cases executor_stepE: "executor_step x st st'"

definition sent_nonces :: "executor_state \<Rightarrow> string list" where
  "sent_nonces st = map fst (xs_sent st)"

text \<open>Each nonce left once, and its reservation is in the ledger.\<close>

definition executor_inv :: "executor_state \<Rightarrow> bool" where
  "executor_inv st \<longleftrightarrow>
     ledger_inv (xs_ledger st) \<and> distinct (sent_nonces st) \<and>
     set (sent_nonces st) \<subseteq> er_nonce ` set (ld_rows (xs_ledger st))"

definition executor_le :: "executor_state \<Rightarrow> executor_state \<Rightarrow> bool" where
  "executor_le st st' \<longleftrightarrow> prefix (xs_sent st) (xs_sent st') \<and> ledger_le (xs_ledger st) (xs_ledger st')"

lemma reconcile_kept: "executor_kept x st (snd (reconcile_grant x provider operator nonce reference fenced st))"
proof -
  have rec: "executor_kept x st (st\<lparr>xs_ledger := snd (reconcile (xc_store x) n s r a ref f d (xs_ledger st))\<rparr>)"
    for n s r a ref f d
    by (simp add: executor_kept_def reconcile_reached)
  show ?thesis
    using rec by (auto simp: reconcile_grant_def split: sum.split option.split prod.split) (metis snd_conv)+
qed

lemma kept_sound:
  assumes "executor_kept x st st'" and "executor_inv st"
  shows "executor_inv st' \<and> executor_le st st'"
proof -
  from assms have re: "reached (ledger_step (xc_store x)) (xs_ledger st) (xs_ledger st')"
    and inv: "ledger_inv (xs_ledger st)" and sent: "xs_sent st' = xs_sent st"
    by (simp_all add: executor_kept_def executor_inv_def)
  note le = ledger.reached_rel [OF re inv] and inv' = ledger.reached_inv [OF re inv]
  show ?thesis
    using assms(2) subset_trans [OF _ ledger_le_nonces [OF le]] le inv' sent
    by (simp add: executor_inv_def executor_le_def sent_nonces_def)
qed

lemma new_row_nonce [simp]: "er_nonce (new_row rq) = rq_nonce rq"
  by (simp add: new_row_def Let_def split: prod.split)

lemma set_outcome_nonce [simp]: "er_nonce (set_outcome s r d row) = er_nonce row"
  by (simp add: set_outcome_def)

lemma outcome_row:
  assumes inv: "ledger_inv db" and adm: "admissible sid rq db" and out: "valid_outcome s r d"
  shows "ledger_inv (db\<lparr>ld_rows := ld_rows db @ [set_outcome s r d (new_row rq)]\<rparr>)"
    and "ledger_le db (db\<lparr>ld_rows := ld_rows db @ [set_outcome s r d (new_row rq)]\<rparr>)"
proof -
  let ?db1 = "db\<lparr>ld_rows := ld_rows db @ [new_row rq]\<rparr>"
  have "reached (ledger_step sid) db ?db1"
    using reserve_reached [of sid db rq] by (simp add: reserve_fresh_state [OF adm])
  moreover have "reached (ledger_step sid) ?db1 (db\<lparr>ld_rows := ld_rows db @ [set_outcome s r d (new_row rq)]\<rparr>)"
    using finish_reached [of sid ?db1 "rq_nonce rq" s r d] by (simp add: finish_after_reserve [OF adm out])
  ultimately have re: "reached (ledger_step sid) db (db\<lparr>ld_rows := ld_rows db @ [set_outcome s r d (new_row rq)]\<rparr>)"
    using reached_trans by metis
  show "ledger_inv (db\<lparr>ld_rows := ld_rows db @ [set_outcome s r d (new_row rq)]\<rparr>)"
    and "ledger_le db (db\<lparr>ld_rows := ld_rows db @ [set_outcome s r d (new_row rq)]\<rparr>)"
    by (rule ledger.reached_inv [OF re inv], rule ledger.reached_rel [OF re inv])
qed

lemma sent_sound:
  assumes d: "execution_dispatched w x online dispatch now caller q g st res st'" and inv: "executor_inv st"
  shows "executor_inv st' \<and> executor_le st st'"
proof -
  from d obtain rq s r dd where nonce: "rq_nonce rq = eg_nonce g"
    and adm: "admissible (xc_store x) rq (xs_ledger st)" and out: "valid_outcome s r dd"
    and ledger: "xs_ledger st' = (xs_ledger st)\<lparr>ld_rows := ld_rows (xs_ledger st) @ [set_outcome s r dd (new_row rq)]\<rparr>"
    and sent: "xs_sent st' = xs_sent st @ [(eg_nonce g, q)]"
    unfolding execution_dispatched_def by (metis executor_state.select_convs request_fields(1))
  from inv have li: "ledger_inv (xs_ledger st)" by (simp add: executor_inv_def)
  have new: "eg_nonce g \<notin> er_nonce ` set (ld_rows (xs_ledger st))"
    using adm nonce by (auto simp: admissible_def matches_key_def)
  from inv new show ?thesis
    using outcome_row [OF li adm out]
    by (auto simp: executor_inv_def executor_le_def sent_nonces_def ledger sent nonce)
qed

lemma execute_sound:
  assumes inv: "executor_inv st"
  shows "executor_inv (snd (execute_grant w x online dispatch now caller q g st))
    \<and> executor_le st (snd (execute_grant w x online dispatch now caller q g st))"
proof -
  obtain res st' where run: "execute_grant w x online dispatch now caller q g st = (res, st')" by fastforce
  then have "executor_inv st' \<and> executor_le st st'"
    by (cases rule: execute_grant_cases) (use inv kept_sound sent_sound in blast)+
  then show ?thesis by (simp add: run)
qed

lemma executor_step_sound:
  "executor_step x st st' \<Longrightarrow> executor_inv st \<Longrightarrow> executor_inv st' \<and> executor_le st st'"
  by (induction rule: executor_step.induct) (simp_all only: execute_sound kept_sound [OF reconcile_kept])

interpretation executor: monotone_stepper "executor_step x" executor_inv executor_le for x
proof
  fix s t assume "executor_step x s t" and "executor_inv s"
  then show "executor_inv t" "executor_le s t" using executor_step_sound by blast+
next
  show "executor_le s s" for s by (simp add: executor_le_def ledger.rel_refl)
  show "executor_le s t \<Longrightarrow> executor_le t u \<Longrightarrow> executor_le s u" for s t u
    by (auto simp: executor_le_def intro: prefix_order.trans ledger.rel_trans)
qed

section \<open>A revoked grant does not leave\<close>

text \<open>The online validator over the control states its calls meet.\<close>

definition online_validator :: "world \<Rightarrow> (nat \<Rightarrow> instant) \<Rightarrow> (nat \<Rightarrow> control_state) \<Rightarrow> online_check" where
  "online_validator w clock states n x q g = validate w (clock n) x q g (states n)"

lemma dispatched_validated:
  assumes "execution_dispatched w x (online_validator w clock states) dispatch now caller q g st res st'"
  shows "validate w (clock (xs_online st)) (xc_identity x) q g (states (xs_online st)) = Inr ()"
    and "validate w (clock (Suc (xs_online st))) (xc_identity x) q g (states (Suc (xs_online st))) = Inr ()"
  using assms by (simp_all add: execution_dispatched_def online_validator_def)

end
