(* ===== verification/Admission.thy ===== *)
theory Admission
  imports ControlModels JsonText
begin

text \<open>
  \<open>control/admission.py\<close>: the request budgets in front of the control API. A request is
  its arrival (concurrency and rate), the reading of its body against a deadline, and its
  departure; requests interleave, so the three are separate steps on the shared state. The
  clock is \<open>time.monotonic\<close> in microseconds.
\<close>

section \<open>Arrival\<close>

record request_limits =
  rl_max_body :: nat
  rl_max_inflight :: nat
  rl_per_minute :: nat
  rl_max_principals :: nat

type_synonym credential = "string \<times> string option"

record gate_state =
  gt_inflight :: nat
  gt_buckets :: "(credential \<times> instant list) list"

definition empty_gate :: gate_state where
  "empty_gate = \<lparr>gt_inflight = 0, gt_buckets = []\<rparr>"

datatype verdict = Rejected nat string | Admitted

definition minute :: instant where
  "minute = seconds 60"

definition live_buckets :: "instant \<Rightarrow> (credential \<times> instant list) list \<Rightarrow> (credential \<times> instant list) list" where
  "live_buckets now bs = filter (\<lambda>(_, v). v \<noteq> [] \<and> now - minute < last v) bs"

definition bucket_of :: "(credential \<times> instant list) list \<Rightarrow> credential \<Rightarrow> instant list" where
  "bucket_of bs k = (case map_of bs k of None \<Rightarrow> [] | Some v \<Rightarrow> v)"

text \<open>The rate budget of a known credential: the buckets after it and whether it admits.\<close>

definition charge ::
  "request_limits \<Rightarrow> instant \<Rightarrow> credential \<Rightarrow> (credential \<times> instant list) list
   \<Rightarrow> verdict \<times> (credential \<times> instant list) list" where
  "charge l now k bs =
     (let live = live_buckets now bs in
      if \<not> dict_has live k \<and> rl_max_principals l \<le> length live
      then (Rejected 429 ''credential admission budget exhausted'', live)
      else
        (let bucket = dropWhile (\<lambda>t. t \<le> now - minute) (bucket_of live k) in
         if rl_per_minute l \<le> length bucket
         then (Rejected 429 ''credential request budget exhausted'', AList.update k bucket live)
         else (Admitted, AList.update k (bucket @ [now]) live)))"

text \<open>\<open>who\<close> is the identity of the authorization header, None when it raises.\<close>

definition arrive ::
  "request_limits \<Rightarrow> instant \<Rightarrow> credential option \<Rightarrow> gate_state \<Rightarrow> verdict \<times> gate_state" where
  "arrive l now who g =
     (if rl_max_inflight l \<le> gt_inflight g then (Rejected 429 ''concurrency budget exhausted'', g)
      else (case who of
         None \<Rightarrow> (Admitted, g\<lparr>gt_inflight := Suc (gt_inflight g)\<rparr>)
       | Some k \<Rightarrow>
           (case charge l now k (gt_buckets g) of
              (Rejected c m, bs) \<Rightarrow> (Rejected c m, g\<lparr>gt_buckets := bs\<rparr>)
            | (Admitted, bs) \<Rightarrow>
                (Admitted, g\<lparr>gt_buckets := bs, gt_inflight := Suc (gt_inflight g)\<rparr>))))"

definition depart :: "gate_state \<Rightarrow> gate_state" where
  "depart g = g\<lparr>gt_inflight := gt_inflight g - 1\<rparr>"

section \<open>The body\<close>

text \<open>
  Each turn of the loop reads the clock and awaits a message: it times out, the client
  disconnects, or a chunk arrives, the last without \<open>more_body\<close>. Turns are given in order;
  a coroutine still waiting when they end is \<open>Waiting\<close>.
\<close>

datatype message = TimedOut | Disconnect | Chunk string bool

datatype body_result = Body string | Gone | Waiting | Refused nat string

fun read_body :: "nat \<Rightarrow> instant \<Rightarrow> (instant \<times> message) list \<Rightarrow> string \<Rightarrow> body_result" where
  "read_body mx deadline [] payload = Waiting"
| "read_body mx deadline ((now, m) # turns) payload =
     (if deadline - now \<le> 0 then Refused 408 ''request body timeout''
      else (case m of
         TimedOut \<Rightarrow> Refused 408 ''request body timeout''
       | Disconnect \<Rightarrow> Gone
       | Chunk part rest \<Rightarrow>
           if mx < length (payload @ part) then Refused 413 ''request body exceeds budget''
           else if rest then read_body mx deadline turns (payload @ part)
           else Body (payload @ part)))"

definition check_body :: "request_limits \<Rightarrow> string \<Rightarrow> body_result" where
  "check_body l payload =
     (if payload = [] then Body payload
      else (case json_loads payload of
         None \<Rightarrow> Refused 400 ''invalid or over-budget JSON''
       | Some v \<Rightarrow>
           (case validate_json v (rl_max_body l) 16384 32 of
              Inl _ \<Rightarrow> Refused 400 ''invalid or over-budget JSON''
            | Inr _ \<Rightarrow> Body payload)))"

definition admit_body :: "request_limits \<Rightarrow> instant \<Rightarrow> (instant \<times> message) list \<Rightarrow> body_result" where
  "admit_body l start turns =
     (case read_body (rl_max_body l) (start + seconds 5) turns [] of
        Body payload \<Rightarrow> check_body l payload
      | other \<Rightarrow> other)"

lemma read_body_bound:
  "read_body mx deadline turns payload = Body b \<Longrightarrow> length b \<le> mx"
  by (induction mx deadline turns payload rule: read_body.induct)
     (auto split: if_split_asm message.splits)

text \<open>What reaches the application is within the body budget and well-formed bounded JSON.\<close>

lemma admit_body_sound:
  assumes "admit_body l start turns = Body b"
  shows "length b \<le> rl_max_body l \<and>
    (b = [] \<or> (\<exists>v. json_loads b = Some v \<and> validate_json v (rl_max_body l) 16384 32 = Inr ()))"
  using assms read_body_bound
  by (auto simp: admit_body_def check_body_def split: body_result.splits if_split_asm option.splits sum.splits)

section \<open>The rate\<close>

text \<open>The gate with the log of admitted credentials and the last reading of the clock.\<close>

record gate_run =
  gr_gate :: gate_state
  gr_log :: "(credential \<times> instant) list"
  gr_now :: instant

inductive gate_step :: "request_limits \<Rightarrow> gate_run \<Rightarrow> gate_run \<Rightarrow> bool" for l where
  step_arrive: "gr_now r \<le> now \<Longrightarrow> arrive l now who (gr_gate r) = (v, g) \<Longrightarrow>
    gate_step l r \<lparr>gr_gate = g,
                   gr_log = (case (v, who) of (Admitted, Some k) \<Rightarrow> gr_log r @ [(k, now)] | _ \<Rightarrow> gr_log r),
                   gr_now = now\<rparr>"
| step_depart: "0 < gt_inflight (gr_gate r) \<Longrightarrow> gate_step l r (r\<lparr>gr_gate := depart (gr_gate r)\<rparr>)"

inductive_cases gate_stepE: "gate_step l r r'"

definition times_of :: "(credential \<times> instant) list \<Rightarrow> credential \<Rightarrow> instant list" where
  "times_of es k = map snd (filter (\<lambda>e. fst e = k) es)"

definition in_window :: "instant \<Rightarrow> instant list \<Rightarrow> instant list" where
  "in_window t ts = filter (\<lambda>x. t - minute < x \<and> x \<le> t) ts"

text \<open>
  The admissions of a credential are in order and not in the future, at most the budget of
  them falls into any minute, and its bucket holds those that still count.
\<close>

definition credential_ok :: "request_limits \<Rightarrow> instant \<Rightarrow> instant list \<Rightarrow> instant list \<Rightarrow> bool" where
  "credential_ok l now ts bucket \<longleftrightarrow>
     sorted ts \<and> sorted bucket \<and> (\<forall>x\<in>set ts \<union> set bucket. x \<le> now) \<and>
     filter (\<lambda>x. now - minute < x) ts = filter (\<lambda>x. now - minute < x) bucket \<and>
     (\<forall>t. length (in_window t ts) \<le> rl_per_minute l)"

definition gate_inv :: "request_limits \<Rightarrow> gate_run \<Rightarrow> bool" where
  "gate_inv l r \<longleftrightarrow>
     gt_inflight (gr_gate r) \<le> rl_max_inflight l \<and>
     distinct (map fst (gt_buckets (gr_gate r))) \<and>
     length (gt_buckets (gr_gate r)) \<le> rl_max_principals l \<and>
     (\<forall>k. credential_ok l (gr_now r) (times_of (gr_log r) k) (bucket_of (gt_buckets (gr_gate r)) k))"

lemma credential_later:
  assumes ok: "credential_ok l m ts bucket" and le: "m \<le> now"
  shows "credential_ok l now ts bucket"
proof -
  have "filter (\<lambda>x. now - minute < x) ys = filter (\<lambda>x. now - minute < x) (filter (\<lambda>x. m - minute < x) ys)" for ys
    using le by (auto intro: filter_cong)
  moreover have "filter (\<lambda>x. m - minute < x) ts = filter (\<lambda>x. m - minute < x) bucket"
    using ok by (simp add: credential_ok_def)
  ultimately have "filter (\<lambda>x. now - minute < x) ts = filter (\<lambda>x. now - minute < x) bucket" by metis
  moreover have "\<forall>x\<in>set ts \<union> set bucket. x \<le> now"
    using ok le order_trans unfolding credential_ok_def by blast
  ultimately show ?thesis using ok by (simp add: credential_ok_def)
qed

lemma sorted_dropWhile_filter: "sorted xs \<Longrightarrow> dropWhile (\<lambda>x. x \<le> c) xs = filter (\<lambda>x. c < x) (xs :: instant list)"
proof (induction xs)
  case (Cons a xs)
  then have "c < a \<Longrightarrow> filter (\<lambda>x. c < x) xs = xs" by (intro filter_True) auto
  then show ?case using Cons by auto
qed simp

lemma credential_trim:
  assumes "credential_ok l now ts bucket"
  shows "credential_ok l now ts (dropWhile (\<lambda>x. x \<le> now - minute) bucket)"
  using assms by (auto simp: credential_ok_def sorted_dropWhile_filter sorted_wrt_filter)

lemma sorted_le_last: "sorted xs \<Longrightarrow> x \<in> set xs \<Longrightarrow> x \<le> last (xs :: instant list)"
  by (induction xs) auto

lemma credential_forget:
  assumes "credential_ok l now ts bucket" and "\<not> (bucket \<noteq> [] \<and> now - minute < last bucket)"
  shows "credential_ok l now ts []"
proof -
  have "x \<le> now - minute" if "x \<in> set bucket" for x
  proof -
    have "sorted bucket" using assms(1) by (simp add: credential_ok_def)
    then have "x \<le> last bucket" using that by (rule sorted_le_last)
    then show ?thesis using assms(2) that by force
  qed
  then have "filter (\<lambda>x. now - minute < x) bucket = []" by (auto simp: filter_empty_conv not_less)
  then show ?thesis using assms(1) by (simp add: credential_ok_def)
qed

lemma window_snoc:
  assumes ok: "credential_ok l now ts bucket" and trim: "\<forall>x\<in>set bucket. now - minute < x"
    and room: "length bucket < rl_per_minute l"
  shows "credential_ok l now (ts @ [now]) (bucket @ [now])"
proof -
  have "length (in_window t (ts @ [now])) \<le> rl_per_minute l" for t
  proof (cases "now \<le> t \<and> t - minute < now")
    case True
    have "length (in_window t ts) \<le> length (filter (\<lambda>x. now - minute < x) ts)"
      unfolding in_window_def using True
      by (induction ts) auto
    also have "filter (\<lambda>x. now - minute < x) ts = bucket"
      using ok trim by (simp add: credential_ok_def filter_id_conv)
    finally show ?thesis using room by (simp add: in_window_def)
  next
    case False
    then have "in_window t (ts @ [now]) = in_window t ts" by (auto simp: in_window_def)
    then show ?thesis using ok by (simp add: credential_ok_def)
  qed
  then show ?thesis
    using ok trim by (auto simp: credential_ok_def sorted_append filter_id_conv)
qed

lemma bucket_of_update: "bucket_of (AList.update k v bs) k' = (if k' = k then v else bucket_of bs k')"
  by (simp add: bucket_of_def map_of_update)

lemma live_distinct: "distinct (map fst bs) \<Longrightarrow> distinct (map fst (live_buckets now bs))"
  by (simp add: live_buckets_def distinct_map_filter)

lemma bucket_of_live:
  assumes "distinct (map fst bs)"
  shows "bucket_of (live_buckets now bs) k =
    (if bucket_of bs k \<noteq> [] \<and> now - minute < last (bucket_of bs k) then bucket_of bs k else [])"
proof -
  have iff: "map_of (live_buckets now bs) k = Some v \<longleftrightarrow> map_of bs k = Some v \<and> v \<noteq> [] \<and> now - minute < last v" for v
    using assms live_distinct [OF assms, of now]
    by (auto simp: map_of_eq_Some_iff live_buckets_def)
  show ?thesis
  proof (cases "map_of (live_buckets now bs) k")
    case None
    then show ?thesis using iff by (cases "map_of bs k") (auto simp: bucket_of_def)
  next
    case (Some v)
    moreover from this have "map_of bs k = Some v" "v \<noteq> [] \<and> now - minute < last v" using iff by blast+
    ultimately show ?thesis by (simp add: bucket_of_def)
  qed
qed

lemma live_credential:
  assumes "distinct (map fst bs)" and "credential_ok l now ts (bucket_of bs k)"
  shows "credential_ok l now ts (bucket_of (live_buckets now bs) k)"
  using assms credential_forget [OF assms(2)] by (auto simp: bucket_of_live)

lemma update_length:
  "length (AList.update k v bs) = (if dict_has bs k then length bs else Suc (length bs))"
  by (induction bs) (auto simp: dict_has_def dict_keys_def)

lemma length_live: "length (live_buckets now bs) \<le> length bs"
  by (simp add: live_buckets_def)

definition buckets_ok :: "request_limits \<Rightarrow> instant \<Rightarrow> (credential \<times> instant) list \<Rightarrow> (credential \<times> instant list) list \<Rightarrow> bool" where
  "buckets_ok l now es bs \<longleftrightarrow>
     distinct (map fst bs) \<and> length bs \<le> rl_max_principals l \<and>
     (\<forall>k. credential_ok l now (times_of es k) (bucket_of bs k))"

lemma times_of_snoc: "times_of (es @ [(k, t)]) k' = (if k' = k then times_of es k @ [t] else times_of es k')"
  by (simp add: times_of_def)

lemma charge_ok:
  assumes ok: "buckets_ok l now es bs" and run: "charge l now k bs = (v, bs')"
  shows "buckets_ok l now (if v = Admitted then es @ [(k, now)] else es) bs'"
proof -
  let ?live = "live_buckets now bs"
  have d: "distinct (map fst ?live)" and len: "length ?live \<le> rl_max_principals l"
    and cred: "\<And>k. credential_ok l now (times_of es k) (bucket_of ?live k)"
    using ok live_distinct length_live [of now bs] live_credential by (auto simp: buckets_ok_def)
  let ?bucket = "dropWhile (\<lambda>t. t \<le> now - minute) (bucket_of ?live k)"
  have trim: "credential_ok l now (times_of es k) ?bucket" by (rule credential_trim [OF cred])
  have new: "\<forall>x\<in>set ?bucket. now - minute < x"
    using cred [of k] by (simp add: credential_ok_def sorted_dropWhile_filter)
  consider (full) "\<not> dict_has ?live k" "rl_max_principals l \<le> length ?live" "v \<noteq> Admitted" "bs' = ?live"
    | (busy) "dict_has ?live k \<or> length ?live < rl_max_principals l" "v \<noteq> Admitted" "bs' = AList.update k ?bucket ?live"
    | (free) "dict_has ?live k \<or> length ?live < rl_max_principals l" "v = Admitted"
        "bs' = AList.update k (?bucket @ [now]) ?live" "length ?bucket < rl_per_minute l"
    using run by (auto simp: charge_def Let_def not_le split: if_split_asm)
  then show ?thesis
  proof cases
    case full
    then show ?thesis using d len cred by (simp add: buckets_ok_def)
  next
    case busy
    then show ?thesis using d len cred trim
      by (auto simp: buckets_ok_def update_length distinct_update bucket_of_update)
  next
    case free
    then show ?thesis using d len cred window_snoc [OF trim new free(4)]
      by (auto simp: buckets_ok_def update_length distinct_update bucket_of_update times_of_snoc)
  qed
qed

lemma buckets_later: "buckets_ok l m es bs \<Longrightarrow> m \<le> now \<Longrightarrow> buckets_ok l now es bs"
  by (auto simp: buckets_ok_def intro: credential_later)

lemma gate_inv_buckets:
  "gate_inv l r \<longleftrightarrow> gt_inflight (gr_gate r) \<le> rl_max_inflight l \<and>
     buckets_ok l (gr_now r) (gr_log r) (gt_buckets (gr_gate r))"
  by (auto simp: gate_inv_def buckets_ok_def)

lemma arrive_ok:
  assumes b: "buckets_ok l now es (gt_buckets g)" and run: "arrive l now who g = (v, g')"
  shows "buckets_ok l now (case (v, who) of (Admitted, Some k) \<Rightarrow> es @ [(k, now)] | _ \<Rightarrow> es) (gt_buckets g')"
  using run b charge_ok [OF b]
  by (auto simp: arrive_def split: if_split_asm option.splits prod.splits verdict.splits) force+

lemma arrive_inflight:
  "arrive l now who g = (v, g') \<Longrightarrow> gt_inflight g \<le> rl_max_inflight l \<Longrightarrow> gt_inflight g' \<le> rl_max_inflight l"
  by (auto simp: arrive_def split: if_split_asm option.splits prod.splits verdict.splits)

lemma gate_step_inv: "gate_step l r r' \<Longrightarrow> gate_inv l r \<Longrightarrow> gate_inv l r'"
proof (induction rule: gate_step.induct)
  case (step_arrive r now who v g)
  then have "buckets_ok l now (gr_log r) (gt_buckets (gr_gate r))"
    using buckets_later by (auto simp: gate_inv_buckets)
  from arrive_ok [OF this step_arrive(2)] show ?case
    using arrive_inflight [OF step_arrive(2)] step_arrive(3) by (simp add: gate_inv_buckets)
next
  case (step_depart r)
  then show ?case by (auto simp: gate_inv_buckets depart_def)
qed

interpretation gate: stepper "gate_step l" "gate_inv l" for l
  by unfold_locales (rule gate_step_inv)

lemma gate_inv_empty: "gate_inv l \<lparr>gr_gate = empty_gate, gr_log = [], gr_now = t\<rparr>"
  by (simp add: gate_inv_def empty_gate_def credential_ok_def times_of_def bucket_of_def in_window_def)

end
