(* ===== verification/Samples.thy ===== *)
theory Samples
  imports EnforcementSafety JsonLimits Transactions ControlFacts ExecutorSafety Admission
begin

text \<open>
  The concrete inputs at which the properties are applied: a payment inside a strict grant with
  its ledger, a tenant whose policy one administrator drafts and another subject approves, and
  stand-ins for the primitives the code does not define (digest, signature, clock).
\<close>

text \<open>A payment inside a strict grant, its schemas, and the ledger it is reserved in.\<close>

definition demo_call :: tool_call where
  "demo_call = \<lparr>tc_task_id = ''t1'', tc_step_id = 0, tc_tool_name = ''send_money'',
     tc_arguments = [(''recipient'', JStr ''GB29''), (''amount'', JInt 40)],
     tc_consumed = [], tc_resources = [], tc_call_id = ''c1''\<rparr>"

definition demo_grant :: task_authority where
  "demo_grant = default_authority\<lparr>ta_allowed_tools := Some [''send_money''],
     ta_argument_values := [(''send_money'', [(''recipient'', JStr ''GB29'')])],
     ta_mode := ''strict'', ta_max_amount := Some (Dec 100 0)\<rparr>"

text \<open>Floats are added as floats: 0.1 and 0.2 make more than 0.3, so the second payment is refused.\<close>

definition tenth_paid :: tool_call where
  "tenth_paid = demo_call\<lparr>tc_arguments := [(''recipient'', JStr ''GB29''), (''amount'', JFloat (Dec 1 (- 1)))]\<rparr>"

lemma tenths_exceed_budget: "\<not> budget_holds (JFloat (Dec 2 (- 1))) [tenth_paid] (Dec 3 (- 1))"
  unfolding within_budget_iff[symmetric] by code_simp

lemma quarters_meet_budget: "budget_holds (JFloat (Dec 25 (- 2))) [tenth_paid\<lparr>tc_arguments := [(''amount'', JInt 1)]\<rparr>] (Dec 125 (- 2))"
  unfolding within_budget_iff[symmetric] by code_simp

definition demo_schemas :: "json pydict pydict" where
  "demo_schemas = [(''send_money'', [])]"

definition demo_compiled :: compiled_authority where
  "demo_compiled = \<lparr>ca_scope = demo_grant, ca_schemas = demo_schemas, ca_digest = ''g''\<rparr>"

definition demo_ledger :: ledger_db where
  "demo_ledger = snd (provision (Some ''store'') ''store'' 4096
     \<lparr>ld_file = None, ld_intact = True, ld_tables = [], ld_columns = [], ld_meta = [], ld_rows = [],
      ld_recs = []\<rparr>)"

definition demo_request :: reserve_args where
  "demo_request = \<lparr>rq_scope = (''embedded'', ''application'', ''g'', ''t1''), rq_nonce = ''c1'',
     rq_key = ''c1'', rq_digest = ''d'', rq_effect = ''d'', rq_amount = 40, rq_budget = Some 100,
     rq_repeatable = False, rq_policy = ''p''\<rparr>"

text \<open>A replacement may set a destination the original leaves out.\<close>

definition demo_unaddressed :: tool_call where
  "demo_unaddressed = demo_call\<lparr>tc_arguments := [(''amount'', JInt 40)]\<rparr>"

lemma replacement_may_add_recipient:
  "validate_replacement (\<lambda>_ _. True) demo_unaddressed demo_call ''pay'' [] demo_grant demo_schemas = Inr ()"
  "map_of (tc_arguments demo_unaddressed) ''recipient'' = None"
  "map_of (tc_arguments demo_call) ''recipient'' = Some (JStr ''GB29'')"
  by code_simp+

definition demo_env :: guard_env where
  "demo_env = \<lparr>ge_sha = (\<lambda>_. ''d''), ge_hash = (\<lambda>_. ''h''), ge_schema_ok = (\<lambda>_ _. True),
     ge_tool = (\<lambda>c. Inr \<lparr>ob_content = ''paid'', ob_source_type = ''tool'', ob_source_id = tc_call_id c,
       ob_trust = TRUSTED_TOOL, ob_provenance = [], ob_instructions = False, ob_id = ''o''\<rparr>),
     ge_sandbox = (\<lambda>_. Inl (SandboxUnavailable [])), ge_reject = None,
     ge_supervise = (\<lambda>_ _ _ _ _. Inl (RuntimeError [])), ge_review = (\<lambda>_ _ _. Inr None),
     ge_evidence_text = (\<lambda>_. []), ge_dump = ob_content, ge_parse = (\<lambda>_. None), ge_fresh = ''o''\<rparr>"

definition demo_guard :: guard_config where
  "demo_guard = \<lparr>gc_schemas = demo_schemas,
     gc_config = \<lparr>ec_deterministic = True, ec_llm = False, ec_post_run = False\<rparr>,
     gc_policy = Some default_policy, gc_authority = demo_grant, gc_compiled = demo_compiled,
     gc_task = ''t1'', gc_ledger = Some ''store'', gc_result_version = ''v1'', gc_supervised = False,
     gc_sandboxed = False\<rparr>"

definition demo_state :: guard_state where
  "demo_state = \<lparr>gs_executed = [], gs_escalated = [], gs_ledger = demo_ledger, gs_log = [], gs_rejected = []\<rparr>"

definition demo_read :: tool_call where
  "demo_read = demo_call\<lparr>tc_tool_name := ''read_file'',
     tc_arguments := [(''path'', JStr ''workspace/notes.txt'')]\<rparr>"

definition demo_read_grant :: task_authority where
  "demo_read_grant = default_authority\<lparr>ta_allowed_tools := Some [''read_file''],
     ta_argument_values := [(''read_file'', [(''path'', JStr ''workspace/notes.txt'')])],
     ta_mode := ''strict''\<rparr>"

definition demo_command :: tool_call where
  "demo_command = demo_call\<lparr>tc_tool_name := ''restricted_command'',
     tc_arguments := [(''command'', JList [JStr ''python'', JStr ''a.py''])]\<rparr>"

definition demo_command_grant :: task_authority where
  "demo_command_grant = default_authority\<lparr>ta_allowed_tools := Some [''restricted_command''],
     ta_argument_values := [(''restricted_command'', [(''command'', JList [JStr ''python'', JStr ''a.py''])])],
     ta_mode := ''strict''\<rparr>"

definition demo_allow :: supervisor_output where
  "demo_allow = policy_allow default_policy ''r''"

definition demo_block :: supervisor_output where
  "demo_block = policy_block default_policy ''r'' HIGH"

definition demo_accepted :: ledger_db where
  "demo_accepted = run_ops ''store'' [OpReserve demo_request,
     OpFinish ''c1'' ''succeeded'' (Some ''ok'') ''accepted_for_agent''] demo_ledger"

definition demo_match :: rule_match where
  "demo_match = \<lparr>rm_kind = Some TOOL, rm_operation = Some ''send_money'', rm_prefix = None,
     rm_arguments = [], rm_instructions = None\<rparr>"

definition demo_rule :: "string \<Rightarrow> decision \<Rightarrow> policy_rule" where
  "demo_rule i d = \<lparr>pu_id = i, pu_name = ''pay'', pu_priority = 1, pu_match = demo_match, pu_decision = d,
     pu_reason = ''rule'', pu_rewrite = None, pu_cache = False\<rparr>"

definition demo_draft :: policy_draft where
  "demo_draft = \<lparr>pd_name = ''payments'', pd_rules = [demo_rule ''r1'' ALLOW], pd_default = BLOCK\<rparr>"

definition demo_action :: action_request where
  "demo_action = \<lparr>aq_tenant = ''acme'', aq_key = ''key-0001'', aq_task = ''t1'', aq_id = ''a1'', aq_kind = TOOL,
     aq_operation = ''send_money'', aq_target = None,
     aq_arguments = [(''recipient'', JStr ''GB29''), (''amount'', JInt 40)], aq_provenance = [],
     aq_evidence = [], aq_requested = 0\<rparr>"

text \<open>An administrator and author, an approver, an agent and a reviewer of one tenant.\<close>

definition demo_actor :: "string \<Rightarrow> role \<Rightarrow> actor" where
  "demo_actor name r = \<lparr>ac_subject = name, ac_roles = [r], ac_key = Some (name @ ''-key''),
     ac_tenants = [''acme''], ac_operations = None\<rparr>"

definition demo_stamp :: "instant \<Rightarrow> string" where
  "demo_stamp t = (if t < 0 then ''-'' else ''+'') @ nat_str (nat \<bar>t\<bar>)"

definition demo_instant :: "string \<Rightarrow> instant" where
  "demo_instant s = (if prefix ''-'' s then - int (digits_val (drop 1 s)) else int (digits_val (drop 1 s)))"

definition demo_world :: world where
  "demo_world = \<lparr>w_sha = (\<lambda>_. ''h''), w_stamp = (\<lambda>_. ''now''), w_instant = (\<lambda>_. 0),
     w_sign = (\<lambda>_ _. ''s''), w_verify = (\<lambda>_ _ s. s = ''s''), w_schema_ok = (\<lambda>_ _. True),
     w_fingerprint = (\<lambda>_ _. ''g'')\<rparr>"

text \<open>The same world with a text for every instant that is read back exactly.\<close>

definition exact_world :: world where
  "exact_world = demo_world\<lparr>w_stamp := demo_stamp, w_instant := demo_instant\<rparr>"

lemma demo_instant_stamp [simp]: "demo_instant (demo_stamp t) = t"
  by (auto simp: demo_instant_def demo_stamp_def)

lemma exact_world_sound: "sound_world exact_world"
  by (simp add: sound_world_def exact_world_def demo_world_def)

definition demo_draws :: "instant \<Rightarrow> string \<Rightarrow> draws" where
  "demo_draws now i = \<lparr>dw_now = now, dw_id = i, dw_audit = ''a'' @ i, dw_audit2 = ''b'' @ i\<rparr>"

text \<open>Two trails under one head, possible where every document has the same digest.\<close>

definition demo_flat :: world where
  "demo_flat = demo_world\<lparr>w_sha := (\<lambda>_. ''h'')\<rparr>"

definition demo_written :: control_state where
  "demo_written = audited demo_flat ''acme'' ''policy.submitted'' ''ann'' (JStr ''id1'') (demo_draws 1 ''id1'') empty_control"

definition demo_forged :: control_state where
  "demo_forged = audited demo_flat ''acme'' ''policy.submitted'' ''eve'' (JStr ''id1'') (demo_draws 1 ''id1'') empty_control"

text \<open>A policy drafted by the administrator, submitted and approved by another.\<close>

definition demo_pending :: "policy_draft \<Rightarrow> control_state" where
  "demo_pending draft =
     snd (submit_policy demo_world (demo_draws 2 ''id2'') ''acme'' (demo_actor ''ann'' ADMIN) ''id1''
       (snd (create_draft demo_world (demo_draws 1 ''id1'') ''acme'' (demo_actor ''ann'' ADMIN) draft empty_control)))"

definition demo_control :: "policy_draft \<Rightarrow> control_state" where
  "demo_control draft =
     snd (approve_policy demo_world (demo_draws 3 ''id3'') ''acme'' (demo_actor ''bob'' APPROVER) ''id1'' (demo_pending draft))"

lemma demo_reached: "valid_draft draft \<Longrightarrow> reached (control_step demo_world) empty_control (demo_control draft)"
  unfolding demo_control_def demo_pending_def
  by (rule reached_step, rule reached_step, rule reached_step, rule reached_refl, erule step_draft,
      rule step_submit, rule step_approve)

lemma demo_draft_valid: "valid_draft demo_draft"
  by code_simp

definition demo_version :: "policy_draft \<Rightarrow> policy_version" where
  "demo_version draft = \<lparr>pv_id = ''id1'', pv_tenant = ''acme'', pv_version = 1, pv_draft = draft, pv_status = ACTIVE,
     pv_created_by = ''ann'', pv_approved_by = Some ''bob'', pv_activated_at = Some 3, pv_created_at = 1\<rparr>"

lemmas demo_inputs = demo_actor_def demo_draws_def require_def dict_get_def Let_def epoch_of_def

text \<open>What the state holds besides the audit trail.\<close>

lemma demo_control_frame:
  "cs_policies (demo_control draft) = [(''acme'', [demo_version draft])]"
  "cs_epochs (demo_control draft) = [(''acme'', 1)]"
  "cs_tasks (demo_control draft) = []" "cs_issued (demo_control draft) = []"
  "cs_receipts (demo_control draft) = []" "cs_reviews (demo_control draft) = []"
  "cs_revoked (demo_control draft) = []" "cs_suspended (demo_control draft) = []"
  by (simp_all add: demo_control_def demo_pending_def approve_policy_def submit_policy_def create_draft_def
      install_def bump_epoch_def set_policies_def find_policy_def policies_of_def empty_control_def demo_inputs
      demo_version_def activate_def retire_def)

definition demo_registration :: task_registration where
  "demo_registration = \<lparr>tg_task = ''t1'', tg_agent = ''zoe'', tg_key = ''zoe-key'', tg_domain = ''store'',
     tg_authority = demo_grant, tg_schemas = demo_schemas, tg_adapter = ''bank''\<rparr>"

definition demo_registered :: "policy_draft \<Rightarrow> control_state" where
  "demo_registered draft =
     snd (register demo_world (demo_draws 4 ''id4'') ''acme'' (demo_actor ''ann'' ADMIN) demo_registration (demo_control draft))"

lemma registered_reached:
  "valid_draft draft \<Longrightarrow> reached (control_step demo_world) empty_control (demo_registered draft)"
  unfolding demo_registered_def by (rule reached_step, erule demo_reached, rule step_register)

lemma demo_compiles:
  "valid_authority_fields demo_grant" "ta_delegated demo_grant = []"
  "compile_authority (w_fingerprint demo_world) demo_grant demo_schemas = Inr demo_compiled"
  by code_simp+

definition demo_task :: registered_task where
  "demo_task = \<lparr>rt_principal = ''zoe'', rt_credential = ''zoe-key'', rt_compiled = demo_compiled,
     rt_adapter = ''bank'', rt_domain = ''store''\<rparr>"

lemma demo_registered_frame:
  "cs_policies (demo_registered draft) = [(''acme'', [demo_version draft])]"
  "cs_epochs (demo_registered draft) = [(''acme'', 1)]"
  "cs_tasks (demo_registered draft) = [((''acme'', ''t1''), demo_task)]" "cs_issued (demo_registered draft) = []"
  "cs_receipts (demo_registered draft) = []" "cs_reviews (demo_registered draft) = []"
  "cs_revoked (demo_registered draft) = []" "cs_suspended (demo_registered draft) = []"
  by (simp_all add: demo_registered_def register_def demo_registration_def demo_compiles demo_inputs
      demo_control_frame demo_task_def)

lemma demo_allows:
  "task_allows demo_world demo_task demo_action"
  "select_rule demo_draft demo_action = Some (demo_rule ''r1'' ALLOW)"
  by code_simp+

lemma demo_active: "active_policy (demo_registered draft) ''acme'' = Some (demo_version draft)"
  by (simp add: active_policy_def policies_of_def demo_registered_frame dict_get_def demo_version_def)

lemma demo_task_of:
  "task_of demo_world (demo_actor ''zoe'' AGENT) demo_action (demo_registered draft) = Inr demo_task"
  unfolding task_of_ok
  by (simp add: demo_registered_frame demo_allows require_ok) (simp add: demo_actor_def demo_action_def demo_task_def)

lemma demo_payment: "payment_amount demo_action = Inr (Dec 40 0)"
  by code_simp

lemma demo_request_fields: "aq_tenant demo_action = ''acme''" "aq_key demo_action = ''key-0001''"
  "aq_operation demo_action = ''send_money''" "ac_key (demo_actor n r) = Some (n @ ''-key'')" "ac_operations (demo_actor n r) = None"
  "ac_subject (demo_actor n r) = n"
  by (simp_all add: demo_action_def demo_actor_def)

lemma demo_require: "require (demo_actor n r) r ''acme'' s = Inr ()" if "cs_revoked s = []" "cs_suspended s = []"
  using that by (simp add: require_ok demo_actor_def)

lemma demo_evaluates:
  "\<exists>dec s1. evaluate demo_world d (demo_actor ''zoe'' AGENT) demo_action (demo_registered demo_draft) = (Inr dec, s1)
    \<and> dr_decision dec = ALLOW"
  by (simp add: evaluate_def demo_request_fields demo_require demo_registered_frame decide_action_def Let_def
      policy_decision_def demo_active demo_version_def demo_allows mk_decision_def demo_rule_def)

text \<open>A grant of the allowed payment.\<close>

definition demo_issued :: "execution_grant result \<times> control_state" where
  "demo_issued = issue demo_world (demo_draws 5 ''id5'') (demo_draws 6 ''id6'') (demo_actor ''zoe'' AGENT) demo_action ''exec'' None
     (demo_registered demo_draft)"

lemma demo_issued_ok: "is_ok (fst demo_issued)" 
proof -
  obtain dec s1 where ev: "evaluate demo_world (demo_draws 5 ''id5'') (demo_actor ''zoe'' AGENT) demo_action (demo_registered demo_draft) = (Inr dec, s1)"
    "dr_decision dec = ALLOW" using demo_evaluates by blast
  then have s1: "s1 = snd (evaluate demo_world (demo_draws 5 ''id5'') (demo_actor ''zoe'' AGENT) demo_action (demo_registered demo_draft))" by simp
  have "active_policy s1 ''acme'' = Some (demo_version demo_draft)"
    unfolding s1 by (simp add: active_policy_def policies_of_def evaluate_frame demo_registered_frame dict_get_def demo_version_def)
  moreover have "cs_epochs s1 = [(''acme'', 1)]" unfolding s1 by (simp add: evaluate_frame demo_registered_frame)
  ultimately show ?thesis using ev
    by (simp add: demo_issued_def issue_def demo_task_of continuation_def grant_for_def demo_request_fields demo_payment Let_def)
qed

text \<open>The payment under a policy that escalates it, its review resolved, and the grant that continues it.\<close>

definition demo_caution :: policy_draft where
  "demo_caution = demo_draft\<lparr>pd_rules := [demo_rule ''r1'' ESCALATE]\<rparr>"

definition demo_resolved :: control_state where
  "demo_resolved =
     snd (resolve_review demo_world (demo_draws 6 ''id6'') ''acme'' (demo_actor ''eve'' REVIEWER) ''id5'' RES_ALLOW ''ok''
       (snd (evaluate demo_world (demo_draws 5 ''id5'') (demo_actor ''zoe'' AGENT) demo_action (demo_registered demo_caution))))"

definition demo_continued :: "execution_grant result \<times> control_state" where
  "demo_continued = issue demo_world (demo_draws 7 ''id7'') (demo_draws 8 ''id8'') (demo_actor ''zoe'' AGENT) demo_action ''exec''
     (Some ''id5'') demo_resolved"

definition demo_review :: review where
  "demo_review = new_review demo_world (demo_draws 5 ''id5'') (demo_actor ''zoe'' AGENT) ''zoe-key'' demo_action 1"

definition demo_answer :: decision_response where
  "demo_answer = (policy_decision demo_world demo_action (demo_registered demo_caution))
     \<lparr>dr_audit := ''aid5'', dr_review := Some ''id5''\<rparr>"

lemma demo_answer_escalates: "dr_decision demo_answer = ESCALATE" "dr_review demo_answer = Some ''id5''"
  "dr_decision (policy_decision demo_world demo_action (demo_registered demo_caution)) = ESCALATE"
proof -
  have "select_rule demo_caution demo_action = Some (demo_rule ''r1'' ESCALATE)" by code_simp
  then show "dr_decision demo_answer = ESCALATE" "dr_review demo_answer = Some ''id5''"
  "dr_decision (policy_decision demo_world demo_action (demo_registered demo_caution)) = ESCALATE"
    by (simp_all add: demo_answer_def policy_decision_def demo_request_fields demo_active demo_version_def mk_decision_def demo_rule_def)
qed

lemma demo_receipt_key: "receipt_key_of (demo_actor ''zoe'' AGENT) ''zoe-key'' demo_action = (''acme'', ''zoe'', ''zoe-key'', ''key-0001'')"
  by (simp add: receipt_key_of_def demo_request_fields)

definition demo_escalated :: control_state where
  "demo_escalated = snd (evaluate demo_world (demo_draws 5 ''id5'') (demo_actor ''zoe'' AGENT) demo_action (demo_registered demo_caution))"

lemma demo_escalates:
  "evaluate demo_world (demo_draws 5 ''id5'') (demo_actor ''zoe'' AGENT) demo_action (demo_registered demo_caution) = (Inr demo_answer, demo_escalated)"
  "cs_reviews demo_escalated = [(''id5'', demo_review)]"
  "cs_receipts demo_escalated = [((''acme'', ''zoe'', ''zoe-key'', ''key-0001''),
     \<lparr>re_digest = action_digest demo_world demo_action, re_epoch = 1, re_expires = 5 + seconds 300, re_result = demo_answer\<rparr>)]"
proof -
  have epoch: "epoch_of (demo_registered demo_caution) ''acme'' = 1" by (simp add: epoch_of_def demo_registered_frame dict_get_def)
  note eval = demo_escalated_def evaluate_def demo_request_fields demo_require demo_registered_frame decide_action_def Let_def
      demo_answer_escalates epoch keep_receipt_def demo_receipt_key
  show "evaluate demo_world (demo_draws 5 ''id5'') (demo_actor ''zoe'' AGENT) demo_action (demo_registered demo_caution) = (Inr demo_answer, demo_escalated)"
    by (simp add: eval) (simp add: demo_answer_def demo_draws_def new_review_def)
  show "cs_reviews demo_escalated = [(''id5'', demo_review)]"
    by (simp add: eval demo_review_def) (simp add: new_review_def demo_draws_def)
  show "cs_receipts demo_escalated = [((''acme'', ''zoe'', ''zoe-key'', ''key-0001''),
     \<lparr>re_digest = action_digest demo_world demo_action, re_epoch = 1, re_expires = 5 + seconds 300, re_result = demo_answer\<rparr>)]"
    by (simp add: eval) (simp add: demo_answer_def demo_draws_def new_review_def)
qed

definition demo_approved :: review where
  "demo_approved = demo_review\<lparr>rv_status := ''resolved'', rv_resolution := Some RES_ALLOW,
     rv_resolved_by := Some ''eve'', rv_reason := Some ''ok''\<rparr>"

lemma demo_escalated_frame:
  "cs_policies demo_escalated = [(''acme'', [demo_version demo_caution])]"
  "cs_epochs demo_escalated = [(''acme'', 1)]"
  "cs_tasks demo_escalated = [((''acme'', ''t1''), demo_task)]" "cs_issued demo_escalated = []"
  "cs_revoked demo_escalated = []" "cs_suspended demo_escalated = []"
  by (simp_all add: demo_escalated_def evaluate_frame demo_registered_frame)

lemma demo_review_fields: "rv_tenant demo_review = ''acme''" "rv_status demo_review = ''pending''" "rv_epoch demo_review = 1"
  "rv_agent demo_review = ''zoe''" "rv_expires demo_review = 5 + seconds 86400" "rv_id demo_review = ''id5''"
  "rv_digest demo_review = action_digest demo_world demo_action" "rv_key demo_review = ''zoe-key''" "rv_task demo_review = ''t1''" "rv_nonce demo_review = None"
  by (simp_all add: demo_review_def new_review_def demo_draws_def demo_actor_def demo_action_def)

lemma demo_resolved_eq: "demo_resolved = snd (resolve_review demo_world (demo_draws 6 ''id6'') ''acme'' (demo_actor ''eve'' REVIEWER) ''id5'' RES_ALLOW ''ok'' demo_escalated)"
  by (simp add: demo_resolved_def demo_escalated_def)

lemma demo_resolved_frame:
  "cs_reviews demo_resolved = [(''id5'', demo_approved)]"
  "cs_receipts demo_resolved = cs_receipts demo_escalated"
  "cs_policies demo_resolved = [(''acme'', [demo_version demo_caution])]"
  "cs_epochs demo_resolved = [(''acme'', 1)]"
  "cs_tasks demo_resolved = [((''acme'', ''t1''), demo_task)]" "cs_issued demo_resolved = []"
  "cs_revoked demo_resolved = []" "cs_suspended demo_resolved = []"
  by (simp_all add: demo_resolved_eq resolve_review_def demo_require demo_escalated_frame demo_escalates
      demo_review_fields demo_draws_def demo_request_fields Let_def demo_approved_def seconds_def)

lemma demo_continues_cached:
  "evaluate demo_world (demo_draws 7 ''id7'') (demo_actor ''zoe'' AGENT) demo_action demo_resolved = (Inr demo_answer, demo_resolved)"
  by (simp add: evaluate_def demo_request_fields demo_require demo_resolved_frame demo_escalates demo_receipt_key
      demo_draws_def epoch_of_def dict_get_def seconds_def)

lemma demo_permits:
  "continuation demo_world 8 (demo_actor ''zoe'' AGENT) demo_action (Some ''id5'') demo_answer demo_resolved = Inr (Some demo_approved)"
  by (simp add: continuation_def demo_answer_escalates demo_resolved_frame review_permits_def demo_approved_def
      demo_review_fields demo_request_fields seconds_def) (simp add: demo_action_def)

lemma demo_continued_ok: "is_ok (fst demo_continued)"
proof -
  have "task_of demo_world (demo_actor ''zoe'' AGENT) demo_action demo_resolved = Inr demo_task"
    unfolding task_of_ok
    by (simp add: demo_resolved_frame demo_allows require_ok) (simp add: demo_actor_def demo_action_def demo_task_def)
  moreover have "active_policy demo_resolved ''acme'' = Some (demo_version demo_caution)"
    by (simp add: active_policy_def policies_of_def demo_resolved_frame dict_get_def demo_version_def)
  moreover have "dw_now (demo_draws 8 ''id8'') = 8" by (simp add: demo_draws_def)
  ultimately show ?thesis
    by (simp add: demo_continued_def issue_def demo_continues_cached demo_permits grant_for_def
        demo_request_fields demo_payment Let_def demo_resolved_frame)
qed

lemma demo_caution_valid: "valid_draft demo_caution"
  by code_simp

lemma demo_resolved_reached: "reached (control_step demo_world) empty_control demo_resolved"
proof -
  have "fresh (demo_draws 5 ''id5'') (demo_registered demo_caution)" by (simp add: fresh_def demo_registered_frame)
  then have "reached (control_step demo_world) empty_control demo_escalated"
    unfolding demo_escalated_def by (intro reached_step [OF registered_reached [OF demo_caution_valid]] step_evaluate)
  then show ?thesis unfolding demo_resolved_eq by (rule reached_step) (rule step_resolve)
qed

section \<open>The executor\<close>

definition demo_executor :: executor where
  "demo_executor = \<lparr>xc_identity = demo_actor ''exec'' EXECUTOR, xc_key_id = execution_key_id,
     xc_adapter = ''bank'', xc_store = ''store''\<rparr>"

definition demo_token :: execution_grant where
  "demo_token = \<lparr>eg_nonce = ''id6'', eg_tenant = ''acme'', eg_task = ''t1'', eg_agent = ''zoe'', eg_key = ''zoe-key'',
     eg_audience = ''exec'', eg_domain = ''store'', eg_digest = action_digest demo_world demo_action, eg_authority = ''g'',
     eg_adapter = ''bank'', eg_policy = ''id1'', eg_epoch = 1, eg_issued = 6, eg_expires = 60, eg_repeatable = False,
     eg_amount = ''40'', eg_budget = Some ''100'', eg_key_id = execution_key_id, eg_signature = ''s''\<rparr>"

definition demo_outbox :: executor_state where
  "demo_outbox = \<lparr>xs_ledger = demo_ledger, xs_online = 0, xs_sent = []\<rparr>"

definition demo_execution :: "execute_reply result \<times> executor_state" where
  "demo_execution = execute_grant demo_world demo_executor (\<lambda>_ _ _ _. Inr ()) (\<lambda>_. Inr (Some ''paid'')) 10
     (demo_actor ''zoe'' AGENT) demo_action demo_token demo_outbox"

text \<open>A control plane that issued the token.\<close>

definition demo_holding :: control_state where
  "demo_holding = (demo_registered demo_draft)\<lparr>cs_issued := [(''id6'', grant_json (w_stamp demo_world) demo_token)]\<rparr>"

lemma demo_token_holds:
  "validate demo_world 10 (demo_actor ''exec'' EXECUTOR) demo_action demo_token demo_holding = Inr ()"
proof -
  have "require (demo_actor ''exec'' EXECUTOR) EXECUTOR (aq_tenant demo_action) demo_holding = Inr ()"
    unfolding demo_request_fields by (rule demo_require) (simp_all add: demo_holding_def demo_registered_frame)
  moreover have "grant_current demo_world 10 (demo_actor ''exec'' EXECUTOR) demo_action demo_token demo_holding"
    by (simp add: grant_current_def demo_token_def demo_holding_def demo_request_fields demo_registered_frame)
       (simp add: demo_world_def)
  moreover have "task_of demo_world (grant_principal demo_token) demo_action demo_holding = Inr demo_task"
    unfolding task_of_ok require_ok
    by (simp add: demo_allows demo_holding_def demo_registered_frame)
       (simp add: grant_principal_def demo_token_def demo_action_def demo_task_def)
  ultimately show ?thesis
    by (simp add: validate_ok) (simp add: demo_actor_def blank_def demo_task_def demo_token_def demo_compiled_def)
qed

text \<open>An online check that always accepts the grant is all an execution sees of it.\<close>

lemma online_irrelevant:
  assumes "\<And>n. online n (xc_identity x) q g = Inr ()"
  shows "execute_grant w x online send now caller q g st
    = execute_grant w x (\<lambda>_ _ _ _. Inr ()) send now caller q g st"
proof -
  have "validated_dispatch x online send q g = validated_dispatch x (\<lambda>_ _ _ _. Inr ()) send q g"
    by (rule ext) (simp add: validated_dispatch_def assms)
  then show ?thesis unfolding execute_grant_def by (simp only: assms)
qed

lemma demo_ledger_inv: "ledger_inv demo_ledger"
proof -
  have "ld_rows demo_ledger = []" by code_simp
  then show ?thesis using ledger_inv_empty by blast
qed

text \<open>Whatever the adapter answers, the effect is in the log.\<close>

lemma dispatch_logs: "xs_sent (snd (dispatch_effect x send q n st)) = xs_sent st @ [(n, q)]"
proof -
  let ?st = "st\<lparr>xs_sent := xs_sent st @ [(n, q)]\<rparr>"
  have "executor_kept x ?st (snd (fail_with x n s e ?st :: execute_reply result \<times> executor_state))" for s e
    by (rule fail_kept)
  moreover have "executor_kept x ?st (snd (andthen (finish_state x n s r d ?st) (\<lambda>_ st'. (Inr v, st'))))" for s r d and v :: execute_reply
    by (rule andthen_keeps) (simp_all add: finish_kept)
  ultimately show ?thesis
    by (simp add: dispatch_effect_def Let_def executor_kept_def split: sum.split option.split)
qed

lemma demo_sent: "xs_sent (snd demo_execution) \<noteq> xs_sent demo_outbox"
proof -
  have admits: "grant_admits demo_world demo_executor 10 (demo_actor ''zoe'' AGENT) demo_action demo_token" by code_simp
  have amount: "decimal_str (Dec 40 0) = eg_amount demo_token" by code_simp
  have "fst (reserve_text ''store'' (Some ''100'')
      (reserve_request demo_world demo_executor (demo_actor ''zoe'' AGENT) demo_action demo_token (Dec 40 0)) demo_ledger)
      = Inr None" by code_simp
  then obtain db where reserve: "reserve_text ''store'' (Some ''100'')
      (reserve_request demo_world demo_executor (demo_actor ''zoe'' AGENT) demo_action demo_token (Dec 40 0)) demo_ledger
      = (Inr None, db)" by (metis prod.collapse)
  have fields: "xc_store demo_executor = ''store''" "eg_budget demo_token = Some ''100''"
    by (simp_all add: demo_executor_def demo_token_def)
  show ?thesis
    by (simp add: demo_execution_def execute_grant_def admits demo_payment amount fields demo_outbox_def reserve
        validated_dispatch_def Let_def dispatch_logs del: decimal_str.simps)
qed

section \<open>The store\<close>

definition demo_texts :: texts where
  "demo_texts = \<lparr>tx_scope = (\<lambda>_. ''scope''), tx_scope_of = (\<lambda>_. Some demo_grant),
     tx_schemas = (\<lambda>_. ''schemas''), tx_schemas_of = (\<lambda>_. Some demo_schemas)\<rparr>"

definition demo_config :: "string \<Rightarrow> nat \<Rightarrow> store_config" where
  "demo_config kid m = \<lparr>sc_key_id = kid, sc_max_entries = 10, sc_max_bytes = m, sc_texts = demo_texts\<rparr>"

lemma demo_texts_keep: "tasks_keep (sc_texts (demo_config kid m)) (demo_registered draft)"
  by (simp add: tasks_keep_def texts_keep_def demo_config_def demo_texts_def demo_registered_frame demo_task_def
      demo_compiled_def)

text \<open>A store that holds the empty state, with room for one draft more.\<close>

definition demo_drafted :: control_state where
  "demo_drafted = snd (create_draft exact_world (demo_draws 1 ''id1'') ''acme'' (demo_actor ''ann'' ADMIN) demo_draft
     empty_control)"

definition demo_limit :: nat where
  "demo_limit = doc_bytes (snapshot exact_world (demo_config ''k1'' 0) 0 empty_control)
     + doc_bytes (snapshot exact_world (demo_config ''k1'' 0) 1 demo_drafted)
     + doc_bytes (snapshot exact_world (demo_config ''k1'' 0) 1 empty_control)
     + doc_bytes (snapshot exact_world (demo_config ''k2'' 0) 1 empty_control)"

definition demo_store :: authority_store where
  "demo_store = \<lparr>au_row = Some (snapshot exact_world (demo_config ''k1'' 0) 0 empty_control, ''s''),
     au_state = empty_control, au_revision = 0\<rparr>"

lemma demo_snapshot: "snapshot w (demo_config kid demo_limit) n s = snapshot w (demo_config kid 0) n s"
  by (simp add: snapshot_def demo_config_def)

lemma demo_max [simp]: "sc_max_bytes (demo_config kid m) = m"
  by (simp add: demo_config_def)

lemma demo_store_opens: "open_row exact_world (demo_config ''k1'' demo_limit) i demo_store = Inr (0, empty_control)"
proof -
  have keep: "tasks_keep (sc_texts (demo_config ''k1'' demo_limit)) empty_control"
    by (simp add: tasks_keep_def empty_control_def)
  have row: "au_row demo_store = Some (snapshot exact_world (demo_config ''k1'' demo_limit) 0 empty_control,
      w_sign exact_world state_purpose (snapshot exact_world (demo_config ''k1'' demo_limit) 0 empty_control))"
    by (simp add: demo_store_def demo_snapshot) (simp add: exact_world_def demo_world_def)
  have "open_row exact_world (demo_config ''k1'' demo_limit) i demo_store = Inr (0, settled empty_control)"
    by (rule open_committed [OF exact_world_sound keep row]) (simp add: demo_snapshot, simp add: demo_limit_def)
  then show ?thesis by (simp add: settled_def empty_control_def)
qed

lemma pruned_idle:
  "cs_receipts s = [] \<Longrightarrow> cs_reviews s = [] \<Longrightarrow> cs_issued s = [] \<Longrightarrow> pruned w now s = s"
  by (cases s) (simp add: pruned_def)

lemma demo_drafted_frame:
  "cs_receipts demo_drafted = []" "cs_reviews demo_drafted = []" "cs_issued demo_drafted = []" "cs_tasks demo_drafted = []"
  by (simp_all add: demo_drafted_def create_draft_def demo_require empty_control_def set_policies_def Let_def)

lemma demo_commits:
  "\<exists>p au'. transaction exact_world (demo_config ''k1'' demo_limit) 5
      (create_draft exact_world (demo_draws 1 ''id1'') ''acme'' (demo_actor ''ann'' ADMIN) demo_draft) demo_store = (Inr p, au')
    \<and> au_state au' = demo_drafted"
proof -
  have "dumps (snapshot exact_world (demo_config ''k1'' 0) 1 demo_drafted) \<noteq> None" by code_simp
  then obtain t where dumped: "dumps (snapshot exact_world (demo_config ''k1'' 0) (Suc 0) demo_drafted) = Some t" by auto
  have quota: "within_quota (demo_config ''k1'' m) empty_control" "within_quota (demo_config ''k1'' m) demo_drafted" for m
  proof -
    have "within_quota (demo_config ''k1'' 0) empty_control" "within_quota (demo_config ''k1'' 0) demo_drafted" by code_simp+
    then show "within_quota (demo_config ''k1'' m) empty_control" "within_quota (demo_config ''k1'' m) demo_drafted"
      by (simp_all add: within_quota_def demo_config_def)
  qed
  have idle: "pruned exact_world 5 empty_control = empty_control" "pruned exact_world 5 demo_drafted = demo_drafted"
    by (simp_all add: pruned_idle demo_drafted_frame) (simp add: pruned_idle empty_control_def)
  obtain p where body: "create_draft exact_world (demo_draws 1 ''id1'') ''acme'' (demo_actor ''ann'' ADMIN) demo_draft empty_control
      = (Inr p, demo_drafted)"
    by (simp add: demo_drafted_def create_draft_def demo_require empty_control_def Let_def)
  show ?thesis
    using dumped by (simp add: transaction_def transact_def demo_store_opens prune_and_bound_def idle quota body commit_def
        Let_def demo_snapshot) (simp add: demo_limit_def)
qed

text \<open>A transaction on the empty state that leaves it as it is.\<close>

lemma demo_idle:
  assumes "open_row exact_world (demo_config kid demo_limit) i au = Inr (m, empty_control)" and "kid \<in> {''k1'', ''k2''}"
    and "body m empty_control = (Inr v, 0, empty_control)"
  shows "transact exact_world (demo_config kid demo_limit) 5 i body au =
    (Inr v, \<lparr>au_row = Some (snapshot exact_world (demo_config kid 0) 1 empty_control, ''s''),
             au_state = empty_control, au_revision = 1\<rparr>)"
proof -
  have "dumps (snapshot exact_world (demo_config ''k1'' 0) 1 empty_control) \<noteq> None"
    "dumps (snapshot exact_world (demo_config ''k2'' 0) 1 empty_control) \<noteq> None" by code_simp+
  then obtain t where dumped: "dumps (snapshot exact_world (demo_config kid 0) (Suc 0) empty_control) = Some t"
    using assms(2) by auto
  have quota: "within_quota (demo_config kid demo_limit) empty_control"
    by (simp add: within_quota_def empty_control_def)
  have idle: "pruned exact_world 5 empty_control = empty_control" by (simp add: pruned_idle empty_control_def)
  have size: "doc_bytes (snapshot exact_world (demo_config kid 0) (Suc 0) empty_control) \<le> demo_limit"
    using assms(2) by (auto simp: demo_limit_def)
  have sign: "w_sign exact_world p j = ''s''" for p j by (simp add: exact_world_def demo_world_def)
  show ?thesis
    using size by (simp add: transact_def assms(1) prune_and_bound_def idle quota assms(3) commit_def Let_def demo_snapshot
        dumped sign)
qed

lemma demo_rekeys:
  "\<exists>copy au'. rekey exact_world exact_world (demo_config ''k1'' demo_limit) (demo_config ''k2'' demo_limit) 5 False
      (demo_actor ''ann'' ADMIN) demo_store = (Inr copy, au')"
proof -
  let ?c = "demo_config ''k2'' demo_limit"
  define au1 where "au1 = \<lparr>au_row = Some (snapshot exact_world (demo_config ''k2'' 0) 1 empty_control, ''s''),
             au_state = empty_control, au_revision = 1\<rparr>"
  have "open_row exact_world ?c True empty_store = Inr (0, empty_control)"
    by (simp add: open_row_def empty_store_def)
  then have first: "open_store exact_world ?c 5 True empty_store = (Inr (), au1)"
    unfolding open_store_def au1_def by (rule demo_idle) simp_all
  have keep: "tasks_keep (sc_texts ?c) empty_control" by (simp add: tasks_keep_def empty_control_def)
  have settled: "settled empty_control = empty_control" by (simp add: settled_def empty_control_def)
  have "au_row au1 = Some (snapshot exact_world ?c 1 empty_control, w_sign exact_world state_purpose (snapshot exact_world ?c 1 empty_control))"
    by (simp add: au1_def demo_snapshot) (simp add: exact_world_def demo_world_def)
  from open_committed [OF exact_world_sound keep this, of False]
  have opened: "open_row exact_world ?c False au1 = Inr (1, empty_control)"
    by (simp add: settled demo_snapshot) (simp add: demo_limit_def)
  have rekeyed: "rekeyed empty_control = empty_control" by (simp add: rekeyed_def empty_control_def)
  have "read_snapshot exact_world ?c (snapshot exact_world ?c 0 empty_control) = Some (0, settled empty_control)"
    unfolding read_snapshot_def snapshot_def
    using exact_world_sound by (intro snapshot_round keep) (simp add: sound_world_def)
  then have copied: "replacement_store exact_world exact_world ?c 5 0 empty_control = (Inr (), au1)"
    unfolding replacement_store_def first rekeyed settled au1_def andthen_simps
    by (intro demo_idle) (use opened in \<open>simp_all add: au1_def\<close>)
  have none: "dict_keys (cs_policies empty_control) = []" by (simp add: dict_keys_def empty_control_def)
  have "transact exact_world (demo_config ''k1'' demo_limit) 5 False
      (\<lambda>n s. case require_all (demo_actor ''ann'' ADMIN) (dict_keys (cs_policies s)) s of
            Inl e \<Rightarrow> (Inl e, n, s)
          | Inr _ \<Rightarrow>
              (case replacement_store exact_world exact_world ?c 5 n s of
                 (Inl e, _) \<Rightarrow> (Inl e, n, s)
               | (Inr _, copy) \<Rightarrow> (Inr copy, n, s))) demo_store = (Inr au1, au1\<lparr>au_row := Some (snapshot exact_world (demo_config ''k1'' 0) 1 empty_control, ''s'')\<rparr>)"
    by (subst demo_idle [OF demo_store_opens, where v = au1]) (simp_all add: copied none, simp add: au1_def)
  then show ?thesis by (simp add: rekey_def) (simp add: demo_config_def)
qed

section \<open>The gate\<close>

definition demo_limits :: request_limits where
  "demo_limits = \<lparr>rl_max_body = 100, rl_max_inflight = 2, rl_per_minute = 2, rl_max_principals = 1\<rparr>"

definition demo_gate :: gate_state where
  "demo_gate = \<lparr>gt_inflight = 1, gt_buckets = [((''zoe'', None), [1])]\<rparr>"

lemma demo_arrives: "arrive demo_limits 1 (Some (''zoe'', None)) empty_gate = (Admitted, demo_gate)"
  by code_simp

end
