(* ===== verification/Divergences.thy ===== *)
theory Divergences
  imports ControlFacts ExecutorSafety Transactions
begin

text \<open>
  Behaviours of the code that its own intent contradicts, each as a theorem about the model:
  a reported success that cannot be reconciled, an audit event that hides what it is about,
  a rollback that needs no second person, and a failed transaction that is not undone in memory.
\<close>

text \<open>A provider that reports success without a result: the ledger refuses the reconciliation.\<close>

lemma success_needs_result:
  assumes "lookup (xc_store x) nonce (xs_ledger st) = Inr row"
    and "REVIEWER \<in> set (ac_roles a)" "AGENT \<notin> set (ac_roles a)" "er_tenant row \<in> set (ac_tenants a)"
    and "ask row reference = Inr r" "pt_digest r = er_digest row" "pt_reference r = reference"
    and "pt_status r = ''succeeded''" "pt_result r = None"
  shows "\<exists>m. reconcile_grant x (Some ask) a nonce reference fenced st = (Inl (ValueError m), st)"
  using assms by (simp add: reconcile_grant_def receipt_result_def reconcile_def)

text \<open>The identifier of a revoked credential is under a key the redaction hides.\<close>

lemma revoked_credential_hidden:
  assumes "revoke_credential w d t a c s = (Inr u, s')"
  shows "ae_payload (last (audits_of s' t)) = JObj [(''credential_id'', JStr ''[REDACTED_SECRET]'')]"
proof -
  have "sensitive_key ''credential_id''" by code_simp
  then have "redact (JObj [(''credential_id'', JStr c)]) = JObj [(''credential_id'', JStr ''[REDACTED_SECRET]'')]"
    by (simp add: redact_def default_redaction_def)
  then show ?thesis
    using assms by (auto simp: revoke_credential_def audits_of_audited next_event_def Let_def split: sum.splits if_split_asm)
qed

text \<open>The author of a version may restore it alone, and becomes the one who approved it.\<close>

lemma rollback_by_author:
  assumes "require a APPROVER t s = Inr ()" and "find_policy s t pid = Inr p"
    and "pv_status p = ROLLED_BACK" and "pv_created_by p = ac_subject a"
  shows "\<exists>p' s'. rollback w d t a pid s = (Inr p', s') \<and> active_policy s' t = Some p'
    \<and> pv_created_by p' = ac_subject a \<and> pv_approved_by p' = Some (ac_subject a)"
  using assms active_install [OF assms(2)] by (simp add: rollback_def) (simp add: activate_def)

text \<open>After a failed operation the epochs in memory are those the operation left.\<close>

lemma rollback_keeps_epochs:
  assumes "open_row w cfg False au = Inr (n, s)" and "within_quota cfg (pruned w now s)"
    and "body (pruned w now s) = (Inl e, s2)"
  shows "transaction w cfg now body au = (Inl e, au\<lparr>au_state := rolled_back s s2, au_revision := n\<rparr>)"
    and "cs_epochs (rolled_back s s2) = cs_epochs s2" and "cs_policies (rolled_back s s2) = cs_policies s"
  using assms by (simp_all add: transaction_def transact_def prune_and_bound_def undo_def rolled_back_def)

end
