(* ===== verification/LlmTransport.thy ===== *)
theory LlmTransport
  imports JsonText JsonRead
begin

text \<open>
  The transports of \<open>supervisor/llm.py\<close> and the retry loop around them. What the network or
  a vendor's client answers is a parameter: the outcome of one request. The transports map
  it to a decoded reply or to one of the two provider errors; a reply is ASCII text.
\<close>

section \<open>Ollama over urllib\<close>

datatype chat_outcome =
    ChatBody string
  | ChatTimeout
  | ChatUrlError string
  | ChatRaised exn

fun post_chat :: "chat_outcome \<Rightarrow> json result" where
  "post_chat (ChatBody body) =
     (case json_loads body of
        None \<Rightarrow> Inl (SupervisorSchemaError ''ollama returned non-JSON response'')
      | Some v \<Rightarrow> Inr v)"
| "post_chat ChatTimeout = Inl (SupervisorTransportError ''ollama request timed out'' True)"
| "post_chat (ChatUrlError text) =
     Inl (SupervisorTransportError (''ollama connection failed: '' @ text) True)"
| "post_chat (ChatRaised e) = Inl e"

text \<open>\<open>get_json\<close>: None stands for a connection that fails.\<close>

definition get_json :: "string option \<Rightarrow> json pydict" where
  "get_json body =
     (case body of
        None \<Rightarrow> []
      | Some text \<Rightarrow> (case json_loads text of Some (JObj d) \<Rightarrow> d | _ \<Rightarrow> []))"

section \<open>Gemini transports\<close>

text \<open>The settings a Gemini transport is built from; None is an unset variable or argument.\<close>

record gemini_env =
  ge_transport :: "string option"
  ge_base_url :: "string option"
  ge_api_key :: "string option"

text \<open>\<open>a or b\<close> on optional strings.\<close>

definition or_str :: "string option \<Rightarrow> string option \<Rightarrow> string option" where
  "or_str a b = (if a = None \<or> a = Some [] then b else a)"

definition some_text :: "string option \<Rightarrow> bool" where
  "some_text s \<longleftrightarrow> s \<noteq> None \<and> s \<noteq> Some []"

definition gemini_base_url :: "gemini_env \<Rightarrow> string option \<Rightarrow> string option" where
  "gemini_base_url env base_url = or_str (or_str base_url (ge_base_url env)) None"

datatype gemini_kind = GoogleGenAI | OpenAICompatible

definition gemini_transport_kind :: "gemini_env \<Rightarrow> string option \<Rightarrow> gemini_kind result" where
  "gemini_transport_kind env base_url =
     (let configured = casefold (py_strip (case ge_transport env of None \<Rightarrow> ''auto'' | Some s \<Rightarrow> s)) in
      if configured \<notin> {''auto'', ''google'', ''openai''}
      then Inl (SupervisorTransportError ''TRACEGUARD_GEMINI_TRANSPORT must be auto, google, or openai'' False)
      else if configured = ''openai'' then Inr OpenAICompatible
      else if configured = ''google'' then Inr GoogleGenAI
      else Inr (if some_text (gemini_base_url env base_url) then OpenAICompatible else GoogleGenAI))"

record gemini_transport =
  gt_kind :: gemini_kind
  gt_api_key :: "string option"
  gt_base_url :: "string option"

definition build_gemini_transport ::
  "gemini_env \<Rightarrow> string option \<Rightarrow> string option \<Rightarrow> gemini_transport result" where
  "build_gemini_transport env api_key base_url =
     (let actual = gemini_base_url env base_url in
      case gemini_transport_kind env actual of
        Inl e \<Rightarrow> Inl e
      | Inr kind \<Rightarrow>
          Inr \<lparr>gt_kind = kind, gt_api_key = or_str api_key (ge_api_key env),
               gt_base_url = gemini_base_url env actual\<rparr>)"

text \<open>
  What a vendor's client does with one request: the package is not installed, it answers
  with the reply's text and its two token counts, or it raises, with the class, the
  \<open>status_code\<close> and \<open>code\<close> of the exception and whether it is a timeout.
\<close>

record client_failure =
  cf_class :: string
  cf_status_code :: "int option"
  cf_code :: "int option"
  cf_timeout :: bool

datatype client_outcome =
    NotInstalled
  | Completed json "(json \<times> json) option"
  | ClientRaised client_failure

definition failure_status :: "client_failure \<Rightarrow> int option" where
  "failure_status f =
     (if cf_status_code f = None \<or> cf_status_code f = Some 0 then cf_code f else cf_status_code f)"

definition retryable_failure :: "client_failure \<Rightarrow> bool" where
  "retryable_failure f \<longleftrightarrow>
     failure_status f \<in> Some ` {408, 429, 500, 502, 503, 504} \<or> cf_timeout f"

definition provider_metadata_key :: string where
  "provider_metadata_key = ''_traceguard_provider_metadata''"

text \<open>The part the two transports share; they differ in how their errors name them.\<close>

definition read_completion :: "string \<Rightarrow> string \<Rightarrow> client_outcome \<Rightarrow> json pydict result" where
  "read_completion name subject outcome =
     (case outcome of
        NotInstalled \<Rightarrow>
          Inl (SupervisorTransportError (''install TraceGuard with the '' @ [CHR 0x27] @ ''gemini'' @ [CHR 0x27] @ '' extra'') False)
      | ClientRaised f \<Rightarrow>
          Inl (SupervisorTransportError (name @ '' request failed: '' @ cf_class f) (retryable_failure f))
      | Completed content usage \<Rightarrow>
          (case get_str content of
             None \<Rightarrow> Inl (SupervisorSchemaError (''empty '' @ subject))
           | Some text \<Rightarrow>
               if py_strip text = [] then Inl (SupervisorSchemaError (''empty '' @ subject))
               else (case json_loads text of
                  None \<Rightarrow> Inl (SupervisorSchemaError (name @ '' returned malformed JSON''))
                | Some (JObj parsed) \<Rightarrow>
                    Inr (case usage of
                           None \<Rightarrow> parsed
                         | Some (prompt_count, count) \<Rightarrow>
                             AList.update provider_metadata_key
                               (JObj [(''prompt_eval_count'', prompt_count), (''eval_count'', count)]) parsed)
                | Some _ \<Rightarrow> Inl (SupervisorSchemaError (subject @ '' is not an object'')))))"

definition google_generate :: "gemini_transport \<Rightarrow> client_outcome \<Rightarrow> json pydict result" where
  "google_generate t outcome =
     (if \<not> some_text (gt_api_key t)
      then Inl (SupervisorTransportError ''GEMINI_API_KEY is not configured'' False)
      else read_completion ''Gemini'' ''Gemini supervisor response'' outcome)"

definition openai_generate :: "gemini_transport \<Rightarrow> client_outcome \<Rightarrow> json pydict result" where
  "openai_generate t outcome =
     (if \<not> some_text (gt_api_key t)
      then Inl (SupervisorTransportError ''GEMINI_API_KEY is not configured'' False)
      else if \<not> some_text (gt_base_url t)
      then Inl (SupervisorTransportError ''GEMINI_BASE_URL is not configured'' False)
      else read_completion ''OpenAI-compatible Gemini'' ''OpenAI-compatible Gemini response'' outcome)"

definition generate_json :: "gemini_transport \<Rightarrow> client_outcome \<Rightarrow> json pydict result" where
  "generate_json t outcome =
     (case gt_kind t of
        GoogleGenAI \<Rightarrow> google_generate t outcome
      | OpenAICompatible \<Rightarrow> openai_generate t outcome)"

section \<open>The retry loop\<close>

fun retryable :: "'a result \<Rightarrow> bool" where
  "retryable (Inl (SupervisorTransportError _ r)) = r"
| "retryable _ = False"

text \<open>
  \<open>call n s\<close> is the body of the loop after \<open>n\<close> retries. The loop counts up to the configured
  maximum, so it ends; what the body returns or raises otherwise leaves it at once.
\<close>

function retry :: "int \<Rightarrow> (nat \<Rightarrow> 's \<Rightarrow> 'a result \<times> 's) \<Rightarrow> nat \<Rightarrow> 's \<Rightarrow> 'a result \<times> 's" where
  "retry mx call n s =
     (case call n s of (r, s') \<Rightarrow>
        if \<not> retryable r \<or> mx \<le> int n then (r, s') else retry mx call (Suc n) s')"
  by auto
termination by (relation "measure (\<lambda>(mx, call, n, s). nat (mx - int n))") auto

declare retry.simps [simp del]

text \<open>The body after \<open>k\<close> further rounds that each ask for a retry.\<close>

fun attempt :: "(nat \<Rightarrow> 's \<Rightarrow> 'a result \<times> 's) \<Rightarrow> nat \<Rightarrow> 's \<Rightarrow> nat \<Rightarrow> 'a result \<times> 's" where
  "attempt call n s 0 = call n s"
| "attempt call n s (Suc k) = attempt call (Suc n) (snd (call n s)) k"

lemma retry_attempts:
  obtains k where "int (n + k) \<le> max mx (int n)"
    and "retry mx call n s = attempt call n s k"
    and "\<forall>i<k. retryable (fst (attempt call n s i))"
    and "retryable (fst (retry mx call n s)) \<Longrightarrow> mx \<le> int (n + k)"
proof -
  have "\<exists>k. int (n + k) \<le> max mx (int n) \<and> retry mx call n s = attempt call n s k
      \<and> (\<forall>i<k. retryable (fst (attempt call n s i)))
      \<and> (retryable (fst (retry mx call n s)) \<longrightarrow> mx \<le> int (n + k))"
  proof (induction mx call n s rule: retry.induct)
    case (1 mx call n s)
    obtain r s' where c: "call n s = (r, s')" by (cases "call n s")
    show ?case
    proof (cases "\<not> retryable r \<or> mx \<le> int n")
      case True
      then have "retry mx call n s = call n s" by (simp add: retry.simps [of mx call n s] c)
      with True c show ?thesis by (intro exI [of _ 0]) auto
    next
      case False
      then have r: "retry mx call n s = retry mx call (Suc n) s'"
        by (simp add: retry.simps [of mx call n s] c)
      from "1.IH" [OF c [symmetric] False] obtain k where
        k: "int (Suc n + k) \<le> max mx (int (Suc n))" "retry mx call (Suc n) s' = attempt call (Suc n) s' k"
          "\<forall>i<k. retryable (fst (attempt call (Suc n) s' i))"
          "retryable (fst (retry mx call (Suc n) s')) \<longrightarrow> mx \<le> int (Suc n + k)" by blast
      have "\<forall>i<Suc k. retryable (fst (attempt call n s i))"
        using k(3) False by (auto simp: less_Suc_eq_0_disj c)
      with k False show ?thesis by (intro exI [of _ "Suc k"]) (simp add: r c)
    qed
  qed
  then show ?thesis using that by blast
qed

text \<open>A property every round's result has is one of the loop's result.\<close>

lemma retry_result:
  assumes "\<And>n s. P (fst (call n s))"
  shows "P (fst (retry mx call n s))"
proof -
  have "P (fst (attempt call n s k))" for n s k
    by (induction k arbitrary: n s) (simp_all add: assms)
  moreover obtain k where "retry mx call n s = attempt call n s k" by (rule retry_attempts)
  ultimately show ?thesis by simp
qed

end
