(* ===== verification/LlmSupervisor.thy ===== *)
theory LlmSupervisor
  imports LlmProvider Doubles
begin

text \<open>
  \<open>QwenSupervisor\<close> of \<open>supervisor/llm.py\<close>: the deterministic guard, the consultation of a
  provider and the assessment after a run. A provider is a function from a request to its
  response or exception; the state is what the object keeps between calls. Of a pydantic
  model that is dumped into the log the model itself is kept.
\<close>

section \<open>State\<close>

record evaluation_log =
  el_goal :: string
  el_call :: tool_call
  el_deterministic :: bool
  el_deterministic_decision :: decision
  el_called :: bool
  el_response :: "supervisor_response option"
  el_final :: supervisor_output
  el_error :: "string option"

record llm_supervisor =
  ls_tools :: "json pydict pydict"
  ls_threshold :: decimal
  ls_enable_rewrite :: bool
  ls_deterministic :: bool
  ls_post_provider :: bool
  ls_log :: "evaluation_log option"
  ls_policy :: "json pydict"
  ls_authority :: task_authority
  ls_previous :: "tool_call list"
  ls_rewritten :: bool

definition new_supervisor ::
  "json pydict \<Rightarrow> json pydict pydict \<Rightarrow> decimal \<Rightarrow> bool \<Rightarrow> bool \<Rightarrow> bool \<Rightarrow> llm_supervisor" where
  "new_supervisor policy tools threshold rewrite deterministic post_run =
     \<lparr>ls_tools = tools, ls_threshold = threshold, ls_enable_rewrite = rewrite,
      ls_deterministic = deterministic, ls_post_provider = post_run, ls_log = None, ls_policy = policy,
      ls_authority = default_authority, ls_previous = [], ls_rewritten = False\<rparr>"

definition set_context ::
  "tool_call list \<Rightarrow> task_authority \<Rightarrow> json pydict option \<Rightarrow> bool \<Rightarrow> llm_supervisor \<Rightarrow> llm_supervisor" where
  "set_context previous authority policy already_rewritten s =
     s\<lparr>ls_previous := previous, ls_authority := authority,
       ls_policy := (case policy of None \<Rightarrow> ls_policy s | Some p \<Rightarrow> p),
       ls_rewritten := already_rewritten\<rparr>"

section \<open>The deterministic guard\<close>

definition runtime_output ::
  "decision \<Rightarrow> risk_level \<Rightarrow> goal_relevance \<Rightarrow> goal_necessity \<Rightarrow> string \<Rightarrow> string list \<Rightarrow> supervisor_output" where
  "runtime_output d risk relevance necessity reason rules =
     \<lparr>so_decision = d, so_risk = risk, so_confidence = 85 / 100, so_violation = (d = BLOCK),
      so_relevance = relevance, so_necessity = necessity, so_reason = reason, so_rules = rules,
      so_rewritten = None, so_target = None, so_profile = None, so_metadata = []\<rparr>"

lemma runtime_output_fields [simp, output_simps]:
  "so_decision (runtime_output d risk relevance necessity reason rules) = d"
  "so_risk (runtime_output d risk relevance necessity reason rules) = risk"
  "so_rewritten (runtime_output d risk relevance necessity reason rules) = None"
  by (simp_all add: runtime_output_def)

text \<open>\<open>fingerprint\<close> and \<open>sha\<close> are the digests of the compiled authority.\<close>

record digests =
  dg_sha :: "json \<Rightarrow> string"
  dg_fingerprint :: "task_authority \<Rightarrow> json pydict pydict \<Rightarrow> string"

definition deterministic_guard ::
  "wire \<Rightarrow> digests \<Rightarrow> llm_supervisor \<Rightarrow> string \<Rightarrow> tool_call \<Rightarrow> observation list \<Rightarrow> supervisor_output result" where
  "deterministic_guard w dg s goal call obs =
     (if is_strict (ls_authority s)
      then (case compile_authority (dg_fingerprint dg) (ls_authority s) (ls_tools s) of
              Inl e \<Rightarrow>
                if is_value_error e
                then Inr (authority_output ESCALATE ''invalid-strict-grant'' ''Strict grant compilation failed.'' HIGH)
                else Inl e
            | Inr ca \<Rightarrow>
                Inr (evaluate_authority (dg_sha dg) (wr_schema_ok w) ca goal call obs (ls_previous s)))
      else case check_authority goal call obs (ls_authority s) (ls_previous s) of
        Some denied \<Rightarrow> Inr denied
      | None \<Rightarrow>
          Inr (runtime_output ALLOW LOW RelUncertain NecUncertain
                 ''Explicit authority checks passed; semantic relevance remains unverified.''
                 [''deterministic-floor'']))"

definition guarded :: "llm_supervisor \<Rightarrow> bool" where
  "guarded s \<longleftrightarrow> ls_deterministic s \<or> is_strict (ls_authority s)"

definition deterministic_output ::
  "wire \<Rightarrow> digests \<Rightarrow> llm_supervisor \<Rightarrow> string \<Rightarrow> tool_call \<Rightarrow> observation list \<Rightarrow> supervisor_output result" where
  "deterministic_output w dg s goal call obs =
     (case duplicate_mutation call (ls_previous s) (ls_authority s) of
        Some repeated \<Rightarrow> Inr repeated
      | None \<Rightarrow>
          if guarded s then deterministic_guard w dg s goal call obs
          else Inr (runtime_output ALLOW LOW RelWeak NecHelpful
                 ''Deterministic guardrails disabled for LLM-only supervisor evaluation.''
                 [''llm-only-mode'']))"

section \<open>The request to the provider\<close>

definition known_tools :: "llm_supervisor \<Rightarrow> string list \<Rightarrow> json" where
  "known_tools s names = JList (map JStr (filter (dict_has (ls_tools s)) names))"

definition request_policy :: "llm_supervisor \<Rightarrow> json pydict" where
  "request_policy s =
     AList.update ''tool_effects''
       (JObj [(''version'', JStr registry_version),
              (''read'', known_tools s registry_read),
              (''mutations'', JObj (map (\<lambda>(t, verbs). (t, JList (map JStr verbs)))
                                 (filter (\<lambda>(t, _). dict_has (ls_tools s) t) registry_mutations))),
              (''argument_dependent'', known_tools s registry_argument_dependent)])
       (ls_policy s)"

definition build_request ::
  "llm_supervisor \<Rightarrow> string \<Rightarrow> tool_call \<Rightarrow> observation list \<Rightarrow> supervisor_request" where
  "build_request s goal call obs =
     \<lparr>sq_goal = goal, sq_call = call, sq_tools = ls_tools s, sq_policy = request_policy s,
      sq_authority = ls_authority s, sq_previous = ls_previous s, sq_observations = obs,
      sq_provenance = infer_provenance goal call obs, sq_rewritten = ls_rewritten s,
      sq_enable_rewrite = (ls_enable_rewrite s \<and> \<not> ls_rewritten s), sq_threshold = ls_threshold s\<rparr>"

definition make_request ::
  "llm_supervisor \<Rightarrow> string \<Rightarrow> tool_call \<Rightarrow> observation list \<Rightarrow> supervisor_request result" where
  "make_request s goal call obs =
     (if in_unit (ls_threshold s) then Inr (build_request s goal call obs)
      else Inl (ValueError ''confidence_threshold''))"

section \<open>Confidence\<close>

text \<open>\<open>a < b\<close> on floats.\<close>

fun dec_less :: "decimal \<Rightarrow> decimal \<Rightarrow> bool" where
  "dec_less DNan _ = False"
| "dec_less _ DNan = False"
| "dec_less (DInf a) (DInf b) = (a \<and> \<not> b)"
| "dec_less (DInf a) (Dec _ _) = a"
| "dec_less (Dec _ _) (DInf b) = (\<not> b)"
| "dec_less (Dec m e) (Dec n f) = (dec_val (Dec m e) < dec_val (Dec n f))"

lemma dec_less_finite: "dec_finite a \<Longrightarrow> dec_finite b \<Longrightarrow> dec_less a b \<longleftrightarrow> dec_val a < dec_val b"
  by (cases a; cases b) simp_all

text \<open>
  \<open>f"{x:.3f}"\<close>: the value of the binary float nearest to the decimal, rounded to three
  places; the nearest float is exact to 53 bits from 1/4096 up, and what is smaller prints
  as 0.000. The code prints two such numbers, both between 0 and 1 unless the configured
  threshold is not a number.
\<close>

definition nearest_float :: "rat \<Rightarrow> rat" where
  "nearest_float x =
     (case find (\<lambda>k. 1 \<le> x * 2 ^ k) [0..<13] of
        None \<Rightarrow> 0
      | Some k \<Rightarrow> of_int (round_even (x * 2 ^ (52 + k))) / 2 ^ (52 + k))"

definition fixed3 :: "rat \<Rightarrow> string" where
  "fixed3 x =
     (let n = nat (round_even (1000 * nearest_float x)); frac = nat_str (n mod 1000) in
      nat_str (n div 1000) @ ''.'' @ replicate (3 - length frac) (CHR ''0'') @ frac)"

fun fixed3_dec :: "decimal \<Rightarrow> string" where
  "fixed3_dec (DInf neg) = (if neg then ''-inf'' else ''inf'')"
| "fixed3_dec DNan = ''nan''"
| "fixed3_dec (Dec m e) = (if m < 0 then ''-'' else '''') @ fixed3 (dec_val (Dec \<bar>m\<bar> e))"

definition below_threshold :: "llm_supervisor \<Rightarrow> supervisor_response \<Rightarrow> bool" where
  "below_threshold s r \<longleftrightarrow>
     sr_decision r \<in> {ALLOW, REWRITE} \<and> dec_less (sr_confidence r) (ls_threshold s)"

definition screened_response :: "llm_supervisor \<Rightarrow> supervisor_response \<Rightarrow> supervisor_response" where
  "screened_response s r =
     (if below_threshold s r
      then r\<lparr>sr_decision := ESCALATE, sr_risk := ''HIGH'',
             sr_reason := ''Provider confidence '' @ fixed3_dec (sr_confidence r)
               @ '' is below the configured threshold '' @ fixed3_dec (ls_threshold s)
               @ ''; human review is required.'',
             sr_rewritten := None\<rparr>
      else r)"

section \<open>The response as an output\<close>

fun runtime_risk :: "string \<Rightarrow> risk_level result" where
  "runtime_risk v =
     (case find (\<lambda>r. risk_str r = v) [LOW, MEDIUM, HIGH, CRITICAL] of
        None \<Rightarrow> Inl (ValueError (v @ '' is not a valid RiskLevel''))
      | Some r \<Rightarrow> Inr r)"

fun runtime_relevance :: "string \<Rightarrow> goal_relevance result" where
  "runtime_relevance v =
     (if v = ''RELEVANT'' then Inr RelStrong
      else if v = ''UNRELATED'' then Inr RelIrrelevant
      else if v = ''UNCERTAIN'' then Inr RelUncertain else Inl (KeyError v))"

fun runtime_necessity :: "string \<Rightarrow> goal_necessity result" where
  "runtime_necessity v =
     (if v = ''NECESSARY'' then Inr NecNecessary
      else if v = ''UNNECESSARY'' then Inr NecUnnecessary
      else if v = ''UNCERTAIN'' then Inr NecUncertain else Inl (KeyError v))"

definition response_call :: "tool_call \<Rightarrow> supervisor_response \<Rightarrow> tool_call option" where
  "response_call call r =
     (if sr_decision r = REWRITE
      then map_option (\<lambda>rw. call\<lparr>tc_tool_name := rw_tool rw, tc_arguments := rw_arguments rw\<rparr>) (sr_rewritten r)
      else None)"

definition provider_rule :: "supervisor_response \<Rightarrow> string" where
  "provider_rule r =
     (if sr_metadata r = [] then ''llm'' else py_str (jget (sr_metadata r) ''provider'')) @ ''-supervisor''"

definition to_runtime_output ::
  "supervisor_response \<Rightarrow> supervisor_output \<Rightarrow> tool_call \<Rightarrow> supervisor_output result" where
  "to_runtime_output r det call =
     (case runtime_risk (sr_risk r) of Inl e \<Rightarrow> Inl e | Inr risk \<Rightarrow>
      (case runtime_relevance (sr_relevance r) of Inl e \<Rightarrow> Inl e | Inr relevance \<Rightarrow>
       (case runtime_necessity (sr_necessity r) of Inl e \<Rightarrow> Inl e | Inr necessity \<Rightarrow>
          Inr (enforce_allow_invariants
            \<lparr>so_decision = sr_decision r, so_risk = max (so_risk det) risk,
             so_confidence = dec_val (sr_confidence r), so_violation = (sr_decision r = BLOCK),
             so_relevance = relevance, so_necessity = necessity, so_reason = sr_reason r,
             so_rules = [provider_rule r], so_rewritten = response_call call r,
             so_target = so_target det, so_profile = so_profile det, so_metadata = sr_metadata r\<rparr>))))"

section \<open>Evaluation\<close>

type_synonym provider = "supervisor_request \<Rightarrow> supervisor_response result"

definition record_log ::
  "string \<Rightarrow> tool_call \<Rightarrow> supervisor_output \<Rightarrow> bool \<Rightarrow> supervisor_response option \<Rightarrow> string option
   \<Rightarrow> supervisor_output \<Rightarrow> llm_supervisor \<Rightarrow> supervisor_output result \<times> llm_supervisor" where
  "record_log goal call det called response err final s =
     (Inr final, s\<lparr>ls_log := Some \<lparr>el_goal = goal, el_call = call, el_deterministic = guarded s,
        el_deterministic_decision = so_decision det, el_called = called, el_response = response,
        el_final = final, el_error = err\<rparr>\<rparr>)"

definition failure_output :: supervisor_output where
  "failure_output =
     runtime_output ESCALATE HIGH RelWeak NecHelpful
       ''Supervisor LLM did not produce a valid decision; refusing to auto-allow.''
       [''llm-supervisor-provider-failure'']"

fun is_schema_error :: "exn \<Rightarrow> bool" where
  "is_schema_error (SupervisorSchemaError _) = True"
| "is_schema_error _ = False"

text \<open>The response after the provider returned it: validated again and made an output.\<close>

definition final_output ::
  "wire \<Rightarrow> supervisor_request \<Rightarrow> supervisor_response \<Rightarrow> supervisor_output \<Rightarrow> supervisor_output result" where
  "final_output w q r det =
     (case (case validate_rewrite (wr_schema_ok w) r q of
              Inl e \<Rightarrow> Inl e | Inr _ \<Rightarrow> to_runtime_output r det (sq_call q)) of
        Inr out \<Rightarrow> Inr out
      | Inl e \<Rightarrow>
          if is_schema_error e
          then Inr (runtime_output ESCALATE HIGH RelWeak NecHelpful (exn_text e) [''invalid-supervisor-rewrite''])
          else Inl e)"

definition consult ::
  "wire \<Rightarrow> provider \<Rightarrow> string \<Rightarrow> tool_call \<Rightarrow> supervisor_output \<Rightarrow> supervisor_request \<Rightarrow> llm_supervisor
   \<Rightarrow> supervisor_output result \<times> llm_supervisor" where
  "consult w provide goal call det q s =
     (case provide q of
        Inl e \<Rightarrow>
          if is_exception e
          then record_log goal call det True None
                 (Some (''provider evaluation failed; used fallback decision: '' @ exn_text e)) failure_output s
          else (Inl e, s)
      | Inr r \<Rightarrow>
          (case final_output w q (screened_response s r) det of
             Inl e \<Rightarrow> (Inl e, s)
           | Inr final \<Rightarrow>
               record_log goal call det True (Some (screened_response s r)) None final s))"

definition llm_evaluate ::
  "wire \<Rightarrow> digests \<Rightarrow> provider \<Rightarrow> string \<Rightarrow> tool_call \<Rightarrow> observation list \<Rightarrow> llm_supervisor
   \<Rightarrow> supervisor_output result \<times> llm_supervisor" where
  "llm_evaluate w dg provide goal call obs s =
     (case deterministic_output w dg s goal call obs of
        Inl e \<Rightarrow> (Inl e, s)
      | Inr det \<Rightarrow>
          if so_decision det \<in> {BLOCK, ESCALATE} then record_log goal call det False None None det s
          else (case make_request s goal call obs of
             Inl e \<Rightarrow> (Inl e, s)
           | Inr q \<Rightarrow> consult w provide goal call det q s))"

section \<open>Assessment after a run\<close>

definition sensitive_name_re :: re where
  "sensitive_name_re =
     cat_all [WordBound,
       or_all [Cat (lit_ci ''secret'') (opt (lit_ci ''s'')), Cat (lit_ci ''credential'') (opt (lit_ci ''s'')),
               lit_ci ''password'', lit_ci ''token'',
               cat_all [lit_ci ''api'', opt (chars ''_ -''), lit_ci ''key''], lit_ci ''canary'',
               cat_all [lit_ci ''private'', opt (chars ''_ -''), lit_ci ''key'']],
       WordBound]"

definition injection_re :: re where
  "injection_re =
     or_all
       [cat_all [LineStart, spaces, or_all [lit_ci ''system'', lit_ci ''developer'', lit_ci ''assistant''],
                 spaces, lit '':''],
        cat_all [WordBound, lit_ci ''ignore'', spaces1, opt (Cat (lit_ci ''all'') spaces1),
                 lit_ci ''previous'', WordBound],
        cat_all [WordBound, lit_ci ''read'', spaces1, opt (Cat (lit_ci ''the'') spaces1),
                 or_all [lit_ci ''secret'', lit_ci ''credential'', lit_ci ''password'', lit_ci ''token'']]]"

definition opt_int_str :: "int option \<Rightarrow> string" where
  "opt_int_str v = (case v of None \<Rightarrow> ''None'' | Some n \<Rightarrow> int_str n)"

definition assessment ::
  "risk_level \<Rightarrow> rat \<Rightarrow> string list \<Rightarrow> post_disposition \<Rightarrow> string \<Rightarrow> post_run" where
  "assessment risk confidence evidence disposition reason =
     \<lparr>pr_risk = risk, pr_confidence = confidence, pr_evidence = evidence, pr_disposition = disposition,
      pr_reason = reason, pr_metadata = []\<rparr>"

definition combined_output :: "sandbox_evidence \<Rightarrow> string" where
  "combined_output ev = se_stdout ev @ [CHR 0x0A] @ se_stderr ev"

definition resource_killed :: "sandbox_evidence \<Rightarrow> bool" where
  "resource_killed ev \<longleftrightarrow>
     se_exit_code ev = Some 137 \<or> se_peak_memory ev \<noteq> None \<and> contains ''killed'' (casefold (se_stderr ev))"

definition deterministic_assessment :: "sandbox_evidence \<Rightarrow> post_run" where
  "deterministic_assessment ev =
     (if se_timed_out ev
      then assessment HIGH (9 / 10) [''sandbox timed out''] POST_ESCALATE
             ''Timed-out execution requires review before its result can be trusted.''
      else if se_blocked ev \<noteq> []
      then assessment HIGH (9 / 10) (se_blocked ev) BLOCK_RESULT ''Sandbox evidence shows blocked behavior.''
      else if filter (re_found sensitive_name_re) (se_files_changed ev) \<noteq> []
      then assessment HIGH (9 / 10) (filter (re_found sensitive_name_re) (se_files_changed ev)) BLOCK_RESULT
             ''Execution created or changed a file with a sensitive name.''
      else case re_search injection_re (combined_output ev) of
        Some (i, j) \<Rightarrow>
          assessment HIGH (9 / 10) [slice (combined_output ev) i j] BLOCK_RESULT
            ''Execution output contains instruction-like sensitive content.''
      | None \<Rightarrow>
          if resource_killed ev
          then assessment HIGH (85 / 100)
                 [''exit_code='' @ opt_int_str (se_exit_code ev),
                  ''peak_memory_bytes='' @ opt_int_str (se_peak_memory ev)] BLOCK_RESULT
                 ''Execution was killed after apparent resource exhaustion.''
          else if se_exit_code ev \<notin> {None, Some 0}
          then assessment MEDIUM (8 / 10)
                 [''exit_code='' @ opt_int_str (se_exit_code ev), take 400 (se_stderr ev)] BLOCK_RESULT
                 ''Execution failed, so its output cannot be accepted as a successful result.''
          else assessment LOW (7 / 10) [''sandbox completed without blocked operations''] ACCEPT_RESULT
                 ''No dangerous post-run behavior observed.'')"

type_synonym post_provider = "post_request \<Rightarrow> post_response result"

definition unavailable_assessment :: post_run where
  "unavailable_assessment =
     assessment HIGH 1 [''post-run supervisor unavailable''] POST_ESCALATE
       ''The configured post-run model did not produce a valid assessment; the sandbox result requires human review.''"

definition post_below_threshold :: "llm_supervisor \<Rightarrow> post_response \<Rightarrow> bool" where
  "post_below_threshold s r \<longleftrightarrow>
     ps_disposition r \<in> {ACCEPT_RESULT, REWRITE_AND_RETRY} \<and> dec_less (ps_confidence r) (ls_threshold s)"

definition provider_assessment :: "llm_supervisor \<Rightarrow> post_response \<Rightarrow> post_run" where
  "provider_assessment s r =
     (if post_below_threshold s r
      then assessment (max (ps_risk r) HIGH) (dec_val (ps_confidence r)) (ps_evidence r) POST_ESCALATE
             (''Post-run provider confidence '' @ fixed3_dec (ps_confidence r) @ '' is below ''
              @ fixed3_dec (ls_threshold s) @ ''; human review is required.'')
      else assessment (ps_risk r) (dec_val (ps_confidence r)) (ps_evidence r) (ps_disposition r) (ps_reason r))
       \<lparr>pr_metadata := ps_metadata r\<rparr>"

definition reevaluate ::
  "post_provider \<Rightarrow> llm_supervisor \<Rightarrow> string \<Rightarrow> tool_call \<Rightarrow> sandbox_evidence \<Rightarrow> post_run result" where
  "reevaluate provide s goal call ev =
     (let det = deterministic_assessment ev in
      if pr_disposition det \<noteq> ACCEPT_RESULT \<or> \<not> ls_post_provider s then Inr det
      else case provide \<lparr>pq_goal = goal, pq_call = call, pq_evidence = ev\<rparr> of
        Inl e \<Rightarrow> if is_exception e then Inr unavailable_assessment else Inl e
      | Inr r \<Rightarrow> Inr (provider_assessment s r))"

text \<open>Evidence without any sign the deterministic assessment looks for.\<close>

definition clean_evidence :: "sandbox_evidence \<Rightarrow> bool" where
  "clean_evidence ev \<longleftrightarrow>
     \<not> se_timed_out ev \<and> se_blocked ev = [] \<and> \<not> (\<exists>f\<in>set (se_files_changed ev). re_found sensitive_name_re f)
     \<and> \<not> re_found injection_re (combined_output ev) \<and> \<not> resource_killed ev
     \<and> se_exit_code ev \<in> {None, Some 0}"

lemma re_search_None: "re_search r s = None \<longleftrightarrow> \<not> re_found r s"
proof -
  have "find (\<lambda>i. ends r s i \<noteq> []) [0..<Suc (length s)] = None \<longleftrightarrow> \<not> re_found r s"
    unfolding re_found_def find_None_iff by blast
  then show ?thesis unfolding re_search_def by (auto split: option.split simp del: upt_Suc)
qed

lemma assessment_fields [simp]:
  "pr_disposition (assessment risk c ev d reason) = d" "pr_risk (assessment risk c ev d reason) = risk"
  by (simp_all add: assessment_def)

lemma deterministic_accepts_iff:
  "pr_disposition (deterministic_assessment ev) = ACCEPT_RESULT \<longleftrightarrow> clean_evidence ev"
proof (cases "re_search injection_re (combined_output ev)")
  case None
  then have "\<not> re_found injection_re (combined_output ev)" by (simp add: re_search_None)
  with None show ?thesis
    by (simp add: deterministic_assessment_def clean_evidence_def filter_empty_conv)
next
  case (Some m)
  then have "re_found injection_re (combined_output ev)"
    using re_search_None [of injection_re "combined_output ev"] by auto
  with Some show ?thesis
    by (cases m) (simp add: deterministic_assessment_def clean_evidence_def)
qed

lemma reevaluate_accepts_iff:
  "map_sum id pr_disposition (reevaluate provide s goal call ev) = Inr ACCEPT_RESULT \<longleftrightarrow>
   clean_evidence ev \<and>
   (\<not> ls_post_provider s \<or>
    (\<exists>r. provide \<lparr>pq_goal = goal, pq_call = call, pq_evidence = ev\<rparr> = Inr r
         \<and> ps_disposition r = ACCEPT_RESULT \<and> \<not> dec_less (ps_confidence r) (ls_threshold s)))"
proof -
  have a: "pr_disposition (provider_assessment s r) = ACCEPT_RESULT \<longleftrightarrow>
      ps_disposition r = ACCEPT_RESULT \<and> \<not> dec_less (ps_confidence r) (ls_threshold s)" for r
    by (auto simp: provider_assessment_def post_below_threshold_def)
  show ?thesis
    by (auto simp: reevaluate_def Let_def deterministic_accepts_iff a unavailable_assessment_def
        split: sum.splits)
qed

end
