(* ===== verification/LlmSafety.thy ===== *)
theory LlmSafety
  imports LlmSupervisor
begin

text \<open>
  What the LLM supervisor guarantees: the contract of a provider and its two
  implementations, what an ALLOW rests on, how failures close, what a rewrite keeps, how
  often a provider is asked, and what a prompt hides.
\<close>

section \<open>The contract of a provider\<close>

locale supervisor_provider =
  fixes provide :: "supervisor_request \<Rightarrow> supervisor_response result"
    and schema_ok :: "json pydict \<Rightarrow> json pydict \<Rightarrow> bool"
  assumes responds_valid: "provide q = Inr r \<Longrightarrow> valid_response r"
    and responds_checked: "provide q = Inr r \<Longrightarrow> validate_rewrite schema_ok r q = Inr ()"

text \<open>What a provider's response must say for the supervisor to allow.\<close>

definition sanctioned :: "llm_supervisor \<Rightarrow> supervisor_response \<Rightarrow> bool" where
  "sanctioned s r \<longleftrightarrow>
     sr_decision r = ALLOW \<and> dec_val (ls_threshold s) \<le> dec_val (sr_confidence r)
     \<and> sr_risk r \<in> {''LOW'', ''MEDIUM''} \<and> sr_relevance r \<noteq> ''UNRELATED'' \<and> sr_necessity r \<noteq> ''UNNECESSARY''"

text \<open>What the deterministic guard must find.\<close>

definition guard_permits ::
  "wire \<Rightarrow> digests \<Rightarrow> llm_supervisor \<Rightarrow> string \<Rightarrow> tool_call \<Rightarrow> observation list \<Rightarrow> bool" where
  "guard_permits w dg s goal call obs \<longleftrightarrow>
     duplicate_mutation call (ls_previous s) (ls_authority s) = None \<and>
     (guarded s \<longrightarrow>
       (if is_strict (ls_authority s)
        then \<exists>ca c. compile_authority (dg_fingerprint dg) (ls_authority s) (ls_tools s) = Inr ca
               \<and> judged_call (dg_sha dg) (wr_schema_ok w) ca call = Some c
               \<and> strictly_authorised c obs (ls_authority s) (ls_previous s)
        else check_authority goal call obs (ls_authority s) (ls_previous s) = None))"

section \<open>The deterministic output\<close>

lemma duplicate_blocks: "duplicate_mutation call previous a = Some d \<Longrightarrow> so_decision d = BLOCK"
  by (auto simp: duplicate_mutation_def block_def split: if_splits)

lemma evaluate_authority_low:
  "so_decision (evaluate_authority sha ok ca goal call obs previous) = ALLOW \<Longrightarrow>
   so_risk (evaluate_authority sha ok ca goal call obs previous) = LOW"
  using check_authority_decision
  by (fastforce simp: evaluate_authority_def split: option.splits sum.splits)

text \<open>The output either denies, or allows at low risk exactly when the guard permits.\<close>

lemma deterministic_output_cases:
  assumes "deterministic_output w dg s goal call obs = Inr det"
  shows "so_decision det \<in> {BLOCK, ESCALATE} \<and> \<not> guard_permits w dg s goal call obs
         \<or> so_decision det = ALLOW \<and> so_risk det = LOW \<and> guard_permits w dg s goal call obs"
proof (cases "duplicate_mutation call (ls_previous s) (ls_authority s)")
  case (Some d)
  with assms show ?thesis
    by (auto simp: deterministic_output_def guard_permits_def dest: duplicate_blocks)
next
  case None
  note dup = None
  show ?thesis
  proof (cases "guarded s")
    case False
    with assms dup show ?thesis
      by (auto simp: deterministic_output_def guard_permits_def runtime_output_def)
  next
    case True
    with assms dup have g: "deterministic_guard w dg s goal call obs = Inr det"
      by (simp add: deterministic_output_def)
    show ?thesis
    proof (cases "is_strict (ls_authority s)")
      case strict: True
      show ?thesis
      proof (cases "compile_authority (dg_fingerprint dg) (ls_authority s) (ls_tools s)")
        case (Inl e)
        with g strict show ?thesis
          by (auto simp: deterministic_guard_def guard_permits_def \<open>guarded s\<close> split: if_splits)
      next
        case (Inr ca)
        with g strict have det: "det = evaluate_authority (dg_sha dg) (wr_schema_ok w) ca goal call obs (ls_previous s)"
          by (simp add: deterministic_guard_def)
        from Inr have sc: "ca_scope ca = ls_authority s" by (auto dest: compile_authority_ok)
        have allow: "so_decision det = ALLOW \<longleftrightarrow> guard_permits w dg s goal call obs"
          unfolding det evaluate_allow_iff [of ca, unfolded sc, OF strict]
          by (simp add: guard_permits_def dup strict True Inr)
        show ?thesis
          using evaluate_denies_or_allows [of "dg_sha dg" "wr_schema_ok w" ca goal call obs "ls_previous s"]
            evaluate_authority_low [of "dg_sha dg" "wr_schema_ok w" ca goal call obs "ls_previous s"] allow
          unfolding det by auto
      qed
    next
      case False
      with g dup True show ?thesis
        using check_authority_decision [of goal call obs "ls_authority s" "ls_previous s"]
        by (cases "check_authority goal call obs (ls_authority s) (ls_previous s)")
           (auto simp: deterministic_guard_def guard_permits_def)
    qed
  qed
qed

lemma permits_output:
  assumes "guard_permits w dg s goal call obs"
  obtains det where "deterministic_output w dg s goal call obs = Inr det"
    and "so_decision det = ALLOW" and "so_risk det = LOW"
proof -
  have "\<exists>det. deterministic_output w dg s goal call obs = Inr det"
    using assms by (auto simp: deterministic_output_def deterministic_guard_def guard_permits_def)
  then obtain det where det: "deterministic_output w dg s goal call obs = Inr det" ..
  from deterministic_output_cases [OF this] assms that [OF det] show ?thesis by auto
qed

section \<open>The provider's response as an output\<close>

definition known_labels :: "supervisor_response \<Rightarrow> bool" where
  "known_labels r \<longleftrightarrow>
     sr_relevance r \<in> {''RELEVANT'', ''UNRELATED'', ''UNCERTAIN''} \<and>
     sr_necessity r \<in> {''NECESSARY'', ''UNNECESSARY'', ''UNCERTAIN''} \<and>
     sr_risk r \<in> {''LOW'', ''MEDIUM'', ''HIGH'', ''CRITICAL''}"

lemma valid_known: "valid_response r \<Longrightarrow> known_labels r"
  by (simp add: valid_response_def known_labels_def)

lemma screened_known: "known_labels r \<Longrightarrow> known_labels (screened_response s r)"
  by (simp add: screened_response_def known_labels_def)

lemma runtime_risk_known:
  "v \<in> {''LOW'', ''MEDIUM'', ''HIGH'', ''CRITICAL''} \<Longrightarrow>
   \<exists>k. runtime_risk v = Inr k \<and> (k \<in> {HIGH, CRITICAL} \<longleftrightarrow> v \<notin> {''LOW'', ''MEDIUM''})"
  by auto

lemma runtime_relevance_known:
  "v \<in> {''RELEVANT'', ''UNRELATED'', ''UNCERTAIN''} \<Longrightarrow>
   \<exists>k. runtime_relevance v = Inr k \<and> (k = RelIrrelevant \<longleftrightarrow> v = ''UNRELATED'')"
  by auto

lemma runtime_necessity_known:
  "v \<in> {''NECESSARY'', ''UNNECESSARY'', ''UNCERTAIN''} \<Longrightarrow>
   \<exists>k. runtime_necessity v = Inr k \<and> (k = NecUnnecessary \<longleftrightarrow> v = ''UNNECESSARY'')"
  by auto

lemma max_LOW: "max LOW k = k"
  by (cases k) (simp_all add: max_def less_eq_risk_level_def)

lemma to_runtime_output_known:
  assumes "known_labels r" and "so_risk det = LOW"
  obtains out where "to_runtime_output r det call = Inr out"
    and "so_decision out = ALLOW \<longleftrightarrow> sr_decision r = ALLOW \<and> sr_risk r \<in> {''LOW'', ''MEDIUM''}
           \<and> sr_relevance r \<noteq> ''UNRELATED'' \<and> sr_necessity r \<noteq> ''UNNECESSARY''"
    and "so_decision out = REWRITE \<longleftrightarrow> sr_decision r = REWRITE"
    and "so_rewritten out = response_call call r"
proof -
  have known: "sr_risk r \<in> {''LOW'', ''MEDIUM'', ''HIGH'', ''CRITICAL''}"
      "sr_relevance r \<in> {''RELEVANT'', ''UNRELATED'', ''UNCERTAIN''}"
      "sr_necessity r \<in> {''NECESSARY'', ''UNNECESSARY'', ''UNCERTAIN''}"
    using assms(1) unfolding known_labels_def by blast+
  obtain k where k: "runtime_risk (sr_risk r) = Inr k" "k \<in> {HIGH, CRITICAL} \<longleftrightarrow> sr_risk r \<notin> {''LOW'', ''MEDIUM''}"
    using runtime_risk_known [OF known(1)] by blast
  obtain rel where rel: "runtime_relevance (sr_relevance r) = Inr rel" "rel = RelIrrelevant \<longleftrightarrow> sr_relevance r = ''UNRELATED''"
    using runtime_relevance_known [OF known(2)] by blast
  obtain nec where nec: "runtime_necessity (sr_necessity r) = Inr nec" "nec = NecUnnecessary \<longleftrightarrow> sr_necessity r = ''UNNECESSARY''"
    using runtime_necessity_known [OF known(3)] by blast
  define x where "x = \<lparr>so_decision = sr_decision r, so_risk = k, so_confidence = dec_val (sr_confidence r),
      so_violation = (sr_decision r = BLOCK), so_relevance = rel, so_necessity = nec, so_reason = sr_reason r,
      so_rules = [provider_rule r], so_rewritten = response_call call r,
      so_target = so_target det, so_profile = so_profile det, so_metadata = sr_metadata r\<rparr>"
  have out: "to_runtime_output r det call = Inr (enforce_allow_invariants x)"
    unfolding to_runtime_output_def k(1) rel(1) nec(1) sum.case assms(2) max_LOW x_def ..
  have x: "so_decision x = sr_decision r" "so_rewritten x = response_call call r"
    and inc: "inconsistent_allow x \<longleftrightarrow> k \<in> {HIGH, CRITICAL} \<or> sr_decision r = BLOCK
        \<or> rel = RelIrrelevant \<or> nec = NecUnnecessary"
    unfolding x_def by (simp_all add: inconsistent_allow_def)
  have "so_decision (enforce_allow_invariants x) = ALLOW \<longleftrightarrow> sr_decision r = ALLOW \<and> \<not> inconsistent_allow x"
      "so_decision (enforce_allow_invariants x) = REWRITE \<longleftrightarrow> sr_decision r = REWRITE"
      "so_rewritten (enforce_allow_invariants x) = response_call call r"
    using x by (auto simp: enforce_allow_invariants_def)
  with that [OF out] show ?thesis unfolding inc k(2) rel(2) nec(2) by auto
qed

text \<open>Validation looks at the decision and the rewritten call only.\<close>

lemma validate_rewrite_cong:
  "sr_decision r = sr_decision r' \<Longrightarrow> sr_rewritten r = sr_rewritten r' \<Longrightarrow>
   validate_rewrite ok r q = validate_rewrite ok r' q"
  by (simp add: validate_rewrite_def)

lemma screened_same: "\<not> below_threshold s r \<Longrightarrow> screened_response s r = r"
  by (simp add: screened_response_def)

lemma screened_low:
  "below_threshold s r \<Longrightarrow> sr_decision (screened_response s r) = ESCALATE \<and> sr_risk (screened_response s r) = ''HIGH''
     \<and> sr_rewritten (screened_response s r) = None"
  by (simp add: screened_response_def)

lemma screened_validates:
  "validate_rewrite ok r q = Inr () \<Longrightarrow> validate_rewrite ok (screened_response s r) q = Inr ()"
  by (cases "below_threshold s r") (auto simp: screened_same validate_rewrite_def dest: screened_low)

section \<open>What the supervisor decides\<close>

lemma make_request_iff:
  "make_request s goal call obs = Inr q \<longleftrightarrow> in_unit (ls_threshold s) \<and> q = build_request s goal call obs"
  by (auto simp: make_request_def)

lemma build_request_fields [simp]:
  "sq_goal (build_request s goal call obs) = goal" "sq_call (build_request s goal call obs) = call"
  "sq_observations (build_request s goal call obs) = obs"
  "sq_authority (build_request s goal call obs) = ls_authority s"
  "sq_tools (build_request s goal call obs) = ls_tools s"
  "sq_enable_rewrite (build_request s goal call obs) = (ls_enable_rewrite s \<and> \<not> ls_rewritten s)"
  "sq_rewritten (build_request s goal call obs) = ls_rewritten s"
  by (simp_all add: build_request_def)

lemma record_log_result [simp]: "fst (record_log goal call det called response err final s) = Inr final"
  by (simp add: record_log_def)

context supervisor_provider
begin

lemma final_of_response:
  assumes "provide q = Inr r" and "so_risk det = LOW" and "wr_schema_ok w = schema_ok"
  obtains out where "final_output w q (screened_response s r) det = Inr out"
    and "so_decision out = ALLOW \<longleftrightarrow> \<not> below_threshold s r \<and> sr_decision r = ALLOW
           \<and> sr_risk r \<in> {''LOW'', ''MEDIUM''} \<and> sr_relevance r \<noteq> ''UNRELATED'' \<and> sr_necessity r \<noteq> ''UNNECESSARY''"
    and "so_decision out = REWRITE \<longleftrightarrow> \<not> below_threshold s r \<and> sr_decision r = REWRITE"
    and "so_rewritten out = response_call (sq_call q) (screened_response s r)"
proof -
  let ?r = "screened_response s r"
  from assms(1) have v: "validate_rewrite (wr_schema_ok w) ?r q = Inr ()"
    unfolding assms(3) by (intro screened_validates responds_checked)
  from assms(1) have "known_labels ?r" by (intro screened_known valid_known responds_valid)
  from this assms(2) obtain out where out: "to_runtime_output ?r det (sq_call q) = Inr out"
    and a: "so_decision out = ALLOW \<longleftrightarrow> sr_decision ?r = ALLOW \<and> sr_risk ?r \<in> {''LOW'', ''MEDIUM''}
           \<and> sr_relevance ?r \<noteq> ''UNRELATED'' \<and> sr_necessity ?r \<noteq> ''UNNECESSARY''"
    and rw: "so_decision out = REWRITE \<longleftrightarrow> sr_decision ?r = REWRITE"
    and c: "so_rewritten out = response_call (sq_call q) ?r" by (rule to_runtime_output_known)
  have "final_output w q ?r det = Inr out" by (simp add: final_output_def v out)
  from that [OF this _ _ c] a rw show ?thesis
    by (cases "below_threshold s r") (simp_all add: screened_same screened_low)
qed

lemma evaluate_permitted:
  assumes "deterministic_output w dg s goal call obs = Inr det" and "so_decision det = ALLOW"
    and "in_unit (ls_threshold s)" and "provide (build_request s goal call obs) = Inr r"
    and "wr_schema_ok w = schema_ok"
  obtains out s' where "llm_evaluate w dg provide goal call obs s = (Inr out, s')"
    and "so_decision out = ALLOW \<longleftrightarrow> sanctioned s r"
    and "so_decision out = REWRITE \<longleftrightarrow> \<not> below_threshold s r \<and> sr_decision r = REWRITE"
    and "so_rewritten out = response_call call (screened_response s r)"
proof -
  let ?q = "build_request s goal call obs"
  from deterministic_output_cases [OF assms(1)] assms(2) have low: "so_risk det = LOW" by auto
  from final_of_response [OF assms(4) low assms(5)] obtain out where
    out: "final_output w ?q (screened_response s r) det = Inr out"
    and a: "so_decision out = ALLOW \<longleftrightarrow> \<not> below_threshold s r \<and> sr_decision r = ALLOW
       \<and> sr_risk r \<in> {''LOW'', ''MEDIUM''} \<and> sr_relevance r \<noteq> ''UNRELATED'' \<and> sr_necessity r \<noteq> ''UNNECESSARY''"
    and rw: "so_decision out = REWRITE \<longleftrightarrow> \<not> below_threshold s r \<and> sr_decision r = REWRITE"
    and c: "so_rewritten out = response_call call (screened_response s r)" by auto
  from assms(4) have "dec_finite (sr_confidence r)" using responds_valid by (auto simp: valid_response_def)
  with assms(3) have "sanctioned s r \<longleftrightarrow> \<not> below_threshold s r \<and> sr_decision r = ALLOW
      \<and> sr_risk r \<in> {''LOW'', ''MEDIUM''} \<and> sr_relevance r \<noteq> ''UNRELATED'' \<and> sr_necessity r \<noteq> ''UNNECESSARY''"
    by (auto simp: sanctioned_def below_threshold_def in_unit_def dec_less_finite)
  with a have "so_decision out = ALLOW \<longleftrightarrow> sanctioned s r" by simp
  moreover have "llm_evaluate w dg provide goal call obs s
      = record_log goal call det True (Some (screened_response s r)) None out s"
    using assms(2,3) by (simp add: llm_evaluate_def assms(1) make_request_def consult_def assms(4) out)
  ultimately show ?thesis using that rw c by (auto simp: record_log_def)
qed

text \<open>The cases of an evaluation that returns.\<close>

lemma evaluate_returns:
  assumes "llm_evaluate w dg provide goal call obs s = (Inr out, s')" and "wr_schema_ok w = schema_ok"
  obtains (denied) "so_decision out \<in> {BLOCK, ESCALATE}"
    | (answered) r where "guard_permits w dg s goal call obs" "in_unit (ls_threshold s)"
        "provide (build_request s goal call obs) = Inr r"
        "so_decision out = ALLOW \<longleftrightarrow> sanctioned s r"
        "so_decision out = REWRITE \<longleftrightarrow> \<not> below_threshold s r \<and> sr_decision r = REWRITE"
        "so_rewritten out = response_call call (screened_response s r)"
proof (cases "deterministic_output w dg s goal call obs")
  case (Inl e)
  with assms show ?thesis by (simp add: llm_evaluate_def)
next
  case (Inr det)
  show ?thesis
  proof (cases "so_decision det = ALLOW \<and> in_unit (ls_threshold s)")
    case False
    with assms(1) deterministic_output_cases [OF Inr] have "so_decision out \<in> {BLOCK, ESCALATE}"
      by (auto simp: llm_evaluate_def Inr make_request_def record_log_def split: if_splits)
    then show ?thesis by (rule denied)
  next
    case True
    show ?thesis
    proof (cases "provide (build_request s goal call obs)")
      case (Inl e)
      with assms(1) True have "so_decision out = ESCALATE"
        by (auto simp: llm_evaluate_def Inr make_request_def consult_def record_log_def failure_output_def
            split: if_splits)
      then show ?thesis using denied by simp
    next
      case ans: (Inr r)
      from evaluate_permitted [OF Inr _ _ ans assms(2)] True obtain out' s'' where
        e: "llm_evaluate w dg provide goal call obs s = (Inr out', s'')"
        and o: "so_decision out' = ALLOW \<longleftrightarrow> sanctioned s r"
          "so_decision out' = REWRITE \<longleftrightarrow> \<not> below_threshold s r \<and> sr_decision r = REWRITE"
          "so_rewritten out' = response_call call (screened_response s r)" by blast
      from e assms(1) have "out' = out" by simp
      with o deterministic_output_cases [OF Inr] True ans show ?thesis using answered by auto
    qed
  qed
qed

lemma allow_iff:
  assumes "wr_schema_ok w = schema_ok"
  shows "(\<exists>out s'. llm_evaluate w dg provide goal call obs s = (Inr out, s') \<and> so_decision out = ALLOW) \<longleftrightarrow>
    guard_permits w dg s goal call obs \<and> in_unit (ls_threshold s)
    \<and> (\<exists>r. provide (build_request s goal call obs) = Inr r \<and> sanctioned s r)"
proof
  assume "\<exists>out s'. llm_evaluate w dg provide goal call obs s = (Inr out, s') \<and> so_decision out = ALLOW"
  then obtain out s' where e: "llm_evaluate w dg provide goal call obs s = (Inr out, s')"
    and a: "so_decision out = ALLOW" by blast
  from e assms show "guard_permits w dg s goal call obs \<and> in_unit (ls_threshold s)
      \<and> (\<exists>r. provide (build_request s goal call obs) = Inr r \<and> sanctioned s r)"
    by (cases rule: evaluate_returns) (use a in auto)
next
  assume r: "guard_permits w dg s goal call obs \<and> in_unit (ls_threshold s)
      \<and> (\<exists>r. provide (build_request s goal call obs) = Inr r \<and> sanctioned s r)"
  then obtain det where d: "deterministic_output w dg s goal call obs = Inr det" "so_decision det = ALLOW"
    using permits_output by blast
  from r obtain r where "in_unit (ls_threshold s)" "provide (build_request s goal call obs) = Inr r" "sanctioned s r"
    by blast
  with evaluate_permitted [OF d _ _ assms] show
    "\<exists>out s'. llm_evaluate w dg provide goal call obs s = (Inr out, s') \<and> so_decision out = ALLOW" by metis
qed

lemma rewrite_kept:
  assumes "llm_evaluate w dg provide goal call obs s = (Inr out, s')" and "wr_schema_ok w = schema_ok"
    and "so_decision out = REWRITE"
  obtains c schema where "so_rewritten out = Some c" and "narrows call c"
    and "check_authority goal c obs (ls_authority s) [] = None"
    and "map_of (ls_tools s) (tc_tool_name c) = Some schema"
    and "validate_arguments schema_ok (tc_arguments c) schema = Inr ()"
    and "ls_enable_rewrite s" and "\<not> ls_rewritten s" and "guard_permits w dg s goal call obs"
  using assms(1,2)
proof (cases rule: evaluate_returns)
  case denied
  with assms(3) show ?thesis by simp
next
  case (answered r)
  with assms(3) have keep: "\<not> below_threshold s r" "sr_decision r = REWRITE" by simp_all
  from responds_checked [OF answered(3)] keep(2) show ?thesis
  proof (rule validate_rewrite_ok)
    fix rw schema replacement
    assume a: "sr_rewritten r = Some rw"
      and rep: "replacement = (sq_call (build_request s goal call obs))\<lparr>tc_tool_name := rw_tool rw, tc_arguments := rw_arguments rw\<rparr>"
      and en: "sq_enable_rewrite (build_request s goal call obs)"
      and tools: "map_of (sq_tools (build_request s goal call obs)) (rw_tool rw) = Some schema"
      and eff: "tool_effect (sq_call (build_request s goal call obs)) = EffRead \<Longrightarrow> tool_effect replacement = EffRead"
      and fam: "tool_effect replacement \<noteq> EffRead \<Longrightarrow> rw_tool rw = tc_tool_name (sq_call (build_request s goal call obs))"
      and dest: "\<forall>f\<in>set rewrite_destinations. check_destination (sq_call (build_request s goal call obs)) replacement f = Inr ()"
      and auth: "check_authority (sq_goal (build_request s goal call obs)) replacement
          (sq_observations (build_request s goal call obs)) (sq_authority (build_request s goal call obs)) [] = None"
      and args: "validate_arguments schema_ok (rw_arguments rw) schema = Inr ()"
    have "so_rewritten out = Some replacement"
      using answered(6) keep a rep by (simp add: screened_same response_call_def)
    moreover have "narrows call replacement"
      unfolding narrows_def using eff fam dest rep by (auto simp: check_destination_iff rewrite_destinations_def)
    ultimately show ?thesis using that auth tools args en answered(1) rep by simp
  qed
qed

end

section \<open>The two providers meet the contract\<close>

lemma bind_SomeE:
  assumes "Option.bind m f = Some y"
  obtains x where "m = Some x" "f x = Some y"
  using assms by (cases m) auto

lemma get_enum_in: "get_enum f xs v = Some x \<Longrightarrow> x \<in> set xs"
  by (auto simp: get_enum_def find_Some_iff split: option.splits)

lemma with_key_Some: "with_key d k f = Some x \<Longrightarrow> \<exists>v. f v = Some x"
  by (auto simp: with_key_def split: option.splits)

lemma get_text_bounds: "get_text mx v = Some t \<Longrightarrow> t \<noteq> [] \<and> length t \<le> mx"
  by (auto simp: get_text_def split: option.splits if_splits)

lemma get_unit_bounds: "get_unit w v = Some d \<Longrightarrow> in_unit d"
  by (auto simp: get_unit_def split: option.splits if_splits)

lemma get_rewritten_valid: "get_rewritten v = Some rw \<Longrightarrow> valid_rewritten rw"
  by (auto simp: get_rewritten_def valid_rewritten_def split: option.splits if_splits)

lemma optional_rewritten_valid:
  "or_default d k None (get_opt get_rewritten) = Some (Some rw) \<Longrightarrow> valid_rewritten rw"
  by (auto simp: or_default_def get_opt_def get_rewritten_valid split: option.splits if_splits)

lemma read_response_valid:
  assumes "read_response w payload = Some r"
  shows "valid_response r"
proof -
  from assms obtain d dec rel nec risk conf why rw where
    rel: "with_key d ''goal_relevance'' (get_literal [''RELEVANT'', ''UNRELATED'', ''UNCERTAIN'']) = Some rel"
    and nec: "with_key d ''necessity'' (get_literal [''NECESSARY'', ''UNNECESSARY'', ''UNCERTAIN'']) = Some nec"
    and risk: "with_key d ''risk_level'' (get_literal [''LOW'', ''MEDIUM'', ''HIGH'', ''CRITICAL'']) = Some risk"
    and conf: "with_key d ''confidence'' (get_unit w) = Some conf"
    and why: "with_key d ''reason'' (get_text 800) = Some why"
    and rw: "or_default d ''rewritten_call'' None (get_opt get_rewritten) = Some rw"
    and form: "(dec = REWRITE) = (rw \<noteq> None)"
    and r: "sr_decision r = dec" "sr_relevance r = rel" "sr_necessity r = nec" "sr_risk r = risk"
      "sr_confidence r = conf" "sr_reason r = why" "sr_rewritten r = rw"
    unfolding read_response_def by (elim bind_SomeE) (auto split: if_splits)
  have "rel \<in> set [''RELEVANT'', ''UNRELATED'', ''UNCERTAIN'']" "nec \<in> set [''NECESSARY'', ''UNNECESSARY'', ''UNCERTAIN'']"
      "risk \<in> set [''LOW'', ''MEDIUM'', ''HIGH'', ''CRITICAL'']"
    using with_key_Some [OF rel] with_key_Some [OF nec] with_key_Some [OF risk]
    unfolding get_literal_def by (blast dest: get_enum_in)+
  moreover have "in_unit conf" using with_key_Some [OF conf] by (blast dest: get_unit_bounds)
  moreover have "why \<noteq> [] \<and> length why \<le> 800" using with_key_Some [OF why] by (blast dest: get_text_bounds)
  moreover have "rw = Some c \<Longrightarrow> valid_rewritten c" for c using rw by (blast dest: optional_rewritten_valid)
  ultimately show ?thesis
    unfolding valid_response_def r form in_unit_def by (cases rw) (auto simp: Suc_le_eq)
qed

lemma loop_response_valid:
  "valid_response (loop_response meta)" "validate_rewrite ok (loop_response meta) q = Inr ()"
  by (simp_all add: loop_response_def valid_response_def validate_rewrite_def)

lemma checked_response_ok:
  "checked_response w q r meta = Inr r' \<Longrightarrow>
   r' = r\<lparr>sr_metadata := meta\<rparr> \<and> validate_rewrite (wr_schema_ok w) r' q = Inr ()"
  by (auto simp: checked_response_def Let_def split: sum.splits)

lemma metadata_keeps_valid: "valid_response r \<Longrightarrow> valid_response (r\<lparr>sr_metadata := meta\<rparr>)"
  by (simp add: valid_response_def)

lemma or_schema_error_ok: "or_schema_error m v = Inr r \<longleftrightarrow> v = Some r"
  by (auto simp: or_schema_error_def split: option.splits)

lemma parse_response_valid: "parse_response w raw = Inr r \<Longrightarrow> valid_response r"
  by (auto simp: parse_response_def or_schema_error_ok dest: read_response_valid split: sum.splits)

definition meets :: "wire \<Rightarrow> supervisor_request \<Rightarrow> supervisor_response result \<Rightarrow> bool" where
  "meets w q res \<longleftrightarrow>
     (case res of Inl _ \<Rightarrow> True | Inr r \<Rightarrow> valid_response r \<and> validate_rewrite (wr_schema_ok w) r q = Inr ())"

lemma checked_meets: "valid_response r \<Longrightarrow> meets w q (checked_response w q r meta)"
  by (auto simp: meets_def dest: checked_response_ok metadata_keeps_valid split: sum.split)

lemma ollama_round_meets: "meets w q (fst (ollama_round w o1 t q n lo))"
proof (cases "\<exists>raw r. t n (ollama_payload w o1 q) = Inr (JObj raw) \<and> parse_response w raw = Inr r")
  case True
  then obtain raw r where t: "t n (ollama_payload w o1 q) = Inr (JObj raw)" and r: "parse_response w raw = Inr r"
    by blast
  show ?thesis
    unfolding ollama_round_def t sum.case json.case r
    by (rule andthen_cases [of "ollama_metadata o1 n raw lo"])
       (simp_all add: checked_meets [OF parse_response_valid [OF r]], simp add: meets_def)
next
  case False
  then show ?thesis by (auto simp: ollama_round_def meets_def split: sum.splits json.splits)
qed

lemma ollama_meets: "meets w q (fst (ollama_evaluate w o1 t lo q))"
proof (cases "twice_rewritten q")
  case True
  then show ?thesis
    by (auto simp: ollama_evaluate_def andthen_def meets_def loop_response_valid split: sum.splits prod.splits)
next
  case False
  then show ?thesis
    unfolding ollama_evaluate_def by (simp add: retry_result ollama_round_meets)
qed

lemma gemini_meets: "meets w q (gemini_evaluate w g generate q)"
  unfolding gemini_evaluate_def or_schema_error_def
  by (auto simp: meets_def [of w q "Inl e" for e] loop_response_valid meets_def [of w q "Inr (loop_response m)" for m]
      checked_meets read_response_valid split: sum.splits option.splits prod.splits)

text \<open>The provider a supervisor is built with.\<close>

datatype backend =
    OllamaBackend ollama chat_transport local_model
  | GeminiBackend gemini gemini_generate

fun backend_evaluate :: "wire \<Rightarrow> backend \<Rightarrow> provider" where
  "backend_evaluate w (OllamaBackend o1 t lo) q = fst (ollama_evaluate w o1 t lo q)"
| "backend_evaluate w (GeminiBackend g generate) q = gemini_evaluate w g generate q"

lemma backend_meets: "meets w q (backend_evaluate w b q)"
  by (cases b) (simp_all add: ollama_meets gemini_meets)

interpretation backend: supervisor_provider "backend_evaluate w b" "wr_schema_ok w" for w b
proof unfold_locales
  fix q r
  assume "backend_evaluate w b q = Inr r"
  with backend_meets [of w q b] show "valid_response r" "validate_rewrite (wr_schema_ok w) r q = Inr ()"
    by (simp_all add: meets_def)
qed

section \<open>How often a provider is asked\<close>

definition asks_retry :: "'a result \<Rightarrow> bool" where
  "asks_retry res \<longleftrightarrow> (\<exists>m. res = Inl (SupervisorTransportError m True))"

lemma retryable_iff: "retryable res \<longleftrightarrow> asks_retry res"
  by (cases res; cases "projl res") (auto simp: asks_retry_def)

lemma first_error_from: "first_error f xs = Inl e \<Longrightarrow> \<exists>x. f x = Inl e"
  by (induction xs) (auto split: sum.splits)

lemma validate_rewrite_error:
  assumes "validate_rewrite ok r q = Inl e"
  shows "e \<noteq> SupervisorTransportError m b"
proof
  assume e: "e = SupervisorTransportError m b"
  from assms obtain rw where rw: "sr_rewritten r = Some rw"
    unfolding e by (cases "sr_rewritten r") (simp_all add: validate_rewrite_def split: if_splits)
  from assms obtain schema where schema: "map_of (sq_tools q) (rw_tool rw) = Some schema"
    unfolding e
    by (cases "map_of (sq_tools q) (rw_tool rw)") (simp_all add: validate_rewrite_def rw Let_def split: if_splits)
  let ?c = "(sq_call q)\<lparr>tc_tool_name := rw_tool rw, tc_arguments := rw_arguments rw\<rparr>"
  have a: "first_error (check_destination (sq_call q) ?c) rewrite_destinations \<noteq> Inl e"
    by (auto simp: check_destination_def Let_def e dest!: first_error_from split: if_splits)
  have b: "validate_arguments ok (rw_arguments rw) schema \<noteq> Inl e"
    by (simp add: validate_arguments_def Let_def e)
  show False
    using assms a b unfolding validate_rewrite_def rw schema Let_def option.case e
    by (cases "first_error (check_destination (sq_call q) ?c) rewrite_destinations";
        cases "check_authority (sq_goal q) ?c (sq_observations q) (sq_authority q) []")
       (simp_all del: first_error_ok split: if_splits)
qed

lemma chat_content_error: "chat_content what raw = Inl e \<Longrightarrow> is_schema_error e"
  by (auto simp: chat_content_def split: option.splits if_splits)

lemma parse_response_error: "parse_response w raw = Inl e \<Longrightarrow> is_schema_error e"
  by (auto simp: parse_response_def or_schema_error_def dest: chat_content_error split: sum.splits option.splits)

lemma find_model_error: "find_model model ms = Inl e \<Longrightarrow> e = AttributeError ''get''"
  by (induction model ms rule: find_model.induct) (auto split: if_splits)

lemma listed_model_error:
  "listed_model model body = Inl e \<Longrightarrow> e = AttributeError ''get'' \<or> e = TypeError ''object is not iterable''"
  by (cases "dict_get body ''models'' (JList [])") (auto simp: listed_model_def dest: find_model_error)

lemma set_tag_error: "fst (set_tag model d lo) = Inl e \<Longrightarrow> e = AttributeError ''get''"
  by (auto simp: set_tag_def Let_def split: if_splits json.splits)

lemma populate_error:
  assumes "fst (populate_local o1 lo) = Inl e"
  shows "e = AttributeError ''get'' \<or> e = TypeError ''object is not iterable''"
proof (cases "ol_answers o1")
  case None
  with assms show ?thesis by (simp add: populate_local_def)
next
  case (Some bodies)
  obtain tags running where b: "bodies = (tags, running)" by (cases bodies)
  let ?m = "case listed_model (ol_model o1) (get_json tags) of Inl e \<Rightarrow> (Inl e, lo)
      | Inr None \<Rightarrow> (Inr (), lo) | Inr (Some d) \<Rightarrow> set_tag (ol_model o1) d lo"
  have first: "fst ?m = Inl e \<Longrightarrow> ?thesis"
    by (auto split: sum.splits option.splits dest: listed_model_error set_tag_error)
  show ?thesis
    using assms first unfolding populate_local_def Some b option.case prod.case
    by (rule_tac m = ?m in andthen_cases) (auto split: sum.splits option.splits dest: listed_model_error)
qed

lemma metadata_error:
  assumes "fst (ollama_metadata o1 n raw lo) = Inl e"
  shows "e \<noteq> SupervisorTransportError m b"
proof (cases "populate_local o1 lo")
  case (Pair res lo')
  with assms show ?thesis
    using populate_error [of o1 lo e]
    by (cases res) (auto simp: ollama_metadata_def provider_metadata_def split: option.splits if_splits)
qed

lemma checked_response_error:
  "checked_response w q r meta = Inl e \<Longrightarrow> e \<noteq> SupervisorTransportError m b"
  using validate_rewrite_error by (auto simp: checked_response_def Let_def split: sum.splits)

text \<open>Only the transport makes a round ask for another, and it leaves the state as it was.\<close>

lemma ollama_round_retry:
  "asks_retry (fst (ollama_round w o1 t q n lo)) \<longleftrightarrow> asks_retry (t n (ollama_payload w o1 q))"
proof (cases "\<exists>raw r. t n (ollama_payload w o1 q) = Inr (JObj raw) \<and> parse_response w raw = Inr r")
  case True
  then obtain raw r where t: "t n (ollama_payload w o1 q) = Inr (JObj raw)" and r: "parse_response w raw = Inr r"
    by blast
  have "fst (ollama_round w o1 t q n lo) \<noteq> Inl (SupervisorTransportError m True)" for m
  proof -
    have "fst (andthen (ollama_metadata o1 n raw lo) (\<lambda>meta lo. (checked_response w q r meta, lo)))
        \<noteq> Inl (SupervisorTransportError m True)"
      using metadata_error [of o1 n raw lo] checked_response_error [of w q r]
      by (rule_tac m = "ollama_metadata o1 n raw lo" in andthen_cases) (simp_all, blast+)
    then show ?thesis by (simp add: ollama_round_def t r)
  qed
  then show ?thesis by (auto simp: asks_retry_def t)
next
  case False
  then show ?thesis
    using parse_response_error by (fastforce simp: ollama_round_def asks_retry_def split: sum.splits json.splits)
qed

lemma ollama_round_keeps:
  "asks_retry (t n (ollama_payload w o1 q)) \<Longrightarrow> snd (ollama_round w o1 t q n lo) = lo"
  by (auto simp: ollama_round_def asks_retry_def)

lemma ollama_attempt:
  "\<forall>i<k. retryable (fst (attempt (ollama_round w o1 t q) n lo i)) \<Longrightarrow>
   attempt (ollama_round w o1 t q) n lo k = ollama_round w o1 t q (n + k) lo
   \<and> (\<forall>i<k. asks_retry (t (n + i) (ollama_payload w o1 q)))"
proof (induction k arbitrary: n)
  case 0
  then show ?case by simp
next
  case (Suc k)
  from Suc.prems have "retryable (fst (ollama_round w o1 t q n lo))" by (metis attempt.simps(1) zero_less_Suc)
  then have now: "asks_retry (t n (ollama_payload w o1 q))" by (simp add: retryable_iff ollama_round_retry)
  then have lo: "snd (ollama_round w o1 t q n lo) = lo" by (rule ollama_round_keeps)
  have "\<forall>i<k. retryable (fst (attempt (ollama_round w o1 t q) (Suc n) lo i))"
    using Suc.prems lo by (metis Suc_less_eq attempt.simps(2))
  from Suc.IH [OF this] now show ?case by (auto simp: lo less_Suc_eq_0_disj)
qed

lemma ollama_asked:
  assumes "\<not> twice_rewritten q"
  obtains k where "int k \<le> max 0 (ol_retries o1)"
    and "\<forall>i<k. asks_retry (t i (ollama_payload w o1 q))"
    and "ollama_evaluate w o1 t lo q = ollama_round w o1 t q k lo"
    and "asks_retry (t k (ollama_payload w o1 q)) \<Longrightarrow> ol_retries o1 \<le> int k"
proof (rule retry_attempts [of 0 "ol_retries o1" "ollama_round w o1 t q" lo])
  fix k
  assume k: "int (0 + k) \<le> max (ol_retries o1) (int 0)"
    and e: "retry (ol_retries o1) (ollama_round w o1 t q) 0 lo = attempt (ollama_round w o1 t q) 0 lo k"
    and r: "\<forall>i<k. retryable (fst (attempt (ollama_round w o1 t q) 0 lo i))"
    and m: "retryable (fst (retry (ol_retries o1) (ollama_round w o1 t q) 0 lo)) \<Longrightarrow> ol_retries o1 \<le> int (0 + k)"
  from ollama_attempt [OF r] have a: "attempt (ollama_round w o1 t q) 0 lo k = ollama_round w o1 t q k lo"
    and t: "\<forall>i<k. asks_retry (t i (ollama_payload w o1 q))" by simp_all
  have ev: "ollama_evaluate w o1 t lo q = ollama_round w o1 t q k lo"
    using assms by (simp add: ollama_evaluate_def e a)
  show thesis
  proof (rule that [OF _ t ev])
    show "int k \<le> max 0 (ol_retries o1)" using k by (simp add: max.commute)
    assume "asks_retry (t k (ollama_payload w o1 q))"
    with m show "ol_retries o1 \<le> int k" by (simp add: e a retryable_iff ollama_round_retry)
  qed
qed

end
