(* ===== verification/RedactionFacts.thy ===== *)
theory RedactionFacts
  imports Redaction
begin

text \<open>
  What a redacted request reveals under a sensitive key: nothing but an opaque label of the
  request (or the empty string), at any depth.
\<close>

section \<open>Labels instead of values\<close>

definition is_label :: "string \<Rightarrow> string \<Rightarrow> bool" where
  "is_label r t \<longleftrightarrow> t = [] \<or> t = r \<or> (\<exists>n. t = r @ '':'' @ nat_str n)"

fun sealed :: "string \<Rightarrow> json \<Rightarrow> bool"
  and sealed_list :: "string \<Rightarrow> json list \<Rightarrow> bool"
  and sealed_kvs :: "string \<Rightarrow> (string \<times> json) list \<Rightarrow> bool" where
  "sealed r (JObj kvs) = sealed_kvs r kvs"
| "sealed r (JList xs) = sealed_list r xs"
| "sealed r _ = True"
| "sealed_list r [] = True"
| "sealed_list r (x # xs) = (sealed r x \<and> sealed_list r xs)"
| "sealed_kvs r [] = True"
| "sealed_kvs r ((k, v) # kvs) =
     ((if sensitive_key k then (\<exists>t. v = JStr t \<and> is_label r t) else sealed r v) \<and> sealed_kvs r kvs)"

text \<open>The labels only grow, and what is remembered has one.\<close>

lemma remember_mono: "dict_has labels x \<Longrightarrow> dict_has (remember c raw labels) x"
  by (auto simp: remember_def dict_has_def)

lemma remember_has: "raw \<noteq> [] \<Longrightarrow> dict_has (remember c raw labels) raw"
  by (auto simp: remember_def dict_has_def)

lemma collect_mono:
  "dict_has labels x \<Longrightarrow> dict_has (collect c v labels) x"
  "dict_has labels x \<Longrightarrow> dict_has (collect_list c xs labels) x"
  "dict_has labels x \<Longrightarrow> dict_has (collect_kvs c kvs labels) x"
proof (induction c v labels and c xs labels and c kvs labels
    rule: collect_collect_list_collect_kvs.induct)
  case (2 c s labels)
  have "dict_has l x \<Longrightarrow> dict_has (foldl (\<lambda>l raw. remember c raw l) l raws) x" for raws l
    by (induction raws arbitrary: l) (auto intro: remember_mono)
  with 2 show ?case by simp
qed (simp_all add: remember_mono)

text \<open>The longest raw value that starts a protected text is the text itself.\<close>

lemma sorted_rev_find:
  assumes "sorted (rev (map f xs))" and "find P xs = Some y" and "s \<in> set xs" and "P s"
  shows "(f s :: nat) \<le> f y"
  using assms
proof (induction xs)
  case (Cons x xs)
  then show ?case by (cases "P x") (auto simp: sorted_append)
qed simp

lemma longest_first_set [simp]: "set (longest_first xs) = set xs"
  by (simp add: longest_first_def)

lemma longest_first_sorted: "sorted (rev (map length (longest_first xs)))"
  by (simp add: longest_first_def rev_map)

lemma longest_prefix:
  assumes "s \<in> set raws"
  shows "find (\<lambda>raw. prefix raw s) (longest_first raws) = Some s"
proof (cases "find (\<lambda>raw. prefix raw s) (longest_first raws)")
  case None
  with assms show ?thesis by (auto simp: find_None_iff)
next
  case (Some y)
  then have "prefix y s" by (auto simp: find_Some_iff)
  moreover have "length s \<le> length y"
    by (rule sorted_rev_find [OF longest_first_sorted Some]) (use assms in simp_all)
  ultimately show ?thesis using Some by (metis append_Nil2 append_eq_conv_conj prefixE take_all)
qed

lemma replace_from_Nil: "replace_from n raws labels [] = []"
  by (cases n) simp_all

lemma replace_protected:
  assumes "dict_has labels s" and "s \<noteq> []"
  shows "replace_text labels s = dict_get labels s []"
proof -
  from assms obtain x xs where s: "s = x # xs" by (cases s) auto
  have "s \<in> set (dict_keys labels)" using assms(1) by (simp only: dict_has_def)
  then have f: "find (\<lambda>raw. prefix raw (x # xs)) (longest_first (dict_keys labels)) = Some (x # xs)"
    using longest_prefix s by simp
  have "labels \<noteq> []" using assms(1) by (auto simp: dict_has_def dict_keys_def)
  then show ?thesis
    unfolding replace_text_def s by (simp del: dict_keys_def add: f replace_from_Nil)
qed

lemma label_of:
  assumes "labels_ok c labels" and "map_of labels raw = Some l"
  shows "is_label (rd_replacement c) l"
proof -
  from assms(2) have "l \<in> set (map snd labels)" by (force dest: map_of_SomeD)
  also have "map snd labels = map (\<lambda>n. rd_replacement c @ '':'' @ nat_str n) [1..<length labels + 1]"
    using assms(1) by (simp add: labels_ok_def)
  finally show ?thesis by (auto simp: is_label_def)
qed

lemma protected_sealed:
  assumes ok: "labels_ok c labels" and has: "protected_text v \<noteq> [] \<Longrightarrow> dict_has labels (protected_text v)"
    and k: "sensitive_key k"
  shows "\<exists>t. (if sensitive_key k \<and> \<not> is_str v then JStr (dict_get labels (dumps_sorted v) (rd_replacement c))
              else relabel c labels v) = JStr t \<and> is_label (rd_replacement c) t"
proof (cases "is_str v")
  case False
  have "is_label (rd_replacement c) (dict_get labels (dumps_sorted v) (rd_replacement c))"
    using label_of [OF ok, of "dumps_sorted v"]
    by (cases "map_of labels (dumps_sorted v)") (simp_all add: dict_get_def, simp add: is_label_def)
  with False k show ?thesis by simp
next
  case True
  then obtain s where s: "v = JStr s" by (cases v) auto
  show ?thesis
  proof (cases "s = []")
    case True
    then show ?thesis by (simp add: s replace_text_def is_label_def)
  next
    case False
    with has s have h: "dict_has labels s" by simp
    then obtain l where "map_of labels s = Some l" by (auto simp: dict_has_map_of)
    then show ?thesis
      using replace_protected [OF h False] label_of [OF ok] by (simp add: s dict_get_def)
  qed
qed

lemma relabel_sealed:
  "labels_ok c L \<Longrightarrow> \<forall>x. dict_has (collect c v l) x \<longrightarrow> dict_has L x \<Longrightarrow>
     sealed (rd_replacement c) (relabel c L v)"
  "labels_ok c L \<Longrightarrow> \<forall>x. dict_has (collect_list c xs l) x \<longrightarrow> dict_has L x \<Longrightarrow>
     sealed_list (rd_replacement c) (relabel_list c L xs)"
  "labels_ok c L \<Longrightarrow> \<forall>x. dict_has (collect_kvs c kvs l) x \<longrightarrow> dict_has L x \<Longrightarrow>
     sealed_kvs (rd_replacement c) (relabel_kvs c L kvs)"
proof (induction c v l and c xs l and c kvs l rule: collect_collect_list_collect_kvs.induct)
  case (6 c x xs l)
  then show ?case by (simp add: collect_mono)
next
  case (8 c k v kvs l)
  let ?l = "if sensitive_key k then remember c (protected_text v) l else l"
  have sub: "\<forall>x. dict_has (collect c v ?l) x \<longrightarrow> dict_has L x"
    using "8.prems"(2) collect_mono(3) by simp
  have kvs: "sealed_kvs (rd_replacement c) (relabel_kvs c L kvs)"
    using "8.IH"(2) "8.prems" by simp
  show ?case
  proof (cases "sensitive_key k")
    case True
    have "dict_has L (protected_text v)" if "protected_text v \<noteq> []"
      using sub remember_has [OF that] collect_mono(1) True by simp
    from protected_sealed [OF "8.prems"(1) this True] kvs True show ?thesis by simp
  next
    case False
    with "8.IH"(1) "8.prems"(1) sub kvs show ?thesis by simp
  qed
qed simp_all

lemma redact_request_sealed:
  "sealed (rd_replacement (mandatory_redaction config)) (redact_request config v)"
  unfolding redact_request_def Let_def
  by (rule relabel_sealed(1) [where l = "[]"]) (simp_all add: request_labels_ok)

end
