(* ===== verification/LlmSamples.thy ===== *)
theory LlmSamples
  imports Samples LlmSafety RedactionFacts
begin

text \<open>
  Concrete inputs for the LLM supervisor: a supervisor bound to the payment grant, with a
  Gemini provider that always gives the same answer, and an Ollama endpoint that times out.
\<close>

definition demo_wire :: wire where
  "demo_wire = \<lparr>wr_float = (\<lambda>v. case v of JFloat d \<Rightarrow> Some d | JInt n \<Rightarrow> Some (Dec n 0) | _ \<Rightarrow> None),
     wr_metadata_ok = (\<lambda>_. True), wr_request = (\<lambda>_. JNull), wr_post = (\<lambda>_. JNull), wr_schema_ok = (\<lambda>_ _. True)\<rparr>"

definition demo_digests :: digests where
  "demo_digests = \<lparr>dg_sha = (\<lambda>_. ''d''), dg_fingerprint = (\<lambda>_ _. ''g'')\<rparr>"

definition demo_supervisor :: llm_supervisor where
  "demo_supervisor = set_context [] demo_grant None False
     (new_supervisor [] demo_schemas (Dec 55 (-2)) True True True)"

definition demo_rewriting :: "json pydict" where
  "demo_rewriting =
     [(''decision'', JStr ''REWRITE''), (''goal_relevance'', JStr ''RELEVANT''), (''necessity'', JStr ''NECESSARY''),
      (''risk_level'', JStr ''LOW''), (''confidence'', JFloat (Dec 9 (-1))), (''reason'', JStr ''same payment''),
      (''rewritten_call'', JObj [(''tool_name'', JStr ''send_money''), (''arguments'', JObj (tc_arguments demo_call))])]"

definition demo_gemini :: gemini where
  "demo_gemini = \<lparr>gm_model = ''m'', gm_retries = 2, gm_redaction = None, gm_prompt = [], gm_post_prompt = []\<rparr>"

definition demo_backend :: "json pydict \<Rightarrow> backend" where
  "demo_backend raw = GeminiBackend demo_gemini (\<lambda>_ _. Inr raw)"

definition demo_rewrite :: supervisor_response where
  "demo_rewrite = \<lparr>sr_decision = REWRITE, sr_relevance = ''RELEVANT'', sr_necessity = ''NECESSARY'', sr_risk = ''LOW'',
     sr_confidence = Dec 9 (-1), sr_reason = ''same payment'',
     sr_rewritten = Some \<lparr>rw_tool = ''send_money'', rw_arguments = tc_arguments demo_call\<rparr>,
     sr_metadata = [(''provider'', JStr ''gemini''), (''model'', JStr ''m''), (''model_tag'', JStr ''m''),
       (''model_digest'', JNull), (''quantization'', JNull), (''memory_use'', JNull),
       (''prompt_eval_count'', JNull), (''eval_count'', JNull), (''retries'', JInt 0)]\<rparr>"

lemma retry_returns: "call n s = (Inr v, s') \<Longrightarrow> retry mx call n s = (Inr v, s')"
  by (simp add: retry.simps [of mx call n s])

lemma demo_backend_answers:
  assumes "\<not> twice_rewritten q" and "read_response w (JObj (AList.delete provider_metadata_key raw)) = Some r"
    and "gemini_metadata demo_gemini 0 (dict_get raw provider_metadata_key (JObj [])) = Inr meta"
    and "validate_rewrite (wr_schema_ok w) (r\<lparr>sr_metadata := meta\<rparr>) q = Inr ()"
  shows "backend_evaluate w (demo_backend raw) q = Inr (r\<lparr>sr_metadata := meta\<rparr>)"
proof -
  have "fst (retry (gm_retries demo_gemini)
      (generate_round (\<lambda>_ _. Inr raw) (generation_of w demo_gemini q)) 0 ()) = Inr (0, raw)"
    by (subst retry_returns [of _ _ _ "(0, raw)"]) (simp_all add: generate_round_def)
  with assms show ?thesis
    by (simp add: demo_backend_def gemini_evaluate_def or_schema_error_def checked_response_def Let_def)
qed

lemma demo_request_fresh: "\<not> twice_rewritten (build_request demo_supervisor goal call obs)"
  by (simp add: twice_rewritten_def demo_supervisor_def set_context_def)

lemma demo_rewrites:
  "backend_evaluate demo_wire (demo_backend demo_rewriting) (build_request demo_supervisor ''pay'' demo_call [])
     = Inr demo_rewrite"
proof -
  have meta: "demo_rewrite\<lparr>sr_metadata := sr_metadata demo_rewrite\<rparr> = demo_rewrite" by simp
  show ?thesis
  proof (subst meta [symmetric], subst demo_backend_answers [OF demo_request_fresh])
    show "read_response demo_wire (JObj (AList.delete provider_metadata_key demo_rewriting))
      = Some (demo_rewrite\<lparr>sr_metadata := []\<rparr>)" by code_simp
    show "gemini_metadata demo_gemini 0 (dict_get demo_rewriting provider_metadata_key (JObj []))
      = Inr (sr_metadata demo_rewrite)" by code_simp
    show "validate_rewrite (wr_schema_ok demo_wire)
        (demo_rewrite\<lparr>sr_metadata := [], sr_metadata := sr_metadata demo_rewrite\<rparr>)
        (build_request demo_supervisor ''pay'' demo_call []) = Inr ()" by code_simp
  qed simp
qed

lemma demo_guard_allows:
  "map_sum id so_decision (deterministic_output demo_wire demo_digests demo_supervisor ''pay'' demo_call [])
     = Inr ALLOW"
  by code_simp

lemma demo_guard_output:
  obtains det where "deterministic_output demo_wire demo_digests demo_supervisor ''pay'' demo_call [] = Inr det"
    and "so_decision det = ALLOW"
  using demo_guard_allows
  by (cases "deterministic_output demo_wire demo_digests demo_supervisor ''pay'' demo_call []") simp_all

lemma demo_threshold: "in_unit (ls_threshold demo_supervisor)"
  by code_simp

definition demo_ollama :: ollama where
  "demo_ollama = \<lparr>ol_model = ''m'', ol_retries = 2, ol_seed = 0, ol_redaction = None, ol_prompt = [],
     ol_post_prompt = [], ol_answers = None\<rparr>"

definition demo_local :: local_model where
  "demo_local = \<lparr>lo_tag = JNull, lo_digest = JNull, lo_quantization = JNull, lo_memory = JNull\<rparr>"

end
