(* ===== verification/Filesystem.thy ===== *)
theory Filesystem
  imports Prelude
begin

text \<open>
  \<open>tools/filesystem.py\<close> over a tree of inodes. A directory maps names to nodes; a regular
  file has its link count, the size \<open>fstat\<close> reports and the bytes its reads deliver; a
  symbolic link and any other object are nodes of their own, so that following one is a
  choice the model can see. Paths are lists of names from the root. Errors of the operating
  system that do not follow from the tree (permissions, full disks) are left out, and no
  other process runs between two steps.
\<close>

section \<open>Nodes and paths\<close>

datatype node =
    File nat nat string
  | Dir "(string \<times> node) list"
  | Symlink string
  | Special

text \<open>The object at a path, without following a symbolic link anywhere.\<close>

fun walk_to :: "node \<Rightarrow> string list \<Rightarrow> node option" where
  "walk_to n [] = Some n"
| "walk_to (Dir es) (p # ps) = (case map_of es p of None \<Rightarrow> None | Some c \<Rightarrow> walk_to c ps)"
| "walk_to _ (p # ps) = None"

text \<open>The tree with the object at a path replaced, where its parent is a directory.\<close>

fun put :: "node \<Rightarrow> string list \<Rightarrow> node \<Rightarrow> node" where
  "put n [] x = x"
| "put (Dir es) (p # ps) x =
     (case (map_of es p, ps) of
        (Some c, _) \<Rightarrow> Dir (AList.update p (put c ps x) es)
      | (None, []) \<Rightarrow> Dir (AList.update p x es)
      | (None, _) \<Rightarrow> Dir es)"
| "put n (p # ps) x = n"

fun remove_at :: "node \<Rightarrow> string list \<Rightarrow> node" where
  "remove_at n [] = n"
| "remove_at (Dir es) [p] = Dir (AList.delete p es)"
| "remove_at (Dir es) (p # ps) =
     (case map_of es p of None \<Rightarrow> Dir es | Some c \<Rightarrow> Dir (AList.update p (remove_at c ps) es))"
| "remove_at n (p # ps) = n"

fun is_dir :: "node option \<Rightarrow> bool" where
  "is_dir (Some (Dir _)) = True"
| "is_dir _ = False"

section \<open>Confined paths\<close>

definition confined_parts :: "string \<Rightarrow> string list result" where
  "confined_parts raw =
     (let parts = path_parts raw in
      if path_is_absolute raw \<or> ''..'' \<in> set parts \<or> parts = [] \<or> CHR 0x5C \<in> set raw
      then Inl (ValueError (''path escapes allowed root: '' @ raw))
      else Inr parts)"

definition alias_error :: exn where
  "alias_error = ValueError ''unsafe filesystem alias, object or parent''"

text \<open>
  The descent of \<open>confined_parent\<close>: one directory at a time, refusing what is not a directory
  and creating what is missing only when asked. \<open>here\<close> is the open descriptor's path.
\<close>

fun open_parents :: "bool \<Rightarrow> string list \<Rightarrow> string list \<Rightarrow> node \<Rightarrow> string list result \<times> node" where
  "open_parents create here [] fs = (Inr here, fs)"
| "open_parents create here (p # ps) fs =
     (case walk_to fs (here @ [p]) of
        Some (Dir _) \<Rightarrow> open_parents create (here @ [p]) ps fs
      | Some _ \<Rightarrow> (Inl (OSError p), fs)
      | None \<Rightarrow>
          if create then open_parents create (here @ [p]) ps (put fs (here @ [p]) (Dir []))
          else (Inl (OSError p), fs))"

text \<open>An \<open>OSError\<close> of the descent or of the body is converted; another exception passes.\<close>

definition converted :: "'a result \<Rightarrow> 'a result" where
  "converted r = (case r of Inl e \<Rightarrow> Inl (if is_os_error e then alias_error else e) | Inr v \<Rightarrow> Inr v)"

definition confined_parent ::
  "bool \<Rightarrow> string list \<Rightarrow> string \<Rightarrow> (string list \<Rightarrow> string \<Rightarrow> node \<Rightarrow> 'a result \<times> node) \<Rightarrow> node
   \<Rightarrow> 'a result \<times> node" where
  "confined_parent create base raw body fs =
     (case confined_parts raw of
        Inl e \<Rightarrow> (Inl e, fs)
      | Inr parts \<Rightarrow>
          apfst converted
            (andthen (open_parents create [] (base @ butlast parts) fs) (\<lambda>here fs. body here (last parts) fs)))"

section \<open>Reading\<close>

text \<open>The read loop: at most one byte beyond the limit is taken.\<close>

function read_loop :: "nat \<Rightarrow> string \<Rightarrow> string \<Rightarrow> string" where
  "read_loop mx chunks rest =
     (if length chunks \<le> mx
      then let part = take (min 65536 (mx + 1 - length chunks)) rest in
           if part = [] then chunks
           else read_loop mx (chunks @ part) (drop (length part) rest)
      else chunks)"
  by auto
termination by (relation "measure (\<lambda>(mx, chunks, rest). length rest)") (auto simp: Let_def)

declare read_loop.simps [simp del]

definition read_file :: "nat \<Rightarrow> string list \<Rightarrow> string \<Rightarrow> node \<Rightarrow> string result \<times> node" where
  "read_file mx here name fs =
     ((case walk_to fs (here @ [name]) of
         None \<Rightarrow> Inl (OSError name)
       | Some (Symlink _) \<Rightarrow> Inl (OSError name)
       | Some (File links sz content) \<Rightarrow>
           if links \<noteq> 1 then Inl (ValueError ''only regular non-aliased files may be read'')
           else if mx < sz then Inl (ValueError (''file exceeds read limit of '' @ nat_str mx @ '' bytes''))
           else let chunks = read_loop mx [] content in
                if mx < length chunks
                then Inl (ValueError (''file exceeds read limit of '' @ nat_str mx @ '' bytes''))
                else Inr chunks
       | Some _ \<Rightarrow> Inl (ValueError ''only regular non-aliased files may be read'')), fs)"

definition read_confined :: "string list \<Rightarrow> string \<Rightarrow> nat \<Rightarrow> node \<Rightarrow> string result" where
  "read_confined base raw mx fs = fst (confined_parent False base raw (read_file mx) fs)"

section \<open>Writing\<close>

definition regular :: "node option \<Rightarrow> bool" where
  "regular existing =
     (case existing of None \<Rightarrow> True | Some (File links _ _) \<Rightarrow> links = 1 | Some _ \<Rightarrow> False)"

definition rename_to :: "string list \<Rightarrow> string list \<Rightarrow> node \<Rightarrow> node" where
  "rename_to src dst fs =
     (case walk_to fs src of None \<Rightarrow> fs | Some n \<Rightarrow> if src = dst then fs else put (remove_at fs src) dst n)"

text \<open>\<open>fresh_id\<close> is the \<open>uuid4\<close> of the temporary file.\<close>

definition write_file :: "string \<Rightarrow> string \<Rightarrow> string list \<Rightarrow> string \<Rightarrow> node \<Rightarrow> unit result \<times> node" where
  "write_file fresh_id content here name fs =
     (let temporary = here @ [''.traceguard-'' @ fresh_id @ ''.tmp''] in
      if \<not> regular (walk_to fs (here @ [name]))
      then (Inl (ValueError ''only regular non-aliased files may be replaced''), fs)
      else if walk_to fs temporary \<noteq> None then (Inl (OSError ''exists''), fs)
      else
        let created = put fs temporary (File 1 (length content) content);
            replaced = rename_to temporary (here @ [name]) created in
        (Inr (), remove_at replaced temporary))"

definition write_confined :: "string \<Rightarrow> string list \<Rightarrow> string \<Rightarrow> string \<Rightarrow> node \<Rightarrow> unit result \<times> node" where
  "write_confined fresh_id base raw content fs =
     confined_parent True base raw (write_file fresh_id content) fs"

section \<open>Copying\<close>

record copy_budget =
  cb_max_entries :: nat
  cb_max_bytes :: nat
  cb_max_file_bytes :: nat
  cb_max_depth :: nat
  cb_entries :: nat
  cb_bytes :: nat
  cb_checks :: nat

definition default_budget :: copy_budget where
  "default_budget = \<lparr>cb_max_entries = 1024, cb_max_bytes = 16777216, cb_max_file_bytes = 8388608,
     cb_max_depth = 16, cb_entries = 0, cb_bytes = 0, cb_checks = 0\<rparr>"

text \<open>
  \<open>late n\<close> says that the clock is past the limit at the \<open>n\<close>-th check, \<open>changed\<close> that an
  object was modified while it was copied.
\<close>

record copy_env =
  ce_late :: "nat \<Rightarrow> bool"
  ce_changed :: "string \<Rightarrow> bool"
  ce_prohibited :: "string \<Rightarrow> bool"

definition check_budget :: "copy_env \<Rightarrow> copy_budget \<Rightarrow> unit result \<times> copy_budget" where
  "check_budget env b =
     ((if ce_late env (cb_checks b) then Inl (ValueError ''input staging time limit exceeded'')
       else if cb_max_entries b < cb_entries b \<or> cb_max_bytes b < cb_bytes b
       then Inl (ValueError ''input staging entry or byte limit exceeded'')
       else Inr ()), b\<lparr>cb_checks := Suc (cb_checks b)\<rparr>)"

text \<open>The copy loop of one file: the bytes written.\<close>

function copy_chunks :: "copy_env \<Rightarrow> nat \<Rightarrow> string \<Rightarrow> copy_budget \<Rightarrow> unit result \<times> copy_budget" where
  "copy_chunks env written rest b =
     (case check_budget env b of
        (Inl e, b) \<Rightarrow> (Inl e, b)
      | (Inr _, b) \<Rightarrow>
          if rest = [] then (Inr (), b)
          else let part = take 65536 rest in
            (case check_budget env (b\<lparr>cb_bytes := cb_bytes b + length part\<rparr>) of
               (Inl e, b) \<Rightarrow> (Inl e, b)
             | (Inr _, b) \<Rightarrow>
                 if cb_max_file_bytes b < written + length part
                 then (Inl (ValueError ''input staging per-file limit exceeded''), b)
                 else copy_chunks env (written + length part) (drop 65536 rest) b))"
  by auto
termination by (relation "measure (\<lambda>(env, written, rest, b). length rest)") auto

declare copy_chunks.simps [simp del]

definition enter_object :: "copy_env \<Rightarrow> string \<Rightarrow> nat \<Rightarrow> copy_budget \<Rightarrow> unit result \<times> copy_budget" where
  "enter_object env relative depth b =
     andthen (check_budget env (b\<lparr>cb_entries := Suc (cb_entries b)\<rparr>))
       (\<lambda>_ b. if cb_max_depth b < depth \<or> ce_prohibited env relative
              then (Inl (ValueError ''protected object or input depth limit exceeded''), b)
              else (Inr (), b))"

definition copy_regular :: "copy_env \<Rightarrow> string \<Rightarrow> nat \<Rightarrow> string \<Rightarrow> copy_budget \<Rightarrow> node result \<times> copy_budget" where
  "copy_regular env relative sz content b =
     (if cb_max_file_bytes b < sz then (Inl (ValueError ''input staging per-file limit exceeded''), b)
      else andthen (copy_chunks env 0 content b)
        (\<lambda>_ b. if ce_changed env relative then (Inl (ValueError ''input object changed while copying''), b)
               else (Inr (File 1 (length content) content), b)))"

fun copy_object :: "copy_env \<Rightarrow> string \<Rightarrow> nat \<Rightarrow> node \<Rightarrow> copy_budget \<Rightarrow> node result \<times> copy_budget"
  and copy_children ::
    "copy_env \<Rightarrow> string \<Rightarrow> nat \<Rightarrow> (string \<times> node) list \<Rightarrow> copy_budget \<Rightarrow> (string \<times> node) list result \<times> copy_budget"
  where
  "copy_object env relative depth n b =
     andthen (enter_object env relative depth b)
       (\<lambda>_ b. case n of
          Symlink _ \<Rightarrow> (Inl (OSError relative), b)
        | Dir es \<Rightarrow> andthen (copy_children env relative depth es b) (\<lambda>cs b. (Inr (Dir cs), b))
        | File links sz content \<Rightarrow>
            if links = 1 then copy_regular env relative sz content b
            else (Inl (ValueError ''input must be a regular non-aliased file or directory''), b)
        | Special \<Rightarrow> (Inl (ValueError ''input must be a regular non-aliased file or directory''), b))"
| "copy_children env relative depth [] b = (Inr [], b)"
| "copy_children env relative depth ((name, c) # es) b =
     andthen (copy_object env (relative @ ''/'' @ name) (Suc depth) c b)
       (\<lambda>c' b. andthen (copy_children env relative depth es b) (\<lambda>cs b. (Inr ((name, c') # cs), b)))"

text \<open>The copy of the object a path names, or the exception; its parts give the depth.\<close>

definition join_names :: "string list \<Rightarrow> string" where
  "join_names parts = (case parts of [] \<Rightarrow> [] | p # ps \<Rightarrow> p @ concat (map (\<lambda>q. CHR 0x2F # q) ps))"

definition copy_confined ::
  "copy_env \<Rightarrow> string list \<Rightarrow> string \<Rightarrow> copy_budget \<Rightarrow> node \<Rightarrow> node result \<times> copy_budget" where
  "copy_confined env base raw b fs =
     (case confined_parts raw of
        Inl e \<Rightarrow> (Inl e, b)
      | Inr parts \<Rightarrow>
          apfst converted
            (case open_parents False [] (base @ butlast parts) fs of
               (Inl e, _) \<Rightarrow> (Inl e, b)
             | (Inr here, _) \<Rightarrow>
                 (case walk_to fs (here @ [last parts]) of
                    None \<Rightarrow> andthen (enter_object env (join_names parts) (length parts) b) (\<lambda>_ b. (Inl (OSError raw), b))
                  | Some n \<Rightarrow> copy_object env (join_names parts) (length parts) n b)))"

end
