(* ===== verification/FilesystemFacts.thy ===== *)
theory FilesystemFacts
  imports Filesystem
begin

text \<open>
  What confined access reaches: a read returns exactly the bytes of one regular file below
  its root, no link followed; a write changes that one object; a copy is the same tree
  within its budget.
\<close>

section \<open>Walking and changing a tree\<close>

lemma walk_append: "walk_to fs (a @ b) = (case walk_to fs a of None \<Rightarrow> None | Some n \<Rightarrow> walk_to n b)"
  by (induction fs a rule: walk_to.induct) (auto split: option.splits)

lemma walk_from_dir: "walk_to fs (h @ p # ps) = Some n \<Longrightarrow> is_dir (walk_to fs h)"
proof (cases "walk_to fs h")
  case (Some m)
  assume "walk_to fs (h @ p # ps) = Some n"
  with Some show ?thesis by (cases m) (simp_all add: walk_append)
qed (simp add: walk_append)

lemma is_dir_iff: "is_dir m \<longleftrightarrow> (\<exists>es. m = Some (Dir es))"
  by (cases m rule: is_dir.cases) auto

lemma put_at:
  "is_dir (walk_to fs h) \<Longrightarrow> prefix (h @ [p]) q \<Longrightarrow>
   walk_to (put fs (h @ [p]) x) q = walk_to x (drop (Suc (length h)) q)"
proof (induction h arbitrary: fs q)
  case Nil
  then obtain es where "fs = Dir es" by (auto simp: is_dir_iff)
  with Nil show ?case by (cases q) (auto simp: map_of_update split: option.split)
next
  case (Cons a h)
  then obtain es c where "fs = Dir es" "map_of es a = Some c" "is_dir (walk_to c h)"
    by (cases fs) (auto split: option.splits)
  with Cons show ?case by (cases q) (auto simp: map_of_update)
qed

lemma put_apart:
  "is_dir (walk_to fs h) \<Longrightarrow> \<not> prefix (h @ [p]) q \<Longrightarrow> \<not> prefix q h \<Longrightarrow>
   walk_to (put fs (h @ [p]) x) q = walk_to fs q"
proof (induction h arbitrary: fs q)
  case Nil
  then obtain es where "fs = Dir es" by (auto simp: is_dir_iff)
  with Nil show ?case by (cases q) (auto simp: map_of_update split: option.split)
next
  case (Cons a h)
  then obtain es c where "fs = Dir es" "map_of es a = Some c" "is_dir (walk_to c h)"
    by (cases fs) (auto split: option.splits)
  with Cons show ?case by (cases q) (auto simp: map_of_update)
qed

lemma put_above:
  "is_dir (walk_to fs h) \<Longrightarrow> prefix q h \<Longrightarrow> is_dir (walk_to (put fs (h @ [p]) x) q)"
proof (induction h arbitrary: fs q)
  case Nil
  then obtain es where "fs = Dir es" by (auto simp: is_dir_iff)
  with Nil show ?case by (auto split: option.split)
next
  case (Cons a h)
  then obtain es c where "fs = Dir es" "map_of es a = Some c" "is_dir (walk_to c h)"
    by (cases fs) (auto split: option.splits)
  with Cons show ?case by (cases q) (auto simp: map_of_update)
qed

lemma remove_at_gone: "is_dir (walk_to fs h) \<Longrightarrow> prefix (h @ [p]) q \<Longrightarrow> walk_to (remove_at fs (h @ [p])) q = None"
proof (induction h arbitrary: fs q)
  case Nil
  then obtain es where "fs = Dir es" by (auto simp: is_dir_iff)
  with Nil show ?case by (cases q) (auto simp: delete_conv')
next
  case (Cons a h)
  then obtain es c where "fs = Dir es" "map_of es a = Some c" "is_dir (walk_to c h)"
    by (cases fs) (auto split: option.splits)
  with Cons show ?case by (cases q; cases h) (auto simp: map_of_update)
qed

lemma remove_at_apart:
  "is_dir (walk_to fs h) \<Longrightarrow> \<not> prefix (h @ [p]) q \<Longrightarrow> \<not> prefix q h \<Longrightarrow>
   walk_to (remove_at fs (h @ [p])) q = walk_to fs q"
proof (induction h arbitrary: fs q)
  case Nil
  then obtain es where "fs = Dir es" by (auto simp: is_dir_iff)
  with Nil show ?case by (cases q) (auto simp: delete_conv')
next
  case (Cons a h)
  then obtain es c where "fs = Dir es" "map_of es a = Some c" "is_dir (walk_to c h)"
    by (cases fs) (auto split: option.splits)
  with Cons show ?case by (cases q; cases h) (auto simp: map_of_update)
qed

lemma remove_at_above: "is_dir (walk_to fs h) \<Longrightarrow> prefix q h \<Longrightarrow> is_dir (walk_to (remove_at fs (h @ [p])) q)"
proof (induction h arbitrary: fs q)
  case Nil
  then obtain es where "fs = Dir es" by (auto simp: is_dir_iff)
  with Nil show ?case by auto
next
  case (Cons a h)
  then obtain es c where "fs = Dir es" "map_of es a = Some c" "is_dir (walk_to c h)"
    by (cases fs) (auto split: option.splits)
  with Cons show ?case by (cases q; cases h) (auto simp: map_of_update)
qed

text \<open>
  What a change within \<open>T\<close> keeps elsewhere: the same objects other than directories, and that
  a directory is one.
\<close>

definition leaf :: "node \<Rightarrow> string list \<Rightarrow> node option" where
  "leaf fs q = (if is_dir (walk_to fs q) then None else walk_to fs q)"

definition keeps :: "string list set \<Rightarrow> node \<Rightarrow> node \<Rightarrow> bool" where
  "keeps T fs fs' \<longleftrightarrow>
     (\<forall>q. q \<notin> T \<longrightarrow> (is_dir (walk_to fs q) \<longrightarrow> is_dir (walk_to fs' q)) \<and> leaf fs' q = leaf fs q)"

lemma keeps_refl: "keeps T fs fs"
  by (simp add: keeps_def)

lemma keeps_trans: "keeps T a b \<Longrightarrow> keeps T b c \<Longrightarrow> keeps T a c"
  unfolding keeps_def by metis

lemma keeps_mono: "keeps T a b \<Longrightarrow> T \<subseteq> U \<Longrightarrow> keeps U a b"
  unfolding keeps_def by blast

lemma keeps_dir: "keeps T a b \<Longrightarrow> is_dir (walk_to a q) \<Longrightarrow> q \<notin> T \<Longrightarrow> is_dir (walk_to b q)"
  unfolding keeps_def by blast

lemma keeps_leaf: "keeps T a b \<Longrightarrow> q \<notin> T \<Longrightarrow> leaf b q = leaf a q"
  unfolding keeps_def by blast

lemma leaf_None: "walk_to fs q = None \<Longrightarrow> leaf fs q = None"
  by (simp add: leaf_def)

lemma leaf_Some: "walk_to fs q = Some n \<Longrightarrow> \<not> is_dir (Some n) \<Longrightarrow> leaf fs q = Some n"
  by (simp add: leaf_def)

lemma leaf_walk: "leaf fs q = Some n \<Longrightarrow> walk_to fs q = Some n"
  by (simp add: leaf_def split: if_splits)

text \<open>What shows it: directories above the change stay, and no object is below it.\<close>

lemma keeps_below:
  assumes "is_dir (walk_to fs h)" and "\<not> is_dir (walk_to fs (h @ [p]))"
    and above: "\<And>q. prefix q h \<Longrightarrow> is_dir (walk_to fs' q)"
    and apart: "\<And>q. \<not> prefix (h @ [p]) q \<Longrightarrow> \<not> prefix q h \<Longrightarrow> walk_to fs' q = walk_to fs q"
    and under: "\<And>q. prefix (h @ [p]) q \<Longrightarrow> q \<noteq> h @ [p] \<Longrightarrow> walk_to fs' q = None"
  shows "keeps {h @ [p]} fs fs'"
proof -
  have below: "walk_to fs q = None" if "prefix (h @ [p]) q" "q \<noteq> h @ [p]" for q
  proof (rule ccontr)
    assume "walk_to fs q \<noteq> None"
    with that assms(2) show False
      by (elim prefixE) (metis append_Nil2 neq_Nil_conv not_Some_eq walk_from_dir)
  qed
  have dirs: "is_dir (walk_to fs q)" if "prefix q h" for q
    using that assms(1) by (elim prefixE) (metis append_Nil2 is_dir_iff neq_Nil_conv walk_from_dir)
  show ?thesis
    unfolding keeps_def leaf_def
  proof (intro allI impI conjI)
    fix q
    assume q: "q \<notin> {h @ [p]}"
    show "is_dir (walk_to fs' q)" if "is_dir (walk_to fs q)"
      using that below [of q] q above [of q] apart [of q] by (cases "prefix q h"; cases "prefix (h @ [p]) q") auto
    show "(if is_dir (walk_to fs' q) then None else walk_to fs' q) = (if is_dir (walk_to fs q) then None else walk_to fs q)"
      using below [of q] q dirs [of q] above [of q] apart [of q] under [of q]
      by (cases "prefix q h"; cases "prefix (h @ [p]) q") auto
  qed
qed

lemma no_dir_below: "walk_to fs q = Some n \<Longrightarrow> prefix p q \<Longrightarrow> p \<noteq> q \<Longrightarrow> is_dir (walk_to fs p)"
  by (elim prefixE) (metis append_Nil2 neq_Nil_conv walk_from_dir)

text \<open>An object with nothing below it.\<close>

fun bare :: "node \<Rightarrow> bool" where
  "bare (Dir es) \<longleftrightarrow> es = []"
| "bare _ = True"

lemma bare_below: "bare x \<Longrightarrow> q \<noteq> [] \<Longrightarrow> walk_to x q = None"
  by (cases x; cases q) auto

lemma bare_walk: "bare x \<Longrightarrow> walk_to x q = Some y \<Longrightarrow> q = []"
  by (rule ccontr) (simp add: bare_below)

lemma put_keeps:
  "is_dir (walk_to fs h) \<Longrightarrow> \<not> is_dir (walk_to fs (h @ [p])) \<Longrightarrow> bare x \<Longrightarrow>
   keeps {h @ [p]} fs (put fs (h @ [p]) x)"
  by (rule keeps_below) (auto intro: put_above put_apart simp: put_at bare_below dest: bare_walk elim!: prefixE)

lemma keeps_except:
  "keeps {t} fs fs' \<Longrightarrow> walk_to fs t = None \<Longrightarrow> leaf fs' t = None \<Longrightarrow> keeps {} fs fs'"
  by (auto simp: keeps_def leaf_def) (metis is_dir.simps(2))+

lemma put_dir_keeps:
  assumes "is_dir (walk_to fs h)" and "walk_to fs (h @ [p]) = None"
  shows "keeps {} fs (put fs (h @ [p]) (Dir []))"
proof (rule keeps_except)
  show "keeps {h @ [p]} fs (put fs (h @ [p]) (Dir []))" using assms by (auto intro: put_keeps)
  show "leaf (put fs (h @ [p]) (Dir [])) (h @ [p]) = None"
    using put_at [OF assms(1), of p "h @ [p]" "Dir []"] by (simp add: leaf_def)
qed (rule assms(2))

lemma remove_keeps:
  "is_dir (walk_to fs h) \<Longrightarrow> \<not> is_dir (walk_to fs (h @ [p])) \<Longrightarrow> keeps {h @ [p]} fs (remove_at fs (h @ [p]))"
  by (rule keeps_below) (auto intro: remove_at_above remove_at_apart remove_at_gone)

section \<open>The descent\<close>

lemma open_existing:
  "open_parents False here ps fs = (r, fs') \<Longrightarrow> is_dir (walk_to fs here) \<Longrightarrow>
   fs' = fs \<and> (\<forall>e. r = Inl e \<longrightarrow> is_os_error e) \<and> (\<forall>h. r = Inr h \<longrightarrow> h = here @ ps \<and> is_dir (walk_to fs h))"
proof (induction ps arbitrary: here)
  case (Cons p ps)
  show ?case
  proof (cases "is_dir (walk_to fs (here @ [p]))")
    case True
    with Cons.prems(1) have "open_parents False (here @ [p]) ps fs = (r, fs')" by (auto simp: is_dir_iff)
    from Cons.IH [OF this True] show ?thesis by simp
  next
    case False
    with Cons.prems(1) show ?thesis by (auto split: option.splits node.splits)
  qed
qed auto

lemma open_found:
  "is_dir (walk_to fs (here @ ps)) \<Longrightarrow> open_parents c here ps fs = (Inr (here @ ps), fs)"
proof (induction ps arbitrary: here)
  case (Cons p ps)
  then have "is_dir (walk_to fs (here @ [p]))"
    using no_dir_below [of fs "here @ p # ps" _ "here @ [p]"] by (cases ps) (auto simp: is_dir_iff)
  with Cons show ?case by (auto simp: is_dir_iff)
qed simp

lemma open_creates:
  assumes "is_dir (walk_to fs here)" and "open_parents c here ps fs = (r, fs')"
  shows "keeps {} fs fs' \<and> (\<forall>e. r = Inl e \<longrightarrow> is_os_error e)
    \<and> (\<forall>h. r = Inr h \<longrightarrow> h = here @ ps \<and> is_dir (walk_to fs' h))"
  using assms
proof (induction c here ps fs arbitrary: r fs' rule: open_parents.induct)
  case (2 create here p ps fs)
  show ?case
  proof (cases "walk_to fs (here @ [p])")
    case (Some n)
    with 2 show ?thesis by (cases n) (auto simp: keeps_refl)
  next
    case None
    show ?thesis
    proof (cases create)
      case True
      let ?fs = "put fs (here @ [p]) (Dir [])"
      have k: "keeps {} fs ?fs" using "2.prems"(1) None by (rule put_dir_keeps)
      have d: "is_dir (walk_to ?fs (here @ [p]))" using put_at [OF "2.prems"(1), of p "here @ [p]"] by simp
      have "open_parents create (here @ [p]) ps ?fs = (r, fs')" using "2.prems"(2) None True by simp
      from "2.IH"(1) [OF None True d this] k show ?thesis by (auto intro: keeps_trans)
    next
      case False
      with 2 None show ?thesis by (auto simp: keeps_refl)
    qed
  qed
qed (auto simp: keeps_refl)

section \<open>Confined reads\<close>

lemma take_part:
  "k \<le> N \<Longrightarrow> take k r @ take (N - length (take k r)) (drop (length (take k r)) r) = take N r"
  using take_add [of k "N - k" r] by (cases "length r \<le> k") (simp_all add: min_def)

lemma read_loop_take:
  "length chunks \<le> Suc mx \<Longrightarrow> read_loop mx chunks rest = chunks @ take (Suc mx - length chunks) rest"
proof (induction mx chunks rest rule: read_loop.induct)
  case (1 mx chunks rest)
  define k where "k = min 65536 (mx + 1 - length chunks)"
  define part where "part = take k rest"
  have k: "k \<le> Suc mx - length chunks" by (simp add: k_def)
  have lp: "length part \<le> k" by (simp add: part_def)
  show ?case
  proof (cases "length chunks \<le> mx \<and> part \<noteq> []")
    case True
    have "length (chunks @ part) \<le> Suc mx" using True k lp unfolding length_append by linarith
    then have "read_loop mx (chunks @ part) (drop (length part) rest)
        = (chunks @ part) @ take (Suc mx - length (chunks @ part)) (drop (length part) rest)"
      using "1.IH" [OF _ refl] True unfolding part_def k_def by blast
    also have "\<dots> = chunks @ take (Suc mx - length chunks) rest"
      using take_part [OF k, of rest] unfolding part_def by simp
    finally show ?thesis
      using True unfolding part_def k_def by (subst read_loop.simps) (simp add: Let_def)
  next
    case False
    then have "read_loop mx chunks rest = chunks"
      unfolding part_def k_def by (subst read_loop.simps) (auto simp: Let_def)
    moreover have "take (Suc mx - length chunks) rest = []"
      using False "1.prems" by (auto simp: part_def k_def)
    ultimately show ?thesis by simp
  qed
qed

lemma converted_Inr [simp]: "converted r = Inr v \<longleftrightarrow> r = Inr v"
  by (auto simp: converted_def split: sum.split)

lemma take_within: "(\<not> mx < length (take (Suc mx) c') \<and> take (Suc mx) c' = c) \<longleftrightarrow> c' = c \<and> length c \<le> mx"
  by (cases "length c' \<le> mx") auto

lemma read_file_ok:
  "fst (read_file mx here name fs) = Inr c \<longleftrightarrow>
   (\<exists>sz. walk_to fs (here @ [name]) = Some (File 1 sz c) \<and> sz \<le> mx \<and> length c \<le> mx)"
proof (cases "walk_to fs (here @ [name])")
  case (Some n)
  have l: "read_loop mx [] c' = take (Suc mx) c'" for c' using read_loop_take [of "[]" mx c'] by simp
  show ?thesis
  proof (cases n)
    case (File links sz c')
    have "fst (read_file mx here name fs) = Inr c \<longleftrightarrow>
        links = 1 \<and> sz \<le> mx \<and> \<not> mx < length (take (Suc mx) c') \<and> take (Suc mx) c' = c"
      unfolding read_file_def Some option.case File node.case Let_def l fst_conv
      by (simp only: not_less [symmetric] split: if_split) blast
    then show ?thesis unfolding take_within Some File by auto
  qed (simp_all add: read_file_def Some)
qed (simp add: read_file_def)

text \<open>A read returns exactly what one regular file below the root holds, within the limit.\<close>

lemma confined_parts_ne: "confined_parts raw = Inr parts \<Longrightarrow> parts \<noteq> []"
  by (auto simp: confined_parts_def Let_def split: if_splits)

lemma confined_path: "confined_parts raw = Inr parts \<Longrightarrow> (base @ butlast parts) @ [last parts] = base @ parts"
  using confined_parts_ne by simp

lemma read_confined_iff:
  assumes "is_dir (Some fs)"
  shows "read_confined base raw mx fs = Inr c \<longleftrightarrow>
    (\<exists>parts sz. confined_parts raw = Inr parts \<and> walk_to fs (base @ parts) = Some (File 1 sz c)
       \<and> sz \<le> mx \<and> length c \<le> mx)"
proof (cases "confined_parts raw")
  case (Inl e)
  then show ?thesis by (simp add: read_confined_def confined_parent_def)
next
  case parts: (Inr parts)
  let ?h = "base @ butlast parts"
  note path = confined_path [OF parts, of base]
  show ?thesis
  proof (cases "is_dir (walk_to fs ?h)")
    case True
    then have "open_parents False [] ?h fs = (Inr ?h, fs)" using open_found [of fs "[]"] by simp
    then have "read_confined base raw mx fs = converted (fst (read_file mx ?h (last parts) fs))"
      by (simp add: read_confined_def confined_parent_def parts)
    then show ?thesis using read_file_ok [of mx ?h "last parts" fs c] unfolding path parts by simp
  next
    case False
    obtain r fs' where o: "open_parents False [] ?h fs = (r, fs')" by (cases "open_parents False [] ?h fs")
    with open_existing [OF o] assms False obtain e where "r = Inl e" by (cases r) auto
    then have "read_confined base raw mx fs \<noteq> Inr c"
      by (simp add: read_confined_def confined_parent_def parts o)
    moreover have "walk_to fs (base @ parts) \<noteq> Some n" for n
      using False walk_from_dir [of fs ?h "last parts" "[]" n] path by auto
    ultimately show ?thesis using parts by simp
  qed
qed

section \<open>Confined writes\<close>

definition temporary_name :: "string \<Rightarrow> string" where
  "temporary_name fresh_id = ''.traceguard-'' @ fresh_id @ ''.tmp''"

lemma regular_not_dir: "regular m \<Longrightarrow> \<not> is_dir m"
  by (auto simp: regular_def is_dir_iff)

text \<open>The body of a write, in an existing directory.\<close>

lemma write_file_ok:
  assumes h: "is_dir (walk_to fs here)" and w: "write_file fresh_id content here name fs = (r, fs')"
  shows "(case r of Inl e \<Rightarrow> fs' = fs | Inr _ \<Rightarrow> keeps {here @ [name]} fs fs'
      \<and> walk_to fs' (here @ [name])
            = (if name = temporary_name fresh_id then None else Some (File 1 (length content) content)))"
proof (cases "regular (walk_to fs (here @ [name])) \<and> walk_to fs (here @ [temporary_name fresh_id]) = None")
  case False
  with w show ?thesis by (auto simp: write_file_def temporary_name_def Let_def split: if_splits)
next
  case True
  let ?t = "here @ [temporary_name fresh_id]" and ?p = "here @ [name]"
  let ?f = "File 1 (length content) content"
  define a where "a = put fs ?t ?f"
  have ka: "keeps {?t} fs a" unfolding a_def using h True by (intro put_keeps) auto
  have ta: "walk_to a ?t = Some ?f" unfolding a_def using put_at [OF h, of _ ?t] by simp
  have ha: "is_dir (walk_to a here)" using keeps_dir [OF ka h] by simp
  have tn: "walk_to fs ?t = None" using True by simp
  have nd: "\<not> is_dir (walk_to fs ?p)" using True by (simp add: regular_not_dir)
  have r: "r = Inr ()" "fs' = remove_at (rename_to ?t ?p a) ?t"
    using w True by (auto simp: write_file_def temporary_name_def Let_def a_def)
  show ?thesis
  proof (cases "name = temporary_name fresh_id")
    case same: True
    then have "rename_to ?t ?p a = a" by (simp add: rename_to_def split: option.split)
    moreover have "keeps {?p} a (remove_at a ?t)"
      using remove_keeps [OF ha, of "temporary_name fresh_id"] ta same by simp
    moreover have "walk_to (remove_at a ?t) ?t = None" using remove_at_gone [OF ha, of _ ?t] by simp
    ultimately show ?thesis using r ka same by (auto intro: keeps_trans)
  next
    case differ: False
    define b where "b = remove_at a ?t"
    have kb: "keeps {?t} a b" unfolding b_def using remove_keeps [OF ha] ta by simp
    have hb: "is_dir (walk_to b here)" unfolding b_def using remove_at_above [OF ha] by simp
    have tb: "walk_to b ?t = None" unfolding b_def using remove_at_gone [OF ha, of _ ?t] by simp
    have pb: "walk_to b ?p = walk_to fs ?p"
      using put_apart [OF h, of "temporary_name fresh_id" ?p ?f] remove_at_apart [OF ha, of "temporary_name fresh_id" ?p] differ
      unfolding b_def a_def by (simp add: prefix_def)
    define c where "c = put b ?p ?f"
    have kc: "keeps {?p} b c" unfolding c_def using put_keeps [OF hb] pb nd by simp
    have pc: "walk_to c ?p = Some ?f" unfolding c_def using put_at [OF hb, of _ ?p] by simp
    have hc: "is_dir (walk_to c here)" unfolding c_def using put_above [OF hb] by simp
    have tc: "walk_to c ?t = None"
      unfolding c_def using put_apart [OF hb, of name ?t ?f] differ tb by (simp add: prefix_def)
    have td: "walk_to (remove_at c ?t) ?t = None" using remove_at_gone [OF hc, of _ ?t] by simp
    have kd: "keeps {} c (remove_at c ?t)"
      using keeps_except [OF remove_keeps [OF hc]] tc td by (simp add: leaf_None)
    have pd: "walk_to (remove_at c ?t) ?p = Some ?f"
      using remove_at_apart [OF hc, of "temporary_name fresh_id" ?p] differ pc by (simp add: prefix_def)
    have "rename_to ?t ?p a = c" using ta differ by (simp add: rename_to_def b_def c_def)
    then have "fs' = remove_at c ?t" using r by simp
    moreover have "keeps {?p} fs (remove_at c ?t)"
    proof -
      have "keeps {?t, ?p} fs (remove_at c ?t)"
        using ka kb kc kd by (meson keeps_mono keeps_trans empty_subsetI insert_mono subset_insertI)
      with tn td show ?thesis unfolding keeps_def leaf_def by (metis insert_iff is_dir.simps(2) singletonD)
    qed
    ultimately show ?thesis using r(1) pd differ by simp
  qed
qed

text \<open>A write changes one object at most, and then it holds the content.\<close>

lemma write_confined_ok:
  assumes d: "is_dir (Some fs)" and w: "write_confined fresh_id base raw content fs = (r, fs')"
  shows "(case r of
      Inl e \<Rightarrow> keeps {} fs fs'
    | Inr _ \<Rightarrow> \<exists>parts. confined_parts raw = Inr parts \<and> keeps {base @ parts} fs fs'
        \<and> walk_to fs' (base @ parts)
            = (if last parts = temporary_name fresh_id then None else Some (File 1 (length content) content)))"
proof (cases "confined_parts raw")
  case (Inl e)
  with w show ?thesis by (auto simp: write_confined_def confined_parent_def keeps_refl)
next
  case (Inr parts)
  then have ne: "parts \<noteq> []" by (auto simp: confined_parts_def Let_def split: if_splits)
  obtain ro f1 where o: "open_parents True [] (base @ butlast parts) fs = (ro, f1)"
    by (cases "open_parents True [] (base @ butlast parts) fs")
  from open_creates [OF _ o] d have k: "keeps {} fs f1"
    and h: "\<And>h. ro = Inr h \<Longrightarrow> h = base @ butlast parts \<and> is_dir (walk_to f1 h)" by auto
  show ?thesis
  proof (cases ro)
    case (Inl e)
    with w Inr o k show ?thesis by (auto simp: write_confined_def confined_parent_def converted_def split: sum.splits)
  next
    case (Inr here)
    with h have here: "here = base @ butlast parts" "is_dir (walk_to f1 here)" by auto
    then have path: "here @ [last parts] = base @ parts" using ne by simp
    obtain rw where rw: "write_file fresh_id content here (last parts) f1 = (rw, fs')" "r = converted rw"
      using w Inr o \<open>confined_parts raw = Inr parts\<close>
      by (cases "write_file fresh_id content here (last parts) f1") (simp add: write_confined_def confined_parent_def)
    from write_file_ok [OF here(2) rw(1)] k rw(2) path \<open>confined_parts raw = Inr parts\<close> show ?thesis
      by (cases rw) (auto simp: converted_def intro: keeps_trans keeps_mono)
  qed
qed

section \<open>Confined copies\<close>

fun clone :: "node \<Rightarrow> node" where
  "clone (Dir es) = Dir (map (\<lambda>(k, c). (k, clone c)) es)"
| "clone (File links sz content) = File 1 (length content) content"
| "clone n = n"

fun tree_entries :: "node \<Rightarrow> nat" where
  "tree_entries (Dir es) = Suc (sum_list (map (\<lambda>(k, c). tree_entries c) es))"
| "tree_entries _ = 1"

fun tree_bytes :: "node \<Rightarrow> nat" where
  "tree_bytes (Dir es) = sum_list (map (\<lambda>(k, c). tree_bytes c) es)"
| "tree_bytes (File _ _ content) = length content"
| "tree_bytes _ = 0"

text \<open>What may be copied: directories and unaliased regular files, none prohibited, within the depth.\<close>

fun copyable :: "copy_env \<Rightarrow> nat \<Rightarrow> string \<Rightarrow> nat \<Rightarrow> node \<Rightarrow> bool" where
  "copyable env md relative depth n =
     (depth \<le> md \<and> \<not> ce_prohibited env relative \<and>
      (case n of
         Dir es \<Rightarrow> list_all (\<lambda>(k, c). copyable env md (relative @ ''/'' @ k) (Suc depth) c) es
       | File links _ _ \<Rightarrow> links = 1
       | _ \<Rightarrow> False))"

declare copyable.simps [simp del]

definition copy_within :: "copy_budget \<Rightarrow> bool" where
  "copy_within b \<longleftrightarrow> cb_entries b \<le> cb_max_entries b \<and> cb_bytes b \<le> cb_max_bytes b"

definition spent_by :: "nat \<Rightarrow> nat \<Rightarrow> copy_budget \<Rightarrow> copy_budget \<Rightarrow> bool" where
  "spent_by entries bytes b b' \<longleftrightarrow>
     cb_entries b' = cb_entries b + entries \<and> cb_bytes b' = cb_bytes b + bytes
     \<and> cb_max_entries b' = cb_max_entries b \<and> cb_max_bytes b' = cb_max_bytes b
     \<and> cb_max_file_bytes b' = cb_max_file_bytes b \<and> cb_max_depth b' = cb_max_depth b"

lemma spent_trans: "spent_by e1 n1 a b \<Longrightarrow> spent_by e2 n2 b c \<Longrightarrow> spent_by (e1 + e2) (n1 + n2) a c"
  by (simp add: spent_by_def)

lemma check_budget_ok: "check_budget env b = (Inr u, b') \<Longrightarrow> copy_within b' \<and> spent_by 0 0 b b'"
  by (auto simp: check_budget_def copy_within_def spent_by_def split: if_splits)

lemma enter_object_ok:
  "enter_object env relative depth b = (Inr u, b') \<Longrightarrow>
   copy_within b' \<and> spent_by 1 0 b b' \<and> depth \<le> cb_max_depth b' \<and> \<not> ce_prohibited env relative"
  unfolding enter_object_def
  by (erule andthen_ok) (auto dest!: check_budget_ok simp: spent_by_def split: if_splits)

lemma copy_chunks_ok:
  "copy_chunks env written rest b = (Inr u, b') \<Longrightarrow> copy_within b' \<and> spent_by 0 (length rest) b b'"
proof (induction env written rest b rule: copy_chunks.induct)
  case (1 env written rest b)
  from "1.prems" obtain u1 b1 where c1: "check_budget env b = (Inr u1, b1)"
    by (subst (asm) copy_chunks.simps) (auto split: prod.splits sum.splits)
  show ?case
  proof (cases "rest = []")
    case True
    with "1.prems" c1 check_budget_ok [OF c1] show ?thesis by (subst (asm) copy_chunks.simps) simp
  next
    case False
    let ?part = "take 65536 rest"
    let ?b = "b1\<lparr>cb_bytes := cb_bytes b1 + length ?part\<rparr>"
    from "1.prems" False c1 obtain u2 b2 where c2: "check_budget env ?b = (Inr u2, b2)"
      and rec: "copy_chunks env (written + length ?part) (drop 65536 rest) b2 = (Inr u, b')"
      and fits: "\<not> cb_max_file_bytes b2 < written + length ?part"
      by (subst (asm) copy_chunks.simps) (auto simp: Let_def split: prod.splits sum.splits if_splits)
    from "1.IH" [OF c1 [symmetric] refl False refl c2 [symmetric] refl fits rec]
    have "copy_within b' \<and> spent_by 0 (length (drop 65536 rest)) b2 b'" .
    with check_budget_ok [OF c1] check_budget_ok [OF c2] show ?thesis
      by (simp add: spent_by_def)
  qed
qed

lemma copy_regular_ok:
  "copy_regular env relative sz content b = (Inr c, b') \<Longrightarrow>
   c = File 1 (length content) content \<and> copy_within b' \<and> spent_by 0 (length content) b b'"
  unfolding copy_regular_def
  by (auto elim!: andthen_ok dest!: copy_chunks_ok split: if_splits)

lemma copy_ok:
  "copy_object env relative depth n b = (Inr c, b') \<Longrightarrow>
     c = clone n \<and> copyable env (cb_max_depth b) relative depth n \<and> copy_within b'
     \<and> spent_by (tree_entries n) (tree_bytes n) b b'"
  "copy_children env relative depth es b = (Inr cs, b') \<Longrightarrow> copy_within b \<Longrightarrow>
     cs = map (\<lambda>(k, c). (k, clone c)) es
     \<and> list_all (\<lambda>(k, c). copyable env (cb_max_depth b) (relative @ ''/'' @ k) (Suc depth) c) es \<and> copy_within b'
     \<and> spent_by (sum_list (map (\<lambda>(k, c). tree_entries c) es)) (sum_list (map (\<lambda>(k, c). tree_bytes c) es)) b b'"
proof (induction env relative depth n b and env relative depth es b arbitrary: c b' and cs b'
    rule: copy_object_copy_children.induct)
  case (1 env relative depth n b)
  from "1.prems" obtain u b1 where e: "enter_object env relative depth b = (Inr u, b1)"
    and r: "(case n of Symlink x \<Rightarrow> (Inl (OSError relative), b1)
        | Dir es \<Rightarrow> andthen (copy_children env relative depth es b1) (\<lambda>cs b. (Inr (Dir cs), b))
        | File links sz content \<Rightarrow> if links = 1 then copy_regular env relative sz content b1
            else (Inl (ValueError ''input must be a regular non-aliased file or directory''), b1)
        | Special \<Rightarrow> (Inl (ValueError ''input must be a regular non-aliased file or directory''), b1)) = (Inr c, b')"
    by (subst (asm) copy_object.simps) (erule andthen_ok)
  note in_b1 = enter_object_ok [OF e]
  show ?case
  proof (cases n)
    case (Dir es)
    with r obtain cs where k: "copy_children env relative depth es b1 = (Inr cs, b')" and c: "c = Dir cs"
      by (auto elim!: andthen_ok)
    from "1.IH" [OF Dir k] in_b1 have
      "cs = map (\<lambda>(k, c). (k, clone c)) es"
      "list_all (\<lambda>(k, c). copyable env (cb_max_depth b1) (relative @ ''/'' @ k) (Suc depth) c) es"
      "copy_within b'"
      "spent_by (sum_list (map (\<lambda>(k, c). tree_entries c) es)) (sum_list (map (\<lambda>(k, c). tree_bytes c) es)) b1 b'"
      by blast+
    with in_b1 Dir c show ?thesis by (simp add: spent_by_def copyable.simps [of env _ relative depth "Dir es"])
  next
    case (File links sz content)
    with r have l: "links = 1" and k: "copy_regular env relative sz content b1 = (Inr c, b')"
      by (auto split: if_splits)
    from copy_regular_ok [OF k] in_b1 File l show ?thesis by (simp add: spent_by_def copyable.simps)
  qed (use r in simp_all)
next
  case (2 env relative depth b)
  then show ?case by (simp add: spent_by_def)
next
  case (3 env relative depth name c0 es b)
  from "3.prems"(1) obtain c1 b1 cs1 where o: "copy_object env (relative @ ''/'' @ name) (Suc depth) c0 b = (Inr c1, b1)"
    and k: "copy_children env relative depth es b1 = (Inr cs1, b')" and cs: "cs = (name, c1) # cs1"
    by (auto elim!: andthen_ok)
  from "3.IH"(1) [OF o] have first: "c1 = clone c0" "copyable env (cb_max_depth b) (relative @ ''/'' @ name) (Suc depth) c0"
    "copy_within b1" "spent_by (tree_entries c0) (tree_bytes c0) b b1" by blast+
  from "3.IH"(2) [OF k first(3)] first cs show ?case by (simp add: spent_by_def)
qed

text \<open>
  A copy is the tree below its path, made of directories and unaliased files none of which is
  prohibited or too deep, and its entries and bytes were within the budget.
\<close>

lemma copy_confined_ok:
  assumes d: "is_dir (Some fs)" and c: "copy_confined env base raw b fs = (Inr c, b')"
  obtains parts n where "confined_parts raw = Inr parts" and "walk_to fs (base @ parts) = Some n"
    and "c = clone n" and "copyable env (cb_max_depth b) (join_names parts) (length parts) n"
    and "copy_within b'" and "spent_by (tree_entries n) (tree_bytes n) b b'"
proof (cases "confined_parts raw")
  case (Inl e)
  with c show ?thesis by (simp add: copy_confined_def)
next
  case parts: (Inr parts)
  obtain r fs' where o: "open_parents False [] (base @ butlast parts) fs = (r, fs')"
    by (cases "open_parents False [] (base @ butlast parts) fs")
  show ?thesis
  proof (cases r)
    case (Inl e)
    with c parts o show ?thesis by (auto simp: copy_confined_def converted_def)
  next
    case (Inr here)
    with open_existing [OF o] d have "here = base @ butlast parts" by simp
    with Inr c parts o confined_path [OF parts, of base] obtain n where n: "walk_to fs (base @ parts) = Some n"
      and k: "copy_object env (join_names parts) (length parts) n b = (Inr c, b')"
      by (cases "walk_to fs (base @ parts)")
         (auto simp: copy_confined_def apfst_def map_prod_def elim!: andthen_ok split: prod.splits)
    from copy_ok(1) [OF k] that [OF parts n] show ?thesis by blast
  qed
qed

end
