(* ===== verification/ReleaseGate.thy ===== *)
theory ReleaseGate
  imports Redaction JsonText JsonLimits FilesystemFacts Supervision
begin

text \<open>
  The release gate of \<open>release_gate.py\<close>: what content may leave through a sink, and the
  provider wrapper that asks it. Content is ASCII text, so decoding cannot fail.
\<close>

section \<open>Texts of JSON values\<close>

text \<open>\<open>json.dumps\<close> with its default separators; \<open>raw_escape\<close> is \<open>ensure_ascii=False\<close>.\<close>

definition raw_escape :: "char \<Rightarrow> string" where
  "raw_escape c = (if c = CHR 0x7F then [c] else json_escape c)"

definition quote_with :: "(char \<Rightarrow> string) \<Rightarrow> string \<Rightarrow> string" where
  "quote_with esc s = [CHR 0x22] @ concat (map esc s) @ [CHR 0x22]"

fun dumps_text :: "(char \<Rightarrow> string) \<Rightarrow> json \<Rightarrow> string"
  and dumps_text_list :: "(char \<Rightarrow> string) \<Rightarrow> json list \<Rightarrow> string list"
  and dumps_text_kvs :: "(char \<Rightarrow> string) \<Rightarrow> (string \<times> json) list \<Rightarrow> string list" where
  "dumps_text esc JNull = ''null''"
| "dumps_text esc (JBool b) = (if b then ''true'' else ''false'')"
| "dumps_text esc (JInt n) = int_str n"
| "dumps_text esc (JFloat d) =
     (case d of DNan \<Rightarrow> ''NaN'' | DInf neg \<Rightarrow> (if neg then ''-Infinity'' else ''Infinity'') | _ \<Rightarrow> float_str d)"
| "dumps_text esc (JStr s) = quote_with esc s"
| "dumps_text esc (JList xs) = ''['' @ join '', '' (dumps_text_list esc xs) @ '']''"
| "dumps_text esc (JObj kvs) = ''{'' @ join '', '' (dumps_text_kvs esc kvs) @ ''}''"
| "dumps_text_list esc [] = []"
| "dumps_text_list esc (x # xs) = dumps_text esc x # dumps_text_list esc xs"
| "dumps_text_kvs esc [] = []"
| "dumps_text_kvs esc ((k, v) # kvs) =
     (quote_with esc k @ '': '' @ dumps_text esc v) # dumps_text_kvs esc kvs"

section \<open>The gate\<close>

record release_gate =
  rg_sinks :: "string list"
  rg_labels :: "string list"
  rg_prohibited :: "string list"
  rg_max_bytes :: nat
  rg_suffixes :: "string list"

definition default_gate :: "string list \<Rightarrow> release_gate" where
  "default_gate sinks = \<lparr>rg_sinks = sinks, rg_labels = [''public''], rg_prohibited = [], rg_max_bytes = 1048576,
     rg_suffixes = [''.txt'', ''.json'']\<rparr>"

definition new_gate :: "release_gate \<Rightarrow> release_gate result" where
  "new_gate g =
     (if 0 < rg_max_bytes g \<and> rg_max_bytes g \<le> 16777216 then Inr g
      else Inl (ValueError ''release byte budget must be within sixteen MiB''))"

definition mentions :: "string list \<Rightarrow> string \<Rightarrow> bool" where
  "mentions prohibited text \<longleftrightarrow> (\<exists>v\<in>set prohibited. v \<noteq> [] \<and> contains v text)"

definition protected_error :: exn where
  "protected_error = PermissionError ''release contains explicitly protected content''"

definition authorize :: "release_gate \<Rightarrow> string \<Rightarrow> string \<Rightarrow> string \<Rightarrow> string result" where
  "authorize g sink content label =
     (if sink \<notin> set (rg_sinks g) \<or> label \<notin> set (rg_labels g)
      then Inl (PermissionError ''data classification is not approved for this release sink'')
      else if rg_max_bytes g < length content then Inl (PermissionError ''release exceeds byte budget'')
      else if mentions (rg_prohibited g) content then Inl protected_error
      else
        let structured = loads_or_text content in
        if validate_json structured (rg_max_bytes g) 16384 32 \<noteq> Inr ()
        then Inl (PermissionError ''release structure exceeds budget'')
        else if mentions (rg_prohibited g) (dumps_text raw_escape structured) then Inl protected_error
        else if \<not> py_eq (redact_value default_redaction structured) structured
        then Inl (PermissionError ''release contains recognized credentials'')
        else Inr content)"

text \<open>What content that passes the gate satisfies.\<close>

definition releasable :: "release_gate \<Rightarrow> string \<Rightarrow> string \<Rightarrow> string \<Rightarrow> bool" where
  "releasable g sink label content \<longleftrightarrow>
     sink \<in> set (rg_sinks g) \<and> label \<in> set (rg_labels g) \<and> length content \<le> rg_max_bytes g
     \<and> (\<forall>v\<in>set (rg_prohibited g). v = [] \<or>
          \<not> contains v content \<and> \<not> contains v (dumps_text raw_escape (loads_or_text content)))
     \<and> json_nodes (loads_or_text content) \<le> 16384 \<and> json_depth (loads_or_text content) \<le> 32
     \<and> (\<exists>t. dumps (loads_or_text content) = Some t \<and> length t \<le> rg_max_bytes g)
     \<and> py_eq (redact_value default_redaction (loads_or_text content)) (loads_or_text content)"

lemma validate_json_iff:
  "validate_json v max_bytes max_nodes max_depth = Inr () \<longleftrightarrow>
     json_nodes v \<le> max_nodes \<and> json_depth v \<le> max_depth
     \<and> (\<exists>t. dumps v = Some t \<and> length t \<le> max_bytes)"
  using walk_accepts [of max_nodes max_depth "[(v, 0)]" 0]
  by (auto simp: validate_json_def item_fits_def not_less split: sum.splits option.splits)

lemma authorize_iff: "authorize g sink content label = Inr c \<longleftrightarrow> releasable g sink label content \<and> c = content"
  by (auto simp: authorize_def releasable_def mentions_def Let_def validate_json_iff not_less)

section \<open>The guarded provider\<close>

text \<open>The provider is asked only with a request whose text the gate authorises for it.\<close>

definition guarded_evaluate ::
  "release_gate \<Rightarrow> string \<Rightarrow> ('q \<Rightarrow> string) \<Rightarrow> ('q \<Rightarrow> 'r result) \<Rightarrow> 'q \<Rightarrow> 'r result" where
  "guarded_evaluate g label dump evaluate q =
     (case authorize g ''model_provider'' (dump q) label of Inl e \<Rightarrow> Inl e | Inr _ \<Rightarrow> evaluate q)"

end
