(* ===== verification/ArtifactStore.thy ===== *)
theory ArtifactStore
  imports ReleaseGate JsonRead
begin

text \<open>
  \<open>ArtifactStore\<close> of \<open>release_gate.py\<close> over the tree of Filesystem: quarantine, rejection and
  publication. The hex digest of SHA-256, the \<open>uuid4\<close> values and every failure of the
  operating system that does not follow from the tree are fields of the environment. File
  modes are left out. A copy is installed at its destination when it is complete; a failed
  ingestion removes its directory, so a partial one is never seen.
\<close>

section \<open>The environment\<close>

datatype rename_report = Renamed | RenameFailed | RenameLost

text \<open>
  \<open>RenameLost\<close> is a rename that happened and reported an error. The identities number 0 and 1
  are those of a pending publication and of its commit record, 2 of the private mirror; files
  take the next ones.
\<close>

record store_env =
  st_sha :: "string \<Rightarrow> string"
  st_copy :: copy_env
  st_ids :: "nat \<Rightarrow> string"
  st_pending_synced :: bool
  st_same_device :: bool
  st_rename :: rename_report
  st_public_synced :: bool
  st_mirror_written :: bool

section \<open>Identities and locations\<close>

definition commit_name :: string where
  "commit_name = ''.traceguard-commit.json''"

definition id_char :: "char \<Rightarrow> bool" where
  "id_char c \<longleftrightarrow> is_alpha c \<or> is_digit c \<or> c = CHR ''-''"

definition checked_id :: "string \<Rightarrow> string result" where
  "checked_id s =
     (if s \<noteq> [] \<and> length s \<le> 80 \<and> list_all id_char s then Inr s else Inl (ValueError ''invalid artifact identity''))"

definition private_dir :: "string list \<Rightarrow> string list" where
  "private_dir base = base @ [''quarantine'']"

definition released_dir :: "string list \<Rightarrow> string list" where
  "released_dir base = base @ [''released'']"

definition hex_lower :: "char \<Rightarrow> bool" where
  "hex_lower c \<longleftrightarrow> is_digit c \<or> CHR ''a'' \<le> c \<and> c \<le> CHR ''f''"

definition hex64 :: "string \<Rightarrow> bool" where
  "hex64 s \<longleftrightarrow> length s = 64 \<and> list_all hex_lower s"

text \<open>\<open>mkdir\<close> of one directory, and \<open>mkdir(parents=True, exist_ok=True)\<close> with it.\<close>

definition make_dir :: "string list \<Rightarrow> string \<Rightarrow> node \<Rightarrow> unit result \<times> node" where
  "make_dir here name fs =
     (if \<not> is_dir (walk_to fs here) \<or> walk_to fs (here @ [name]) \<noteq> None then (Inl (OSError name), fs)
      else (Inr (), put fs (here @ [name]) (Dir [])))"

definition make_dirs :: "string list \<Rightarrow> node \<Rightarrow> unit result \<times> node" where
  "make_dirs path fs = andthen (open_parents True [] path fs) (\<lambda>_ fs. (Inr (), fs))"

definition open_artifacts :: "string list \<Rightarrow> node \<Rightarrow> unit result \<times> node" where
  "open_artifacts base fs =
     andthen (make_dirs (private_dir base) fs) (\<lambda>_ fs. make_dirs (released_dir base) fs)"

text \<open>The lock file is created when missing; its exclusion is that operations are steps.\<close>

definition locked :: "string list \<Rightarrow> (node \<Rightarrow> 'a result \<times> node) \<Rightarrow> node \<Rightarrow> 'a result \<times> node" where
  "locked base operation fs =
     (let lock = private_dir base @ [''.lock''] in
      case walk_to fs lock of
        Some (Dir _) \<Rightarrow> (Inl (OSError ''.lock''), fs)
      | Some (Symlink _) \<Rightarrow> (Inl (OSError ''.lock''), fs)
      | Some _ \<Rightarrow> operation fs
      | None \<Rightarrow> if is_dir (walk_to fs (private_dir base)) then operation (put fs lock (File 1 0 []))
                else (Inl (OSError ''.lock''), fs))"

section \<open>Ingestion\<close>

text \<open>The copied object at its destination, whose parents are made.\<close>

definition install_copy :: "string list \<Rightarrow> string \<Rightarrow> node \<Rightarrow> node \<Rightarrow> unit result \<times> node" where
  "install_copy content_base path copied fs =
     (let dst = content_base @ path_parts path in
      apfst converted
        (andthen (open_parents True [] (butlast dst) fs)
          (\<lambda>here fs. if walk_to fs dst \<noteq> None then (Inl (OSError path), fs)
                     else (Inr (), put fs dst copied))))"

fun ingest_files ::
  "store_env \<Rightarrow> string list \<Rightarrow> string list \<Rightarrow> string list \<Rightarrow> string pydict \<Rightarrow> copy_budget \<Rightarrow> node
   \<Rightarrow> string pydict result \<times> node" where
  "ingest_files env source content_base [] records b fs = (Inr records, fs)"
| "ingest_files env source content_base (path # paths) records b fs =
     (if path_parts path = [] \<or> hd (path_parts path) = commit_name
      then (Inl (ValueError ''artifact uses reserved publication metadata path''), fs)
      else case copy_confined (st_copy env) source path b fs of
        (Inl e, _) \<Rightarrow> (Inl e, fs)
      | (Inr copied, b') \<Rightarrow>
          andthen (install_copy content_base path copied fs)
            (\<lambda>_ fs. case read_confined content_base path (cb_max_file_bytes b') fs of
               Inl e \<Rightarrow> (Inl e, fs)
             | Inr content \<Rightarrow>
                 ingest_files env source content_base paths
                   (AList.update path (st_sha env content) records) b' fs))"

definition new_manifest :: "string \<Rightarrow> string pydict \<Rightarrow> string option \<Rightarrow> json pydict" where
  "new_manifest identity records action =
     [(''id'', JStr identity), (''status'', JStr ''quarantined''),
      (''files'', JObj (map (\<lambda>(p, d). (p, JStr d)) records))]
     @ (case action of None \<Rightarrow> [] | Some d \<Rightarrow> [(''action_digest'', JStr d)])"

definition fill_artifact ::
  "store_env \<Rightarrow> string \<Rightarrow> string list \<Rightarrow> string list \<Rightarrow> string list \<Rightarrow> string option \<Rightarrow> node \<Rightarrow> unit result \<times> node" where
  "fill_artifact env identity directory source paths action fs =
     andthen (ingest_files env source (directory @ [''files'']) paths [] default_budget fs)
       (\<lambda>records fs.
          if (case action of None \<Rightarrow> False | Some d \<Rightarrow> \<not> hex64 d)
          then (Inl (ValueError ''invalid action binding''), fs)
          else write_confined (st_ids env 0) directory ''manifest.json''
                 (dumps_sorted (JObj (new_manifest identity records action))) fs)"

definition ingest ::
  "store_env \<Rightarrow> string list \<Rightarrow> string \<Rightarrow> string list \<Rightarrow> string list \<Rightarrow> string option \<Rightarrow> node
   \<Rightarrow> string result \<times> node" where
  "ingest env base identity source paths action fs =
     (case checked_id identity of
        Inl e \<Rightarrow> (Inl e, fs)
      | Inr _ \<Rightarrow>
          let directory = private_dir base @ [identity] in
          andthen (make_dir (private_dir base) identity fs)
            (\<lambda>_ fs. andthen (make_dir directory ''files'' fs)
              (\<lambda>_ fs. case fill_artifact env identity directory source paths action fs of
                 (Inl e, fs) \<Rightarrow> (Inl e, remove_at fs directory)
               | (Inr _, fs) \<Rightarrow> (Inr identity, fs))))"

section \<open>Published bundles\<close>

text \<open>The objects below a directory with their relative paths.\<close>

fun listing :: "string list \<Rightarrow> node \<Rightarrow> (string list \<times> node) list" where
  "listing here (Dir es) = concat (map (\<lambda>(k, c). (here @ [k], c) # listing (here @ [k]) c) es)"
| "listing here _ = []"

fun plain_node :: "node \<Rightarrow> bool" where
  "plain_node (Dir _) = True"
| "plain_node (File _ _ _) = True"
| "plain_node _ = False"

fun is_file :: "node \<Rightarrow> bool" where
  "is_file (File _ _ _) = True"
| "is_file _ = False"

definition bundle_files :: "(string list \<times> node) list \<Rightarrow> string list" where
  "bundle_files objects = map (join_names \<circ> fst) (filter (is_file \<circ> snd) objects)"

text \<open>The files of a bundle, read in turn: the digests agree and the total is bounded.\<close>

fun files_verify ::
  "(string \<Rightarrow> string) \<Rightarrow> string list \<Rightarrow> json pydict \<Rightarrow> nat \<Rightarrow> node \<Rightarrow> bool" where
  "files_verify sha directory [] used fs = True"
| "files_verify sha directory ((path, expected) # rest) used fs =
     (case read_confined directory path 16777216 fs of
        Inl _ \<Rightarrow> False
      | Inr content \<Rightarrow>
          used + length content \<le> 16777216 \<and> JStr (sha content) = expected
          \<and> files_verify sha directory rest (used + length content) fs)"

definition commit_fields :: "string \<Rightarrow> json pydict \<Rightarrow> bool" where
  "commit_fields identity m \<longleftrightarrow>
     py_eq (jget m ''schema'') (JInt 1) \<and> jget m ''id'' = JStr identity \<and> jget m ''status'' = JStr ''released''
     \<and> jget m ''sink'' = JStr ''artifact''
     \<and> (\<exists>d\<in>set (case dict_get m ''policy_digest'' (JStr []) of JStr d \<Rightarrow> [d] | _ \<Rightarrow> []). hex64 d)
     \<and> (case jget m ''files'' of JObj files \<Rightarrow> length files \<le> 1024 | _ \<Rightarrow> False)"

definition unknown_publication :: exn where
  "unknown_publication = PublicationUnknown ''publication is missing, corrupt or requires migration''"

definition committed_manifest :: "(string \<Rightarrow> string) \<Rightarrow> string list \<Rightarrow> string \<Rightarrow> node \<Rightarrow> json pydict option" where
  "committed_manifest sha base identity fs =
     (let directory = released_dir base @ [identity] in
      case read_confined directory commit_name 1048576 fs of
        Inl _ \<Rightarrow> None
      | Inr text \<Rightarrow>
          (case json_loads text of
             Some (JObj m) \<Rightarrow>
               let objects = (case walk_to fs directory of None \<Rightarrow> [] | Some n \<Rightarrow> listing [] n) in
               if validate_json (JObj m) 1048576 16384 32 = Inr () \<and> commit_fields identity m
                  \<and> length objects \<le> 2048 \<and> list_all (plain_node \<circ> snd) objects
                  \<and> set (bundle_files objects) = set (dict_keys (json_sub (jget m ''files''))) \<union> {commit_name}
                  \<and> files_verify sha directory (json_sub (jget m ''files'')) 0 fs
               then Some m else None
           | _ \<Rightarrow> None))"

definition committed ::
  "(string \<Rightarrow> string) \<Rightarrow> bool \<Rightarrow> string list \<Rightarrow> string \<Rightarrow> node \<Rightarrow> json pydict result" where
  "committed sha durable base identity fs =
     (case checked_id identity of
        Inl e \<Rightarrow> Inl e
      | Inr _ \<Rightarrow>
          (case committed_manifest sha base identity fs of
             None \<Rightarrow> Inl unknown_publication
           | Some m \<Rightarrow> if durable then Inr m else Inl unknown_publication))"

definition published :: "string list \<Rightarrow> string \<Rightarrow> node \<Rightarrow> bool" where
  "published base identity fs \<longleftrightarrow> walk_to fs (released_dir base @ [identity]) \<noteq> None"

definition manifest_of :: "(string \<Rightarrow> string) \<Rightarrow> string list \<Rightarrow> string \<Rightarrow> node \<Rightarrow> json pydict result" where
  "manifest_of sha base identity fs =
     (case checked_id identity of
        Inl e \<Rightarrow> Inl e
      | Inr _ \<Rightarrow>
          if published base identity fs then committed sha True base identity fs
          else (case read_confined (private_dir base @ [identity]) ''manifest.json'' 1048576 fs of
             Inl e \<Rightarrow> Inl e
           | Inr text \<Rightarrow>
               (case json_loads text of
                  None \<Rightarrow> Inl (ValueError ''malformed JSON'')
                | Some (JObj m) \<Rightarrow>
                    if jget m ''status'' = JStr ''released''
                    then Inl (PublicationUnknown ''private mirror claims publication but committed bundle is absent'')
                    else Inr m
                | Some _ \<Rightarrow> Inl (AttributeError ''get''))))"

section \<open>Rejection\<close>

definition reject_unlocked :: "store_env \<Rightarrow> string list \<Rightarrow> string \<Rightarrow> node \<Rightarrow> unit result \<times> node" where
  "reject_unlocked env base identity fs =
     (case checked_id identity of
        Inl e \<Rightarrow> (Inl e, fs)
      | Inr _ \<Rightarrow>
          if published base identity fs
          then ((case committed (st_sha env) True base identity fs of
                   Inl e \<Rightarrow> Inl e
                 | Inr _ \<Rightarrow> Inl (AlreadyPublished ''artifact already published; rejection cannot withdraw it'')), fs)
          else (case manifest_of (st_sha env) base identity fs of
             Inl e \<Rightarrow> (Inl e, fs)
           | Inr m \<Rightarrow>
               (case map_of m ''status'' of
                  None \<Rightarrow> (Inl (KeyError ''status''), fs)
                | Some status \<Rightarrow>
                    if status \<noteq> JStr ''quarantined'' then (Inl (ValueError ''artifact is not quarantined''), fs)
                    else write_confined (st_ids env 2) (private_dir base @ [identity]) ''manifest.json''
                           (dumps_text json_escape (JObj (AList.update ''status'' (JStr ''rejected'') m))) fs)))"

definition reject :: "store_env \<Rightarrow> string list \<Rightarrow> string \<Rightarrow> node \<Rightarrow> unit result \<times> node" where
  "reject env base identity = locked base (reject_unlocked env base identity)"

section \<open>Publication\<close>

definition path_suffix :: "string \<Rightarrow> string" where
  "path_suffix path =
     (let parts = path_parts path; name = (if parts = [] \<or> parts = path_root path then [] else last parts);
          tail = takeWhile (\<lambda>c. c \<noteq> CHR ''.'') (rev name); front = length name - length tail
      in if 1 < front \<and> tail \<noteq> [] then CHR ''.'' # rev tail else [])"

fun publish_files ::
  "store_env \<Rightarrow> release_gate \<Rightarrow> string \<Rightarrow> string list \<Rightarrow> string list \<Rightarrow> json pydict \<Rightarrow> nat \<Rightarrow> nat \<Rightarrow> node
   \<Rightarrow> unit result \<times> node" where
  "publish_files env gate label origin pending [] used i fs = (Inr (), fs)"
| "publish_files env gate label origin pending ((path, expected) # files) used i fs =
     (if casefold (path_suffix path) \<notin> set (rg_suffixes gate)
      then (Inl (PermissionError ''artifact format is not approved for this sink''), fs)
      else case read_confined origin path (rg_max_bytes gate) fs of
        Inl e \<Rightarrow> (Inl e, fs)
      | Inr content \<Rightarrow>
          if rg_max_bytes gate < used + length content \<or> JStr (st_sha env content) \<noteq> expected
          then (Inl (PermissionError ''artifact changed or exceeds release budget''), fs)
          else case authorize gate ''artifact'' content label of
            Inl e \<Rightarrow> (Inl e, fs)
          | Inr _ \<Rightarrow>
              andthen (write_confined (st_ids env i) pending path content fs)
                (\<lambda>_ fs. publish_files env gate label origin pending files (used + length content) (Suc i) fs))"

definition gate_json :: "release_gate \<Rightarrow> json" where
  "gate_json g =
     JObj [(''allowed_sinks'', JList (map JStr (sort_key (\<lambda>s. s) (remdups (rg_sinks g))))),
           (''allowed_labels'', JList (map JStr (sort_key (\<lambda>s. s) (remdups (rg_labels g))))),
           (''prohibited_literals'', JList (map JStr (rg_prohibited g))),
           (''max_bytes'', JInt (int (rg_max_bytes g))),
           (''artifact_suffixes'', JList (map JStr (sort_key (\<lambda>s. s) (remdups (rg_suffixes g)))))]"

text \<open>\<open>canonical(v)\<close> as text, and its digest.\<close>

definition canonical_text :: "json \<Rightarrow> string result" where
  "canonical_text v =
     (case canon v of
        None \<Rightarrow> Inl (ValueError ''out of range float'')
      | Some c \<Rightarrow> (case dumps c of None \<Rightarrow> Inl (ValueError ''out of range float'') | Some t \<Rightarrow> Inr t))"

definition commit_record :: "json pydict \<Rightarrow> string \<Rightarrow> string \<Rightarrow> json pydict" where
  "commit_record m label digest =
     AList.update ''policy_digest'' (JStr digest) (AList.update ''label'' (JStr label)
       (AList.update ''sink'' (JStr ''artifact'') (AList.update ''status'' (JStr ''released'')
         (AList.update ''schema'' (JInt 1) m))))"

text \<open>The bundle in the pending directory: its files, then the commit record, whose text is returned.\<close>

definition assemble ::
  "store_env \<Rightarrow> string list \<Rightarrow> release_gate \<Rightarrow> string \<Rightarrow> string \<Rightarrow> json pydict \<Rightarrow> string list \<Rightarrow> node
   \<Rightarrow> string result \<times> node" where
  "assemble env base gate label identity m pending fs =
     (case map_of m ''files'' of
        None \<Rightarrow> (Inl (KeyError ''files''), fs)
      | Some (JObj files) \<Rightarrow>
          andthen (publish_files env gate label (private_dir base @ [identity, ''files'']) pending files 0 3 fs)
            (\<lambda>_ fs. case canonical_text (gate_json gate) of
               Inl e \<Rightarrow> (Inl e, fs)
             | Inr policy \<Rightarrow>
                 let record = JObj (commit_record m label (st_sha env policy)) in
                 (case validate_json record 1048576 16384 32 of
                    Inl e \<Rightarrow> (Inl e, fs)
                  | Inr _ \<Rightarrow>
                      (case canonical_text record of
                         Inl e \<Rightarrow> (Inl e, fs)
                       | Inr text \<Rightarrow>
                           andthen (write_confined (st_ids env 1) pending commit_name text fs)
                             (\<lambda>_ fs. (Inr text, fs)))))
      | Some _ \<Rightarrow> (Inl (AttributeError ''items''), fs))"

text \<open>The private mirror: only an \<open>OSError\<close> is passed over.\<close>

definition mirror :: "store_env \<Rightarrow> string list \<Rightarrow> string \<Rightarrow> string \<Rightarrow> node \<Rightarrow> unit result \<times> node" where
  "mirror env base identity text fs =
     (case (if st_mirror_written env
            then write_confined (st_ids env 2) (private_dir base @ [identity]) ''manifest.json'' text fs
            else (converted (Inl (OSError ''manifest.json'')), fs)) of
        (Inl e, fs) \<Rightarrow> (if is_os_error e then Inr () else Inl e, fs)
      | (Inr u, fs) \<Rightarrow> (Inr u, fs))"

definition reveal ::
  "store_env \<Rightarrow> string list \<Rightarrow> string \<Rightarrow> string list \<Rightarrow> string \<Rightarrow> node \<Rightarrow> string list result \<times> node" where
  "reveal env base identity pending text fs =
     (let destination = released_dir base @ [identity] in
      if st_rename env = Renamed
      then let fs = rename_to pending destination fs in
        if \<not> st_public_synced env
        then (Inl (PublicationUnknown ''bundle visible; directory durability requires recovery''), fs)
        else andthen (mirror env base identity text fs) (\<lambda>_ fs. (Inr destination, fs))
      else let fs = (if st_rename env = RenameLost then rename_to pending destination fs else fs) in
        (if published base identity fs \<or> walk_to fs pending = None
         then Inl (PublicationUnknown ''publication rename outcome requires recovery'')
         else Inl (OSError ''rename''), fs))"

definition publish ::
  "store_env \<Rightarrow> string list \<Rightarrow> release_gate \<Rightarrow> string \<Rightarrow> string \<Rightarrow> json pydict \<Rightarrow> string list \<Rightarrow> node
   \<Rightarrow> string list result \<times> node" where
  "publish env base gate label identity m pending fs =
     andthen (assemble env base gate label identity m pending fs)
       (\<lambda>text fs.
          if \<not> st_pending_synced env then (Inl (OSError ''fsync''), fs)
          else if \<not> is_dir (walk_to fs (released_dir base)) then (Inl (OSError ''released''), fs)
          else if \<not> st_same_device env
          then (Inl (ValueError ''atomic publication requires one supported local filesystem''), fs)
          else if published base identity fs then (Inl (ValueError ''artifact release already exists''), fs)
          else reveal env base identity pending text fs)"

definition release_unlocked ::
  "store_env \<Rightarrow> string list \<Rightarrow> release_gate \<Rightarrow> string \<Rightarrow> string \<Rightarrow> node \<Rightarrow> string list result \<times> node" where
  "release_unlocked env base gate label identity fs =
     (case checked_id identity of
        Inl e \<Rightarrow> (Inl e, fs)
      | Inr _ \<Rightarrow>
          if published base identity fs
          then ((case committed (st_sha env) (st_public_synced env) base identity fs of
                   Inl e \<Rightarrow> Inl e
                 | Inr _ \<Rightarrow> Inr (released_dir base @ [identity])), fs)
          else (case manifest_of (st_sha env) base identity fs of
             Inl e \<Rightarrow> (Inl e, fs)
           | Inr m \<Rightarrow>
               (case map_of m ''status'' of
                  None \<Rightarrow> (Inl (KeyError ''status''), fs)
                | Some status \<Rightarrow>
                    if status \<noteq> JStr ''quarantined''
                    then (Inl (PermissionError ''artifact is not eligible for release''), fs)
                    else
                      let name = ''.publication-'' @ st_ids env 0; pending = private_dir base @ [name] in
                      andthen (make_dir (private_dir base) name fs)
                        (\<lambda>_ fs. apsnd (\<lambda>fs. remove_at fs pending)
                                  (publish env base gate label identity m pending fs)))))"

definition release ::
  "store_env \<Rightarrow> string list \<Rightarrow> release_gate \<Rightarrow> string \<Rightarrow> string \<Rightarrow> node \<Rightarrow> string list result \<times> node" where
  "release env base gate label identity = locked base (release_unlocked env base gate label identity)"

section \<open>Migration\<close>

text \<open>What is published but not committed moves back to the private side.\<close>

fun move_legacy ::
  "store_env \<Rightarrow> string list \<Rightarrow> string list \<Rightarrow> nat \<Rightarrow> node \<Rightarrow> string list result \<times> node" where
  "move_legacy env base [] i fs = (Inr [], fs)"
| "move_legacy env base (name # names) i fs =
     (case committed (st_sha env) True base name fs of
        Inr _ \<Rightarrow> move_legacy env base names i fs
      | Inl e \<Rightarrow>
          let target = private_dir base @ [''legacy-publication-'' @ st_ids env i] in
          if walk_to fs target \<noteq> None then (Inl (OSError ''rename''), fs)
          else andthen (move_legacy env base names (Suc i) (rename_to (released_dir base @ [name]) target fs))
                 (\<lambda>moved fs. (Inr (name # moved), fs)))"

definition quarantine_legacy_publications ::
  "store_env \<Rightarrow> string list \<Rightarrow> bool \<Rightarrow> node \<Rightarrow> string list result \<times> node" where
  "quarantine_legacy_publications env base fenced =
     locked base (\<lambda>fs.
       if \<not> fenced then (Inl (ValueError ''fence publishers and consumers before legacy migration''), fs)
       else case walk_to fs (released_dir base) of
         Some (Dir es) \<Rightarrow>
           andthen (move_legacy env base (map fst es) 0 fs)
             (\<lambda>moved fs. if st_public_synced env then (Inr moved, fs) else (Inl (OSError ''fsync''), fs))
       | _ \<Rightarrow> (Inl (OSError ''released''), fs))"

end
