(* ===== verification/ArtifactFacts.thy ===== *)
theory ArtifactFacts
  imports ArtifactStore PolicyFacts
begin

text \<open>
  What the artifact store guarantees: where each operation writes, what a publication may
  contain, and that what is published stays as it is.
\<close>

section \<open>Changes below a path\<close>

definition below :: "string list \<Rightarrow> string list set" where
  "below d = {q. prefix d q}"

lemma below_iff [simp]: "q \<in> below d \<longleftrightarrow> prefix d q"
  by (simp add: below_def)

definition inside :: "string list \<Rightarrow> string list set" where
  "inside d = {q. strict_prefix d q}"

lemma inside_iff [simp]: "q \<in> inside d \<longleftrightarrow> strict_prefix d q"
  by (simp add: inside_def)

lemma inside_below: "inside d \<subseteq> below d"
  by auto

lemma keeps_subtree:
  assumes "is_dir (walk_to fs h)" and above: "\<And>q. prefix q h \<Longrightarrow> is_dir (walk_to fs' q)"
    and apart: "\<And>q. \<not> prefix (h @ [p]) q \<Longrightarrow> \<not> prefix q h \<Longrightarrow> walk_to fs' q = walk_to fs q"
  shows "keeps (below (h @ [p])) fs fs'"
proof -
  have dirs: "is_dir (walk_to fs q)" if "prefix q h" for q
    using that assms(1) by (elim prefixE) (metis append_Nil2 is_dir_iff neq_Nil_conv walk_from_dir)
  show ?thesis
    unfolding keeps_def leaf_def below_iff
  proof (intro allI impI)
    fix q
    assume "\<not> prefix (h @ [p]) q"
    with dirs [of q] above [of q] apart [of q]
    show "(is_dir (walk_to fs q) \<longrightarrow> is_dir (walk_to fs' q))
        \<and> (if is_dir (walk_to fs' q) then None else walk_to fs' q) = (if is_dir (walk_to fs q) then None else walk_to fs q)"
      by (cases "prefix q h") auto
  qed
qed

lemma put_subtree: "is_dir (walk_to fs h) \<Longrightarrow> keeps (below (h @ [p])) fs (put fs (h @ [p]) x)"
  by (rule keeps_subtree) (auto intro: put_above put_apart)

lemma remove_subtree: "is_dir (walk_to fs h) \<Longrightarrow> keeps (below (h @ [p])) fs (remove_at fs (h @ [p]))"
  by (rule keeps_subtree) (auto intro: remove_at_above remove_at_apart)

lemma apart_append: "\<not> prefix a b \<Longrightarrow> \<not> prefix b a \<Longrightarrow> \<not> prefix a (b @ q)"
  using prefix_same_cases [of a "b @ q" b] by auto

lemma keeps_root: "keeps T fs fs' \<Longrightarrow> is_dir (Some fs) \<Longrightarrow> [] \<notin> T \<Longrightarrow> is_dir (Some fs')"
  using keeps_dir [of T fs fs' "[]"] by simp

lemma write_inside:
  assumes "is_dir (Some fs)" and "write_confined fresh_id d raw content fs = (r, fs')"
  shows "keeps (inside d) fs fs'"
  using write_confined_ok [OF assms] confined_parts_ne [of raw]
  by (cases r) (auto elim!: keeps_mono simp: strict_prefix_def)

lemmas write_below = keeps_mono [OF write_inside inside_below]

lemma make_dir_ok:
  assumes "make_dir here name fs = (Inr u, fs')"
  shows "is_dir (walk_to fs here)" and "walk_to fs (here @ [name]) = None"
    and "fs' = put fs (here @ [name]) (Dir [])" and "keeps {} fs fs'" and "is_dir (walk_to fs' here)"
    and "walk_to fs' (here @ [name] @ q) = walk_to (Dir []) q"
proof -
  show d: "is_dir (walk_to fs here)" and n: "walk_to fs (here @ [name]) = None"
    and f: "fs' = put fs (here @ [name]) (Dir [])"
    using assms by (auto simp: make_dir_def split: if_splits)
  show k: "keeps {} fs fs'" unfolding f by (rule put_dir_keeps [OF d n])
  show "is_dir (walk_to fs' here)" using keeps_dir [OF k d] by simp
  show "walk_to fs' (here @ [name] @ q) = walk_to (Dir []) q"
    unfolding f using put_at [OF d, of name "here @ [name] @ q"] by simp
qed

lemma make_dir_error: "make_dir here name fs = (Inl e, fs') \<Longrightarrow> fs' = fs"
  by (auto simp: make_dir_def split: if_splits)

lemma rename_ok:
  assumes src: "walk_to fs (h1 @ [p1]) = Some n" and d2: "is_dir (walk_to fs h2)"
    and apart: "\<not> prefix (h1 @ [p1]) (h2 @ [p2])" "\<not> prefix (h2 @ [p2]) (h1 @ [p1])"
  defines "fs' \<equiv> rename_to (h1 @ [p1]) (h2 @ [p2]) fs"
  shows "keeps (below (h1 @ [p1]) \<union> below (h2 @ [p2])) fs fs'"
    and "walk_to fs' (h2 @ [p2] @ q) = walk_to fs (h1 @ [p1] @ q)"
    and "is_dir (walk_to fs' h1)" and "walk_to fs' (h1 @ [p1]) = None"
proof -
  have d1: "is_dir (walk_to fs h1)" using src walk_from_dir [of fs h1 p1 "[]"] by simp
  define a where "a = remove_at fs (h1 @ [p1])"
  have ka: "keeps (below (h1 @ [p1])) fs a" unfolding a_def by (rule remove_subtree [OF d1])
  have n12: "h1 @ [p1] \<noteq> h2 @ [p2]" using apart(1) by auto
  have "\<not> prefix (h1 @ [p1]) h2" using apart(1) prefix_order.trans [of "h1 @ [p1]" h2 "h2 @ [p2]"] by auto
  with keeps_dir [OF ka d2] have a2: "is_dir (walk_to a h2)" by simp
  have f: "fs' = put a (h2 @ [p2]) n" unfolding fs'_def rename_to_def a_def using src n12 by auto
  have kf: "keeps (below (h2 @ [p2])) a fs'" unfolding f by (rule put_subtree [OF a2])
  show "keeps (below (h1 @ [p1]) \<union> below (h2 @ [p2])) fs fs'"
    using ka kf by (meson keeps_mono keeps_trans sup_ge1 sup_ge2)
  show "walk_to fs' (h2 @ [p2] @ q) = walk_to fs (h1 @ [p1] @ q)"
    unfolding f using put_at [OF a2, of p2 "h2 @ [p2] @ q"] walk_append [of fs "h1 @ [p1]" q] src by simp
  have a1: "is_dir (walk_to a h1)" unfolding a_def by (rule remove_at_above [OF d1]) simp
  have nb: "\<not> prefix (h2 @ [p2]) h1" using apart(2) prefix_order.trans [of "h2 @ [p2]" h1 "h1 @ [p1]"] by auto
  show "is_dir (walk_to fs' h1)" using keeps_dir [OF kf a1] nb by simp
  have "leaf fs' (h1 @ [p1]) = None"
    using keeps_leaf [OF kf, of "h1 @ [p1]"] apart(2) remove_at_gone [OF d1, of p1 "h1 @ [p1]"]
    by (simp add: a_def leaf_None)
  moreover have "\<not> is_dir (walk_to fs' (h1 @ [p1]))"
  proof (cases "prefix (h1 @ [p1]) h2")
    case False
    have "walk_to a (h1 @ [p1]) = None" unfolding a_def using remove_at_gone [OF d1] by simp
    then show ?thesis
      unfolding f using put_apart [OF a2, of p2 "h1 @ [p1]" n] apart False by simp
  qed (use apart(1) in \<open>auto dest: prefix_order.trans\<close>)
  ultimately show "walk_to fs' (h1 @ [p1]) = None" by (auto simp: leaf_def split: if_splits)
qed

section \<open>The bundle under assembly\<close>

text \<open>
  An object of a bundle: the content of a quarantined file at the same path, listed in the
  manifest with its digest, of an approved format, and releasable by the gate.
\<close>

definition approved ::
  "store_env \<Rightarrow> release_gate \<Rightarrow> string \<Rightarrow> string list \<Rightarrow> node \<Rightarrow> json pydict \<Rightarrow> string list \<Rightarrow> node \<Rightarrow> bool" where
  "approved env gate label origin fs files q n \<longleftrightarrow>
     (\<exists>path sz c. (path, JStr (st_sha env c)) \<in> set files \<and> confined_parts path = Inr q
        \<and> casefold (path_suffix path) \<in> set (rg_suffixes gate)
        \<and> leaf fs (origin @ q) = Some (File 1 sz c) \<and> n = File 1 (length c) c
        \<and> releasable gate ''artifact'' label c)"

definition bundle_object ::
  "store_env \<Rightarrow> release_gate \<Rightarrow> string \<Rightarrow> string list \<Rightarrow> node \<Rightarrow> json pydict \<Rightarrow> string list \<Rightarrow> node \<Rightarrow> bool" where
  "bundle_object env gate label origin fs files q n \<longleftrightarrow>
     approved env gate label origin fs files q n
     \<or> q = [commit_name] \<and> (\<exists>text. n = File 1 (length text) text)"

lemma write_leaf:
  assumes "is_dir (Some fs)" and "write_confined fresh_id d raw content fs = (r, fs')"
    and "leaf fs' (d @ q) = Some n"
  shows "leaf fs (d @ q) = Some n \<or> (r = Inr () \<and> confined_parts raw = Inr q \<and> n = File 1 (length content) content)"
proof (cases r)
  case (Inl e)
  with write_confined_ok [OF assms(1,2)] assms(3) show ?thesis by (auto simp: keeps_leaf)
next
  case (Inr u)
  with write_confined_ok [OF assms(1,2)] obtain parts where p: "confined_parts raw = Inr parts"
    and k: "keeps {d @ parts} fs fs'"
    and w: "walk_to fs' (d @ parts)
      = (if last parts = temporary_name fresh_id then None else Some (File 1 (length content) content))"
    by auto
  show ?thesis
  proof (cases "q = parts")
    case True
    with assms(3) w Inr p show ?thesis by (auto simp: leaf_def split: if_splits)
  next
    case False
    with keeps_leaf [OF k, of "d @ q"] assms(3) show ?thesis by simp
  qed
qed

lemma publish_files_ok:
  assumes "publish_files env gate label origin pending files used i fs = (r, fs')"
    and "is_dir (Some fs)" and "\<not> prefix pending origin" "\<not> prefix origin pending"
    and "\<And>q. leaf fs (origin @ q) = leaf fs0 (origin @ q)"
    and "set files \<subseteq> set listed"
    and "\<And>q n. leaf fs (pending @ q) = Some n \<Longrightarrow> approved env gate label origin fs0 listed q n"
  shows "keeps (inside pending) fs fs'
    \<and> (\<forall>q n. leaf fs' (pending @ q) = Some n \<longrightarrow> approved env gate label origin fs0 listed q n)"
  using assms
proof (induction files arbitrary: used i fs)
  case Nil
  then show ?case by (simp add: keeps_refl)
next
  case (Cons f files)
  obtain path expected where f: "f = (path, expected)" by force
  show ?case
  proof (cases "casefold (path_suffix path) \<in> set (rg_suffixes gate)
      \<and> (\<exists>c. read_confined origin path (rg_max_bytes gate) fs = Inr c \<and> JStr (st_sha env c) = expected
          \<and> authorize gate ''artifact'' c label = Inr c \<and> used + length c \<le> rg_max_bytes gate)")
    case False
    with Cons.prems(1) f have "fs' = fs"
      by (auto simp: authorize_iff split: if_splits sum.splits)
    with Cons.prems show ?thesis by (simp add: keeps_refl)
  next
    case True
    then obtain c where sx: "casefold (path_suffix path) \<in> set (rg_suffixes gate)"
      and rd: "read_confined origin path (rg_max_bytes gate) fs = Inr c"
      and sha: "expected = JStr (st_sha env c)" and au: "authorize gate ''artifact'' c label = Inr c"
      and size: "used + length c \<le> rg_max_bytes gate" by auto
    from rd obtain parts sz where parts: "confined_parts path = Inr parts"
      and there: "walk_to fs (origin @ parts) = Some (File 1 sz c)"
      by (auto simp: read_confined_iff [OF Cons.prems(2)])
    have ok: "approved env gate label origin fs0 listed parts (File 1 (length c) c)"
      unfolding approved_def
    proof (intro exI conjI)
      show "(path, JStr (st_sha env c)) \<in> set listed" using Cons.prems(6) f sha by auto
      show "leaf fs0 (origin @ parts) = Some (File 1 sz c)"
        using Cons.prems(5) [of parts] there by (simp add: leaf_def)
      show "releasable gate ''artifact'' label c" using au by (simp add: authorize_iff)
    qed (use parts sx in auto)
    obtain rw f1 where w: "write_confined (st_ids env i) pending path c fs = (rw, f1)"
      by (cases "write_confined (st_ids env i) pending path c fs")
    have k1: "keeps (inside pending) fs f1" by (rule write_inside [OF Cons.prems(2) w])
    have l1: "approved env gate label origin fs0 listed q n" if "leaf f1 (pending @ q) = Some n" for q n
      using write_leaf [OF Cons.prems(2) w that] Cons.prems(7) ok parts by auto
    have step: "andthen (rw, f1) (\<lambda>_. publish_files env gate label origin pending files (used + length c) (Suc i)) = (r, fs')"
      using Cons.prems(1) f sx rd sha au size w by simp
    show ?thesis
    proof (cases rw)
      case (Inl e)
      with step k1 l1 show ?thesis by auto
    next
      case (Inr u)
      have "leaf f1 (origin @ q) = leaf fs0 (origin @ q)" for q
        using keeps_leaf [OF k1, of "origin @ q"] Cons.prems(3,4,5)
          apart_append [of pending origin q] by (auto simp: strict_prefix_def)
      moreover have "is_dir (Some f1)" using keeps_root [OF k1 Cons.prems(2)] by simp
      ultimately have "keeps (inside pending) f1 fs'
          \<and> (\<forall>q n. leaf fs' (pending @ q) = Some n \<longrightarrow> approved env gate label origin fs0 listed q n)"
        using step Inr Cons.prems(3,4,6) l1 by (intro Cons.IH) auto
      with k1 show ?thesis by (blast intro: keeps_trans)
    qed
  qed
qed

lemma assemble_ok:
  assumes a: "assemble env base gate label identity m pending fs = (r, fs')"
    and d: "is_dir (Some fs)"
    and apart: "\<not> prefix pending (private_dir base @ [identity, ''files''])"
      "\<not> prefix (private_dir base @ [identity, ''files'']) pending"
    and empty: "\<And>q. leaf fs (pending @ q) = None"
  shows "keeps (inside pending) fs fs'"
    and "r = Inr text \<Longrightarrow> leaf fs' (pending @ q) = Some n \<Longrightarrow>
      \<exists>files. map_of m ''files'' = Some (JObj files) \<and>
        bundle_object env gate label (private_dir base @ [identity, ''files'']) fs files q n"
proof -
  let ?o = "private_dir base @ [identity, ''files'']"
  have "keeps (inside pending) fs fs' \<and> (r = Inr text \<longrightarrow> leaf fs' (pending @ q) = Some n \<longrightarrow>
      (\<exists>files. map_of m ''files'' = Some (JObj files) \<and> bundle_object env gate label ?o fs files q n))"
  proof (cases "\<exists>files. map_of m ''files'' = Some (JObj files)")
    case False
    with a show ?thesis by (auto simp: assemble_def keeps_refl split: option.splits json.splits)
  next
    case True
    then obtain files where files: "map_of m ''files'' = Some (JObj files)" by blast
    obtain rp f1 where p: "publish_files env gate label ?o pending files 0 3 fs = (rp, f1)"
      by (cases "publish_files env gate label ?o pending files 0 3 fs")
    from publish_files_ok [OF p d apart refl subset_refl] empty
    have k: "keeps (inside pending) fs f1"
      and l: "\<And>q n. leaf f1 (pending @ q) = Some n \<Longrightarrow> approved env gate label ?o fs files q n" by auto
    have d1: "is_dir (Some f1)" using keeps_root [OF k d] by simp
    show ?thesis
    proof (cases "\<exists>u policy t. rp = Inr u \<and> canonical_text (gate_json gate) = Inr policy
        \<and> validate_json (JObj (commit_record m label (st_sha env policy))) 1048576 16384 32 = Inr ()
        \<and> canonical_text (JObj (commit_record m label (st_sha env policy))) = Inr t")
      case False
      with a files p k show ?thesis by (cases rp) (auto simp: assemble_def Let_def split: sum.splits)
    next
      case True
      then obtain t where step: "andthen (write_confined (st_ids env 1) pending commit_name t f1) (\<lambda>_ fs. (Inr t, fs)) = (r, fs')"
        using a files p by (auto simp: assemble_def Let_def)
      obtain rw f2 where w: "write_confined (st_ids env 1) pending commit_name t f1 = (rw, f2)"
        by (cases "write_confined (st_ids env 1) pending commit_name t f1")
      with step have f2: "f2 = fs'" by (cases rw) auto
      have "confined_parts commit_name = Inr [commit_name]" by code_simp
      with write_leaf [OF d1 w, of q n] l [of q n] have
        "leaf fs' (pending @ q) = Some n \<Longrightarrow> bundle_object env gate label ?o fs files q n"
        by (auto simp: bundle_object_def f2)
      moreover have "keeps (inside pending) fs fs'"
        using k write_inside [OF d1 w] by (auto simp: f2 intro: keeps_trans)
      ultimately show ?thesis using files by blast
    qed
  qed
  then show "keeps (inside pending) fs fs'"
    and "r = Inr text \<Longrightarrow> leaf fs' (pending @ q) = Some n \<Longrightarrow>
      \<exists>files. map_of m ''files'' = Some (JObj files) \<and>
        bundle_object env gate label ?o fs files q n" by blast+
qed

section \<open>Publication\<close>

lemma private_released [simp]:
  "\<not> prefix (private_dir base @ p) (released_dir base @ q)"
  "\<not> prefix (released_dir base @ q) (private_dir base @ p)"
  by (auto simp: private_dir_def released_dir_def)

text \<open>What a changed tree must keep and what its new bundle may hold.\<close>

lemma mirror_ok:
  assumes "is_dir (Some fs)" and m: "mirror env base identity text fs = (r, fs')"
  shows "keeps (below (private_dir base @ [identity])) fs fs'"
proof (cases "st_mirror_written env")
  case True
  obtain rw f1 where w: "write_confined (st_ids env 2) (private_dir base @ [identity]) ''manifest.json'' text fs = (rw, f1)"
    by (cases "write_confined (st_ids env 2) (private_dir base @ [identity]) ''manifest.json'' text fs")
  with m True have "f1 = fs'" by (cases rw) (auto simp: mirror_def)
  with write_below [OF assms(1) w] show ?thesis by simp
next
  case False
  with m show ?thesis by (auto simp: mirror_def converted_def keeps_refl)
qed

text \<open>A publication changes the private side and its own destination, and fills only the latter.\<close>

definition store_area :: "string list \<Rightarrow> string \<Rightarrow> string list set" where
  "store_area base identity = below (private_dir base) \<union> below (released_dir base @ [identity])"

lemma private_in_area: "below (private_dir base @ p) \<subseteq> store_area base identity"
  by (auto simp: store_area_def dest: append_prefixD)

lemma root_outside_area: "[] \<notin> store_area base identity"
  by (simp add: store_area_def private_dir_def released_dir_def)

lemma not_private [simp]: "\<not> prefix (private_dir base) (released_dir base @ q)"
  using private_released(1) [of base "[]"] by simp

lemma not_released [simp]: "\<not> prefix (released_dir base @ q) (private_dir base)"
  using private_released(2) [of base q "[]"] by simp

lemma reveal_ok:
  assumes "is_dir (Some fs)" and pending: "pending = private_dir base @ [name]" and "is_dir (walk_to fs (released_dir base))"
    and "walk_to fs pending = Some n" and "\<not> published base identity fs"
    and v: "reveal env base identity pending text fs = (r, fs')"
  shows "keeps (store_area base identity) fs fs' \<and> is_dir (walk_to fs' (private_dir base))
    \<and> (\<forall>q. leaf fs' (released_dir base @ identity # q) \<in> {None, leaf fs (pending @ q)})"
proof -
  let ?d = "released_dir base @ [identity]"
  define moved where "moved = rename_to pending ?d fs"
  note rn = rename_ok [OF assms(4) [unfolded pending] assms(3)
      private_released(1) [of base "[name]" "[identity]"] private_released(2) [of base "[identity]" "[name]"]]
  have k: "keeps (store_area base identity) fs moved"
    using rn(1) private_in_area [of base "[name]" identity] unfolding moved_def pending
    by (auto simp: store_area_def elim!: keeps_mono)
  have p: "is_dir (walk_to moved (private_dir base))" using rn(3) unfolding moved_def pending by simp
  have w: "walk_to moved (released_dir base @ identity # q) = walk_to fs (pending @ q)" for q
    using rn(2) [of q] unfolding moved_def pending by simp
  have wl: "leaf moved (released_dir base @ identity # q) = leaf fs (pending @ q)" for q by (simp add: leaf_def w)
  have p0: "is_dir (walk_to fs (private_dir base))"
    using assms(4) walk_from_dir [of fs "private_dir base" name "[]"] unfolding pending by simp
  have stay: "leaf fs (released_dir base @ identity # q) = None" for q
  proof -
    have "walk_to fs (?d @ q) = None" using assms(5) unfolding walk_append [of fs ?d q] by (simp add: published_def)
    then show ?thesis by (simp add: leaf_None)
  qed
  have r0: "is_dir (Some moved)" using keeps_root [OF k assms(1) root_outside_area] .
  show ?thesis
  proof (cases "st_rename env = Renamed \<and> st_public_synced env")
    case False
    then have "fs' = moved \<or> fs' = fs" using v by (auto simp: reveal_def Let_def moved_def split: if_splits)
    with k p p0 wl stay show ?thesis by (auto simp: keeps_refl)
  next
    case True
    obtain rm f2 where m: "mirror env base identity text moved = (rm, f2)"
      by (cases "mirror env base identity text moved")
    have f2: "f2 = fs'" using v True m by (cases rm) (auto simp: reveal_def Let_def moved_def)
    note km = mirror_ok [OF r0 m, unfolded f2]
    have "keeps (store_area base identity) moved fs'"
      by (rule keeps_mono [OF km private_in_area])
    moreover have "is_dir (walk_to fs' (private_dir base))" by (rule keeps_dir [OF km p]) simp
    moreover have "leaf fs' (released_dir base @ identity # q) = leaf moved (released_dir base @ identity # q)" for q
      by (rule keeps_leaf [OF km]) simp
    ultimately show ?thesis using k wl by (auto intro: keeps_trans)
  qed
qed

lemma publish_ok:
  assumes d: "is_dir (Some fs)" and name: "name \<noteq> identity" and pending: "pending = private_dir base @ [name]"
    and empty: "\<And>q. walk_to fs (pending @ q) = walk_to (Dir []) q" and np: "\<not> published base identity fs"
    and v: "publish env base gate label identity m pending fs = (r, fs')"
  shows "keeps (store_area base identity) fs fs' \<and> is_dir (walk_to fs' (private_dir base))
    \<and> (\<forall>q n. leaf fs' (released_dir base @ identity # q) = Some n \<longrightarrow>
        (\<exists>files. map_of m ''files'' = Some (JObj files) \<and>
          bundle_object env gate label (private_dir base @ [identity, ''files'']) fs files q n))"
proof -
  obtain ra f1 where a: "assemble env base gate label identity m pending fs = (ra, f1)"
    by (cases "assemble env base gate label identity m pending fs")
  have l: "leaf fs (pending @ q) = None" for q using empty [of q] by (cases q) (auto simp: leaf_def)
  have apart: "\<not> prefix pending (private_dir base @ [identity, ''files''])"
    "\<not> prefix (private_dir base @ [identity, ''files'']) pending"
    using name by (auto simp: pending)
  note ok = assemble_ok [OF a d apart l]
  have "inside pending \<subseteq> store_area base identity"
    using inside_below private_in_area [of base "[name]"] unfolding pending by blast
  with ok(1) have k: "keeps (store_area base identity) fs f1" by (rule keeps_mono)
  have d1: "is_dir (Some f1)" by (rule keeps_root [OF k d root_outside_area])
  have p0: "is_dir (walk_to fs pending)" using empty [of "[]"] by simp
  have "is_dir (walk_to fs (private_dir base))"
    using p0 walk_from_dir [of fs "private_dir base" name "[]"] unfolding pending by (auto simp: is_dir_iff)
  then have p1: "is_dir (walk_to f1 (private_dir base))"
    by (rule keeps_dir [OF ok(1)]) (auto simp: pending strict_prefix_def dest: prefix_length_le)
  have p2: "is_dir (walk_to f1 pending)" by (rule keeps_dir [OF ok(1) p0]) simp
  have np1: "leaf f1 (released_dir base @ identity # q) = None" for q
  proof -
    have "walk_to fs ((released_dir base @ [identity]) @ q) = None"
      using np unfolding walk_append [of fs "released_dir base @ [identity]" q] by (simp add: published_def)
    moreover have "leaf f1 (released_dir base @ identity # q) = leaf fs (released_dir base @ identity # q)"
      by (rule keeps_leaf [OF ok(1)]) (auto simp: pending strict_prefix_def)
    ultimately show ?thesis by (simp add: leaf_None)
  qed
  show ?thesis
  proof (cases "\<exists>text. ra = Inr text \<and> st_pending_synced env \<and> is_dir (walk_to f1 (released_dir base))
      \<and> st_same_device env \<and> \<not> published base identity f1")
    case False
    with v a have "fs' = f1" by (cases ra) (auto simp: publish_def split: if_splits)
    with k p1 np1 show ?thesis by simp
  next
    case True
    then obtain t n where t: "ra = Inr t" and rel: "is_dir (walk_to f1 (released_dir base))"
      and np': "\<not> published base identity f1" and n: "walk_to f1 pending = Some n"
      and v': "reveal env base identity pending t f1 = (r, fs')"
      using v a p2 by (auto simp: publish_def is_dir_iff split: if_splits)
    from reveal_ok [OF d1 pending rel n np' v']
    have k2: "keeps (store_area base identity) f1 fs'" and p3: "is_dir (walk_to fs' (private_dir base))"
      and l2: "\<And>q. leaf fs' (released_dir base @ identity # q) \<in> {None, leaf f1 (pending @ q)}" by auto
    have "leaf f1 (pending @ q) = Some x" if "leaf fs' (released_dir base @ identity # q) = Some x" for q x
      using l2 [of q] that by auto
    with ok(2) [OF t] keeps_trans [OF k k2] p3 show ?thesis by blast
  qed
qed

section \<open>Whole operations\<close>

lemma locked_cases:
  assumes "locked base operation fs = (r, fs')"
  obtains (refused) e where "r = Inl e" "fs' = fs"
    | (ran) fs1 where "keeps {private_dir base @ [''.lock'']} fs fs1" "operation fs1 = (r, fs')"
        "\<And>q. walk_to fs1 (released_dir base @ q) = walk_to fs (released_dir base @ q)"
proof (cases "walk_to fs (private_dir base @ [''.lock''])")
  case None
  show thesis
  proof (cases "is_dir (walk_to fs (private_dir base))")
    case True
    have "keeps {private_dir base @ [''.lock'']} fs (put fs (private_dir base @ [''.lock'']) (File 1 0 []))"
      using put_keeps [OF True] None by simp
    moreover have "walk_to (put fs (private_dir base @ [''.lock'']) (File 1 0 [])) (released_dir base @ q)
        = walk_to fs (released_dir base @ q)" for q
      by (rule put_apart [OF True]) simp_all
    moreover have "operation (put fs (private_dir base @ [''.lock'']) (File 1 0 [])) = (r, fs')"
      using assms None True by (simp add: locked_def)
    ultimately show thesis by (intro ran)
  next
    case False
    then show thesis using refused assms None by (auto simp: locked_def Let_def)
  qed
next
  case (Some n)
  then show thesis using assms refused ran keeps_refl by (cases n) (auto simp: locked_def Let_def)
qed

lemma checked_id_iff: "checked_id s = Inr t \<longleftrightarrow> s = t \<and> s \<noteq> [] \<and> length s \<le> 80 \<and> list_all id_char s"
  by (auto simp: checked_id_def)

lemma dot_no_id [simp]: "\<not> id_char CHR ''.''"
  by code_simp

lemma checked_id_dot: "checked_id s = Inr t \<Longrightarrow> s \<noteq> CHR ''.'' # rest"
  by (auto simp: checked_id_iff)

lemma leaf_file: "walk_to fs q = Some (File links sz c) \<longleftrightarrow> leaf fs q = Some (File links sz c)"
  by (auto simp: leaf_def split: if_splits)

lemma read_confined_keeps:
  assumes d: "is_dir (Some fs)" and k: "keeps T fs fs'" and "[] \<notin> T"
    and out: "\<And>parts. confined_parts raw = Inr parts \<Longrightarrow> base @ parts \<notin> T"
  shows "read_confined base raw mx fs' = Inr c \<longleftrightarrow> read_confined base raw mx fs = Inr c"
  unfolding read_confined_iff [OF d] read_confined_iff [OF keeps_root [OF k d \<open>[] \<notin> T\<close>]] leaf_file
  by (simp add: keeps_leaf [OF k out] cong: conj_cong)

text \<open>The manifest under which an artifact may be released.\<close>

definition quarantined_manifest :: "string list \<Rightarrow> string \<Rightarrow> node \<Rightarrow> json pydict \<Rightarrow> bool" where
  "quarantined_manifest base identity fs m \<longleftrightarrow>
     (\<exists>text. read_confined (private_dir base @ [identity]) ''manifest.json'' 1048576 fs = Inr text
        \<and> json_loads text = Some (JObj m)) \<and> map_of m ''status'' = Some (JStr ''quarantined'')"

lemma manifest_unpublished:
  assumes "manifest_of sha base identity fs = Inr m" and "\<not> published base identity fs"
    and "map_of m ''status'' = Some (JStr ''quarantined'')"
  shows "quarantined_manifest base identity fs m"
  using assms by (auto simp: manifest_of_def quarantined_manifest_def split: sum.splits option.splits json.splits if_splits)

definition released_right ::
  "store_env \<Rightarrow> string list \<Rightarrow> release_gate \<Rightarrow> string \<Rightarrow> string \<Rightarrow> node \<Rightarrow> string list \<Rightarrow> node \<Rightarrow> bool" where
  "released_right env base gate label identity fs q n \<longleftrightarrow>
     (\<exists>m files. quarantined_manifest base identity fs m \<and> map_of m ''files'' = Some (JObj files)
        \<and> bundle_object env gate label (private_dir base @ [identity, ''files'']) fs files q n)"

lemma approved_cong:
  "(\<And>q. leaf fs (origin @ q) = leaf fs' (origin @ q)) \<Longrightarrow>
   approved env gate label origin fs files q n = approved env gate label origin fs' files q n"
  by (simp add: approved_def)

lemma released_right_keeps:
  assumes d: "is_dir (Some fs)" and k: "keeps T fs fs'" and "[] \<notin> T"
    and out: "\<And>q. private_dir base @ identity # q \<notin> T"
  shows "released_right env base gate label identity fs' q n = released_right env base gate label identity fs q n"
proof -
  have "quarantined_manifest base identity fs' m = quarantined_manifest base identity fs m" for m
    unfolding quarantined_manifest_def using read_confined_keeps [OF d k \<open>[] \<notin> T\<close>] out by simp
  moreover have "approved env gate label (private_dir base @ [identity, ''files'']) fs' files q n
      = approved env gate label (private_dir base @ [identity, ''files'']) fs files q n" for files
    by (rule approved_cong) (simp add: keeps_leaf [OF k] out)
  ultimately show ?thesis by (simp add: released_right_def bundle_object_def)
qed

lemma release_unlocked_ok:
  assumes d: "is_dir (Some fs)" and v: "release_unlocked env base gate label identity fs = (r, fs')"
  shows "keeps (store_area base identity) fs fs'"
    and "published base identity fs \<Longrightarrow> fs' = fs"
    and "\<not> published base identity fs \<Longrightarrow> leaf fs' (released_dir base @ identity # q) = Some n \<Longrightarrow>
      released_right env base gate label identity fs q n"
proof -
  let ?name = "''.publication-'' @ st_ids env 0"
  let ?pending = "private_dir base @ [?name]"
  have "keeps (store_area base identity) fs fs' \<and> (published base identity fs \<longrightarrow> fs' = fs)
    \<and> (\<not> published base identity fs \<longrightarrow> leaf fs' (released_dir base @ identity # q) = Some n \<longrightarrow>
      released_right env base gate label identity fs q n)"
  proof (cases "\<exists>m f1. checked_id identity = Inr identity \<and> \<not> published base identity fs
      \<and> manifest_of (st_sha env) base identity fs = Inr m \<and> map_of m ''status'' = Some (JStr ''quarantined'')
      \<and> make_dir (private_dir base) ?name fs = (Inr (), f1)")
    case False
    have "fs' = fs"
    proof (cases "make_dir (private_dir base) ?name fs")
      case (Pair rd f1)
      with False v show ?thesis
        by (cases rd; cases "published base identity fs")
          (auto simp: release_unlocked_def Let_def checked_id_iff dest!: make_dir_error
             split: sum.splits option.splits if_splits)
    qed
    moreover have "walk_to fs (released_dir base @ identity # q) = None" if "\<not> published base identity fs"
      using that walk_append [of fs "released_dir base @ [identity]" q] by (simp add: published_def)
    ultimately show ?thesis by (auto simp: keeps_refl leaf_def split: if_splits)
  next
    case True
    then obtain m f1 where i: "checked_id identity = Inr identity" and np: "\<not> published base identity fs"
      and m: "manifest_of (st_sha env) base identity fs = Inr m" "map_of m ''status'' = Some (JStr ''quarantined'')"
      and mk: "make_dir (private_dir base) ?name fs = (Inr (), f1)" by blast
    note mk = make_dir_ok [OF mk] mk
    obtain rp f2 where p: "publish env base gate label identity m ?pending f1 = (rp, f2)"
      by (cases "publish env base gate label identity m ?pending f1")
    have fs': "fs' = remove_at f2 ?pending"
      using v i np m mk(7) p by (auto simp: release_unlocked_def Let_def)
    have d1: "is_dir (Some f1)" by (rule keeps_root [OF mk(4) d]) simp
    have np1: "\<not> published base identity f1"
      using np put_apart [OF mk(1), of ?name "released_dir base @ [identity]" "Dir []"]
        private_released(1) [of base "[?name]" "[identity]"]
      by (simp add: published_def mk(3))
    have ni: "?name \<noteq> identity" using checked_id_dot [OF i] by auto
    have e: "walk_to f1 (?pending @ q) = walk_to (Dir []) q" for q using mk(6) [of q] by simp
    from publish_ok [OF d1 ni refl e np1 p] have k2: "keeps (store_area base identity) f1 f2"
      and p2: "is_dir (walk_to f2 (private_dir base))"
      and l2: "leaf f2 (released_dir base @ identity # q) = Some n \<Longrightarrow> \<exists>files. map_of m ''files'' = Some (JObj files)
        \<and> bundle_object env gate label (private_dir base @ [identity, ''files'']) f1 files q n" by auto
    have k3: "keeps (below ?pending) f2 fs'" unfolding fs' by (rule remove_subtree [OF p2])
    have "keeps (store_area base identity) fs fs'"
      using keeps_mono [OF mk(4) empty_subsetI] k2 keeps_mono [OF k3 private_in_area] by (blast intro: keeps_trans)
    moreover have "released_right env base gate label identity fs q n"
      if l: "leaf fs' (released_dir base @ identity # q) = Some n"
    proof -
      have "leaf f2 (released_dir base @ identity # q) = Some n"
        using l keeps_leaf [OF k3, of "released_dir base @ identity # q"] private_released(1) [of base "[?name]" "identity # q"] by simp
      with l2 obtain files where files: "map_of m ''files'' = Some (JObj files)"
        "bundle_object env gate label (private_dir base @ [identity, ''files'']) f1 files q n" by auto
      have "approved env gate label (private_dir base @ [identity, ''files'']) fs files q n
          = approved env gate label (private_dir base @ [identity, ''files'']) f1 files q n"
        by (rule approved_cong) (simp add: keeps_leaf [OF mk(4)])
      with files manifest_unpublished [OF m(1) np m(2)] show ?thesis
        by (auto simp: released_right_def bundle_object_def)
    qed
    ultimately show ?thesis using np by blast
  qed
  then show "keeps (store_area base identity) fs fs'"
    and "published base identity fs \<Longrightarrow> fs' = fs"
    and "\<not> published base identity fs \<Longrightarrow> leaf fs' (released_dir base @ identity # q) = Some n \<Longrightarrow>
      released_right env base gate label identity fs q n" by blast+
qed

text \<open>
  What a release leaves visible under an identity that was not published: nothing but the
  commit record and approved copies of what the quarantine held when it began.
\<close>

lemma unpublished_empty: "\<not> published base identity fs \<Longrightarrow> leaf fs (released_dir base @ identity # q) = None"
  using walk_append [of fs "released_dir base @ [identity]" q] by (simp add: published_def leaf_None)

lemma release_safe:
  assumes "is_dir (Some fs)" and "release env base gate label identity fs = (r, fs')"
    and np: "\<not> published base identity fs" and l: "leaf fs' (released_dir base @ identity # q) = Some n"
  shows "released_right env base gate label identity fs q n"
  using assms(2) [unfolded release_def]
proof (cases rule: locked_cases)
  case (refused e)
  with l unpublished_empty [OF np] show ?thesis by simp
next
  case (ran fs1)
  have l0: "[] \<notin> {private_dir base @ [''.lock'']}" by simp
  have np1: "\<not> published base identity fs1" using np ran(3) [of "[identity]"] by (simp add: published_def)
  from release_unlocked_ok(3) [OF keeps_root [OF ran(1) assms(1) l0] ran(2) this l]
  have right: "released_right env base gate label identity fs1 q n" .
  have "\<exists>t. checked_id identity = Inr t"
    using ran(2) l unpublished_empty [OF np1] by (cases "checked_id identity") (auto simp: release_unlocked_def)
  then have "identity \<noteq> ''.lock''" by (auto dest: checked_id_dot)
  with right released_right_keeps [OF assms(1) ran(1) l0] show ?thesis by simp
qed

section \<open>Histories of the store\<close>

text \<open>
  The changes of the store: ingestion, rejection and release under one of the gates and labels
  \<open>G\<close>, in any order and with any faults.
\<close>

inductive store_step :: "string list \<Rightarrow> (release_gate \<times> string) set \<Rightarrow> node \<Rightarrow> node \<Rightarrow> bool" for base G where
  ingested: "ingest env base identity source paths action fs = (r, fs') \<Longrightarrow> store_step base G fs fs'"
| rejected: "reject env base identity fs = (r', fs') \<Longrightarrow> store_step base G fs fs'"
| released: "(gate, label) \<in> G \<Longrightarrow> release env base gate label identity fs = (r'', fs') \<Longrightarrow> store_step base G fs fs'"

lemma install_copy_below:
  assumes v: "install_copy content_base path copied fs = (r, fs')" and d: "is_dir (Some fs)" and "path_parts path \<noteq> []"
  shows "keeps (below content_base) fs fs'"
proof -
  let ?dst = "content_base @ path_parts path"
  obtain ro f1 where o: "open_parents True [] (butlast ?dst) fs = (ro, f1)"
    by (cases "open_parents True [] (butlast ?dst) fs")
  from open_creates [OF _ o] d have k: "keeps {} fs f1"
    and h: "\<And>h. ro = Inr h \<Longrightarrow> h = butlast ?dst \<and> is_dir (walk_to f1 h)" by auto
  have k1: "keeps (below content_base) fs f1" by (rule keeps_mono [OF k]) simp
  show ?thesis
  proof (cases "\<exists>h. ro = Inr h \<and> walk_to f1 ?dst = None")
    case False
    then have "fs' = f1" using v o by (cases ro) (auto simp: install_copy_def Let_def split: if_splits)
    with k1 show ?thesis by simp
  next
    case True
    with h have d1: "is_dir (walk_to f1 (butlast ?dst))" by auto
    have dst: "butlast ?dst @ [last ?dst] = ?dst" using assms(3) by (intro append_butlast_last_id) simp
    have "fs' = put f1 ?dst copied" using True v o by (auto simp: install_copy_def Let_def)
    with put_subtree [OF d1, of "last ?dst" copied] have "keeps (below ?dst) f1 fs'" unfolding dst by simp
    then have "keeps (below content_base) f1 fs'" by (rule keeps_mono) (auto dest: append_prefixD)
    with k1 show ?thesis by (rule keeps_trans)
  qed
qed

lemma ingest_files_below:
  assumes "ingest_files env source content_base paths records b fs = (r, fs')" and "is_dir (Some fs)"
    and "content_base \<noteq> []"
  shows "keeps (below content_base) fs fs'"
  using assms
proof (induction paths arbitrary: records b fs)
  case Nil
  then show ?case by (simp add: keeps_refl)
next
  case (Cons path paths)
  show ?case
  proof (cases "\<exists>copied b'. path_parts path \<noteq> [] \<and> hd (path_parts path) \<noteq> commit_name
      \<and> copy_confined (st_copy env) source path b fs = (Inr copied, b')")
    case False
    then have "fs' = fs" using Cons.prems(1) by (auto split: if_splits prod.splits sum.splits)
    then show ?thesis by (simp add: keeps_refl)
  next
    case True
    then obtain copied b' where path: "path_parts path \<noteq> []" "hd (path_parts path) \<noteq> commit_name"
      and c: "copy_confined (st_copy env) source path b fs = (Inr copied, b')" by blast
    obtain ri f1 where i: "install_copy content_base path copied fs = (ri, f1)"
      by (cases "install_copy content_base path copied fs")
    note k1 = install_copy_below [OF i Cons.prems(2) path(1)]
    have d1: "is_dir (Some f1)" using keeps_root [OF k1 Cons.prems(2)] Cons.prems(3) by simp
    show ?thesis
    proof (cases "\<exists>u content. ri = Inr u \<and> read_confined content_base path (cb_max_file_bytes b') f1 = Inr content")
      case False
      then have "fs' = f1" using Cons.prems(1) path c i by (cases ri) (auto split: sum.splits)
      with k1 show ?thesis by simp
    next
      case True
      then obtain content where "ingest_files env source content_base paths
          (AList.update path (st_sha env content) records) b' f1 = (r, fs')"
        using Cons.prems(1) path c i by auto
      from Cons.IH [OF this d1 Cons.prems(3)] k1 show ?thesis by (blast intro: keeps_trans)
    qed
  qed
qed

lemma fill_artifact_below:
  assumes v: "fill_artifact env identity directory source paths action fs = (r, fs')" and d: "is_dir (Some fs)"
    and "directory \<noteq> []"
  shows "keeps (below directory) fs fs'"
proof -
  obtain rf f1 where i: "ingest_files env source (directory @ [''files'']) paths [] default_budget fs = (rf, f1)"
    by (cases "ingest_files env source (directory @ [''files'']) paths [] default_budget fs")
  have k1: "keeps (below directory) fs f1"
    by (rule keeps_mono [OF ingest_files_below [OF i d]]) (auto dest: append_prefixD)
  have d1: "is_dir (Some f1)" using keeps_root [OF k1 d] assms(3) by simp
  have "fs' = f1 \<or> (\<exists>t rw. write_confined (st_ids env 0) directory ''manifest.json'' t f1 = (rw, fs'))"
    using v i by (cases rf) (auto simp: fill_artifact_def split: if_splits)
  with k1 write_below [OF d1] show ?thesis by (blast intro: keeps_trans)
qed

lemma ingest_below:
  assumes v: "ingest env base identity source paths action fs = (r, fs')" and d: "is_dir (Some fs)"
  shows "keeps (below (private_dir base)) fs fs'"
proof -
  let ?dir = "private_dir base @ [identity]"
  obtain r1 f1 where m1: "make_dir (private_dir base) identity fs = (r1, f1)"
    by (cases "make_dir (private_dir base) identity fs")
  obtain r2 f2 where m2: "make_dir ?dir ''files'' f1 = (r2, f2)" by (cases "make_dir ?dir ''files'' f1")
  obtain r3 f3 where f: "fill_artifact env identity ?dir source paths action f2 = (r3, f3)"
    by (cases "fill_artifact env identity ?dir source paths action f2")
  have up: "keeps (below ?dir) a b \<Longrightarrow> keeps (below (private_dir base)) a b" for a b
    by (erule keeps_mono) (auto dest: append_prefixD)
  show ?thesis
  proof (cases "\<exists>u w. checked_id identity = Inr identity \<and> r1 = Inr u \<and> r2 = Inr w")
    case False
    have "fs' = fs \<or> r1 = Inr () \<and> fs' = f1"
      using False v m1 m2 make_dir_error [of "private_dir base" identity fs] make_dir_error [of ?dir "''files''" f1]
      by (cases r1; cases r2) (auto simp: ingest_def Let_def checked_id_iff split: sum.splits)
    then show ?thesis using make_dir_ok(4) [of "private_dir base" identity fs _ f1] m1 keeps_mono by (auto simp: keeps_refl)
  next
    case True
    then have m: "make_dir (private_dir base) identity fs = (Inr (), f1)" "make_dir ?dir ''files'' f1 = (Inr (), f2)"
      using m1 m2 by auto
    have k2: "keeps {} fs f2" using make_dir_ok(4) [OF m(1)] make_dir_ok(4) [OF m(2)] by (rule keeps_trans)
    have d2: "is_dir (Some f2)" by (rule keeps_root [OF k2 d]) simp
    have k3: "keeps (below ?dir) f2 f3" by (rule fill_artifact_below [OF f d2]) simp
    have "is_dir (walk_to f2 (private_dir base))"
      using keeps_dir [OF make_dir_ok(4) [OF m(2)] make_dir_ok(5) [OF m(1)]] by simp
    then have p3: "is_dir (walk_to f3 (private_dir base))" by (rule keeps_dir [OF k3]) simp
    have "keeps (below ?dir) f2 fs'"
    proof (cases r3)
      case (Inl e)
      then have "fs' = remove_at f3 ?dir" using v m f True by (auto simp: ingest_def Let_def)
      with remove_subtree [OF p3] k3 show ?thesis by (auto intro: keeps_trans)
    next
      case (Inr u)
      then have "fs' = f3" using v m f True by (auto simp: ingest_def Let_def)
      with k3 show ?thesis by simp
    qed
    with up keeps_mono [OF k2 empty_subsetI] show ?thesis by (blast intro: keeps_trans)
  qed
qed

lemma reject_below:
  assumes "reject env base identity fs = (r, fs')" and "is_dir (Some fs)"
  shows "keeps (below (private_dir base)) fs fs'"
  using assms(1) [unfolded reject_def]
proof (cases rule: locked_cases)
  case (ran fs1)
  have l0: "[] \<notin> {private_dir base @ [''.lock'']}" by simp
  have k1: "keeps (below (private_dir base)) fs fs1" by (rule keeps_mono [OF ran(1)]) simp
  have d1: "is_dir (Some fs1)" by (rule keeps_root [OF ran(1) assms(2) l0])
  have "fs' = fs1 \<or> (\<exists>t rw. write_confined (st_ids env 2) (private_dir base @ [identity]) ''manifest.json'' t fs1 = (rw, fs'))"
    using ran(2) by (auto simp: reject_unlocked_def split: sum.splits option.splits if_splits)
  then have "keeps (below (private_dir base)) fs1 fs'"
  proof (elim disjE exE)
    fix t rw
    assume "write_confined (st_ids env 2) (private_dir base @ [identity]) ''manifest.json'' t fs1 = (rw, fs')"
    from write_below [OF d1 this] show ?thesis by (rule keeps_mono) (auto dest: append_prefixD)
  qed (simp add: keeps_refl)
  with k1 show ?thesis by (rule keeps_trans)
qed (simp add: keeps_refl)

lemma release_keeps:
  assumes "release env base gate label identity fs = (r, fs')" and "is_dir (Some fs)"
  shows "keeps (if published base identity fs then below (private_dir base) else store_area base identity) fs fs'"
  using assms(1) [unfolded release_def]
proof (cases rule: locked_cases)
  case (ran fs1)
  have l0: "[] \<notin> {private_dir base @ [''.lock'']}" by simp
  have k1: "keeps (below (private_dir base)) fs fs1" by (rule keeps_mono [OF ran(1)]) simp
  have "below (private_dir base) \<subseteq> store_area base identity" by (simp add: store_area_def)
  with k1 have k1': "keeps (store_area base identity) fs fs1" by (rule keeps_mono)
  have d1: "is_dir (Some fs1)" by (rule keeps_root [OF ran(1) assms(2) l0])
  have p: "published base identity fs1 = published base identity fs"
    using ran(3) [of "[identity]"] by (simp add: published_def)
  show ?thesis
    using release_unlocked_ok(1,2) [OF d1 ran(2)] k1 k1' p by (auto intro: keeps_trans)
qed (simp add: keeps_refl)

lemma private_free: "below (private_dir base) \<inter> below (released_dir base @ p) = {}"
  using prefix_same_cases not_private [of base p] not_released [of base p] by fastforce

lemma root_not_private: "[] \<notin> below (private_dir base)"
  by (simp add: private_dir_def)

lemma area_free: "identity \<noteq> i \<Longrightarrow> store_area base identity \<inter> below (released_dir base @ [i]) = {}"
  unfolding store_area_def using private_free [of base "[i]"]
    prefix_same_cases [of "released_dir base @ [identity]" _ "released_dir base @ [i]"] by fastforce

text \<open>A step leaves a bundle as it is, unless it publishes it.\<close>

lemma store_step_cases:
  assumes s: "store_step base G fs fs'" and d: "is_dir (Some fs)"
  obtains (apart) T where "keeps T fs fs'" "[] \<notin> T" "T \<inter> below (released_dir base @ [i]) = {}"
    | (publishes) gate label env where "\<not> published base i fs" "(gate, label) \<in> G" "is_dir (Some fs')"
        "\<And>q n. leaf fs' (released_dir base @ i # q) = Some n \<Longrightarrow> released_right env base gate label i fs q n"
  using s
proof cases
  case ingested
  then show thesis by (rule apart [OF ingest_below [OF _ d] root_not_private private_free])
next
  case rejected
  then show thesis by (rule apart [OF reject_below [OF _ d] root_not_private private_free])
next
  case (released gate label env identity r'')
  note k = release_keeps [OF released(2) d]
  show thesis
  proof (cases "published base identity fs \<or> identity \<noteq> i")
    case True
    then have "(if published base identity fs then below (private_dir base) else store_area base identity)
        \<inter> below (released_dir base @ [i]) = {}"
      using private_free [of base "[i]"] area_free [of identity i base] by auto
    moreover have "[] \<notin> (if published base identity fs then below (private_dir base) else store_area base identity)"
      using root_outside_area by (simp add: private_dir_def)
    ultimately show thesis using k apart by blast
  next
    case False
    have "[] \<notin> (if published base identity fs then below (private_dir base) else store_area base identity)"
      using root_outside_area root_not_private by simp
    note keeps_root [OF k d this]
    then show thesis using publishes [OF _ released(1)] False release_safe [OF d released(2)] by auto
  qed
qed

lemma store_step_dir:
  assumes "store_step base G fs fs'" and "is_dir (Some fs)"
  shows "is_dir (Some fs')"
  using assms by (cases rule: store_step_cases [of base G fs fs' "[]"]) (blast intro: keeps_root [OF _ assms(2)])+

lemma published_iff: "published base i fs \<longleftrightarrow> is_dir (walk_to fs (released_dir base @ [i])) \<or> leaf fs (released_dir base @ [i]) \<noteq> None"
  by (auto simp: published_def leaf_def is_dir_iff)

lemma store_step_final:
  assumes "store_step base G fs fs'" and "is_dir (Some fs)" and "published base i fs"
  shows "published base i fs' \<and> leaf fs' (released_dir base @ i # q) = leaf fs (released_dir base @ i # q)"
  using assms(1,2)
proof (cases rule: store_step_cases [of base G fs fs' i])
  case (apart T)
  have out: "released_dir base @ i # p \<notin> T" for p using apart(3) by (auto simp: disjoint_iff)
  show ?thesis
    using keeps_leaf [OF apart(1) out] keeps_dir [OF apart(1) _ out [of "[]"]] assms(3) by (auto simp: published_iff)
qed (use assms(3) in simp)

lemma store_final:
  assumes "(store_step base G)\<^sup>*\<^sup>* fs fs'" and "is_dir (Some fs)" and "published base i fs"
  shows "is_dir (Some fs') \<and> published base i fs'
    \<and> leaf fs' (released_dir base @ i # q) = leaf fs (released_dir base @ i # q)"
  using assms
proof (induction rule: rtranclp_induct)
  case (step b c)
  then show ?case using store_step_final [of base G b c i q] store_step_dir [of base G b c] by auto
qed simp

text \<open>What the public side may hold: commit records and content that one of the gates releases.\<close>

definition only_releasable :: "string list \<Rightarrow> (release_gate \<times> string) set \<Rightarrow> node \<Rightarrow> bool" where
  "only_releasable base G fs \<longleftrightarrow>
     (\<forall>i q n. leaf fs (released_dir base @ i # q) = Some n \<longrightarrow>
        (\<exists>c. n = File 1 (length c) c \<and> (q = [commit_name] \<or> (\<exists>(g, l)\<in>G. releasable g ''artifact'' l c))))"

lemma store_releasable:
  assumes "(store_step base G)\<^sup>*\<^sup>* fs fs'" and "is_dir (Some fs)" and "only_releasable base G fs"
  shows "is_dir (Some fs') \<and> only_releasable base G fs'"
  using assms
proof (induction rule: rtranclp_induct)
  case (step b c)
  then have b: "is_dir (Some b)" "only_releasable base G b" by auto
  have "\<exists>ct. n = File 1 (length ct) ct \<and> (q = [commit_name] \<or> (\<exists>(g, l)\<in>G. releasable g ''artifact'' l ct))"
    if l: "leaf c (released_dir base @ i # q) = Some n" for i q n
    using \<open>store_step base G b c\<close> b(1)
  proof (cases rule: store_step_cases [of base G b c i])
    case (apart T)
    then have "leaf c (released_dir base @ i # q) = leaf b (released_dir base @ i # q)"
      by (intro keeps_leaf [OF apart(1)]) (auto simp: disjoint_iff)
    with b(2) l show ?thesis by (auto simp: only_releasable_def)
  next
    case (publishes gate label env)
    from publishes(4) [OF l] publishes(2) show ?thesis
      by (auto simp: released_right_def bundle_object_def approved_def)
  qed
  then show ?case using store_step_dir [OF \<open>store_step base G b c\<close> b(1)] by (auto simp: only_releasable_def)
qed simp

section \<open>Committed bundles\<close>

definition proper :: "string \<Rightarrow> bool" where
  "proper p \<longleftrightarrow> p \<noteq> [] \<and> p \<noteq> ''.'' \<and> CHR 0x2F \<notin> set p"

lemma split_on_free: "c \<notin> set w \<Longrightarrow> split_on c w = [w]"
  by (induction w) auto

lemma split_joined:
  "CHR 0x2F \<notin> set p \<Longrightarrow> list_all proper ps \<Longrightarrow>
   split_on (CHR 0x2F) (p @ concat (map (\<lambda>q. CHR 0x2F # q) ps)) = p # ps"
proof (induction ps arbitrary: p)
  case (Cons q ps)
  then have "split_on (CHR 0x2F) (q @ concat (map (\<lambda>q. CHR 0x2F # q) ps)) = q # ps" by (simp add: proper_def)
  with Cons.prems split_on_append [of "CHR 0x2F" p "q @ concat (map (\<lambda>q. CHR 0x2F # q) ps)"] show ?case by simp
qed (simp add: split_on_free)

lemma path_parts_join:
  assumes "q \<noteq> []" and "list_all proper q"
  shows "path_parts (join_names q) = q"
proof -
  obtain p ps where q: "q = p # ps" using assms(1) by (cases q) auto
  then have p: "proper p" "list_all proper ps" using assms(2) by auto
  then obtain x xs where x: "p = x # xs" "x \<noteq> CHR 0x2F" by (cases p) (auto simp: proper_def)
  have j: "join_names q = p @ concat (map (\<lambda>q. CHR 0x2F # q) ps)" by (simp add: join_names_def q)
  have "path_root (join_names q) = []" using x by (simp add: j path_root_def)
  moreover have "split_on (CHR 0x2F) (join_names q) = p # ps" unfolding j
    by (rule split_joined) (use p in \<open>auto simp: proper_def\<close>)
  moreover have "filter (\<lambda>p. p \<noteq> [] \<and> p \<noteq> ''.'') (p # ps) = p # ps"
    by (rule filter_True) (use p in \<open>auto simp: proper_def list_all_iff\<close>)
  ultimately show ?thesis by (simp add: path_parts_def q)
qed

lemma listing_walk: "walk_to n q = Some c \<Longrightarrow> q \<noteq> [] \<Longrightarrow> (here @ q, c) \<in> set (listing here n)"
proof (induction n q arbitrary: here rule: walk_to.induct)
  case (2 es p ps)
  then obtain c0 where c0: "map_of es p = Some c0" "walk_to c0 ps = Some c" by (auto split: option.splits)
  then have m: "(p, c0) \<in> set es" by (simp add: map_of_SomeD)
  show ?case
  proof (cases "ps = []")
    case True
    with c0 m show ?thesis by force
  next
    case False
    from "2.IH" [OF c0(1) c0(2) False, of "here @ [p]"] m show ?thesis by force
  qed
qed auto

lemma files_verify_reads:
  "files_verify sha directory files used fs \<Longrightarrow> (path, expected) \<in> set files \<Longrightarrow>
   \<exists>c. read_confined directory path 16777216 fs = Inr c \<and> expected = JStr (sha c)"
  by (induction files arbitrary: used) (auto split: sum.splits)

lemma committed_manifest_ok:
  assumes "committed_manifest sha base identity fs = Some m"
  shows "\<exists>t. read_confined (released_dir base @ [identity]) commit_name 1048576 fs = Inr t"
    and "commit_fields identity m"
    and "walk_to fs (released_dir base @ [identity]) = Some d \<Longrightarrow> list_all (plain_node \<circ> snd) (listing [] d)
      \<and> set (bundle_files (listing [] d)) = fst ` set (json_sub (jget m ''files'')) \<union> {commit_name}"
    and "files_verify sha (released_dir base @ [identity]) (json_sub (jget m ''files'')) 0 fs"
  using assms by (auto simp: committed_manifest_def Let_def split: sum.splits option.splits json.splits if_splits)

text \<open>
  A bundle that verifies holds the listed files and nothing else: each object at its own path,
  unaliased, with the digest of the manifest.
\<close>

lemma committed_sound:
  assumes d: "is_dir (Some fs)" and c: "committed sha durable base identity fs = Inr m"
    and named: "\<And>q n. walk_to fs (released_dir base @ identity # q) = Some n \<Longrightarrow> list_all proper q"
    and l: "leaf fs (released_dir base @ identity # q) = Some n"
  shows "\<exists>sz ct. n = File 1 sz ct \<and>
    (q = [commit_name] \<or> (join_names q, JStr (sha ct)) \<in> set (json_sub (jget m ''files'')))"
proof -
  let ?dir = "released_dir base @ [identity]"
  have m: "committed_manifest sha base identity fs = Some m"
    using c by (auto simp: committed_def split: sum.splits option.splits if_splits)
  note ok = committed_manifest_ok [OF m]
  have w: "walk_to fs (?dir @ q) = Some n" and nd: "\<not> is_dir (Some n)"
    using l by (auto simp: leaf_def split: if_splits)
  have pq: "list_all proper q" using named w by simp
  have commit: "confined_parts commit_name = Inr [commit_name]" by code_simp
  from ok(1) obtain t sz where at: "walk_to fs (?dir @ [commit_name]) = Some (File 1 sz t)"
    using commit by (auto simp: read_confined_iff [OF d])
  then obtain dn where dn: "walk_to fs ?dir = Some dn" "is_dir (Some dn)"
    using walk_from_dir [of fs ?dir commit_name "[]"] by (auto simp: is_dir_iff)
  have ne: "q \<noteq> []" using w nd dn by auto
  have "walk_to dn q = Some n" using w dn walk_append [of fs ?dir q] by simp
  from listing_walk [OF this ne, of "[]"] have mem: "(q, n) \<in> set (listing [] dn)" by simp
  with ok(3) [OF dn(1)] nd have f: "is_file n" by (cases n) (auto simp: list_all_iff)
  with mem have "join_names q \<in> set (bundle_files (listing [] dn))" by (force simp: bundle_files_def)
  then have cases: "join_names q = commit_name \<or> join_names q \<in> fst ` set (json_sub (jget m ''files''))"
    using ok(3) [OF dn(1)] by auto
  have pp: "path_parts (join_names q) = q" by (rule path_parts_join [OF ne pq])
  show ?thesis
  proof (cases "join_names q = commit_name")
    case True
    then have "q = path_parts commit_name" using pp by simp
    also have "\<dots> = [commit_name]" by code_simp
    finally show ?thesis using w at by simp
  next
    case False
    with cases obtain expected where e: "(join_names q, expected) \<in> set (json_sub (jget m ''files''))" by auto
    from files_verify_reads [OF ok(4) e] obtain ct where r: "read_confined ?dir (join_names q) 16777216 fs = Inr ct"
      and x: "expected = JStr (sha ct)" by blast
    from r obtain parts sz where "confined_parts (join_names q) = Inr parts" "walk_to fs (?dir @ parts) = Some (File 1 sz ct)"
      by (auto simp: read_confined_iff [OF d])
    moreover have "parts = q" using calculation(1) pp by (auto simp: confined_parts_def Let_def split: if_splits)
    ultimately show ?thesis using w e x by auto
  qed
qed

end
