(* ===== verification/ReleaseReports.thy ===== *)
theory ReleaseReports
  imports ArtifactFacts
begin

text \<open>
  How a release reports its outcome: what the caller may conclude from the result about what
  is visible.
\<close>

section \<open>Writes below a directory leave the rest alone\<close>

lemma open_apart:
  assumes "is_dir (walk_to fs here)" and "open_parents c here ps fs = (r, fs')"
    and "\<not> prefix here q" and "\<not> prefix q here"
  shows "walk_to fs' q = walk_to fs q"
  using assms
proof (induction c here ps fs arbitrary: r fs' rule: open_parents.induct)
  case (2 create here p ps fs)
  have apart: "\<not> prefix (here @ [p]) q" "\<not> prefix q (here @ [p])"
    using 2(5,6) by (auto dest: append_prefixD simp: prefix_snoc)
  show ?case
  proof (cases "walk_to fs (here @ [p])")
    case (Some n)
    with 2 apart show ?thesis by (cases n) auto
  next
    case None
    let ?fs = "put fs (here @ [p]) (Dir [])"
    show ?thesis
    proof (cases create)
      case True
      have "is_dir (walk_to ?fs (here @ [p]))" using put_at [OF "2.prems"(1), of p "here @ [p]"] by simp
      moreover have "open_parents create (here @ [p]) ps ?fs = (r, fs')" using "2.prems"(2) None True by simp
      ultimately have "walk_to fs' q = walk_to ?fs q" using "2.IH"(1) [OF None True _ _ apart] by blast
      also have "\<dots> = walk_to fs q" by (rule put_apart [OF "2.prems"(1) apart(1) "2.prems"(4)])
      finally show ?thesis .
    next
      case False
      with 2 None show ?thesis by auto
    qed
  qed
qed simp

lemma open_within:
  assumes "is_dir (walk_to fs (here @ d))"
  shows "open_parents c here (d @ ps) fs = open_parents c (here @ d) ps fs"
  using assms
proof (induction d arbitrary: here)
  case (Cons p d)
  then have "is_dir (walk_to fs (here @ [p]))"
    using no_dir_below [of fs "here @ p # d" _ "here @ [p]"] by (cases d) (auto simp: is_dir_iff)
  with Cons.IH [of "here @ [p]"] Cons.prems show ?case by (auto simp: is_dir_iff)
qed simp

lemma write_file_apart:
  assumes h: "is_dir (walk_to fs here)" and w: "write_file fresh_id content here name fs = (r, fs')"
    and q: "\<not> prefix here q" "\<not> prefix q here"
  shows "walk_to fs' q = walk_to fs q"
proof -
  have n: "\<not> prefix (here @ [p]) q" for p using q(1) by (auto dest: append_prefixD)
  let ?t = "temporary_name fresh_id"
  define a where "a = put fs (here @ [?t]) (File 1 (length content) content)"
  have ha: "is_dir (walk_to a here)" unfolding a_def by (rule put_above [OF h]) simp
  have qa: "walk_to a q = walk_to fs q" unfolding a_def by (rule put_apart [OF h n q(2)])
  define b where "b = remove_at a (here @ [?t])"
  have hb: "is_dir (walk_to b here)" unfolding b_def by (rule remove_at_above [OF ha]) simp
  have qb: "walk_to b q = walk_to a q" unfolding b_def by (rule remove_at_apart [OF ha n q(2)])
  define c where "c = rename_to (here @ [?t]) (here @ [name]) a"
  have c: "c = a \<or> (\<exists>x. c = put b (here @ [name]) x)"
    by (auto simp: c_def rename_to_def b_def split: option.splits)
  have hc: "is_dir (walk_to c here)" using c ha put_above [OF hb, of here] by auto
  have qc: "walk_to c q = walk_to fs q" using c qa qb put_apart [OF hb n q(2)] by auto
  have "walk_to (remove_at c (here @ [?t])) q = walk_to c q" by (rule remove_at_apart [OF hc n q(2)])
  with qc have "walk_to (remove_at c (here @ [?t])) q = walk_to fs q" by simp
  moreover have "fs' = fs \<or> fs' = remove_at c (here @ [?t])"
    using w by (auto simp: write_file_def temporary_name_def Let_def a_def c_def split: if_splits)
  ultimately show ?thesis by auto
qed

lemma write_apart:
  assumes h: "is_dir (walk_to fs d)" and w: "write_confined fresh_id d raw content fs = (r, fs')"
    and q: "\<not> prefix d q" "\<not> prefix q d"
  shows "walk_to fs' q = walk_to fs q"
proof (cases "confined_parts raw")
  case (Inl e)
  with w show ?thesis by (simp add: write_confined_def confined_parent_def)
next
  case (Inr parts)
  obtain ro f1 where o: "open_parents True d (butlast parts) fs = (ro, f1)"
    by (cases "open_parents True d (butlast parts) fs")
  have o': "open_parents True [] (d @ butlast parts) fs = (ro, f1)"
    using open_within [of fs "[]" d True "butlast parts"] h o by simp
  have q1: "walk_to f1 q = walk_to fs q" by (rule open_apart [OF h o q])
  have d0: "is_dir (walk_to fs [])"
    using h walk_append [of fs "[]" d] by (cases d; cases fs) auto
  show ?thesis
  proof (cases ro)
    case (Inl e)
    with w Inr o' have "f1 = fs'" by (simp add: write_confined_def confined_parent_def)
    with q1 show ?thesis by simp
  next
    case (Inr here)
    with open_creates [OF d0 o'] have here: "here = d @ butlast parts" "is_dir (walk_to f1 here)" by auto
    obtain rw where rw: "write_file fresh_id content here (last parts) f1 = (rw, fs')"
      using w Inr o' \<open>confined_parts raw = Inr parts\<close>
      by (cases "write_file fresh_id content here (last parts) f1") (simp add: write_confined_def confined_parent_def)
    have "\<not> prefix here q" using q(1) here(1) by (auto dest: append_prefixD)
    moreover have "\<not> prefix q here" using q apart_append [of q d "butlast parts"] here(1) by simp
    ultimately show ?thesis using write_file_apart [OF here(2) rw] q1 by simp
  qed
qed

lemma write_dir:
  assumes "is_dir (Some fs)" and "is_dir (walk_to fs d)" and "write_confined fresh_id d raw content fs = (r, fs')"
  shows "is_dir (walk_to fs' d)"
  by (rule keeps_dir [OF write_inside [OF assms(1,3)] assms(2)]) simp

text \<open>What holds while a directory is filled: it stays one, and the rest of the tree is as before.\<close>

definition filling :: "string list \<Rightarrow> node \<Rightarrow> node \<Rightarrow> bool" where
  "filling d fs fs' \<longleftrightarrow> is_dir (Some fs') \<and> is_dir (walk_to fs' d)
     \<and> (\<forall>q. \<not> prefix d q \<longrightarrow> \<not> prefix q d \<longrightarrow> walk_to fs' q = walk_to fs q)"

lemma filling_refl: "is_dir (Some fs) \<Longrightarrow> is_dir (walk_to fs d) \<Longrightarrow> filling d fs fs"
  by (simp add: filling_def)

lemma filling_trans: "filling d a b \<Longrightarrow> filling d b c \<Longrightarrow> filling d a c"
  by (simp add: filling_def)

lemma write_filling:
  assumes "is_dir (Some fs)" and "is_dir (walk_to fs d)" and "write_confined fresh_id d raw content fs = (r, fs')"
  shows "filling d fs fs'"
  unfolding filling_def
  using write_dir [OF assms] write_apart [OF assms(2,3)] keeps_root [OF write_inside [OF assms(1,3)] assms(1)] by simp

lemma publish_files_filling:
  assumes "publish_files env gate label origin d files used i fs = (r, fs')"
    and "is_dir (Some fs)" and "is_dir (walk_to fs d)"
  shows "filling d fs fs'"
  using assms
proof (induction files arbitrary: used i fs)
  case Nil
  then show ?case by (simp add: filling_refl)
next
  case (Cons f files)
  obtain path expected where f: "f = (path, expected)" by force
  show ?case
  proof (cases "\<exists>c. write_confined (st_ids env i) d path c fs = write_confined (st_ids env i) d path c fs
      \<and> andthen (write_confined (st_ids env i) d path c fs)
          (\<lambda>_ fs. publish_files env gate label origin d files (used + length c) (Suc i) fs) = (r, fs')")
    case False
    then have "fs' = fs" using Cons.prems(1) f by (auto split: if_splits sum.splits)
    with Cons.prems show ?thesis by (simp add: filling_refl)
  next
    case True
    then obtain c where step: "andthen (write_confined (st_ids env i) d path c fs)
        (\<lambda>_ fs. publish_files env gate label origin d files (used + length c) (Suc i) fs) = (r, fs')" by blast
    obtain rw f1 where w: "write_confined (st_ids env i) d path c fs = (rw, f1)"
      by (cases "write_confined (st_ids env i) d path c fs")
    have k: "filling d fs f1" by (rule write_filling [OF Cons.prems(2,3) w])
    show ?thesis
    proof (cases rw)
      case (Inl e)
      with step w k show ?thesis by simp
    next
      case (Inr u)
      have "filling d f1 fs'" using step w Inr k by (intro Cons.IH) (auto simp: filling_def)
      with k show ?thesis by (rule filling_trans)
    qed
  qed
qed

lemma assemble_filling:
  assumes a: "assemble env base gate label identity m d fs = (r, fs')"
    and d: "is_dir (Some fs)" "is_dir (walk_to fs d)"
  shows "filling d fs fs'"
proof (cases "\<exists>files. map_of m ''files'' = Some (JObj files)")
  case False
  with a d show ?thesis by (auto simp: assemble_def filling_refl split: option.splits json.splits)
next
  case True
  then obtain files where files: "map_of m ''files'' = Some (JObj files)" by blast
  let ?o = "private_dir base @ [identity, ''files'']"
  obtain rp f1 where p: "publish_files env gate label ?o d files 0 3 fs = (rp, f1)"
    by (cases "publish_files env gate label ?o d files 0 3 fs")
  have k: "filling d fs f1" by (rule publish_files_filling [OF p d])
  show ?thesis
  proof (cases "fs' = f1")
    case False
    then obtain t where step: "andthen (write_confined (st_ids env 1) d commit_name t f1) (\<lambda>_ fs. (Inr t, fs)) = (r, fs')"
      using a files p by (cases rp) (auto simp: assemble_def Let_def split: sum.splits)
    obtain rw f2 where w: "write_confined (st_ids env 1) d commit_name t f1 = (rw, f2)"
      by (cases "write_confined (st_ids env 1) d commit_name t f1")
    with step have "f2 = fs'" by (cases rw) auto
    with write_filling [OF _ _ w] k show ?thesis by (auto simp: filling_def)
  qed (use k in simp)
qed

section \<open>The outcome of a release\<close>

definition destination_of :: "string list \<Rightarrow> string \<Rightarrow> string list" where
  "destination_of base identity = released_dir base @ [identity]"

definition release_result :: "store_env \<Rightarrow> string list \<Rightarrow> string \<Rightarrow> string list result \<Rightarrow> bool" where
  "release_result env base identity r =
     (if st_rename env \<noteq> Renamed \<or> \<not> st_public_synced env then \<exists>msg. r = Inl (PublicationUnknown msg)
      else if \<not> st_mirror_written env then r = Inl alias_error
      else case r of Inr d \<Rightarrow> d = destination_of base identity | Inl e \<Rightarrow> \<not> is_os_error e)"

lemma mirror_result:
  "mirror env base identity text fs = (r, fs') \<Longrightarrow>
   if st_mirror_written env then \<forall>e. r = Inl e \<longrightarrow> \<not> is_os_error e else r = Inl alias_error"
  by (auto simp: mirror_def converted_def alias_error_def split: sum.splits prod.splits if_splits)

lemma reveal_result:
  assumes v: "reveal env base identity pending text fs = (r, fs')" and "walk_to fs pending \<noteq> None"
    and "published base identity fs' " and "\<not> published base identity fs"
  shows "release_result env base identity r"
proof -
  define moved where "moved = rename_to pending (released_dir base @ [identity]) fs"
  obtain rm f2 where m: "mirror env base identity text moved = (rm, f2)"
    by (cases "mirror env base identity text moved")
  show ?thesis
  proof (cases "st_rename env = Renamed \<and> st_public_synced env")
    case True
    with v m have "r = (case rm of Inl e \<Rightarrow> Inl e | Inr _ \<Rightarrow> Inr (released_dir base @ [identity]))"
      by (cases rm) (auto simp: reveal_def Let_def moved_def)
    with mirror_result [OF m] True show ?thesis
      by (cases rm) (auto simp: release_result_def destination_of_def split: if_splits)
  next
    case False
    with v assms(3,4) show ?thesis
      by (cases "st_rename env") (auto simp: reveal_def Let_def release_result_def split: if_splits)
  qed
qed

lemma publish_result:
  assumes d: "is_dir (Some fs)" "is_dir (walk_to fs pending)" and pending: "pending = private_dir base @ [name]"
    and np: "\<not> published base identity fs" and p: "published base identity fs'"
    and v: "publish env base gate label identity m pending fs = (r, fs')"
  shows "release_result env base identity r"
proof -
  obtain ra f1 where a: "assemble env base gate label identity m pending fs = (ra, f1)"
    by (cases "assemble env base gate label identity m pending fs")
  have k: "filling pending fs f1" by (rule assemble_filling [OF a d])
  have "walk_to f1 (released_dir base @ [identity]) = walk_to fs (released_dir base @ [identity])"
    using k private_released [of base "[name]" "[identity]"]  private_released(2) [of base "[identity]" "[name]"]
    unfolding filling_def pending by blast
  then have np1: "\<not> published base identity f1" using np by (simp add: published_def)
  have "walk_to f1 pending \<noteq> None" using k by (auto simp: filling_def is_dir_iff)
  moreover obtain t where "reveal env base identity pending t f1 = (r, fs')"
    using v a np1 p by (cases ra) (auto simp: publish_def split: if_splits)
  ultimately show ?thesis using reveal_result p np1 by blast
qed

lemma release_reports:
  assumes d: "is_dir (Some fs)" and v: "release env base gate label identity fs = (r, fs')"
    and np: "\<not> published base identity fs" and p: "published base identity fs'"
  shows "release_result env base identity r"
  using v [unfolded release_def]
proof (cases rule: locked_cases)
  case (ran f0)
  let ?name = "''.publication-'' @ st_ids env 0"
  let ?pending = "private_dir base @ [?name]"
  have d0: "is_dir (Some f0)" by (rule keeps_root [OF ran(1) d]) simp
  have np0: "\<not> published base identity f0" using np ran(3) [of "[identity]"] by (simp add: published_def)
  have ne: "fs' \<noteq> f0" using np0 p by auto
  obtain r1 f1 where mk: "make_dir (private_dir base) ?name f0 = (r1, f1)" by force
  obtain m where i: "checked_id identity = Inr identity"
    and step: "andthen (r1, f1) (\<lambda>_ fs. apsnd (\<lambda>fs. remove_at fs ?pending)
        (publish env base gate label identity m ?pending fs)) = (r, fs')"
    using ran(2) ne np0 mk
    by (auto simp: release_unlocked_def Let_def checked_id_iff split: sum.splits option.splits if_splits)
  obtain u where r1: "r1 = Inr u"
    using step ne make_dir_error [of "private_dir base" ?name f0] mk by (cases r1) auto
  note mk = make_dir_ok [OF mk [unfolded r1]]
  obtain f2 where pub: "publish env base gate label identity m ?pending f1 = (r, f2)" and fs': "fs' = remove_at f2 ?pending"
    using step r1 by (cases "publish env base gate label identity m ?pending f1") auto
  have d1: "is_dir (Some f1)" by (rule keeps_root [OF mk(4) d0]) simp
  have apart: "\<not> prefix ?pending (released_dir base @ [identity])" "\<not> prefix (released_dir base @ [identity]) (private_dir base)"
    using private_released(1) [of base "[?name]" "[identity]"] by simp_all
  have np1: "\<not> published base identity f1"
    using np0 put_apart [OF mk(1) apart] by (simp add: published_def mk(3))
  have e: "walk_to f1 (?pending @ q) = walk_to (Dir []) q" for q using mk(6) [of q] by simp
  have "?name \<noteq> identity" using checked_id_dot [OF i] by auto
  from publish_ok [OF d1 this refl e np1 pub] have "is_dir (walk_to f2 (private_dir base))" by blast
  then have "walk_to fs' (released_dir base @ [identity]) = walk_to f2 (released_dir base @ [identity])"
    unfolding fs' by (rule remove_at_apart [OF _ apart])
  then have "published base identity f2" using p by (simp add: published_def)
  with publish_result [OF d1 _ refl np1 _ pub] e [of "[]"] show ?thesis by simp
qed (use np p in auto)

end
