(* ===== verification/StoreSamples.thy ===== *)
theory StoreSamples
  imports ReleaseReports
begin

text \<open>A store with one quarantined note, for the witnesses and the findings.\<close>

definition policy_hash :: string where
  "policy_hash = replicate 64 (CHR ''0'')"

definition note_env :: "bool \<Rightarrow> store_env" where
  "note_env mirrored = \<lparr>st_sha = (\<lambda>s. if s = ''ok'' then ''d1'' else policy_hash),
     st_copy = \<lparr>ce_late = (\<lambda>_. False), ce_changed = (\<lambda>_. False), ce_prohibited = (\<lambda>_. False)\<rparr>,
     st_ids = (\<lambda>i. replicate i (CHR ''a'')), st_pending_synced = True, st_same_device = True, st_rename = Renamed,
     st_public_synced = True, st_mirror_written = mirrored\<rparr>"

definition note_gate :: release_gate where
  "note_gate = \<lparr>rg_sinks = [''artifact''], rg_labels = [''public''], rg_prohibited = [''key''],
     rg_max_bytes = 9, rg_suffixes = [''.txt'']\<rparr>"

definition note_record :: "string \<Rightarrow> json pydict" where
  "note_record path = [(''id'', JStr ''x''), (''status'', JStr ''quarantined''), (''files'', JObj [(path, JStr ''d1'')])]"

definition note_text :: "string \<Rightarrow> string" where
  "note_text path = dumps_text json_escape (JObj (note_record path))"

definition note_store :: "string \<Rightarrow> node" where
  "note_store path =
     Dir [(''s'', Dir [(''quarantine'', Dir [(''.lock'', File 1 0 []),
       (''x'', Dir [(''files'', Dir [(''n.txt'', File 1 2 ''ok'')]), (''manifest.json'', File 1 9 (note_text path))])]),
       (''released'', Dir [])])]"

definition note_commit :: "string \<Rightarrow> json" where
  "note_commit path = JObj (commit_record (note_record path) ''public'' (policy_hash))"

definition commit_text :: "string \<Rightarrow> string" where
  "commit_text path = (case canonical_text (note_commit path) of Inr t \<Rightarrow> t | Inl _ \<Rightarrow> [])"

definition note_released :: "bool \<Rightarrow> string \<Rightarrow> node" where
  "note_released mirrored path =
     Dir [(''s'', Dir [(''quarantine'', Dir [(''.lock'', File 1 0 []),
       (''x'', Dir [(''files'', Dir [(''n.txt'', File 1 2 ''ok'')]),
          (''manifest.json'', if mirrored then File 1 (length (commit_text path)) (commit_text path) else File 1 9 (note_text path))])]),
       (''released'', Dir [(''x'', Dir [(''n.txt'', File 1 2 ''ok''),
          (commit_name, File 1 (length (commit_text path)) (commit_text path))])])])]"

abbreviation listed_name :: "string \<Rightarrow> bool" where
  "listed_name path \<equiv> path \<in> {''n.txt'', ''./n.txt''}"

text \<open>The parts of the runs that only compute, for the plain name and for another spelling of it.\<close>

lemma note_evaluates:
  "json_loads (note_text ''n.txt'') = Some (JObj (note_record ''n.txt''))"
  "confined_parts ''n.txt'' = Inr [''n.txt'']"
  "casefold (path_suffix ''n.txt'') = ''.txt''"
  "canonical_text (note_commit ''n.txt'') = Inr (commit_text ''n.txt'')"
  "json_nodes (note_commit ''n.txt'') = 9" "json_depth (note_commit ''n.txt'') = 2"
  "map_option length (dumps (note_commit ''n.txt'')) = Some 182" "length (note_text ''n.txt'') < 100"
  by code_simp+

lemma respelled_evaluates:
  "json_loads (note_text ''./n.txt'') = Some (JObj (note_record ''./n.txt''))"
  "confined_parts ''./n.txt'' = Inr [''n.txt'']"
  "casefold (path_suffix ''./n.txt'') = ''.txt''"
  "canonical_text (note_commit ''./n.txt'') = Inr (commit_text ''./n.txt'')"
  "json_nodes (note_commit ''./n.txt'') = 9" "json_depth (note_commit ''./n.txt'') = 2"
  "map_option length (dumps (note_commit ''./n.txt'')) = Some 184" "length (note_text ''./n.txt'') < 100"
  by code_simp+

lemma names_evaluate:
  "confined_parts ''manifest.json'' = Inr [''manifest.json'']"
  "confined_parts commit_name = Inr [commit_name]" "checked_id ''x'' = Inr ''x''"
  "confined_parts ''.traceguard-commit.json'' = Inr [''.traceguard-commit.json'']"
  by code_simp+

lemma ok_releasable: "releasable note_gate ''artifact'' ''public'' ''ok''"
proof -
  have s: "loads_or_text ''ok'' = JStr ''ok''" by code_simp
  have "json_nodes (JStr ''ok'') = 1" "json_depth (JStr ''ok'') = 0" "dumps (JStr ''ok'') = Some (json_quote ''ok'')"
    "length (json_quote ''ok'') = 4" by code_simp+
  moreover have "\<not> contains ''key'' ''ok''" "\<not> contains ''key'' (dumps_text raw_escape (JStr ''ok''))" by code_simp+
  moreover have "redact_value default_redaction (JStr ''ok'') = JStr ''ok''" by code_simp
  ultimately show ?thesis by (simp add: releasable_def note_gate_def s)
qed

lemma ok_authorized: "authorize note_gate ''artifact'' ''ok'' ''public'' = Inr ''ok''"
  using ok_releasable by (simp add: authorize_iff)

definition gate_text :: string where
  "gate_text = (case canonical_text (gate_json note_gate) of Inr t \<Rightarrow> t | Inl _ \<Rightarrow> [])"

lemma canonical_gate: "canonical_text (gate_json note_gate) = Inr gate_text" "gate_text \<noteq> ''ok''"
  by code_simp+

lemma gate_digest: "st_sha (note_env w) gate_text = policy_hash"
  using canonical_gate(2) by (simp add: note_env_def)

lemmas tree_run = write_confined_def confined_parent_def write_file_def regular_def rename_to_def names_evaluate Let_def
  converted_def

lemma commit_valid:
  "listed_name path \<Longrightarrow> validate_json (note_commit path) 1048576 16384 32 = Inr ()"
  using note_evaluates respelled_evaluates by (auto simp: validate_json_iff)

definition note_pending :: "string \<Rightarrow> (string \<times> node) list \<Rightarrow> node" where
  "note_pending path es =
     Dir [(''s'', Dir [(''quarantine'', Dir [(''.lock'', File 1 0 []),
       (''x'', Dir [(''files'', Dir [(''n.txt'', File 1 2 ''ok'')]), (''manifest.json'', File 1 9 (note_text path))]),
       (''.publication-'', Dir es)]),
       (''released'', Dir [])])]"

lemma note_assembles:
  assumes "listed_name path"
  shows "assemble (note_env w) [''s''] note_gate ''public'' ''x'' (note_record path) [''s'', ''quarantine'', ''.publication-'']
      (note_pending path []) = (Inr (commit_text path),
        note_pending path [(''n.txt'', File 1 2 ''ok''), (commit_name, File 1 (length (commit_text path)) (commit_text path))])"
proof -
  have p: "confined_parts path = Inr [''n.txt'']" "casefold (path_suffix path) = ''.txt''"
    "canonical_text (note_commit path) = Inr (commit_text path)"
    using assms note_evaluates respelled_evaluates by auto
  have rd: "read_confined [''s'', ''quarantine'', ''x'', ''files''] path 9 (note_pending path []) = Inr ''ok''"
    by (simp add: read_confined_iff note_pending_def p)
  note t = canonical_gate(1) gate_digest
  have w1: "write_confined (''aaa'') [''s'', ''quarantine'', ''.publication-''] path ''ok'' (note_pending path [])
      = (Inr (), note_pending path [(''n.txt'', File 1 2 ''ok'')])"
    by (simp add: tree_run note_pending_def p)
  have w2: "write_confined (''a'') [''s'', ''quarantine'', ''.publication-''] commit_name tx
        (note_pending path [(''n.txt'', File 1 2 ''ok'')])
      = (Inr (), note_pending path [(''n.txt'', File 1 2 ''ok''), (commit_name, File 1 (length tx) tx)])" for tx
    by (simp add: tree_run note_pending_def commit_name_def)
  have g: "rg_max_bytes note_gate = 9" "rg_suffixes note_gate = [''.txt'']" "st_ids (note_env w) 3 = ''aaa''" "st_ids (note_env w) 1 = ''a''"
    "st_sha (note_env w) ''ok'' = ''d1''" by (simp_all add: note_gate_def note_env_def numeral_eq_Suc)
  have r: "map_of (note_record path) ''files'' = Some (JObj [(path, JStr ''d1'')])"
    "JObj (commit_record (note_record path) ''public'' policy_hash) = note_commit path"
    by (simp_all add: note_record_def note_commit_def)
  show ?thesis
    using commit_valid [OF assms]
    by (simp add: assemble_def private_dir_def p g r rd w1 w2 t ok_authorized del: One_nat_def)
qed

lemma note_env_fields:
  "st_rename (note_env w) = Renamed" "st_public_synced (note_env w)" "st_mirror_written (note_env w) = w"
  "st_pending_synced (note_env w)" "st_same_device (note_env w)" "st_ids (note_env w) 2 = ''aa''" "st_ids (note_env w) 0 = []"
  by (simp_all add: note_env_def numeral_2_eq_2)

lemma note_run:
  assumes "listed_name path"
  shows "release (note_env w) [''s''] note_gate ''public'' ''x'' (note_store path)
    = (if w then Inr [''s'', ''released'', ''x''] else Inl alias_error, note_released w path)"
    (is "_ = (?r, _)")
proof -
  have j: "json_loads (note_text path) = Some (JObj (note_record path))"
    using assms note_evaluates respelled_evaluates by auto
  have lt: "length (note_text path) \<le> 1048576"
    using assms note_evaluates respelled_evaluates by auto
  have rd: "read_confined [''s'', ''quarantine'', ''x''] ''manifest.json'' 1048576 (note_store path) = Inr (note_text path)"
    using lt by (simp add: read_confined_iff note_store_def names_evaluate)
  have np: "\<not> published [''s''] ''x'' (note_store path)"
    by (simp add: published_def released_dir_def note_store_def)
  have "jget (note_record path) ''status'' = JStr ''quarantined''" by (simp add: note_record_def dict_get_def)
  then have m: "manifest_of (st_sha (note_env w)) [''s''] ''x'' (note_store path) = Inr (note_record path)"
    using rd np by (simp add: manifest_of_def names_evaluate private_dir_def j)
  have st: "map_of (note_record path) ''status'' = Some (JStr ''quarantined'')" by (simp add: note_record_def)
  let ?p = "[''s'', ''quarantine'', ''.publication-'']"
  have mk: "make_dir [''s'', ''quarantine''] ''.publication-'' (note_store path) = (Inr (), note_pending path [])"
    by (simp add: make_dir_def note_store_def note_pending_def)
  define f where "f = note_pending path [(''n.txt'', File 1 2 ''ok''),
      (commit_name, File 1 (length (commit_text path)) (commit_text path))]"
  have f: "is_dir (walk_to f [''s'', ''released''])" "\<not> published [''s''] ''x'' f"
    by (simp_all add: f_def note_pending_def published_def released_dir_def)
  define g where "g = rename_to ?p [''s'', ''released'', ''x''] f"
  have wr: "write_confined ''aa'' [''s'', ''quarantine'', ''x''] ''manifest.json'' (commit_text path) g
      = (Inr (), note_released True path)"
    by (simp add: g_def f_def tree_run note_pending_def note_released_def)
  have unmirrored: "g = note_released False path"
    by (simp add: g_def f_def rename_to_def note_pending_def note_released_def)
  note e = note_env_fields
  have v: "reveal (note_env w) [''s''] ''x'' ?p (commit_text path) f = (?r, note_released w path)"
    by (cases w) (simp_all add: reveal_def mirror_def e released_dir_def private_dir_def wr unmirrored [symmetric]
        converted_def alias_error_def flip: g_def)
  have "publish (note_env w) [''s''] note_gate ''public'' ''x'' (note_record path) ?p (note_pending path [])
      = (?r, note_released w path)"
    using note_assembles [OF assms, folded f_def] f by (simp add: publish_def v e released_dir_def)
  moreover have "remove_at (note_released w path) ?p = note_released w path" by (simp add: note_released_def)
  ultimately have u: "release_unlocked (note_env w) [''s''] note_gate ''public'' ''x'' (note_store path)
      = (?r, note_released w path)"
    by (simp add: release_unlocked_def names_evaluate np m st private_dir_def e mk)
  have "walk_to (note_store path) [''s'', ''quarantine'', ''.lock''] = Some (File 1 0 [])" by (simp add: note_store_def)
  with u show ?thesis by (simp add: release_def locked_def private_dir_def)
qed

lemma note_unpublished: "is_dir (Some (note_store path))" "\<not> published [''s''] ''x'' (note_store path)"
  by (simp_all add: note_store_def published_def released_dir_def)

lemma note_published: "published [''s''] ''x'' (note_released w path)"
  "leaf (note_released w path) [''s'', ''released'', ''x'', ''n.txt''] = Some (File 1 2 ''ok'')"
  by (simp_all add: note_released_def published_def released_dir_def leaf_def)

text \<open>The two bundles seen by a consumer.\<close>

definition sorted_commit :: "string \<Rightarrow> json pydict" where
  "sorted_commit path =
     [(''files'', JObj [(path, JStr ''d1'')]), (''id'', JStr ''x''), (''label'', JStr ''public''),
      (''policy_digest'', JStr policy_hash), (''schema'', JInt 1), (''sink'', JStr ''artifact''), (''status'', JStr ''released'')]"

lemma commit_loads:
  "json_loads (commit_text ''n.txt'') = Some (JObj (sorted_commit ''n.txt''))" "length (commit_text ''n.txt'') < 200"
  "commit_fields ''x'' (sorted_commit ''n.txt'')"
  "json_nodes (JObj (sorted_commit ''n.txt'')) = 9" "json_depth (JObj (sorted_commit ''n.txt'')) = 2"
  "map_option length (dumps (JObj (sorted_commit ''n.txt''))) = Some 182"
  "json_loads (commit_text ''./n.txt'') = Some (JObj (sorted_commit ''./n.txt''))"
  "json_sub (jget (sorted_commit ''n.txt'') ''files'') = [(''n.txt'', JStr ''d1'')]"
  "json_sub (jget (sorted_commit ''./n.txt'') ''files'') = [(''./n.txt'', JStr ''d1'')]"
  by code_simp+

lemma commit_valid_json: "validate_json (JObj (sorted_commit ''n.txt'')) 1048576 16384 32 = Inr ()"
  using commit_loads(4,5,6) by (auto simp: validate_json_iff)

lemma note_tree:
  "walk_to (note_released w path) [''s'', ''released'', ''x''] =
     Some (Dir [(''n.txt'', File 1 2 ''ok''), (commit_name, File 1 (length (commit_text path)) (commit_text path))])"
  by (simp add: note_released_def)

lemma note_listing:
  "listing [] (Dir [(''n.txt'', File 1 2 ''ok''), (commit_name, File 1 l t)])
     = [([''n.txt''], File 1 2 ''ok''), ([commit_name], File 1 l t)]"
  by simp

lemma note_committed:
  "committed (st_sha (note_env w)) True [''s''] ''x'' (note_released w ''n.txt'') = Inr (sorted_commit ''n.txt'')"
proof -
  have d: "is_dir (Some (note_released w ''n.txt''))" by (simp add: note_released_def)
  have c: "read_confined [''s'', ''released'', ''x''] commit_name 1048576 (note_released w ''n.txt'') = Inr (commit_text ''n.txt'')"
    unfolding read_confined_iff [OF d] names_evaluate(2) using commit_loads(2)
    by (simp add: note_released_def commit_name_def)
  have n: "read_confined [''s'', ''released'', ''x''] ''n.txt'' 16777216 (note_released w ''n.txt'') = Inr ''ok''"
    unfolding read_confined_iff [OF d] note_evaluates(2) by (simp add: note_released_def)
  have "bundle_files [([''n.txt''], File (Suc 0) 2 ''ok''), ([commit_name], File (Suc 0) l t)] = [''n.txt'', commit_name]" for l t
    by (simp add: bundle_files_def join_names_def)
  then show ?thesis
    using commit_loads(1,3) commit_valid_json note_tree c n
    by (simp add: committed_def committed_manifest_def names_evaluate released_dir_def commit_loads(8)
        note_env_def insert_commute)
qed

lemma note_rejected:
  "reject (note_env w) [''s''] ''x'' (note_released w ''n.txt'')
     = (Inl (AlreadyPublished ''artifact already published; rejection cannot withdraw it''), note_released w ''n.txt'')"
proof -
  have l: "walk_to (note_released w ''n.txt'') (private_dir [''s''] @ [''.lock'']) = Some (File 1 0 [])"
    by (simp add: note_released_def private_dir_def)
  show ?thesis
    unfolding reject_def locked_def l Let_def option.case node.case reject_unlocked_def
    by (simp add: note_committed note_published names_evaluate)
qed

lemma note_proper:
  "walk_to (note_released w ''n.txt'') ([''s'', ''released'', ''x''] @ p) = Some n \<Longrightarrow> list_all proper p"
  unfolding walk_append note_tree option.case
  by (cases p; cases "tl p") (auto simp: proper_def commit_name_def split: if_splits option.splits)

text \<open>Under another spelling of the path the release succeeds, and its bundle never verifies.\<close>

lemma respelled_unverifiable:
  "fst (release (note_env True) [''s''] note_gate ''public'' ''x'' (note_store ''./n.txt'')) = Inr [''s'', ''released'', ''x'']
   \<and> committed sha durable [''s''] ''x'' (snd (release (note_env True) [''s''] note_gate ''public'' ''x'' (note_store ''./n.txt'')))
     = Inl unknown_publication"
proof -
  have "committed_manifest sha [''s''] ''x'' (note_released True ''./n.txt'') = None"
  proof (rule ccontr)
    assume "committed_manifest sha [''s''] ''x'' (note_released True ''./n.txt'') \<noteq> None"
    then obtain m where m: "committed_manifest sha [''s''] ''x'' (note_released True ''./n.txt'') = Some m" by auto
    have d: "is_dir (Some (note_released True ''./n.txt''))" by (simp add: note_released_def)
    have rd: "read_confined [''s'', ''released'', ''x''] commit_name 1048576 (note_released True ''./n.txt'') = Inr t \<Longrightarrow>
        t = commit_text ''./n.txt''" for t
      unfolding read_confined_iff [OF d] names_evaluate(2) by (auto simp: note_released_def commit_name_def)
    with m have "m = sorted_commit ''./n.txt''" using commit_loads(7)
      by (auto simp: committed_manifest_def Let_def released_dir_def split: sum.splits option.splits json.splits if_splits)
    with committed_manifest_ok(3) [OF m] note_tree [of True "''./n.txt''"]
    have "set (bundle_files [([''n.txt''], File 1 2 ''ok''), ([commit_name], File 1 (length (commit_text ''./n.txt'')) (commit_text ''./n.txt''))])
        = {''./n.txt'', commit_name}"
      by (auto simp: released_dir_def commit_loads(9))
    then show False by (simp add: bundle_files_def join_names_def commit_name_def doubleton_eq_iff)
  qed
  then show ?thesis by (simp add: note_run committed_def names_evaluate)
qed

text \<open>A mirror that cannot be written: the release fails although the bundle is public.\<close>

lemma mirror_failure_reported:
  "release (note_env False) [''s''] note_gate ''public'' ''x'' (note_store ''n.txt'') = (Inl alias_error, note_released False ''n.txt'')
   \<and> published [''s''] ''x'' (note_released False ''n.txt'')"
  using note_run [of "''n.txt''" False] note_published by simp

end
