(* ===== verification/SandboxConfig.thy ===== *)
theory SandboxConfig
  imports Types PyRegex JsonText
begin

text \<open>
  \<open>sandbox/config.py\<close>: the profiles of the container runner and the boundary every trusted
  configuration must keep. Pydantic's reading of a field is a parameter; its constraints are here.
\<close>

section \<open>Profiles\<close>

record artifact_limits =
  al_max_files :: nat
  al_max_total :: nat
  al_max_file :: nat
  al_max_entries :: nat
  al_max_depth :: nat
  al_max_inodes :: nat

definition default_artifact_limits :: artifact_limits where
  "default_artifact_limits = \<lparr>al_max_files = 64, al_max_total = 16777216, al_max_file = 8388608,
     al_max_entries = 256, al_max_depth = 16, al_max_inodes = 512\<rparr>"

definition valid_artifact_limits :: "artifact_limits \<Rightarrow> bool" where
  "valid_artifact_limits l \<longleftrightarrow>
     1 \<le> al_max_files l \<and> al_max_files l \<le> 4096 \<and> 1024 \<le> al_max_total l \<and> al_max_total l \<le> 16777216
     \<and> 1024 \<le> al_max_file l \<and> al_max_file l \<le> 8388608 \<and> 1 \<le> al_max_entries l \<and> al_max_entries l \<le> 4096
     \<and> 1 \<le> al_max_depth l \<and> al_max_depth l \<le> 32 \<and> 16 \<le> al_max_inodes l \<and> al_max_inodes l \<le> 8192"

record input_limits =
  il_max_entries :: nat
  il_max_bytes :: nat
  il_max_file_bytes :: nat
  il_max_depth :: nat
  il_timeout :: rat

definition default_input_limits :: input_limits where
  "default_input_limits = \<lparr>il_max_entries = 1024, il_max_bytes = 16777216, il_max_file_bytes = 8388608,
     il_max_depth = 16, il_timeout = 5\<rparr>"

definition valid_input_limits :: "input_limits \<Rightarrow> bool" where
  "valid_input_limits l \<longleftrightarrow>
     1 \<le> il_max_entries l \<and> il_max_entries l \<le> 16384 \<and> 1 \<le> il_max_bytes l \<and> il_max_bytes l \<le> 268435456
     \<and> 1 \<le> il_max_file_bytes l \<and> il_max_file_bytes l \<le> 268435456 \<and> 1 \<le> il_max_depth l \<and> il_max_depth l \<le> 32
     \<and> 0 < il_timeout l \<and> il_timeout l \<le> 30"

record sandbox_profile =
  sp_enabled :: bool
  sp_network :: string
  sp_input_mode :: string
  sp_output_mode :: string
  sp_limits :: sandbox_limits
  sp_tmpfs_mb :: int
  sp_artifact_limits :: artifact_limits
  sp_input_limits :: input_limits

definition valid_profile :: "sandbox_profile \<Rightarrow> bool" where
  "valid_profile p \<longleftrightarrow>
     sp_network p \<in> {''none'', ''allowlist''} \<and> sp_input_mode p \<in> {''none'', ''copy_readonly''}
     \<and> sp_output_mode p \<in> {''none'', ''allowlisted''} \<and> valid_limits (sp_limits p)
     \<and> 8 \<le> sp_tmpfs_mb p \<and> sp_tmpfs_mb p \<le> 1024
     \<and> valid_artifact_limits (sp_artifact_limits p) \<and> valid_input_limits (sp_input_limits p)"

section \<open>The configuration\<close>

record sandbox_config =
  sx_version :: string
  sx_image :: string
  sx_architectures :: "string list"
  sx_user :: string
  sx_profiles :: "sandbox_profile pydict"

definition lower_alnum :: "char \<Rightarrow> bool" where
  "lower_alnum c \<longleftrightarrow> CHR ''a'' \<le> c \<and> c \<le> CHR ''z'' \<or> is_digit c"

definition hex_char :: "char \<Rightarrow> bool" where
  "hex_char c \<longleftrightarrow> CHR ''a'' \<le> c \<and> c \<le> CHR ''f'' \<or> is_digit c"

definition pinned_image_re :: re where
  "pinned_image_re =
     cat_all [Cls lower_alnum, Rep (Cls (\<lambda>c. lower_alnum c \<or> c \<in> set ''._/-'')),
       opt (Cat (Cls (\<lambda>c. c = CHR '':'')) (plus (Cls (\<lambda>c. is_alpha c \<or> is_digit c \<or> c \<in> set ''._-'')))),
       lit ''@sha256:'', times 64 (Cls hex_char), StrEnd]"

definition user_re :: re where
  "user_re = cat_all [plus (Cls is_digit), Cls (\<lambda>c. c = CHR '':''), plus (Cls is_digit)]"

definition enabled_profiles :: "string list" where
  "enabled_profiles = [''isolated_compute'', ''readonly_input'', ''artifact_build'']"

definition valid_fields :: "sandbox_config \<Rightarrow> bool" where
  "valid_fields c \<longleftrightarrow>
     sx_version c \<noteq> [] \<and> sx_architectures c \<noteq> [] \<and> set (sx_architectures c) \<subseteq> {''arm64'', ''amd64''}
     \<and> re_fullmatch user_re (sx_user c) \<and> list_all (valid_profile \<circ> snd) (sx_profiles c)"

definition safe_profile :: "sandbox_config \<Rightarrow> string \<Rightarrow> bool" where
  "safe_profile c name \<longleftrightarrow>
     (case map_of (sx_profiles c) name of None \<Rightarrow> False | Some p \<Rightarrow> sp_enabled p \<and> sp_network p = ''none'')"

definition validate_safety_boundary :: "sandbox_config \<Rightarrow> unit result" where
  "validate_safety_boundary c =
     (if \<not> re_fullmatch pinned_image_re (sx_image c)
      then Inl (ValueError ''sandbox image must use an immutable sha256 digest'')
      else if \<not> set (dict_keys (sx_profiles c)) \<subseteq> set (''restricted_network'' # enabled_profiles)
      then Inl (ValueError ''unsupported sandbox profiles in trusted config'')
      else if \<not> set enabled_profiles \<subseteq> set (dict_keys (sx_profiles c))
      then Inl (ValueError ''missing sandbox profiles'')
      else if \<not> list_all (safe_profile c) enabled_profiles
      then Inl (ValueError ''profile must be enabled with network=none'')
      else case map_of (sx_profiles c) ''restricted_network'' of
        None \<Rightarrow> Inl (ValueError ''restricted_network must remain present and disabled'')
      | Some p \<Rightarrow>
          if sp_enabled p then Inl (ValueError ''restricted_network must remain present and disabled'')
          else Inr ())"

definition model_validate :: "(json \<Rightarrow> sandbox_config option) \<Rightarrow> json \<Rightarrow> sandbox_config result" where
  "model_validate read_fields v =
     (case read_fields v of
        None \<Rightarrow> Inl (ValueError ''validation error'')
      | Some c \<Rightarrow> if \<not> valid_fields c then Inl (ValueError ''validation error'')
                   else (case validate_safety_boundary c of Inl e \<Rightarrow> Inl e | Inr _ \<Rightarrow> Inr c))"

definition load_sandbox_configuration ::
  "(json \<Rightarrow> sandbox_config option) \<Rightarrow> string result \<Rightarrow> sandbox_config result" where
  "load_sandbox_configuration read_fields contents =
     (case contents of
        Inl e \<Rightarrow> Inl (if is_os_error e \<or> exn_name e = ''UnicodeDecodeError''
                      then ValueError ''cannot load trusted sandbox configuration'' else e)
      | Inr text \<Rightarrow>
          (case json_loads text of
             None \<Rightarrow> Inl (ValueError ''cannot load trusted sandbox configuration'')
           | Some v \<Rightarrow> model_validate read_fields v))"

text \<open>What a loaded configuration satisfies.\<close>

definition trusted_config :: "sandbox_config \<Rightarrow> bool" where
  "trusted_config c \<longleftrightarrow>
     valid_fields c \<and> re_fullmatch pinned_image_re (sx_image c) \<and> list_all (safe_profile c) enabled_profiles
     \<and> (\<exists>p. map_of (sx_profiles c) ''restricted_network'' = Some p \<and> \<not> sp_enabled p)"

lemma load_trusted: "load_sandbox_configuration read_fields contents = Inr c \<Longrightarrow> trusted_config c"
  by (auto simp: load_sandbox_configuration_def model_validate_def validate_safety_boundary_def trusted_config_def
      split: sum.splits option.splits if_splits)

end
