(* ===== verification/Monitor.thy ===== *)
theory Monitor
  imports SandboxConfig ArtifactStore Authority Doubles
begin

text \<open>
  The resource monitor of \<open>sandbox/runner.py\<close>: a thread that hands Docker two commands in turn
  until it is told to stop, and keeps the largest memory and disk usage of the container it saw.
  Docker's replies are parameters; \<open>Sandbox\<close> interleaves the thread with the runner.
\<close>

datatype docker_reply =
    Completed int string string
  | Expired string string string
  | NoCommand
  | Fault string

section \<open>Sizes as Docker prints them\<close>

definition docker_units :: "(string \<times> nat) list" where
  "docker_units =
     [(''b'', 1), (''kb'', 1000), (''kib'', 1024), (''mb'', 1000000), (''mib'', 1048576),
      (''gb'', 1000000000), (''gib'', 1073741824), (''tb'', 1000000000000), (''tib'', 1099511627776)]"

definition docker_unit :: "string \<Rightarrow> bool" where
  "docker_unit s \<longleftrightarrow> s \<in> set (dict_keys docker_units) \<or> s = ''ib''"

text \<open>The amount and the unit the pattern splits a text into.\<close>

definition split_size :: "string \<Rightarrow> (string list \<times> string) option" where
  "split_size v =
     (let s = casefold v; digits = takeWhile (\<lambda>c. is_digit c \<or> c = CHR ''.'') s;
          unit_text = dropWhile is_space (drop (length digits) s); parts = split_on (CHR ''.'') digits
      in if length parts \<le> 2 \<and> list_all all_digits parts \<and> docker_unit unit_text then Some (parts, unit_text) else None)"

fun docker_amount :: "string list \<Rightarrow> rat" where
  "docker_amount [whole, part] = double (of_nat (digits_val (whole @ part)) / 10 ^ length part)"
| "docker_amount [whole] = double (of_nat (digits_val whole))"
| "docker_amount _ = 0"

definition parse_docker_bytes :: "string \<Rightarrow> int option result" where
  "parse_docker_bytes v =
     (case split_size v of
        None \<Rightarrow> Inr None
      | Some (parts, u) \<Rightarrow>
          (case map_of docker_units u of
             None \<Rightarrow> Inl (KeyError u)
           | Some k \<Rightarrow> Inr (Some \<lfloor>double (docker_amount parts * of_nat k)\<rfloor>)))"

section \<open>Samples\<close>

type_synonym usage = "int option \<times> int option"

definition keep_most :: "int option \<Rightarrow> int \<Rightarrow> int option" where
  "keep_most old n = Some (max n (case old of None \<Rightarrow> 0 | Some m \<Rightarrow> m))"

definition sample_memory :: "docker_reply \<Rightarrow> usage \<Rightarrow> usage result" where
  "sample_memory reply u =
     (case reply of
        Completed code out err \<Rightarrow>
          if code \<noteq> 0 then Inr u
          else (case parse_docker_bytes (py_strip (takeWhile (\<lambda>c. c \<noteq> CHR ''/'') out)) of
             Inl e \<Rightarrow> Inl e
           | Inr None \<Rightarrow> Inr u
           | Inr (Some n) \<Rightarrow> Inr (keep_most (fst u) n, snd u))
      | Expired m out err \<Rightarrow> Inl (TimeoutExpired m out err)
      | NoCommand \<Rightarrow> Inl (OSError ''docker'')
      | Fault m \<Rightarrow> Inl (PermissionError m))"

definition sample_disk :: "docker_reply \<Rightarrow> usage \<Rightarrow> usage result" where
  "sample_disk reply u =
     (case reply of
        Completed code out err \<Rightarrow>
          if code \<noteq> 0 then Inr u
          else (case signed_digits (py_strip out) of
             None \<Rightarrow> Inl (ValueError ''invalid literal for int()'')
           | Some n \<Rightarrow> Inr (fst u, keep_most (snd u) n))
      | Expired m out err \<Rightarrow> Inl (TimeoutExpired m out err)
      | NoCommand \<Rightarrow> Inl (OSError ''docker'')
      | Fault m \<Rightarrow> Inl (PermissionError m))"

fun passed_over :: "exn \<Rightarrow> bool" where
  "passed_over (OSError _) = True"
| "passed_over (TimeoutExpired _ _ _) = True"
| "passed_over (ValueError _) = True"
| "passed_over _ = False"

section \<open>The thread\<close>

text \<open>
  At the head of the loop (\<open>Resting\<close>) the stop event is tested; then the statistics are asked for,
  then the size. An error ends the turn, and one that is not passed over ends the thread.
\<close>

datatype watch = Resting | Stats | Size | Ended

record monitor =
  mo_name :: string
  mo_watch :: watch
  mo_stopped :: bool
  mo_usage :: usage

definition new_monitor :: "string \<Rightarrow> monitor" where
  "new_monitor name = \<lparr>mo_name = name, mo_watch = Resting, mo_stopped = False, mo_usage = (None, None)\<rparr>"

definition stats_command :: "string \<Rightarrow> string list" where
  "stats_command name = [''docker'', ''stats'', ''--no-stream'', ''--format'', ''{{.MemUsage}}'', name]"

definition size_command :: "string \<Rightarrow> string list" where
  "size_command name = [''docker'', ''container'', ''inspect'', ''--size'', ''--format'', ''{{.SizeRw}}'', name]"

definition monitor_asks :: "monitor \<Rightarrow> string list option" where
  "monitor_asks m =
     (case mo_watch m of
        Stats \<Rightarrow> Some (stats_command (mo_name m)) | Size \<Rightarrow> Some (size_command (mo_name m)) | _ \<Rightarrow> None)"

definition monitor_tests :: "monitor \<Rightarrow> monitor" where
  "monitor_tests m =
     (if mo_watch m = Resting then m\<lparr>mo_watch := if mo_stopped m then Ended else Stats\<rparr> else m)"

definition monitor_hears :: "docker_reply \<Rightarrow> monitor \<Rightarrow> monitor" where
  "monitor_hears reply m =
     (case (if mo_watch m = Stats then sample_memory reply (mo_usage m) else sample_disk reply (mo_usage m)) of
        Inl e \<Rightarrow> m\<lparr>mo_watch := if passed_over e then Resting else Ended\<rparr>
      | Inr u \<Rightarrow> m\<lparr>mo_watch := if mo_watch m = Stats then Size else Resting, mo_usage := u\<rparr>)"

lemma monitor_name [simp]:
  "mo_name (monitor_tests m) = mo_name m" "mo_name (monitor_hears reply m) = mo_name m"
  by (simp_all add: monitor_tests_def monitor_hears_def split: sum.split)

lemma monitor_asks_own: "monitor_asks m = Some c \<Longrightarrow> c = stats_command (mo_name m) \<or> c = size_command (mo_name m)"
  by (auto simp: monitor_asks_def split: watch.splits)

text \<open>After the stop event the thread hands Docker at most two more commands.\<close>

definition asks_left :: "monitor \<Rightarrow> nat" where
  "asks_left m = (case mo_watch m of Stats \<Rightarrow> 2 | Size \<Rightarrow> 1 | _ \<Rightarrow> 0)"

lemma stopped_ends:
  assumes "mo_stopped m"
  shows "mo_stopped (monitor_tests m)" "mo_stopped (monitor_hears reply m)"
    and "asks_left (monitor_tests m) = asks_left m" and "asks_left m \<le> 2"
    and "monitor_asks m = Some c \<Longrightarrow> asks_left (monitor_hears reply m) < asks_left m"
  using assms
  by (auto simp: monitor_tests_def monitor_hears_def monitor_asks_def asks_left_def split: sum.splits watch.splits)

text \<open>The pattern admits a unit the table lacks, and the error ends the thread.\<close>

lemma bare_ib_raises:
  "parse_docker_bytes ''5ib'' = Inl (KeyError ''ib'')" "\<not> passed_over (KeyError ''ib'')"
proof -
  have "split_size ''5ib'' = Some ([''5''], ''ib'')"
    by (simp add: split_size_def docker_unit_def casefold_def to_lower_def is_digit_def less_eq_char_def less_char_def is_space_def all_digits_def)
  then show "parse_docker_bytes ''5ib'' = Inl (KeyError ''ib'')"
    by (simp add: parse_docker_bytes_def docker_units_def)
qed simp

section \<open>Measurements only grow\<close>

definition usage_le :: "usage \<Rightarrow> usage \<Rightarrow> bool" where
  "usage_le u v \<longleftrightarrow>
     (\<forall>m. fst u = Some m \<longrightarrow> (\<exists>n. fst v = Some n \<and> m \<le> n)) \<and> (\<forall>m. snd u = Some m \<longrightarrow> (\<exists>n. snd v = Some n \<and> m \<le> n))"

lemma usage_trans: "usage_le u v \<Longrightarrow> usage_le v w \<Longrightarrow> usage_le u w"
  unfolding usage_le_def by (meson order_trans)

lemma sample_grows:
  "sample_memory r u = Inr v \<Longrightarrow> usage_le u v" "sample_disk r u = Inr v \<Longrightarrow> usage_le u v"
  by (auto simp: sample_memory_def sample_disk_def usage_le_def keep_most_def
      split: docker_reply.splits if_splits sum.splits option.splits)

lemma usage_refl: "usage_le u u"
  by (simp add: usage_le_def)

lemma monitor_grows:
  "usage_le (mo_usage m) (mo_usage (monitor_tests m))"
  "usage_le (mo_usage m) (mo_usage (monitor_hears reply m))"
  by (auto simp: monitor_tests_def monitor_hears_def usage_refl dest: sample_grows split: sum.split if_splits)

end
