(* ===== verification/Sandbox.thy ===== *)
theory Sandbox
  imports Monitor
begin

text \<open>
  \<open>ContainerRunner\<close> of \<open>sandbox/runner.py\<close>. The Docker command line is a parameter: what it
  answers to a command may depend on all the commands before. The state is the list of the
  commands issued, the tree of the host and the monitor threads; a scheduler, also a parameter,
  says which of them take a step after each action of the runner. \<open>EvidenceCollectionError\<close> is
  a \<open>SandboxUnavailable\<close>, as no caller tells them apart.
\<close>

section \<open>Commands\<close>

text \<open>\<open>dk_default\<close>: the executor is \<open>subprocess.run\<close>, the case in which runs are monitored.\<close>

record sandbox_env =
  dk_reply :: "string list list \<Rightarrow> string list \<Rightarrow> docker_reply"
  dk_id :: string
  dk_temp :: "string list"
  dk_script :: string
  dk_copy :: copy_env
  dk_store :: store_env
  dk_writes :: "nat \<Rightarrow> string"
  dk_default :: bool
  dk_turns :: "string list list \<Rightarrow> nat list"

record runner =
  rn_config :: sandbox_config
  rn_workspace :: "string list"
  rn_artifacts :: "string list"

definition new_runner ::
  "(json \<Rightarrow> sandbox_config option) \<Rightarrow> string result \<Rightarrow> string list \<Rightarrow> string list \<Rightarrow> runner result" where
  "new_runner read_fields contents workspace artifacts =
     (case load_sandbox_configuration read_fields contents of
        Inl e \<Rightarrow> Inl (if is_value_error e then SandboxUnavailable (exn_text e) else e)
      | Inr c \<Rightarrow> Inr \<lparr>rn_config = c, rn_workspace = workspace, rn_artifacts = artifacts\<rparr>)"

record box =
  bx_calls :: "string list list"
  bx_tree :: node
  bx_monitors :: "monitor list"

text \<open>A step of a monitor thread, and the steps the scheduler grants at this point.\<close>

definition monitor_step :: "sandbox_env \<Rightarrow> nat \<Rightarrow> box \<Rightarrow> box" where
  "monitor_step env i b =
     (if length (bx_monitors b) \<le> i then b
      else let m = bx_monitors b ! i in
        case monitor_asks m of
          None \<Rightarrow> b\<lparr>bx_monitors := (bx_monitors b)[i := monitor_tests m]\<rparr>
        | Some c \<Rightarrow>
            b\<lparr>bx_calls := bx_calls b @ [c],
              bx_monitors := (bx_monitors b)[i := monitor_hears (dk_reply env (bx_calls b) c) m]\<rparr>)"

definition watched :: "sandbox_env \<Rightarrow> box \<Rightarrow> box" where
  "watched env b = fold (monitor_step env) (dk_turns env (bx_calls b)) b"

definition docker :: "sandbox_env \<Rightarrow> string list \<Rightarrow> box \<Rightarrow> (int \<times> string \<times> string) result \<times> box" where
  "docker env command b =
     ((case dk_reply env (bx_calls b) command of
         Completed code out err \<Rightarrow> Inr (code, out, err)
       | Expired msg out err \<Rightarrow> Inl (TimeoutExpired msg out err)
       | NoCommand \<Rightarrow> Inl (SandboxUnavailable ''Docker CLI is unavailable'')
       | Fault msg \<Rightarrow> Inl (OSError msg)),
      watched env (b\<lparr>bx_calls := bx_calls b @ [command]\<rparr>))"

definition on_tree :: "(node \<Rightarrow> 'a result \<times> node) \<Rightarrow> box \<Rightarrow> 'a result \<times> box" where
  "on_tree f b = (case f (bx_tree b) of (r, fs) \<Rightarrow> (r, b\<lparr>bx_tree := fs\<rparr>))"

section \<open>The environment check\<close>

definition normalize_arch :: "string \<Rightarrow> string" where
  "normalize_arch v = (if v = ''aarch64'' then ''arm64'' else if v = ''x86_64'' then ''amd64'' else v)"

definition version_command :: "string list" where
  "version_command = [''docker'', ''version'', ''--format'', ''{{.Server.Arch}}'']"

definition inspect_command :: "string \<Rightarrow> string list" where
  "inspect_command img =
     [''docker'', ''image'', ''inspect'', ''--format'', ''{{.Architecture}}|{{json .RepoDigests}}'', img]"

text \<open>\<open>s.split(c, 1)\<close> and \<open>s.rsplit(c, 1)[1]\<close>.\<close>

definition split_once :: "char \<Rightarrow> string \<Rightarrow> (string \<times> string) option" where
  "split_once c s =
     (if c \<in> set s then Some (takeWhile (\<lambda>x. x \<noteq> c) s, tl (dropWhile (\<lambda>x. x \<noteq> c) s)) else None)"

definition text_after_last :: "char \<Rightarrow> string \<Rightarrow> string" where
  "text_after_last c s = rev (takeWhile (\<lambda>x. x \<noteq> c) (rev s))"

definition daemon_arch :: "runner \<Rightarrow> int \<times> string \<times> string \<Rightarrow> string result" where
  "daemon_arch rn reply =
     (case reply of (code, out, _) \<Rightarrow>
        let arch = normalize_arch (py_strip out) in
        if code \<noteq> 0 then Inl (SandboxUnavailable ''Docker daemon is unavailable'')
        else if arch \<notin> set (sx_architectures (rn_config rn))
        then Inl (SandboxUnavailable (''Docker daemon architecture is not allowed: '' @ arch))
        else Inr arch)"

definition image_arch :: "runner \<Rightarrow> string \<Rightarrow> int \<times> string \<times> string \<Rightarrow> string result" where
  "image_arch rn daemon reply =
     (case reply of (code, out, _) \<Rightarrow>
        if code \<noteq> 0 then Inl (SandboxUnavailable ''pinned sandbox image is unavailable locally'')
        else case split_once (CHR 0x7C) (py_strip out) of
          None \<Rightarrow> Inl (SandboxUnavailable ''Docker returned malformed image metadata'')
        | Some (arch0, digests) \<Rightarrow>
            let arch = normalize_arch arch0 in
            if arch \<noteq> daemon \<or> arch \<notin> set (sx_architectures (rn_config rn))
            then Inl (SandboxUnavailable
                   (''sandbox image architecture '' @ arch @ '' does not match daemon '' @ daemon))
            else if \<not> contains (text_after_last (CHR ''@'') (sx_image (rn_config rn))) digests
            then Inl (SandboxUnavailable ''local image digest does not match trusted configuration'')
            else Inr arch)"

definition check_environment :: "sandbox_env \<Rightarrow> runner \<Rightarrow> box \<Rightarrow> string result \<times> box" where
  "check_environment env rn b =
     andthen (docker env version_command b)
       (\<lambda>reply b. case daemon_arch rn reply of
          Inl e \<Rightarrow> (Inl e, b)
        | Inr daemon \<Rightarrow>
            andthen (docker env (inspect_command (sx_image (rn_config rn))) b)
              (\<lambda>reply b. (image_arch rn daemon reply, b)))"

section \<open>The container command\<close>

definition path_text :: "string list \<Rightarrow> string" where
  "path_text parts = ''/'' @ join_names parts"

definition megabytes :: "int \<Rightarrow> string" where
  "megabytes n = int_str n @ ''m''"

definition hardened_flags :: "runner \<Rightarrow> string \<Rightarrow> sandbox_profile \<Rightarrow> string list" where
  "hardened_flags rn name p =
     (let l = sp_limits p in
      [''docker'', ''run'', ''--rm'', ''--name'', name, ''--network'', ''none'', ''--read-only'',
       ''--cap-drop'', ''ALL'', ''--security-opt'', ''no-new-privileges:true'',
       ''--user'', sx_user (rn_config rn), ''--pids-limit'', int_str (sl_pids l),
       ''--memory'', megabytes (sl_memory l), ''--memory-swap'', megabytes (sl_memory l),
       ''--cpus'', float_repr (sl_cpu l), ''--ipc'', ''none'',
       ''--tmpfs'', ''/tmp:rw,noexec,nosuid,nodev,size='' @ megabytes (sp_tmpfs_mb p),
       ''--workdir'', if sp_input_mode p = ''none'' then ''/tmp'' else ''/traceguard/input'',
       ''--env'', ''HOME=/tmp''])"

definition input_mount :: "string list \<Rightarrow> sandbox_profile \<Rightarrow> string list" where
  "input_mount input_dir p =
     (if sp_input_mode p = ''copy_readonly''
      then [''--mount'', ''type=bind,src='' @ path_text input_dir @ '',dst=/traceguard/input,readonly''] else [])"

definition output_mount :: "string \<Rightarrow> string \<Rightarrow> artifact_limits \<Rightarrow> string list" where
  "output_mount uid gid l =
     [''--detach'', ''--tmpfs'',
      ''/traceguard/output:rw,noexec,nosuid,nodev,size='' @ nat_str (al_max_total l)
        @ '',nr_inodes='' @ nat_str (al_max_inodes l) @ '',uid='' @ uid @ '',gid='' @ gid @ '',mode=0700'',
      ''--env'', ''TRACEGUARD_OUTPUT=/traceguard/output'']"

definition sleeper :: "sandbox_profile \<Rightarrow> string list" where
  "sleeper p = [''python3'', ''-I'', ''-c'',
     ''import time; time.sleep('' @ int_str (sl_timeout (sp_limits p) + 30) @ '')'']"

definition build_command ::
  "runner \<Rightarrow> string \<Rightarrow> string list \<Rightarrow> sandbox_profile \<Rightarrow> string list \<Rightarrow> string list result" where
  "build_command rn name command p input_dir =
     (let base = hardened_flags rn name p @ input_mount input_dir p; img = sx_image (rn_config rn) in
      if sp_output_mode p = ''allowlisted''
      then (case split_on (CHR '':'') (sx_user (rn_config rn)) of
              [uid, gid] \<Rightarrow> Inr (base @ output_mount uid gid (sp_artifact_limits p) @ [img] @ sleeper p)
            | _ \<Rightarrow> Inl (ValueError ''unpack''))
      else Inr (base @ [img] @ command))"

section \<open>Inputs\<close>

definition staging_budget :: "input_limits \<Rightarrow> copy_budget" where
  "staging_budget l = \<lparr>cb_max_entries = il_max_entries l, cb_max_bytes = il_max_bytes l,
     cb_max_file_bytes = il_max_file_bytes l, cb_max_depth = il_max_depth l,
     cb_entries = 0, cb_bytes = 0, cb_checks = 0\<rparr>"

definition staging_error :: "exn \<Rightarrow> exn" where
  "staging_error e =
     (if is_value_error e \<or> is_os_error e
      then SandboxUnavailable ''unsafe symbolic-link/aliased/protected input or staging limit exceeded'' else e)"

definition guarded_copy :: "sandbox_env \<Rightarrow> copy_env" where
  "guarded_copy env = (dk_copy env)\<lparr>ce_prohibited := \<lambda>p. sensitive_path p []\<rparr>"

fun stage_inputs ::
  "sandbox_env \<Rightarrow> string list \<Rightarrow> string list \<Rightarrow> string list \<Rightarrow> copy_budget \<Rightarrow> node \<Rightarrow> unit result \<times> node" where
  "stage_inputs env workspace input_dir [] budget fs = (Inr (), fs)"
| "stage_inputs env workspace input_dir (raw # paths) budget fs =
     (if path_is_absolute raw \<or> ''..'' \<in> set (path_parts raw) \<or> path_parts raw = []
      then (Inl (SandboxUnavailable (''declared input is outside the workspace: '' @ raw)), fs)
      else if sensitive_path raw []
      then (Inl (SandboxUnavailable ''protected declared input is not allowed''), fs)
      else if walk_to fs (input_dir @ path_parts raw) \<noteq> None
      then (Inl (SandboxUnavailable (''overlapping declared input: '' @ raw)), fs)
      else case copy_confined (guarded_copy env) workspace raw budget fs of
        (Inl e, _) \<Rightarrow> (Inl (staging_error e), fs)
      | (Inr copied, budget) \<Rightarrow>
          (case install_copy input_dir raw copied fs of
             (Inl e, fs) \<Rightarrow> (Inl (staging_error e), fs)
           | (Inr _, fs) \<Rightarrow> stage_inputs env workspace input_dir paths budget fs))"

section \<open>Exported artifacts\<close>

text \<open>\<open>base64.b64decode(s, validate=True)\<close>; None where it raises.\<close>

definition b64_value :: "char \<Rightarrow> nat option" where
  "b64_value c =
     (let n = (of_char c :: nat) in
      if CHR ''A'' \<le> c \<and> c \<le> CHR ''Z'' then Some (n - 65)
      else if CHR ''a'' \<le> c \<and> c \<le> CHR ''z'' then Some (n - 71)
      else if is_digit c then Some (n + 4)
      else if c = CHR ''+'' then Some 62 else if c = CHR ''/'' then Some 63 else None)"

fun b64_bytes :: "nat list \<Rightarrow> nat list option" where
  "b64_bytes (a # b # c # d # rest) =
     map_option (\<lambda>ns. (a * 4 + b div 16) # (b mod 16 * 16 + c div 4) # (c mod 4 * 64 + d) # ns) (b64_bytes rest)"
| "b64_bytes [a, b, c] = Some [a * 4 + b div 16, b mod 16 * 16 + c div 4]"
| "b64_bytes [a, b] = Some [a * 4 + b div 16]"
| "b64_bytes [a] = None"
| "b64_bytes [] = Some []"

definition b64decode :: "string \<Rightarrow> string option" where
  "b64decode s =
     (let body = takeWhile (\<lambda>c. c \<noteq> CHR ''='') s; pad = length s - length body;
          m = length body mod 4; values = map b64_value body
      in if 2 < pad \<or> \<not> set (drop (length body) s) \<subseteq> {CHR ''=''} \<or> None \<in> set values
            \<or> m = 2 \<and> pad < 2 \<or> m = 3 \<and> pad < 1 then None
         else map_option (map char_of) (b64_bytes (map the values)))"

definition export_error :: "'a result" where
  "export_error = Inl (SandboxUnavailable ''untrusted artifact export is invalid'')"

text \<open>The loop over the exported items; any \<open>ValueError\<close>, \<open>KeyError\<close>, \<open>TypeError\<close> or \<open>OSError\<close>
  of it becomes the one error.\<close>

fun import_items ::
  "sandbox_env \<Rightarrow> artifact_limits \<Rightarrow> string list \<Rightarrow> json list \<Rightarrow> nat \<Rightarrow> string list \<Rightarrow> nat \<Rightarrow> node
   \<Rightarrow> unit result \<times> node" where
  "import_items env l output_dir [] used paths i fs = (Inr (), fs)"
| "import_items env l output_dir (item # items) used paths i fs =
     (case item of
        JObj d \<Rightarrow>
          (case (map_of d ''path'', map_of d ''data'') of
             (Some (JStr relative), Some (JStr encoded)) \<Rightarrow>
               if relative \<in> set paths \<or> al_max_depth l < length (path_parts relative) then (export_error, fs)
               else (case b64decode encoded of
                  None \<Rightarrow> (export_error, fs)
                | Some content \<Rightarrow>
                    if al_max_file l < length content \<or> al_max_total l < used + length content
                    then (export_error, fs)
                    else (case write_confined (dk_writes env i) output_dir relative content fs of
                       (Inl _, fs) \<Rightarrow> (export_error, fs)
                     | (Inr _, fs) \<Rightarrow>
                         import_items env l output_dir items (used + length content) (relative # paths) (Suc i) fs))
           | _ \<Rightarrow> (export_error, fs))
      | _ \<Rightarrow> (export_error, fs))"

definition limits_json :: "artifact_limits \<Rightarrow> json" where
  "limits_json l =
     JObj [(''max_files'', JInt (int (al_max_files l))), (''max_total_bytes'', JInt (int (al_max_total l))),
           (''max_file_bytes'', JInt (int (al_max_file l))), (''max_entries'', JInt (int (al_max_entries l))),
           (''max_depth'', JInt (int (al_max_depth l))), (''max_inodes'', JInt (int (al_max_inodes l)))]"

definition export_command :: "sandbox_env \<Rightarrow> string \<Rightarrow> artifact_limits \<Rightarrow> string list" where
  "export_command env name l =
     [''docker'', ''exec'', name, ''python3'', ''-I'', ''-c'', dk_script env, ''/traceguard/output'',
      case dumps (limits_json l) of None \<Rightarrow> [] | Some t \<Rightarrow> t]"

definition max_export :: "artifact_limits \<Rightarrow> nat" where
  "max_export l = al_max_total l * 2 + al_max_entries l * 4096 + 65536"

definition import_export :: "sandbox_env \<Rightarrow> artifact_limits \<Rightarrow> string list \<Rightarrow> string \<Rightarrow> node \<Rightarrow> unit result \<times> node" where
  "import_export env l output_dir out fs =
     (case json_loads out of
        Some (JList items) \<Rightarrow>
          if al_max_files l < length items then (export_error, fs)
          else import_items env l output_dir items 0 [] 0 fs
      | _ \<Rightarrow> (export_error, fs))"

definition collect_output :: "sandbox_env \<Rightarrow> string \<Rightarrow> string list \<Rightarrow> sandbox_profile \<Rightarrow> box \<Rightarrow> unit result \<times> box" where
  "collect_output env name output_dir p b =
     (let l = sp_artifact_limits p in
      andthen (docker env (export_command env name l) b)
        (\<lambda>reply b. case reply of (code, out, _) \<Rightarrow>
           if code \<noteq> 0 \<or> max_export l < length out
           then (Inl (SandboxUnavailable ''artifact export failed or exceeded its budget''), b)
           else on_tree (import_export env l output_dir out) b))"

text \<open>The objects of the output directory, in the order of its listing.\<close>

fun inspect_objects ::
  "artifact_limits \<Rightarrow> (string list \<times> node) list \<Rightarrow> nat \<Rightarrow> string list \<Rightarrow> nat \<Rightarrow> (string list \<times> nat) result" where
  "inspect_objects l [] entries changed used = Inr (changed, used)"
| "inspect_objects l ((q, n) # objects) entries changed used =
     (if al_max_entries l < Suc entries then Inl (SandboxUnavailable ''artifact entry limit exceeded'')
      else case n of
        Symlink _ \<Rightarrow> Inl (SandboxUnavailable ''artifact symbolic links are not allowed'')
      | Dir _ \<Rightarrow> inspect_objects l objects (Suc entries) changed used
      | Special \<Rightarrow> Inl (SandboxUnavailable ''artifact is not a regular file'')
      | File _ sz _ \<Rightarrow>
          if al_max_file l < sz
          then Inl (SandboxUnavailable (''artifact exceeds per-file limit: '' @ join_names q))
          else if al_max_files l < Suc (length changed)
          then Inl (SandboxUnavailable ''artifact file-count limit exceeded'')
          else if al_max_total l < used + sz
          then Inl (SandboxUnavailable ''artifact total-size limit exceeded'')
          else inspect_objects l objects (Suc entries) (changed @ [join_names q]) (used + sz))"

definition inspect_artifacts :: "string list \<Rightarrow> sandbox_profile \<Rightarrow> node \<Rightarrow> (string list \<times> nat) result" where
  "inspect_artifacts output_dir p fs =
     inspect_objects (sp_artifact_limits p)
       (case walk_to fs output_dir of None \<Rightarrow> [] | Some n \<Rightarrow> listing [] n) 0 [] 0"

definition persist_artifacts ::
  "sandbox_env \<Rightarrow> runner \<Rightarrow> string list \<Rightarrow> string list \<Rightarrow> string \<Rightarrow> node \<Rightarrow> string option result \<times> node" where
  "persist_artifacts env rn output_dir changed name fs =
     (if changed = [] then (Inr None, fs)
      else apfst (\<lambda>r. case r of
               Inl e \<Rightarrow> Inl (if is_os_error e \<or> is_value_error e
                            then SandboxUnavailable ''artifact persistence failed'' else e)
             | Inr identity \<Rightarrow> Inr (Some (path_text (private_dir (rn_artifacts rn) @ [identity, ''files'']))))
         (andthen (open_artifacts (rn_artifacts rn) fs)
            (\<lambda>_ fs. ingest (dk_store env) (rn_artifacts rn) name output_dir changed None fs)))"

definition reject_collected :: "sandbox_env \<Rightarrow> runner \<Rightarrow> sandbox_evidence \<Rightarrow> node \<Rightarrow> unit result \<times> node" where
  "reject_collected env rn ev fs =
     (case se_artifact_id ev of
        None \<Rightarrow> (Inr (), fs)
      | Some identity \<Rightarrow>
          if identity = [] then (Inr (), fs)
          else andthen (open_artifacts (rn_artifacts rn) fs)
                 (\<lambda>_ fs. reject (dk_store env) (rn_artifacts rn) identity fs))"

section \<open>A run\<close>

fun timeout_output :: "exn \<Rightarrow> (string \<times> string) option" where
  "timeout_output (TimeoutExpired _ out err) = Some (out, err)"
| "timeout_output _ = None"

definition cleanup_command :: "string \<Rightarrow> string list" where
  "cleanup_command name = [''docker'', ''rm'', ''--force'', name]"

definition cleanup_container :: "sandbox_env \<Rightarrow> string \<Rightarrow> box \<Rightarrow> unit result \<times> box" where
  "cleanup_container env name b =
     apfst (\<lambda>r. case r of
         Inl e \<Rightarrow> Inl (if is_os_error e \<or> timeout_output e \<noteq> None
                       then SandboxUnavailable ''container cleanup could not be verified'' else e)
       | Inr (code, _, err) \<Rightarrow>
           if code \<noteq> 0 \<and> \<not> contains ''no such container'' (casefold err)
           then Inl (SandboxUnavailable ''container cleanup could not be verified'') else Inr ())
       (docker env (cleanup_command name) b)"

definition exec_command :: "string \<Rightarrow> string list \<Rightarrow> string list" where
  "exec_command name command = [''docker'', ''exec'', name] @ command"

definition run_body ::
  "sandbox_env \<Rightarrow> string \<Rightarrow> string list \<Rightarrow> string list \<Rightarrow> sandbox_profile \<Rightarrow> string list \<Rightarrow> box
   \<Rightarrow> (int \<times> string \<times> string) result \<times> box" where
  "run_body env name command docker_command p output_dir b =
     (if sp_output_mode p = ''allowlisted''
      then andthen (docker env docker_command b)
        (\<lambda>launch b. if fst launch \<noteq> 0
           then (Inl (SandboxUnavailable ''quota-backed output container could not start''), b)
           else andthen (docker env (exec_command name command) b)
             (\<lambda>reply b. andthen (collect_output env name output_dir p b) (\<lambda>_ b. (Inr reply, b))))
      else docker env docker_command b)"

text \<open>The exit code, None after a timeout, and the two outputs; the container is removed in every case.\<close>

definition run_outcome :: "(int \<times> string \<times> string) result \<Rightarrow> (int option \<times> string \<times> string) result" where
  "run_outcome r =
     (case r of
        Inl e \<Rightarrow> (case timeout_output e of None \<Rightarrow> Inl e | Some (out, err) \<Rightarrow> Inr (None, out, err))
      | Inr (code, out, err) \<Rightarrow> Inr (Some code, out, err))"

text \<open>The monitor of the run is started before its first command and told to stop before the removal;
  \<open>join\<close> waits for three seconds only, so it may still be at work after that.\<close>

definition start_monitor :: "sandbox_env \<Rightarrow> string \<Rightarrow> box \<Rightarrow> box" where
  "start_monitor env name b =
     (if dk_default env then watched env (b\<lparr>bx_monitors := bx_monitors b @ [new_monitor name]\<rparr>) else b)"

definition stop_monitor :: "sandbox_env \<Rightarrow> box \<Rightarrow> box" where
  "stop_monitor env b =
     (if dk_default env
      then watched env (b\<lparr>bx_monitors := butlast (bx_monitors b) @ [(last (bx_monitors b))\<lparr>mo_stopped := True\<rparr>]\<rparr>)
      else b)"

definition resource_usage :: "sandbox_env \<Rightarrow> box \<Rightarrow> usage" where
  "resource_usage env b = (if dk_default env then mo_usage (last (bx_monitors b)) else (None, None))"

definition guarded_run ::
  "sandbox_env \<Rightarrow> string \<Rightarrow> string list \<Rightarrow> string list \<Rightarrow> sandbox_profile \<Rightarrow> string list \<Rightarrow> box
   \<Rightarrow> (int option \<times> string \<times> string) result \<times> box" where
  "guarded_run env name command docker_command p output_dir b =
     (case run_body env name command docker_command p output_dir (start_monitor env name b) of (r, b) \<Rightarrow>
        andthen (cleanup_container env name (stop_monitor env b))
          (\<lambda>_ b. (run_outcome r, b)))"

section \<open>Evidence\<close>

definition bounded_text :: "nat \<Rightarrow> string \<Rightarrow> string \<times> bool" where
  "bounded_text limit s = (take limit s, limit < length s)"

definition blocked_patterns :: "(string \<times> string list) list" where
  "blocked_patterns =
     [(''network'', [''network is unreachable'', ''temporary failure in name resolution'']),
      (''filesystem'', [''read-only file system'', ''permission denied'']),
      (''process_limit'', [''resource temporarily unavailable'', ''cannot fork''])]"

definition blocked_operations :: "string \<Rightarrow> string list" where
  "blocked_operations err =
     map fst (filter (\<lambda>(operation, patterns). list_ex (\<lambda>p. contains p (casefold err)) patterns) blocked_patterns)"

definition evidence_of ::
  "usage \<Rightarrow> string \<Rightarrow> execution_plan \<Rightarrow> sandbox_profile \<Rightarrow> int option \<times> string \<times> string
   \<Rightarrow> string list \<times> nat \<Rightarrow> string option \<Rightarrow> sandbox_evidence" where
  "evidence_of usage name plan p run changed directory =
     (case run of (code, out, err) \<Rightarrow>
        let limit = nat (sl_output (sp_limits p)); o1 = bounded_text limit out; e1 = bounded_text limit err in
        \<lparr>se_exit_code = code, se_stdout = fst o1, se_stderr = fst e1,
         se_stdout_truncated = snd o1, se_stderr_truncated = snd e1,
         se_files_changed = fst changed, se_artifact_bytes = int (snd changed),
         se_artifact_directory = directory,
         se_artifact_id = (if directory = None then None else Some name),
         se_artifact_status = (if directory = None then None else Some ''quarantined''),
         se_blocked = blocked_operations (fst e1) @ (if code = None then [''timeout''] else []),
         se_peak_memory = fst usage, se_disk_usage = snd usage,
         se_timed_out = (code = None),
         se_profile = (case pl_profile plan of None \<Rightarrow> [] | Some n \<Rightarrow> n)\<rparr>)"

section \<open>Execution of a plan\<close>

definition profile_of :: "runner \<Rightarrow> string option \<Rightarrow> sandbox_profile result" where
  "profile_of rn name =
     (case name of
        None \<Rightarrow> Inl (SandboxUnavailable ''unsupported or unsafe sandbox profile: None'')
      | Some n \<Rightarrow>
          if n \<notin> set enabled_profiles then Inl (SandboxUnavailable (''unsupported or unsafe sandbox profile: '' @ n))
          else case map_of (sx_profiles (rn_config rn)) n of
            None \<Rightarrow> Inl (KeyError n)
          | Some p \<Rightarrow>
              if \<not> sp_enabled p \<or> sp_network p \<noteq> ''none''
              then Inl (SandboxUnavailable (''sandbox profile is disabled or unsafe: '' @ n)) else Inr p)"

fun argv_part :: "json \<Rightarrow> string option" where
  "argv_part (JStr s) = (if s = [] then None else Some s)"
| "argv_part _ = None"

definition plan_command :: "execution_plan \<Rightarrow> string list result" where
  "plan_command plan =
     (case map_of (tc_arguments (pl_call plan)) ''command'' of
        Some (JList parts) \<Rightarrow>
          if tc_tool_name (pl_call plan) \<noteq> ''restricted_command'' \<or> parts = [] \<or> None \<in> set (map argv_part parts)
          then Inl (ValueError ''restricted_command requires a non-empty argv list'')
          else Inr (map (the \<circ> argv_part) parts)
      | _ \<Rightarrow> Inl (ValueError ''restricted_command requires a non-empty argv list''))"

definition with_temporary :: "sandbox_env \<Rightarrow> (box \<Rightarrow> 'a result \<times> box) \<Rightarrow> box \<Rightarrow> 'a result \<times> box" where
  "with_temporary env body b =
     andthen (on_tree (make_dir (butlast (dk_temp env)) (last (dk_temp env))) b)
       (\<lambda>_ b. apsnd (\<lambda>b. b\<lparr>bx_tree := remove_at (bx_tree b) (dk_temp env)\<rparr>) (body b))"

definition stage ::
  "sandbox_env \<Rightarrow> runner \<Rightarrow> execution_plan \<Rightarrow> sandbox_profile \<Rightarrow> box \<Rightarrow> unit result \<times> box" where
  "stage env rn plan p b =
     andthen (on_tree (make_dir (dk_temp env) ''input'') b)
       (\<lambda>_ b. andthen
          (if sp_input_mode p = ''none''
           then (if pl_inputs plan = [] then (Inr (), b)
                 else (Inl (SandboxUnavailable ''isolated_compute does not accept host inputs''), b))
           else on_tree (stage_inputs env (rn_workspace rn) (dk_temp env @ [''input'']) (pl_inputs plan)
                           (staging_budget (sp_input_limits p))) b)
          (\<lambda>_ b. if sp_output_mode p = ''allowlisted'' then on_tree (make_dir (dk_temp env) ''output'') b
                 else (Inr (), b)))"

definition finish_artifacts ::
  "sandbox_env \<Rightarrow> runner \<Rightarrow> string \<Rightarrow> sandbox_profile \<Rightarrow> box \<Rightarrow> ((string list \<times> nat) \<times> string option) result \<times> box" where
  "finish_artifacts env rn name p b =
     (let output_dir = dk_temp env @ [''output''] in
      if sp_output_mode p \<noteq> ''allowlisted'' then (Inr (([], 0), None), b)
      else case inspect_artifacts output_dir p (bx_tree b) of
        Inl e \<Rightarrow> (Inl e, b)
      | Inr changed \<Rightarrow>
          andthen (on_tree (persist_artifacts env rn output_dir (fst changed) name) b)
            (\<lambda>directory b. (Inr (changed, directory), b)))"

definition run_staged ::
  "sandbox_env \<Rightarrow> runner \<Rightarrow> string \<Rightarrow> string list \<Rightarrow> execution_plan \<Rightarrow> sandbox_profile \<Rightarrow> box
   \<Rightarrow> sandbox_evidence result \<times> box" where
  "run_staged env rn name command plan p b =
     andthen (stage env rn plan p b)
       (\<lambda>_ b. case build_command rn name command p (dk_temp env @ [''input'']) of
          Inl e \<Rightarrow> (Inl e, b)
        | Inr docker_command \<Rightarrow>
            andthen (guarded_run env name command docker_command p (dk_temp env @ [''output'']) b)
              (\<lambda>run b. andthen (finish_artifacts env rn name p b)
                 (\<lambda>(changed, directory) b.
                    (Inr (evidence_of (resource_usage env b) name plan p run changed directory), b))))"

definition container_name :: "sandbox_env \<Rightarrow> string" where
  "container_name env = ''traceguard-'' @ dk_id env"

definition execute_plan :: "sandbox_env \<Rightarrow> runner \<Rightarrow> execution_plan \<Rightarrow> box \<Rightarrow> sandbox_evidence result \<times> box" where
  "execute_plan env rn plan b =
     (if pl_target plan \<noteq> TargetContainer
      then (Inl (ValueError ''ContainerRunner requires a CONTAINER execution plan''), b)
      else if \<not> pl_validated plan
      then (Inl (SandboxUnavailable ''container execution plan was not validated''), b)
      else case profile_of rn (pl_profile plan) of
        Inl e \<Rightarrow> (Inl e, b)
      | Inr p \<Rightarrow>
          (case plan_command plan of
             Inl e \<Rightarrow> (Inl e, b)
           | Inr command \<Rightarrow>
               andthen (check_environment env rn b)
                 (\<lambda>_ b. with_temporary env (run_staged env rn (container_name env) command plan p) b)))"

end
