(* ===== verification/SandboxSafety.thy ===== *)
theory SandboxSafety
  imports Sandbox ArtifactFacts
begin

text \<open>
  What the container runner guarantees: which commands it issues and in what order, what it
  changes on the host, and what its evidence may hold.
\<close>

section \<open>Commands\<close>

text \<open>The samples a monitor takes; the runner's own commands are the others.\<close>

definition sample_of :: "string \<Rightarrow> string list \<Rightarrow> bool" where
  "sample_of name c \<longleftrightarrow>
     c = [''docker'', ''stats'', ''--no-stream'', ''--format'', ''{{.MemUsage}}'', name]
     \<or> c = [''docker'', ''container'', ''inspect'', ''--size'', ''--format'', ''{{.SizeRw}}'', name]"

definition sampled :: "string list \<Rightarrow> bool" where
  "sampled c \<longleftrightarrow> (\<exists>name. sample_of name c)"

definition samples_only :: "string set \<Rightarrow> string list list \<Rightarrow> bool" where
  "samples_only names cs \<longleftrightarrow> (\<forall>c\<in>set cs. sampled c \<longrightarrow> (\<exists>name\<in>names. sample_of name c))"

definition own_commands :: "string list list \<Rightarrow> string list list" where
  "own_commands cs = filter (\<lambda>c. \<not> sampled c) cs"

lemma own_commands_simps [simp]:
  "own_commands [] = []" "own_commands (cs @ ds) = own_commands cs @ own_commands ds"
  "own_commands (c # cs) = (if sampled c then own_commands cs else c # own_commands cs)"
  by (simp_all add: own_commands_def)

lemma samples_only_append [simp]: "samples_only N (cs @ ds) \<longleftrightarrow> samples_only N cs \<and> samples_only N ds"
  by (auto simp: samples_only_def)

lemma not_sampled [simp]:
  "\<not> sampled version_command" "\<not> sampled (inspect_command img)" "\<not> sampled (cleanup_command name)"
  "\<not> sampled (exec_command name command)" "\<not> sampled (export_command env name l)"
  by (simp_all add: sampled_def sample_of_def version_command_def inspect_command_def cleanup_command_def
      exec_command_def export_command_def)

definition watchers :: "box \<Rightarrow> string set" where
  "watchers b = mo_name ` set (bx_monitors b)"

text \<open>Between two states the runner issued the given commands, the monitors samples of the named
  containers.\<close>

definition issues :: "string set \<Rightarrow> box \<Rightarrow> string list list \<Rightarrow> box \<Rightarrow> bool" where
  "issues N b own b' \<longleftrightarrow> watchers b' = watchers b
     \<and> (\<exists>cs. bx_calls b' = bx_calls b @ cs \<and> own_commands cs = own \<and> samples_only N cs)"

lemma issues_refl [simp]: "issues N b [] b"
  by (simp add: issues_def samples_only_def)

lemma issues_trans: "issues N b os b1 \<Longrightarrow> issues N b1 ps b2 \<Longrightarrow> issues N b (os @ ps) b2"
  unfolding issues_def by fastforce

lemma issues_watchers: "issues N b os b' \<Longrightarrow> watchers b' = watchers b"
  by (simp add: issues_def)

lemma issues_mono: "issues N b os b' \<Longrightarrow> N \<subseteq> M \<Longrightarrow> issues M b os b'"
  unfolding issues_def samples_only_def by blast

lemma issues_same: "bx_calls b' = bx_calls b \<Longrightarrow> bx_monitors b' = bx_monitors b \<Longrightarrow> issues N b [] b'"
  by (simp add: issues_def watchers_def samples_only_def)

lemma names_update: "i < length ms \<Longrightarrow> mo_name m = mo_name (ms ! i) \<Longrightarrow> mo_name ` set (ms[i := m]) = mo_name ` set ms"
  by (metis list.set_map map_update list_update_id length_map nth_map)

lemma sample_commands: "c = stats_command name \<or> c = size_command name \<Longrightarrow> sample_of name c"
  by (auto simp: sample_of_def stats_command_def size_command_def)

lemma monitor_step_issues:
  assumes "watchers b \<subseteq> N"
  shows "issues N b [] (monitor_step env i b)"
proof (cases "i < length (bx_monitors b)")
  case True
  define m where "m = bx_monitors b ! i"
  have name: "mo_name m \<in> N" using assms True by (auto simp: watchers_def m_def)
  show ?thesis
  proof (cases "monitor_asks m")
    case None
    then show ?thesis
      using True by (simp add: monitor_step_def Let_def issues_def watchers_def samples_only_def names_update flip: m_def)
  next
    case (Some c)
    have s: "sample_of (mo_name m) c" by (rule sample_commands [OF monitor_asks_own [OF Some]])
    then have "own_commands [c] = []" "samples_only N [c]"
      using name by (auto simp: sampled_def samples_only_def)
    then show ?thesis
      using True Some by (auto simp: monitor_step_def Let_def issues_def watchers_def m_def names_update)
  qed
qed (simp add: monitor_step_def)

lemma steps_issue: "watchers b \<subseteq> N \<Longrightarrow> issues N b [] (fold (monitor_step env) is b)"
proof (induction "is" arbitrary: b)
  case (Cons i "is")
  note one = monitor_step_issues [OF Cons.prems, of env i]
  have "watchers (monitor_step env i b) \<subseteq> N" using issues_watchers [OF one] Cons.prems by simp
  from issues_trans [OF one Cons.IH [OF this]] show ?case by simp
qed simp

lemma watched_issues: "watchers b \<subseteq> N \<Longrightarrow> issues N b [] (watched env b)"
  unfolding watched_def by (rule steps_issue)

lemma monitor_step_tree [simp]: "bx_tree (monitor_step env i b) = bx_tree b"
  by (simp add: monitor_step_def Let_def split: option.split)

lemma watched_tree [simp]: "bx_tree (watched env b) = bx_tree b"
proof -
  have "bx_tree (fold (monitor_step env) is b) = bx_tree b" for "is"
    by (induction "is" arbitrary: b) simp_all
  then show ?thesis by (simp add: watched_def)
qed

lemma docker_calls:
  assumes "docker env c b = (r, b')" and "watchers b \<subseteq> N" and "\<not> sampled c"
  shows "issues N b [c] b'"
proof -
  let ?b = "b\<lparr>bx_calls := bx_calls b @ [c]\<rparr>"
  have w: "watchers ?b = watchers b" by (simp add: watchers_def)
  have "issues N b [c] ?b" using assms(3) by (simp add: issues_def w samples_only_def)
  moreover have "issues N ?b [] b'"
    using assms(1,2) watched_issues [of ?b N env] w by (auto simp: docker_def)
  ultimately show ?thesis using issues_trans by fastforce
qed

lemma docker_tree: "docker env c b = (r, b') \<Longrightarrow> bx_tree b' = bx_tree b"
  by (auto simp: docker_def)

lemma on_tree_ok: "on_tree f b = (r, b') \<Longrightarrow> f (bx_tree b) = (r, bx_tree b') \<and> bx_calls b' = bx_calls b
    \<and> bx_monitors b' = bx_monitors b"
  by (auto simp: on_tree_def split: prod.splits)

lemma check_environment_calls:
  assumes "check_environment env rn b = (r, b')" and w: "watchers b \<subseteq> N"
  shows "bx_tree b' = bx_tree b"
    and "is_ok r \<Longrightarrow> issues N b [version_command, inspect_command (sx_image (rn_config rn))] b'"
    and "\<exists>os. issues N b os b' \<and> set os \<subseteq> {version_command, inspect_command (sx_image (rn_config rn))}"
proof -
  obtain r1 b1 where d1: "docker env version_command b = (r1, b1)" by force
  obtain r2 b2 where d2: "docker env (inspect_command (sx_image (rn_config rn))) b1 = (r2, b2)" by force
  have c1: "issues N b [version_command] b1" by (rule docker_calls [OF d1 w]) simp
  have "watchers b1 \<subseteq> N" using issues_watchers [OF c1] w by simp
  then have "issues N b1 [inspect_command (sx_image (rn_config rn))] b2" by (rule docker_calls [OF d2]) simp
  from issues_trans [OF c1 this] have c2: "issues N b [version_command, inspect_command (sx_image (rn_config rn))] b2" by simp
  have t: "bx_tree b1 = bx_tree b" "bx_tree b2 = bx_tree b" using docker_tree [OF d1] docker_tree [OF d2] by simp_all
  have v: "andthen (r1, b1) (\<lambda>reply b. case daemon_arch rn reply of Inl e \<Rightarrow> (Inl e, b)
      | Inr daemon \<Rightarrow> andthen (docker env (inspect_command (sx_image (rn_config rn))) b)
          (\<lambda>reply b. (image_arch rn daemon reply, b))) = (r, b')"
    using assms d1 by (simp add: check_environment_def)
  have "b' = b1 \<and> \<not> is_ok r \<or> b' = b2"
    using v d2 by (cases r1; cases "daemon_arch rn (projr r1)"; cases r2) (auto split: sum.splits)
  with c1 c2 t show "bx_tree b' = bx_tree b"
    and "is_ok r \<Longrightarrow> issues N b [version_command, inspect_command (sx_image (rn_config rn))] b'"
    and "\<exists>os. issues N b os b' \<and> set os \<subseteq> {version_command, inspect_command (sx_image (rn_config rn))}"
    by (blast, blast, fastforce)
qed

lemma collect_calls:
  assumes "collect_output env name output_dir p b = (r, b')" and "watchers b \<subseteq> N"
  shows "issues N b [export_command env name (sp_artifact_limits p)] b'"
proof -
  obtain r1 b1 where d1: "docker env (export_command env name (sp_artifact_limits p)) b = (r1, b1)" by force
  have c: "issues N b [export_command env name (sp_artifact_limits p)] b1" by (rule docker_calls [OF d1 assms(2)]) simp
  have "bx_calls b' = bx_calls b1 \<and> bx_monitors b' = bx_monitors b1"
    using assms(1) d1 by (cases r1) (auto simp: collect_output_def Let_def dest!: on_tree_ok split: if_splits)
  then have "issues N b1 [] b'" by (intro issues_same) simp_all
  with c show ?thesis using issues_trans by fastforce
qed

lemma run_body_calls:
  assumes v: "run_body env name command dc p output_dir b = (r, b')" and w: "watchers b \<subseteq> N" and dc: "\<not> sampled dc"
  shows "\<exists>mid. issues N b (dc # mid) b'
    \<and> set mid \<subseteq> {exec_command name command, export_command env name (sp_artifact_limits p)}"
proof -
  obtain r1 b1 where d1: "docker env dc b = (r1, b1)" by force
  obtain r2 b2 where d2: "docker env (exec_command name command) b1 = (r2, b2)" by force
  obtain r3 b3 where d3: "collect_output env name output_dir p b2 = (r3, b3)" by force
  have c1: "issues N b [dc] b1" by (rule docker_calls [OF d1 w dc])
  have w1: "watchers b1 \<subseteq> N" using issues_watchers [OF c1] w by simp
  have c2: "issues N b1 [exec_command name command] b2" by (rule docker_calls [OF d2 w1]) simp
  have w2: "watchers b2 \<subseteq> N" using issues_watchers [OF c2] w1 by simp
  note c12 = issues_trans [OF c1 c2] and c123 = issues_trans [OF issues_trans [OF c1 c2] collect_calls [OF d3 w2]]
  have "b' = b1 \<or> b' = b2 \<or> b' = b3"
    using v d1 d2 d3 by (cases r1; cases r2; cases r3) (auto simp: run_body_def split: if_splits)
  with c1 c12 c123 show ?thesis by fastforce
qed

lemma start_watchers: "watchers (b\<lparr>bx_monitors := bx_monitors b @ [new_monitor name]\<rparr>) = insert name (watchers b)"
  by (simp add: watchers_def new_monitor_def)

lemma stop_watchers:
  "bx_monitors b \<noteq> [] \<Longrightarrow>
   watchers (b\<lparr>bx_monitors := butlast (bx_monitors b) @ [(last (bx_monitors b))\<lparr>mo_stopped := True\<rparr>]\<rparr>) = watchers b"
  by (cases "bx_monitors b" rule: rev_cases) (simp_all add: watchers_def)

text \<open>The containers whose samples may be taken during a run: that of the run and those of monitors
  of earlier runs that are still at work.\<close>

definition watched_names :: "sandbox_env \<Rightarrow> string \<Rightarrow> box \<Rightarrow> string set" where
  "watched_names env name b = watchers b \<union> (if dk_default env then {name} else {})"

lemma start_issues:
  "\<exists>cs. bx_calls (start_monitor env name b) = bx_calls b @ cs \<and> own_commands cs = []
     \<and> samples_only (watched_names env name b) cs
     \<and> watchers (start_monitor env name b) = watched_names env name b"
proof (cases "dk_default env")
  case True
  let ?b = "b\<lparr>bx_monitors := bx_monitors b @ [new_monitor name]\<rparr>"
  have "watchers ?b = watched_names env name b" using True start_watchers by (simp add: watched_names_def)
  with watched_issues [of ?b "watched_names env name b" env] True show ?thesis
    by (auto simp: issues_def start_monitor_def)
next
  case False
  then show ?thesis by (simp add: start_monitor_def watched_names_def samples_only_def)
qed

lemma stop_issues:
  assumes "watchers b \<subseteq> N" and "dk_default env \<Longrightarrow> watchers b \<noteq> {}"
  shows "issues N b [] (stop_monitor env b)"
proof (cases "dk_default env")
  case True
  let ?b = "b\<lparr>bx_monitors := butlast (bx_monitors b) @ [(last (bx_monitors b))\<lparr>mo_stopped := True\<rparr>]\<rparr>"
  have w: "watchers ?b = watchers b" using assms(2) True by (intro stop_watchers) (auto simp: watchers_def)
  then have "issues N b [] ?b" by (simp add: issues_def samples_only_def)
  moreover have "issues N ?b [] (watched env ?b)" using w assms(1) by (intro watched_issues) simp
  ultimately show ?thesis using True issues_trans by (fastforce simp: stop_monitor_def)
next
  case False
  then show ?thesis by (simp add: stop_monitor_def)
qed

lemma guarded_run_calls:
  assumes v: "guarded_run env name command dc p output_dir b = (r, b')" and dc: "\<not> sampled dc"
  shows "\<exists>cs mid. bx_calls b' = bx_calls b @ cs \<and> own_commands cs = dc # mid @ [cleanup_command name]
    \<and> samples_only (watched_names env name b) cs
    \<and> set mid \<subseteq> {exec_command name command, export_command env name (sp_artifact_limits p)}"
proof -
  let ?N = "watched_names env name b"
  let ?s = "start_monitor env name b"
  obtain cs where start: "bx_calls ?s = bx_calls b @ cs" "own_commands cs = []" "samples_only ?N cs" "watchers ?s = ?N"
    using start_issues [of env name b] by blast
  obtain r1 b1 where d1: "run_body env name command dc p output_dir ?s = (r1, b1)" by force
  obtain r2 b2 where d2: "docker env (cleanup_command name) (stop_monitor env b1) = (r2, b2)" by force
  have "watchers ?s \<subseteq> ?N" using start(4) by simp
  from run_body_calls [OF d1 this dc] obtain mid where c1: "issues ?N ?s (dc # mid) b1"
    and mid: "set mid \<subseteq> {exec_command name command, export_command env name (sp_artifact_limits p)}" by blast
  have w1: "watchers b1 = ?N" using issues_watchers [OF c1] start(4) by simp
  have c2: "issues ?N b1 [] (stop_monitor env b1)" by (rule stop_issues) (simp_all add: w1 watched_names_def)
  have "watchers (stop_monitor env b1) \<subseteq> ?N" using issues_watchers [OF c2] w1 by simp
  from docker_calls [OF d2 this] have c3: "issues ?N (stop_monitor env b1) [cleanup_command name] b2" by simp
  have "b' = b2"
    using v d1 d2 by (auto simp: guarded_run_def cleanup_container_def andthen_def split: sum.splits)
  with issues_trans [OF issues_trans [OF c1 c2] c3] obtain ds where
    "bx_calls b' = bx_calls ?s @ ds" "own_commands ds = dc # mid @ [cleanup_command name]" "samples_only ?N ds"
    by (auto simp: issues_def)
  with start mid show ?thesis by (intro exI [of _ "cs @ ds"] exI [of _ mid]) simp
qed

text \<open>Steps that issue no command and leave the monitors alone.\<close>

definition quiet :: "'a result \<times> box \<Rightarrow> box \<Rightarrow> bool" where
  "quiet res b \<longleftrightarrow> bx_calls (snd res) = bx_calls b \<and> bx_monitors (snd res) = bx_monitors b"

lemma quiet_on_tree: "quiet (on_tree f b) b"
  by (simp add: quiet_def on_tree_def split: prod.split)

lemma quiet_andthen: "quiet m b \<Longrightarrow> (\<And>v b'. quiet (f v b') b') \<Longrightarrow> quiet (andthen m f) b"
  unfolding quiet_def by (cases m; cases "fst m") auto

lemma stage_quiet: "quiet (stage env rn plan p b) b"
  unfolding stage_def
  by (intro quiet_andthen quiet_on_tree) (auto simp: quiet_on_tree quiet_def [of "(_, _)"])

lemma finish_quiet: "quiet (finish_artifacts env rn name p b) b"
  unfolding finish_artifacts_def Let_def
  by (auto simp: quiet_def [of "(_, _)"] split: sum.split intro!: quiet_andthen quiet_on_tree)

text \<open>
  A launched container, word by word: removed when it ends, under its own name, without a network,
  capabilities, new privileges or shared memory, its root read-only, as the configured user, within
  the profile's limits; then the mounts, the pinned image and what runs in it.
\<close>

definition launch :: "runner \<Rightarrow> string \<Rightarrow> sandbox_profile \<Rightarrow> string list \<Rightarrow> string list \<Rightarrow> string list \<Rightarrow> bool" where
  "launch rn name p input_dir command c \<longleftrightarrow>
     (\<exists>l mounts tail. l = sp_limits p \<and>
        c = [''docker'', ''run'', ''--rm'', ''--name'', name, ''--network'', ''none'', ''--read-only'',
             ''--cap-drop'', ''ALL'', ''--security-opt'', ''no-new-privileges:true'',
             ''--user'', sx_user (rn_config rn), ''--pids-limit'', int_str (sl_pids l),
             ''--memory'', int_str (sl_memory l) @ ''m'', ''--memory-swap'', int_str (sl_memory l) @ ''m'',
             ''--cpus'', float_repr (sl_cpu l), ''--ipc'', ''none'',
             ''--tmpfs'', ''/tmp:rw,noexec,nosuid,nodev,size='' @ int_str (sp_tmpfs_mb p) @ ''m'',
             ''--workdir'', if sp_input_mode p = ''none'' then ''/tmp'' else ''/traceguard/input'',
             ''--env'', ''HOME=/tmp''] @ mounts @ [sx_image (rn_config rn)] @ tail
        \<and> (mounts = input_mount input_dir p \<and> tail = command
           \<or> (\<exists>uid gid. mounts = input_mount input_dir p @ output_mount uid gid (sp_artifact_limits p) \<and> tail = sleeper p)))"

lemma build_launch: "build_command rn name command p input_dir = Inr c \<Longrightarrow> launch rn name p input_dir command c"
proof (cases "sp_output_mode p = ''allowlisted''")
  case True
  assume b: "build_command rn name command p input_dir = Inr c"
  with True obtain uid gid where "c = hardened_flags rn name p
      @ (input_mount input_dir p @ output_mount uid gid (sp_artifact_limits p)) @ [sx_image (rn_config rn)] @ sleeper p"
    by (auto simp: build_command_def Let_def split: list.splits)
  then show ?thesis unfolding launch_def hardened_flags_def megabytes_def Let_def by blast
next
  case False
  assume b: "build_command rn name command p input_dir = Inr c"
  with False have "c = hardened_flags rn name p @ input_mount input_dir p @ [sx_image (rn_config rn)] @ command"
    by (auto simp: build_command_def Let_def)
  then show ?thesis unfolding launch_def hardened_flags_def megabytes_def Let_def by blast
qed

lemma launch_not_sampled: "launch rn name p input_dir command c \<Longrightarrow> \<not> sampled c"
  by (auto simp: launch_def sampled_def sample_of_def)

lemma run_staged_calls:
  assumes "run_staged env rn name command plan p b = (r, b')"
  shows "bx_calls b' = bx_calls b \<or> (\<exists>cs dc mid. bx_calls b' = bx_calls b @ cs
    \<and> own_commands cs = dc # mid @ [cleanup_command name] \<and> samples_only (watched_names env name b) cs
    \<and> launch rn name p (dk_temp env @ [''input'']) command dc
    \<and> set mid \<subseteq> {exec_command name command, export_command env name (sp_artifact_limits p)})"
proof -
  obtain r1 b1 where s: "stage env rn plan p b = (r1, b1)" by force
  have c1: "bx_calls b1 = bx_calls b" and m1: "bx_monitors b1 = bx_monitors b"
    using stage_quiet [of env rn plan p b] s by (simp_all add: quiet_def)
  show ?thesis
  proof (cases "\<exists>u dc. r1 = Inr u \<and> build_command rn name command p (dk_temp env @ [''input'']) = Inr dc")
    case False
    with assms s c1 show ?thesis by (cases r1) (auto simp: run_staged_def split: sum.splits)
  next
    case True
    then obtain u dc where r1: "r1 = Inr u" and dc: "build_command rn name command p (dk_temp env @ [''input'']) = Inr dc"
      by blast
    obtain r2 b2 where g: "guarded_run env name command dc p (dk_temp env @ [''output'']) b1 = (r2, b2)" by force
    obtain r3 b3 where f: "finish_artifacts env rn name p b2 = (r3, b3)" by force
    have "bx_calls b3 = bx_calls b2" using finish_quiet [of env rn name p b2] f by (simp add: quiet_def)
    then have "bx_calls b' = bx_calls b2"
      using assms s r1 dc g f by (cases r2; cases r3) (auto simp: run_staged_def split: prod.splits)
    moreover have "watched_names env name b1 = watched_names env name b" by (simp add: watched_names_def watchers_def m1)
    moreover note build_launch [OF dc]
    ultimately show ?thesis
      using guarded_run_calls [OF g launch_not_sampled [OF build_launch [OF dc]]] c1 by auto
  qed
qed

lemma temporary_calls:
  assumes "with_temporary env body b = (r, b')"
  shows "bx_calls b' = bx_calls b \<or> (\<exists>fs. bx_calls b' = bx_calls (snd (body (b\<lparr>bx_tree := fs\<rparr>))))"
proof -
  obtain r1 b1 where m: "on_tree (make_dir (butlast (dk_temp env)) (last (dk_temp env))) b = (r1, b1)" by force
  note c = on_tree_ok [OF m]
  have b1: "b1 = b\<lparr>bx_tree := bx_tree b1\<rparr>" using m by (auto simp: on_tree_def split: prod.splits)
  show ?thesis
  proof (cases r1)
    case (Inl e)
    with assms m c show ?thesis by (simp add: with_temporary_def)
  next
    case (Inr u)
    with assms m have "bx_calls b' = bx_calls (snd (body b1))"
      by (cases "body b1") (auto simp: with_temporary_def)
    with b1 show ?thesis by metis
  qed
qed

text \<open>
  The commands of a run: those of the runner are at most the two checks, or the checks, then the
  launch, commands inside the container and its removal; a monitor's samples may come between
  them, of the run's container only after the checks and only with the default executor.
\<close>

definition permitted_commands :: "sandbox_env \<Rightarrow> runner \<Rightarrow> execution_plan \<Rightarrow> box \<Rightarrow> string list list \<Rightarrow> bool" where
  "permitted_commands env rn plan b cs \<longleftrightarrow>
     (let checks = [version_command, inspect_command (sx_image (rn_config rn))]; name = container_name env in
      set (own_commands cs) \<subseteq> set checks \<and> samples_only (watchers b) cs
      \<or> (\<exists>p command dc mid cs1 cs2. cs = cs1 @ cs2
           \<and> own_commands cs1 = checks \<and> samples_only (watchers b) cs1
           \<and> own_commands cs2 = dc # mid @ [cleanup_command name]
           \<and> samples_only (watched_names env name b) cs2
           \<and> is_ok (fst (check_environment env rn b)) \<and> pl_validated plan
           \<and> profile_of rn (pl_profile plan) = Inr p \<and> plan_command plan = Inr command
           \<and> launch rn name p (dk_temp env @ [''input'']) command dc
           \<and> set mid \<subseteq> {exec_command name command, export_command env name (sp_artifact_limits p)}))"

lemma execute_plan_calls:
  assumes "execute_plan env rn plan b = (r, b')"
  shows "\<exists>cs. bx_calls b' = bx_calls b @ cs \<and> permitted_commands env rn plan b cs"
proof -
  have none: "\<exists>cs. bx_calls b' = bx_calls b @ cs \<and> permitted_commands env rn plan b cs" if "b' = b"
    using that by (intro exI [of _ "[]"]) (simp add: permitted_commands_def samples_only_def)
  obtain r1 b1 where chk: "check_environment env rn b = (r1, b1)" by force
  note c = check_environment_calls [OF chk subset_refl]
  show ?thesis
  proof (cases "\<exists>p command. pl_validated plan \<and> profile_of rn (pl_profile plan) = Inr p \<and> plan_command plan = Inr command
      \<and> andthen (r1, b1) (\<lambda>_ b. with_temporary env (run_staged env rn (container_name env) command plan p) b) = (r, b')")
    case False
    with assms chk none show ?thesis by (auto simp: execute_plan_def split: if_splits sum.splits)
  next
    case True
    then obtain p command where v: "pl_validated plan" and p: "profile_of rn (pl_profile plan) = Inr p"
      and command: "plan_command plan = Inr command"
      and step: "andthen (r1, b1) (\<lambda>_ b. with_temporary env (run_staged env rn (container_name env) command plan p) b) = (r, b')"
      by blast
    show ?thesis
    proof (cases r1)
      case (Inl e)
      with step have "b' = b1" by simp
      with c(3) show ?thesis by (auto simp: issues_def permitted_commands_def Let_def)
    next
      case (Inr a)
      with c(2) obtain cs1 where c1: "bx_calls b1 = bx_calls b @ cs1"
        "own_commands cs1 = [version_command, inspect_command (sx_image (rn_config rn))]"
        "samples_only (watchers b) cs1" "watchers b1 = watchers b" by (auto simp: issues_def)
      from step Inr have t: "with_temporary env (run_staged env rn (container_name env) command plan p) b1 = (r, b')" by simp
      from temporary_calls [OF this] show ?thesis
      proof (elim disjE exE)
        assume "bx_calls b' = bx_calls b1"
        with c1 show ?thesis by (auto simp: permitted_commands_def Let_def)
      next
        fix fs
        assume e: "bx_calls b' = bx_calls (snd (run_staged env rn (container_name env) command plan p (b1\<lparr>bx_tree := fs\<rparr>)))"
        obtain r2 b2 where s: "run_staged env rn (container_name env) command plan p (b1\<lparr>bx_tree := fs\<rparr>) = (r2, b2)" by force
        have ok: "is_ok (fst (check_environment env rn b))" using chk Inr by simp
        have names: "watched_names env n (b1\<lparr>bx_tree := fs\<rparr>) = watched_names env n b" for n
          using c1(4) by (simp add: watched_names_def watchers_def)
        from run_staged_calls [OF s] show ?thesis
        proof (elim disjE exE conjE)
          assume "bx_calls b2 = bx_calls (b1\<lparr>bx_tree := fs\<rparr>)"
          with e s c1 show ?thesis by (auto simp: permitted_commands_def Let_def)
        next
          fix cs2 dc mid
          assume "bx_calls b2 = bx_calls (b1\<lparr>bx_tree := fs\<rparr>) @ cs2"
            and "own_commands cs2 = dc # mid @ [cleanup_command (container_name env)]"
            and "samples_only (watched_names env (container_name env) (b1\<lparr>bx_tree := fs\<rparr>)) cs2"
            and "launch rn (container_name env) p (dk_temp env @ [''input'']) command dc"
            and "set mid \<subseteq> {exec_command (container_name env) command, export_command env (container_name env) (sp_artifact_limits p)}"
          then have "bx_calls b' = bx_calls b @ cs1 @ cs2" "permitted_commands env rn plan b (cs1 @ cs2)"
            using e s c1 v p command ok unfolding permitted_commands_def Let_def names by (simp, blast)
          then show ?thesis by blast
        qed
      qed
    qed
  qed
qed

section \<open>Changes of the host\<close>

text \<open>A step that changes the tree inside \<open>T\<close> only.\<close>

definition stays :: "string list set \<Rightarrow> 'a result \<times> box \<Rightarrow> box \<Rightarrow> bool" where
  "stays T res b \<longleftrightarrow> (is_dir (Some (bx_tree b)) \<longrightarrow> keeps T (bx_tree b) (bx_tree (snd res)))"

lemma stays_same [simp]: "stays T (r, b) b"
  by (simp add: stays_def keeps_refl)

lemma stays_andthen:
  assumes "[] \<notin> T" and "stays T m b" and "\<And>v b'. stays T (f v b') b'"
  shows "stays T (andthen m f) b"
proof (cases rule: andthen_cases [of m f])
  case (raised e s)
  with assms(2) show ?thesis by (simp add: stays_def)
next
  case (returned v s)
  show ?thesis
    unfolding stays_def
  proof
    assume d: "is_dir (Some (bx_tree b))"
    have k: "keeps T (bx_tree b) (bx_tree s)" using assms(2) d returned(1) by (simp add: stays_def)
    from keeps_root [OF k d assms(1)] assms(3) [of v s] have "keeps T (bx_tree s) (bx_tree (snd (f v s)))"
      by (simp add: stays_def)
    with k show "keeps T (bx_tree b) (bx_tree (snd (andthen m f)))" unfolding returned(2) by (rule keeps_trans)
  qed
qed

lemma stays_seq: "[] \<notin> T \<Longrightarrow> stays T (r1, b1) b \<Longrightarrow> stays T m b1 \<Longrightarrow> stays T m b"
  unfolding stays_def using keeps_root keeps_trans by fastforce

lemma stays_docker: "stays T (docker env c b) b"
  using docker_tree [of env c b] by (cases "docker env c b") (simp add: stays_def keeps_refl)

lemma stays_on_tree:
  "(\<And>fs r fs'. f fs = (r, fs') \<Longrightarrow> is_dir (Some fs) \<Longrightarrow> keeps T fs fs') \<Longrightarrow> stays T (on_tree f b) b"
  by (auto simp: stays_def on_tree_def split: prod.split)

lemma stays_apfst: "stays T m b \<Longrightarrow> stays T (apfst f m) b"
  by (cases m) (simp add: stays_def)

lemma stage_inputs_below:
  assumes "stage_inputs env workspace input_dir paths budget fs = (r, fs')" and "is_dir (Some fs)" and "input_dir \<noteq> []"
  shows "keeps (below input_dir) fs fs'"
  using assms
proof (induction paths arbitrary: budget fs)
  case Nil
  then show ?case by (simp add: keeps_refl)
next
  case (Cons raw paths)
  show ?case
  proof (cases "\<exists>copied budget'. path_parts raw \<noteq> []
      \<and> copy_confined (guarded_copy env) workspace raw budget fs = (Inr copied, budget')")
    case False
    then have "fs' = fs" using Cons.prems(1) by (auto split: if_splits prod.splits sum.splits)
    then show ?thesis by (simp add: keeps_refl)
  next
    case True
    then obtain copied budget' where ne: "path_parts raw \<noteq> []"
      and c: "copy_confined (guarded_copy env) workspace raw budget fs = (Inr copied, budget')" by blast
    obtain ri f1 where i: "install_copy input_dir raw copied fs = (ri, f1)"
      by (cases "install_copy input_dir raw copied fs")
    note k1 = install_copy_below [OF i Cons.prems(2) ne]
    have d1: "is_dir (Some f1)" using keeps_root [OF k1 Cons.prems(2)] Cons.prems(3) by simp
    consider "fs' = fs" | "fs' = f1" | "stage_inputs env workspace input_dir paths budget' f1 = (r, fs')"
      using Cons.prems(1) c i by (cases ri) (auto split: if_splits)
    then show ?thesis
    proof cases
      case 3
      from Cons.IH [OF this d1 Cons.prems(3)] k1 show ?thesis by (blast intro: keeps_trans)
    qed (use k1 in \<open>auto simp: keeps_refl\<close>)
  qed
qed

lemma import_items_below:
  assumes "import_items env l d items used paths i fs = (r, fs')" and "is_dir (Some fs)"
  shows "keeps (inside d) fs fs'"
  using assms
proof (induction items arbitrary: used paths i fs)
  case Nil
  then show ?case by (simp add: keeps_refl)
next
  case (Cons item items)
  show ?case
  proof (cases "\<exists>relative content. (case write_confined (dk_writes env i) d relative content fs of
        (Inl _, fs) \<Rightarrow> (export_error, fs)
      | (Inr _, fs) \<Rightarrow> import_items env l d items (used + length content) (relative # paths) (Suc i) fs) = (r, fs')")
    case False
    then have "fs' = fs" using Cons.prems(1)
      by (auto simp del: not_ex split: json.splits option.splits if_splits)
    then show ?thesis by (simp add: keeps_refl)
  next
    case True
    then obtain relative content rw f1 where w: "write_confined (dk_writes env i) d relative content fs = (rw, f1)"
      and step: "(case (rw, f1) of (Inl _, fs) \<Rightarrow> (export_error, fs)
        | (Inr _, fs) \<Rightarrow> import_items env l d items (used + length content) (relative # paths) (Suc i) fs) = (r, fs')"
      by (metis (no_types, lifting) surj_pair)
    have k: "keeps (inside d) fs f1" by (rule write_inside [OF Cons.prems(2) w])
    have d1: "is_dir (Some f1)" by (rule keeps_root [OF k Cons.prems(2)]) simp
    show ?thesis
    proof (cases rw)
      case (Inl e)
      with step k show ?thesis by simp
    next
      case (Inr u)
      with step have "import_items env l d items (used + length content) (relative # paths) (Suc i) f1 = (r, fs')" by simp
      from Cons.IH [OF this d1] k show ?thesis by (rule keeps_trans [rotated])
    qed
  qed
qed

lemma inside_mono: "keeps (inside d) fs fs' \<Longrightarrow> prefix e d \<Longrightarrow> keeps (below e) fs fs'"
  by (erule keeps_mono) (auto simp: strict_prefix_def dest: prefix_order.trans)

lemma below_mono: "keeps (below d) fs fs' \<Longrightarrow> prefix e d \<Longrightarrow> keeps (below e) fs fs'"
  by (erule keeps_mono) (auto dest: prefix_order.trans)

lemma keeps_left: "keeps S fs fs' \<Longrightarrow> keeps (S \<union> T) fs fs'" and keeps_right: "keeps T fs fs' \<Longrightarrow> keeps (S \<union> T) fs fs'"
  by (auto elim: keeps_mono)

lemma make_dir_keeps: "make_dir here name fs = (r, fs') \<Longrightarrow> keeps T fs fs'"
  by (cases r) (auto dest: make_dir_error make_dir_ok(4) simp: keeps_refl intro: keeps_mono)

lemma make_dirs_keeps: "make_dirs path fs = (r, fs') \<Longrightarrow> is_dir (Some fs) \<Longrightarrow> keeps T fs fs'"
  using open_creates [of fs "[]" True path "fst (open_parents True [] path fs)" "snd (open_parents True [] path fs)"]
  by (cases "open_parents True [] path fs"; cases "fst (open_parents True [] path fs)")
    (auto simp: make_dirs_def intro: keeps_mono)

lemma persist_stays:
  assumes "persist_artifacts env rn output_dir changed name fs = (r, fs')" and d: "is_dir (Some fs)"
  shows "keeps (below (private_dir (rn_artifacts rn))) fs fs'"
proof (cases "changed = []")
  case True
  with assms show ?thesis by (simp add: persist_artifacts_def keeps_refl)
next
  case False
  let ?base = "rn_artifacts rn"
  obtain r1 f1 where o1: "make_dirs (private_dir ?base) fs = (r1, f1)" by force
  obtain r2 f2 where o2: "make_dirs (released_dir ?base) f1 = (r2, f2)" by force
  obtain r3 f3 where i: "ingest (dk_store env) ?base name output_dir changed None f2 = (r3, f3)" by force
  have k1: "keeps (below (private_dir ?base)) fs f1" by (rule make_dirs_keeps [OF o1 d])
  have d1: "is_dir (Some f1)" by (rule keeps_root [OF k1 d root_not_private])
  have k2: "keeps (below (private_dir ?base)) f1 f2" by (rule make_dirs_keeps [OF o2 d1])
  have d2: "is_dir (Some f2)" by (rule keeps_root [OF k2 d1 root_not_private])
  have k3: "keeps (below (private_dir ?base)) f2 f3" by (rule ingest_below [OF i d2])
  have "fs' = f1 \<or> fs' = f2 \<or> fs' = f3"
    using assms(1) False o1 o2 i
    by (cases r1; cases r2) (auto simp: persist_artifacts_def open_artifacts_def apfst_def map_prod_def)
  with k1 k2 k3 show ?thesis by (auto intro: keeps_trans)
qed

lemma import_export_stays:
  assumes "import_export env l d out fs = (r, fs')" and "is_dir (Some fs)"
  shows "keeps (inside d) fs fs'"
  using assms import_items_below [of env l d _ 0 "[]" 0 fs r fs']
  by (auto simp: import_export_def keeps_refl split: option.splits json.splits if_splits)

text \<open>The temporary directory and the quarantine: all an execution may change on the host.\<close>

definition host_area :: "sandbox_env \<Rightarrow> runner \<Rightarrow> string list set" where
  "host_area env rn = below (dk_temp env) \<union> below (private_dir (rn_artifacts rn))"

lemma root_host_area: "dk_temp env \<noteq> [] \<Longrightarrow> [] \<notin> host_area env rn"
  unfolding host_area_def using root_not_private by simp

lemma temp_in_area: "keeps (below (dk_temp env @ p)) fs fs' \<Longrightarrow> keeps (host_area env rn) fs fs'"
  unfolding host_area_def by (rule keeps_left, erule below_mono) simp

lemma make_dir_stays: "stays T (on_tree (make_dir here name) b) b"
  by (rule stays_on_tree) (rule make_dir_keeps)

lemma stage_stays:
  assumes "dk_temp env \<noteq> []"
  shows "stays (host_area env rn) (stage env rn plan p b) b"
proof -
  have "stays (host_area env rn) (on_tree (stage_inputs env (rn_workspace rn) (dk_temp env @ [''input'']) (pl_inputs plan)
      (staging_budget (sp_input_limits p))) b) b" for b
    by (rule stays_on_tree, rule temp_in_area, erule stage_inputs_below) simp_all
  then show ?thesis
    unfolding stage_def using root_host_area [OF assms]
    by (intro stays_andthen make_dir_stays) (auto intro: make_dir_stays)
qed

lemma collect_stays:
  assumes "dk_temp env \<noteq> []"
  shows "stays (host_area env rn) (collect_output env name (dk_temp env @ [''output'']) p b) b"
proof -
  have "stays (host_area env rn) (on_tree (import_export env l (dk_temp env @ [''output'']) out) b) b" for l out b
    by (rule stays_on_tree, rule temp_in_area, rule keeps_mono [OF import_export_stays inside_below])
  then show ?thesis
    unfolding collect_output_def Let_def using root_host_area [OF assms]
    by (intro stays_andthen stays_docker) (auto split: prod.split)
qed

lemma start_tree [simp]: "bx_tree (start_monitor env name b) = bx_tree b" and stop_tree [simp]: "bx_tree (stop_monitor env b) = bx_tree b"
  by (simp_all add: start_monitor_def stop_monitor_def)

lemma stays_tree: "stays T m b \<Longrightarrow> bx_tree b = bx_tree b' \<Longrightarrow> stays T m b'"
  by (simp add: stays_def)

lemma guarded_run_stays:
  assumes "dk_temp env \<noteq> []"
  shows "stays (host_area env rn) (guarded_run env name command dc p (dk_temp env @ [''output'']) b) b"
proof -
  note r = root_host_area [OF assms, of rn]
  have body: "stays (host_area env rn) (run_body env name command dc p (dk_temp env @ [''output'']) b) b" for b
    unfolding run_body_def using r
    by (auto intro!: stays_andthen stays_docker collect_stays [OF assms])
  obtain r1 b1 where d1: "run_body env name command dc p (dk_temp env @ [''output'']) (start_monitor env name b) = (r1, b1)" by force
  have "stays (host_area env rn) (andthen (cleanup_container env name (stop_monitor env b1)) (\<lambda>_ b. (run_outcome r1, b)))
      (stop_monitor env b1)"
    using r by (intro stays_andthen) (auto simp: cleanup_container_def intro: stays_apfst stays_docker)
  then have "stays (host_area env rn) (andthen (cleanup_container env name (stop_monitor env b1)) (\<lambda>_ b. (run_outcome r1, b))) b1"
    by (rule stays_tree) simp
  moreover have "stays (host_area env rn) (r1, b1) b"
    using stays_tree [OF body [of "start_monitor env name b"], of b] d1 by simp
  ultimately show ?thesis using stays_seq [OF r, of r1 b1 b] d1 by (simp add: guarded_run_def)
qed

lemma run_staged_stays:
  assumes "dk_temp env \<noteq> []"
  shows "stays (host_area env rn) (run_staged env rn name command plan p b) b"
proof -
  have "stays (host_area env rn) (on_tree (persist_artifacts env rn d changed name) b) b" for d changed b
    by (rule stays_on_tree, unfold host_area_def, rule keeps_right) (rule persist_stays)
  then have "stays (host_area env rn) (finish_artifacts env rn name p b) b" for b
    unfolding finish_artifacts_def Let_def using root_host_area [OF assms]
    by (auto split: sum.split intro!: stays_andthen)
  then show ?thesis
    unfolding run_staged_def using root_host_area [OF assms] stage_stays [OF assms] guarded_run_stays [OF assms]
    by (auto intro!: stays_andthen split: sum.split prod.split)
qed

lemma temporary_host:
  assumes v: "with_temporary env body b = (r, b')" and d: "is_dir (Some (bx_tree b))"
    and temp: "dk_temp env \<noteq> []" and apart: "\<not> prefix (private_dir (rn_artifacts rn)) (dk_temp env)"
    and body: "\<And>b. stays (host_area env rn) (body b) b"
  shows "keeps (host_area env rn) (bx_tree b) (bx_tree b')"
    and "walk_to (bx_tree b) (dk_temp env) = None \<Longrightarrow> walk_to (bx_tree b') (dk_temp env) = None"
proof -
  have path: "butlast (dk_temp env) @ [last (dk_temp env)] = dk_temp env" using temp by simp
  obtain r1 f1 where m: "make_dir (butlast (dk_temp env)) (last (dk_temp env)) (bx_tree b) = (r1, f1)" by force
  have "keeps (host_area env rn) (bx_tree b) (bx_tree b')
    \<and> (walk_to (bx_tree b) (dk_temp env) = None \<longrightarrow> walk_to (bx_tree b') (dk_temp env) = None)"
  proof (cases r1)
    case (Inl e)
    with m v make_dir_error [OF m [unfolded Inl]] have "bx_tree b' = bx_tree b"
      by (auto simp: with_temporary_def on_tree_def)
    then show ?thesis by (simp add: keeps_refl)
  next
    case (Inr u)
    note mk = make_dir_ok [OF m [unfolded Inr]]
    obtain r2 b2 where b2: "body (b\<lparr>bx_tree := f1\<rparr>) = (r2, b2)" by force
    have t: "bx_tree b' = remove_at (bx_tree b2) (dk_temp env)"
      using v m Inr b2 by (auto simp: with_temporary_def on_tree_def)
    have k1: "keeps (host_area env rn) (bx_tree b) f1" by (rule keeps_mono [OF mk(4)]) simp
    have d1: "is_dir (Some f1)" by (rule keeps_root [OF k1 d root_host_area [OF temp]])
    have k2: "keeps (host_area env rn) f1 (bx_tree b2)"
      using body [of "b\<lparr>bx_tree := f1\<rparr>"] b2 d1 by (simp add: stays_def)
    have "\<not> prefix (dk_temp env) (butlast (dk_temp env))"
      using temp prefix_length_le [of "dk_temp env" "butlast (dk_temp env)"] by (cases "dk_temp env") auto
    moreover have "\<not> prefix (private_dir (rn_artifacts rn)) (butlast (dk_temp env))"
      using apart path by (metis prefixI prefix_order.trans)
    ultimately have "butlast (dk_temp env) \<notin> host_area env rn" by (simp add: host_area_def)
    with keeps_dir [OF k2 mk(5)] have p2: "is_dir (walk_to (bx_tree b2) (butlast (dk_temp env)))" .
    have k3: "keeps (below (dk_temp env)) (bx_tree b2) (bx_tree b')"
      using remove_subtree [OF p2, of "last (dk_temp env)"] unfolding path t .
    have "walk_to (bx_tree b') (dk_temp env) = None"
      using remove_at_gone [OF p2, of "last (dk_temp env)" "dk_temp env"] unfolding path t by simp
    with k1 k2 temp_in_area [of env "[]"] k3 show ?thesis by (auto intro: keeps_trans)
  qed
  then show "keeps (host_area env rn) (bx_tree b) (bx_tree b')"
    and "walk_to (bx_tree b) (dk_temp env) = None \<Longrightarrow> walk_to (bx_tree b') (dk_temp env) = None" by blast+
qed

lemma execute_plan_host:
  assumes v: "execute_plan env rn plan b = (r, b')" and d: "is_dir (Some (bx_tree b))"
    and temp: "dk_temp env \<noteq> []" and apart: "\<not> prefix (private_dir (rn_artifacts rn)) (dk_temp env)"
  shows "keeps (host_area env rn) (bx_tree b) (bx_tree b')"
    and "walk_to (bx_tree b) (dk_temp env) = None \<Longrightarrow> walk_to (bx_tree b') (dk_temp env) = None"
proof -
  obtain r1 b1 where chk: "check_environment env rn b = (r1, b1)" by force
  note same = check_environment_calls(1) [OF chk subset_refl]
  consider (idle) "bx_tree b' = bx_tree b"
    | (run) command p where "with_temporary env (run_staged env rn (container_name env) command plan p) b1 = (r, b')"
    using v chk same by (cases r1) (auto simp: execute_plan_def split: if_splits sum.splits)
  then have "keeps (host_area env rn) (bx_tree b) (bx_tree b')
    \<and> (walk_to (bx_tree b) (dk_temp env) = None \<longrightarrow> walk_to (bx_tree b') (dk_temp env) = None)"
  proof cases
    case run
    from temporary_host [OF run _ temp apart run_staged_stays [OF temp]] d same show ?thesis by auto
  qed (simp add: keeps_refl)
  then show "keeps (host_area env rn) (bx_tree b) (bx_tree b')"
    and "walk_to (bx_tree b) (dk_temp env) = None \<Longrightarrow> walk_to (bx_tree b') (dk_temp env) = None" by blast+
qed

section \<open>Evidence\<close>

lemma inspect_bounds:
  assumes "inspect_objects l objects entries changed used = Inr (changed', used')"
    and "length changed \<le> al_max_files l" and "used \<le> al_max_total l"
  shows "length changed' \<le> al_max_files l \<and> used' \<le> al_max_total l"
  using assms
  by (induction l objects entries changed used rule: inspect_objects.induct)
    (auto split: if_splits node.splits)

definition evidence_bounded :: "sandbox_profile \<Rightarrow> string \<Rightarrow> sandbox_evidence \<Rightarrow> bool" where
  "evidence_bounded p name ev \<longleftrightarrow>
     (let limit = nat (sl_output (sp_limits p)) in
      length (se_stdout ev) \<le> limit \<and> length (se_stderr ev) \<le> limit
      \<and> length (se_files_changed ev) \<le> al_max_files (sp_artifact_limits p)
      \<and> se_artifact_bytes ev \<le> int (al_max_total (sp_artifact_limits p))
      \<and> se_timed_out ev = (se_exit_code ev = None)
      \<and> (if se_artifact_id ev = None then se_artifact_status ev = None \<and> se_artifact_directory ev = None
         else se_artifact_id ev = Some name \<and> se_artifact_status ev = Some ''quarantined''))"

lemma evidence_of_bounded:
  "length (fst changed) \<le> al_max_files (sp_artifact_limits p) \<Longrightarrow> snd changed \<le> al_max_total (sp_artifact_limits p) \<Longrightarrow>
   evidence_bounded p name (evidence_of used name plan p run changed directory)"
  by (cases run) (auto simp: evidence_bounded_def evidence_of_def bounded_text_def Let_def)

lemma finish_bounds:
  assumes "finish_artifacts env rn name p b = (Inr (changed, directory), b')"
  shows "length (fst changed) \<le> al_max_files (sp_artifact_limits p) \<and> snd changed \<le> al_max_total (sp_artifact_limits p)"
proof (cases "sp_output_mode p = ''allowlisted''")
  case True
  then obtain c u where i: "inspect_artifacts (dk_temp env @ [''output'']) p (bx_tree b) = Inr (c, u)" and "changed = (c, u)"
    using assms by (auto simp: finish_artifacts_def Let_def split: sum.splits elim!: andthen_ok)
  with inspect_bounds [of "sp_artifact_limits p" _ 0 "[]" 0 c u] show ?thesis by (simp add: inspect_artifacts_def)
next
  case False
  with assms show ?thesis by (auto simp: finish_artifacts_def Let_def)
qed

lemma run_staged_evidence:
  assumes "run_staged env rn name command plan p b = (Inr ev, b')"
  shows "evidence_bounded p name ev"
  using assms unfolding run_staged_def
  by (auto elim!: andthen_ok intro!: evidence_of_bounded dest!: finish_bounds split: sum.splits)

lemma execute_plan_evidence:
  assumes "execute_plan env rn plan b = (Inr ev, b')"
  shows "\<exists>p. profile_of rn (pl_profile plan) = Inr p \<and> evidence_bounded p (container_name env) ev"
proof -
  obtain p command where p: "profile_of rn (pl_profile plan) = Inr p"
    and step: "andthen (check_environment env rn b)
        (\<lambda>_ b. with_temporary env (run_staged env rn (container_name env) command plan p) b) = (Inr ev, b')"
    using assms by (auto simp: execute_plan_def split: if_splits sum.splits)
  from step obtain b1 where "with_temporary env (run_staged env rn (container_name env) command plan p) b1 = (Inr ev, b')"
    by (auto elim: andthen_ok)
  then obtain b2 b3 where "run_staged env rn (container_name env) command plan p b2 = (Inr ev, b3)"
    unfolding with_temporary_def by (auto elim!: andthen_ok simp: apsnd_def map_prod_def split: prod.splits)
  from run_staged_evidence [OF this] p show ?thesis by blast
qed

end
