(* ===== verification/Drain.thy ===== *)
theory Drain
  imports Sandbox
begin

text \<open>
  \<open>_run_bounded_command\<close> of \<open>sandbox/runner.py\<close>: both pipes are drained until they close or
  the deadline passes, and at most one byte beyond the limit is kept of each. What the selector
  reports at each turn, and the clock, are parameters.
\<close>

section \<open>The loop\<close>

datatype pipe_event = Chunk string | Blocking

record turn =
  tn_now :: rat
  tn_events :: "(bool \<times> pipe_event) list"

text \<open>\<open>True\<close> stands for stdout. An empty chunk is the end of a stream.\<close>

record pipes =
  pp_kept :: "bool \<Rightarrow> string"
  pp_open :: "bool \<Rightarrow> bool"

definition opened :: pipes where
  "opened = \<lparr>pp_kept = (\<lambda>_. []), pp_open = (\<lambda>_. True)\<rparr>"

definition retain :: "nat \<Rightarrow> string \<Rightarrow> string \<Rightarrow> string" where
  "retain limit kept chunk = (if length kept \<le> limit then kept @ take (limit + 1 - length kept) chunk else kept)"

fun take_event :: "nat \<Rightarrow> bool \<times> pipe_event \<Rightarrow> pipes \<Rightarrow> pipes" where
  "take_event limit (stream, Blocking) s = s"
| "take_event limit (stream, Chunk chunk) s =
     (if \<not> pp_open s stream then s
      else if chunk = [] then s\<lparr>pp_open := (pp_open s)(stream := False)\<rparr>
      else s\<lparr>pp_kept := (pp_kept s)(stream := retain limit (pp_kept s stream) chunk)\<rparr>)"

datatype drained = Finished pipes | Killed pipes

partial_function (option) drain :: "nat \<Rightarrow> rat \<Rightarrow> (nat \<Rightarrow> turn) \<Rightarrow> nat \<Rightarrow> pipes \<Rightarrow> drained option" where
  "drain limit deadline turns n s =
     (if \<not> pp_open s True \<and> \<not> pp_open s False then Some (Finished s)
      else if deadline - tn_now (turns n) \<le> 0 then Some (Killed s)
      else drain limit deadline turns (Suc n) (fold (take_event limit) (tn_events (turns n)) s))"

text \<open>\<open>exit\<close> is the return code if the process ends in the time that is left.\<close>

definition run_bounded_command ::
  "string \<Rightarrow> nat \<Rightarrow> rat \<Rightarrow> (nat \<Rightarrow> turn) \<Rightarrow> int option \<Rightarrow> docker_reply option" where
  "run_bounded_command message limit deadline turns exit =
     map_option (\<lambda>d. case d of
         Killed s \<Rightarrow> Expired message (pp_kept s True) (pp_kept s False)
       | Finished s \<Rightarrow>
           (case exit of None \<Rightarrow> Expired message [] []
            | Some code \<Rightarrow> Completed code (pp_kept s True) (pp_kept s False)))
       (drain limit deadline turns 0 opened)"

section \<open>It ends, and keeps a bounded prefix\<close>

lemma drain_ends:
  "deadline \<le> tn_now (turns (n + k)) \<Longrightarrow> \<exists>d. drain limit deadline turns n s = Some d"
proof (induction k arbitrary: n s)
  case 0
  then show ?case by (subst drain.simps) simp
next
  case (Suc k)
  then show ?case using Suc.IH [of "Suc n"] by (subst drain.simps) simp
qed

text \<open>What a stream delivered in a sequence of events: its chunks up to the empty one.\<close>

fun chunk_of :: "bool \<Rightarrow> bool \<times> pipe_event \<Rightarrow> string list" where
  "chunk_of stream (st, Chunk chunk) = (if st = stream then [chunk] else [])"
| "chunk_of stream (st, Blocking) = []"

definition chunks_of :: "bool \<Rightarrow> (bool \<times> pipe_event) list \<Rightarrow> string list" where
  "chunks_of stream es = concat (map (chunk_of stream) es)"

definition stream_text :: "bool \<Rightarrow> (bool \<times> pipe_event) list \<Rightarrow> string" where
  "stream_text stream es = concat (takeWhile (\<lambda>c. c \<noteq> []) (chunks_of stream es))"

definition ended :: "bool \<Rightarrow> (bool \<times> pipe_event) list \<Rightarrow> bool" where
  "ended stream es \<longleftrightarrow> [] \<in> set (chunks_of stream es)"

lemma retain_take: "kept = take (limit + 1) t \<Longrightarrow> retain limit kept chunk = take (limit + 1) (t @ chunk)"
  by (auto simp: retain_def min_def)

lemma chunks_of_snoc [simp]: "chunks_of stream (es @ [e]) = chunks_of stream es @ chunk_of stream e"
  by (simp add: chunks_of_def)

lemma stream_text_snoc:
  "stream_text stream (es @ [e]) =
     (if ended stream es then stream_text stream es else stream_text stream es @ concat (takeWhile (\<lambda>c. c \<noteq> []) (chunk_of stream e)))"
proof (cases "ended stream es")
  case True
  then have "takeWhile (\<lambda>c. c \<noteq> []) (chunks_of stream es @ chunk_of stream e) = takeWhile (\<lambda>c. c \<noteq> []) (chunks_of stream es)"
    unfolding ended_def by (intro takeWhile_append1) auto
  with True show ?thesis by (simp add: stream_text_def)
next
  case False
  then have all: "takeWhile (\<lambda>c. c \<noteq> []) (chunks_of stream es @ xs) = chunks_of stream es @ takeWhile (\<lambda>c. c \<noteq> []) xs" for xs
    unfolding ended_def by (intro takeWhile_append2) auto
  have t: "takeWhile (\<lambda>c. c \<noteq> []) (chunks_of stream es) = chunks_of stream es"
    using False by (auto simp: ended_def takeWhile_eq_all_conv)
  show ?thesis using False unfolding stream_text_def chunks_of_snoc all t by simp
qed

lemma ended_snoc: "ended stream (es @ [e]) \<longleftrightarrow> ended stream es \<or> [] \<in> set (chunk_of stream e)"
  by (simp add: ended_def)

lemma fold_events:
  "pp_kept (fold (take_event limit) es opened) stream = take (limit + 1) (stream_text stream es)
   \<and> pp_open (fold (take_event limit) es opened) stream = (\<not> ended stream es)"
proof (induction es rule: rev_induct)
  case Nil
  then show ?case by (simp add: opened_def stream_text_def chunks_of_def ended_def)
next
  case (snoc e es)
  obtain st ev where e: "e = (st, ev)" by force
  show ?case
    using snoc retain_take [of "pp_kept (fold (take_event limit) es opened) stream" limit "stream_text stream es"]
    unfolding e by (cases ev) (auto simp: stream_text_snoc ended_snoc split: if_splits)
qed

fun events_from :: "(nat \<Rightarrow> turn) \<Rightarrow> nat \<Rightarrow> nat \<Rightarrow> (bool \<times> pipe_event) list" where
  "events_from turns n 0 = []"
| "events_from turns n (Suc m) = tn_events (turns n) @ events_from turns (Suc n) m"

lemma drain_result:
  assumes "drain limit deadline turns n s = Some d"
  shows "\<exists>m. let t = fold (take_event limit) (events_from turns n m) s in
     (d = Finished t \<and> \<not> pp_open t True \<and> \<not> pp_open t False) \<or> (d = Killed t \<and> deadline \<le> tn_now (turns (n + m)))"
  using assms
proof (induction rule: drain.raw_induct [rotated 1, consumes 1])
  case (1 drain' limit deadline turns n s d)
  show ?case
  proof (cases "(\<not> pp_open s True \<and> \<not> pp_open s False) \<or> deadline \<le> tn_now (turns n)")
    case True
    with 1(2) show ?thesis
      by (intro exI [of _ 0]) (auto simp: Let_def split: if_splits)
  next
    case False
    then have "drain' limit deadline turns (Suc n) (fold (take_event limit) (tn_events (turns n)) s) = Some d"
      using 1(2) False by (auto split: if_splits)
    from 1(1) [OF this] obtain m where m: "let t = fold (take_event limit) (events_from turns (Suc n) m)
          (fold (take_event limit) (tn_events (turns n)) s) in
        (d = Finished t \<and> \<not> pp_open t True \<and> \<not> pp_open t False) \<or> (d = Killed t \<and> deadline \<le> tn_now (turns (Suc n + m)))" by blast
    then show ?thesis by (intro exI [of _ "Suc m"]) simp
  qed
qed

text \<open>What a reply of the command holds, given the events of the turns it took.\<close>

definition reply_holds :: "nat \<Rightarrow> (bool \<times> pipe_event) list \<Rightarrow> docker_reply \<Rightarrow> bool" where
  "reply_holds limit es reply =
     (case reply of
        Completed code out err \<Rightarrow>
          out = take (limit + 1) (stream_text True es) \<and> err = take (limit + 1) (stream_text False es)
          \<and> ended True es \<and> ended False es
      | Expired msg out err \<Rightarrow>
          prefix out (take (limit + 1) (stream_text True es)) \<and> prefix err (take (limit + 1) (stream_text False es))
      | _ \<Rightarrow> False)"

lemma run_bounded_command_ends:
  assumes "deadline \<le> tn_now (turns k)"
  shows "\<exists>reply m. run_bounded_command message limit deadline turns exit = Some reply
    \<and> reply_holds limit (events_from turns 0 m) reply"
proof -
  obtain d where d: "drain limit deadline turns 0 opened = Some d"
    using drain_ends [of deadline turns 0 k limit opened] assms by auto
  from drain_result [OF d] obtain m where
    m: "let t = fold (take_event limit) (events_from turns 0 m) opened in
      (d = Finished t \<and> \<not> pp_open t True \<and> \<not> pp_open t False) \<or> (d = Killed t \<and> deadline \<le> tn_now (turns m))" by auto
  let ?es = "events_from turns 0 m"
  have "reply_holds limit ?es (case d of Killed s \<Rightarrow> Expired message (pp_kept s True) (pp_kept s False)
      | Finished s \<Rightarrow> (case exit of None \<Rightarrow> Expired message [] []
          | Some code \<Rightarrow> Completed code (pp_kept s True) (pp_kept s False)))"
    using m fold_events [of limit ?es True] fold_events [of limit ?es False]
    by (cases exit) (auto simp: Let_def reply_holds_def)
  then show ?thesis using d by (auto simp: run_bounded_command_def)
qed

end
