(* ===== verification/SandboxSamples.thy ===== *)
theory SandboxSamples
  imports SandboxSafety Drain StoreSamples
begin

text \<open>A trusted configuration and one contained run, for the witnesses.\<close>

definition box_profile :: sandbox_profile where
  "box_profile = \<lparr>sp_enabled = True, sp_network = ''none'', sp_input_mode = ''none'', sp_output_mode = ''none'',
     sp_limits = \<lparr>sl_timeout = 20, sl_memory = 64, sl_cpu = 1, sl_pids = 8, sl_output = 1024\<rparr>,
     sp_tmpfs_mb = 8, sp_artifact_limits = default_artifact_limits, sp_input_limits = default_input_limits\<rparr>"

definition box_image :: string where
  "box_image = ''python@sha256:'' @ replicate 64 (CHR ''a'')"

definition box_config :: sandbox_config where
  "box_config = \<lparr>sx_version = ''v1'', sx_image = box_image, sx_architectures = [''amd64''], sx_user = ''65532:65532'',
     sx_profiles = [(''isolated_compute'', box_profile), (''readonly_input'', box_profile), (''artifact_build'', box_profile),
       (''restricted_network'', box_profile\<lparr>sp_enabled := False\<rparr>)]\<rparr>"

definition box_reply :: "string list list \<Rightarrow> string list \<Rightarrow> docker_reply" where
  "box_reply calls command =
     (case command of
        [_, v, _, _] \<Rightarrow> Completed 0 (if v = ''version'' then ''x86_64'' else []) []
      | _ \<Rightarrow>
          if command ! 1 = ''image'' then Completed 0 (''amd64|'' @ box_image) []
          else if command ! 1 = ''stats'' then Completed 1 [] []
          else if command ! 1 = ''container'' then Completed 0 ''7'' [] else Completed 0 ''hi'' [])"

text \<open>The monitor takes three steps after each action: one turn of its loop.\<close>

definition box_env :: sandbox_env where
  "box_env = \<lparr>dk_reply = box_reply, dk_id = ''1'', dk_temp = [''t''], dk_script = [], dk_copy = st_copy (note_env True),
     dk_store = note_env True, dk_writes = nat_str, dk_default = True, dk_turns = (\<lambda>_. [0, 0, 0])\<rparr>"

definition box_runner :: runner where
  "box_runner = \<lparr>rn_config = box_config, rn_workspace = [''w''], rn_artifacts = [''a'']\<rparr>"

definition box_plan :: execution_plan where
  "box_plan = \<lparr>pl_call = \<lparr>tc_task_id = ''t'', tc_step_id = 1, tc_tool_name = ''restricted_command'',
       tc_arguments = [(''command'', JList [JStr ''--privileged''])], tc_consumed = [], tc_resources = [],
       tc_call_id = ''c''\<rparr>,
     pl_target = TargetContainer, pl_profile = Some ''isolated_compute'', pl_inputs = [], pl_limits = default_limits,
     pl_validated = True, pl_reason = []\<rparr>"

definition box_before :: box where
  "box_before = \<lparr>bx_calls = [], bx_tree = Dir [(''w'', Dir [(''f'', File 1 1 ''x'')])], bx_monitors = []\<rparr>"

lemma loads_null: "json_loads ''null'' = Some JNull"
  by code_simp

lemma box_pinned: "re_fullmatch pinned_image_re box_image"
  by code_simp

lemma box_user: "re_fullmatch user_re ''65532:65532''"
  by code_simp

lemma box_profile_valid: "valid_profile box_profile"
  by (simp add: valid_profile_def box_profile_def valid_limits_def valid_artifact_limits_def valid_input_limits_def
      default_artifact_limits_def default_input_limits_def)

lemma box_config_loads: "load_sandbox_configuration (\<lambda>_. Some box_config) (Inr ''null'') = Inr box_config"
proof -
  have "valid_fields box_config"
    using box_user box_profile_valid
    by (simp add: valid_fields_def box_config_def valid_profile_def)
  moreover have "validate_safety_boundary box_config = Inr ()"
    using box_pinned by (simp add: validate_safety_boundary_def box_config_def enabled_profiles_def dict_keys_def safe_profile_def box_profile_def)
  ultimately show ?thesis
    by (simp add: load_sandbox_configuration_def loads_null model_validate_def)
qed

text \<open>The run of the plan: an ordinary command that prints two characters.\<close>

definition box_launched :: "string list" where
  "box_launched = hardened_flags box_runner ''traceguard-1'' box_profile @ [box_image, ''--privileged'']"

definition box_checked :: box where
  "box_checked = box_before\<lparr>bx_calls := [version_command, inspect_command box_image]\<rparr>"

lemma box_daemon: "daemon_arch box_runner (0, ''x86_64'', []) = Inr ''amd64''"
proof -
  have "py_strip ''x86_64'' = ''x86_64''" by code_simp
  then show ?thesis by (simp add: daemon_arch_def box_runner_def box_config_def normalize_arch_def)
qed

lemma box_strip: "py_strip (''amd64|'' @ box_image) = ''amd64|'' @ box_image"
  by code_simp

lemma box_split: "split_once (CHR 0x7C) (''amd64|'' @ box_image) = Some (''amd64'', box_image)"
  by code_simp

lemma box_digest: "contains (text_after_last (CHR ''@'') box_image) box_image"
  by code_simp

lemma box_inspected: "image_arch box_runner ''amd64'' (0, ''amd64|'' @ box_image, []) = Inr ''amd64''"
  unfolding image_arch_def prod.case Let_def box_strip box_split
  using box_digest by (simp add: box_runner_def box_config_def normalize_arch_def)

text \<open>The turns of the monitor: two while it runs, none once it has stopped.\<close>

definition box_monitor :: "bool \<Rightarrow> watch \<Rightarrow> usage \<Rightarrow> monitor" where
  "box_monitor stopped w u = \<lparr>mo_name = ''traceguard-1'', mo_watch = w, mo_stopped = stopped, mo_usage = u\<rparr>"

lemma box_turns: "dk_turns box_env calls = [0, 0, 0]" and box_default: "dk_default box_env"
  by (simp_all add: box_env_def)

lemma box_sampled:
  "dk_reply box_env calls (stats_command n) = Completed 1 [] []"
  "dk_reply box_env calls (size_command n) = Completed 0 ''7'' []"
  by (simp_all add: box_env_def box_reply_def stats_command_def size_command_def)

lemma seven: "signed_digits (py_strip ''7'') = Some 7"
  by code_simp

lemma idle_watched: "bx_monitors b = [] \<Longrightarrow> watched box_env b = b"
  by (simp add: watched_def box_turns monitor_step_def)

lemma turn_watched:
  "watched box_env \<lparr>bx_calls = cs, bx_tree = t, bx_monitors = [box_monitor False Resting u]\<rparr> =
   \<lparr>bx_calls = cs @ [stats_command ''traceguard-1'', size_command ''traceguard-1''], bx_tree = t,
    bx_monitors = [box_monitor False Resting (fst u, keep_most (snd u) 7)]\<rparr>"
  by (simp add: watched_def box_turns monitor_step_def box_monitor_def monitor_asks_def monitor_tests_def
      monitor_hears_def box_sampled sample_memory_def sample_disk_def seven Let_def)

lemma stopped_watched:
  "w = Resting \<or> w = Ended \<Longrightarrow>
   watched box_env \<lparr>bx_calls = cs, bx_tree = t, bx_monitors = [box_monitor True w u]\<rparr> =
   \<lparr>bx_calls = cs, bx_tree = t, bx_monitors = [box_monitor True Ended u]\<rparr>"
  by (auto simp: watched_def box_turns monitor_step_def box_monitor_def monitor_asks_def monitor_tests_def Let_def)

lemma box_environment: "check_environment box_env box_runner box_before = (Inr ''amd64'', box_checked)"
proof -
  have v: "dk_reply box_env calls version_command = Completed 0 ''x86_64'' []" for calls
    by (simp add: box_env_def box_reply_def version_command_def)
  have i: "dk_reply box_env calls (inspect_command img) = Completed 0 (''amd64|'' @ box_image) []" for calls img
    by (simp add: box_env_def box_reply_def inspect_command_def)
  have "sx_image (rn_config box_runner) = box_image"
    by (simp add: box_runner_def box_config_def)
  then show ?thesis
    using box_daemon box_inspected
    by (simp add: check_environment_def docker_def v i idle_watched box_before_def box_checked_def del: append.simps)
qed

lemma box_selects: "profile_of box_runner (Some ''isolated_compute'') = Inr box_profile"
  by (simp add: profile_of_def enabled_profiles_def box_runner_def box_config_def box_profile_def)

lemma box_builds:
  "build_command box_runner ''traceguard-1'' [''--privileged''] box_profile input_dir = Inr box_launched"
  by (simp add: build_command_def box_profile_def input_mount_def box_runner_def box_config_def box_launched_def Let_def)

lemma box_answers: "dk_reply box_env calls box_launched = Completed 0 ''hi'' []"
  by (simp add: box_env_def box_reply_def box_launched_def hardened_flags_def Let_def)

lemma box_removes: "dk_reply box_env calls (cleanup_command n) = Completed 0 [] []"
  by (simp add: box_env_def box_reply_def cleanup_command_def)

lemma box_stages:
  assumes "bx_tree b = Dir [(''w'', w), (''t'', Dir [])]"
  shows "stage box_env box_runner box_plan box_profile b =
    (Inr (), b\<lparr>bx_tree := Dir [(''w'', w), (''t'', Dir [(''input'', Dir [])])]\<rparr>)"
  using assms by (simp add: stage_def on_tree_def box_env_def make_dir_def box_profile_def box_plan_def)

definition box_end :: box where
  "box_end = box_before\<lparr>bx_calls := [version_command, inspect_command box_image,
     stats_command ''traceguard-1'', size_command ''traceguard-1'', box_launched,
     stats_command ''traceguard-1'', size_command ''traceguard-1'', cleanup_command ''traceguard-1''],
     bx_monitors := [box_monitor True Ended (None, Some 7)]\<rparr>"

lemma box_guarded:
  "guarded_run box_env ''traceguard-1'' command box_launched box_profile dir
     \<lparr>bx_calls = cs, bx_tree = t, bx_monitors = []\<rparr> =
   (Inr (Some 0, ''hi'', []),
    \<lparr>bx_calls = cs @ [stats_command ''traceguard-1'', size_command ''traceguard-1'', box_launched,
       stats_command ''traceguard-1'', size_command ''traceguard-1'', cleanup_command ''traceguard-1''],
     bx_tree = t, bx_monitors = [box_monitor True Ended (None, Some 7)]\<rparr>)"
proof -
  have start: "start_monitor box_env ''traceguard-1'' \<lparr>bx_calls = cs, bx_tree = t, bx_monitors = []\<rparr> =
      \<lparr>bx_calls = cs @ [stats_command ''traceguard-1'', size_command ''traceguard-1''], bx_tree = t,
       bx_monitors = [box_monitor False Resting (None, Some 7)]\<rparr>"
    using turn_watched [of cs t "(None, None)"]
    by (simp add: start_monitor_def box_default new_monitor_def box_monitor_def keep_most_def)
  have run: "docker box_env box_launched \<lparr>bx_calls = ds, bx_tree = t, bx_monitors = [box_monitor False Resting (None, Some 7)]\<rparr> =
      (Inr (0, ''hi'', []), \<lparr>bx_calls = ds @ [box_launched, stats_command ''traceguard-1'', size_command ''traceguard-1''],
       bx_tree = t, bx_monitors = [box_monitor False Resting (None, Some 7)]\<rparr>)" for ds
    by (simp add: docker_def box_answers turn_watched keep_most_def)
  have stop: "stop_monitor box_env \<lparr>bx_calls = ds, bx_tree = t, bx_monitors = [box_monitor False Resting u]\<rparr> =
      \<lparr>bx_calls = ds, bx_tree = t, bx_monitors = [box_monitor True Ended u]\<rparr>" for ds u
    using stopped_watched [of Resting ds t u] by (simp add: stop_monitor_def box_default box_monitor_def)
  have clean: "docker box_env (cleanup_command ''traceguard-1'') \<lparr>bx_calls = ds, bx_tree = t, bx_monitors = [box_monitor True Ended u]\<rparr> =
      (Inr (0, [], []), \<lparr>bx_calls = ds @ [cleanup_command ''traceguard-1''], bx_tree = t, bx_monitors = [box_monitor True Ended u]\<rparr>)" for ds u
    by (simp add: docker_def box_removes stopped_watched)
  have "sp_output_mode box_profile \<noteq> ''allowlisted''" by (simp add: box_profile_def)
  then show ?thesis
    by (simp add: guarded_run_def run_body_def cleanup_container_def start run stop clean run_outcome_def)
qed

lemma box_runs:
  "execute_plan box_env box_runner box_plan box_before =
     (Inr (evidence_of (None, Some 7) ''traceguard-1'' box_plan box_profile (Some 0, ''hi'', []) ([], 0) None), box_end)"
proof -
  have temp: "dk_temp box_env = [''t'']" and id: "container_name box_env = ''traceguard-1''"
    by (simp_all add: box_env_def container_name_def)
  have plan: "pl_target box_plan = TargetContainer" "pl_validated box_plan" "pl_profile box_plan = Some ''isolated_compute''"
      "plan_command box_plan = Inr [''--privileged'']"
    by (simp_all add: box_plan_def plan_command_def)
  have out: "sp_output_mode box_profile \<noteq> ''allowlisted''"
    by (simp add: box_profile_def)
  have used: "resource_usage box_env \<lparr>bx_calls = cs, bx_tree = t, bx_monitors = [box_monitor True Ended u]\<rparr> = u" for cs t u
    by (simp add: resource_usage_def box_default box_monitor_def)
  have finish: "box_end = \<lparr>bx_calls = [version_command, inspect_command box_image,
     stats_command ''traceguard-1'', size_command ''traceguard-1'', box_launched,
     stats_command ''traceguard-1'', size_command ''traceguard-1'', cleanup_command ''traceguard-1''],
     bx_tree = Dir [(''w'', Dir [(''f'', File (Suc 0) (Suc 0) ''x'')])],
     bx_monitors = [box_monitor True Ended (None, Some 7)]\<rparr>"
    by (simp add: box_end_def box_before_def)
  show ?thesis
    using out
    by (simp add: execute_plan_def plan box_selects box_environment with_temporary_def temp id on_tree_def make_dir_def
        box_checked_def [unfolded box_before_def] box_stages run_staged_def box_builds box_guarded finish_artifacts_def
        used finish)
qed

end
