(* ===== verification/Calculator.thy ===== *)
theory Calculator
  imports Doubles
begin

text \<open>
  The calculator of \<open>tools/registry.py\<close>: evaluation of a parsed arithmetic expression with
  a budget of nodes and a bound on every value. \<open>ast.parse\<close> and the C library's \<open>pow\<close> are
  parameters; the other float operations are exact arithmetic rounded to a double. An infinite
  quotient is a value beyond the bound, as the code treats it. Messages are those of CPython 3.11.
\<close>

section \<open>Expressions\<close>

datatype binary_op = Add | Sub | Mult | Divide | FloorDiv | Mod | Pow | OtherBinary

datatype unary_op = USub | UAdd | OtherUnary

datatype literal = IntLit int | FloatLit rat | InfiniteLit | OtherLit

text \<open>\<open>Compound\<close> stands for names, attributes, calls, subscripts, lists, dictionaries and tuples.\<close>

datatype expr =
    Expression expr
  | Constant literal
  | BinOp expr binary_op expr
  | UnaryOp unary_op expr
  | Compound
  | OtherExpr

text \<open>A complex result is known by its absolute value.\<close>

datatype number = Real rat | Complex rat

text \<open>\<open>pow\<close> of the C library on a positive base, and the absolute value of a complex power;
  None is an overflow.\<close>

record calc_env =
  ca_parse :: "string \<Rightarrow> expr result"
  ca_pow :: "rat \<Rightarrow> rat \<Rightarrow> rat option"
  ca_complex :: "rat \<Rightarrow> rat \<Rightarrow> rat option"

definition max_calc_value :: rat where
  "max_calc_value = 1000000000000"

definition max_calc_nodes :: int where
  "max_calc_nodes = 64"

section \<open>Float operations\<close>

definition float_of_int :: "int \<Rightarrow> rat result" where
  "float_of_int n =
     (if 2 ^ 1024 - 2 ^ 970 \<le> \<bar>n\<bar> then Inl (OverflowError ''int too large to convert to float'')
      else Inr (double (of_int n)))"

text \<open>C's \<open>fmod\<close>, which is exact.\<close>

definition fmod :: "rat \<Rightarrow> rat \<Rightarrow> rat" where
  "fmod x y = (let q = x / y in x - y * of_int (if q < 0 then \<lceil>q\<rceil> else \<lfloor>q\<rfloor>))"

definition float_mod :: "rat \<Rightarrow> rat \<Rightarrow> rat" where
  "float_mod x y = (let m = fmod x y in if m \<noteq> 0 \<and> (y < 0) \<noteq> (m < 0) then double (m + y) else m)"

definition float_floordiv :: "rat \<Rightarrow> rat \<Rightarrow> rat" where
  "float_floordiv x y =
     (let m = fmod x y; d0 = double (double (x - m) / y);
          d = (if m \<noteq> 0 \<and> (y < 0) \<noteq> (m < 0) then double (d0 - 1) else d0);
          f = of_int \<lfloor>d\<rfloor>
      in if d = 0 then 0 else if 1 / 2 < double (d - f) then double (f + 1) else f)"

definition float_pow :: "calc_env \<Rightarrow> rat \<Rightarrow> rat \<Rightarrow> number result" where
  "float_pow env x y =
     (if y = 0 \<or> x = 1 then Inr (Real 1)
      else if x = 0
      then (if y < 0 then Inl (ZeroDivisionError ''0.0 cannot be raised to a negative power'') else Inr (Real 0))
      else if x < 0 \<and> y \<noteq> of_int \<lfloor>y\<rfloor>
      then (case ca_complex env x y of
              None \<Rightarrow> Inl (OverflowError ''complex exponentiation'') | Some m \<Rightarrow> Inr (Complex m))
      else let sign = (if x < 0 \<and> odd \<lfloor>y\<rfloor> then - 1 else 1) in
        if x = - 1 then Inr (Real sign)
        else case ca_pow env \<bar>x\<bar> y of
          None \<Rightarrow> Inl (OverflowError ''Numerical result out of range'')
        | Some v \<Rightarrow> Inr (Real (sign * v)))"

fun apply_binary :: "calc_env \<Rightarrow> binary_op \<Rightarrow> rat \<Rightarrow> rat \<Rightarrow> number result" where
  "apply_binary env Add x y = Inr (Real (double (x + y)))"
| "apply_binary env Sub x y = Inr (Real (double (x - y)))"
| "apply_binary env Mult x y = Inr (Real (double (x * y)))"
| "apply_binary env Divide x y =
     (if y = 0 then Inl (ZeroDivisionError ''float division by zero'') else Inr (Real (double (x / y))))"
| "apply_binary env FloorDiv x y =
     (if y = 0 then Inl (ZeroDivisionError ''float floor division by zero'') else Inr (Real (float_floordiv x y)))"
| "apply_binary env Mod x y =
     (if y = 0 then Inl (ZeroDivisionError ''float modulo'') else Inr (Real (float_mod x y)))"
| "apply_binary env Pow x y = float_pow env x y"
| "apply_binary env OtherBinary x y = Inl (ValueError ''unsupported calculator expression'')"

fun apply_unary :: "unary_op \<Rightarrow> rat \<Rightarrow> rat" where
  "apply_unary USub x = - x"
| "apply_unary _ x = x"

section \<open>Evaluation\<close>

definition unsupported :: "rat result" where
  "unsupported = Inl (ValueError ''unsupported calculator expression'')"

definition literal_value :: "literal \<Rightarrow> rat result" where
  "literal_value l =
     (case (case l of IntLit n \<Rightarrow> float_of_int n | FloatLit x \<Rightarrow> Inr x
            | InfiniteLit \<Rightarrow> Inl (ValueError ''calculator literal out of bounds'') | OtherLit \<Rightarrow> unsupported) of
        Inl e \<Rightarrow> Inl e
      | Inr x \<Rightarrow> if max_calc_value < \<bar>x\<bar> then Inl (ValueError ''calculator literal out of bounds'') else Inr x)"

definition bounded_number :: "number result \<Rightarrow> rat result" where
  "bounded_number r =
     (case r of
        Inl e \<Rightarrow> Inl e
      | Inr (Real v) \<Rightarrow> if max_calc_value < \<bar>v\<bar> then Inl (ValueError ''calculator result out of bounds'') else Inr v
      | Inr (Complex m) \<Rightarrow>
          if max_calc_value < m then Inl (ValueError ''calculator result out of bounds'')
          else Inl (TypeError ''float() argument must be a string or a real number, not complex''))"

definition binary_value :: "calc_env \<Rightarrow> binary_op \<Rightarrow> rat \<Rightarrow> rat \<Rightarrow> rat result" where
  "binary_value env op x y =
     (if op = Pow \<and> (8 < \<bar>y\<bar> \<or> 1000 < \<bar>x\<bar>) then Inl (ValueError ''exponentiation exceeds safety limits'')
      else bounded_number (apply_binary env op x y))"

text \<open>\<open>_calculate\<close>: the state is what is left of the budget, which every visited node reduces.\<close>

definition spend :: "(int \<Rightarrow> rat result \<times> int) \<Rightarrow> int \<Rightarrow> rat result \<times> int" where
  "spend body budget =
     (if budget - 1 < 0 then (Inl (ValueError ''calculator expression too complex''), budget - 1)
      else body (budget - 1))"

primrec calculate :: "calc_env \<Rightarrow> expr \<Rightarrow> int \<Rightarrow> rat result \<times> int" where
  "calculate env (Expression e) = spend (calculate env e)"
| "calculate env (Constant l) = spend (\<lambda>b. (literal_value l, b))"
| "calculate env (BinOp l op r) =
     spend (\<lambda>b. if op = OtherBinary then (unsupported, b)
                else andthen (calculate env l b)
                       (\<lambda>x b. andthen (calculate env r b) (\<lambda>y b. (binary_value env op x y, b))))"
| "calculate env (UnaryOp op e) =
     spend (\<lambda>b. if op = OtherUnary then (unsupported, b)
                else andthen (calculate env e b) (\<lambda>x b. (Inr (apply_unary op x), b)))"
| "calculate env Compound =
     spend (\<lambda>b. (Inl (ValueError ''names, calls, and compound literals are not allowed''), b))"
| "calculate env OtherExpr = spend (\<lambda>b. (unsupported, b))"

definition evaluate_expression :: "calc_env \<Rightarrow> string \<Rightarrow> rat result" where
  "evaluate_expression env text =
     (case ca_parse env text of
        Inl e \<Rightarrow> Inl e
      | Inr node \<Rightarrow> fst (calculate env node max_calc_nodes))"

definition number_text :: "rat \<Rightarrow> string" where
  "number_text v = (if v = of_int \<lfloor>v\<rfloor> then int_str \<lfloor>v\<rfloor> else float_repr v)"

section \<open>The value of an expression\<close>

text \<open>
  The specification: what an expression is worth, with no budget and without the evaluator's
  branches. A literal is worth itself; each operation is the real operation rounded to a double.
  The remainder has the sign of the divisor, the floor quotient rounds the multiple of the divisor
  nearest below and divides it again, as the float operations do.
\<close>

definition trunc_quotient :: "rat \<Rightarrow> rat \<Rightarrow> int" where
  "trunc_quotient x y = (if 0 \<le> x / y then \<lfloor>x / y\<rfloor> else - \<lfloor>- (x / y)\<rfloor>)"

definition remainder :: "rat \<Rightarrow> rat \<Rightarrow> rat" where
  "remainder x y =
     (if (x < 0) = (y < 0) then x - y * of_int \<lfloor>x / y\<rfloor> else double (x - y * of_int \<lfloor>x / y\<rfloor>))"

definition floor_quotient :: "rat \<Rightarrow> rat \<Rightarrow> rat" where
  "floor_quotient x y =
     (let t = double (double (y * of_int (trunc_quotient x y)) / y);
          d = (if x / y < of_int (trunc_quotient x y) then double (t - 1) else t)
      in if d = 0 then 0
         else if double (d - of_int \<lfloor>d\<rfloor>) \<le> 1 / 2 then of_int \<lfloor>d\<rfloor> else double (of_int \<lfloor>d\<rfloor> + 1))"

inductive denotes :: "literal \<Rightarrow> rat \<Rightarrow> bool" where
  int_literal: "\<bar>n\<bar> \<le> 1000000000000 \<Longrightarrow> denotes (IntLit n) (of_int n)"
| float_literal: "\<bar>x\<bar> \<le> 1000000000000 \<Longrightarrow> denotes (FloatLit x) x"

inductive raises_to :: "calc_env \<Rightarrow> rat \<Rightarrow> rat \<Rightarrow> rat \<Rightarrow> bool" for env :: calc_env where
  exponent_zero: "raises_to env x 0 1"
| base_one: "raises_to env 1 y 1"
| base_zero: "0 < y \<Longrightarrow> raises_to env 0 y 0"
| base_positive: "0 < x \<Longrightarrow> x \<noteq> 1 \<Longrightarrow> y \<noteq> 0 \<Longrightarrow> ca_pow env x y = Some v \<Longrightarrow> raises_to env x y v"
| base_minus_one: "k \<noteq> 0 \<Longrightarrow> raises_to env (- 1) (of_int k) (if even k then 1 else - 1)"
| base_negative: "x < 0 \<Longrightarrow> x \<noteq> - 1 \<Longrightarrow> k \<noteq> 0 \<Longrightarrow> ca_pow env (- x) (of_int k) = Some p \<Longrightarrow>
    raises_to env x (of_int k) (if even k then p else - p)"

inductive operates :: "calc_env \<Rightarrow> binary_op \<Rightarrow> rat \<Rightarrow> rat \<Rightarrow> rat \<Rightarrow> bool" for env :: calc_env where
  addition: "operates env Add x y (double (x + y))"
| subtraction: "operates env Sub x y (double (x - y))"
| multiplication: "operates env Mult x y (double (x * y))"
| division: "y \<noteq> 0 \<Longrightarrow> operates env Divide x y (double (x / y))"
| floor_division: "y \<noteq> 0 \<Longrightarrow> operates env FloorDiv x y (floor_quotient x y)"
| modulo: "y \<noteq> 0 \<Longrightarrow> operates env Mod x y (remainder x y)"
| power: "\<bar>y\<bar> \<le> 8 \<Longrightarrow> \<bar>x\<bar> \<le> 1000 \<Longrightarrow> raises_to env x y v \<Longrightarrow> operates env Pow x y v"

inductive computes :: "calc_env \<Rightarrow> expr \<Rightarrow> rat \<Rightarrow> bool" for env :: calc_env where
  whole: "computes env e v \<Longrightarrow> computes env (Expression e) v"
| literal: "denotes l v \<Longrightarrow> computes env (Constant l) v"
| operation: "computes env l x \<Longrightarrow> computes env r y \<Longrightarrow> operates env op x y v \<Longrightarrow> \<bar>v\<bar> \<le> 1000000000000
    \<Longrightarrow> computes env (BinOp l op r) v"
| minus: "computes env e v \<Longrightarrow> computes env (UnaryOp USub e) (- v)"
| plus: "computes env e v \<Longrightarrow> computes env (UnaryOp UAdd e) v"

section \<open>The evaluator's operations against the specification\<close>

inductive_simps denotes_simps [simp]:
  "denotes (IntLit n) v" "denotes (FloatLit x) v" "denotes InfiniteLit v" "denotes OtherLit v"

inductive_simps operates_simps [simp]:
  "operates env Add x y v" "operates env Sub x y v" "operates env Mult x y v" "operates env Divide x y v"
  "operates env FloorDiv x y v" "operates env Mod x y v" "operates env Pow x y v" "operates env OtherBinary x y v"

lemma literal_value_iff: "literal_value l = Inr v \<longleftrightarrow> denotes l v"
proof (cases l)
  case (IntLit n)
  have "\<bar>n\<bar> \<le> 1000000000000 \<Longrightarrow> \<bar>n\<bar> < 2 ^ 1024 - 2 ^ 970 \<and> double (of_int n) = of_int n"
    by (simp add: double_int)
  then show ?thesis
    using double_int_bounded [of n]
    by (auto simp: IntLit literal_value_def float_of_int_def max_calc_value_def not_less)
qed (auto simp: literal_value_def unsupported_def max_calc_value_def)

lemma fmod_trunc: "y \<noteq> 0 \<Longrightarrow> fmod x y = x - y * of_int (trunc_quotient x y)"
  by (auto simp: fmod_def trunc_quotient_def Let_def ceiling_def)

lemma fmod_zero: "y \<noteq> 0 \<Longrightarrow> fmod x y = 0 \<longleftrightarrow> x / y = of_int (trunc_quotient x y)"
  by (auto simp: fmod_trunc field_simps)

lemma fmod_quotient: "y \<noteq> 0 \<Longrightarrow> fmod x y = y * (x / y - of_int (trunc_quotient x y))"
  by (simp add: fmod_trunc right_diff_distrib)

lemma trunc_toward_zero:
  "0 \<le> x / y \<Longrightarrow> of_int (trunc_quotient x y) \<le> x / y"
  "x / y < 0 \<Longrightarrow> x / y \<le> of_int (trunc_quotient x y)"
proof -
  show "of_int (trunc_quotient x y) \<le> x / y" if "0 \<le> x / y"
    using that by (simp add: trunc_quotient_def)
  have "x / y \<le> - of_int \<lfloor>- (x / y)\<rfloor>" using of_int_floor_le [of "- (x / y)"] by linarith
  then show "x / y \<le> of_int (trunc_quotient x y)" if "x / y < 0"
    unfolding trunc_quotient_def using that by (simp only: not_le [symmetric] if_False of_int_minus)
qed

text \<open>The remainder of \<open>fmod\<close> has the sign of the dividend.\<close>

lemma fmod_sign:
  assumes "y \<noteq> 0" and "fmod x y \<noteq> 0"
  shows "(fmod x y < 0) = (x < 0)"
proof (cases "0 \<le> x / y")
  case True
  with trunc_toward_zero(1) assms have d: "0 < x / y - of_int (trunc_quotient x y)"
    by (fastforce simp: fmod_quotient)
  have "x \<noteq> 0" using assms by (auto simp: fmod_trunc trunc_quotient_def)
  with True assms(1) have "(y < 0) = (x < 0)" by (auto simp: zero_le_divide_iff)
  then show ?thesis using d assms(1) by (auto simp: fmod_quotient mult_less_0_iff)
next
  case False
  with trunc_toward_zero(2)[of x y] assms have d: "x / y - of_int (trunc_quotient x y) < 0"
    by (fastforce simp: fmod_quotient)
  from False have "(y < 0) \<noteq> (x < 0)" by (auto simp: zero_le_divide_iff)
  then show ?thesis using d assms(1) by (auto simp: fmod_quotient mult_less_0_iff)
qed

lemma floor_trunc:
  "0 \<le> x / y \<Longrightarrow> \<lfloor>x / y\<rfloor> = trunc_quotient x y"
  "x / y < 0 \<Longrightarrow> x / y < of_int (trunc_quotient x y) \<Longrightarrow> \<lfloor>x / y\<rfloor> = trunc_quotient x y - 1"
proof -
  show "\<lfloor>x / y\<rfloor> = trunc_quotient x y" if "0 \<le> x / y" using that by (simp add: trunc_quotient_def)
  assume neg: "x / y < 0" and "x / y < of_int (trunc_quotient x y)"
  moreover from neg have "trunc_quotient x y = \<lceil>x / y\<rceil>" by (simp add: trunc_quotient_def ceiling_def)
  ultimately show "\<lfloor>x / y\<rfloor> = trunc_quotient x y - 1" by linarith
qed

lemma opposite_signs: "y \<noteq> 0 \<Longrightarrow> x \<noteq> 0 \<Longrightarrow> (x < 0) \<noteq> (y < 0) \<longleftrightarrow> x / (y :: rat) < 0"
  by (auto simp: divide_less_0_iff)

lemma float_mod_remainder:
  assumes y: "y \<noteq> 0"
  shows "float_mod x y = remainder x y"
proof (cases "fmod x y = 0")
  case True
  then have q: "x / y = of_int (trunc_quotient x y)" using fmod_zero [OF y] by simp
  then have "x = y * of_int (trunc_quotient x y)" using y by (simp add: field_simps)
  moreover have "\<lfloor>x / y\<rfloor> = trunc_quotient x y" unfolding q by simp
  ultimately have "x - y * of_int \<lfloor>x / y\<rfloor> = 0" by simp
  then show ?thesis using True by (simp add: float_mod_def remainder_def double_def)
next
  case m: False
  then have x: "x \<noteq> 0" by (auto simp: fmod_def Let_def)
  show ?thesis
  proof (cases "(x < 0) = (y < 0)")
    case True
    then have "\<not> x / y < 0" using opposite_signs [OF y x] by simp
    then have "\<lfloor>x / y\<rfloor> = trunc_quotient x y" using floor_trunc(1) [of x y] by simp
    moreover have "float_mod x y = fmod x y" using True fmod_sign [OF y m] by (simp add: float_mod_def Let_def)
    ultimately show ?thesis using True by (simp add: remainder_def fmod_trunc [OF y])
  next
    case False
    then have neg: "x / y < 0" using opposite_signs [OF y x] by simp
    moreover have "x / y \<noteq> of_int (trunc_quotient x y)" using m fmod_zero [OF y] by simp
    ultimately have "\<lfloor>x / y\<rfloor> = trunc_quotient x y - 1"
      using trunc_toward_zero(2) [of x y] floor_trunc(2) [of x y] by linarith
    then have "fmod x y + y = x - y * of_int \<lfloor>x / y\<rfloor>"
      by (simp add: fmod_trunc [OF y] right_diff_distrib)
    then show ?thesis using False m fmod_sign [OF y m] by (auto simp: float_mod_def remainder_def)
  qed
qed

lemma borrows_iff:
  assumes y: "y \<noteq> 0"
  shows "fmod x y \<noteq> 0 \<and> (y < 0) \<noteq> (fmod x y < 0) \<longleftrightarrow> x / y < of_int (trunc_quotient x y)"
proof
  assume a: "fmod x y \<noteq> 0 \<and> (y < 0) \<noteq> (fmod x y < 0)"
  then have x: "x \<noteq> 0" by (auto simp: fmod_def Let_def)
  from a have "x / y < 0" using fmod_sign [OF y, of x] opposite_signs [OF y x] by blast
  moreover have "x / y \<noteq> of_int (trunc_quotient x y)" using a fmod_zero [OF y] by simp
  ultimately show "x / y < of_int (trunc_quotient x y)" using trunc_toward_zero(2) [of x y] by linarith
next
  assume a: "x / y < of_int (trunc_quotient x y)"
  then have neg: "x / y < 0" using trunc_toward_zero(1) [of x y] by (meson not_le)
  then have x: "x \<noteq> 0" by auto
  have m: "fmod x y \<noteq> 0" using a fmod_zero [OF y] by simp
  then show "fmod x y \<noteq> 0 \<and> (y < 0) \<noteq> (fmod x y < 0)"
    using neg fmod_sign [OF y m] opposite_signs [OF y x] by blast
qed

lemma float_floordiv_quotient:
  assumes y: "y \<noteq> 0"
  shows "float_floordiv x y = floor_quotient x y"
proof -
  have t: "x - fmod x y = y * of_int (trunc_quotient x y)" by (simp add: fmod_trunc [OF y])
  show ?thesis
    unfolding float_floordiv_def floor_quotient_def Let_def t borrows_iff [OF y]
    by (simp add: not_less)
qed

lemma raises_to_negative:
  assumes "x < 0" and "k \<noteq> 0"
  shows "raises_to env x (of_int k) v \<longleftrightarrow>
   (if x = - 1 then v = (if even k then 1 else - 1)
    else \<exists>p. ca_pow env (- x) (of_int k) = Some p \<and> v = (if even k then p else - p))"
  using assms by (auto simp: raises_to.simps [of env x])

lemma raises_to_other:
  "raises_to env x 0 v \<longleftrightarrow> v = 1" "raises_to env 1 y v \<longleftrightarrow> v = 1"
  "y \<noteq> 0 \<Longrightarrow> raises_to env 0 y v \<longleftrightarrow> 0 < y \<and> v = 0"
  "0 < x \<Longrightarrow> x \<noteq> 1 \<Longrightarrow> y \<noteq> 0 \<Longrightarrow> raises_to env x y v \<longleftrightarrow> ca_pow env x y = Some v"
  "x < 0 \<Longrightarrow> y \<noteq> of_int \<lfloor>y\<rfloor> \<Longrightarrow> y \<noteq> 0 \<Longrightarrow> \<not> raises_to env x y v"
  by (auto simp: raises_to.simps)

lemma float_pow_negative:
  assumes "x < 0" and "k \<noteq> 0"
  shows "float_pow env x (of_int k) = Inr (Real v) \<longleftrightarrow> raises_to env x (of_int k) v"
  using assms
  by (auto simp: raises_to_negative float_pow_def Let_def abs_if split: option.splits)

lemma float_pow_iff: "float_pow env x y = Inr (Real v) \<longleftrightarrow> raises_to env x y v"
proof -
  consider "y = 0 \<or> x = 1" | "y \<noteq> 0" "x = 0" | "y \<noteq> 0" "0 < x" "x \<noteq> 1"
    | "y \<noteq> 0" "x < 0" "y \<noteq> of_int \<lfloor>y\<rfloor>" | "y \<noteq> 0" "x < 0" "y = of_int \<lfloor>y\<rfloor>" by linarith
  then show ?thesis
  proof cases
    case 1
    then show ?thesis by (auto simp: float_pow_def raises_to_other)
  next
    case 2
    then show ?thesis by (auto simp: float_pow_def raises_to_other)
  next
    case 3
    then show ?thesis by (auto simp: float_pow_def raises_to_other Let_def split: option.splits)
  next
    case 4
    then show ?thesis by (auto simp: float_pow_def raises_to_other split: option.splits)
  next
    case 5
    then have "\<lfloor>y\<rfloor> \<noteq> 0" by auto
    with 5 show ?thesis using float_pow_negative [of x "\<lfloor>y\<rfloor>" env v] by metis
  qed
qed

lemma binary_value_iff:
  "binary_value env op x y = Inr v \<longleftrightarrow> operates env op x y v \<and> \<bar>v\<bar> \<le> 1000000000000"
proof -
  have "binary_value env op x y = Inr v \<longleftrightarrow>
    (op = Pow \<longrightarrow> \<bar>y\<bar> \<le> 8 \<and> \<bar>x\<bar> \<le> 1000) \<and> apply_binary env op x y = Inr (Real v) \<and> \<bar>v\<bar> \<le> 1000000000000"
    by (auto simp: binary_value_def bounded_number_def max_calc_value_def split: sum.splits number.splits)
  also have "\<dots> \<longleftrightarrow> operates env op x y v \<and> \<bar>v\<bar> \<le> 1000000000000"
    by (cases op) (auto simp: float_mod_remainder float_floordiv_quotient float_pow_iff)
  finally show ?thesis .
qed

inductive_cases computes_wholeE: "computes env (Expression e) v"
inductive_cases computes_constantE: "computes env (Constant l) v"
inductive_cases computes_binaryE: "computes env (BinOp l op r) v"
inductive_cases computes_unaryE: "computes env (UnaryOp op e) v"

inductive_simps computes_simps [simp]:
  "computes env (Expression e) v" "computes env (Constant l) v" "computes env (BinOp l op r) v"
  "computes env (UnaryOp op e) v" "computes env Compound v" "computes env OtherExpr v"

fun nodes_of :: "expr \<Rightarrow> nat" where
  "nodes_of (Expression e) = Suc (nodes_of e)"
| "nodes_of (BinOp l op r) = Suc (nodes_of l + nodes_of r)"
| "nodes_of (UnaryOp op e) = Suc (nodes_of e)"
| "nodes_of _ = 1"

lemma spend_ok [simp]: "spend body b = (Inr v, b') \<longleftrightarrow> 1 \<le> b \<and> body (b - 1) = (Inr v, b')"
  by (auto simp: spend_def)

lemma andthen_ok_iff: "andthen m f = (Inr v, s') \<longleftrightarrow> (\<exists>x s. m = (Inr x, s) \<and> f x s = (Inr v, s'))"
  by (cases rule: andthen_cases [of m f]) auto

lemma calculate_ok:
  "calculate env e b = (Inr v, b') \<longleftrightarrow> computes env e v \<and> int (nodes_of e) \<le> b \<and> b' = b - int (nodes_of e)"
proof (induction e arbitrary: b v b')
  case (BinOp l op r)
  then show ?case
    by (cases "op = OtherBinary") (simp add: unsupported_def, (auto simp: andthen_ok_iff binary_value_iff; blast))
next
  case (UnaryOp op e)
  then show ?case
    by (cases op) (auto simp: unsupported_def andthen_ok_iff)
qed (auto simp: unsupported_def literal_value_iff)

lemma evaluate_ok:
  "evaluate_expression env text = Inr v \<longleftrightarrow>
     (\<exists>e. ca_parse env text = Inr e \<and> nodes_of e \<le> 64 \<and> computes env e v)"
proof (cases "ca_parse env text")
  case (Inr e)
  obtain r b where c: "calculate env e 64 = (r, b)" by force
  then show ?thesis
    using Inr calculate_ok [of env e 64 v] by (auto simp: evaluate_expression_def max_calc_nodes_def)
qed (simp add: evaluate_expression_def)

lemma computes_bounded: "computes env e v \<Longrightarrow> \<bar>v\<bar> \<le> 1000000000000"
  by (induction rule: computes.induct) (auto elim: denotes.cases)

lemma computes_unique: "computes env e v \<Longrightarrow> computes env e w \<Longrightarrow> v = w"
  using calculate_ok [of env e "int (nodes_of e)" v 0] calculate_ok [of env e "int (nodes_of e)" w 0] by simp

end
