(* ===== verification/Tools.thy ===== *)
theory Tools
  imports Calculator ReleaseGate ArtifactStore Authority Effects
begin

text \<open>
  \<open>tools/registry.py\<close>: the tools an embedding application hands to guarded execution. A tool
  reads and writes the tree of the host. The JSON schema pydantic derives from a model, the
  identifiers of temporary files and of observations are parameters. A text that is not ASCII is
  kept as its UTF-8 bytes.
\<close>

section \<open>Declarations\<close>

datatype risk_class = ReadClass | WriteClass | ComputeClass | CommandClass

record tool_spec =
  ts_name :: string
  ts_side_effects :: string
  ts_risk_class :: risk_class
  ts_default_risk :: risk_level
  ts_trusted_inputs :: string
  ts_trusted_output :: trust_label
  ts_host_execution :: bool
  ts_notes :: string

datatype arguments_model =
    SearchDocumentsArguments
  | ReadFileArguments
  | CalculatorArguments
  | WriteReportArguments
  | RestrictedCommandArguments

datatype tool_args =
    SearchArgs string
  | ReadArgs string
  | CalcArgs string
  | WriteArgs string string
  | CommandArgs "string list"

record tool_env =
  te_calc :: calc_env
  te_schema :: "arguments_model \<Rightarrow> json pydict"
  te_sha :: "json \<Rightarrow> string"
  te_temp :: string
  te_fresh :: string

record tool_definition =
  td_name :: string
  td_model :: arguments_model
  td_handler :: "tool_args \<Rightarrow> node \<Rightarrow> string result \<times> node"
  td_trust :: trust_label
  td_spec :: tool_spec
  td_adapter :: "string option"

section \<open>Validation of arguments\<close>

definition text_field :: "nat \<Rightarrow> nat \<Rightarrow> json pydict \<Rightarrow> string \<Rightarrow> string option" where
  "text_field mn mx args k =
     (case map_of args k of
        Some (JStr s) \<Rightarrow> if mn \<le> length s \<and> length s \<le> mx then Some s else None
      | _ \<Rightarrow> None)"

fun text_items :: "json list \<Rightarrow> string list option" where
  "text_items [] = Some []"
| "text_items (JStr s # xs) = map_option ((#) s) (text_items xs)"
| "text_items _ = None"

fun model_fields :: "arguments_model \<Rightarrow> string list" where
  "model_fields SearchDocumentsArguments = [''query'']"
| "model_fields ReadFileArguments = [''path'']"
| "model_fields CalculatorArguments = [''expression'']"
| "model_fields WriteReportArguments = [''path'', ''content'']"
| "model_fields RestrictedCommandArguments = [''command'']"

fun read_model :: "arguments_model \<Rightarrow> json pydict \<Rightarrow> tool_args option" where
  "read_model SearchDocumentsArguments args = map_option SearchArgs (text_field 1 500 args ''query'')"
| "read_model ReadFileArguments args = map_option ReadArgs (text_field 1 512 args ''path'')"
| "read_model CalculatorArguments args = map_option CalcArgs (text_field 1 200 args ''expression'')"
| "read_model WriteReportArguments args =
     (case (text_field 1 512 args ''path'', text_field 0 1000000 args ''content'') of
        (Some p, Some c) \<Rightarrow> Some (WriteArgs p c) | _ \<Rightarrow> None)"
| "read_model RestrictedCommandArguments args =
     (case map_of args ''command'' of
        Some (JList xs) \<Rightarrow> if 1 \<le> length xs \<and> length xs \<le> 64 then map_option CommandArgs (text_items xs) else None
      | _ \<Rightarrow> None)"

definition validate_model :: "arguments_model \<Rightarrow> json pydict \<Rightarrow> tool_args result" where
  "validate_model m args =
     (if \<not> set (dict_keys args) \<subseteq> set (model_fields m) then Inl (ValueError ''validation error'')
      else case read_model m args of None \<Rightarrow> Inl (ValueError ''validation error'') | Some a \<Rightarrow> Inr a)"

section \<open>The registry\<close>

type_synonym registry = "tool_definition pydict"

definition register_tool :: "tool_definition \<Rightarrow> registry \<Rightarrow> registry result" where
  "register_tool tool reg =
     (if dict_has reg (td_name tool) then Inl (ValueError (''tool already registered: '' @ td_name tool))
      else Inr (reg @ [(td_name tool, tool)]))"

definition get_tool :: "registry \<Rightarrow> string \<Rightarrow> tool_definition result" where
  "get_tool reg name =
     (case map_of reg name of None \<Rightarrow> Inl (KeyError (''unknown tool: '' @ name)) | Some t \<Rightarrow> Inr t)"

definition tool_schema :: "tool_env \<Rightarrow> string \<Rightarrow> tool_definition \<Rightarrow> json pydict result" where
  "tool_schema env name tool =
     (case td_adapter tool of
        None \<Rightarrow> Inr (te_schema env (td_model tool))
      | Some adapter \<Rightarrow> bind_read_schema (te_sha env) (te_schema env (td_model tool)) adapter name)"

fun registry_schemas :: "tool_env \<Rightarrow> registry \<Rightarrow> json pydict pydict result" where
  "registry_schemas env [] = Inr []"
| "registry_schemas env ((name, tool) # reg) =
     (case tool_schema env name tool of
        Inl e \<Rightarrow> Inl e
      | Inr s \<Rightarrow> (case registry_schemas env reg of Inl e \<Rightarrow> Inl e | Inr rest \<Rightarrow> Inr ((name, s) # rest)))"

definition catalog :: "registry \<Rightarrow> tool_spec pydict" where
  "catalog reg = map (\<lambda>(name, tool). (name, td_spec tool)) reg"

fun register_named :: "registry \<Rightarrow> string list \<Rightarrow> registry \<Rightarrow> registry result" where
  "register_named reg [] acc = Inr acc"
| "register_named reg (name # names) acc =
     (case get_tool reg name of
        Inl e \<Rightarrow> Inl e
      | Inr tool \<Rightarrow>
          (case register_tool tool acc of Inl e \<Rightarrow> Inl e | Inr acc \<Rightarrow> register_named reg names acc))"

definition restricted_to :: "registry \<Rightarrow> string list \<Rightarrow> registry result" where
  "restricted_to reg names =
     (let unknown = filter (\<lambda>n. \<not> dict_has reg n) (remdups names) in
      if unknown \<noteq> []
      then Inl (ValueError (''tool set includes unknown tools: '' @ py_repr (JList (map JStr (sort_key (\<lambda>s. s) unknown)))))
      else register_named reg names [])"

definition execute_tool :: "tool_env \<Rightarrow> registry \<Rightarrow> tool_call \<Rightarrow> node \<Rightarrow> observation result \<times> node" where
  "execute_tool env reg call fs =
     (case get_tool reg (tc_tool_name call) of
        Inl e \<Rightarrow> (Inl e, fs)
      | Inr tool \<Rightarrow>
          (case validate_model (td_model tool) (tc_arguments call) of
             Inl e \<Rightarrow> (Inl e, fs)
           | Inr args \<Rightarrow>
               andthen (td_handler tool args fs)
                 (\<lambda>content fs. (Inr \<lparr>ob_content = content, ob_source_type = ''tool'', ob_source_id = tc_call_id call,
                    ob_trust = td_trust tool, ob_provenance = tc_consumed call @ [tc_call_id call],
                    ob_instructions = untrusted (td_trust tool), ob_id = te_fresh env\<rparr>, fs))))"

section \<open>UTF-8\<close>

definition continuation_byte :: "nat \<Rightarrow> bool" where
  "continuation_byte b \<longleftrightarrow> 128 \<le> b \<and> b < 192"

fun utf8_valid :: "nat list \<Rightarrow> bool" where
  "utf8_valid [] = True"
| "utf8_valid (a # xs) =
     (if a < 128 then utf8_valid xs
      else case xs of
        [] \<Rightarrow> False
      | b # ys \<Rightarrow>
          if \<not> continuation_byte b then False
          else if 194 \<le> a \<and> a < 224 then utf8_valid ys
          else case ys of
            [] \<Rightarrow> False
          | c # zs \<Rightarrow>
              if \<not> continuation_byte c then False
              else if 224 \<le> a \<and> a < 240 then (a = 224 \<longrightarrow> 160 \<le> b) \<and> (a = 237 \<longrightarrow> b < 160) \<and> utf8_valid zs
              else case zs of
                [] \<Rightarrow> False
              | d # ws \<Rightarrow>
                  continuation_byte d \<and> 240 \<le> a \<and> a < 245 \<and> (a = 240 \<longrightarrow> 144 \<le> b) \<and> (a = 244 \<longrightarrow> b < 144) \<and> utf8_valid ws)"

definition decode_utf8 :: "string \<Rightarrow> string result" where
  "decode_utf8 s = (if utf8_valid (map of_char s) then Inr s else Inl (UnicodeDecodeError ''utf-8''))"

section \<open>Handlers\<close>

definition max_read_bytes :: nat where
  "max_read_bytes = 262144"

definition max_write_bytes :: nat where
  "max_write_bytes = 1000000"

definition wrong_arguments :: "string result" where
  "wrong_arguments = Inl (AssertionError [])"

text \<open>The documents of the corpus, in the order of their sorted paths. No component of a listed
  path is a symbolic link unless an earlier object of the listing was one, so the resolved path of
  a file stays below the corpus.\<close>

fun load_documents :: "string list \<Rightarrow> (string list \<times> node) list \<Rightarrow> node \<Rightarrow> (string \<times> string) list result" where
  "load_documents workspace [] fs = Inr []"
| "load_documents workspace ((q, n) # objects) fs =
     (case n of
        Symlink _ \<Rightarrow> Inl (ValueError ''symbolic links are not allowed in the document corpus'')
      | File _ _ _ \<Rightarrow>
          (let relative = join_names (''documents'' # q) in
           if sensitive_path relative [] then Inl (ValueError ''protected object in document corpus'')
           else case read_confined workspace relative max_read_bytes fs of
             Inl e \<Rightarrow> Inl e
           | Inr content \<Rightarrow>
               (case decode_utf8 content of
                  Inl e \<Rightarrow> Inl e
                | Inr text \<Rightarrow>
                    (case load_documents workspace objects fs of
                       Inl e \<Rightarrow> Inl e
                     | Inr rest \<Rightarrow> Inr ((relative, text) # rest))))
      | _ \<Rightarrow> load_documents workspace objects fs)"

definition load_document_corpus :: "string list \<Rightarrow> node \<Rightarrow> (string \<times> string) list result" where
  "load_document_corpus workspace fs =
     (case walk_to fs (workspace @ [''documents'']) of
        Some (Symlink _) \<Rightarrow> Inl (ValueError ''symbolic-link document corpus is not allowed'')
      | Some (Dir es) \<Rightarrow> load_documents workspace (sort_key fst (listing [] (Dir es))) fs
      | _ \<Rightarrow> Inr [])"

fun search_documents :: "string list \<Rightarrow> tool_args \<Rightarrow> node \<Rightarrow> string result \<times> node" where
  "search_documents workspace (SearchArgs query) fs =
     ((case load_document_corpus workspace fs of
         Inl e \<Rightarrow> Inl e
       | Inr corpus \<Rightarrow>
           Inr (dumps_text json_escape (JObj [(''query'', JStr query), (''source'', JStr ''workspace_fixtures''),
             (''matches'', JList (map (\<lambda>(p, t). JObj [(''path'', JStr p), (''text'', JStr t)])
                (filter (\<lambda>(p, t). contains (casefold query) (casefold t)) corpus)))]))), fs)"
| "search_documents workspace _ fs = (wrong_arguments, fs)"

fun read_file_handler :: "string list \<Rightarrow> tool_args \<Rightarrow> node \<Rightarrow> string result \<times> node" where
  "read_file_handler workspace (ReadArgs path) fs =
     ((case read_confined workspace path max_read_bytes fs of
         Inl e \<Rightarrow> Inl e
       | Inr content \<Rightarrow>
           (case decode_utf8 content of Inl _ \<Rightarrow> Inl (ValueError ''file is not valid UTF-8'') | Inr text \<Rightarrow> Inr text)), fs)"
| "read_file_handler workspace _ fs = (wrong_arguments, fs)"

fun calculator :: "calc_env \<Rightarrow> tool_args \<Rightarrow> node \<Rightarrow> string result \<times> node" where
  "calculator env (CalcArgs expression) fs =
     ((case evaluate_expression env expression of Inl e \<Rightarrow> Inl e | Inr v \<Rightarrow> Inr (number_text v)), fs)"
| "calculator env _ fs = (wrong_arguments, fs)"

definition report_path :: "string \<Rightarrow> string" where
  "report_path path =
     (case path_parts path of
        [] \<Rightarrow> path
      | p # ps \<Rightarrow> if p = ''artifacts'' then (if ps = [] then ''.'' else join_names ps) else path)"

fun write_report :: "tool_env \<Rightarrow> string list \<Rightarrow> tool_args \<Rightarrow> node \<Rightarrow> string result \<times> node" where
  "write_report env artifacts (WriteArgs path content) fs =
     (if max_write_bytes < length content
      then (Inl (ValueError (''report exceeds write limit of '' @ nat_str max_write_bytes @ '' bytes'')), fs)
      else andthen (write_confined (te_temp env) artifacts (report_path path) content fs)
             (\<lambda>_ fs. (Inr (report_path path), fs)))"
| "write_report env artifacts _ fs = (wrong_arguments, fs)"

fun restricted_command :: "tool_args \<Rightarrow> node \<Rightarrow> string result \<times> node" where
  "restricted_command (CommandArgs command) fs =
     (Inr (dumps_text json_escape (JObj [(''status'', JStr ''simulated''),
        (''marker'', JStr ''TRACEGUARD_REQUIRES_EXECUTION_PLAN''), (''command'', JList (map JStr command)),
        (''host_execution'', JBool False)])), fs)"
| "restricted_command _ fs = (wrong_arguments, fs)"

section \<open>The default registry\<close>

definition search_documents_tool :: "string list \<Rightarrow> tool_definition" where
  "search_documents_tool workspace = \<lparr>td_name = ''search_documents'', td_model = SearchDocumentsArguments,
     td_handler = search_documents workspace, td_trust = UNTRUSTED_DOCUMENT,
     td_spec = \<lparr>ts_name = ''search_documents'',
       ts_side_effects = ''Read-only search over fixture files under workspace/documents.'',
       ts_risk_class = ReadClass, ts_default_risk = LOW,
       ts_trusted_inputs = ''User query string and fixture files under workspace/documents.'',
       ts_trusted_output = UNTRUSTED_DOCUMENT, ts_host_execution = False,
       ts_notes = ''Matches are untrusted and may embed indirect instructions.''\<rparr>,
     td_adapter = Some ''embedded-v1''\<rparr>"

definition read_file_tool :: "string list \<Rightarrow> tool_definition" where
  "read_file_tool workspace = \<lparr>td_name = ''read_file'', td_model = ReadFileArguments,
     td_handler = read_file_handler workspace, td_trust = UNTRUSTED_DOCUMENT,
     td_spec = \<lparr>ts_name = ''read_file'',
       ts_side_effects = ''Reads a UTF-8 text file under the workspace root; no writes.'',
       ts_risk_class = ReadClass, ts_default_risk = MEDIUM,
       ts_trusted_inputs = ''Relative path within workspace (enforced by containment).'',
       ts_trusted_output = UNTRUSTED_DOCUMENT, ts_host_execution = False,
       ts_notes = ''Hard-capped at '' @ nat_str max_read_bytes @ '' bytes; UTF-8 only.''\<rparr>,
     td_adapter = Some ''embedded-v1''\<rparr>"

definition calculator_tool :: "calc_env \<Rightarrow> tool_definition" where
  "calculator_tool env = \<lparr>td_name = ''calculator'', td_model = CalculatorArguments,
     td_handler = calculator env, td_trust = TRUSTED_TOOL,
     td_spec = \<lparr>ts_name = ''calculator'',
       ts_side_effects = ''Pure arithmetic evaluation; no filesystem or network access.'',
       ts_risk_class = ComputeClass, ts_default_risk = LOW,
       ts_trusted_inputs = ''Numeric AST expression without names, calls, or attributes.'',
       ts_trusted_output = TRUSTED_TOOL, ts_host_execution = False,
       ts_notes = ''Rejects exponent/resource abuse and non-literal expressions.''\<rparr>,
     td_adapter = Some ''embedded-v1''\<rparr>"

definition write_report_tool :: "tool_env \<Rightarrow> string list \<Rightarrow> tool_definition" where
  "write_report_tool env artifacts = \<lparr>td_name = ''write_report'', td_model = WriteReportArguments,
     td_handler = write_report env artifacts, td_trust = TRUSTED_TOOL,
     td_spec = \<lparr>ts_name = ''write_report'',
       ts_side_effects = ''Creates or overwrites a report file under the artifacts root.'',
       ts_risk_class = WriteClass, ts_default_risk = MEDIUM,
       ts_trusted_inputs = ''Relative path under artifacts and UTF-8 report content.'',
       ts_trusted_output = TRUSTED_TOOL, ts_host_execution = False,
       ts_notes = ''Hard-capped at '' @ nat_str max_write_bytes @ '' UTF-8 bytes.''\<rparr>,
     td_adapter = None\<rparr>"

definition restricted_command_tool :: "tool_definition" where
  "restricted_command_tool = \<lparr>td_name = ''restricted_command'', td_model = RestrictedCommandArguments,
     td_handler = restricted_command, td_trust = UNTRUSTED_TOOL,
     td_spec = \<lparr>ts_name = ''restricted_command'',
       ts_side_effects = ''Returns a simulated execution marker only. Never runs a host shell; ''
         @ ''container execution requires an approved runtime plan.'',
       ts_risk_class = CommandClass, ts_default_risk = HIGH,
       ts_trusted_inputs = ''Argv list without shell operators (policy-enforced).'',
       ts_trusted_output = UNTRUSTED_TOOL, ts_host_execution = False,
       ts_notes = ''Host execution is forbidden by construction in the tool handler.''\<rparr>,
     td_adapter = None\<rparr>"

fun register_all :: "tool_definition list \<Rightarrow> registry \<Rightarrow> registry result" where
  "register_all [] reg = Inr reg"
| "register_all (tool # tools) reg =
     (case register_tool tool reg of Inl e \<Rightarrow> Inl e | Inr reg \<Rightarrow> register_all tools reg)"

definition default_registry :: "tool_env \<Rightarrow> string list \<Rightarrow> string list \<Rightarrow> registry result" where
  "default_registry env workspace artifacts =
     register_all [search_documents_tool workspace, read_file_tool workspace, calculator_tool (te_calc env),
       write_report_tool env artifacts, restricted_command_tool] []"

end
