(* ===== verification/ToolFacts.thy ===== *)
theory ToolFacts
  imports Tools FilesystemFacts ArtifactFacts
begin

text \<open>What the tools may touch, read and report, and which tools a restricted registry has.\<close>

section \<open>Registries\<close>

text \<open>Every tool stands under its own name, once.\<close>

definition registry_ok :: "registry \<Rightarrow> bool" where
  "registry_ok reg \<longleftrightarrow> distinct (dict_keys reg) \<and> (\<forall>(n, t)\<in>set reg. td_name t = n)"

lemma register_ok: "register_tool tool reg = Inr reg' \<Longrightarrow> registry_ok reg \<Longrightarrow> registry_ok reg'"
  by (auto simp: register_tool_def registry_ok_def dict_has_def dict_keys_def split: if_splits)

lemma register_all_ok: "register_all tools reg = Inr reg' \<Longrightarrow> registry_ok reg \<Longrightarrow> registry_ok reg'"
  by (induction tools arbitrary: reg) (auto dest: register_ok split: sum.splits)

definition named_tools :: "registry \<Rightarrow> string list \<Rightarrow> registry" where
  "named_tools reg names = map (\<lambda>n. (n, the (map_of reg n))) names"

lemma named_tool: "registry_ok reg \<Longrightarrow> map_of reg n = Some t \<Longrightarrow> td_name t = n"
  by (auto simp: registry_ok_def dest: map_of_SomeD)

lemma register_named_ok:
  assumes "registry_ok reg" and "set names \<subseteq> set (dict_keys reg)"
  shows "register_named reg names acc = Inr reg' \<longleftrightarrow>
    distinct names \<and> set names \<inter> set (dict_keys acc) = {} \<and> reg' = acc @ named_tools reg names"
  using assms(2)
proof (induction names arbitrary: acc)
  case Nil
  then show ?case by (auto simp: named_tools_def)
next
  case (Cons n names)
  then obtain t where t: "map_of reg n = Some t"
    by (metis dict_has_def dict_has_map_of list.set_intros(1) subsetD)
  with named_tool [OF assms(1) t] Cons show ?case
    by (auto simp: get_tool_def register_tool_def dict_has_def named_tools_def)
qed

lemma restricted_ok:
  assumes "registry_ok reg"
  shows "restricted_to reg names = Inr reg' \<longleftrightarrow>
    distinct names \<and> set names \<subseteq> set (dict_keys reg) \<and> reg' = named_tools reg names"
proof (cases "set names \<subseteq> set (dict_keys reg)")
  case True
  then have "filter (\<lambda>n. \<not> dict_has reg n) (remdups names) = []"
    by (auto simp: filter_empty_conv dict_has_def simp del: set_dict_keys)
  with True register_named_ok [OF assms True, of "[]"] show ?thesis
    by (simp add: restricted_to_def dict_keys_def)
next
  case False
  then have "filter (\<lambda>n. \<not> dict_has reg n) (remdups names) \<noteq> []"
    by (auto simp: filter_empty_conv dict_has_def simp del: set_dict_keys)
  with False show ?thesis by (simp add: restricted_to_def Let_def del: set_dict_keys)
qed

text \<open>The default registry, evaluated.\<close>

definition default_tools :: "tool_env \<Rightarrow> string list \<Rightarrow> string list \<Rightarrow> registry" where
  "default_tools env workspace artifacts =
     [(''search_documents'', search_documents_tool workspace), (''read_file'', read_file_tool workspace),
      (''calculator'', calculator_tool (te_calc env)), (''write_report'', write_report_tool env artifacts),
      (''restricted_command'', restricted_command_tool)]"

lemmas tool_defs = search_documents_tool_def read_file_tool_def calculator_tool_def write_report_tool_def
  restricted_command_tool_def

lemma default_registry_tools: "default_registry env workspace artifacts = Inr (default_tools env workspace artifacts)"
  by (simp add: default_registry_def default_tools_def register_tool_def dict_has_def dict_keys_def tool_defs)

lemma default_tools_ok: "registry_ok (default_tools env workspace artifacts)"
  using register_all_ok [OF default_registry_tools [unfolded default_registry_def]]
  by (simp add: registry_ok_def dict_keys_def)

lemma tool_fields [simp]:
  "td_model (search_documents_tool ws) = SearchDocumentsArguments" "td_handler (search_documents_tool ws) = search_documents ws"
  "td_model (read_file_tool ws) = ReadFileArguments" "td_handler (read_file_tool ws) = read_file_handler ws"
  "td_model (calculator_tool ca) = CalculatorArguments" "td_handler (calculator_tool ca) = calculator ca"
  "td_model (write_report_tool env arts) = WriteReportArguments" "td_handler (write_report_tool env arts) = write_report env arts"
  "td_model restricted_command_tool = RestrictedCommandArguments" "td_handler restricted_command_tool = restricted_command"
  "td_trust (search_documents_tool ws) = UNTRUSTED_DOCUMENT" "td_trust (read_file_tool ws) = UNTRUSTED_DOCUMENT"
  "td_trust (calculator_tool ca) = TRUSTED_TOOL" "td_trust (write_report_tool env arts) = TRUSTED_TOOL"
  "td_trust restricted_command_tool = UNTRUSTED_TOOL"
  by (simp_all add: tool_defs)

lemma map_sum_Inr: "Inr v = map_sum id f r \<longleftrightarrow> (\<exists>x. r = Inr x \<and> v = f x)" "map_sum id f r = Inr v \<longleftrightarrow> (\<exists>x. r = Inr x \<and> v = f x)"
  by (cases r; auto)+

section \<open>What a call touches\<close>

lemma quiet_handlers:
  "search_documents workspace args fs = (r, fs') \<Longrightarrow> fs' = fs"
  "read_file_handler workspace args fs = (r, fs') \<Longrightarrow> fs' = fs"
  "calculator cenv args fs = (r, fs') \<Longrightarrow> fs' = fs"
  "restricted_command args fs = (r, fs') \<Longrightarrow> fs' = fs"
  by (cases args; simp)+

definition reports :: "tool_env \<Rightarrow> string list \<Rightarrow> tool_call \<Rightarrow> node \<Rightarrow> observation result \<Rightarrow> node \<Rightarrow> bool" where
  "reports env artifacts call fs r fs' \<longleftrightarrow>
     (\<exists>path content. map_of (tc_arguments call) ''path'' = Some (JStr path)
        \<and> map_of (tc_arguments call) ''content'' = Some (JStr content) \<and> length content \<le> max_write_bytes
        \<and> (case r of
             Inl e \<Rightarrow> keeps {} fs fs'
           | Inr ob \<Rightarrow> \<exists>parts. confined_parts (report_path path) = Inr parts \<and> ob_content ob = report_path path
               \<and> keeps {artifacts @ parts} fs fs'
               \<and> walk_to fs' (artifacts @ parts)
                   = (if last parts = temporary_name (te_temp env) then None else Some (File 1 (length content) content))))"

lemma text_field_some: "text_field mn mx args k = Some s \<Longrightarrow> map_of args k = Some (JStr s) \<and> mn \<le> length s \<and> length s \<le> mx"
  by (auto simp: text_field_def split: option.splits json.splits if_splits)

lemma validated_report:
  "validate_model WriteReportArguments args = Inr a \<Longrightarrow>
   \<exists>p c. a = WriteArgs p c \<and> map_of args ''path'' = Some (JStr p) \<and> map_of args ''content'' = Some (JStr c)
     \<and> length c \<le> max_write_bytes"
  by (auto simp: validate_model_def max_write_bytes_def dest!: text_field_some split: if_splits option.splits)

definition tool_observation :: "tool_env \<Rightarrow> tool_definition \<Rightarrow> tool_call \<Rightarrow> string \<Rightarrow> observation" where
  "tool_observation env tool call content =
     \<lparr>ob_content = content, ob_source_type = ''tool'', ob_source_id = tc_call_id call, ob_trust = td_trust tool,
      ob_provenance = tc_consumed call @ [tc_call_id call], ob_instructions = untrusted (td_trust tool),
      ob_id = te_fresh env\<rparr>"

lemma execute_tool_run:
  "execute_tool env reg call fs =
     (case map_of reg (tc_tool_name call) of
        None \<Rightarrow> (Inl (KeyError (''unknown tool: '' @ tc_tool_name call)), fs)
      | Some tool \<Rightarrow>
          (case validate_model (td_model tool) (tc_arguments call) of
             Inl e \<Rightarrow> (Inl e, fs)
           | Inr args \<Rightarrow> apfst (map_sum id (tool_observation env tool call)) (td_handler tool args fs)))"
proof (cases "map_of reg (tc_tool_name call)")
  case (Some tool)
  show ?thesis
  proof (cases "validate_model (td_model tool) (tc_arguments call)")
    case (Inr args)
    obtain r s where "td_handler tool args fs = (r, s)" by force
    then show ?thesis using Some Inr
      by (cases r) (simp_all add: execute_tool_def get_tool_def tool_observation_def)
  qed (simp add: execute_tool_def get_tool_def Some)
qed (simp add: execute_tool_def get_tool_def)

lemma execute_tool_touches:
  assumes d: "is_dir (Some fs)" and run: "execute_tool env (default_tools env workspace artifacts) call fs = (r, fs')"
  shows "fs' = fs \<or> tc_tool_name call = ''write_report'' \<and> reports env artifacts call fs r fs'"
proof (cases "tc_tool_name call = ''write_report'' \<and> (\<exists>a. validate_model WriteReportArguments (tc_arguments call) = Inr a)")
  case True
  then obtain p c where a: "validate_model WriteReportArguments (tc_arguments call) = Inr (WriteArgs p c)"
    and args: "map_of (tc_arguments call) ''path'' = Some (JStr p)" "map_of (tc_arguments call) ''content'' = Some (JStr c)"
      "length c \<le> max_write_bytes"
    using validated_report by blast
  obtain r0 where w: "write_confined (te_temp env) artifacts (report_path p) c fs = (r0, fs')"
    and r: "r = map_sum id (\<lambda>_. tool_observation env (write_report_tool env artifacts) call (report_path p)) r0"
  proof -
    obtain r0 s where w: "write_confined (te_temp env) artifacts (report_path p) c fs = (r0, s)" by force
    with run True a args(3) have "s = fs' \<and> r = map_sum id (\<lambda>_. tool_observation env (write_report_tool env artifacts) call (report_path p)) r0"
      by (cases r0) (auto simp: execute_tool_run default_tools_def)
    with w that show ?thesis by blast
  qed
  from write_confined_ok [OF d w] args r True show ?thesis
    unfolding reports_def by (cases r0) (auto simp: tool_observation_def)
next
  case False
  with run show ?thesis
    by (auto simp: execute_tool_run default_tools_def apfst_def map_prod_def dest: quiet_handlers
        split: if_splits sum.splits prod.splits)
qed

section \<open>What a call returns\<close>

lemma execute_tool_labels:
  assumes "execute_tool env (default_tools env workspace artifacts) call fs = (Inr ob, fs')"
  shows "ob_source_id ob = tc_call_id call \<and> ob_provenance ob = tc_consumed call @ [tc_call_id call]
    \<and> tc_tool_name call \<in> set (dict_keys (default_tools env workspace artifacts))
    \<and> ob_instructions ob = (tc_tool_name call \<in> {''search_documents'', ''read_file'', ''restricted_command''})
    \<and> ob_instructions ob = untrusted (ob_trust ob)"
  using assms
  by (auto simp: execute_tool_run default_tools_def dict_keys_def tool_observation_def untrusted_def apfst_def map_prod_def
      map_sum_Inr split: if_splits sum.splits prod.splits)

definition workspace_file :: "string list \<Rightarrow> node \<Rightarrow> string list \<Rightarrow> string \<Rightarrow> bool" where
  "workspace_file workspace fs parts content \<longleftrightarrow>
     (\<exists>sz. walk_to fs (workspace @ parts) = Some (File 1 sz content) \<and> sz \<le> max_read_bytes \<and> length content \<le> max_read_bytes)"

lemma read_file_returns:
  assumes d: "is_dir (Some fs)" and name: "tc_tool_name call = ''read_file''"
    and run: "execute_tool env (default_tools env workspace artifacts) call fs = (Inr ob, fs')"
  shows "\<exists>path parts. map_of (tc_arguments call) ''path'' = Some (JStr path) \<and> confined_parts path = Inr parts
    \<and> workspace_file workspace fs parts (ob_content ob) \<and> utf8_valid (map of_char (ob_content ob))"
proof -
  from run name obtain a where a: "validate_model ReadFileArguments (tc_arguments call) = Inr a"
    by (auto simp: execute_tool_run default_tools_def split: sum.splits)
  then obtain path where p: "a = ReadArgs path" "map_of (tc_arguments call) ''path'' = Some (JStr path)"
    by (auto simp: validate_model_def dest!: text_field_some split: if_splits option.splits)
  from run name a p obtain c where c: "read_confined workspace path max_read_bytes fs = Inr c" "decode_utf8 c = Inr (ob_content ob)"
    by (auto simp: execute_tool_run default_tools_def tool_observation_def split: sum.splits)
  then have "ob_content ob = c" "utf8_valid (map of_char c)"
    by (auto simp: decode_utf8_def split: if_splits)
  with p c(1) read_confined_iff [OF d, of workspace path max_read_bytes c] show ?thesis
    unfolding workspace_file_def by auto
qed

lemma load_documents_ok:
  assumes "is_dir (Some fs)" and "load_documents workspace objects fs = Inr docs" and "(p, t) \<in> set docs"
  shows "\<exists>q n. (q, n) \<in> set objects \<and> p = join_names (''documents'' # q) \<and> \<not> sensitive_path p []
    \<and> (\<exists>parts. confined_parts p = Inr parts \<and> workspace_file workspace fs parts t)"
  using assms(2,3)
proof (induction objects arbitrary: docs)
  case (Cons o1 objects)
  obtain q n where o1: "o1 = (q, n)" by force
  show ?case
  proof (cases n)
    case (File links sz content)
    with Cons.prems o1 obtain c rest where
      docs: "docs = (join_names (''documents'' # q), c) # rest" "load_documents workspace objects fs = Inr rest"
        "\<not> sensitive_path (join_names (''documents'' # q)) []"
        "read_confined workspace (join_names (''documents'' # q)) max_read_bytes fs = Inr c"
      by (auto simp: decode_utf8_def Let_def split: if_splits sum.splits)
    show ?thesis
    proof (cases "(p, t) \<in> set rest")
      case True
      with Cons.IH [OF docs(2)] show ?thesis by (auto simp: o1)
    next
      case False
      with docs Cons.prems(2) have "p = join_names (''documents'' # q)" "t = c" by auto
      with docs read_confined_iff [OF assms(1), of workspace p max_read_bytes c] show ?thesis
        unfolding o1 workspace_file_def by auto
    qed
  qed (use Cons o1 in auto)
qed simp

lemma listed_ne: "(q, n) \<in> set (listing here nd) \<Longrightarrow> q \<noteq> []"
  by (induction here nd rule: listing.induct) auto

lemma load_corpus_ok:
  assumes "is_dir (Some fs)" and "load_document_corpus workspace fs = Inr docs" and "(p, t) \<in> set docs"
  shows "\<not> sensitive_path p [] \<and> prefix ''documents/'' p
    \<and> (\<exists>parts. confined_parts p = Inr parts \<and> workspace_file workspace fs parts t)"
proof -
  from assms(2,3) obtain es where l: "load_documents workspace (sort_key fst (listing [] (Dir es))) fs = Inr docs"
    by (auto simp: load_document_corpus_def split: option.splits node.splits)
  from load_documents_ok [OF assms(1) this assms(3)] obtain q n where
    q: "(q, n) \<in> set (listing [] (Dir es))" "p = join_names (''documents'' # q)" "\<not> sensitive_path p []"
      "\<exists>parts. confined_parts p = Inr parts \<and> workspace_file workspace fs parts t"
    by (simp only: set_sort) blast
  from q(1) have "q \<noteq> []" by (rule listed_ne)
  with q show ?thesis by (cases q) (auto simp: join_names_def)
qed

end
