(* ===== verification/Sdk.thy ===== *)
theory Sdk
  imports ControlSafety Network
begin

text \<open>
  \<open>sdk.py\<close>: the client of the control plane with its cache of one signed policy bundle. What a
  request to the control plane meets is a parameter, which may depend on the requests before it.
  A public key is named by the purpose of its signer, and the cached JSON text by the bundle it
  is read back to. Every instant has a time zone.
\<close>

section \<open>The policy cache\<close>

record policy_cache =
  pc_key :: string
  pc_tenant :: string
  pc_audience :: string
  pc_service_key :: string
  pc_key_id :: string
  pc_minimum :: nat
  pc_bundle :: "signed_bundle option"

definition new_cache :: "string \<Rightarrow> string \<Rightarrow> string \<Rightarrow> string \<Rightarrow> string \<Rightarrow> nat \<Rightarrow> policy_cache" where
  "new_cache key tenant audience service_key key_id minimum =
     \<lparr>pc_key = key, pc_tenant = tenant, pc_audience = audience, pc_service_key = service_key,
      pc_key_id = key_id, pc_minimum = minimum, pc_bundle = None\<rparr>"

definition bundle_signed :: "world \<Rightarrow> policy_cache \<Rightarrow> signed_bundle \<Rightarrow> bool" where
  "bundle_signed w c b \<longleftrightarrow>
     sb_key_id b = pc_key_id c \<and> w_verify w (pc_key c) (bundle_body (w_stamp w) b) (sb_signature b)"

definition bundle_scoped :: "policy_cache \<Rightarrow> signed_bundle \<Rightarrow> bool" where
  "bundle_scoped c b \<longleftrightarrow>
     sb_tenant b = pc_tenant c \<and> pv_tenant (sb_policy b) = pc_tenant c \<and> sb_audience b = pc_audience c
     \<and> sb_service_key b = pc_service_key c \<and> pv_status (sb_policy b) = ACTIVE"

definition install_bundle :: "world \<Rightarrow> instant \<Rightarrow> signed_bundle \<Rightarrow> policy_cache \<Rightarrow> unit result \<times> policy_cache" where
  "install_bundle w now b c =
     (if \<not> bundle_signed w c b
      then (Inl (PolicyUnavailable ''policy bundle signature or key is invalid''), c)
      else if \<not> bundle_scoped c b \<or> sb_epoch b < pc_minimum c
      then (Inl (PolicyUnavailable ''policy bundle audience, scope or epoch is invalid''), c)
      else if sb_expires b \<le> now \<or> now + seconds 30 < sb_issued b
           \<or> \<not> (0 < sb_expires b - sb_issued b \<and> sb_expires b - sb_issued b \<le> seconds 300)
      then (Inl (PolicyUnavailable ''policy bundle lifetime is invalid or expired''), c)
      else (Inr (), c\<lparr>pc_bundle := Some b, pc_minimum := sb_epoch b\<rparr>))"

definition offline_action :: "action_request \<Rightarrow> bool" where
  "offline_action a \<longleftrightarrow>
     aq_kind a = HTTP \<and> aq_operation a \<in> {''GET'', ''HEAD''} \<and> dict_get (aq_arguments a) ''json'' JNull = JNull"

definition cached_decision :: "world \<Rightarrow> signed_bundle \<Rightarrow> policy_rule \<Rightarrow> action_request \<Rightarrow> decision_response" where
  "cached_decision w b r a =
     \<lparr>dr_decision = ALLOW, dr_reason = ''cached policy: '' @ pu_reason r, dr_policy = Some (pv_id (sb_policy b)),
      dr_version = Some (pv_version (sb_policy b)), dr_audit = ''cache-pending-reconciliation'', dr_review = None,
      dr_rewritten = None, dr_from_cache = True, dr_digest = Some (action_digest w a)\<rparr>"

definition cache_evaluate :: "world \<Rightarrow> instant \<Rightarrow> policy_cache \<Rightarrow> action_request \<Rightarrow> decision_response result" where
  "cache_evaluate w now c a =
     (case pc_bundle c of
        None \<Rightarrow> Inl (PolicyUnavailable ''no signed bundle is installed'')
      | Some b \<Rightarrow>
          if sb_expires b \<le> now \<or> aq_tenant a \<noteq> pc_tenant c
          then Inl (PolicyUnavailable ''policy bundle has expired or tenant mismatches'')
          else if \<not> offline_action a
          then Inl (PolicyUnavailable ''offline authorization supports read-only HTTP only'')
          else (case select_rule (pv_draft (sb_policy b)) a of
             None \<Rightarrow> Inl (PolicyUnavailable ''cached policy cannot authorize this action'')
           | Some r \<Rightarrow>
               if pu_decision r = ALLOW \<and> pu_cache r then Inr (cached_decision w b r a)
               else Inl (PolicyUnavailable ''cached policy cannot authorize this action'')))"

section \<open>The client\<close>

text \<open>What \<open>urlopen\<close> and the read of the response end in. A TLS failure is either wrapped in a
  \<open>URLError\<close> or raised as it is, and then carries its own \<open>reason\<close>, a text.\<close>

datatype remote =
    Payload string
  | Rejected int
  | WrappedTls
  | BareTls string
  | Unreachable string
  | Broken exn

record sdk_env =
  sk_world :: world
  sk_parse :: "string \<Rightarrow> decision_response option"
  sk_remote :: "action_request list \<Rightarrow> action_request \<Rightarrow> remote"
  sk_transport :: "string \<Rightarrow> string \<Rightarrow> (string \<times> string) list \<Rightarrow> json option \<Rightarrow> string result"

record sdk_client =
  cl_cache :: "policy_cache option"
  cl_offline :: "action_request list"
  cl_sent :: "action_request list"
  cl_requests :: "(string \<times> string \<times> (string \<times> string) list \<times> json option) list"

definition read_decision :: "sdk_env \<Rightarrow> action_request \<Rightarrow> string \<Rightarrow> decision_response result" where
  "read_decision env a payload =
     (if 1048576 < length payload then Inl (PolicyUnavailable ''control-plane response exceeds limit'')
      else case sk_parse env payload of
        None \<Rightarrow> Inl (ValueError ''validation error'')
      | Some d \<Rightarrow>
          if dr_digest d \<noteq> Some (action_digest (sk_world env) a)
          then Inl (PolicyUnavailable ''control-plane decision does not bind the requested action'')
          else Inr d)"

text \<open>The exception tested for TLS is the \<open>reason\<close> of the error where it has one.\<close>

fun reason_is_tls :: "remote \<Rightarrow> bool" where
  "reason_is_tls WrappedTls = True"
| "reason_is_tls _ = False"

definition offline_evaluate ::
  "sdk_env \<Rightarrow> instant \<Rightarrow> action_request \<Rightarrow> sdk_client \<Rightarrow> decision_response result \<times> sdk_client" where
  "offline_evaluate env now a c =
     (case cl_cache c of
        None \<Rightarrow> (Inl (PolicyUnavailable ''control plane unavailable and no signed cache is installed''), c)
      | Some cache \<Rightarrow>
          (case cache_evaluate (sk_world env) now cache a of
             Inl e \<Rightarrow> (Inl e, c)
           | Inr d \<Rightarrow>
               if 1000 \<le> length (cl_offline c)
               then (Inl (PolicyUnavailable ''offline decision reconciliation queue is full''), c)
               else (Inr d, c\<lparr>cl_offline := cl_offline c @ [a]\<rparr>)))"

definition client_evaluate ::
  "sdk_env \<Rightarrow> instant \<Rightarrow> action_request \<Rightarrow> sdk_client \<Rightarrow> decision_response result \<times> sdk_client" where
  "client_evaluate env now a c =
     (let m = sk_remote env (cl_sent c) a; c = c\<lparr>cl_sent := cl_sent c @ [a]\<rparr> in
      case m of
        Payload p \<Rightarrow> (read_decision env a p, c)
      | Rejected code \<Rightarrow>
          (Inl (PolicyUnavailable (''control plane explicitly rejected request ('' @ int_str code @ '')'')), c)
      | Broken e \<Rightarrow> (Inl e, c)
      | _ \<Rightarrow> if reason_is_tls m then (Inl (PolicyUnavailable ''control-plane TLS verification failed''), c)
             else offline_evaluate env now a c)"

section \<open>Reconciliation\<close>

definition remote_raises :: "sdk_env \<Rightarrow> action_request \<Rightarrow> remote \<Rightarrow> decision_response result" where
  "remote_raises env a m =
     (case m of
        Payload p \<Rightarrow> read_decision env a p
      | Rejected code \<Rightarrow> Inl (OSError (''HTTP Error '' @ int_str code))
      | WrappedTls \<Rightarrow> Inl (OSError ''TLS'')
      | BareTls t \<Rightarrow> Inl (OSError t)
      | Unreachable t \<Rightarrow> Inl (OSError t)
      | Broken e \<Rightarrow> Inl e)"

text \<open>The loop over the queue: its head leaves it only after its decision was read.\<close>

fun reconcile_queue ::
  "sdk_env \<Rightarrow> action_request list \<Rightarrow> sdk_client \<Rightarrow> decision_response list result \<times> sdk_client" where
  "reconcile_queue env [] c = (Inr [], c)"
| "reconcile_queue env (a # queue) c =
     (case remote_raises env a (sk_remote env (cl_sent c) a) of
        Inl e \<Rightarrow> (Inl e, c\<lparr>cl_sent := cl_sent c @ [a]\<rparr>)
      | Inr d \<Rightarrow>
          andthen (reconcile_queue env queue (c\<lparr>cl_sent := cl_sent c @ [a], cl_offline := queue\<rparr>))
            (\<lambda>ds c. (Inr (d # ds), c)))"

definition reconcile_client :: "sdk_env \<Rightarrow> sdk_client \<Rightarrow> decision_response list result \<times> sdk_client" where
  "reconcile_client env c = reconcile_queue env (cl_offline c) c"

section \<open>Mediated requests\<close>

record http_action =
  ht_method :: string
  ht_url :: string
  ht_headers :: "(string \<times> string) list"
  ht_json :: "json pydict option"

definition upper :: "string \<Rightarrow> string" where
  "upper s = map (\<lambda>c. if CHR ''a'' \<le> c \<and> c \<le> CHR ''z'' then char_of (of_char c - (32::nat)) else c) s"

definition http_request_action :: "string \<Rightarrow> instant \<Rightarrow> string \<Rightarrow> string \<Rightarrow> http_action \<Rightarrow> action_request" where
  "http_request_action ident now tenant key q =
     \<lparr>aq_tenant = tenant, aq_key = key, aq_task = ''default'', aq_id = ident, aq_kind = HTTP,
      aq_operation = upper (ht_method q), aq_target = Some (ht_url q),
      aq_arguments = [(''headers'', JObj (map (\<lambda>(k, v). (k, JStr v)) (ht_headers q))),
                      (''json'', case ht_json q of None \<Rightarrow> JNull | Some b \<Rightarrow> JObj b)],
      aq_provenance = [], aq_evidence = [], aq_requested = now\<rparr>"

definition request_http ::
  "sdk_env \<Rightarrow> string \<Rightarrow> instant \<Rightarrow> string \<Rightarrow> string \<Rightarrow> http_action \<Rightarrow> sdk_client \<Rightarrow> string result \<times> sdk_client" where
  "request_http env ident now tenant key q c =
     (let a = http_request_action ident now tenant key q in
      if \<not> valid_action a then (Inl (ValueError ''validation error''), c)
      else andthen (client_evaluate env now a c)
        (\<lambda>d c. if dr_decision d \<noteq> ALLOW
           then (Inl (PermissionError (''TraceGuard denied HTTP action: '' @ dr_reason d)), c)
           else let body = map_option JObj (ht_json q) in
             (sk_transport env (upper (ht_method q)) (ht_url q) (ht_headers q) body,
              c\<lparr>cl_requests := cl_requests c @ [(upper (ht_method q), ht_url q, ht_headers q, body)]\<rparr>)))"

section \<open>The cache never goes back\<close>

text \<open>The bundle in a cache was verified under the cache's own key and scope, and its epoch is the
  least the cache accepts next.\<close>

definition cache_inv :: "world \<Rightarrow> policy_cache \<Rightarrow> bool" where
  "cache_inv w c \<longleftrightarrow>
     (case pc_bundle c of None \<Rightarrow> True
      | Some b \<Rightarrow> bundle_signed w c b \<and> bundle_scoped c b \<and> sb_epoch b = pc_minimum c
          \<and> sb_expires b - sb_issued b \<le> seconds 300)"

definition cache_le :: "policy_cache \<Rightarrow> policy_cache \<Rightarrow> bool" where
  "cache_le c c' \<longleftrightarrow>
     pc_minimum c \<le> pc_minimum c' \<and> pc_key c' = pc_key c \<and> pc_tenant c' = pc_tenant c \<and> pc_audience c' = pc_audience c
     \<and> pc_service_key c' = pc_service_key c \<and> pc_key_id c' = pc_key_id c"

inductive cache_step :: "world \<Rightarrow> policy_cache \<Rightarrow> policy_cache \<Rightarrow> bool" for w :: world where
  installs: "install_bundle w now b c = (r, c') \<Longrightarrow> cache_step w c c'"

lemma install_keeps: "install_bundle w now b c = (r, c') \<Longrightarrow> cache_inv w c \<Longrightarrow> cache_inv w c' \<and> cache_le c c'"
  by (auto simp: install_bundle_def cache_inv_def cache_le_def bundle_signed_def bundle_scoped_def split: if_splits)

interpretation cached: monotone_stepper "cache_step w" "cache_inv w" cache_le for w
proof unfold_locales
  show "cache_step w c c' \<Longrightarrow> cache_inv w c \<Longrightarrow> cache_inv w c'" for c c'
    using install_keeps by (auto elim!: cache_step.cases)
  show "cache_step w c c' \<Longrightarrow> cache_inv w c \<Longrightarrow> cache_le c c'" for c c'
    using install_keeps by (auto elim!: cache_step.cases)
qed (auto simp: cache_le_def)

section \<open>What is decided offline\<close>

lemma cache_evaluate_iff:
  "cache_evaluate w now c a = Inr d \<longleftrightarrow>
     (\<exists>b r. pc_bundle c = Some b \<and> now < sb_expires b \<and> aq_tenant a = pc_tenant c \<and> offline_action a
        \<and> select_rule (pv_draft (sb_policy b)) a = Some r \<and> pu_decision r = ALLOW \<and> pu_cache r
        \<and> d = cached_decision w b r a)"
  by (auto simp: cache_evaluate_def split: option.splits if_splits)

lemma scoped_allows:
  assumes scope: "scope_policy ops p = Inr p'" and r: "select_rule (pv_draft p') a = Some r" "pu_decision r = ALLOW"
  shows "\<exists>q. select_rule (pv_draft p) a = Some q \<and> pu_decision q = ALLOW"
proof -
  have sub: "set (pd_rules (pv_draft p')) \<subseteq> set (pd_rules (pv_draft p))"
    and kept: "x \<in> set (pd_rules (pv_draft p)) \<Longrightarrow> pu_decision x \<noteq> ALLOW \<Longrightarrow> x \<in> set (pd_rules (pv_draft p'))" for x
    using scope by (auto simp: scope_policy_def permitted_rules_def split: option.splits if_splits)
  from select_rule_in [OF r(1)] sub obtain q where q: "select_rule (pv_draft p) a = Some q"
    using select_rule_None [of "pv_draft p" a] by (cases "select_rule (pv_draft p) a") auto
  have "pu_decision q = ALLOW"
  proof (rule ccontr)
    assume n: "pu_decision q \<noteq> ALLOW"
    with q select_rule_in kept have "q \<in> set (pd_rules (pv_draft p'))" "matches (pu_match q) a" by blast+
    from select_rule_precedence [OF r(1) this] r(2) n show False by (cases "pu_decision q") auto
  qed
  with q show ?thesis by blast
qed

text \<open>A decision from the cache is the one the control plane would take, by the policy it had when
  it issued the bundle.\<close>

lemma offline_agrees:
  assumes issued: "signed_bundle w kid issue_time (aq_tenant a) ac ttl s = Inr b" and b: "pc_bundle c = Some b"
    and d: "cache_evaluate w now c a = Inr d"
  shows "dr_decision (policy_decision w a s) = ALLOW \<and> dr_policy (policy_decision w a s) = dr_policy d
    \<and> dr_version (policy_decision w a s) = dr_version d \<and> dr_digest (policy_decision w a s) = dr_digest d"
proof -
  from issued obtain p p' epoch key where p: "active_policy s (aq_tenant a) = Some p"
      "scope_policy (ac_operations ac) p = Inr p'" "b = bundle_of w kid (aq_tenant a) ac key p' issue_time (issue_time + ttl) epoch"
    by (auto simp: signed_bundle_def split: sum.splits option.splits if_splits)
  then have pol: "sb_policy b = p'" by (simp add: bundle_of_def Let_def)
  from d b pol obtain r where r: "select_rule (pv_draft p') a = Some r" "pu_decision r = ALLOW" "d = cached_decision w b r a"
    by (auto simp: cache_evaluate_iff)
  obtain q where q: "select_rule (pv_draft p) a = Some q" "pu_decision q = ALLOW"
    using scoped_allows [OF p(2) r(1,2)] by blast
  have "pv_id p' = pv_id p \<and> pv_version p' = pv_version p"
    using p(2) by (auto simp: scope_policy_def split: option.splits if_splits)
  with p(1) q r(3) pol show ?thesis by (simp add: policy_decision_def mk_decision_def cached_decision_def)
qed

section \<open>What the client lets through\<close>

definition decided :: "sdk_env \<Rightarrow> instant \<Rightarrow> sdk_client \<Rightarrow> action_request \<Rightarrow> decision_response \<Rightarrow> bool" where
  "decided env now c a d \<longleftrightarrow>
     (\<exists>p. sk_remote env (cl_sent c) a = Payload p \<and> sk_parse env p = Some d
        \<and> dr_digest d = Some (action_digest (sk_world env) a))
     \<or> (\<exists>cache. cl_cache c = Some cache \<and> cache_evaluate (sk_world env) now cache a = Inr d
          \<and> (\<forall>p. sk_remote env (cl_sent c) a \<noteq> Payload p) \<and> (\<forall>n. sk_remote env (cl_sent c) a \<noteq> Rejected n)
          \<and> sk_remote env (cl_sent c) a \<noteq> WrappedTls \<and> length (cl_offline c) < 1000)"

lemma cached_from: "cache_evaluate w now c a = Inr d \<Longrightarrow> dr_from_cache d"
  by (auto simp: cache_evaluate_iff cached_decision_def)

lemma offline_cases:
  assumes "offline_evaluate env now a c = (r, c')"
  shows "(\<exists>e. r = Inl e \<and> c' = c)
     \<or> (\<exists>d cache. r = Inr d \<and> cl_cache c = Some cache \<and> cache_evaluate (sk_world env) now cache a = Inr d
          \<and> length (cl_offline c) < 1000 \<and> c' = c\<lparr>cl_offline := cl_offline c @ [a]\<rparr>)"
proof (cases "cl_cache c")
  case (Some cache)
  show ?thesis
  proof (cases "cache_evaluate (sk_world env) now cache a")
    case (Inl e)
    with assms Some have "(Inl e, c) = (r, c')" by (simp add: offline_evaluate_def)
    then show ?thesis by blast
  next
    case (Inr d)
    with assms Some show ?thesis by (auto simp: offline_evaluate_def split: if_splits)
  qed
qed (use assms in \<open>auto simp: offline_evaluate_def\<close>)

lemma client_evaluate_ok:
  assumes "client_evaluate env now a c = (r, c')"
  shows "(\<forall>d. r = Inr d \<longrightarrow> decided env now c a d)
    \<and> cl_sent c' = cl_sent c @ [a] \<and> cl_requests c' = cl_requests c \<and> cl_cache c' = cl_cache c
    \<and> (cl_offline c' = cl_offline c \<or> (\<exists>d. r = Inr d \<and> dr_from_cache d \<and> cl_offline c' = cl_offline c @ [a] \<and> length (cl_offline c) < 1000))"
proof (cases "sk_remote env (cl_sent c) a")
  case (Payload p)
  with assms show ?thesis
    by (auto simp: client_evaluate_def Let_def decided_def read_decision_def split: if_splits option.splits)
next
  case (BareTls t)
  with assms offline_cases [of env now a "c\<lparr>cl_sent := cl_sent c @ [a]\<rparr>" r c'] show ?thesis
    by (auto simp: client_evaluate_def decided_def Let_def cached_from)
next
  case (Unreachable t)
  with assms offline_cases [of env now a "c\<lparr>cl_sent := cl_sent c @ [a]\<rparr>" r c'] show ?thesis
    by (auto simp: client_evaluate_def decided_def Let_def cached_from)
qed (use assms in \<open>auto simp: client_evaluate_def Let_def\<close>)

lemma request_http_ok:
  assumes "request_http env ident now tenant key q c = (r, c')"
  shows "cl_requests c' = cl_requests c
    \<or> (let a = http_request_action ident now tenant key q in
        valid_action a \<and> (\<exists>d. decided env now c a d \<and> dr_decision d = ALLOW)
        \<and> cl_requests c' = cl_requests c @ [(aq_operation a, ht_url q, ht_headers q, map_option JObj (ht_json q))])"
proof -
  let ?a = "http_request_action ident now tenant key q"
  obtain r1 c1 where ev: "client_evaluate env now ?a c = (r1, c1)" by force
  have op: "aq_operation ?a = upper (ht_method q)" by (simp add: http_request_action_def)
  from client_evaluate_ok [OF ev] assms ev op show ?thesis
    by (cases r1) (auto simp: request_http_def Let_def split: if_splits)
qed

section \<open>The offline queue\<close>

text \<open>The queue after a run is what was not served, and every decision binds its action.\<close>

definition queue_served :: "sdk_env \<Rightarrow> action_request list \<Rightarrow> decision_response list result \<Rightarrow> action_request list \<Rightarrow> bool" where
  "queue_served env queue r rest \<longleftrightarrow>
     (case r of
        Inr ds \<Rightarrow> rest = [] \<and> list_all2 (\<lambda>a d. dr_digest d = Some (action_digest (sk_world env) a)) queue ds
      | Inl e \<Rightarrow> rest \<noteq> [])"

lemma queue_served_Cons:
  "queue_served env queue r rest \<Longrightarrow> dr_digest d = Some (action_digest (sk_world env) a) \<Longrightarrow>
   queue_served env (a # queue) (map_sum id ((#) d) r) rest"
  by (cases r) (simp_all add: queue_served_def)

lemma raised_bound:
  "remote_raises env a m = Inr d \<Longrightarrow> dr_digest d = Some (action_digest (sk_world env) a)"
  by (cases m) (auto simp: remote_raises_def read_decision_def split: if_splits option.splits)

lemma reconcile_queue_ok:
  assumes "reconcile_queue env queue c = (r, c')" and "cl_offline c = queue"
  shows "queue_served env queue r (cl_offline c')
    \<and> (\<exists>sent. queue = sent @ cl_offline c' \<and> prefix (cl_sent c @ sent) (cl_sent c'))"
  using assms
proof (induction queue arbitrary: c r c')
  case Nil
  then show ?case by (auto simp: queue_served_def)
next
  case (Cons a queue)
  show ?case
  proof (cases "remote_raises env a (sk_remote env (cl_sent c) a)")
    case (Inl e)
    with Cons.prems have "(Inl e, c\<lparr>cl_sent := cl_sent c @ [a]\<rparr>) = (r, c')" by simp
    with Cons.prems(2) show ?thesis by (auto simp: queue_served_def)
  next
    case (Inr d)
    let ?c = "c\<lparr>cl_sent := cl_sent c @ [a], cl_offline := queue\<rparr>"
    have bound: "dr_digest d = Some (action_digest (sk_world env) a)"
      using Inr by (rule raised_bound)
    obtain r1 c1 where rec: "reconcile_queue env queue ?c = (r1, c1)" by force
    have off: "cl_offline ?c = queue" and sent: "cl_sent ?c = cl_sent c @ [a]" by simp_all
    note IH = Cons.IH [OF rec off, unfolded sent]
    from Cons.prems(1) Inr have "andthen (r1, c1) (\<lambda>ds c. (Inr (d # ds), c)) = (r, c')"
      by (simp only: reconcile_queue.simps sum.case rec)
    then have fin: "c' = c1" "r = map_sum id ((#) d) r1" by (cases r1; auto)+
    from IH obtain sent where s: "queue = sent @ cl_offline c1" "prefix ((cl_sent c @ [a]) @ sent) (cl_sent c1)" by blast
    have "a # queue = (a # sent) @ cl_offline c1" by (subst s(1)) simp
    moreover have "prefix (cl_sent c @ a # sent) (cl_sent c1)" using s(2) by simp
    ultimately show ?thesis using queue_served_Cons [OF conjunct1 [OF IH] bound] unfolding fin by blast
  qed
qed

end
