(* ===== verification/ToolSamples.thy ===== *)
theory ToolSamples
  imports ToolFacts Sdk Samples
begin

text \<open>A call of each kind of tool, a policy bundle carried from the control plane into a cache, and
  the behaviours of tools and client that contradict the code's intent.\<close>

section \<open>Tools\<close>

definition tool_parse :: "string \<Rightarrow> expr result" where
  "tool_parse s =
     (if s = ''1/0'' then Inr (Expression (BinOp (Constant (IntLit 1)) Divide (Constant (IntLit 0))))
      else Inl (SyntaxError ''invalid syntax''))"

definition tool_env0 :: tool_env where
  "tool_env0 = \<lparr>te_calc = \<lparr>ca_parse = tool_parse, ca_pow = (\<lambda>_ _. None), ca_complex = (\<lambda>_ _. None)\<rparr>,
     te_schema = (\<lambda>_. []), te_sha = (\<lambda>_. ''h''), te_temp = ''u'', te_fresh = ''o''\<rparr>"

definition host_tree :: node where
  "host_tree = Dir [(''a'', Dir []), (''w'', Dir [(''f'', File 1 1 ''x'')])]"

definition sample_call :: "string \<Rightarrow> json pydict \<Rightarrow> tool_call" where
  "sample_call name args = \<lparr>tc_task_id = ''t1'', tc_step_id = 0, tc_tool_name = name, tc_arguments = args,
     tc_consumed = [''c0''], tc_resources = [], tc_call_id = ''c1''\<rparr>"

definition report_call :: tool_call where
  "report_call = sample_call ''write_report'' [(''path'', JStr ''artifacts/r''), (''content'', JStr ''hi'')]"

lemma host_tree_dir: "is_dir (Some host_tree)"
  by (simp add: host_tree_def)

lemma report_written:
  "\<exists>ob fs'. execute_tool tool_env0 (default_tools tool_env0 [''w''] [''a'']) report_call host_tree = (Inr ob, fs')
    \<and> walk_to fs' [''a'', ''r''] = Some (File 1 2 ''hi'') \<and> walk_to fs' [''w'', ''f''] = Some (File 1 1 ''x'')"
proof -
  let ?run = "execute_tool tool_env0 (default_tools tool_env0 [''w''] [''a'']) report_call host_tree"
  have "validate_model WriteReportArguments (tc_arguments report_call) = Inr (WriteArgs ''artifacts/r'' ''hi'')"
    by (simp add: validate_model_def report_call_def sample_call_def text_field_def dict_keys_def)
  moreover have "report_path ''artifacts/r'' = ''r''" by code_simp
  moreover have "write_confined ''u'' [''a''] ''r'' ''hi'' host_tree
      = (Inr (), Dir [(''a'', Dir [(''r'', File 1 2 ''hi'')]), (''w'', Dir [(''f'', File 1 1 ''x'')])])"
    by code_simp
  ultimately have "?run = (Inr (tool_observation tool_env0 (write_report_tool tool_env0 [''a'']) report_call ''r''),
      Dir [(''a'', Dir [(''r'', File 1 2 ''hi'')]), (''w'', Dir [(''f'', File 1 1 ''x'')])])"
    by (simp add: execute_tool_run default_tools_def report_call_def sample_call_def max_write_bytes_def tool_env0_def)
  then show ?thesis by simp
qed

text \<open>A division by zero is an \<open>ArithmeticError\<close>, which guarded execution does not catch: the call
  ends in an exception, with no observation and no trace.\<close>

definition division_call :: tool_call where
  "division_call = sample_call ''calculator'' [(''expression'', JStr ''1/0'')]"

lemma division_raises:
  "execute_tool tool_env0 (default_tools tool_env0 [''w''] [''a'']) division_call fs
     = (Inl (ZeroDivisionError ''float division by zero''), fs)"
proof -
  have d: "double (of_int 1) = 1" "double (of_int 0) = 0" by code_simp+
  have "validate_model CalculatorArguments (tc_arguments division_call) = Inr (CalcArgs ''1/0'')"
    by code_simp
  moreover have "map_of (default_tools tool_env0 [''w''] [''a'']) (tc_tool_name division_call) = Some (calculator_tool (te_calc tool_env0))"
    by (simp add: default_tools_def division_call_def sample_call_def)
  ultimately show ?thesis
    using d
    by (simp add: execute_tool_run evaluate_expression_def tool_env0_def tool_parse_def max_calc_nodes_def spend_def
        literal_value_def float_of_int_def max_calc_value_def binary_value_def bounded_number_def)
qed

lemma division_escapes:
  assumes "ge_tool env = (\<lambda>c. fst (execute_tool tool_env0 (default_tools tool_env0 [''w''] [''a'']) c fs))"
  shows "run_tool gc env call division_call outputs plan None st
    = (Inl (ZeroDivisionError ''float division by zero''), log_dispatch division_call st)"
  using assms by (simp add: run_tool_def division_raises finish_reserved_def caught_by_tools_def Let_def)

section \<open>The client\<close>

definition sdk_rule :: policy_rule where
  "sdk_rule = \<lparr>pu_id = ''r1'', pu_name = ''read'', pu_priority = 1,
     pu_match = \<lparr>rm_kind = Some HTTP, rm_operation = Some ''GET'', rm_prefix = None, rm_arguments = [], rm_instructions = None\<rparr>,
     pu_decision = ALLOW, pu_reason = ''public'', pu_rewrite = None, pu_cache = True\<rparr>"

definition sdk_draft :: policy_draft where
  "sdk_draft = \<lparr>pd_name = ''reads'', pd_rules = [sdk_rule], pd_default = BLOCK\<rparr>"

definition sdk_request :: http_action where
  "sdk_request = \<lparr>ht_method = ''get'', ht_url = ''https://a.com/'', ht_headers = [], ht_json = None\<rparr>"

definition sdk_action :: action_request where
  "sdk_action = http_request_action ''a1'' 30 ''acme'' ''key-0001'' sdk_request"

definition sdk_bundle :: signed_bundle where
  "sdk_bundle = bundle_of demo_world ''k'' ''acme'' (demo_actor ''zoe'' AGENT) ''zoe-key'' (demo_version sdk_draft) 10 (10 + seconds 60) 1"

lemma sdk_issued:
  "signed_bundle demo_world ''k'' 10 ''acme'' (demo_actor ''zoe'' AGENT) (seconds 60) (demo_control sdk_draft) = Inr sdk_bundle"
proof -
  have "active_policy (demo_control sdk_draft) ''acme'' = Some (demo_version sdk_draft)"
    by (simp add: active_policy_def policies_of_def demo_control_frame dict_get_def demo_version_def)
  then show ?thesis
    by (simp add: signed_bundle_def demo_require demo_control_frame demo_request_fields scope_policy_def seconds_def sdk_bundle_def)
qed

definition sdk_cache :: policy_cache where
  "sdk_cache = new_cache ''traceguard-policy-v1'' ''acme'' ''zoe'' ''zoe-key'' ''k'' 0"

definition sdk_cached :: policy_cache where
  "sdk_cached = sdk_cache\<lparr>pc_bundle := Some sdk_bundle, pc_minimum := 1\<rparr>"

lemma sdk_installs: "install_bundle demo_world 20 sdk_bundle sdk_cache = (Inr (), sdk_cached)"
  by (simp add: install_bundle_def bundle_signed_def bundle_scoped_def sdk_cache_def new_cache_def sdk_cached_def
      sdk_bundle_def bundle_of_def Let_def demo_world_def demo_version_def seconds_def demo_actor_def)

lemma sdk_selects: "select_rule sdk_draft sdk_action = Some sdk_rule"
  by code_simp

lemma sdk_evaluates:
  "is_ok (destination ''https://a.com/'')"
  "json_nodes (JObj (aq_arguments sdk_action)) = 3" "json_depth (JObj (aq_arguments sdk_action)) = 1"
  "map_option length (dumps (JObj (aq_arguments sdk_action))) = Some 26"
  "aq_target sdk_action = Some ''https://a.com/''" "aq_tenant sdk_action = ''acme''" "offline_action sdk_action"
  "aq_key sdk_action = ''key-0001''" "aq_task sdk_action = ''default''" "aq_operation sdk_action = ''GET''"
  "aq_provenance sdk_action = []" "aq_evidence sdk_action = []" "aq_kind sdk_action = HTTP"
  by code_simp+

lemma sdk_action_fields: "aq_tenant sdk_action = ''acme''" "offline_action sdk_action" "valid_action sdk_action"
proof -
  have "validate_json (JObj (aq_arguments sdk_action)) 65536 4096 16 = Inr ()"
    using sdk_evaluates(2-4) by (auto simp: validate_json_iff)
  then show "valid_action sdk_action"
    using sdk_evaluates by (auto simp: valid_action_def sized_def validate_http_target_def split: sum.splits)
qed (rule sdk_evaluates)+

lemma sdk_decides: "cache_evaluate demo_world 30 sdk_cached sdk_action = Inr (cached_decision demo_world sdk_bundle sdk_rule sdk_action)"
proof -
  have "sb_policy sdk_bundle = demo_version sdk_draft" "sb_expires sdk_bundle = 10 + seconds 60"
    by (simp_all add: sdk_bundle_def bundle_of_def)
  then show ?thesis
    by (simp add: cache_evaluate_def sdk_cached_def sdk_cache_def new_cache_def sdk_action_fields sdk_selects demo_version_def
        seconds_def sdk_rule_def)
qed

definition sdk_env0 :: "remote \<Rightarrow> sdk_env" where
  "sdk_env0 m = \<lparr>sk_world = demo_world, sk_parse = (\<lambda>_. None), sk_remote = (\<lambda>_ _. m),
     sk_transport = (\<lambda>_ _ _ _. Inr ''page'')\<rparr>"

definition sdk_client0 :: sdk_client where
  "sdk_client0 = \<lparr>cl_cache = Some sdk_cached, cl_offline = [], cl_sent = [], cl_requests = []\<rparr>"

lemma sdk_request_runs:
  "request_http (sdk_env0 (Unreachable ''down'')) ''a1'' 30 ''acme'' ''key-0001'' sdk_request sdk_client0
     = (Inr ''page'', sdk_client0\<lparr>cl_offline := [sdk_action], cl_sent := [sdk_action],
          cl_requests := [(''GET'', ''https://a.com/'', [], None)]\<rparr>)"
proof -
  have up: "upper (ht_method sdk_request) = ''GET''" by code_simp
  show ?thesis
    using sdk_action_fields sdk_decides up
    by (simp add: request_http_def client_evaluate_def offline_evaluate_def sdk_env0_def sdk_client0_def Let_def
        flip: sdk_action_def) (simp add: sdk_request_def cached_decision_def)
qed

text \<open>A TLS failure that \<open>urlopen\<close> does not wrap carries its own \<open>reason\<close>, a text, so the test for TLS
  fails and the cache decides.\<close>

lemma bare_tls_decided_offline:
  "fst (client_evaluate (sdk_env0 (BareTls t)) 30 sdk_action sdk_client0)
     = Inr (cached_decision demo_world sdk_bundle sdk_rule sdk_action)"
  "fst (client_evaluate (sdk_env0 WrappedTls) 30 sdk_action sdk_client0)
     = Inl (PolicyUnavailable ''control-plane TLS verification failed'')"
  using sdk_decides by (simp_all add: client_evaluate_def offline_evaluate_def sdk_env0_def sdk_client0_def Let_def)

end
