(* ===== verification/Mtls.thy ===== *)
theory Mtls
  imports Network ControlModels JsonLimits ReleaseGate
begin

text \<open>
  The mutually authenticated transport of \<open>mtls.py\<close>: identities bound to client certificates, the
  client with its pinned server, the reader that bounds the header, the deadline of a request and
  the handler of a POST. The TLS library and sockets are parameters: what a connection presents and
  answers, and what a stream delivers.
\<close>

section \<open>Identities\<close>

text \<open>\<open>fingerprint in records\<close> and \<open>records[fingerprint]\<close> for every JSON value.\<close>

fun peer_record :: "json \<Rightarrow> string \<Rightarrow> json result" where
  "peer_record (JObj d) fp =
     (case map_of d fp of
        None \<Rightarrow> Inl (AuthorizationError ''client certificate is not an authorized workload'') | Some r \<Rightarrow> Inr r)"
| "peer_record (JList xs) fp =
     (if JStr fp \<in> set xs then Inl (TypeError ''list indices must be integers or slices, not str'')
      else Inl (AuthorizationError ''client certificate is not an authorized workload''))"
| "peer_record (JStr s) fp =
     (if contains fp s then Inl (TypeError ''string indices must be integers'')
      else Inl (AuthorizationError ''client certificate is not an authorized workload''))"
| "peer_record _ fp = Inl (TypeError ''argument is not iterable'')"

definition resolve_peer ::
  "(string \<Rightarrow> string) \<Rightarrow> (json \<Rightarrow> actor option) \<Rightarrow> string result \<Rightarrow> string \<Rightarrow> actor result" where
  "resolve_peer sha read_actor contents certificate =
     (case contents of
        Inl e \<Rightarrow> Inl e
      | Inr raw \<Rightarrow>
          if 65536 < length raw then Inl (AuthorizationError ''identity registry exceeds budget'')
          else case json_loads raw of
            None \<Rightarrow> Inl (ValueError ''malformed JSON'')
          | Some records \<Rightarrow>
              (case validate_json records 65536 4096 16 of
                 Inl e \<Rightarrow> Inl e
               | Inr _ \<Rightarrow>
                   (case peer_record records (sha certificate) of
                      Inl e \<Rightarrow> Inl e
                    | Inr r \<Rightarrow> (case read_actor r of None \<Rightarrow> Inl (ValueError ''validation error'') | Some a \<Rightarrow> Inr a))))"

section \<open>The client\<close>

record mtls_client =
  mc_host :: string
  mc_port :: nat
  mc_fingerprint :: string

definition new_mtls_client :: "string \<Rightarrow> bool \<Rightarrow> bool \<Rightarrow> string \<Rightarrow> mtls_client result" where
  "new_mtls_client url certificate_required check_hostname fingerprint =
     (case urlsplit url of
        Inl e \<Rightarrow> Inl e
      | Inr u \<Rightarrow>
          if su_scheme u \<noteq> ''https'' \<or> url_hostname (su_netloc u) = [] \<or> CHR ''@'' \<in> set (su_netloc u)
             \<or> su_path u \<notin> {[], ''/''} \<or> su_query u \<noteq> []
          then Inl (ValueError ''a fixed HTTPS service origin is required'')
          else if \<not> certificate_required \<or> \<not> check_hostname
          then Inl (ValueError ''client TLS verification cannot be disabled'')
          else if length fingerprint \<noteq> 64
          then Inl (ValueError ''pinned server certificate fingerprint is required'')
          else case url_port (su_netloc u) of
            Inl e \<Rightarrow> Inl e
          | Inr port \<Rightarrow>
              Inr \<lparr>mc_host = url_hostname (su_netloc u),
                   mc_port = (case port of None \<Rightarrow> 443 | Some n \<Rightarrow> if n = 0 then 443 else n),
                   mc_fingerprint = fingerprint\<rparr>)"

text \<open>A connection presents a certificate and answers a POST, or fails.\<close>

datatype connection =
    Refused exn
  | Connected string "string \<Rightarrow> string \<Rightarrow> exn + (int \<times> string)"

text \<open>The second component lists what was sent.\<close>

definition mtls_request ::
  "(string \<Rightarrow> string) \<Rightarrow> mtls_client \<Rightarrow> connection \<Rightarrow> string \<Rightarrow> json \<Rightarrow> json result \<times> (string \<times> string) list" where
  "mtls_request sha c connection path payload =
     (if \<not> prefix ''/'' path \<or> CHR ''?'' \<in> set path \<or> CHR ''#'' \<in> set path
      then (Inl (ValueError ''fixed service path required''), [])
      else case validate_json payload 1048576 16384 32 of
        Inl e \<Rightarrow> (Inl e, [])
      | Inr _ \<Rightarrow>
          (case connection of
             Refused e \<Rightarrow> (Inl e, [])
           | Connected certificate exchange \<Rightarrow>
               if sha certificate \<noteq> mc_fingerprint c
               then (Inl (AuthorizationError ''service certificate does not match the pinned identity''), [])
               else let body = dumps_text json_escape payload in
                ((case exchange path body of
                    Inl e \<Rightarrow> Inl e
                  | Inr (status, answer) \<Rightarrow>
                      if 1048576 < length (take 1048577 answer) then Inl (ValueError ''service response exceeds budget'')
                      else case json_loads (take 1048577 answer) of
                        None \<Rightarrow> Inl (ValueError ''malformed JSON'')
                      | Some v \<Rightarrow>
                          (case validate_json v 1048576 16384 32 of
                             Inl e \<Rightarrow> Inl e
                           | Inr _ \<Rightarrow>
                               if status \<noteq> 200
                               then Inl (AuthorizationError (''service withheld request ('' @ int_str status @ '')''))
                               else Inr v)), [(path, body)])))"

section \<open>The deadline of a request\<close>

record ingress =
  ig_deadline :: rat
  ig_complete :: bool
  ig_expired :: bool
  ig_shut :: bool

definition new_ingress :: "rat \<Rightarrow> ingress" where
  "new_ingress deadline = \<lparr>ig_deadline = deadline, ig_complete = False, ig_expired = False, ig_shut = False\<rparr>"

definition expire :: "ingress \<Rightarrow> ingress" where
  "expire g = (if ig_complete g then g else g\<lparr>ig_expired := True, ig_shut := True\<rparr>)"

definition finish_ingress :: "rat \<Rightarrow> ingress \<Rightarrow> unit result \<times> ingress" where
  "finish_ingress now g =
     (if ig_expired g \<or> ig_deadline g \<le> now then (Inl (TimeoutError ''absolute ingress deadline exceeded''), g)
      else (Inr (), g\<lparr>ig_complete := True\<rparr>))"

inductive ingress_step :: "ingress \<Rightarrow> ingress \<Rightarrow> bool" where
  timer: "ingress_step g (expire g)"
| finisher: "finish_ingress now g = (r, g') \<Longrightarrow> ingress_step g g'"

inductive_cases ingress_stepE: "ingress_step g g'"

definition ingress_inv :: "ingress \<Rightarrow> bool" where
  "ingress_inv g \<longleftrightarrow> \<not> (ig_complete g \<and> ig_expired g) \<and> ig_shut g = ig_expired g"

definition ingress_le :: "ingress \<Rightarrow> ingress \<Rightarrow> bool" where
  "ingress_le g g' \<longleftrightarrow> (ig_complete g \<longrightarrow> ig_complete g') \<and> (ig_expired g \<longrightarrow> ig_expired g')"

text \<open>A request either completed before its deadline or expired, never both, and for good.\<close>

interpretation deadlines: monotone_stepper ingress_step ingress_inv ingress_le
proof unfold_locales
  show "ingress_step g g' \<Longrightarrow> ingress_inv g \<Longrightarrow> ingress_inv g'" for g g'
    by (auto elim!: ingress_stepE simp: ingress_inv_def expire_def finish_ingress_def split: if_splits)
  show "ingress_step g g' \<Longrightarrow> ingress_inv g \<Longrightarrow> ingress_le g g'" for g g'
    by (auto elim!: ingress_stepE simp: ingress_le_def expire_def finish_ingress_def split: if_splits)
qed (auto simp: ingress_le_def)

section \<open>The header\<close>

text \<open>The stream's own \<open>readline\<close>: up to a newline or the limit.\<close>

definition stream_line :: "nat \<Rightarrow> string \<Rightarrow> string" where
  "stream_line n s =
     take n (takeWhile (\<lambda>c. c \<noteq> CHR 0x0A) s @ (if CHR 0x0A \<in> set s then [CHR 0x0A] else []))"

record header_reader =
  hb_rest :: string
  hb_bytes :: nat
  hb_lines :: nat

definition read_header_line :: "nat option \<Rightarrow> header_reader \<Rightarrow> string result \<times> header_reader" where
  "read_header_line limit h =
     (let n = (case limit of None \<Rightarrow> 4097 | Some l \<Rightarrow> min 4097 l); line = stream_line n (hb_rest h);
          h = h\<lparr>hb_rest := drop (length line) (hb_rest h), hb_bytes := hb_bytes h + length line, hb_lines := hb_lines h + 1\<rparr>
      in if 4096 < length line \<or> 32768 < hb_bytes h \<or> 65 < hb_lines h
         then (Inl (ValueError ''HTTP request-line/header budget exceeded''), h) else (Inr line, h))"

text \<open>However a parser reads it, a header is at most 32768 bytes in 65 lines.\<close>

fun read_header :: "nat option list \<Rightarrow> header_reader \<Rightarrow> string list result \<times> header_reader" where
  "read_header [] h = (Inr [], h)"
| "read_header (limit # limits) h =
     andthen (read_header_line limit h) (\<lambda>line h. andthen (read_header limits h) (\<lambda>ls h. (Inr (line # ls), h)))"

lemma read_header_bounded:
  "read_header limits h = (Inr ls, h') \<Longrightarrow> hb_bytes h \<le> 32768 \<Longrightarrow> hb_lines h \<le> 65 \<Longrightarrow>
   hb_bytes h' = hb_bytes h + length (concat ls) \<and> hb_bytes h' \<le> 32768
   \<and> hb_lines h' = hb_lines h + length ls \<and> hb_lines h' \<le> 65 \<and> list_all (\<lambda>l. length l \<le> 4096) ls"
proof (induction limits arbitrary: h ls)
  case (Cons limit limits)
  from Cons.prems(1) obtain line h1 ls1 where l: "read_header_line limit h = (Inr line, h1)"
    and r: "read_header limits h1 = (Inr ls1, h')" "ls = line # ls1"
    by (auto elim!: andthen_ok)
  from l have "hb_bytes h1 = hb_bytes h + length line" "hb_lines h1 = hb_lines h + 1"
    "length line \<le> 4096" "hb_bytes h1 \<le> 32768" "hb_lines h1 \<le> 65"
    by (auto simp: read_header_line_def Let_def split: if_splits)
  with Cons.IH [OF r(1)] r(2) show ?case by simp
qed auto

section \<open>The handler of a POST\<close>

text \<open>The identity is resolved from the registry as it is before the request is read, and again as it
  is after; \<open>po_stream\<close> is what the body's reads can deliver.\<close>

record 's post =
  po_before :: "actor result"
  po_lengths :: "string list"
  po_chunked :: bool
  po_read :: "nat \<Rightarrow> string result"
  po_finish :: "unit result"
  po_after :: "actor result"
  po_path :: string
  po_dispatch :: "actor \<Rightarrow> string \<Rightarrow> json \<Rightarrow> 's \<Rightarrow> json result \<times> 's"

type_synonym reply = "int \<times> json"

definition detail :: "int \<Rightarrow> string \<Rightarrow> reply" where
  "detail status text = (status, JObj [(''detail'', JStr text)])"

definition reply_for :: "exn \<Rightarrow> reply result" where
  "reply_for e =
     (case e of
        AuthorizationError _ \<Rightarrow> Inr (detail 403 ''workload or action is not authorized'')
      | CapacityError _ \<Rightarrow> Inr (detail 503 ''authority admission quota exhausted'')
      | KeyError _ \<Rightarrow> Inr (detail 400 ''invalid request or service configuration'')
      | TypeError _ \<Rightarrow> Inr (detail 400 ''invalid request or service configuration'')
      | _ \<Rightarrow> if is_value_error e then Inr (detail 400 ''invalid request or service configuration'')
             else if is_exception e then Inr (detail 503 ''execution unavailable or outcome unknown'')
             else Inl e)"

text \<open>A reply that cannot be serialised raises before anything is written.\<close>

definition answered :: "json \<Rightarrow> reply result" where
  "answered v = (if dumps v = None then Inl (ValueError ''Out of range float values are not JSON compliant'') else Inr (200, v))"

text \<open>\<open>str.isdigit\<close> on a latin-1 header counts the superscripts, which \<open>int\<close> refuses, as it does
  more than 4300 digits.\<close>

definition header_digits :: "string \<Rightarrow> bool" where
  "header_digits l \<longleftrightarrow> l \<noteq> [] \<and> list_all (\<lambda>c. is_digit c \<or> c \<in> {CHR 0xB2, CHR 0xB3, CHR 0xB9}) l"

definition announced_length :: "string \<Rightarrow> nat result" where
  "announced_length l =
     (if \<not> list_all is_digit l then Inl (ValueError ''invalid literal for int() with base 10'')
      else if 4300 < length l then Inl (ValueError ''Exceeds the limit (4300 digits) for integer string conversion'')
      else Inr (digits_val l))"

definition read_post :: "'s post \<Rightarrow> (json + reply) result" where
  "read_post p =
     (case po_before p of
        Inl e \<Rightarrow> Inl e
      | Inr _ \<Rightarrow>
          (case po_lengths p of
             [l] \<Rightarrow>
               if \<not> header_digits l \<or> po_chunked p then Inr (Inr (detail 400 ''one bounded content length is required''))
               else (case announced_length l of
                  Inl e \<Rightarrow> Inl e
                | Inr n \<Rightarrow>
                    if 1048576 < n then Inr (Inr (detail 413 ''request exceeds budget''))
                    else (case po_read p n of
                       Inl e \<Rightarrow> Inl e
                     | Inr raw \<Rightarrow>
                         if length raw \<noteq> n then Inr (Inr (detail 400 ''incomplete request''))
                         else (case json_loads raw of
                            None \<Rightarrow> Inl (ValueError ''malformed JSON'')
                          | Some v \<Rightarrow>
                              (case validate_json v 1048576 16384 32 of Inl e \<Rightarrow> Inl e | Inr _ \<Rightarrow> Inr (Inl v)))))
           | _ \<Rightarrow> Inr (Inr (detail 400 ''one bounded content length is required''))))"

definition serve_post :: "'s post \<Rightarrow> 's \<Rightarrow> reply result \<times> 's" where
  "serve_post p s =
     (case read_post p of
        Inl e \<Rightarrow> (Inl e, s)
      | Inr (Inr reply) \<Rightarrow> (Inr reply, s)
      | Inr (Inl payload) \<Rightarrow>
          (case po_finish p of
             Inl e \<Rightarrow> (Inl e, s)
           | Inr _ \<Rightarrow>
               (case po_after p of
                  Inl e \<Rightarrow> (Inl e, s)
                | Inr actor \<Rightarrow>
                    andthen (po_dispatch p actor (po_path p) payload s) (\<lambda>v s. (answered v, s)))))"

definition do_post :: "'s post \<Rightarrow> 's \<Rightarrow> reply result \<times> 's" where
  "do_post p s = (case serve_post p s of (Inl e, s) \<Rightarrow> (reply_for e, s) | (Inr r, s) \<Rightarrow> (Inr r, s))"

section \<open>What a POST may reach\<close>

text \<open>
  The service was asked: there was one announced length, in ASCII digits and within the budget, the
  read of that many bytes delivered that many, they are the JSON of the payload, they had arrived in
  time, and the actor is the one the registry gives after that.
\<close>

definition asks_service :: "'s post \<Rightarrow> actor \<Rightarrow> json \<Rightarrow> bool" where
  "asks_service p actor payload \<longleftrightarrow>
     is_ok (po_before p) \<and> po_finish p = Inr () \<and> po_after p = Inr actor
     \<and> validate_json payload 1048576 16384 32 = Inr ()
     \<and> (\<exists>l raw. po_lengths p = [l] \<and> \<not> po_chunked p \<and> l \<noteq> [] \<and> list_all is_digit l
          \<and> digits_val l \<le> 1048576 \<and> po_read p (digits_val l) = Inr raw \<and> length raw = digits_val l
          \<and> json_loads raw = Some payload)"

lemma read_post_payload:
  "read_post p = Inr (Inl v) \<Longrightarrow> is_ok (po_before p) \<and> validate_json v 1048576 16384 32 = Inr ()
     \<and> (\<exists>l raw. po_lengths p = [l] \<and> \<not> po_chunked p \<and> l \<noteq> [] \<and> list_all is_digit l
          \<and> digits_val l \<le> 1048576 \<and> po_read p (digits_val l) = Inr raw \<and> length raw = digits_val l
          \<and> json_loads raw = Some v)"
  by (auto simp: read_post_def announced_length_def header_digits_def
      split: sum.splits list.splits if_splits option.splits)

lemma do_post_ok:
  assumes "do_post p s = (r, s')"
  shows "(s' = s \<and> r \<noteq> Inr (200, v)) \<or> (\<exists>actor payload r0. asks_service p actor payload
      \<and> po_dispatch p actor (po_path p) payload s = (r0, s') \<and> (r = Inr (200, v) \<longrightarrow> r0 = Inr v))"
proof -
  have no200: "reply_for e \<noteq> Inr (200, v)" for e
    by (cases e) (simp_all add: reply_for_def detail_def)
  have early: "read_post p = Inr (Inr reply) \<Longrightarrow> reply \<noteq> (200, v)" for reply
    by (auto simp: read_post_def detail_def split: sum.splits list.splits if_splits option.splits)
  show ?thesis
  proof (cases "\<exists>payload actor. read_post p = Inr (Inl payload) \<and> po_finish p = Inr () \<and> po_after p = Inr actor")
    case False
    with assms no200 early show ?thesis
      by (auto simp: do_post_def serve_post_def split: sum.splits)
  next
    case True
    then obtain payload actor where p: "read_post p = Inr (Inl payload)" "po_finish p = Inr ()" "po_after p = Inr actor" by blast
    with read_post_payload [OF p(1)] have d: "asks_service p actor payload" by (simp add: asks_service_def)
    obtain r0 s0 where run: "po_dispatch p actor (po_path p) payload s = (r0, s0)" by force
    have "s0 = s' \<and> (r = Inr (200, v) \<longrightarrow> r0 = Inr v)"
      using assms p run no200
      by (cases r0) (auto simp: do_post_def serve_post_def answered_def split: sum.splits if_splits)
    with d run show ?thesis by blast
  qed
qed

end
