(* ===== verification/Boundary.thy ===== *)
theory Boundary
  imports Mtls
begin

text \<open>
  \<open>BoundaryServer\<close> of \<open>mtls.py\<close>: the connections it has accepted, how far the thread of each has
  come, and what it holds of the bounded resources. A step is one region under the rate lock or one
  operation on a semaphore, so the steps of the connections may come in any order.
\<close>

section \<open>The state\<close>

text \<open>The key of a peer is its subject and credential.\<close>

type_synonym peer_key = "string \<times> string option"

text \<open>
  A connection takes a slot (\<open>Slotted\<close>), is recorded among the sessions (\<open>Accepted\<close>), spends the
  handshake rate of its address (\<open>Budgeted\<close>), holds a handshake slot (\<open>Handshaking\<close>), has given it
  back (\<open>Identified\<close>), and is served. On any exit the \<open>finally\<close> block first forgets the session
  (\<open>Closing\<close> before, \<open>Released\<close> after), then releases the slot.
\<close>

datatype phase =
    Slotted
  | Accepted string
  | Budgeted
  | Handshaking
  | Identified
  | Serving peer_key
  | Closing
  | Released

type_synonym 'k rates = "('k \<times> (rat \<times> nat)) list"

record server_limits =
  lm_seconds :: rat
  lm_connections :: nat
  lm_peer :: nat

definition valid_server :: "server_limits \<Rightarrow> bool" where
  "valid_server l \<longleftrightarrow>
     0 < lm_seconds l \<and> lm_seconds l \<le> 5 \<and> 1 \<le> lm_peer l \<and> lm_peer l < lm_connections l \<and> lm_connections l \<le> 64"

definition max_handshakes :: "server_limits \<Rightarrow> nat" where
  "max_handshakes l = min 4 (lm_connections l)"

record boundary =
  bs_slots :: nat
  bs_handshakes :: nat
  bs_rates :: "peer_key rates"
  bs_handshake_rates :: "string rates"
  bs_peers :: "(peer_key \<times> nat) list"
  bs_sessions :: "(nat \<times> phase) list"

definition new_server :: "server_limits \<Rightarrow> boundary result" where
  "new_server l =
     (if \<not> valid_server l then Inl (ValueError ''invalid bounded ingress configuration'')
      else Inr \<lparr>bs_slots = 0, bs_handshakes = 0, bs_rates = [], bs_handshake_rates = [], bs_peers = [], bs_sessions = []\<rparr>)"

section \<open>Rates\<close>

text \<open>\<open>_budget\<close>: a window of a minute per key, at most 1024 keys.\<close>

definition live_rates :: "rat \<Rightarrow> 'k rates \<Rightarrow> 'k rates" where
  "live_rates now rates = filter (\<lambda>(k, start, n). now - 60 < start) rates"

definition spend_rate :: "rat \<Rightarrow> 'k \<Rightarrow> nat \<Rightarrow> 'k rates \<Rightarrow> bool \<times> 'k rates" where
  "spend_rate now key limit rates =
     (let rates = live_rates now rates in
      if \<not> dict_has rates key \<and> 1024 \<le> length rates then (False, rates)
      else case (case map_of rates key of None \<Rightarrow> (now, 0) | Some v \<Rightarrow> v) of
        (start, n) \<Rightarrow> (n < limit, AList.update key (start, n + 1) rates))"

section \<open>Connections\<close>

definition move :: "nat \<Rightarrow> phase \<Rightarrow> boundary \<Rightarrow> boundary" where
  "move i ph s = s\<lparr>bs_sessions := AList.update i ph (bs_sessions s)\<rparr>"

definition accept_connection :: "server_limits \<Rightarrow> nat \<Rightarrow> boundary \<Rightarrow> boundary" where
  "accept_connection l i s =
     (if lm_connections l \<le> bs_slots s then s else move i Slotted (s\<lparr>bs_slots := bs_slots s + 1\<rparr>))"

definition start_connection :: "rat \<Rightarrow> nat \<Rightarrow> string \<Rightarrow> boundary \<Rightarrow> boundary" where
  "start_connection now i address s =
     (case spend_rate now address 120 (bs_handshake_rates s) of
        (granted, rates) \<Rightarrow> move i (if granted then Budgeted else Closing) (s\<lparr>bs_handshake_rates := rates\<rparr>))"

definition begin_handshake :: "server_limits \<Rightarrow> nat \<Rightarrow> boundary \<Rightarrow> boundary" where
  "begin_handshake l i s =
     (if max_handshakes l \<le> bs_handshakes s then move i Closing s
      else move i Handshaking (s\<lparr>bs_handshakes := bs_handshakes s + 1\<rparr>))"

text \<open>The handshake slot is released after a handshake that succeeded, or in the \<open>finally\<close> block of
  one that failed or whose deadline had passed.\<close>

definition end_handshake :: "nat \<Rightarrow> bool \<Rightarrow> boundary \<Rightarrow> boundary" where
  "end_handshake i succeeded s =
     move i (if succeeded then Identified else Closing) (s\<lparr>bs_handshakes := bs_handshakes s - 1\<rparr>)"

definition peer_count :: "(peer_key \<times> nat) list \<Rightarrow> peer_key \<Rightarrow> nat" where
  "peer_count peers key = (case map_of peers key of None \<Rightarrow> 0 | Some n \<Rightarrow> n)"

text \<open>The identity was resolved; the peer is admitted or turned away.\<close>

definition admit_peer :: "server_limits \<Rightarrow> rat \<Rightarrow> nat \<Rightarrow> actor result \<Rightarrow> boundary \<Rightarrow> boundary" where
  "admit_peer l now i identity s =
     (case identity of
        Inl e \<Rightarrow> move i Closing s
      | Inr a \<Rightarrow>
          let key = (ac_subject a, ac_key a) in
          if lm_peer l \<le> peer_count (bs_peers s) key then move i Closing s
          else (case spend_rate now key 120 (bs_rates s) of
             (granted, rates) \<Rightarrow>
               let s = s\<lparr>bs_rates := rates\<rparr> in
               if \<not> granted then move i Closing s
               else move i (Serving key)
                      (s\<lparr>bs_peers := AList.update key (peer_count (bs_peers s) key + 1) (bs_peers s)\<rparr>)))"

text \<open>The locked part of the \<open>finally\<close> block: the session is forgotten and the peer counted out.\<close>

definition end_service :: "nat \<Rightarrow> peer_key \<Rightarrow> boundary \<Rightarrow> boundary" where
  "end_service i key s =
     (let n = peer_count (bs_peers s) key - 1 in
      move i Released
        (s\<lparr>bs_peers := (if n = 0 then AList.delete key (bs_peers s) else AList.update key n (bs_peers s))\<rparr>))"

definition release_slot :: "nat \<Rightarrow> boundary \<Rightarrow> boundary" where
  "release_slot i s = s\<lparr>bs_slots := bs_slots s - 1, bs_sessions := AList.delete i (bs_sessions s)\<rparr>"

text \<open>The steps of the threads: a connection is new when its number is. \<open>abandons\<close> is the accepting
  thread when it cannot start the thread of the connection.\<close>

inductive boundary_step :: "server_limits \<Rightarrow> boundary \<Rightarrow> boundary \<Rightarrow> bool" for l :: server_limits where
  accepts: "map_of (bs_sessions s) i = None \<Longrightarrow> boundary_step l s (accept_connection l i s)"
| records: "map_of (bs_sessions s) i = Some Slotted \<Longrightarrow> boundary_step l s (move i (Accepted address) s)"
| abandons: "map_of (bs_sessions s) i = Some (Accepted address) \<Longrightarrow> boundary_step l s (move i Released s)"
| starts: "map_of (bs_sessions s) i = Some (Accepted address) \<Longrightarrow> boundary_step l s (start_connection now i address s)"
| handshakes: "map_of (bs_sessions s) i = Some Budgeted \<Longrightarrow> boundary_step l s (begin_handshake l i s)"
| shaken: "map_of (bs_sessions s) i = Some Handshaking \<Longrightarrow> boundary_step l s (end_handshake i succeeded s)"
| admits: "map_of (bs_sessions s) i = Some Identified \<Longrightarrow> boundary_step l s (admit_peer l now i identity s)"
| ends: "map_of (bs_sessions s) i = Some (Serving key) \<Longrightarrow> boundary_step l s (end_service i key s)"
| forgets: "map_of (bs_sessions s) i = Some Closing \<Longrightarrow> boundary_step l s (move i Released s)"
| releases: "map_of (bs_sessions s) i = Some Released \<Longrightarrow> boundary_step l s (release_slot i s)"

inductive_cases boundary_stepE: "boundary_step l s t"

section \<open>The resources are accounted for\<close>

fun handshaking :: "phase \<Rightarrow> bool" where
  "handshaking Handshaking = True"
| "handshaking _ = False"

definition count_phase :: "(phase \<Rightarrow> bool) \<Rightarrow> (nat \<times> phase) list \<Rightarrow> nat" where
  "count_phase P ps = length (filter (P \<circ> snd) ps)"

definition boundary_inv :: "server_limits \<Rightarrow> boundary \<Rightarrow> bool" where
  "boundary_inv l s \<longleftrightarrow>
     distinct (map fst (bs_sessions s))
     \<and> bs_slots s = length (bs_sessions s) \<and> bs_slots s \<le> lm_connections l
     \<and> bs_handshakes s = count_phase handshaking (bs_sessions s) \<and> bs_handshakes s \<le> max_handshakes l
     \<and> (\<forall>key. peer_count (bs_peers s) key = count_phase ((=) (Serving key)) (bs_sessions s))
     \<and> (\<forall>key. count_phase ((=) (Serving key)) (bs_sessions s) \<le> lm_peer l)
     \<and> distinct (map fst (bs_peers s)) \<and> 0 \<notin> snd ` set (bs_peers s)
     \<and> length (bs_rates s) \<le> 1024 \<and> length (bs_handshake_rates s) \<le> 1024"

lemma count_update_new:
  "map_of ps i = None \<Longrightarrow> count_phase P (AList.update i x ps) = count_phase P ps + (if P x then 1 else 0)"
  by (induction ps) (auto simp: count_phase_def split: if_splits)

lemma count_update_old:
  "map_of ps i = Some y \<Longrightarrow> distinct (map fst ps) \<Longrightarrow>
   count_phase P (AList.update i x ps) + (if P y then 1 else 0) = count_phase P ps + (if P x then 1 else 0)"
  by (induction ps) (auto simp: count_phase_def split: if_splits)

lemma count_delete:
  "map_of ps i = Some y \<Longrightarrow> distinct (map fst ps) \<Longrightarrow>
   count_phase P (AList.delete i ps) + (if P y then 1 else 0) = count_phase P ps"
proof (induction ps)
  case (Cons kv ps)
  show ?case
  proof (cases "fst kv = i")
    case True
    with Cons.prems have "map_of ps i = None" by (auto simp: map_of_eq_None_iff)
    then have "AList.delete i ps = ps" by (simp add: delete_id map_of_eq_None_iff)
    with True Cons.prems show ?thesis by (cases kv) (auto simp: count_phase_def)
  next
    case False
    with Cons show ?thesis by (cases kv) (auto simp: count_phase_def)
  qed
qed simp

lemma length_count: "length ps = count_phase (\<lambda>_. True) ps"
  by (simp add: count_phase_def comp_def)

lemma update_keys: "distinct (map fst ps) \<Longrightarrow> distinct (map fst (AList.update i x ps))"
  by (rule distinct_update)

lemma live_rates_length: "length (live_rates now rates) \<le> length rates"
  by (simp add: live_rates_def)

lemma alist_update_length: "length (AList.update k v xs) = (if map_of xs k = None then length xs + 1 else length xs)"
  by (induction xs) auto

lemma spend_rate_length: "spend_rate now key limit rates = (g, rates') \<Longrightarrow> length rates \<le> 1024 \<Longrightarrow> length rates' \<le> 1024"
  using live_rates_length [of now rates]
  by (auto simp: spend_rate_def Let_def alist_update_length dict_has_map_of split: if_splits prod.splits option.splits)

section \<open>Every step keeps the account\<close>

lemma boundary_invE:
  assumes "boundary_inv l s"
  obtains "distinct (map fst (bs_sessions s))" "bs_slots s = length (bs_sessions s)" "bs_slots s \<le> lm_connections l"
    "bs_handshakes s = count_phase handshaking (bs_sessions s)" "bs_handshakes s \<le> max_handshakes l"
    "\<And>key. peer_count (bs_peers s) key = count_phase ((=) (Serving key)) (bs_sessions s)"
    "\<And>key. count_phase ((=) (Serving key)) (bs_sessions s) \<le> lm_peer l"
    "distinct (map fst (bs_peers s))" "0 \<notin> snd ` set (bs_peers s)"
    "length (bs_rates s) \<le> 1024" "length (bs_handshake_rates s) \<le> 1024"
  using assms unfolding boundary_inv_def by blast

lemma phase_present: "map_of ps i = Some ph \<Longrightarrow> P ph \<Longrightarrow> 1 \<le> count_phase P ps"
  by (induction ps) (auto simp: count_phase_def split: if_splits)

text \<open>A thread goes on: the counters change by what its old and new phase hold.\<close>

lemma move_inv:
  assumes i: "map_of (bs_sessions s) i = Some old" and inv: "boundary_inv l s"
    and h: "bs_handshakes t + (if handshaking old then 1 else 0) = bs_handshakes s + (if handshaking new then 1 else 0)"
      "bs_handshakes t \<le> max_handshakes l"
    and p: "\<And>k. peer_count (bs_peers t) k + (if Serving k = old then 1 else 0)
        = peer_count (bs_peers s) k + (if Serving k = new then 1 else 0)"
      "\<And>k. peer_count (bs_peers t) k \<le> lm_peer l"
      "distinct (map fst (bs_peers t))" "0 \<notin> snd ` set (bs_peers t)"
    and same: "bs_sessions t = bs_sessions s" "bs_slots t = bs_slots s"
    and r: "length (bs_rates t) \<le> 1024" "length (bs_handshake_rates t) \<le> 1024"
  shows "boundary_inv l (move i new t)"
proof -
  have d: "distinct (map fst (bs_sessions s))" using inv by (rule boundary_invE)
  note c = count_update_old [OF i d, of _ new]
  have "length (AList.update i new (bs_sessions s)) = length (bs_sessions s)"
    using i by (simp add: alist_update_length)
  moreover have "count_phase handshaking (AList.update i new (bs_sessions s)) = bs_handshakes t"
    using c [of handshaking] h(1) inv by (elim boundary_invE) auto
  moreover have peers: "count_phase ((=) (Serving k)) (AList.update i new (bs_sessions s)) = peer_count (bs_peers t) k" for k
    using c [of "(=) (Serving k)"] p(1) [of k] inv by (elim boundary_invE) auto
  moreover have "bs_slots s = length (bs_sessions s)" "bs_slots s \<le> lm_connections l" using inv by (auto elim: boundary_invE)
  ultimately show ?thesis
    using d h(2) p(2-) r by (simp add: boundary_inv_def move_def same distinct_update)
qed

text \<open>A phase that holds nothing may follow another such.\<close>

definition holds_nothing :: "phase \<Rightarrow> bool" where
  "holds_nothing ph \<longleftrightarrow> \<not> handshaking ph \<and> (\<forall>k. ph \<noteq> Serving k)"

lemma peers_ok:
  "boundary_inv l s \<Longrightarrow> peer_count (bs_peers s) k \<le> lm_peer l \<and> distinct (map fst (bs_peers s))
     \<and> 0 \<notin> snd ` set (bs_peers s)"
  by (erule boundary_invE) simp

lemma peer_count_update: "peer_count (AList.update key n peers) k = (if k = key then n else peer_count peers k)"
  by (simp add: peer_count_def map_of_update)

lemma pass_inv:
  assumes i: "map_of (bs_sessions s) i = Some old" and inv: "boundary_inv l s"
    and holds: "holds_nothing old" "holds_nothing new"
    and r: "length rates \<le> 1024" "length rates' \<le> 1024"
  shows "boundary_inv l (move i new (s\<lparr>bs_rates := rates, bs_handshake_rates := rates'\<rparr>))"
proof (rule move_inv [OF i inv])
  show "bs_handshakes (s\<lparr>bs_rates := rates, bs_handshake_rates := rates'\<rparr>) \<le> max_handshakes l"
    using inv by (auto elim: boundary_invE)
qed (use holds r peers_ok [OF inv] in \<open>auto simp: holds_nothing_def\<close>)

lemma rates_ok: "boundary_inv l s \<Longrightarrow> length (bs_rates s) \<le> 1024 \<and> length (bs_handshake_rates s) \<le> 1024"
  by (simp add: boundary_inv_def)

lemma step_on_inv:
  assumes "map_of (bs_sessions s) i = Some old" and "boundary_inv l s" and "holds_nothing old" "holds_nothing new"
  shows "boundary_inv l (move i new s)"
  using pass_inv [OF assms, of "bs_rates s" "bs_handshake_rates s"] rates_ok [OF assms(2)] by simp

lemma accept_inv: "map_of (bs_sessions s) i = None \<Longrightarrow> boundary_inv l s \<Longrightarrow> boundary_inv l (accept_connection l i s)"
  using count_update_new [of "bs_sessions s" i]
  by (auto simp: accept_connection_def move_def boundary_inv_def alist_update_length distinct_update)

lemma start_inv:
  assumes i: "map_of (bs_sessions s) i = Some (Accepted address)" and inv: "boundary_inv l s"
  shows "boundary_inv l (start_connection now i address s)"
proof -
  obtain g rates where r: "spend_rate now address 120 (bs_handshake_rates s) = (g, rates)" by force
  have "length rates \<le> 1024" using spend_rate_length [OF r] rates_ok [OF inv] by simp
  with pass_inv [OF i inv, of "if g then Budgeted else Closing" "bs_rates s" rates] rates_ok [OF inv]
  show ?thesis by (simp add: start_connection_def r holds_nothing_def)
qed

lemma handshake_inv:
  assumes i: "map_of (bs_sessions s) i = Some Budgeted" and inv: "boundary_inv l s"
  shows "boundary_inv l (begin_handshake l i s)"
proof (cases "bs_handshakes s < max_handshakes l")
  case True
  then have "boundary_inv l (move i Handshaking (s\<lparr>bs_handshakes := bs_handshakes s + 1\<rparr>))"
    using peers_ok [OF inv] rates_ok [OF inv] by (intro move_inv [OF i inv]) simp_all
  with True show ?thesis by (simp add: begin_handshake_def)
next
  case False
  with step_on_inv [OF i inv, of Closing] show ?thesis by (simp add: begin_handshake_def holds_nothing_def)
qed

lemma shaken_inv:
  assumes i: "map_of (bs_sessions s) i = Some Handshaking" and inv: "boundary_inv l s"
  shows "boundary_inv l (end_handshake i succeeded s)"
  unfolding end_handshake_def
proof (rule move_inv [OF i inv])
  have "1 \<le> count_phase handshaking (bs_sessions s)" by (rule phase_present [OF i]) simp
  moreover have "bs_handshakes s = count_phase handshaking (bs_sessions s)" "bs_handshakes s \<le> max_handshakes l"
    using inv by (auto elim: boundary_invE)
  ultimately show "bs_handshakes (s\<lparr>bs_handshakes := bs_handshakes s - 1\<rparr>) + (if handshaking Handshaking then 1 else 0)
      = bs_handshakes s + (if handshaking (if succeeded then Identified else Closing) then 1 else 0)"
    "bs_handshakes (s\<lparr>bs_handshakes := bs_handshakes s - 1\<rparr>) \<le> max_handshakes l" by simp_all
qed (use peers_ok [OF inv] rates_ok [OF inv] in simp_all)

lemma update_values: "0 \<notin> snd ` set ps \<Longrightarrow> v \<noteq> (0::nat) \<Longrightarrow> 0 \<notin> snd ` set (AList.update k v ps)"
  by (induction ps) auto

lemma end_inv:
  assumes i: "map_of (bs_sessions s) i = Some (Serving key)" and inv: "boundary_inv l s"
  shows "boundary_inv l (end_service i key s)"
proof -
  note old = peers_ok [OF inv]
  have n: "peer_count (bs_peers s) key = count_phase ((=) (Serving key)) (bs_sessions s)" using inv by (rule boundary_invE)
  have pos: "1 \<le> peer_count (bs_peers s) key" unfolding n by (rule phase_present [OF i]) simp
  define peers where "peers = (if peer_count (bs_peers s) key - 1 = 0 then AList.delete key (bs_peers s)
      else AList.update key (peer_count (bs_peers s) key - 1) (bs_peers s))"
  have count: "peer_count peers k + (if k = key then 1 else 0) = peer_count (bs_peers s) k" for k
    using pos by (auto simp: peers_def peer_count_def delete_conv' map_of_update)
  have dist: "distinct (map fst peers)"
    using old by (simp add: peers_def distinct_delete distinct_update)
  have "set (AList.delete key (bs_peers s)) \<subseteq> set (bs_peers s)" by (auto simp: AList.delete_eq)
  then have "0 \<notin> snd ` set peers"
    using old update_values [of "bs_peers s" "peer_count (bs_peers s) key - 1" key]
    unfolding peers_def by (cases "peer_count (bs_peers s) key - 1 = 0") (simp_all, blast)
  moreover have "peer_count peers k \<le> lm_peer l" for k
    using count [of k] old by (metis le_add1 le_trans)
  moreover have "end_service i key s = move i Released (s\<lparr>bs_peers := peers\<rparr>)"
    by (simp add: end_service_def peers_def Let_def)
  moreover have "bs_handshakes s \<le> max_handshakes l" using inv by (rule boundary_invE)
  ultimately show ?thesis
    using count dist rates_ok [OF inv] by (auto intro!: move_inv [OF i inv])
qed

lemma admit_inv:
  assumes i: "map_of (bs_sessions s) i = Some Identified" and inv: "boundary_inv l s"
  shows "boundary_inv l (admit_peer l now i identity s)"
proof -
  have shut: "boundary_inv l (move i Closing (s\<lparr>bs_rates := rates\<rparr>))" if "length rates \<le> 1024" for rates
    using pass_inv [OF i inv, of Closing rates "bs_handshake_rates s"] rates_ok [OF inv] that
    by (simp add: holds_nothing_def)
  have shut0: "boundary_inv l (move i Closing s)" by (rule step_on_inv [OF i inv]) (simp_all add: holds_nothing_def)
  show ?thesis
  proof (cases identity)
    case (Inl e)
    with shut0 show ?thesis by (simp add: admit_peer_def)
  next
    case (Inr a)
    define key where "key = (ac_subject a, ac_key a)"
    obtain g rates where r: "spend_rate now key 120 (bs_rates s) = (g, rates)" by force
    have lr: "length rates \<le> 1024" using spend_rate_length [OF r] rates_ok [OF inv] by simp
    show ?thesis
    proof (cases "peer_count (bs_peers s) key < lm_peer l \<and> g")
      case False
      with Inr shut0 shut [OF lr] r show ?thesis
        by (auto simp: admit_peer_def Let_def simp flip: key_def)
    next
      case True
      let ?peers = "AList.update key (peer_count (bs_peers s) key + 1) (bs_peers s)"
      have e: "admit_peer l now i identity s = move i (Serving key) (s\<lparr>bs_rates := rates, bs_peers := ?peers\<rparr>)"
        using True Inr r by (simp add: admit_peer_def Let_def flip: key_def)
      have "bs_handshakes s \<le> max_handshakes l" using inv by (rule boundary_invE)
      then show ?thesis
        unfolding e using True peers_ok [OF inv] rates_ok [OF inv] lr
        by (intro move_inv [OF i inv]) (auto simp: peer_count_update distinct_update update_values)
    qed
  qed
qed

lemma release_inv:
  assumes i: "map_of (bs_sessions s) i = Some Released" and inv: "boundary_inv l s"
  shows "boundary_inv l (release_slot i s)"
proof -
  have d: "distinct (map fst (bs_sessions s))" using inv by (rule boundary_invE)
  note c = count_delete [OF i d]
  have "length (AList.delete i (bs_sessions s)) + 1 = length (bs_sessions s)"
    using c [of "\<lambda>_. True"] by (simp add: length_count)
  moreover have "count_phase handshaking (AList.delete i (bs_sessions s)) = count_phase handshaking (bs_sessions s)"
    using c [of handshaking] by simp
  moreover have "count_phase ((=) (Serving key)) (AList.delete i (bs_sessions s)) = count_phase ((=) (Serving key)) (bs_sessions s)" for key
    using c [of "(=) (Serving key)"] by simp
  ultimately show ?thesis
    using inv by (auto simp: boundary_inv_def release_slot_def distinct_delete)
qed

interpretation boundary: stepper "boundary_step l" "boundary_inv l" for l
proof unfold_locales
  show "boundary_step l s t \<Longrightarrow> boundary_inv l s \<Longrightarrow> boundary_inv l t" for s t
    by (elim boundary_stepE) (auto intro: accept_inv step_on_inv start_inv handshake_inv shaken_inv admit_inv end_inv release_inv
        simp: holds_nothing_def)
qed

lemma new_server_inv: "new_server l = Inr s \<Longrightarrow> boundary_inv l s"
  by (auto simp: new_server_def boundary_inv_def count_phase_def peer_count_def split: if_splits)

lemma idle_holds_nothing:
  assumes inv: "boundary_inv l s" and none: "bs_sessions s = []"
  shows "bs_peers s = []"
proof (rule ccontr)
  assume "bs_peers s \<noteq> []"
  then obtain key n ps where ps: "bs_peers s = (key, n) # ps" by (cases "bs_peers s") auto
  have "peer_count (bs_peers s) key = count_phase ((=) (Serving key)) (bs_sessions s)" "0 \<notin> snd ` set (bs_peers s)"
    using inv by (rule boundary_invE, blast)+
  then show False by (simp add: ps none peer_count_def count_phase_def)
qed

end
