(* ===== verification/BoundarySamples.thy ===== *)
theory BoundarySamples
  imports Boundary
begin

text \<open>One connection carried to its service, and one POST.\<close>

definition boundary_limits :: server_limits where
  "boundary_limits = \<lparr>lm_seconds = 5, lm_connections = 2, lm_peer = 1\<rparr>"

definition idle_server :: boundary where
  "idle_server = \<lparr>bs_slots = 0, bs_handshakes = 0, bs_rates = [], bs_handshake_rates = [], bs_peers = [], bs_sessions = []\<rparr>"

definition peer_actor :: actor where
  "peer_actor = \<lparr>ac_subject = ''a'', ac_roles = [AGENT], ac_key = None, ac_tenants = [''t''], ac_operations = None\<rparr>"

definition served_peer :: boundary where
  "served_peer = \<lparr>bs_slots = 1, bs_handshakes = 0, bs_rates = [((''a'', None), 0, 1)], bs_handshake_rates = [(''h'', 0, 1)],
     bs_peers = [((''a'', None), 1)], bs_sessions = [(0, Serving (''a'', None))]\<rparr>"

lemma boundary_starts: "new_server boundary_limits = Inr idle_server"
  by (simp add: new_server_def valid_server_def boundary_limits_def idle_server_def)

lemmas boundary_samples = boundary_limits_def idle_server_def served_peer_def peer_actor_def move_def
  accept_connection_def start_connection_def begin_handshake_def end_handshake_def admit_peer_def
  spend_rate_def live_rates_def dict_has_def max_handshakes_def peer_count_def Let_def

lemma serves_peer: "reached (boundary_step boundary_limits) idle_server served_peer"
proof -
  define s1 where "s1 = idle_server\<lparr>bs_slots := 1, bs_sessions := [(0, Slotted)]\<rparr>"
  define s2 where "s2 = s1\<lparr>bs_sessions := [(0, Accepted ''h'')]\<rparr>"
  define s3 where "s3 = s2\<lparr>bs_handshake_rates := [(''h'', 0, 1)], bs_sessions := [(0, Budgeted)]\<rparr>"
  define s4 where "s4 = s3\<lparr>bs_handshakes := 1, bs_sessions := [(0, Handshaking)]\<rparr>"
  define s5 where "s5 = s4\<lparr>bs_handshakes := 0, bs_sessions := [(0, Identified)]\<rparr>"
  note states = s1_def s2_def s3_def s4_def s5_def
  have e1: "accept_connection boundary_limits 0 idle_server = s1" by (simp add: states boundary_samples)
  have e2: "move 0 (Accepted ''h'') s1 = s2" by (simp add: states boundary_samples)
  have e3: "start_connection 0 0 ''h'' s2 = s3" by (simp add: states boundary_samples)
  have e4: "begin_handshake boundary_limits 0 s3 = s4" by (simp add: states boundary_samples)
  have e5: "end_handshake 0 True s4 = s5" by (simp add: states boundary_samples)
  have e6: "admit_peer boundary_limits 0 0 (Inr peer_actor) s5 = served_peer" by (simp add: states boundary_samples)
  have p: "map_of (bs_sessions idle_server) 0 = None" "map_of (bs_sessions s1) 0 = Some Slotted"
    "map_of (bs_sessions s2) 0 = Some (Accepted ''h'')" "map_of (bs_sessions s3) 0 = Some Budgeted"
    "map_of (bs_sessions s4) 0 = Some Handshaking" "map_of (bs_sessions s5) 0 = Some Identified"
    by (simp_all add: states idle_server_def)
  have t1: "boundary_step boundary_limits idle_server s1" by (rule accepts [OF p(1), of boundary_limits, unfolded e1])
  have t2: "boundary_step boundary_limits s1 s2" by (rule records [OF p(2), of boundary_limits "''h''", unfolded e2])
  have t3: "boundary_step boundary_limits s2 s3" by (rule starts [OF p(3), of boundary_limits 0, unfolded e3])
  have t4: "boundary_step boundary_limits s3 s4" by (rule handshakes [OF p(4), of boundary_limits, unfolded e4])
  have t5: "boundary_step boundary_limits s4 s5" by (rule shaken [OF p(5), of boundary_limits True, unfolded e5])
  have t6: "boundary_step boundary_limits s5 served_peer"
    by (rule admits [OF p(6), of boundary_limits 0 "Inr peer_actor", unfolded e6])
  note one = reached_one [where step = "boundary_step boundary_limits"]
    and go = reached_step [where step = "boundary_step boundary_limits"]
  show ?thesis by (rule go [OF go [OF go [OF go [OF go [OF one [OF t1] t2] t3] t4] t5] t6])
qed

text \<open>A service that counts the requests it answers.\<close>

definition demo_post :: "nat post" where
  "demo_post = \<lparr>po_before = Inr peer_actor, po_lengths = [''2''], po_chunked = False, po_read = (\<lambda>_. Inr ''{}''), po_finish = Inr (),
     po_after = Inr peer_actor, po_path = ''/p'', po_dispatch = (\<lambda>a path v n. (Inr (JList []), n + 1))\<rparr>"

lemma empty_object: "json_nodes (JObj []) = 1" "json_depth (JObj []) = 0" "dumps (JObj []) = Some ''{}''" "dumps (JList []) = Some ''[]''"
  by code_simp+

lemma demo_post_runs: "do_post demo_post 0 = (Inr (200, JList []), 1)"
proof -
  have "validate_json (JObj []) 1048576 16384 32 = Inr ()"
    by (simp add: validate_json_iff empty_object del: dumps.simps)
  moreover have "json_loads ''{}'' = Some (JObj [])" by code_simp
  moreover have "announced_length ''2'' = Inr 2" "header_digits ''2''" by code_simp+
  ultimately show ?thesis
    by (simp add: do_post_def serve_post_def read_post_def demo_post_def answered_def empty_object)
qed

end
