(* ===== verification/Spec2Isabelle.thy ===== *)
theory Spec2Isabelle
  imports Samples Divergences LlmSamples StoreSamples SandboxSamples ToolSamples Monitor BoundarySamples
begin

text \<open>
  Verification of TraceGuard, a mediator between an agent and the tools it calls.

  The program. An embedding application builds a \<open>GuardedExecution\<close> (src/src/traceguard/_enforcement.py)
  from a strict task grant, a policy and tools. Each call is judged against the grant
  (policy/kernel.py, policy/authorization.py), the deterministic policy (policy/engine.py) and the
  supervisors, whose outputs are merged (supervisor/contracts.py); a call that passes is reserved
  in the ledger (ledger.py) before its effect leaves, and finished there after. The control plane
  (control/service.py) keeps the policies of tenants, decides actions against the active one, keeps
  reviews and an audit chain, and issues signed grants (control/execution.py) that a separate
  executor (executor.py) validates online, reserves in its own ledger and dispatches. The state of
  the control plane is a signed snapshot in one database row (control/storage.py), and its HTTP
  interface is behind an admission gate (control/admission.py).

  The theories, in the order they build on each other.
  Prelude: results (\<open>exn + 'a\<close>), operations that return their result with the state after it,
    dictionaries in insertion order, decimal text, the generic locales \<open>stepper\<close>,
    \<open>monotone_stepper\<close> and \<open>ranked_choice\<close>, and \<open>reached\<close>.
  PyJson, JsonText: JSON values as Python holds them, \<open>json.dumps\<close>, canonical forms,
    \<open>json.loads\<close>. JsonLimits: limits.py. PyRegex: the regular expressions the code uses,
    with Python's leftmost, ordered-choice search.
  Types, Effects, Scope, Authority, Intent, Kernel, StrictSpec: types.py, policy/effects.py,
    policy/read_resources.py, policy/kernel.py, policy/authorization.py, with the declarative
    specification \<open>strictly_authorised\<close> the chain of guards is equivalent to.
  PolicyEngine, PolicyFacts: policy/engine.py and its packaged configuration.
  Supervision, Redaction, RedactionFacts: supervisor/base.py, supervisor/contracts.py,
    supervisor/redaction.py. JsonRead: reading typed values out of decoded JSON.
  LlmTransport, LlmProvider, LlmSupervisor, LlmSafety, LlmSamples: supervisor/llm.py, from the
    outcome of a request over the retry loop and the two providers to the runtime supervisor; the
    locale \<open>supervisor_provider\<close> is the contract both providers meet.
  Ledger, LedgerSafety: ledger.py, each SQL statement written out on row lists; invariant,
    monotonicity, budget.
  Enforcement, EnforcementSafety: _enforcement.py, every branch of \<open>execute\<close>.
  Network, ControlModels, Matching: policy/network.py, control/models.py, policy/matching.py.
  ControlPlane, Grants: control/service.py and control/execution.py over one \<open>control_state\<close>,
    which has a field for each attribute of the Python object.
  AuditChain, ControlSafety, ControlFacts: the chain verifies and determines its history; the
    invariant \<open>control_inv\<close>, the order \<open>control_le\<close> and the step relation
    \<open>control_step\<close> of all operations; what each operation decides.
  Executor, ExecutorSafety: executor.py over the ledger of Ledger.
  Storage, Transactions: the snapshot format of control/storage.py with its reader, and the
    transaction, quota, rotation and backup around the operations.
  Admission: control/admission.py. Divergences: behaviours that contradict the code's intent.
  Filesystem, FilesystemFacts: tools/filesystem.py over a tree of inodes; what a read, a write and
    a copy may touch. ReleaseGate, ArtifactStore: release_gate.py. ArtifactFacts, ReleaseReports,
    StoreSamples: where each operation of the store writes, what it publishes and reports, with one
    store carried through a release.
  Doubles: Python floats as rationals rounded to a double, with infinities and NaN, and ints mixed
    with them. Calculator, Tools, ToolFacts, ToolSamples:
    tools/registry.py, its calculator over parsed expressions, the registry and the five tools over
    the tree of the host. SandboxConfig, Monitor, Sandbox, SandboxSafety, SandboxSamples:
    sandbox/config.py and the container runner of sandbox/runner.py over the commands it and its
    monitor threads issue; Drain: its bounded read of two pipes. Sdk: sdk.py, the policy cache and
    the client.
  Mtls, Boundary, BoundarySamples: mtls.py, the pinned client, the handler of a POST, and the server's
    connections with the slots, rates and peers they hold, one step per locked region or semaphore.
  Samples: the concrete inputs the properties are applied to.

  What the lemmas show. Equivalence of the guard chains with declarative specifications; that
  merging never weakens a decision; invariants of the ledger, the control plane, the executor and
  the gate over every sequence of operations (each an interpretation of \<open>stepper\<close> or
  \<open>monotone_stepper\<close>); that effects and grants are used at most once; that the audit trail is
  tamper evident up to a collision of the digest between two of its own events; that a transaction is atomic and durable; that
  snapshots are read back.

  Conventions. Strings are ASCII, so characters, code points and bytes agree. Instants are
  integers of microseconds; the clock, \<open>uuid4\<close> and other draws are arguments (\<open>draws\<close>).
  SHA-256, Ed25519 signatures, JSON-schema validation, the fingerprint of a grant and the text of
  an instant are fields of \<open>world\<close> or \<open>guard_env\<close>, since their code is a library's; what a
  theorem needs of them is a hypothesis (a signature verifies, an instant is read back), shown to
  be satisfiable by its witness. Tools, the sandbox, LLM supervisors, the adapter, the provider and
  the online check are parameters; so is a provider in \<open>llm_evaluate\<close>, for which
  \<open>backend_evaluate\<close> gives the two the code has. One transaction reads the clock once. A float in a
  JSON value is the decimal of its \<open>repr\<close>; where the code adds, compares or evaluates floats (payments
  in the authority check, the calculator, the monitor) the model rounds as the machine does, with
  Python 3.11's \<open>sum\<close>, the version of the release and security workflows (3.12 compensates between
  floats). The ledger's decimals are exact (the code's context keeps 28 digits). An int too large for
  a float raises where it meets one; the authority check shows that raise as a refusal.
  The command line of Docker answers each command as a function of the commands before it, and the
  monitor threads take their steps where a schedule, a parameter as well, puts them; the
  selector's events and the clock of \<open>Drain\<close> are functions of the turn, and its loop is a
  \<open>partial_function\<close> whose end is proved from the clock.
  Fuel: \<open>steps_down\<close> and \<open>steps_up\<close> of Doubles take at most 1100 steps, more than the exponents
  of a double; \<open>replace_from\<close> and the regular expressions run on the length of the text, each turn
  consuming a character, so the length is enough; every other loop is structural or has a measure.
  The file system is the tree of one process: no other process acts between two steps.

  Not modelled. The sign of a negative zero amount; \<open>RecursionError\<close> of \<open>json.loads\<close>; defaults
  that pydantic fills into missing fields when a snapshot of an older version is loaded; key order
  inside stored objects; locks and the mode bits of files. Whole files: control/api.py (routes
  that call one operation), data/sandbox/export.py (runs in the container; its output is untrusted
  input of the runner), release.py, security.py, isolated.py and
  integrations/ (adapters of frameworks), cli.py, isolation and validation scripts.
\<close>


section \<open>The authority check\<close>

text \<open>C1. In strict mode the chain of guards of the authority check accepts a call exactly
  when the call is authorised by the grant: allowed tool, no repeated mutation, every argument
  and delegated field matching, every resource in scope, the earlier payments and this one added
  up in Python's ints and floats within the budget, nothing prohibited disclosed, no sensitive
  path, and every consequential field explicitly granted.\<close>

theorem strict_check_decides:
  assumes "is_strict a"
  shows "check_authority goal call obs a previous = None \<longleftrightarrow> strictly_authorised call obs a previous"
  using assms by (rule check_authority_strict)

theorem strict_check_decides_witness: "strictly_authorised demo_call [] demo_grant []"
proof (rule iffD1[OF strict_check_decides])
  show "is_strict demo_grant" by code_simp
  show "check_authority ''pay'' demo_call [] demo_grant [] = None" by code_simp
qed

text \<open>A compiled grant allows a call exactly when the tool has a schema the arguments
  satisfy, a read binds to its reviewed adapter, and the call so normalised is authorised by the
  grant that was compiled.\<close>

lemma compiled_grant_allows:
  assumes "compile_authority fingerprint a schemas = Inr ca"
  shows "so_decision (evaluate_authority sha schema_ok ca goal call obs previous) = ALLOW \<longleftrightarrow>
    (\<exists>c. judged_call sha schema_ok ca call = Some c \<and> strictly_authorised c obs a previous)"
  using evaluate_allow_iff[OF compile_strict[OF assms]] compile_authority_ok[OF assms] by simp

lemma compiled_grant_allows_witness:
  "\<exists>c. judged_call (\<lambda>_. ''d'') (\<lambda>_ _. True) demo_compiled demo_call = Some c
       \<and> strictly_authorised c [] demo_grant []"
proof (rule iffD1[OF compiled_grant_allows])
  show "compile_authority (\<lambda>_ _. ''g'') demo_grant demo_schemas = Inr demo_compiled" by code_simp
  show "so_decision (evaluate_authority (\<lambda>_. ''d'') (\<lambda>_ _. True) demo_compiled ''pay'' demo_call [] []) = ALLOW"
    by code_simp
qed

text \<open>C2. A grant passes validation exactly when it is well formed: strict, with an allowlist
  that covers every constrained and repeatable tool and names only known schemas, generated
  fields that may be generated, and for every allowed tool no field under two kinds of authority
  and, where its schema lists properties, no granted field outside them.\<close>

theorem grant_validation_decides:
  "validate_authority a schemas = Inr () \<longleftrightarrow> well_formed_grant a schemas"
  by (rule validate_authority_iff)

section \<open>The deterministic policy\<close>

text \<open>C3. A call the deterministic policy allows has passed the authority check and asks for no
  privileged resource; every input it declares, and the path of a file tool, lies below the roots
  of its kind, without parent segments and outside the blocked and sensitive names.\<close>

theorem policy_allow_sound:
  assumes "so_decision (policy_evaluate c a previous task call obs) = ALLOW"
  shows "check_authority task call obs a previous = None \<and>
    list_all (\<lambda>r. casefold r \<notin> set privileged_resources \<and>
      (prefix ''input:'' r \<longrightarrow> confined_path (pc_read_roots c) (removeprefix ''input:'' r)
         \<and> \<not> sensitive_path (removeprefix ''input:'' r) (pc_blocked_segments c))) (tc_resources call) \<and>
    (if tc_tool_name call \<in> {''read_file'', ''write_report''}
     then confined_path (if tc_tool_name call = ''read_file'' then pc_read_roots c else pc_write_roots c)
            (call_path call)
       \<and> \<not> sensitive_path (call_path call) (pc_blocked_segments c)
     else True)"
proof (intro conjI)
  show "check_authority task call obs a previous = None" by (rule policy_allow_authorised[OF assms])
  show "list_all (\<lambda>r. casefold r \<notin> set privileged_resources \<and>
      (prefix ''input:'' r \<longrightarrow> confined_path (pc_read_roots c) (removeprefix ''input:'' r)
         \<and> \<not> sensitive_path (removeprefix ''input:'' r) (pc_blocked_segments c))) (tc_resources call)"
    using policy_allow_resources[OF assms] resource_None_confined unfolding list_all_iff by blast
  show "if tc_tool_name call \<in> {''read_file'', ''write_report''}
     then confined_path (if tc_tool_name call = ''read_file'' then pc_read_roots c else pc_write_roots c)
            (call_path call)
       \<and> \<not> sensitive_path (call_path call) (pc_blocked_segments c)
     else True"
  proof (cases "tc_tool_name call \<in> {''read_file'', ''write_report''}")
    case True
    with policy_continues[of c a previous task call obs] assms
    have "policy_evaluate c a previous task call obs = evaluate_path c a task call" by simp
    with evaluate_path_continues[of c a task call] assms True show ?thesis by simp
  qed simp
qed

theorem policy_allow_sound_witness:
  "check_authority ''read'' demo_read [] demo_read_grant [] = None
   \<and> confined_path [''workspace'', ''inputs'', ''documents''] (call_path demo_read)"
proof -
  have "so_decision (policy_evaluate default_policy demo_read_grant [] ''read'' demo_read []) = ALLOW"
    by code_simp
  moreover have "tc_tool_name demo_read = ''read_file''" by code_simp
  ultimately show ?thesis
    using policy_allow_sound[of default_policy demo_read_grant "[]" "''read''" demo_read "[]"]
    by (simp add: default_policy_def)
qed

text \<open>A command the policy allows is a nonempty argument vector of bounded length with no
  blocked token and no shell operator, depends on no untrusted observation that reads like an
  instruction, and runs in a container profile, or is simulated when its program is benign.\<close>

lemma policy_command_contained:
  assumes "so_decision (policy_evaluate c a previous task call obs) = ALLOW"
    and "tc_tool_name call = ''restricted_command''"
  shows "\<exists>argv. call_argv call = Some argv \<and> argv \<noteq> [] \<and> int (length (join '' '' argv)) \<le> pc_max_command c
    \<and> list_all (\<lambda>w. casefold w \<notin> set (map casefold (pc_blocked_tokens c)) \<and> w \<notin> set (pc_operators c)) argv
    \<and> \<not> list_ex (\<lambda>ob. untrusted (ob_trust ob) \<and> looks_like_instruction (ob_content ob)) obs
    \<and> (so_target (policy_evaluate c a previous task call obs) = Some TargetContainer
       \<or> so_target (policy_evaluate c a previous task call obs) = Some TargetSimulated
         \<and> casefold (hd argv) \<in> set (map casefold (pc_benign_tokens c)))"
proof -
  from policy_continues[of c a previous task call obs] assms
  have eq: "policy_evaluate c a previous task call obs = evaluate_command c call obs"
    by (simp add: evaluate_tool_def)
  with assms have "so_decision (evaluate_command c call obs) = ALLOW" by simp
  then obtain argv where argv: "call_argv call = Some argv" "argv \<noteq> []"
    and ec: "evaluate_command c call obs = evaluate_argv c call obs argv"
    by (rule evaluate_command_argv)
  from assms eq ec have "so_decision (evaluate_argv c call obs argv) = ALLOW" by simp
  from evaluate_argv_allow[OF this] argv show ?thesis
    unfolding eq ec by (auto simp: list_all_iff list_ex_iff)
qed

lemma policy_command_contained_witness:
  "\<exists>argv. call_argv demo_command = Some argv \<and> argv \<noteq> [] \<and> int (length (join '' '' argv)) \<le> 500"
proof -
  have "so_decision (policy_evaluate default_policy demo_command_grant [] ''run'' demo_command []) = ALLOW"
    by code_simp
  moreover have "tc_tool_name demo_command = ''restricted_command''" by code_simp
  ultimately show ?thesis
    using policy_command_contained[of default_policy demo_command_grant "[]" "''run''" demo_command "[]"]
    by (auto simp: default_policy_def)
qed
section \<open>Supervision\<close>

text \<open>C4. The merge of safeguard outputs never weakens one of them: its decision ranks at least
  as high as every decision (BLOCK over ESCALATE over REWRITE over ALLOW), and so does its risk.\<close>

theorem merge_never_weakens:
  assumes "merge_outputs outs = Some m" and "out \<in> set outs"
  shows "precedence (so_decision out) \<le> precedence (so_decision m) \<and> so_risk out \<le> so_risk m"
  using merge_dominates[OF assms] merge_risk[OF assms] by simp

theorem merge_never_weakens_witness:
  "\<exists>m. merge_outputs [demo_block, demo_allow] = Some m \<and> 3 \<le> precedence (so_decision m)"
proof -
  obtain m where m: "merge_outputs [demo_block, demo_allow] = Some m"
    using merge_outputs_None[of "[demo_block, demo_allow]"] by auto
  from merge_never_weakens[OF m, of demo_block] m show ?thesis by (simp add: demo_block_def)
qed

text \<open>C5. A replacement call validates exactly when it narrows the call it replaces (same
  identity, task and step, no further requested resources, no read turned into an effect, no other
  tool for an effect, and, in every destination field that both calls set, only values the
  original names), its tool has a schema the arguments satisfy, and the authority check accepts
  the original with the proposed tool and arguments. A destination field the original leaves out,
  and cc and bcc in any case, are held back by the grant alone.\<close>

theorem replacement_narrows:
  "validate_replacement schema_ok original replacement goal obs authority schemas = Inr () \<longleftrightarrow>
   narrows original replacement
   \<and> (\<exists>schema. map_of schemas (tc_tool_name replacement) = Some schema \<and>
        validate_arguments schema_ok (tc_arguments replacement) schema = Inr ())
   \<and> check_authority goal (proposed_as original replacement) obs authority [] = None"
  by (rule validate_replacement_iff)

theorem replacement_narrows_witness: "narrows demo_call demo_call"
proof -
  have "validate_replacement (\<lambda>_ _. True) demo_call demo_call ''pay'' [] demo_grant demo_schemas = Inr ()"
    by code_simp
  then show ?thesis unfolding replacement_narrows by (rule conjunct1)
qed

section \<open>The reservation ledger\<close>

text \<open>C6. Over any sequence of ledger operations from a provisioned ledger: reservation nonces are
  unique, so are the idempotency keys of a scope, every row has a legal status and disposition
  (an accepted one is succeeded with a stored result), and no task has two effects in flight.\<close>

theorem ledger_invariant:
  assumes "ld_rows db = []"
  shows "ledger_inv (run_ops sid ops db)"
  using ledger_inv_empty[OF assms] by (auto intro: run_ops_inv)

theorem ledger_invariant_witness:
  "ledger_inv (run_ops ''store'' [OpReserve demo_request, OpFinish ''c1'' ''succeeded'' (Some ''ok'') ''pending_review''] demo_ledger)"
  by (rule ledger_invariant) code_simp

text \<open>A reservation only moves forward: no operation drops a row, changes what it reserves,
  revives a definitive status, alters the result of a succeeded effect, or reconsiders a
  disposition that was withheld or sent to review.\<close>

lemma ledger_forward_only:
  assumes "ledger_inv db"
  shows "ledger_le db (run_ops sid ops db)"
  using assms by (rule run_ops_le)

lemma ledger_forward_only_witness:
  "ledger_le demo_ledger (run_ops ''store'' [OpReserve demo_request] demo_ledger)"
proof (rule ledger_forward_only)
  have "ld_rows demo_ledger = []" by code_simp
  then show "ledger_inv demo_ledger" using ledger_inv_empty by blast
qed

text \<open>A fresh reservation is made exactly when the store opens with its identity, no row has the
  nonce or the key, the task has no unresolved or unreviewed effect, the same effect was not
  reserved before unless repeatable, and the amount fits the remaining budget; it then appends
  one pending row.\<close>

lemma reserve_decides:
  "(fst (reserve sid q db) = Inr None \<longleftrightarrow> admissible sid q db)
   \<and> (if admissible sid q db then ld_rows (snd (reserve sid q db)) = ld_rows db @ [new_row q] else True)"
  using reserve_fresh_iff reserve_fresh_state by simp

text \<open>C7. A task never spends beyond its budget: when every reservation made for it declares the
  same limit and a nonnegative amount, the amounts of all its effects that were not rejected
  before dispatch stay within the limit, whatever the other operations do.\<close>

theorem ledger_budget:
  assumes "ld_rows db = []" and "0 \<le> limit" and "list_all (op_within s limit) ops"
  shows "spent s (ld_rows (run_ops sid ops db)) \<le> limit"
  using run_ops_budget[of db s limit ops sid] ledger_inv_empty[OF assms(1)] assms
  by (simp add: list_all_iff)

theorem ledger_budget_witness:
  "spent (''embedded'', ''application'', ''g'', ''t1'')
     (ld_rows (run_ops ''store'' [OpReserve demo_request, OpReserve (demo_request\<lparr>rq_nonce := ''c2'', rq_key := ''c2''\<rparr>)]
       demo_ledger)) \<le> 100"
proof (rule ledger_budget)
  show "ld_rows demo_ledger = []" by code_simp
  show "(0::rat) \<le> 100" by simp
  show "list_all (op_within (''embedded'', ''application'', ''g'', ''t1'') 100)
     [OpReserve demo_request, OpReserve (demo_request\<lparr>rq_nonce := ''c2'', rq_key := ''c2''\<rparr>)]"
    by code_simp
qed

text \<open>An effect is reserved at most once: after a fresh reservation, and whatever operations
  follow, no request with its nonce, or with its scope and key, is granted a fresh one again.\<close>

lemma reserve_once:
  assumes "ledger_inv db" and "fst (reserve sid q db) = Inr None"
    and "rq_nonce q' = rq_nonce q \<or> (rq_scope q' = rq_scope q \<and> rq_key q' = rq_key q)"
  shows "fst (reserve sid q' (run_ops sid ops (snd (reserve sid q db)))) \<noteq> Inr None"
  using assms by (rule reserved_not_fresh)

lemma reserve_once_witness:
  "fst (reserve ''store'' demo_request
     (run_ops ''store'' [OpFinish ''c1'' ''not_dispatched'' None ''review_required'']
       (snd (reserve ''store'' demo_request demo_ledger)))) \<noteq> Inr None"
proof (rule reserve_once)
  have "ld_rows demo_ledger = []" by code_simp
  then show "ledger_inv demo_ledger" using ledger_inv_empty by blast
  show "fst (reserve ''store'' demo_request demo_ledger) = Inr None" by code_simp
qed simp

text \<open>A replayed reservation releases a stored result only when the same effect, under the
  same scope, succeeded and its result was accepted for the agent under the same result policy.\<close>

lemma replay_releases_accepted:
  assumes "fst (reserve sid q db) = Inr (Some rp)" and "rp_result rp = Some v"
  shows "\<exists>r\<in>set (ld_rows db). matches_key q r \<and> row_scope r = rq_scope q \<and> er_digest r = rq_digest q
     \<and> er_status r = ''succeeded'' \<and> er_disposition r = ''accepted_for_agent''
     \<and> er_policy r = rq_policy q \<and> er_result r = Some v"
  using assms by (rule replay_result_accepted)

lemma replay_releases_accepted_witness:
  "\<exists>r\<in>set (ld_rows demo_accepted). er_disposition r = ''accepted_for_agent'' \<and> er_result r = Some ''ok''"
proof -
  have "fst (reserve ''store'' demo_request demo_accepted) =
      Inr (Some \<lparr>rp_nonce = ''c1'', rp_status = ''succeeded'', rp_result = Some ''ok'',
                 rp_disposition = ''accepted_for_agent'', rp_replayed = True\<rparr>)" by code_simp
  from replay_releases_accepted[OF this] show ?thesis by auto
qed

section \<open>Guarded execution\<close>

text \<open>C8. Nothing leaves without authority: if executing a call hands anything to the tools or the
  sandbox, it is one call, the proposed one or a replacement that narrows it, of the bound task
  while that task is not escalated, and the compiled grant authorises it given the calls the task
  has executed.\<close>

theorem dispatch_authorised:
  assumes "is_strict (ca_scope (gc_compiled gc))"
    and "gs_log (snd (execute_call gc env task call obs st)) \<noteq> gs_log st"
  shows "\<exists>eff c. gs_log (snd (execute_call gc env task call obs st)) = gs_log st @ [eff]
    \<and> (eff = call \<or> narrows call eff)
    \<and> tc_task_id call = gc_task gc \<and> tc_task_id call \<notin> set (gs_escalated st)
    \<and> judged_call (ge_sha env) (ge_schema_ok env) (gc_compiled gc) eff = Some c
    \<and> strictly_authorised c obs (ca_scope (gc_compiled gc)) (executed_for st (tc_task_id call))"
proof -
  from assms(2) obtain eff where "dispatched gc env task call obs st eff (snd (execute_call gc env task call obs st))"
    using execute_call_cases[of gc env task call obs st] by (auto simp: kept_def)
  note d = dispatched_call[OF this]
  from d(3) obtain rw where "fully_allowed gc env rw (executed_for st (tc_task_id call)) task eff obs" ..
  from fully_allowed_authorised[OF this assms(1)] d show ?thesis by blast
qed

theorem dispatch_authorised_witness:
  "\<exists>c. judged_call (ge_sha demo_env) (ge_schema_ok demo_env) demo_compiled demo_call = Some c
     \<and> strictly_authorised c [] demo_grant []"
proof -
  have log: "gs_log (snd (execute_call demo_guard demo_env ''pay'' demo_call [] demo_state)) = [demo_call]"
    by code_simp
  have "is_strict (ca_scope (gc_compiled demo_guard))" by code_simp
  from dispatch_authorised[OF this, of demo_env "''pay''" demo_call "[]" demo_state] log
  show ?thesis by (simp add: demo_state_def demo_guard_def executed_for_def dict_get_def demo_compiled_def)
qed

text \<open>C9. With a ledger, no effect leaves twice: over any sequence of calls, with any tools, sandbox
  and supervisor, the consequential calls handed out have pairwise distinct ids, and each is
  reserved in the ledger under its own id.\<close>

theorem effects_leave_once:
  assumes "reached (guard_step gc) st st'" and "ld_rows (gs_ledger st) = []" and "gs_log st = []"
    and "gc_ledger gc = Some sid"
  shows "distinct (map tc_call_id (effects_of st'))
    \<and> tc_call_id ` set (effects_of st') \<subseteq> er_nonce ` set (ld_rows (gs_ledger st'))"
proof -
  have "guard_inv gc st"
    using assms(2,3) ledger_inv_empty by (simp add: guard_inv_def effects_of_def)
  from guard.reached_inv[OF assms(1) this] show ?thesis by (simp add: guard_inv_def assms(4))
qed

theorem effects_leave_once_witness:
  "distinct (map tc_call_id (effects_of (snd (execute_call demo_guard demo_env ''pay'' demo_call [] demo_state))))"
proof -
  have "reached (guard_step demo_guard) demo_state (snd (execute_call demo_guard demo_env ''pay'' demo_call [] demo_state))"
    using reached_refl guard_step by (rule reached_step)
  moreover have "ld_rows (gs_ledger demo_state) = []" "gs_log demo_state = []" "gc_ledger demo_guard = Some ''store''"
    by code_simp+
  ultimately show ?thesis using effects_leave_once by blast
qed

text \<open>An escalated task is frozen: once a task is escalated it stays escalated over any further
  calls, and none of its calls is handed out.\<close>

lemma escalation_freezes:
  assumes "reached (guard_step gc) st st'" and "guard_inv gc st" and "tc_task_id call \<in> set (gs_escalated st)"
  shows "tc_task_id call \<in> set (gs_escalated st')
    \<and> gs_log (snd (execute_call gc env task call obs st')) = gs_log st'"
proof -
  from guard.reached_rel[OF assms(1,2)] assms(3) have "tc_task_id call \<in> set (gs_escalated st')"
    by (auto simp: guard_le_def)
  then show ?thesis using escalated_frozen by blast
qed

lemma escalation_freezes_witness:
  "gs_log (snd (execute_call demo_guard demo_env ''pay'' demo_call []
     (snd (execute_call demo_guard demo_env ''pay'' demo_call [] (demo_state\<lparr>gs_escalated := [''t1'']\<rparr>))))) = []"
proof -
  let ?st = "demo_state\<lparr>gs_escalated := [''t1'']\<rparr>"
  let ?st' = "snd (execute_call demo_guard demo_env ''pay'' demo_call [] ?st)"
  have "reached (guard_step demo_guard) ?st ?st'"
    using reached_refl guard_step by (rule reached_step)
  moreover have "ld_rows (gs_ledger ?st) = []" "gs_log ?st = []" "tc_task_id demo_call \<in> set (gs_escalated ?st)"
    by code_simp+
  then have "guard_inv demo_guard ?st" "tc_task_id demo_call \<in> set (gs_escalated ?st)"
    using ledger_inv_empty by (simp_all add: guard_inv_def effects_of_def)
  ultimately have "gs_log (snd (execute_call demo_guard demo_env ''pay'' demo_call [] ?st')) = gs_log ?st'"
    using escalation_freezes by blast
  moreover have "gs_log ?st' = []" by code_simp
  ultimately show ?thesis by simp
qed

section \<open>Destinations and rules\<close>

text \<open>A target inside a URL scope has the scope's exact scheme, host, port and query, its
  path is the scope's path or lies under it at a segment boundary, and neither path holds a dot
  segment or an encoded alias of one, so no server can resolve the target out of the scope.\<close>

lemma scope_confines_target:
  assumes "target_within_scope scope target"
  shows "\<exists>a p. destination scope = Inr a \<and> destination target = Inr p \<and> origin p = origin a
    \<and> du_query p = du_query a \<and> 0 < du_port p \<and> du_port p \<le> 65535
    \<and> (du_path p = du_path a \<or> prefix (rstrip_by (\<lambda>c. c = CHR ''/'') (du_path a) @ ''/'') (du_path p))
    \<and> \<not> dot_segment (du_path p) \<and> \<not> path_alias (du_path p)"
proof -
  from assms obtain a p where a: "destination scope = Inr a" and p: "destination target = Inr p"
    and same: "origin p = origin a" "du_query p = du_query a" and path: "path_within (du_path a) (du_path p)"
    by (auto simp: target_within_scope_def split: sum.splits)
  from path have "du_path p = du_path a \<or> prefix (rstrip_by (\<lambda>c. c = CHR ''/'') (du_path a) @ ''/'') (du_path p)"
    unfolding path_within_def by blast
  with a p same destination_valid(3,5,6) [OF p] show ?thesis by blast
qed

lemma scope_confines_target_witness:
  "\<exists>p. destination ''http://A.io/v/u'' = Inr p \<and> \<not> dot_segment (du_path p)"
proof -
  have "target_within_scope ''http://a.io/v'' ''http://A.io/v/u''" by code_simp
  from scope_confines_target [OF this] show ?thesis by blast
qed

text \<open>The selected rule is, among the rules of a draft that match the action, the one with the
  greatest precedence, priority and identifier, and none is selected exactly when none matches;
  hence a matching BLOCK rule always wins and ALLOW wins only alone.\<close>

lemma rule_selection:
  assumes "distinct (map pu_id (pd_rules d))"
  shows "(select_rule d a = Some r \<longleftrightarrow>
      r \<in> set (pd_rules d) \<and> matches (pu_match r) a \<and>
      (\<forall>q\<in>set (pd_rules d). matches (pu_match q) a \<longrightarrow> rule_key q \<le> rule_key r))
    \<and> (select_rule d a = None \<longleftrightarrow> (\<forall>r\<in>set (pd_rules d). \<not> matches (pu_match r) a))
    \<and> (select_rule d a = Some r \<and> pu_decision r = ALLOW \<longrightarrow>
      (\<forall>q\<in>set (pd_rules d). matches (pu_match q) a \<longrightarrow> pu_decision q = ALLOW))"
  by (intro conjI impI select_rule_unique [OF assms] select_rule_None) (blast dest: select_allow)

lemma rule_selection_witness:
  "select_rule (demo_draft\<lparr>pd_rules := [demo_rule ''r1'' ALLOW, demo_rule ''r0'' BLOCK]\<rparr>) demo_action
     = Some (demo_rule ''r0'' BLOCK)"
proof -
  let ?d = "demo_draft\<lparr>pd_rules := [demo_rule ''r1'' ALLOW, demo_rule ''r0'' BLOCK]\<rparr>"
  have d: "distinct (map pu_id (pd_rules ?d))" by code_simp
  show ?thesis
    by (rule rule_selection [OF d, THEN conjunct1, THEN iffD2]) code_simp
qed

section \<open>The control plane\<close>

text \<open>C10. In every state the operations of the service and of the execution authority reach from the
  empty one, the audit chain of each tenant verifies, at most one policy version per tenant is
  active, an active version has a valid draft, an approver and a positive epoch, and a resolved
  review was resolved by another subject than the proposer of its action.\<close>

theorem control_invariant:
  assumes "reached (control_step w) empty_control s"
  shows "verify_audit_chain w t s
    \<and> length (filter (\<lambda>p. pv_status p = ACTIVE) (policies_of s t)) \<le> 1
    \<and> (\<forall>p. active_policy s t = Some p \<longrightarrow>
          valid_draft (pv_draft p) \<and> pv_approved_by p \<noteq> None \<and> 0 < epoch_of s t)
    \<and> (\<forall>k r. map_of (cs_reviews s) k = Some r \<and> rv_status r = ''resolved'' \<longrightarrow>
          (\<exists>x. rv_resolved_by r = Some x \<and> x \<noteq> rv_agent r))"
proof -
  have inv: "control_inv w s" by (rule control.reached_inv [OF assms control_inv_empty])
  then have chain: "verify_audit_chain w t s" by (simp add: control_inv_def)
  from inv have fine: "policies_fine (policies_of s t) (epoch_of s t)" by (rule policies_fineD)
  then have one: "length (filter (\<lambda>p. pv_status p = ACTIVE) (policies_of s t)) \<le> 1"
    by (simp add: policies_fine_def is_active_def [abs_def])
  have active: "valid_draft (pv_draft p) \<and> pv_approved_by p \<noteq> None \<and> 0 < epoch_of s t"
    if "active_policy s t = Some p" for p
    using fine active_in [OF that] by (auto simp: policies_fine_def)
  have "\<exists>x. rv_resolved_by r = Some x \<and> x \<noteq> rv_agent r"
    if "map_of (cs_reviews s) k = Some r" "rv_status r = ''resolved''" for k r
    using reviews_fineD [OF inv that(1)] that(2) by (auto simp: review_fine_def)
  with chain one active show ?thesis by blast
qed

theorem control_invariant_witness:
  "verify_audit_chain demo_world ''acme'' (demo_control demo_draft)
   \<and> active_policy (demo_control demo_draft) ''acme'' \<noteq> None"
proof -
  have "active_policy (demo_control demo_draft) ''acme'' \<noteq> None" by code_simp
  with control_invariant [OF demo_reached [OF demo_draft_valid]] show ?thesis by blast
qed

text \<open>Nothing is taken back: along any further operations the audit trail of every tenant only
  grows at its end, epochs never decrease, revoked credentials stay revoked, the versions of a
  policy keep their identifier, draft and author, and a registered task keeps its grant.\<close>

lemma control_history:
  assumes "reached (control_step w) empty_control s" and "reached (control_step w) s s'"
  shows "prefix (audits_of s t) (audits_of s' t) \<and> epoch_of s t \<le> epoch_of s' t
    \<and> set (cs_revoked s) \<subseteq> set (cs_revoked s')
    \<and> prefix (map (\<lambda>p. (pv_id p, pv_version p, pv_draft p, pv_created_by p)) (policies_of s t))
           (map (\<lambda>p. (pv_id p, pv_version p, pv_draft p, pv_created_by p)) (policies_of s' t))
    \<and> (\<forall>k task. map_of (cs_tasks s) k = Some task \<longrightarrow>
      (\<exists>task'. map_of (cs_tasks s') k = Some task' \<and> rt_compiled task' = rt_compiled task
        \<and> rt_principal task' = rt_principal task \<and> (rt_domain task \<noteq> [] \<longrightarrow> rt_domain task' = rt_domain task)))"
proof -
  have inv: "control_inv w s" by (rule control.reached_inv [OF assms(1) control_inv_empty])
  have le: "control_le s s'" by (rule control.reached_rel [OF assms(2) inv])
  have "\<exists>task'. map_of (cs_tasks s') k = Some task' \<and> rt_compiled task' = rt_compiled task
        \<and> rt_principal task' = rt_principal task \<and> (rt_domain task \<noteq> [] \<longrightarrow> rt_domain task' = rt_domain task)"
    if "map_of (cs_tasks s) k = Some task" for k task
  proof -
    from le have "tasks_kept s s'" by (simp add: control_le_def)
    with that show ?thesis unfolding tasks_kept_def task_core_def by fastforce
  qed
  moreover from le have "prefix (audits_of s t) (audits_of s' t)" "epoch_of s t \<le> epoch_of s' t"
    "set (cs_revoked s) \<subseteq> set (cs_revoked s')"
    "prefix (map version_core (policies_of s t)) (map version_core (policies_of s' t))"
    by (simp_all add: control_le_def)
  ultimately show ?thesis unfolding version_core_def by blast
qed

lemma control_history_witness:
  "prefix (audits_of (demo_control demo_draft) ''acme'')
     (audits_of (snd (suspend_tenant demo_world (demo_draws 4 ''id4'') ''acme'' (demo_actor ''ann'' ADMIN) True
        (demo_control demo_draft))) ''acme'')
   \<and> length (audits_of (demo_control demo_draft) ''acme'') = 3"
proof -
  have "reached (control_step demo_world) (demo_control demo_draft)
      (snd (suspend_tenant demo_world (demo_draws 4 ''id4'') ''acme'' (demo_actor ''ann'' ADMIN) True (demo_control demo_draft)))"
    by (rule reached_one, rule step_suspend)
  from control_history [OF demo_reached [OF demo_draft_valid] this]
  have "prefix (audits_of (demo_control demo_draft) ''acme'')
     (audits_of (snd (suspend_tenant demo_world (demo_draws 4 ''id4'') ''acme'' (demo_actor ''ann'' ADMIN) True
        (demo_control demo_draft))) ''acme'')" by blast
  moreover have "length (audits_of (demo_control demo_draft) ''acme'') = 3" by code_simp
  ultimately show ?thesis by blast
qed

text \<open>C11. The audit trail is tamper evident: two trails of a tenant that verify under the same head
  have the same length and record the same history, event by event, or else there is a place,
  with the same events after it, where two events record different things and the stored digest is
  the digest of both their bodies, a collision the forger has to find for these very events.\<close>

theorem audit_tamper_evident:
  assumes "verify_audit_chain w t s" and "verify_audit_chain w t s'"
    and "map_of (cs_heads s) t = map_of (cs_heads s') t"
  shows "length (audits_of s t) = length (audits_of s' t)
    \<and> (map (record_of w) (audits_of s t) = map (record_of w) (audits_of s' t)
       \<or> (\<exists>i < length (audits_of s t). let e = audits_of s t ! i; e' = audits_of s' t ! i in
            record_of w e \<noteq> record_of w e'
            \<and> hexdigest w (event_body (w_stamp w) e) = ae_hash e
            \<and> hexdigest w (event_body (w_stamp w) e') = ae_hash e
            \<and> map (record_of w) (drop (Suc i) (audits_of s t))
                = map (record_of w) (drop (Suc i) (audits_of s' t))))"
  using assms head_determines [of w "audits_of s t" "map_of (cs_heads s) t" "audits_of s' t"]
  unfolding verify_audit_chain_def parts_at_def Let_def by metis

theorem audit_tamper_evident_witness:
  "\<exists>i < 1. record_of demo_flat (audits_of demo_written ''acme'' ! i)
             \<noteq> record_of demo_flat (audits_of demo_forged ''acme'' ! i)
    \<and> hexdigest demo_flat (event_body (w_stamp demo_flat) (audits_of demo_forged ''acme'' ! i))
        = ae_hash (audits_of demo_written ''acme'' ! i)"
proof -
  have "verify_audit_chain demo_flat ''acme'' demo_written" "verify_audit_chain demo_flat ''acme'' demo_forged"
    "map_of (cs_heads demo_written) ''acme'' = map_of (cs_heads demo_forged) ''acme''" by code_simp+
  note t = audit_tamper_evident [OF this]
  have "length (audits_of demo_written ''acme'') = 1" by code_simp
  moreover have "map (record_of demo_flat) (audits_of demo_written ''acme'')
      \<noteq> map (record_of demo_flat) (audits_of demo_forged ''acme'')" by code_simp
  ultimately show ?thesis using t unfolding Let_def by auto
qed

text \<open>C12. A version becomes active by approval only when an approver of the tenant, other than its
  author, approves a submitted version; it is then the active one, and the epoch has advanced, so
  decisions, reviews and grants of the former policy are stale.\<close>

theorem approval_separated:
  assumes "approve_policy w d t a pid s = (Inr p, s')"
  shows "pv_created_by p \<noteq> ac_subject a \<and> pv_approved_by p = Some (ac_subject a) \<and> t \<in> set (ac_tenants a)
    \<and> APPROVER \<in> set (ac_roles a) \<and> active_policy s' t = Some p \<and> epoch_of s' t = epoch_of s t + 1
    \<and> (\<exists>q. find_policy s t pid = Inr q \<and> pv_status q = PENDING_APPROVAL \<and> pv_draft q = pv_draft p)"
proof -
  obtain q where q: "find_policy s t pid = Inr q" "require a APPROVER t s = Inr ()"
    "pv_status q = PENDING_APPROVAL" "pv_created_by q \<noteq> ac_subject a" "p = activate a (dw_now d) q"
    "s' = install w d ''policy.activated'' t a pid s"
    by (rule approve_cases [OF assms])
  then show ?thesis
    using active_install [OF q(1)] by (simp add: require_ok epoch_install) (simp add: activate_def)
qed

theorem approval_separated_witness:
  "epoch_of (demo_control demo_draft) ''acme'' = 1"
proof -
  have "is_ok (fst (approve_policy demo_world (demo_draws 3 ''id3'') ''acme'' (demo_actor ''bob'' APPROVER) ''id1''
      (demo_pending demo_draft)))" by code_simp
  then obtain p where "approve_policy demo_world (demo_draws 3 ''id3'') ''acme'' (demo_actor ''bob'' APPROVER) ''id1''
      (demo_pending demo_draft) = (Inr p, demo_control demo_draft)"
    unfolding is_ok_iff demo_control_def by (metis prod.collapse)
  from approval_separated [OF this] have "epoch_of (demo_control demo_draft) ''acme''
      = epoch_of (demo_pending demo_draft) ''acme'' + 1" by simp
  moreover have "epoch_of (demo_pending demo_draft) ''acme'' = 0" by code_simp
  ultimately show ?thesis by simp
qed

section \<open>Decisions and grants\<close>

text \<open>C13. An action is newly allowed only for an agent of its tenant whose credential is neither
  revoked nor out of scope, while the tenant is not suspended, and only by an ALLOW rule of the
  active, approved policy, which matches the action when every rule that matches it allows.\<close>

theorem allow_justified:
  assumes "reached (control_step w) empty_control s" and "evaluate w d a q s = (Inr r, s')"
    and "ac_key a = Some k" and "map_of (cs_receipts s) (receipt_key_of a k q) = None" and "dr_decision r = ALLOW"
  shows "aq_tenant q \<in> set (ac_tenants a) \<and> AGENT \<in> set (ac_roles a) \<and> aq_tenant q \<notin> set (cs_suspended s)
    \<and> (k \<noteq> [] \<longrightarrow> (aq_tenant q, k) \<notin> set (cs_revoked s))
    \<and> (\<forall>ops. ac_operations a = Some ops \<longrightarrow> aq_operation q \<in> set ops)
    \<and> (\<exists>p rule. active_policy s (aq_tenant q) = Some p \<and> pv_approved_by p \<noteq> None \<and> dr_policy r = Some (pv_id p)
        \<and> rule \<in> set (pd_rules (pv_draft p)) \<and> matches (pu_match rule) q \<and> pu_decision rule = ALLOW
        \<and> (\<forall>u\<in>set (pd_rules (pv_draft p)). matches (pu_match u) q \<longrightarrow> pu_decision u = ALLOW))"
proof -
  note fresh = evaluate_fresh [OF assms(2,3,4)]
  note decided = decide_decision [OF fresh(3)]
  have inv: "control_inv w s" by (rule control.reached_inv [OF assms(1) control_inv_empty])
  from decided assms(5) have "dr_decision (policy_decision w q s) = ALLOW" by simp
  then obtain p rule where p: "active_policy s (aq_tenant q) = Some p"
    and rule: "select_rule (pv_draft p) q = Some rule" "pu_decision rule = ALLOW"
    using active_valid [OF inv] by (blast elim: policy_decision_allow)
  have "dr_policy (policy_decision w q s) = Some (pv_id p)"
    by (simp add: policy_decision_def p rule(1) mk_decision_def)
  moreover have "pv_approved_by p \<noteq> None"
    using policies_fineD [OF inv] active_in [OF p] by (auto simp: policies_fine_def)
  moreover note select_rule_in [OF rule(1)] select_allow [OF rule]
  ultimately have "\<exists>p rule. active_policy s (aq_tenant q) = Some p \<and> pv_approved_by p \<noteq> None \<and> dr_policy r = Some (pv_id p)
        \<and> rule \<in> set (pd_rules (pv_draft p)) \<and> matches (pu_match rule) q \<and> pu_decision rule = ALLOW
        \<and> (\<forall>u\<in>set (pd_rules (pv_draft p)). matches (pu_match u) q \<longrightarrow> pu_decision u = ALLOW)"
    using p rule(2) decided by metis
  then show ?thesis using fresh(1,2) assms(3) unfolding require_ok by blast
qed

theorem allow_justified_witness:
  "\<exists>p. active_policy (demo_registered demo_draft) ''acme'' = Some p \<and> pv_approved_by p \<noteq> None"
proof -
  obtain r s' where ev: "evaluate demo_world (demo_draws 5 ''id5'') (demo_actor ''zoe'' AGENT) demo_action
      (demo_registered demo_draft) = (Inr r, s')" and allow: "dr_decision r = ALLOW"
    using demo_evaluates by blast
  have key: "ac_key (demo_actor ''zoe'' AGENT) = Some ''zoe-key''" by (simp add: demo_actor_def)
  have none: "map_of (cs_receipts (demo_registered demo_draft)) (receipt_key_of (demo_actor ''zoe'' AGENT) ''zoe-key'' demo_action) = None"
    by (simp add: demo_registered_frame)
  from allow_justified [OF registered_reached [OF demo_draft_valid] ev key none allow]
  show ?thesis unfolding demo_request_fields by blast
qed

text \<open>C14. Revocation is final: once a credential of a tenant is revoked, along any later operations
  every request made with it is refused with an authorization error and changes nothing, and no
  grant issued to it validates any more.\<close>

theorem revocation_final:
  assumes "reached (control_step w) empty_control s" and "revoke_credential w d t a c s = (Inr u, s1)"
    and "reached (control_step w) s1 s2"
  shows "(\<forall>b d'' q. ac_key b = Some c \<and> aq_tenant q = t \<longrightarrow>
            (\<exists>m. evaluate w d'' b q s2 = (Inl (AuthorizationError m), s2)))
    \<and> (\<forall>now x q g. eg_key g = c \<and> aq_tenant q = t \<longrightarrow>
            (\<exists>m. validate w now x q g s2 = Inl (AuthorizationError m)))"
proof -
  have "reached (control_step w) empty_control s1"
    using reached_step [OF assms(1) step_revoke [of w s d t a c]] by (simp add: assms(2))
  then have le: "control_le s1 s2" using control.reached_rel [OF assms(3)] control.reached_inv control_inv_empty by blast
  have "(t, c) \<in> set (cs_revoked s1)" and c: "c \<noteq> []"
    using assms(2) by (auto simp: revoke_credential_def bump_epoch_def split: sum.splits if_split_asm)
  with le have revoked: "(t, c) \<in> set (cs_revoked s2)" by (auto simp: control_le_def)
  have "\<exists>m. evaluate w d'' b q s2 = (Inl (AuthorizationError m), s2)" if key: "ac_key b = Some c" and tenant: "aq_tenant q = t" for b d'' q
  proof -
    obtain m where "require b AGENT t s2 = Inl (AuthorizationError m)"
      using require_revoked [OF key c revoked] by blast
    then show ?thesis by (simp add: evaluate_def tenant)
  qed
  moreover have "\<exists>m. validate w now x q g s2 = Inl (AuthorizationError m)" if "eg_key g = c" "aq_tenant q = t" for now x q g
  proof -
    have "validate w now x q g s2 \<noteq> Inr ()"
      using revoked c that by (auto simp: validate_ok task_of_ok require_ok grant_principal_def)
    then show ?thesis using validate_raises [of w now x q g s2] by (cases "validate w now x q g s2") auto
  qed
  ultimately show ?thesis by blast
qed

theorem revocation_final_witness:
  "\<exists>s1 m. evaluate demo_world (demo_draws 9 ''id9'') (demo_actor ''zoe'' AGENT) demo_action s1 = (Inl (AuthorizationError m), s1)"
proof -
  obtain s1 where rev: "revoke_credential demo_world (demo_draws 5 ''id5'') ''acme'' (demo_actor ''ann'' ADMIN) ''zoe-key''
      (demo_registered demo_draft) = (Inr (), s1)"
    by (simp add: revoke_credential_def demo_require demo_registered_frame)
  from revocation_final [OF registered_reached [OF demo_draft_valid] rev reached_refl]
  show ?thesis using demo_request_fields by (metis append.simps)
qed

text \<open>C15. A grant can be used: whatever \<open>issue\<close> returns validates for the executor it names, an
  unsuspended service identity that is no agent, in the state the issue leaves and for a minute.\<close>

theorem issued_grant_validates:
  assumes "issue w d d' a q audience rid s = (Inr g, s')" and "\<And>p v. w_verify w p v (w_sign w p v)"
    and "require x EXECUTOR (aq_tenant q) s' = Inr ()" and "AGENT \<notin> set (ac_roles x)" and "\<not> blank (ac_key x)"
    and "ac_subject x = audience" and "now < dw_now d' + seconds 60"
  shows "validate w now x q g s' = Inr ()"
  by (rule issue_validates [OF assms])

theorem issued_grant_validates_witness:
  "\<exists>g. fst demo_issued = Inr g
    \<and> validate demo_world 7 (demo_actor ''exec'' EXECUTOR) demo_action g (snd demo_issued) = Inr ()"
proof -
  obtain g where g: "fst demo_issued = Inr g" using demo_issued_ok unfolding is_ok_iff by blast
  then have run: "issue demo_world (demo_draws 5 ''id5'') (demo_draws 6 ''id6'') (demo_actor ''zoe'' AGENT) demo_action
      ''exec'' None (demo_registered demo_draft) = (Inr g, snd demo_issued)"
    by (simp add: demo_issued_def prod_eq_iff)
  have "require (demo_actor ''exec'' EXECUTOR) EXECUTOR (aq_tenant demo_action) (snd demo_issued) = Inr ()"
    unfolding demo_request_fields
    using issue_frame [OF run] by (intro demo_require) (simp_all add: demo_registered_frame)
  then have "validate demo_world 7 (demo_actor ''exec'' EXECUTOR) demo_action g (snd demo_issued) = Inr ()"
    by (intro issued_grant_validates [OF run])
       (simp_all add: demo_world_def demo_actor_def blank_def demo_draws_def seconds_def)
  with g show ?thesis by blast
qed

text \<open>C16. Grants are fenced by the policy epoch: after a revocation, a suspension, an approval or a
  rollback in the tenant, at any time after the issue, no grant issued before validates.\<close>

theorem grants_fenced:
  assumes "reached (control_step w) empty_control s" and "issue w d d' a q audience rid s = (Inr g, s1)"
    and "fresh d s" and "fresh d' s" and "reached (control_step w) s1 s2" and "aq_tenant q = t"
    and "s3 \<in> {snd (revoke_credential w e t b c s2), snd (suspend_tenant w e t b flag s2),
               snd (approve_policy w e t b pid s2), snd (rollback w e t b pid s2)}"
    and "epoch_of s3 t \<noteq> epoch_of s2 t" and "reached (control_step w) s3 s4"
  shows "\<exists>m. validate w now x q g s4 = Inl (AuthorizationError m)"
proof -
  have r1: "reached (control_step w) empty_control s1"
    using reached_step [OF assms(1) step_issue [OF assms(3,4), of w a q audience rid]] by (simp add: assms(2))
  have r2: "reached (control_step w) empty_control s2" by (rule reached_trans [OF assms(5) r1])
  have "control_step w s2 s3" using assms(7) unfolding insert_iff
    by (elim disjE) (simp_all only: step_revoke step_suspend step_approve step_rollback empty_iff)
  then have r23: "reached (control_step w) s2 s3" by (rule reached_one)
  have r3: "reached (control_step w) empty_control s3" by (rule reached_trans [OF r23 r2])
  note inv = control.reached_inv [OF _ control_inv_empty]
  have "epoch_of s1 t \<le> epoch_of s2 t" "epoch_of s2 t \<le> epoch_of s3 t" "epoch_of s3 t \<le> epoch_of s4 t"
    using control.reached_rel [OF assms(5) inv [OF r1]] control.reached_rel [OF r23 inv [OF r2]]
      control.reached_rel [OF assms(9) inv [OF r3]] by (simp_all only: control_le_def)
  moreover have "epoch_of s1 t = eg_epoch g"
    using issue_epoch [OF assms(2)] by (simp add: assms(6))
  ultimately have "eg_epoch g < epoch_of s4 t" using assms(8) by linarith
  then have "validate w now x q g s4 \<noteq> Inr ()"
    using validate_epoch [of w now x q g s4] assms(6) by auto
  then show ?thesis using validate_raises [of w now x q g s4] by (cases "validate w now x q g s4") auto
qed

theorem grants_fenced_witness:
  "\<exists>g s3 m. fst demo_issued = Inr g \<and> s3 = snd (suspend_tenant demo_world (demo_draws 9 ''id9'') ''acme''
      (demo_actor ''ann'' ADMIN) True (snd demo_issued))
    \<and> validate demo_world 10 (demo_actor ''exec'' EXECUTOR) demo_action g s3 = Inl (AuthorizationError m)"
proof -
  obtain g where g: "fst demo_issued = Inr g" using demo_issued_ok unfolding is_ok_iff by blast
  then have run: "issue demo_world (demo_draws 5 ''id5'') (demo_draws 6 ''id6'') (demo_actor ''zoe'' AGENT) demo_action
      ''exec'' None (demo_registered demo_draft) = (Inr g, snd demo_issued)"
    by (simp add: demo_issued_def prod_eq_iff)
  define s3 where "s3 = snd (suspend_tenant demo_world (demo_draws 9 ''id9'') ''acme'' (demo_actor ''ann'' ADMIN) True (snd demo_issued))"
  have fresh: "fresh d (demo_registered demo_draft)" for d by (simp add: fresh_def demo_registered_frame)
  have "suspend_tenant demo_world (demo_draws 9 ''id9'') ''acme'' (demo_actor ''ann'' ADMIN) True (snd demo_issued) = (Inr (), s3)"
    using issue_frame [OF run] by (simp add: s3_def suspend_tenant_def demo_require demo_registered_frame)
  then have epoch: "epoch_of s3 ''acme'' \<noteq> epoch_of (snd demo_issued) ''acme''" using epoch_steps(2) by fastforce
  obtain m where "validate demo_world 10 (demo_actor ''exec'' EXECUTOR) demo_action g s3 = Inl (AuthorizationError m)"
    using grants_fenced [OF registered_reached [OF demo_draft_valid] run fresh fresh reached_refl demo_request_fields(1)
        _ epoch reached_refl, of "demo_draws 9 ''id9''" "demo_actor ''ann'' ADMIN" "[]" True "[]"]
    unfolding s3_def by blast
  with g show ?thesis unfolding s3_def by blast
qed

text \<open>A review is spent by the grant it permits: after an escalated action was continued under a
  review, along any later operations no escalated action is continued under that review again.\<close>

lemma review_single_use:
  assumes "reached (control_step w) empty_control s" and "issue w d d' a q audience (Some k) s = (Inr g, s1)"
    and "fresh d s" and "fresh d' s" and "fst (evaluate w d a q s) = Inr dec" and "dr_decision dec = ESCALATE"
    and "reached (control_step w) s1 s2" and "dr_decision dec' = ESCALATE"
  shows "\<exists>m. continuation w now b q' (Some k) dec' s2 = Inl (AuthorizationError m)"
proof -
  have r1: "reached (control_step w) empty_control s1"
    using reached_step [OF assms(1) step_issue [OF assms(3,4), of w a q audience "Some k"]] by (simp add: assms(2))
  have "control_le s1 s2"
    by (rule control.reached_rel [OF assms(7) control.reached_inv [OF r1 control_inv_empty]])
  moreover obtain r where "map_of (cs_reviews s1) k = Some r" "rv_nonce r = Some (eg_nonce g)"
    using issue_spends [OF assms(2,5,6)] control.reached_inv [OF assms(1) control_inv_empty] assms(3)
    by (metis sound_evaluate sound_step_def)
  ultimately obtain r' where r': "map_of (cs_reviews s2) k = Some r'" "rv_nonce r' = Some (eg_nonce g)"
    unfolding control_le_def used_kept_def review_le_def by (metis option.distinct(1))
  then show ?thesis using assms(8) by (auto simp: continuation_def review_permits_def)
qed

lemma review_single_use_witness:
  "\<exists>m. continuation demo_world 9 (demo_actor ''zoe'' AGENT) demo_action (Some ''id5'') demo_answer (snd demo_continued)
      = Inl (AuthorizationError m)"
proof -
  obtain g where "fst demo_continued = Inr g" using demo_continued_ok unfolding is_ok_iff by blast
  then have run: "issue demo_world (demo_draws 7 ''id7'') (demo_draws 8 ''id8'') (demo_actor ''zoe'' AGENT) demo_action
      ''exec'' (Some ''id5'') demo_resolved = (Inr g, snd demo_continued)"
    by (simp add: demo_continued_def prod_eq_iff)
  have fresh: "fresh (demo_draws 7 ''id7'') demo_resolved" "fresh (demo_draws 8 ''id8'') demo_resolved"
    by (simp_all add: fresh_def demo_resolved_frame demo_draws_def)
  have ev: "fst (evaluate demo_world (demo_draws 7 ''id7'') (demo_actor ''zoe'' AGENT) demo_action demo_resolved) = Inr demo_answer"
    by (simp add: demo_continues_cached)
  show ?thesis
    by (rule review_single_use [OF demo_resolved_reached run fresh ev demo_answer_escalates(1) reached_refl
          demo_answer_escalates(1)])
qed

section \<open>The execution boundary\<close>

text \<open>C17. Whatever the executor hands to its adapter was admitted: the caller is the agent the signed,
  unexpired grant names, the grant is for this executor, adapter and store, the online check accepted
  it twice, before and after the reservation, the amounts agree, the reservation was free under the
  grant's budget, and exactly one ledger row under the grant's nonce records what came of it.\<close>

theorem executor_dispatch:
  assumes "execute_grant w x online send now caller q g st = (res, st')" and "xs_sent st' \<noteq> xs_sent st"
  shows "grant_admits w x now caller q g
    \<and> online (xs_online st) (xc_identity x) q g = Inr () \<and> online (Suc (xs_online st)) (xc_identity x) q g = Inr ()
    \<and> xs_sent st' = xs_sent st @ [(eg_nonce g, q)]
    \<and> (\<exists>amount l status result disposition.
        payment_amount q = Inr amount \<and> decimal_str amount = eg_amount g \<and> budget_value (eg_budget g) = Inr l
        \<and> admissible (xc_store x) (executor_request w x caller q g amount l) (xs_ledger st)
        \<and> ld_rows (xs_ledger st') = ld_rows (xs_ledger st)
             @ [set_outcome status result disposition (new_row (executor_request w x caller q g amount l))]
        \<and> (status = ''succeeded'' \<and> disposition = ''accepted_for_agent'' \<and> (\<exists>t. result = Some t \<and> res = Inr (Executed (eg_nonce g) t))
           \<or> status = ''unknown'' \<and> disposition = ''review_required'' \<and> result = None))"
proof -
  have sent: "execution_dispatched w x online send now caller q g st res st'"
    using assms(1) by (cases rule: execute_grant_cases) (use assms(2) in \<open>simp_all add: executor_kept_def\<close>)
  then obtain amount l status result disposition where
    a: "payment_amount q = Inr amount" "decimal_str amount = eg_amount g" "budget_value (eg_budget g) = Inr l"
      "admissible (xc_store x) (executor_request w x caller q g amount l) (xs_ledger st)"
    and out: "valid_outcome status result disposition" "status \<noteq> ''not_dispatched''"
      "\<forall>t. res = Inr (Executed (eg_nonce g) t) \<longleftrightarrow> status = ''succeeded'' \<and> result = Some t"
    and st: "st' = \<lparr>xs_ledger = (xs_ledger st)\<lparr>ld_rows := ld_rows (xs_ledger st)
                 @ [set_outcome status result disposition (new_row (executor_request w x caller q g amount l))]\<rparr>,
               xs_online = Suc (Suc (xs_online st)), xs_sent = xs_sent st @ [(eg_nonce g, q)]\<rparr>"
    unfolding execution_dispatched_def by (elim conjE exE) (rule that)
  have "status = ''succeeded'' \<and> disposition = ''accepted_for_agent'' \<and> (\<exists>t. result = Some t \<and> res = Inr (Executed (eg_nonce g) t))
           \<or> status = ''unknown'' \<and> disposition = ''review_required'' \<and> result = None"
  proof (cases result)
    case None
    then show ?thesis using out(1,2) by (auto simp: valid_outcome_def)
  next
    case (Some t)
    then have "status = ''succeeded'' \<and> disposition = ''accepted_for_agent''" using out(1,2) by (auto simp: valid_outcome_def)
    moreover from this Some have "res = Inr (Executed (eg_nonce g) t)" using out(3) by blast
    ultimately show ?thesis using Some by blast
  qed
  then have "\<exists>amount l status result disposition.
        payment_amount q = Inr amount \<and> decimal_str amount = eg_amount g \<and> budget_value (eg_budget g) = Inr l
        \<and> admissible (xc_store x) (executor_request w x caller q g amount l) (xs_ledger st)
        \<and> ld_rows (xs_ledger st') = ld_rows (xs_ledger st)
             @ [set_outcome status result disposition (new_row (executor_request w x caller q g amount l))]
        \<and> (status = ''succeeded'' \<and> disposition = ''accepted_for_agent'' \<and> (\<exists>t. result = Some t \<and> res = Inr (Executed (eg_nonce g) t))
           \<or> status = ''unknown'' \<and> disposition = ''review_required'' \<and> result = None)"
    using a by (intro exI [of _ amount] exI [of _ l] exI [of _ status] exI [of _ result] exI [of _ disposition] conjI)
      (simp_all add: st)
  moreover have "xs_sent st' = xs_sent st @ [(eg_nonce g, q)]" by (simp add: st)
  moreover note parts = sent [unfolded execution_dispatched_def]
  note parts [THEN conjunct1] parts [THEN conjunct2, THEN conjunct1] parts [THEN conjunct2, THEN conjunct2, THEN conjunct1]
  ultimately show ?thesis by (intro conjI)
qed

theorem executor_dispatch_witness:
  "\<exists>status result disposition. ld_rows (xs_ledger (snd demo_execution)) =
     [set_outcome status result disposition
       (new_row (executor_request demo_world demo_executor (demo_actor ''zoe'' AGENT) demo_action demo_token
          (Dec 40 0) (Some 100)))]"
proof -
  have run: "execute_grant demo_world demo_executor (\<lambda>_ _ _ _. Inr ()) (\<lambda>_. Inr (Some ''paid'')) 10
      (demo_actor ''zoe'' AGENT) demo_action demo_token demo_outbox = (fst demo_execution, snd demo_execution)"
    by (simp add: demo_execution_def)
  have "payment_amount demo_action = Inr (Dec 40 0)" "budget_value (eg_budget demo_token) = Inr (Some 100)"
    "ld_rows (xs_ledger demo_outbox) = []"
    by code_simp+
  with executor_dispatch [OF run demo_sent] show ?thesis by auto
qed

text \<open>C18. Composed with the execution authority as its online check, the executor dispatches only grants
  that hold at both checks: unexpired, of the current policy epoch, for an unsuspended tenant, issued to
  a credential that is not revoked, and inside the grant the task was registered with.\<close>

theorem dispatch_follows_authority:
  assumes "execute_grant w x (online_validator w clock states) send now caller q g st = (res, st')"
    and "xs_sent st' \<noteq> xs_sent st" and "i \<in> {xs_online st, Suc (xs_online st)}"
  shows "clock i < eg_expires g \<and> eg_epoch g = epoch_of (states i) (aq_tenant q)
    \<and> aq_tenant q \<notin> set (cs_suspended (states i))
    \<and> (eg_key g \<noteq> [] \<longrightarrow> (aq_tenant q, eg_key g) \<notin> set (cs_revoked (states i)))
    \<and> (\<exists>t. map_of (cs_tasks (states i)) (aq_tenant q, aq_task q) = Some t \<and> task_allows w t q
          \<and> rt_principal t = eg_agent g \<and> ca_digest (rt_compiled t) = eg_authority g)"
proof -
  have "execution_dispatched w x (online_validator w clock states) send now caller q g st res st'"
    using assms(1) by (cases rule: execute_grant_cases) (use assms(2) in \<open>simp_all add: executor_kept_def\<close>)
  then have ok: "validate w (clock i) (xc_identity x) q g (states i) = Inr ()"
    using assms(3) by (auto dest: dispatched_validated)
  then obtain t where "task_of w (grant_principal g) q (states i) = Inr t" "ca_digest (rt_compiled t) = eg_authority g"
    and "grant_current w (clock i) (xc_identity x) q g (states i)"
    unfolding validate_ok by blast
  with validate_epoch [OF ok] show ?thesis
    unfolding task_of_ok require_ok by (auto simp: grant_current_def grant_principal_def)
qed

theorem dispatch_follows_authority_witness:
  "eg_epoch demo_token = epoch_of demo_holding ''acme''"
proof -
  have run: "execute_grant demo_world demo_executor (online_validator demo_world (\<lambda>_. 10) (\<lambda>_. demo_holding))
      (\<lambda>_. Inr (Some ''paid'')) 10 (demo_actor ''zoe'' AGENT) demo_action demo_token demo_outbox
      = (fst demo_execution, snd demo_execution)"
    using online_irrelevant [of "online_validator demo_world (\<lambda>_. 10) (\<lambda>_. demo_holding)"] demo_token_holds
    by (simp add: demo_execution_def online_validator_def demo_executor_def)
  from dispatch_follows_authority [OF run demo_sent, of 0] show ?thesis
    by (simp add: demo_outbox_def demo_request_fields)
qed

text \<open>C19. Each grant takes effect at most once: in every state the executor reaches, no nonce was handed
  to the adapter twice, each one handed over has its ledger row, and along further operations nothing is
  taken back from the log and the ledger only moves forward.\<close>

theorem executor_once:
  assumes "ledger_inv db" and "reached (executor_step x) \<lparr>xs_ledger = db, xs_online = 0, xs_sent = []\<rparr> st"
    and "reached (executor_step x) st st'"
  shows "distinct (map fst (xs_sent st)) \<and> fst ` set (xs_sent st) \<subseteq> er_nonce ` set (ld_rows (xs_ledger st))
    \<and> prefix (xs_sent st) (xs_sent st') \<and> ledger_le (xs_ledger st) (xs_ledger st')"
proof -
  have "executor_inv \<lparr>xs_ledger = db, xs_online = 0, xs_sent = []\<rparr>"
    using assms(1) by (simp add: executor_inv_def sent_nonces_def)
  then have inv: "executor_inv st" by (rule executor.reached_inv [OF assms(2)])
  then have "executor_le st st'" by (rule executor.reached_rel [OF assms(3)])
  with inv show ?thesis by (simp add: executor_inv_def executor_le_def sent_nonces_def)
qed

theorem executor_once_witness:
  "prefix (xs_sent (snd demo_execution))
     (xs_sent (snd (execute_grant demo_world demo_executor (\<lambda>_ _ _ _. Inr ()) (\<lambda>_. Inr (Some ''paid'')) 11
        (demo_actor ''zoe'' AGENT) demo_action demo_token (snd demo_execution))))"
proof -
  have inv: "ledger_inv demo_ledger" by (rule demo_ledger_inv)
  have "reached (executor_step demo_executor) \<lparr>xs_ledger = demo_ledger, xs_online = 0, xs_sent = []\<rparr> (snd demo_execution)"
    unfolding demo_execution_def demo_outbox_def [symmetric] by (rule reached_one, rule step_execute)
  moreover have "reached (executor_step demo_executor) (snd demo_execution)
     (snd (execute_grant demo_world demo_executor (\<lambda>_ _ _ _. Inr ()) (\<lambda>_. Inr (Some ''paid'')) 11
        (demo_actor ''zoe'' AGENT) demo_action demo_token (snd demo_execution)))"
    by (rule reached_one, rule step_execute)
  ultimately show ?thesis using executor_once [OF inv] by blast
qed

section \<open>Storage\<close>

text \<open>C20. A snapshot is read back as it was written: for instants whose text is parsed back and grants
  whose text is, the reader of a stored document restores the revision and every component of the
  state, the two sets in sorted order.\<close>

theorem snapshot_roundtrip:
  assumes "\<And>t. w_instant w (w_stamp w t) = t" and "tasks_keep (sc_texts cfg) s"
  shows "read_snapshot w cfg (snapshot w cfg n s)
    = Some (n, s\<lparr>cs_revoked := sort (cs_revoked s), cs_suspended := sort (cs_suspended s)\<rparr>)"
  unfolding read_snapshot_def snapshot_def
  using snapshot_round [OF assms] by (simp add: settled_def)

theorem snapshot_roundtrip_witness:
  "read_snapshot exact_world (demo_config ''k1'' 0) (snapshot exact_world (demo_config ''k1'' 0) 7 (demo_registered demo_draft))
    = Some (7, demo_registered demo_draft)"
proof -
  have "w_instant exact_world (w_stamp exact_world t) = t" for t
    using exact_world_sound by (simp add: sound_world_def)
  from snapshot_roundtrip [OF this demo_texts_keep] show ?thesis
    by (simp add: demo_registered_frame)
qed

text \<open>C21. A transaction is atomic and durable: when it fails, whatever its body did, the stored row is
  the one before; when it succeeds, the row it commits opens to exactly the state the body produced
  from the opened and pruned one, pruned again, under the next revision, and within every quota.\<close>

theorem transaction_atomic:
  assumes "transaction w cfg now body au = (r, au')" and "sound_world w" and "tasks_keep (sc_texts cfg) (au_state au')"
  shows "(\<forall>e. r = Inl e \<longrightarrow> au_row au' = au_row au)
    \<and> (\<forall>v. r = Inr v \<longrightarrow> (\<exists>n s s'. open_row w cfg False au = Inr (n, s) \<and> body (pruned w now s) = (Inr v, s')
        \<and> within_quota cfg (pruned w now s')
        \<and> (\<forall>initialize. open_row w cfg initialize au' = Inr (Suc n, settled (pruned w now s')))))"
proof -
  let ?body = "\<lambda>n s. case body s of (r, s') \<Rightarrow> (r, n, s')"
  have run: "transact w cfg now False ?body au = (r, au')" using assms(1) by (simp add: transaction_def)
  show ?thesis
  proof (cases rule: transact_cases [of w cfg now False ?body au])
    case (refused e)
    then show ?thesis using run by simp
  next
    case (committed n0 s0 v n s2)
    have b: "body (pruned w now s0) = (Inr v, s2)" "n = n0"
      using committed(3) by (auto split: prod.splits)
    have "transact w cfg now False ?body au = (Inr v, au')" using run committed(6) by simp
    note transact_durable [OF this assms(2,3)]
    moreover have "au_revision au' = Suc n0" "au_state au' = pruned w now s2" "r = Inr v"
      using run unfolding committed(6) b(2) by auto
    ultimately show ?thesis using committed(1,4) b(1) by auto
  qed
qed

theorem transaction_atomic_witness:
  "\<exists>p au'. transaction exact_world (demo_config ''k1'' demo_limit) 5
      (create_draft exact_world (demo_draws 1 ''id1'') ''acme'' (demo_actor ''ann'' ADMIN) demo_draft) demo_store = (Inr p, au')
    \<and> (\<exists>s'. open_row exact_world (demo_config ''k1'' demo_limit) False au' = Inr (1, settled s'))"
proof -
  obtain p au' where run: "transaction exact_world (demo_config ''k1'' demo_limit) 5
      (create_draft exact_world (demo_draws 1 ''id1'') ''acme'' (demo_actor ''ann'' ADMIN) demo_draft) demo_store = (Inr p, au')"
    and au': "au_state au' = demo_drafted" using demo_commits by blast
  have "tasks_keep (sc_texts (demo_config ''k1'' demo_limit)) (au_state au')"
    by (simp add: au' demo_drafted_frame tasks_keep_def)
  from transaction_atomic [OF run exact_world_sound this] obtain n s s' where
    "open_row exact_world (demo_config ''k1'' demo_limit) False demo_store = Inr (n, s)"
    "open_row exact_world (demo_config ''k1'' demo_limit) False au' = Inr (Suc n, settled (pruned exact_world 5 s'))" by blast
  with run show ?thesis by (auto simp: demo_store_opens)
qed

text \<open>Rotating the signing key fences everything issued under the old one: the new store opens to
  the same policies, audit trails and registrations, but holds no grant, no review and no receipt, and
  the epoch of every tenant has advanced; only an administrator of every tenant with policies may rotate.\<close>

lemma rotation_fences:
  assumes "rekey w w' cfg cfg' now exists_ok a au = (Inr copy, au')" and "sound_world w'"
    and "w_stamp w' = w_stamp w" and "open_row w cfg False au = Inr (n, s)"
    and "tasks_keep (sc_texts cfg') s" and "sc_texts cfg' = sc_texts cfg"
  shows "\<exists>n' s'. open_row w' cfg' False copy = Inr (n', s')
    \<and> cs_policies s' = cs_policies s \<and> cs_audits s' = cs_audits s \<and> cs_tasks s' = cs_tasks s
    \<and> set (cs_revoked s') = set (cs_revoked s)
    \<and> cs_issued s' = [] \<and> cs_reviews s' = [] \<and> cs_receipts s' = []
    \<and> (\<forall>t e. map_of (cs_epochs s) t = Some e \<longrightarrow> map_of (cs_epochs s') t = Some (e + 1))
    \<and> (\<forall>t\<in>set (dict_keys (cs_policies s)). t \<in> set (ac_tenants a) \<and> ADMIN \<in> set (ac_roles a))
    \<and> au_row au' \<noteq> None"
proof -
  let ?p = "pruned w now s" and ?body = "\<lambda>n s. case require_all a (dict_keys (cs_policies s)) s of
            Inl e \<Rightarrow> (Inl e, n, s)
          | Inr _ \<Rightarrow>
              (case replacement_store w w' cfg' now n s of (Inl e, _) \<Rightarrow> (Inl e, n, s) | (Inr _, copy) \<Rightarrow> (Inr copy, n, s))"
  have run: "transact w cfg now False ?body au = (Inr copy, au')"
    using assms(1) by (simp add: rekey_def split: if_split_asm)
  obtain s2 m where body: "?body n ?p = (Inr copy, m, s2)" and row: "au_row au' \<noteq> None"
  proof (cases rule: transact_cases [of w cfg now False ?body au])
    case (refused e)
    then show ?thesis using run by simp
  next
    case (committed n0 s0 v n2 s2)
    have eq: "n0 = n" "s0 = s" using committed(1) assms(4) by simp_all
    have res: "v = copy" "au_row au' \<noteq> None" using run unfolding committed(6) by auto
    have "?body n ?p = (Inr v, n2, s2)" using committed(3) unfolding eq .
    then show ?thesis unfolding res(1) by (rule that) (rule res(2))
  qed
  have admin: "require_all a (dict_keys (cs_policies ?p)) ?p = Inr ()"
    and copied: "replacement_store w w' cfg' now n ?p = (Inr (), copy)"
    using body by (auto split: sum.splits prod.splits)
  obtain au1 where second: "transact w' cfg' now False
         (\<lambda>n0 s0. case read_snapshot w' cfg' (snapshot w cfg' n (rekeyed ?p)) of
            None \<Rightarrow> (Inl (ValueError ''unsupported authority storage schema''), n0, s0)
          | Some (n', s') \<Rightarrow> (Inr (), n', s')) au1 = (Inr (), copy)"
    using copied unfolding replacement_store_def by (rule andthen_ok)
  have keep: "tasks_keep (sc_texts cfg') (rekeyed ?p)" using assms(5) by (simp add: tasks_keep_def rekeyed_def)
  have "read_snapshot w' cfg' (snapshot w cfg' n (rekeyed ?p)) = Some (n, settled (rekeyed ?p))"
    unfolding read_snapshot_def snapshot_def
    using snapshot_round [OF _ keep] assms(2,3) by (simp add: sound_world_def)
  with second have second': "transact w' cfg' now False (\<lambda>n0 s0. (Inr (), n, settled (rekeyed ?p))) au1 = (Inr (), copy)"
    by simp
  have state: "au_state copy = pruned w' now (settled (rekeyed ?p))"
    by (cases rule: transact_cases [of w' cfg' now False "\<lambda>n0 s0. (Inr (), n, settled (rekeyed ?p))" au1])
       (use second' in auto)
  have "tasks_keep (sc_texts cfg') (au_state copy)" using keep by (simp add: state tasks_keep_def)
  note opened = transact_durable [OF second' assms(2) this, of False]
  have "\<forall>t e. map_of (cs_epochs s) t = Some e \<longrightarrow> map_of (cs_epochs (settled (au_state copy))) t = Some (e + 1)"
    by (simp add: state rekeyed_def map_of_map [of Suc])
  moreover have "\<forall>t\<in>set (dict_keys (cs_policies s)). t \<in> set (ac_tenants a) \<and> ADMIN \<in> set (ac_roles a)"
    using require_all_ok [OF admin] by (auto simp: require_ok)
  ultimately show ?thesis using opened row
    by (intro exI [of _ "au_revision copy"] exI [of _ "settled (au_state copy)"]) (simp add: state, simp add: rekeyed_def pruned_def settled_def)
qed

lemma rotation_fences_witness:
  "\<exists>copy au'. rekey exact_world exact_world (demo_config ''k1'' demo_limit) (demo_config ''k2'' demo_limit) 5 False
      (demo_actor ''ann'' ADMIN) demo_store = (Inr copy, au')
    \<and> (\<exists>n s. open_row exact_world (demo_config ''k2'' demo_limit) False copy = Inr (n, s) \<and> cs_issued s = [])"
proof -
  obtain copy au' where run: "rekey exact_world exact_world (demo_config ''k1'' demo_limit) (demo_config ''k2'' demo_limit) 5
      False (demo_actor ''ann'' ADMIN) demo_store = (Inr copy, au')"
    using demo_rekeys by blast
  have "tasks_keep (sc_texts (demo_config ''k2'' demo_limit)) empty_control"
    "sc_texts (demo_config ''k2'' demo_limit) = sc_texts (demo_config ''k1'' demo_limit)"
    by (simp_all add: tasks_keep_def empty_control_def demo_config_def)
  from rotation_fences [OF run exact_world_sound refl demo_store_opens this] run show ?thesis by blast
qed

section \<open>Admission of requests and documents\<close>

text \<open>C22. The admission gate keeps its budgets in every state it reaches: no credential is admitted more
  often than its budget in any window of a minute, at most the allowed number of requests is in flight,
  and the table of credentials stays bounded.\<close>

theorem admission_rate:
  assumes "reached (gate_step l) \<lparr>gr_gate = empty_gate, gr_log = [], gr_now = t0\<rparr> r"
  shows "length (in_window t (times_of (gr_log r) k)) \<le> rl_per_minute l
    \<and> gt_inflight (gr_gate r) \<le> rl_max_inflight l \<and> length (gt_buckets (gr_gate r)) \<le> rl_max_principals l"
proof -
  have inv: "gate_inv l r" by (rule gate.reached_inv [OF assms gate_inv_empty])
  then have "credential_ok l (gr_now r) (times_of (gr_log r) k) (bucket_of (gt_buckets (gr_gate r)) k)"
    unfolding gate_inv_def by blast
  with inv show ?thesis unfolding gate_inv_def credential_ok_def by blast
qed

theorem admission_rate_witness:
  "length (in_window 9 (times_of [((''zoe'', None), 1)] (''zoe'', None))) \<le> rl_per_minute demo_limits"
proof -
  have "gate_step demo_limits \<lparr>gr_gate = empty_gate, gr_log = [], gr_now = 0\<rparr>
      \<lparr>gr_gate = demo_gate, gr_log = [((''zoe'', None), 1)], gr_now = 1\<rparr>"
    using step_arrive [of "\<lparr>gr_gate = empty_gate, gr_log = [], gr_now = 0\<rparr>" 1 demo_limits "Some (''zoe'', None)" Admitted demo_gate]
    by (simp add: demo_arrives)
  then have "reached (gate_step demo_limits) \<lparr>gr_gate = empty_gate, gr_log = [], gr_now = 0\<rparr>
      \<lparr>gr_gate = demo_gate, gr_log = [((''zoe'', None), 1)], gr_now = 1\<rparr>"
    by (rule reached_one)
  from admission_rate [OF this] show ?thesis by simp
qed

text \<open>C23. The JSON budget is exact: a value is accepted exactly when it serialises within the byte
  budget, holds at most the allowed number of values and is nested at most the allowed depth; the
  iterative walk, which stops early, agrees with the structural measures.\<close>

theorem json_budget_exact:
  "validate_json v max_bytes max_nodes max_depth = Inr () \<longleftrightarrow>
     json_nodes v \<le> max_nodes \<and> json_depth v \<le> max_depth
     \<and> (\<exists>t. dumps v = Some t \<and> length t \<le> max_bytes)"
  using walk_accepts [of max_nodes max_depth "[(v, 0)]" 0]
  by (auto simp: validate_json_def item_fits_def not_less split: sum.splits option.splits)

section \<open>The LLM supervisor\<close>

text \<open>C24. The LLM supervisor allows a call exactly when the deterministic guard permits it (no
  repeated mutation, and unless the guard is off in research mode, the authority check or the
  compiled strict grant accepts it) and the provider's validated answer to the request is an ALLOW
  of sufficient confidence, low or medium risk, neither unrelated to the goal nor unnecessary.\<close>

theorem llm_allow_decides:
  "(\<exists>out s'. llm_evaluate w dg (backend_evaluate w b) goal call obs s = (Inr out, s') \<and> so_decision out = ALLOW) \<longleftrightarrow>
   guard_permits w dg s goal call obs \<and> in_unit (ls_threshold s)
   \<and> (\<exists>r. backend_evaluate w b (build_request s goal call obs) = Inr r \<and> sanctioned s r)"
  by (rule backend.allow_iff) (rule refl)

text \<open>C25. The LLM supervisor fails closed, whatever the provider does: a denial of the guard is
  returned as it is, without asking the provider; a threshold out of range raises and leaves the
  state; and when the provider raises any exception the call is escalated at high risk and the
  error is logged.\<close>

theorem llm_fails_closed:
  assumes "deterministic_output w dg s goal call obs = Inr det"
  shows "if so_decision det \<noteq> ALLOW
     then llm_evaluate w dg provide goal call obs s = llm_evaluate w dg provide' goal call obs s
       \<and> fst (llm_evaluate w dg provide goal call obs s) = Inr det
       \<and> map_option el_called (ls_log (snd (llm_evaluate w dg provide goal call obs s))) = Some False
     else if \<not> in_unit (ls_threshold s)
     then \<exists>m. llm_evaluate w dg provide goal call obs s = (Inl (ValueError m), s)
     else case provide (build_request s goal call obs) of
       Inr _ \<Rightarrow> True
     | Inl e \<Rightarrow>
         if is_exception e
         then \<exists>out. fst (llm_evaluate w dg provide goal call obs s) = Inr out \<and> so_decision out = ESCALATE
           \<and> so_risk out = HIGH \<and> so_rewritten out = None
           \<and> map_option el_error (ls_log (snd (llm_evaluate w dg provide goal call obs s)))
               = Some (Some (''provider evaluation failed; used fallback decision: '' @ exn_text e))
         else llm_evaluate w dg provide goal call obs s = (Inl e, s)"
  using deterministic_output_cases [OF assms]
  by (auto simp: llm_evaluate_def assms make_request_def consult_def failure_output_def record_log_def
      split: sum.split)

theorem llm_fails_closed_witness:
  "\<exists>out. fst (llm_evaluate demo_wire demo_digests (\<lambda>_. Inl (SupervisorTransportError ''down'' False)) ''pay'' demo_call []
      demo_supervisor) = Inr out \<and> so_decision out = ESCALATE \<and> so_risk out = HIGH"
proof -
  obtain det where det: "deterministic_output demo_wire demo_digests demo_supervisor ''pay'' demo_call [] = Inr det"
    and "so_decision det = ALLOW" by (rule demo_guard_output)
  with llm_fails_closed [OF det, where provide = "\<lambda>_. Inl (SupervisorTransportError ''down'' False)"] demo_threshold
  show ?thesis by auto
qed

text \<open>A rewrite of the LLM supervisor is safe to put in the call's place: rewriting was enabled
  and the step not rewritten before, the original was permitted by the guard, the replacement
  narrows the original, passes the authority check itself, and its arguments satisfy the schema of
  its tool.\<close>

lemma llm_rewrite_narrows:
  assumes "llm_evaluate w dg (backend_evaluate w b) goal call obs s = (Inr out, s')"
    and "so_decision out = REWRITE"
  shows "ls_enable_rewrite s \<and> \<not> ls_rewritten s \<and> guard_permits w dg s goal call obs
    \<and> (\<exists>c schema. so_rewritten out = Some c \<and> narrows call c
        \<and> check_authority goal c obs (ls_authority s) [] = None
        \<and> map_of (ls_tools s) (tc_tool_name c) = Some schema
        \<and> validate_arguments (wr_schema_ok w) (tc_arguments c) schema = Inr ())"
  using backend.rewrite_kept [OF assms(1) refl assms(2)] by metis

lemma llm_rewrite_narrows_witness:
  "\<exists>out s'. llm_evaluate demo_wire demo_digests (backend_evaluate demo_wire (demo_backend demo_rewriting)) ''pay''
      demo_call [] demo_supervisor = (Inr out, s')
    \<and> (\<exists>c. so_rewritten out = Some c \<and> narrows demo_call c)"
proof -
  obtain det where det: "deterministic_output demo_wire demo_digests demo_supervisor ''pay'' demo_call [] = Inr det"
    and a: "so_decision det = ALLOW" by (rule demo_guard_output)
  have "\<not> below_threshold demo_supervisor demo_rewrite \<and> sr_decision demo_rewrite = REWRITE" by code_simp
  with backend.evaluate_permitted [OF det a demo_threshold demo_rewrites refl] obtain out s' where
    run: "llm_evaluate demo_wire demo_digests (backend_evaluate demo_wire (demo_backend demo_rewriting)) ''pay''
      demo_call [] demo_supervisor = (Inr out, s')" and rw: "so_decision out = REWRITE" by metis
  from llm_rewrite_narrows [OF run rw] run show ?thesis by blast
qed

text \<open>The retries of a provider end: an evaluation asks the transport at most once more than the
  configured number of retries, asks again only after a transport error marked retryable, always
  with the same payload, and gives up with such an error only when the retries are used up;
  the result is the one of the last round.\<close>

lemma ollama_retries_end:
  assumes "\<not> twice_rewritten q"
  shows "\<exists>k. int k \<le> max 0 (ol_retries o1)
    \<and> list_all (\<lambda>i. asks_retry (transport i (ollama_payload w o1 q))) [0..<k]
    \<and> ollama_evaluate w o1 transport lo q = ollama_round w o1 transport q k lo
    \<and> (if asks_retry (transport k (ollama_payload w o1 q)) then ol_retries o1 \<le> int k else True)"
proof (rule ollama_asked [OF assms, of o1 transport w lo])
  fix k
  assume "int k \<le> max 0 (ol_retries o1)" and "\<forall>i<k. asks_retry (transport i (ollama_payload w o1 q))"
    and "ollama_evaluate w o1 transport lo q = ollama_round w o1 transport q k lo"
    and "asks_retry (transport k (ollama_payload w o1 q)) \<Longrightarrow> ol_retries o1 \<le> int k"
  then show ?thesis by (intro exI [of _ k]) (simp add: list_all_iff)
qed

lemma ollama_retries_end_witness:
  "\<exists>k\<le>2. ollama_evaluate demo_wire demo_ollama (\<lambda>_ _. post_chat ChatTimeout) demo_local
      (build_request demo_supervisor ''pay'' demo_call [])
    = ollama_round demo_wire demo_ollama (\<lambda>_ _. post_chat ChatTimeout)
        (build_request demo_supervisor ''pay'' demo_call []) k demo_local"
proof -
  have "ol_retries demo_ollama = 2" by (simp add: demo_ollama_def)
  with ollama_retries_end [OF demo_request_fresh, of demo_ollama "\<lambda>_ _. post_chat ChatTimeout" demo_wire "''pay''" demo_call "[]" demo_local]
  show ?thesis by auto
qed

text \<open>C26. No value under a sensitive key leaves in a request to a provider: at every depth of the
  redacted request such a key holds an opaque label of that request, or the empty string.\<close>

theorem request_sealed:
  "sealed (rd_replacement (mandatory_redaction config)) (redact_request config value)"
  by (rule redact_request_sealed)

section \<open>Files and publication\<close>

text \<open>C27. A confined read returns exactly the bytes of one regular file below its root, reached by no
  symbolic link and with no other name, whose reported size and content are both within the
  limit; anything else is refused.\<close>

theorem confined_read_exact:
  assumes "is_dir (Some fs)"
  shows "read_confined base raw mx fs = Inr c \<longleftrightarrow>
    (\<exists>parts sz. confined_parts raw = Inr parts \<and> walk_to fs (base @ parts) = Some (File 1 sz c)
       \<and> sz \<le> mx \<and> length c \<le> mx)"
  by (rule read_confined_iff [OF assms])

theorem confined_read_exact_witness:
  "read_confined [''s'', ''quarantine'', ''x'', ''files''] ''./n.txt'' 9 (note_store ''n.txt'') = Inr ''ok''"
  by (subst confined_read_exact [OF note_unpublished(1)]) (simp add: respelled_evaluates(2) note_store_def)

text \<open>A confined write changes one object at most: every other file, link or special object of
  the tree stays as it is and every directory stays one; when it succeeds the object at the path is
  an unaliased file with exactly the content.\<close>

lemma confined_write_local:
  assumes "is_dir (Some fs)" and "write_confined fresh_id base raw content fs = (r, fs')"
  shows "case r of
      Inl e \<Rightarrow> keeps {} fs fs'
    | Inr _ \<Rightarrow> \<exists>parts. confined_parts raw = Inr parts \<and> keeps {base @ parts} fs fs'
        \<and> walk_to fs' (base @ parts)
            = (if last parts = temporary_name fresh_id then None else Some (File 1 (length content) content))"
  by (rule write_confined_ok [OF assms])

lemma confined_write_local_witness:
  "\<exists>fs'. write_confined ''u'' [''s''] ''manifest.json'' ''new'' (note_store ''n.txt'') = (Inr (), fs')
    \<and> leaf fs' [''s'', ''quarantine'', ''x'', ''files'', ''n.txt''] = Some (File 1 2 ''ok'')"
proof -
  obtain fs' where w: "write_confined ''u'' [''s''] ''manifest.json'' ''new'' (note_store ''n.txt'') = (Inr (), fs')"
    by (simp add: tree_run note_store_def)
  from confined_write_local [OF note_unpublished(1) w]
  have "keeps {[''s'', ''manifest.json'']} (note_store ''n.txt'') fs'" by (simp add: names_evaluate)
  from keeps_leaf [OF this, of "[''s'', ''quarantine'', ''x'', ''files'', ''n.txt'']"] w show ?thesis
    by (simp add: note_store_def leaf_def)
qed

text \<open>A confined copy is faithful and bounded: what it produces is the tree at the path, made of
  directories and unaliased regular files none of which is prohibited or too deep, and its entries
  and bytes were within what the budget had left.\<close>

lemma copy_bounded:
  assumes "is_dir (Some fs)" and "copy_confined env base raw b fs = (Inr c, b')"
  shows "\<exists>parts n. confined_parts raw = Inr parts \<and> walk_to fs (base @ parts) = Some n \<and> c = clone n
    \<and> copyable env (cb_max_depth b) (join_names parts) (length parts) n
    \<and> cb_entries b + tree_entries n \<le> cb_max_entries b \<and> cb_bytes b + tree_bytes n \<le> cb_max_bytes b"
  using copy_confined_ok [OF assms] by (metis copy_within_def spent_by_def)

lemma copy_bounded_witness:
  "\<exists>c b'. copy_confined (st_copy (note_env True)) [''s'', ''quarantine'', ''x'', ''files''] ''n.txt''
      (default_budget\<lparr>cb_max_bytes := 3\<rparr>) (note_store ''n.txt'') = (Inr c, b') \<and> c = File 1 2 ''ok''"
proof -
  obtain c b' where r: "copy_confined (st_copy (note_env True)) [''s'', ''quarantine'', ''x'', ''files''] ''n.txt''
      (default_budget\<lparr>cb_max_bytes := 3\<rparr>) (note_store ''n.txt'') = (Inr c, b')"
    by (simp add: copy_confined_def note_evaluates note_store_def converted_def enter_object_def check_budget_def
        note_env_def default_budget_def copy_regular_def copy_chunks.simps)
  from copy_bounded [OF note_unpublished(1) r] r show ?thesis
    by (auto simp: note_evaluates note_store_def)
qed

text \<open>C28. The release gate lets content through a sink exactly when the sink and the label are
  approved, its bytes are within the budget, it holds no protected literal as it is or as the text
  of the value it parses to, that value is within the structural budget, and redaction finds no
  credential in it; it then returns the content unchanged.\<close>

theorem release_gate_decides:
  "authorize g sink content label = Inr c \<longleftrightarrow> releasable g sink label content \<and> c = content"
  by (rule authorize_iff)

text \<open>C29. A release publishes approved content only: whatever it leaves visible under an identity that
  was not published, however it ends, is the commit record or the content of a quarantined file at
  the same path when it began, listed in the manifest with its digest, of an approved format and
  releasable by the gate.\<close>

theorem release_publishes_approved:
  assumes "is_dir (Some fs)" and "release env base gate label identity fs = (r, fs')"
    and "\<not> published base identity fs" and "leaf fs' (released_dir base @ identity # q) = Some n"
  shows "\<exists>m files. quarantined_manifest base identity fs m \<and> map_of m ''files'' = Some (JObj files)
    \<and> (approved env gate label (private_dir base @ [identity, ''files'']) fs files q n
       \<or> q = [commit_name] \<and> (\<exists>t. n = File 1 (length t) t))"
  using release_safe [OF assms] by (simp add: released_right_def bundle_object_def)

theorem release_publishes_approved_witness:
  "releasable note_gate ''artifact'' ''public'' ''ok''"
proof -
  have l: "leaf (note_released True ''n.txt'') (released_dir [''s''] @ ''x'' # [''n.txt'']) = Some (File 1 2 ''ok'')"
    using note_published(2) by (simp add: released_dir_def)
  have r: "release (note_env True) [''s''] note_gate ''public'' ''x'' (note_store ''n.txt'')
      = (Inr [''s'', ''released'', ''x''], note_released True ''n.txt'')"
    using note_run [of "''n.txt''" True] by simp
  from release_publishes_approved [OF note_unpublished(1) r note_unpublished(2) l] show ?thesis
    by (auto simp: approved_def commit_name_def)
qed

text \<open>C30. Publication is final: along any sequence of ingestions, rejections and releases, under any
  gates and with any faults of the operating system, what is published stays published and every
  object of it stays as it is.\<close>

theorem publication_final:
  assumes "(store_step base G)\<^sup>*\<^sup>* fs fs'" and "is_dir (Some fs)" and "published base i fs"
  shows "published base i fs' \<and> leaf fs' (released_dir base @ i # q) = leaf fs (released_dir base @ i # q)"
  using store_final [OF assms] by blast

theorem publication_final_witness:
  "leaf (snd (reject (note_env True) [''s''] ''x'' (note_released True ''n.txt''))) [''s'', ''released'', ''x'', ''n.txt'']
    = Some (File 1 2 ''ok'')"
proof -
  note r = note_rejected [of True]
  have s: "(store_step [''s''] {})\<^sup>*\<^sup>* (note_released True ''n.txt'') (note_released True ''n.txt'')"
    by (rule r_into_rtranclp, rule store_step.rejected [OF r])
  have d: "is_dir (Some (note_released True ''n.txt''))" by (simp add: note_released_def)
  from publication_final [OF s d note_published(1), of "[''n.txt'']"] r note_published(2) show ?thesis
    by (simp add: released_dir_def)
qed

text \<open>A consumer may trust a bundle that verifies: in a tree of proper names, each object under
  the identity is an unaliased file, the commit record or one that the verified manifest lists under
  its own path with its own digest.\<close>

lemma committed_bundle_sound:
  assumes "is_dir (Some fs)" and "committed sha durable base identity fs = Inr m"
    and "\<And>p n. walk_to fs (released_dir base @ identity # p) = Some n \<Longrightarrow> list_all proper p"
    and "leaf fs (released_dir base @ identity # q) = Some n"
  shows "\<exists>sz ct. n = File 1 sz ct \<and>
    (q = [commit_name] \<or> (join_names q, JStr (sha ct)) \<in> set (json_sub (jget m ''files'')))"
  by (rule committed_sound [OF assms])

lemma committed_bundle_sound_witness:
  "(''n.txt'', JStr (st_sha (note_env True) ''ok'')) \<in> set (json_sub (jget (sorted_commit ''n.txt'') ''files''))"
proof -
  have d: "is_dir (Some (note_released True ''n.txt''))" by (simp add: note_released_def)
  have l: "leaf (note_released True ''n.txt'') (released_dir [''s''] @ ''x'' # [''n.txt'']) = Some (File 1 2 ''ok'')"
    using note_published(2) by (simp add: released_dir_def)
  have p: "list_all proper p" if "walk_to (note_released True ''n.txt'') (released_dir [''s''] @ ''x'' # p) = Some n" for p n
    using note_proper [of True p n] that by (simp add: released_dir_def)
  from committed_bundle_sound [OF d note_committed p l] show ?thesis
    by (auto simp: commit_name_def join_names_def)
qed

text \<open>A release reports what happened: when it made the bundle visible, the caller is told of an
  unknown publication if the rename reported an error or the directories could not be synced, and
  otherwise the destination is returned unless the private mirror could not be written.\<close>

lemma release_outcome:
  assumes "is_dir (Some fs)" and "release env base gate label identity fs = (r, fs')"
    and "\<not> published base identity fs" and "published base identity fs'"
  shows "if st_rename env \<noteq> Renamed \<or> \<not> st_public_synced env then \<exists>msg. r = Inl (PublicationUnknown msg)
     else if \<not> st_mirror_written env then r = Inl alias_error
     else case r of Inr d \<Rightarrow> d = released_dir base @ [identity] | Inl e \<Rightarrow> \<not> is_os_error e"
  using release_reports [OF assms] unfolding release_result_def destination_of_def .

lemma release_outcome_witness:
  "fst (release (note_env False) [''s''] note_gate ''public'' ''x'' (note_store ''n.txt'')) = Inl alias_error"
proof -
  have r: "release (note_env False) [''s''] note_gate ''public'' ''x'' (note_store ''n.txt'')
      = (Inl alias_error, note_released False ''n.txt'')"
    using note_run [of "''n.txt''" False] by simp
  from release_outcome [OF note_unpublished(1) r note_unpublished(2) note_published(1)] show ?thesis
    unfolding note_env_fields r by simp
qed

section \<open>Tools, sandbox and client\<close>

text \<open>C31. Under a configuration that loads, a plan runs contained or not at all: the image is pinned by
  digest, and the commands the runner hands to Docker are at most the two checks, unless the plan
  was validated, its profile is enabled without network and the checks passed; then they are the
  checks, one launch with every hardening flag, the profile's limits and the pinned image, further
  commands inside that container only, and last its removal. The monitor threads, however they are
  scheduled, hand over nothing but the two sampling commands, of this container only after the
  checks and only with the default executor, or of a container an earlier run still watches.\<close>

theorem sandbox_launch:
  assumes "new_runner read_fields contents workspace artifacts = Inr rn"
    and "execute_plan env rn plan b = (r, b')"
  shows "re_fullmatch pinned_image_re (sx_image (rn_config rn))
    \<and> (\<exists>cs. bx_calls b' = bx_calls b @ cs \<and> permitted_commands env rn plan b cs
         \<and> (\<forall>p. profile_of rn (pl_profile plan) = Inr p \<longrightarrow> sp_enabled p \<and> sp_network p = ''none''))"
proof -
  have "sp_enabled p \<and> sp_network p = ''none''" if "profile_of rn (pl_profile plan) = Inr p" for p
    using that by (auto simp: profile_of_def split: option.splits if_splits)
  then show ?thesis
    using execute_plan_calls [OF assms(2)] assms(1)
    by (auto simp: new_runner_def trusted_config_def dest!: load_trusted split: sum.splits)
qed

theorem sandbox_launch_witness:
  "re_fullmatch pinned_image_re box_image
    \<and> permitted_commands box_env box_runner box_plan box_before
        [version_command, inspect_command box_image, stats_command ''traceguard-1'', size_command ''traceguard-1'',
         box_launched, stats_command ''traceguard-1'', size_command ''traceguard-1'', cleanup_command ''traceguard-1'']"
proof -
  have n: "new_runner (\<lambda>_. Some box_config) (Inr ''null'') [''w''] [''a''] = Inr box_runner"
    by (simp add: new_runner_def box_config_loads box_runner_def)
  have "sx_image (rn_config box_runner) = box_image" by (simp add: box_runner_def box_config_def)
  with sandbox_launch [OF n box_runs] show ?thesis by (simp add: box_end_def box_before_def)
qed

text \<open>C32. Whatever a container run does, fails at or returns, the files of the host outside its
  temporary directory and the private artifacts are as they were, and the temporary directory is
  gone.\<close>

theorem sandbox_host:
  assumes "execute_plan env rn plan b = (r, b')" and "is_dir (Some (bx_tree b))" and "dk_temp env \<noteq> []"
    and "\<not> prefix (private_dir (rn_artifacts rn)) (dk_temp env)" and "walk_to (bx_tree b) (dk_temp env) = None"
  shows "keeps (host_area env rn) (bx_tree b) (bx_tree b') \<and> walk_to (bx_tree b') (dk_temp env) = None"
  using execute_plan_host [OF assms(1-4)] assms(5) by blast

theorem sandbox_host_witness:
  "keeps (host_area box_env box_runner) (bx_tree box_before) (bx_tree box_end) \<and> walk_to (bx_tree box_end) [''t''] = None"
proof -
  have t: "dk_temp box_env = [''t'']" by (simp add: box_env_def)
  have "\<not> prefix (private_dir (rn_artifacts box_runner)) [''t'']" by (simp add: private_dir_def box_runner_def)
  with sandbox_host [OF box_runs, unfolded t] show ?thesis by (simp add: box_before_def)
qed

text \<open>A run reports bounded evidence.\<close>

lemma sandbox_evidence:
  "execute_plan env rn plan b = (Inr ev, b') \<Longrightarrow>
   \<exists>p. profile_of rn (pl_profile plan) = Inr p \<and> evidence_bounded p (container_name env) ev"
  by (rule execute_plan_evidence)

text \<open>C33. Draining the output of a command ends once the clock reaches the deadline, whatever the
  pipes deliver, and what it keeps of a stream is its first bytes, at most one beyond the limit: all
  of both prefixes when both pipes closed, and no more than them after a timeout.\<close>

theorem bounded_command_ends:
  assumes "deadline \<le> tn_now (turns k)"
  shows "\<exists>reply m. run_bounded_command message limit deadline turns exit = Some reply
    \<and> reply_holds limit (events_from turns 0 m) reply"
  by (rule run_bounded_command_ends, rule assms)

theorem bounded_command_ends_witness:
  "\<exists>reply m. run_bounded_command ''late'' 1 1 (\<lambda>n. \<lparr>tn_now = of_nat n, tn_events = [(True, Chunk ''abc'')]\<rparr>) None = Some reply
    \<and> reply_holds 1 (events_from (\<lambda>n. \<lparr>tn_now = of_nat n, tn_events = [(True, Chunk ''abc'')]\<rparr>) 0 m) reply"
  by (rule bounded_command_ends [where k = 1]) simp

text \<open>C34. The calculator is exact and bounded: an expression evaluates to a number exactly when it
  parses to at most sixty-four nodes whose value is that number: literals worth themselves, sums,
  differences, products and quotients rounded to a double, remainders with the sign of the divisor,
  powers of a base up to 1000 by an exponent up to 8, and every literal, every result and so the
  number itself within a million million.\<close>

theorem calculator_exact:
  "evaluate_expression env input = Inr v \<longleftrightarrow>
     (\<exists>e. ca_parse env input = Inr e \<and> nodes_of e \<le> 64 \<and> computes env e v \<and> \<bar>v\<bar> \<le> 1000000000000)"
  using evaluate_ok [of env input v] computes_bounded [of env _ v] by blast

text \<open>C35. A call of a default tool changes nothing but one report: the tree of the host is as before,
  or the call is a report within the size limit; then a failed call leaves every object, and a
  successful one changes only the file at the confined path under the artifacts, which holds exactly
  the content.\<close>

theorem tool_effects:
  assumes "is_dir (Some fs)" and "default_registry env workspace artifacts = Inr reg"
    and "execute_tool env reg call fs = (r, fs')"
  shows "fs' = fs \<or> tc_tool_name call = ''write_report'' \<and> reports env artifacts call fs r fs'"
  using assms default_registry_tools [of env workspace artifacts] execute_tool_touches by (metis sum.inject(2))

theorem tool_effects_witness:
  "\<exists>ob fs'. execute_tool tool_env0 (default_tools tool_env0 [''w''] [''a'']) report_call host_tree = (Inr ob, fs')
    \<and> reports tool_env0 [''a''] report_call host_tree (Inr ob) fs'"
proof -
  obtain ob fs' where run: "execute_tool tool_env0 (default_tools tool_env0 [''w''] [''a'']) report_call host_tree = (Inr ob, fs')"
    and new: "walk_to fs' [''a'', ''r''] = Some (File 1 2 ''hi'')" using report_written by blast
  moreover have "walk_to host_tree [''a'', ''r''] = None" by (simp add: host_tree_def)
  ultimately show ?thesis
    using tool_effects [OF host_tree_dir default_registry_tools run] by fastforce
qed

text \<open>A read returns the bytes of one unaliased file of the workspace, and so does each match of a
  search, which is never a protected object.\<close>

lemma tool_reads:
  assumes "is_dir (Some fs)" and "load_document_corpus workspace fs = Inr docs" and "(p, t) \<in> set docs"
  shows "\<not> sensitive_path p [] \<and> (\<exists>parts. confined_parts p = Inr parts \<and> workspace_file workspace fs parts t)"
  using load_corpus_ok [OF assms] by blast

text \<open>C36. The policy cache of a client never goes back: along any installs, accepted or refused, the
  bundle it holds was signed under the cache's key for its tenant, audience and credential, lives at
  most five minutes, and its epoch is never below one it held before.\<close>

theorem cache_never_back:
  assumes "reached (cache_step w) (new_cache key tenant audience service_key key_id minimum) c"
    and "reached (cache_step w) c c'"
  shows "cache_inv w c' \<and> pc_minimum c \<le> pc_minimum c'
    \<and> (case pc_bundle c' of None \<Rightarrow> True | Some b \<Rightarrow> pc_minimum c \<le> sb_epoch b \<and> sb_tenant b = tenant
         \<and> w_verify w key (bundle_body (w_stamp w) b) (sb_signature b))"
proof -
  have init: "cache_inv w (new_cache key tenant audience service_key key_id minimum)"
    by (simp add: cache_inv_def new_cache_def)
  have i: "cache_inv w c" by (rule cached.reached_inv [OF assms(1) init])
  have "cache_le (new_cache key tenant audience service_key key_id minimum) c" "cache_le c c'"
    using cached.reached_rel [OF assms(1) init] cached.reached_rel [OF assms(2) i] by auto
  then show ?thesis
    using cached.reached_inv [OF assms(2) i]
    by (auto simp: cache_inv_def cache_le_def new_cache_def bundle_signed_def bundle_scoped_def split: option.splits)
qed

theorem cache_never_back_witness:
  "cache_inv demo_world sdk_cached \<and> pc_minimum sdk_cache \<le> pc_minimum sdk_cached"
proof -
  have "cache_step demo_world sdk_cache sdk_cached" by (rule installs, rule sdk_installs)
  then have "reached (cache_step demo_world) sdk_cache sdk_cached" by (rule reached_one)
  with cache_never_back [of demo_world _ _ _ _ _ _ sdk_cache sdk_cached] reached_refl [of "cache_step demo_world" sdk_cache]
  show ?thesis unfolding sdk_cache_def by blast
qed

text \<open>C37. Deciding offline agrees with the control plane: a call the cache allows under a bundle the
  control plane issued is one it would itself have allowed in the state of the issue, by the same
  version of the policy and bound to the same action, although the bundle was narrowed to the scope
  of the credential.\<close>

theorem offline_agrees_online:
  assumes "signed_bundle w key_id t (aq_tenant a) ac ttl s = Inr b"
    and "pc_bundle c = Some b" and "cache_evaluate w now c a = Inr d"
  shows "dr_decision d = ALLOW \<and> dr_decision (policy_decision w a s) = ALLOW
    \<and> dr_policy (policy_decision w a s) = dr_policy d \<and> dr_version (policy_decision w a s) = dr_version d
    \<and> dr_digest (policy_decision w a s) = dr_digest d \<and> now < t + ttl \<and> offline_action a"
  using offline_agrees [OF assms] assms
  by (auto simp: cache_evaluate_iff cached_decision_def signed_bundle_def bundle_of_def split: sum.splits option.splits if_splits)

theorem offline_agrees_online_witness:
  "dr_decision (policy_decision demo_world sdk_action (demo_control sdk_draft)) = ALLOW"
proof -
  have "aq_tenant sdk_action = ''acme''" by (rule sdk_action_fields)
  moreover have "pc_bundle sdk_cached = Some sdk_bundle" by (simp add: sdk_cached_def)
  ultimately show ?thesis
    using offline_agrees_online [of demo_world "''k''" 10 sdk_action] sdk_issued sdk_decides by metis
qed

text \<open>C38. The client mediates: a request reaches the network only if the action built from it is
  valid and was allowed, by a decision of the control plane bound to exactly that action or, when no
  verdict came back, by the installed bundle with room left to reconcile it; and what is sent is the
  request that was decided.\<close>

theorem client_mediates:
  assumes "request_http env ident now tenant key q c = (r, c')"
  shows "cl_requests c' = cl_requests c
    \<or> (let a = http_request_action ident now tenant key q in
        valid_action a \<and> (\<exists>d. decided env now c a d \<and> dr_decision d = ALLOW)
        \<and> cl_requests c' = cl_requests c @ [(aq_operation a, ht_url q, ht_headers q, map_option JObj (ht_json q))])"
  by (rule request_http_ok [OF assms])

theorem client_mediates_witness:
  "\<exists>d. decided (sdk_env0 (Unreachable ''down'')) 30 sdk_client0 sdk_action d \<and> dr_decision d = ALLOW"
  using client_mediates [OF sdk_request_runs] by (simp add: sdk_client0_def sdk_action_def Let_def)

text \<open>The queue of offline decisions is served from its head, and keeps what was not.\<close>

lemma reconciled_in_order:
  assumes "reconcile_client env c = (r, c')"
  shows "queue_served env (cl_offline c) r (cl_offline c')
    \<and> (\<exists>sent. cl_offline c = sent @ cl_offline c' \<and> prefix (cl_sent c @ sent) (cl_sent c'))"
  using reconcile_queue_ok [OF assms [unfolded reconcile_client_def] refl] .

section \<open>The mutually authenticated endpoint\<close>

text \<open>C39. The endpoint stays within its limits, whatever its connections do and in whatever order their
  threads run: from its start, every slot is held by exactly one connection and there are at most
  sixty-four, every handshake slot by one connection in its handshake and there are at most four,
  the count of a peer is the number of connections serving it and within the peer's limit, the rate
  tables are bounded, and when no connection is left nothing is held.\<close>

theorem boundary_bounded:
  assumes "new_server l = Inr s0" and "reached (boundary_step l) s0 s"
  shows "bs_slots s = length (bs_sessions s) \<and> bs_slots s \<le> 64
    \<and> bs_handshakes s = count_phase handshaking (bs_sessions s) \<and> bs_handshakes s \<le> 4
    \<and> peer_count (bs_peers s) key = count_phase ((=) (Serving key)) (bs_sessions s)
    \<and> peer_count (bs_peers s) key \<le> lm_peer l
    \<and> length (bs_rates s) \<le> 1024 \<and> length (bs_handshake_rates s) \<le> 1024
    \<and> (bs_sessions s = [] \<longrightarrow> bs_slots s = 0 \<and> bs_handshakes s = 0 \<and> bs_peers s = [])"
proof -
  have inv: "boundary_inv l s"
    by (rule boundary.reached_inv [OF assms(2)], rule new_server_inv [OF assms(1)])
  moreover have "lm_connections l \<le> 64" "max_handshakes l \<le> 4"
    using assms(1) by (auto simp: new_server_def valid_server_def max_handshakes_def split: if_splits)
  ultimately show ?thesis
    using idle_holds_nothing [OF inv] by (elim boundary_invE) (auto simp: count_phase_def)
qed

theorem boundary_bounded_witness:
  "bs_slots served_peer = 1 \<and> bs_handshakes served_peer = 0 \<and> peer_count (bs_peers served_peer) (''a'', None) \<le> 1"
proof -
  from boundary_bounded [OF boundary_starts serves_peer, of "(''a'', None)"]
  show ?thesis by (simp add: served_peer_def boundary_limits_def count_phase_def)
qed

text \<open>C40. A POST reaches the service only as an identity of the registry: the state changes, or the
  reply is a success, only if the dispatcher was asked once, as the actor the registry gave after
  the whole body had arrived before the deadline (the identity had resolved before any of it was
  read): one length was announced, in digits and within the budget, exactly that many bytes were
  read, the payload is their JSON and within its own budget; and a success reports what the
  dispatcher returned.\<close>

theorem post_dispatch:
  assumes "do_post p s = (r, s')"
  shows "(s' = s \<and> r \<noteq> Inr (200, v)) \<or> (\<exists>actor payload r0. asks_service p actor payload
      \<and> po_dispatch p actor (po_path p) payload s = (r0, s') \<and> (r = Inr (200, v) \<longrightarrow> r0 = Inr v))"
  by (rule do_post_ok [OF assms])

theorem post_dispatch_witness:
  "\<exists>actor payload r0. asks_service demo_post actor payload
     \<and> po_dispatch demo_post actor (po_path demo_post) payload (0::nat) = (r0, 1) \<and> r0 = Inr (JList [])"
  using post_dispatch [OF demo_post_runs, of "JList []"] by simp

text \<open>However a parser reads it, a header is at most 32768 bytes in 65 lines of at most 4096.\<close>

lemma header_bounded:
  assumes "read_header limits \<lparr>hb_rest = stream, hb_bytes = 0, hb_lines = 0\<rparr> = (Inr ls, h)"
  shows "length (concat ls) \<le> 32768 \<and> length ls \<le> 65 \<and> list_all (\<lambda>l. length l \<le> 4096) ls"
  using read_header_bounded [OF assms] by simp

end
